(* ===== verification/Prelude.thy ===== *)
theory Prelude
  imports Main
begin

text \<open>
  Shared vocabulary of the development. It holds

  \<^item> the result-and-state type of the asynchronous functions of the engine: a Rust
    \<open>async fn\<close> returning \<open>Result<A, E>\<close> that acts on some shared state is a function from the
    state to a sum (\<open>Inl\<close> the error, \<open>Inr\<close> the value) and the state it leaves behind, so an early
    return through \<open>?\<close> keeps every effect that happened before it;
  \<^item> the string operations of the Rust standard library and of Lua that the sources use
    (\<open>strip_prefix\<close>, \<open>starts_with\<close>, \<open>split_once\<close>);
  \<^item> decimal rendering and parsing of the counters kept as text in the store;
  \<^item> the \<open>named_theorems\<close> collections that carry the component proofs.
\<close>

named_theorems io_simps \<open>equations that run the result-and-state combinators\<close>
named_theorems preserve \<open>rules that derive what a computation preserves\<close>
named_theorems string_simps \<open>equations of the string operations\<close>

section \<open>Fallible computations over a state\<close>

type_synonym ('s, 'e, 'a) io = "'s \<Rightarrow> ('e + 'a) \<times> 's"

definition ret :: "'a \<Rightarrow> ('s, 'e, 'a) io" where
  "ret a s = (Inr a, s)"

definition raise :: "'e \<Rightarrow> ('s, 'e, 'a) io" where
  "raise e s = (Inl e, s)"

definition rbind :: "('s, 'e, 'a) io \<Rightarrow> ('a \<Rightarrow> ('s, 'e, 'b) io) \<Rightarrow> ('s, 'e, 'b) io" where
  "rbind m f s = (case m s of (Inl e, s') \<Rightarrow> (Inl e, s') | (Inr a, s') \<Rightarrow> f a s')"

definition map_err :: "('e \<Rightarrow> 'f) \<Rightarrow> ('s, 'e, 'a) io \<Rightarrow> ('s, 'f, 'a) io" where
  "map_err g m s = (case m s of (Inl e, s') \<Rightarrow> (Inl (g e), s') | (Inr a, s') \<Rightarrow> (Inr a, s'))"

text \<open>A result that was already computed, as \<open>?\<close> on a pure \<open>Result\<close>.\<close>

definition lift_result :: "'e + 'a \<Rightarrow> ('s, 'e, 'a) io" where
  "lift_result x s = (x, s)"

text \<open>A computation whose outcome is inspected by its caller: a \<open>match\<close> on the result.\<close>

definition attempt :: "('s, 'e, 'a) io \<Rightarrow> ('s, 'f, 'e + 'a) io" where
  "attempt m s = (case m s of (x, s') \<Rightarrow> (Inr x, s'))"

lemma ret_apply [io_simps, simp]: "ret a s = (Inr a, s)"
  by (simp add: ret_def)

lemma raise_apply [io_simps, simp]: "raise e s = (Inl e, s)"
  by (simp add: raise_def)

lemma lift_result_apply [io_simps, simp]: "lift_result x s = (x, s)"
  by (simp add: lift_result_def)

lemma attempt_apply [io_simps, simp]: "attempt m s = (Inr (fst (m s)), snd (m s))"
  by (simp add: attempt_def split: prod.splits)

lemma rbind_ret [simp]: "rbind (ret a) f = f a"
  by (rule ext) (simp add: rbind_def)

lemma rbind_ret_right [simp]: "rbind m ret = m"
  by (rule ext) (auto simp: rbind_def ret_def split: prod.splits sum.splits)

lemma rbind_raise [simp]: "rbind (raise e) f = raise e"
  by (rule ext) (simp add: rbind_def)

lemma rbind_assoc: "rbind (rbind m f) g = rbind m (\<lambda>a. rbind (f a) g)"
  by (rule ext) (auto simp: rbind_def split: prod.splits sum.splits)

lemma rbind_Inl: "m s = (Inl e, s') \<Longrightarrow> rbind m f s = (Inl e, s')"
  by (simp add: rbind_def)

lemma rbind_Inr: "m s = (Inr a, s') \<Longrightarrow> rbind m f s = f a s'"
  by (simp add: rbind_def)

lemma rbind_eq_Inr:
  "rbind m f s = (Inr b, s') \<longleftrightarrow> (\<exists>a s1. m s = (Inr a, s1) \<and> f a s1 = (Inr b, s'))"
  by (auto simp: rbind_def split: prod.splits sum.splits)

lemma map_err_eq_Inr: "map_err g m s = (Inr a, s') \<longleftrightarrow> m s = (Inr a, s')"
  by (auto simp: map_err_def split: prod.splits sum.splits)

lemma map_err_eq_Inl:
  "map_err g m s = (Inl e, s') \<longleftrightarrow> (\<exists>e'. m s = (Inl e', s') \<and> e = g e')"
  by (auto simp: map_err_def split: prod.splits sum.splits)

lemma snd_map_err [simp]: "snd (map_err g m s) = snd (m s)"
  by (auto simp: map_err_def split: prod.splits sum.splits)

text \<open>Results without a state: \<open>?\<close> between pure checks, and an early return on a failed condition.\<close>

definition and_then :: "'e + 'a \<Rightarrow> ('a \<Rightarrow> 'e + 'b) \<Rightarrow> 'e + 'b" where
  "and_then x f = (case x of Inl e \<Rightarrow> Inl e | Inr a \<Rightarrow> f a)"

definition ensure :: "bool \<Rightarrow> 'e \<Rightarrow> 'e + unit" where
  "ensure b e = (if b then Inr () else Inl e)"

definition the_default :: "'a \<Rightarrow> 'a option \<Rightarrow> 'a" where
  "the_default d x = (case x of None \<Rightarrow> d | Some a \<Rightarrow> a)"

lemma and_then_eq_Inr: "and_then x f = Inr b \<longleftrightarrow> (\<exists>a. x = Inr a \<and> f a = Inr b)"
  by (auto simp: and_then_def split: sum.splits)

lemma and_then_simps [simp]: "and_then (Inr a) f = f a" "and_then (Inl e) f = Inl e"
  by (simp_all add: and_then_def)

lemma ensure_eq_Inr [simp]: "ensure b e = Inr u \<longleftrightarrow> b"
  by (simp add: ensure_def)

text \<open>
  A computation preserves a predicate of the state when it holds in the state left behind, on success
  and on error, whenever it held before. The rules follow the shape of a program.
\<close>

definition preserves :: "('s \<Rightarrow> bool) \<Rightarrow> ('s, 'e, 'a) io \<Rightarrow> bool" where
  "preserves P m \<longleftrightarrow> (\<forall>s. P s \<longrightarrow> P (snd (m s)))"

lemma preservesI: "(\<And>s x s'. P s \<Longrightarrow> m s = (x, s') \<Longrightarrow> P s') \<Longrightarrow> preserves P m"
  by (auto simp: preserves_def) (metis prod.collapse)

lemma preservesD: "preserves P m \<Longrightarrow> P s \<Longrightarrow> m s = (x, s') \<Longrightarrow> P s'"
  by (auto simp: preserves_def)

lemma preserves_ret [preserve]: "preserves P (ret a)"
  by (simp add: preserves_def)

lemma preserves_raise [preserve]: "preserves P (raise e)"
  by (simp add: preserves_def)

lemma preserves_lift_result [preserve]: "preserves P (lift_result x)"
  by (simp add: preserves_def)

lemma preserves_map_err [preserve]: "preserves P m \<Longrightarrow> preserves P (map_err g m)"
  by (simp add: preserves_def)

lemma preserves_attempt [preserve]: "preserves P m \<Longrightarrow> preserves P (attempt m)"
  by (simp add: preserves_def)

lemma preserves_rbind [preserve]:
  assumes "preserves P m" and "\<And>a. preserves P (f a)"
  shows "preserves P (rbind m f)"
proof (rule preservesI)
  fix s x s' assume "P s" and run: "rbind m f s = (x, s')"
  obtain y s1 where m: "m s = (y, s1)" by fastforce
  with assms(1) \<open>P s\<close> have "P s1" by (rule preservesD)
  with run m assms(2) show "P s'" by (cases y) (auto simp: rbind_def intro: preservesD)
qed

lemma preserves_if [preserve]:
  "(b \<Longrightarrow> preserves P m) \<Longrightarrow> (\<not> b \<Longrightarrow> preserves P n) \<Longrightarrow> preserves P (if b then m else n)"
  by simp

lemma preserves_option [preserve]:
  "preserves P m \<Longrightarrow> (\<And>a. preserves P (f a)) \<Longrightarrow> preserves P (case x of None \<Rightarrow> m | Some a \<Rightarrow> f a)"
  by (cases x) simp_all

lemma preserves_sum [preserve]:
  "(\<And>e. preserves P (f e)) \<Longrightarrow> (\<And>a. preserves P (g a)) \<Longrightarrow> preserves P (case x of Inl e \<Rightarrow> f e | Inr a \<Rightarrow> g a)"
  by (cases x) simp_all

lemma preserves_prod [preserve]:
  "(\<And>a b. preserves P (f a b)) \<Longrightarrow> preserves P (case x of (a, b) \<Rightarrow> f a b)"
  by (cases x) simp

lemma preserves_Let [preserve]: "(\<And>a. preserves P (f a)) \<Longrightarrow> preserves P (let a = x in f a)"
  by simp

section \<open>Strings\<close>

fun strip_prefix :: "string \<Rightarrow> string \<Rightarrow> string option" where
  "strip_prefix [] s = Some s"
| "strip_prefix (p # ps) [] = None"
| "strip_prefix (p # ps) (c # cs) = (if p = c then strip_prefix ps cs else None)"

definition starts_with :: "string \<Rightarrow> string \<Rightarrow> bool" where
  "starts_with p s \<longleftrightarrow> strip_prefix p s \<noteq> None"

text \<open>\<open>split_once\<close> of the standard library: the parts before and after the first separator.\<close>

fun split_once :: "char \<Rightarrow> string \<Rightarrow> (string \<times> string) option" where
  "split_once c [] = None"
| "split_once c (x # xs) =
     (if x = c then Some ([], xs)
      else map_option (\<lambda>(a, b). (x # a, b)) (split_once c xs))"

lemma strip_prefix_append [simp, string_simps]: "strip_prefix p (p @ s) = Some s"
  by (induction p) auto

lemma strip_prefix_Some_iff: "strip_prefix p s = Some t \<longleftrightarrow> s = p @ t"
  by (induction p s rule: strip_prefix.induct) auto

lemma strip_prefix_None_iff: "strip_prefix p s = None \<longleftrightarrow> (\<forall>t. s \<noteq> p @ t)"
  by (induction p s rule: strip_prefix.induct) auto

lemma starts_with_iff: "starts_with p s \<longleftrightarrow> (\<exists>t. s = p @ t)"
  by (auto simp: starts_with_def strip_prefix_Some_iff)

lemma starts_with_append [simp, string_simps]: "starts_with p (p @ s)"
  by (auto simp: starts_with_iff)

lemma split_once_append [string_simps]:
  "c \<notin> set a \<Longrightarrow> split_once c (a @ c # b) = Some (a, b)"
  by (induction a) auto

lemma split_once_Some: "split_once c s = Some (a, b) \<longleftrightarrow> s = a @ c # b \<and> c \<notin> set a"
proof (induction s arbitrary: a)
  case Nil
  then show ?case by simp
next
  case (Cons x s)
  show ?case by (cases a) (auto simp: Cons.IH)
qed

lemma split_once_None: "split_once c s = None \<longleftrightarrow> c \<notin> set s"
  by (induction s) auto

text \<open>
  Two strings cut at their first separator are equal exactly when both parts are: the fact behind
  every \<open>{prefix}:{id}\<close> key of the store.
\<close>

lemma sep_append_inj:
  fixes c :: char
  assumes "c \<notin> set a" and "c \<notin> set a'"
  shows "a @ c # b = a' @ c # b' \<longleftrightarrow> a = a' \<and> b = b'"
proof
  assume "a @ c # b = a' @ c # b'"
  then have "split_once c (a @ c # b) = split_once c (a' @ c # b')" by simp
  with assms show "a = a' \<and> b = b'" by (simp add: split_once_append)
qed simp

section \<open>Decimal text\<close>

definition digit_char :: "nat \<Rightarrow> char" where
  "digit_char d = char_of (48 + d)"

definition char_digit :: "char \<Rightarrow> nat option" where
  "char_digit c = (let n = of_char c in if 48 \<le> n \<and> n \<le> 57 then Some (n - 48) else None)"

fun show_nat :: "nat \<Rightarrow> string" where
  "show_nat n = (if n < 10 then [digit_char n] else show_nat (n div 10) @ [digit_char (n mod 10)])"

declare show_nat.simps [simp del]

fun parse_digits :: "nat \<Rightarrow> string \<Rightarrow> nat option" where
  "parse_digits acc [] = Some acc"
| "parse_digits acc (c # cs) =
     (case char_digit c of None \<Rightarrow> None | Some d \<Rightarrow> parse_digits (10 * acc + d) cs)"

definition parse_nat :: "string \<Rightarrow> nat option" where
  "parse_nat s = (if s = [] then None else parse_digits 0 s)"

lemma char_digit_digit_char [simp]: "d < 10 \<Longrightarrow> char_digit (digit_char d) = Some d"
  by (simp add: char_digit_def digit_char_def)

lemma show_nat_not_Nil [simp]: "show_nat n \<noteq> []"
  by (subst show_nat.simps) simp

lemma parse_digits_append:
  "parse_digits acc (xs @ ys) =
     (case parse_digits acc xs of None \<Rightarrow> None | Some a \<Rightarrow> parse_digits a ys)"
  by (induction xs arbitrary: acc) (auto split: option.splits)

lemma parse_digits_show_nat: "parse_digits 0 (show_nat n) = Some n"
proof (induction n rule: show_nat.induct)
  case (1 n)
  show ?case
  proof (cases "n < 10")
    case True
    then show ?thesis by (simp add: show_nat.simps [of n])
  next
    case False
    then have ih: "parse_digits 0 (show_nat (n div 10)) = Some (n div 10)" by (rule 1)
    from False have "show_nat n = show_nat (n div 10) @ [digit_char (n mod 10)]"
      by (simp add: show_nat.simps [of n])
    with ih show ?thesis by (simp add: parse_digits_append)
  qed
qed

lemma parse_nat_show_nat [simp, string_simps]: "parse_nat (show_nat n) = Some n"
  by (simp add: parse_nat_def parse_digits_show_nat)

section \<open>Lists\<close>

lemma fold_invariant:
  assumes "\<And>x s. x \<in> set xs \<Longrightarrow> P s \<Longrightarrow> P (f x s)" and "P s"
  shows "P (fold f xs s)"
  using assms by (induction xs arbitrary: s) auto

end
