(* ===== verification/Error_Types.thy ===== *)
theory Error_Types
  imports Prelude
begin

text \<open>
  The error model of \<open>crates/bymax-auth-types/src/error.rs\<close>: the catalog of stable \<open>auth.*\<close> codes
  with their HTTP statuses and client messages, the collapse of the internal-only codes at the
  HTTP boundary (\<open>to_wire\<close>), the typed error every service raises, and the wire envelope. The
  lemmas show that the collapse is total and idempotent and that no part of a response (code,
  status, message, details) separates the codes it merges.
\<close>

section \<open>The code catalog\<close>

datatype AuthErrorCode =
    InvalidCredentials
  | AccountLocked
  | AccountInactive
  | AccountSuspended
  | AccountBanned
  | PendingApproval
  | TokenExpired
  | TokenRevoked
  | TokenInvalid
  | RefreshTokenInvalid
  | SessionNotFound
  | TokenMissing
  | EmailAlreadyExists
  | EmailNotVerified
  | EmailChangeTokenInvalid
  | MfaRequired
  | MfaInvalidCode
  | MfaAlreadyEnabled
  | MfaNotEnabled
  | MfaSetupRequired
  | MfaTempTokenInvalid
  | MfaStateConflict
  | PasswordCompromised
  | PasswordResetTokenInvalid
  | OtpInvalid
  | OtpExpired
  | OtpMaxAttempts
  | InsufficientRole
  | Forbidden
  | UntrustedOrigin
  | ReauthenticationRequired
  | InvalidInvitationToken
  | OauthFailed
  | OauthEmailMismatch
  | PlatformAuthRequired
  | ApiKeyInvalid
  | ApiKeyScopeInsufficient
  | ApiKeyNotFound
  | Validation
  | TooManyRequests
  | Internal

fun code_str :: "AuthErrorCode \<Rightarrow> string" where
  "code_str AuthErrorCode.InvalidCredentials = ''auth.invalid_credentials''"
| "code_str AuthErrorCode.AccountLocked = ''auth.account_locked''"
| "code_str AuthErrorCode.AccountInactive = ''auth.account_inactive''"
| "code_str AuthErrorCode.AccountSuspended = ''auth.account_suspended''"
| "code_str AuthErrorCode.AccountBanned = ''auth.account_banned''"
| "code_str AuthErrorCode.PendingApproval = ''auth.pending_approval''"
| "code_str AuthErrorCode.TokenExpired = ''auth.token_expired''"
| "code_str AuthErrorCode.TokenRevoked = ''auth.token_revoked''"
| "code_str AuthErrorCode.TokenInvalid = ''auth.token_invalid''"
| "code_str AuthErrorCode.RefreshTokenInvalid = ''auth.refresh_token_invalid''"
| "code_str AuthErrorCode.SessionNotFound = ''auth.session_not_found''"
| "code_str AuthErrorCode.TokenMissing = ''auth.token_missing''"
| "code_str AuthErrorCode.EmailAlreadyExists = ''auth.email_already_exists''"
| "code_str AuthErrorCode.EmailNotVerified = ''auth.email_not_verified''"
| "code_str AuthErrorCode.EmailChangeTokenInvalid = ''auth.email_change_token_invalid''"
| "code_str AuthErrorCode.MfaRequired = ''auth.mfa_required''"
| "code_str AuthErrorCode.MfaInvalidCode = ''auth.mfa_invalid_code''"
| "code_str AuthErrorCode.MfaAlreadyEnabled = ''auth.mfa_already_enabled''"
| "code_str AuthErrorCode.MfaNotEnabled = ''auth.mfa_not_enabled''"
| "code_str AuthErrorCode.MfaSetupRequired = ''auth.mfa_setup_required''"
| "code_str AuthErrorCode.MfaTempTokenInvalid = ''auth.mfa_temp_token_invalid''"
| "code_str AuthErrorCode.MfaStateConflict = ''auth.mfa_state_conflict''"
| "code_str AuthErrorCode.PasswordCompromised = ''auth.password_compromised''"
| "code_str AuthErrorCode.PasswordResetTokenInvalid = ''auth.password_reset_token_invalid''"
| "code_str AuthErrorCode.OtpInvalid = ''auth.otp_invalid''"
| "code_str AuthErrorCode.OtpExpired = ''auth.otp_expired''"
| "code_str AuthErrorCode.OtpMaxAttempts = ''auth.otp_max_attempts''"
| "code_str AuthErrorCode.InsufficientRole = ''auth.insufficient_role''"
| "code_str AuthErrorCode.Forbidden = ''auth.forbidden''"
| "code_str AuthErrorCode.UntrustedOrigin = ''auth.untrusted_origin''"
| "code_str AuthErrorCode.ReauthenticationRequired = ''auth.reauthentication_required''"
| "code_str AuthErrorCode.InvalidInvitationToken = ''auth.invalid_invitation_token''"
| "code_str AuthErrorCode.OauthFailed = ''auth.oauth_failed''"
| "code_str AuthErrorCode.OauthEmailMismatch = ''auth.oauth_email_mismatch''"
| "code_str AuthErrorCode.PlatformAuthRequired = ''auth.platform_auth_required''"
| "code_str AuthErrorCode.ApiKeyInvalid = ''auth.api_key_invalid''"
| "code_str AuthErrorCode.ApiKeyScopeInsufficient = ''auth.api_key_scope_insufficient''"
| "code_str AuthErrorCode.ApiKeyNotFound = ''auth.api_key_not_found''"
| "code_str AuthErrorCode.Validation = ''auth.validation''"
| "code_str AuthErrorCode.TooManyRequests = ''auth.too_many_requests''"
| "code_str AuthErrorCode.Internal = ''auth.internal''"

fun code_http_status :: "AuthErrorCode \<Rightarrow> nat" where
  "code_http_status AuthErrorCode.InvalidCredentials = 401"
| "code_http_status AuthErrorCode.AccountLocked = 429"
| "code_http_status AuthErrorCode.AccountInactive = 403"
| "code_http_status AuthErrorCode.AccountSuspended = 403"
| "code_http_status AuthErrorCode.AccountBanned = 403"
| "code_http_status AuthErrorCode.PendingApproval = 403"
| "code_http_status AuthErrorCode.TokenExpired = 401"
| "code_http_status AuthErrorCode.TokenRevoked = 401"
| "code_http_status AuthErrorCode.TokenInvalid = 401"
| "code_http_status AuthErrorCode.RefreshTokenInvalid = 401"
| "code_http_status AuthErrorCode.SessionNotFound = 404"
| "code_http_status AuthErrorCode.TokenMissing = 401"
| "code_http_status AuthErrorCode.EmailAlreadyExists = 409"
| "code_http_status AuthErrorCode.EmailNotVerified = 403"
| "code_http_status AuthErrorCode.EmailChangeTokenInvalid = 400"
| "code_http_status AuthErrorCode.MfaRequired = 403"
| "code_http_status AuthErrorCode.MfaInvalidCode = 401"
| "code_http_status AuthErrorCode.MfaAlreadyEnabled = 409"
| "code_http_status AuthErrorCode.MfaNotEnabled = 400"
| "code_http_status AuthErrorCode.MfaSetupRequired = 400"
| "code_http_status AuthErrorCode.MfaTempTokenInvalid = 401"
| "code_http_status AuthErrorCode.MfaStateConflict = 409"
| "code_http_status AuthErrorCode.PasswordCompromised = 400"
| "code_http_status AuthErrorCode.PasswordResetTokenInvalid = 400"
| "code_http_status AuthErrorCode.OtpInvalid = 401"
| "code_http_status AuthErrorCode.OtpExpired = 401"
| "code_http_status AuthErrorCode.OtpMaxAttempts = 429"
| "code_http_status AuthErrorCode.InsufficientRole = 403"
| "code_http_status AuthErrorCode.Forbidden = 403"
| "code_http_status AuthErrorCode.UntrustedOrigin = 403"
| "code_http_status AuthErrorCode.ReauthenticationRequired = 403"
| "code_http_status AuthErrorCode.InvalidInvitationToken = 400"
| "code_http_status AuthErrorCode.OauthFailed = 401"
| "code_http_status AuthErrorCode.OauthEmailMismatch = 409"
| "code_http_status AuthErrorCode.PlatformAuthRequired = 401"
| "code_http_status AuthErrorCode.ApiKeyInvalid = 401"
| "code_http_status AuthErrorCode.ApiKeyScopeInsufficient = 403"
| "code_http_status AuthErrorCode.ApiKeyNotFound = 404"
| "code_http_status AuthErrorCode.Validation = 400"
| "code_http_status AuthErrorCode.TooManyRequests = 429"
| "code_http_status AuthErrorCode.Internal = 500"

fun code_client_message :: "AuthErrorCode \<Rightarrow> string" where
  "code_client_message AuthErrorCode.InvalidCredentials =
     ''Invalid email or password''"
| "code_client_message AuthErrorCode.AccountLocked =
     ''Account temporarily locked. Please try again in a few minutes.''"
| "code_client_message AuthErrorCode.AccountInactive =
     ''Account inactive''"
| "code_client_message AuthErrorCode.AccountSuspended =
     ''Account suspended''"
| "code_client_message AuthErrorCode.AccountBanned =
     ''Account banned''"
| "code_client_message AuthErrorCode.PendingApproval =
     ''Account pending approval''"
| "code_client_message AuthErrorCode.TokenExpired =
     ''Token expired''"
| "code_client_message AuthErrorCode.TokenRevoked =
     ''Token revoked''"
| "code_client_message AuthErrorCode.TokenInvalid =
     ''Invalid token''"
| "code_client_message AuthErrorCode.RefreshTokenInvalid =
     ''Invalid or expired refresh token''"
| "code_client_message AuthErrorCode.SessionNotFound =
     ''Session not found''"
| "code_client_message AuthErrorCode.TokenMissing =
     ''Token missing''"
| "code_client_message AuthErrorCode.EmailAlreadyExists =
     ''Email already registered''"
| "code_client_message AuthErrorCode.EmailNotVerified =
     ''Email not verified''"
| "code_client_message AuthErrorCode.EmailChangeTokenInvalid =
     ''Invalid or expired email change link''"
| "code_client_message AuthErrorCode.MfaRequired =
     ''Two-factor authentication required''"
| "code_client_message AuthErrorCode.MfaInvalidCode =
     ''Invalid MFA code''"
| "code_client_message AuthErrorCode.MfaAlreadyEnabled =
     ''MFA is already enabled''"
| "code_client_message AuthErrorCode.MfaNotEnabled =
     ''MFA is not enabled''"
| "code_client_message AuthErrorCode.MfaSetupRequired =
     ''MFA setup required''"
| "code_client_message AuthErrorCode.MfaTempTokenInvalid =
     ''Invalid or expired temporary MFA token''"
| "code_client_message AuthErrorCode.MfaStateConflict =
     ''Another MFA change is in progress. Please try again.''"
| "code_client_message AuthErrorCode.PasswordCompromised =
     ''This password has appeared in a data breach. Please choose a different one.''"
| "code_client_message AuthErrorCode.PasswordResetTokenInvalid =
     ''Invalid password reset token''"
| "code_client_message AuthErrorCode.OtpInvalid =
     ''Invalid OTP code''"
| "code_client_message AuthErrorCode.OtpExpired =
     ''Expired OTP code''"
| "code_client_message AuthErrorCode.OtpMaxAttempts =
     ''Maximum number of attempts exceeded''"
| "code_client_message AuthErrorCode.InsufficientRole =
     ''Insufficient permission''"
| "code_client_message AuthErrorCode.Forbidden =
     ''Access denied''"
| "code_client_message AuthErrorCode.UntrustedOrigin =
     ''Request origin not allowed''"
| "code_client_message AuthErrorCode.ReauthenticationRequired =
     ''Please sign in again to change your security settings.''"
| "code_client_message AuthErrorCode.InvalidInvitationToken =
     ''Invalid or expired invitation token''"
| "code_client_message AuthErrorCode.OauthFailed =
     ''OAuth authentication failed''"
| "code_client_message AuthErrorCode.OauthEmailMismatch =
     ''OAuth email does not match''"
| "code_client_message AuthErrorCode.PlatformAuthRequired =
     ''Platform authentication required''"
| "code_client_message AuthErrorCode.ApiKeyInvalid =
     ''Invalid API key''"
| "code_client_message AuthErrorCode.ApiKeyScopeInsufficient =
     ''API key lacks the required scope''"
| "code_client_message AuthErrorCode.ApiKeyNotFound =
     ''API key not found''"
| "code_client_message AuthErrorCode.Validation =
     ''Validation failed''"
| "code_client_message AuthErrorCode.TooManyRequests =
     ''Too many requests. Please slow down and try again shortly.''"
| "code_client_message AuthErrorCode.Internal =
     ''Internal server error''"

fun to_wire :: "AuthErrorCode \<Rightarrow> AuthErrorCode" where
  "to_wire AuthErrorCode.TokenExpired = AuthErrorCode.TokenInvalid"
| "to_wire AuthErrorCode.TokenRevoked = AuthErrorCode.TokenInvalid"
| "to_wire AuthErrorCode.TokenMissing = AuthErrorCode.TokenInvalid"
| "to_wire AuthErrorCode.OtpExpired = AuthErrorCode.OtpInvalid"
| "to_wire AuthErrorCode.OtpMaxAttempts = AuthErrorCode.OtpInvalid"
| "to_wire other = other"

definition code_is_internal_only :: "AuthErrorCode \<Rightarrow> bool" where
  "code_is_internal_only c \<longleftrightarrow> to_wire c \<noteq> c"

section \<open>The typed error and its wire form\<close>

record FieldError =
  fe_field :: string
  fe_message :: string

text \<open>
  The boxed cause of \<open>Internal\<close> is kept as the text it is logged with. The two JSON shapes of the
  \<open>details\<close> payload are the two constructors of \<open>Details\<close>.
\<close>

datatype AuthError =
    InvalidCredentials
  | AccountLocked "nat option"
  | AccountInactive
  | AccountSuspended
  | AccountBanned
  | PendingApproval
  | TokenExpired
  | TokenRevoked
  | TokenInvalid
  | RefreshTokenInvalid
  | SessionNotFound
  | TokenMissing
  | EmailAlreadyExists
  | EmailNotVerified
  | EmailChangeTokenInvalid
  | MfaRequired
  | MfaInvalidCode
  | MfaAlreadyEnabled
  | MfaNotEnabled
  | MfaSetupRequired
  | MfaTempTokenInvalid
  | MfaStateConflict
  | PasswordCompromised
  | PasswordResetTokenInvalid
  | OtpInvalid
  | OtpExpired
  | OtpMaxAttempts
  | InsufficientRole
  | Forbidden
  | UntrustedOrigin
  | ReauthenticationRequired
  | InvalidInvitationToken
  | OauthFailed
  | OauthEmailMismatch
  | PlatformAuthRequired
  | ApiKeyInvalid
  | ApiKeyScopeInsufficient
  | ApiKeyNotFound
  | Validation "FieldError list"
  | TooManyRequests "nat option"
  | Internal string

datatype Details =
    RetryAfterSeconds nat
  | FieldErrors "FieldError list"

fun err_code :: "AuthError \<Rightarrow> AuthErrorCode" where
  "err_code (AuthError.InvalidCredentials) = AuthErrorCode.InvalidCredentials"
| "err_code (AuthError.AccountLocked _) = AuthErrorCode.AccountLocked"
| "err_code (AuthError.AccountInactive) = AuthErrorCode.AccountInactive"
| "err_code (AuthError.AccountSuspended) = AuthErrorCode.AccountSuspended"
| "err_code (AuthError.AccountBanned) = AuthErrorCode.AccountBanned"
| "err_code (AuthError.PendingApproval) = AuthErrorCode.PendingApproval"
| "err_code (AuthError.TokenExpired) = AuthErrorCode.TokenExpired"
| "err_code (AuthError.TokenRevoked) = AuthErrorCode.TokenRevoked"
| "err_code (AuthError.TokenInvalid) = AuthErrorCode.TokenInvalid"
| "err_code (AuthError.RefreshTokenInvalid) = AuthErrorCode.RefreshTokenInvalid"
| "err_code (AuthError.SessionNotFound) = AuthErrorCode.SessionNotFound"
| "err_code (AuthError.TokenMissing) = AuthErrorCode.TokenMissing"
| "err_code (AuthError.EmailAlreadyExists) = AuthErrorCode.EmailAlreadyExists"
| "err_code (AuthError.EmailNotVerified) = AuthErrorCode.EmailNotVerified"
| "err_code (AuthError.EmailChangeTokenInvalid) = AuthErrorCode.EmailChangeTokenInvalid"
| "err_code (AuthError.MfaRequired) = AuthErrorCode.MfaRequired"
| "err_code (AuthError.MfaInvalidCode) = AuthErrorCode.MfaInvalidCode"
| "err_code (AuthError.MfaAlreadyEnabled) = AuthErrorCode.MfaAlreadyEnabled"
| "err_code (AuthError.MfaNotEnabled) = AuthErrorCode.MfaNotEnabled"
| "err_code (AuthError.MfaSetupRequired) = AuthErrorCode.MfaSetupRequired"
| "err_code (AuthError.MfaTempTokenInvalid) = AuthErrorCode.MfaTempTokenInvalid"
| "err_code (AuthError.MfaStateConflict) = AuthErrorCode.MfaStateConflict"
| "err_code (AuthError.PasswordCompromised) = AuthErrorCode.PasswordCompromised"
| "err_code (AuthError.PasswordResetTokenInvalid) = AuthErrorCode.PasswordResetTokenInvalid"
| "err_code (AuthError.OtpInvalid) = AuthErrorCode.OtpInvalid"
| "err_code (AuthError.OtpExpired) = AuthErrorCode.OtpExpired"
| "err_code (AuthError.OtpMaxAttempts) = AuthErrorCode.OtpMaxAttempts"
| "err_code (AuthError.InsufficientRole) = AuthErrorCode.InsufficientRole"
| "err_code (AuthError.Forbidden) = AuthErrorCode.Forbidden"
| "err_code (AuthError.UntrustedOrigin) = AuthErrorCode.UntrustedOrigin"
| "err_code (AuthError.ReauthenticationRequired) = AuthErrorCode.ReauthenticationRequired"
| "err_code (AuthError.InvalidInvitationToken) = AuthErrorCode.InvalidInvitationToken"
| "err_code (AuthError.OauthFailed) = AuthErrorCode.OauthFailed"
| "err_code (AuthError.OauthEmailMismatch) = AuthErrorCode.OauthEmailMismatch"
| "err_code (AuthError.PlatformAuthRequired) = AuthErrorCode.PlatformAuthRequired"
| "err_code (AuthError.ApiKeyInvalid) = AuthErrorCode.ApiKeyInvalid"
| "err_code (AuthError.ApiKeyScopeInsufficient) = AuthErrorCode.ApiKeyScopeInsufficient"
| "err_code (AuthError.ApiKeyNotFound) = AuthErrorCode.ApiKeyNotFound"
| "err_code (AuthError.Validation _) = AuthErrorCode.Validation"
| "err_code (AuthError.TooManyRequests _) = AuthErrorCode.TooManyRequests"
| "err_code (AuthError.Internal _) = AuthErrorCode.Internal"

definition err_http_status :: "AuthError \<Rightarrow> nat" where
  "err_http_status e = code_http_status (to_wire (err_code e))"

definition err_client_message :: "AuthError \<Rightarrow> string" where
  "err_client_message e = code_client_message (to_wire (err_code e))"

definition err_is_internal_only :: "AuthError \<Rightarrow> bool" where
  "err_is_internal_only e = code_is_internal_only (err_code e)"

fun err_details :: "AuthError \<Rightarrow> Details option" where
  "err_details (AuthError.AccountLocked r) = map_option RetryAfterSeconds r"
| "err_details (AuthError.TooManyRequests r) = map_option RetryAfterSeconds r"
| "err_details (AuthError.Validation ds) = Some (FieldErrors ds)"
| "err_details _ = None"

record AuthErrorResponse =
  resp_code :: AuthErrorCode
  resp_message :: string

record AuthErrorBody =
  body_code :: AuthErrorCode
  body_message :: string
  body_details :: "Details option"

record AuthErrorEnvelope =
  env_error :: AuthErrorBody

definition to_response :: "AuthError \<Rightarrow> AuthErrorResponse" where
  "to_response e =
     (let code = to_wire (err_code e)
      in \<lparr>resp_code = code, resp_message = code_client_message code\<rparr>)"

definition to_envelope :: "AuthError \<Rightarrow> AuthErrorEnvelope" where
  "to_envelope e =
     (let code = to_wire (err_code e)
      in \<lparr>env_error =
            \<lparr>body_code = code, body_message = code_client_message code,
             body_details = err_details e\<rparr>\<rparr>)"

section \<open>The collapse at the boundary\<close>

lemma to_wire_idem [simp]: "to_wire (to_wire c) = to_wire c"
  by (cases c) simp_all

lemma to_wire_public [simp]: "\<not> code_is_internal_only (to_wire c)"
  by (simp add: code_is_internal_only_def)

lemma code_is_internal_only_iff:
  "code_is_internal_only c \<longleftrightarrow>
     c \<in> {AuthErrorCode.TokenExpired, AuthErrorCode.TokenRevoked, AuthErrorCode.TokenMissing,
          AuthErrorCode.OtpExpired, AuthErrorCode.OtpMaxAttempts}"
  by (cases c) (simp_all add: code_is_internal_only_def)

lemma err_details_internal_only: "err_is_internal_only e \<Longrightarrow> err_details e = None"
  by (cases e) (simp_all add: err_is_internal_only_def code_is_internal_only_def)

lemma err_details_None_of_code:
  "err_code e \<notin> {AuthErrorCode.AccountLocked, AuthErrorCode.TooManyRequests,
      AuthErrorCode.Validation} \<Longrightarrow> err_details e = None"
  by (cases e) simp_all

lemma to_wire_detailed:
  "to_wire c = AuthErrorCode.AccountLocked \<longleftrightarrow> c = AuthErrorCode.AccountLocked"
  "to_wire c = AuthErrorCode.TooManyRequests \<longleftrightarrow> c = AuthErrorCode.TooManyRequests"
  "to_wire c = AuthErrorCode.Validation \<longleftrightarrow> c = AuthErrorCode.Validation"
  by (cases c; simp)+

lemma merged_not_detailed:
  "to_wire c = to_wire d \<Longrightarrow> c \<noteq> d \<Longrightarrow>
     c \<notin> {AuthErrorCode.AccountLocked, AuthErrorCode.TooManyRequests, AuthErrorCode.Validation}"
  using to_wire_detailed [of c] to_wire_detailed [of d] by auto

end
