(* ===== verification/Redis_Service.thy ===== *)
theory Redis_Service
  imports Error_Types
begin

text \<open>
  The Redis server as the store crate \<open>crates/bymax-auth-redis\<close> uses it. Redis is not part of the
  repository: its commands are a parameter of every store operation (the record \<open>redis\<close>), and what
  the sources rely on is the locale \<open>redis_service\<close>, the documented effect of each command on the
  key space. The key space is observed through \<open>view\<close>: a key holds a typed value and, possibly, the
  seconds it still has to live. Laws are stated for the cases the documentation defines (a key of
  the command's own type or absent, an expiry that is accepted); nothing is assumed elsewhere.

  \<open>mem_redis\<close> is an in-process server that satisfies every law, so the laws hold together; the
  concrete runs of the development are evaluated on it. \<open>client\<close> adds the network: a schedule of
  transport events decides, for each use of a pooled connection, whether it is refused before it
  reaches the server or its reply is lost after it took effect.
\<close>

section \<open>The key space\<close>

datatype rvalue =
    RStr string
  | RSet "string set"
  | RHash "string \<rightharpoonup> string"

type_synonym rview = "string \<rightharpoonup> rvalue \<times> nat option"

text \<open>The expiries a command accepts, in seconds; their millisecond form stays below \<open>2 ^ 63\<close>.\<close>

definition ttl_ok :: "nat \<Rightarrow> bool" where
  "ttl_ok t \<longleftrightarrow> 0 < t \<and> t < 2 ^ 50"

definition str_or_absent :: "rview \<Rightarrow> string \<Rightarrow> bool" where
  "str_or_absent v k \<longleftrightarrow> (case v k of Some (RStr _, _) \<Rightarrow> True | None \<Rightarrow> True | _ \<Rightarrow> False)"

definition set_or_absent :: "rview \<Rightarrow> string \<Rightarrow> bool" where
  "set_or_absent v k \<longleftrightarrow> (case v k of Some (RSet _, _) \<Rightarrow> True | None \<Rightarrow> True | _ \<Rightarrow> False)"

definition hash_or_absent :: "rview \<Rightarrow> string \<Rightarrow> bool" where
  "hash_or_absent v k \<longleftrightarrow> (case v k of Some (RHash _, _) \<Rightarrow> True | None \<Rightarrow> True | _ \<Rightarrow> False)"

definition str_at :: "rview \<Rightarrow> string \<Rightarrow> string option" where
  "str_at v k = (case v k of Some (RStr s, _) \<Rightarrow> Some s | _ \<Rightarrow> None)"

definition members_at :: "rview \<Rightarrow> string \<Rightarrow> string set" where
  "members_at v k = (case v k of Some (RSet S, _) \<Rightarrow> S | _ \<Rightarrow> {})"

definition field_at :: "rview \<Rightarrow> string \<Rightarrow> string \<Rightarrow> string option" where
  "field_at v k f = (case v k of Some (RHash h, _) \<Rightarrow> h f | _ \<Rightarrow> None)"

definition ttl_at :: "rview \<Rightarrow> string \<Rightarrow> nat option" where
  "ttl_at v k = (case v k of Some (_, t) \<Rightarrow> t | None \<Rightarrow> None)"

text \<open>The effect of each writing command on the key space.\<close>

definition v_set_ex :: "string \<Rightarrow> string \<Rightarrow> nat \<Rightarrow> rview \<Rightarrow> rview" where
  "v_set_ex k s t v = v(k \<mapsto> (RStr s, Some t))"

definition v_del :: "string \<Rightarrow> rview \<Rightarrow> rview" where
  "v_del k v = v(k := None)"

definition v_expire :: "string \<Rightarrow> nat \<Rightarrow> rview \<Rightarrow> rview" where
  "v_expire k t v = (case v k of None \<Rightarrow> v | Some (x, _) \<Rightarrow> v(k \<mapsto> (x, Some t)))"

definition v_sadd :: "string \<Rightarrow> string \<Rightarrow> rview \<Rightarrow> rview" where
  "v_sadd k m v = v(k \<mapsto> (RSet (insert m (members_at v k)), ttl_at v k))"

text \<open>A set that loses its last member is removed.\<close>

definition v_srem :: "string \<Rightarrow> string \<Rightarrow> rview \<Rightarrow> rview" where
  "v_srem k m v =
     (if members_at v k - {m} = {} then v(k := None)
      else v(k \<mapsto> (RSet (members_at v k - {m}), ttl_at v k)))"

definition v_set_num :: "string \<Rightarrow> nat \<Rightarrow> rview \<Rightarrow> rview" where
  "v_set_num k n v = v(k \<mapsto> (RStr (show_nat n), ttl_at v k))"

definition v_hset :: "string \<Rightarrow> string \<Rightarrow> string \<Rightarrow> rview \<Rightarrow> rview" where
  "v_hset k f s v = v(k \<mapsto> (RHash ((field_at v k)(f \<mapsto> s)), ttl_at v k))"

definition v_tick :: "nat \<Rightarrow> rview \<Rightarrow> rview" where
  "v_tick n v = (\<lambda>k. case v k of
      Some (x, Some t) \<Rightarrow> if t \<le> n then None else Some (x, Some (t - n))
    | e \<Rightarrow> e)"

section \<open>Observing the effects\<close>

text \<open>
  The observers through which components state their properties, evaluated after each effect:
  the text, the members, the field, the remaining lifetime and the presence of a key. They are
  collected in \<open>view_obs\<close>; \<open>view_type\<close> says which keys keep the type a command expects.
\<close>

named_theorems view_obs \<open>observers after effects\<close>
named_theorems view_type \<open>types of keys after effects\<close>

lemmas obs_defs = str_at_def members_at_def field_at_def ttl_at_def
lemmas type_defs = str_or_absent_def set_or_absent_def hash_or_absent_def
lemmas effect_defs =
  v_set_ex_def v_del_def v_expire_def v_sadd_def v_srem_def v_set_num_def v_hset_def v_tick_def

lemma obs_set_ex [view_obs]:
  "str_at (v_set_ex k s t v) k' = (if k' = k then Some s else str_at v k')"
  "members_at (v_set_ex k s t v) k' = (if k' = k then {} else members_at v k')"
  "field_at (v_set_ex k s t v) k' f = (if k' = k then None else field_at v k' f)"
  "ttl_at (v_set_ex k s t v) k' = (if k' = k then Some t else ttl_at v k')"
  "v_set_ex k s t v k' = None \<longleftrightarrow> k' \<noteq> k \<and> v k' = None"
  by (simp_all add: obs_defs v_set_ex_def)

lemma obs_del [view_obs]:
  "str_at (v_del k v) k' = (if k' = k then None else str_at v k')"
  "members_at (v_del k v) k' = (if k' = k then {} else members_at v k')"
  "field_at (v_del k v) k' f = (if k' = k then None else field_at v k' f)"
  "ttl_at (v_del k v) k' = (if k' = k then None else ttl_at v k')"
  "v_del k v k' = None \<longleftrightarrow> k' = k \<or> v k' = None"
  by (simp_all add: obs_defs v_del_def)

lemma obs_expire [view_obs]:
  "str_at (v_expire k t v) k' = str_at v k'"
  "members_at (v_expire k t v) k' = members_at v k'"
  "field_at (v_expire k t v) k' f = field_at v k' f"
  "ttl_at (v_expire k t v) k' = (if k' = k \<and> v k \<noteq> None then Some t else ttl_at v k')"
  "v_expire k t v k' = None \<longleftrightarrow> v k' = None"
  by (auto simp: obs_defs v_expire_def split: option.splits prod.splits)

lemma obs_sadd [view_obs]:
  "str_at (v_sadd k m v) k' = (if k' = k then None else str_at v k')"
  "members_at (v_sadd k m v) k' = (if k' = k then insert m (members_at v k) else members_at v k')"
  "field_at (v_sadd k m v) k' f = (if k' = k then None else field_at v k' f)"
  "ttl_at (v_sadd k m v) k' = ttl_at v k'"
  "v_sadd k m v k' = None \<longleftrightarrow> k' \<noteq> k \<and> v k' = None"
  by (auto simp: obs_defs v_sadd_def)

lemma obs_srem [view_obs]:
  "str_at (v_srem k m v) k' = (if k' = k then None else str_at v k')"
  "members_at (v_srem k m v) k' = (if k' = k then members_at v k - {m} else members_at v k')"
  "field_at (v_srem k m v) k' f = (if k' = k then None else field_at v k' f)"
  "ttl_at (v_srem k m v) k' =
     (if k' = k \<and> members_at v k - {m} = {} then None else ttl_at v k')"
  "v_srem k m v k' = None \<longleftrightarrow> (if k' = k then members_at v k - {m} = {} else v k' = None)"
  by (auto simp: obs_defs v_srem_def)

lemma obs_set_num [view_obs]:
  "str_at (v_set_num k n v) k' = (if k' = k then Some (show_nat n) else str_at v k')"
  "members_at (v_set_num k n v) k' = (if k' = k then {} else members_at v k')"
  "field_at (v_set_num k n v) k' f = (if k' = k then None else field_at v k' f)"
  "ttl_at (v_set_num k n v) k' = ttl_at v k'"
  "v_set_num k n v k' = None \<longleftrightarrow> k' \<noteq> k \<and> v k' = None"
  by (auto simp: obs_defs v_set_num_def)

lemma obs_hset [view_obs]:
  "str_at (v_hset k f s v) k' = (if k' = k then None else str_at v k')"
  "members_at (v_hset k f s v) k' = (if k' = k then {} else members_at v k')"
  "field_at (v_hset k f s v) k' g = (if k' = k \<and> g = f then Some s else field_at v k' g)"
  "ttl_at (v_hset k f s v) k' = ttl_at v k'"
  "v_hset k f s v k' = None \<longleftrightarrow> k' \<noteq> k \<and> v k' = None"
  by (auto simp: obs_defs v_hset_def)

text \<open>After \<open>n\<close> seconds a key is there exactly when it did not expire, with its value unchanged.\<close>

definition survives :: "nat \<Rightarrow> rview \<Rightarrow> string \<Rightarrow> bool" where
  "survives n v k \<longleftrightarrow> (case ttl_at v k of None \<Rightarrow> True | Some t \<Rightarrow> n < t)"

lemma obs_tick [view_obs]:
  "str_at (v_tick n v) k = (if survives n v k then str_at v k else None)"
  "members_at (v_tick n v) k = (if survives n v k then members_at v k else {})"
  "field_at (v_tick n v) k f = (if survives n v k then field_at v k f else None)"
  "ttl_at (v_tick n v) k = (if survives n v k then map_option (\<lambda>t. t - n) (ttl_at v k) else None)"
  "v_tick n v k = None \<longleftrightarrow> \<not> survives n v k \<or> v k = None"
  by (auto simp: obs_defs v_tick_def survives_def split: option.splits)

lemma type_set_ex [view_type]:
  "str_or_absent (v_set_ex k s t v) k' \<longleftrightarrow> k' = k \<or> str_or_absent v k'"
  "set_or_absent (v_set_ex k s t v) k' \<longleftrightarrow> k' \<noteq> k \<and> set_or_absent v k'"
  "hash_or_absent (v_set_ex k s t v) k' \<longleftrightarrow> k' \<noteq> k \<and> hash_or_absent v k'"
  by (simp_all add: type_defs v_set_ex_def)

lemma type_del [view_type]:
  "str_or_absent (v_del k v) k' \<longleftrightarrow> k' = k \<or> str_or_absent v k'"
  "set_or_absent (v_del k v) k' \<longleftrightarrow> k' = k \<or> set_or_absent v k'"
  "hash_or_absent (v_del k v) k' \<longleftrightarrow> k' = k \<or> hash_or_absent v k'"
  by (simp_all add: type_defs v_del_def)

lemma type_expire [view_type]:
  "str_or_absent (v_expire k t v) k' \<longleftrightarrow> str_or_absent v k'"
  "set_or_absent (v_expire k t v) k' \<longleftrightarrow> set_or_absent v k'"
  "hash_or_absent (v_expire k t v) k' \<longleftrightarrow> hash_or_absent v k'"
  by (auto simp: type_defs v_expire_def split: option.splits prod.splits)

lemma type_sadd [view_type]:
  "str_or_absent (v_sadd k m v) k' \<longleftrightarrow> k' \<noteq> k \<and> str_or_absent v k'"
  "set_or_absent (v_sadd k m v) k' \<longleftrightarrow> k' = k \<or> set_or_absent v k'"
  "hash_or_absent (v_sadd k m v) k' \<longleftrightarrow> k' \<noteq> k \<and> hash_or_absent v k'"
  by (simp_all add: type_defs v_sadd_def)

lemma type_srem [view_type]:
  "k' \<noteq> k \<Longrightarrow> str_or_absent (v_srem k m v) k' \<longleftrightarrow> str_or_absent v k'"
  "set_or_absent (v_srem k m v) k' \<longleftrightarrow> k' = k \<or> set_or_absent v k'"
  "k' \<noteq> k \<Longrightarrow> hash_or_absent (v_srem k m v) k' \<longleftrightarrow> hash_or_absent v k'"
  by (simp_all add: type_defs v_srem_def)

lemma type_set_num [view_type]:
  "str_or_absent (v_set_num k n v) k' \<longleftrightarrow> k' = k \<or> str_or_absent v k'"
  "set_or_absent (v_set_num k n v) k' \<longleftrightarrow> k' \<noteq> k \<and> set_or_absent v k'"
  "hash_or_absent (v_set_num k n v) k' \<longleftrightarrow> k' \<noteq> k \<and> hash_or_absent v k'"
  by (simp_all add: type_defs v_set_num_def)

lemma type_hset [view_type]:
  "str_or_absent (v_hset k f s v) k' \<longleftrightarrow> k' \<noteq> k \<and> str_or_absent v k'"
  "set_or_absent (v_hset k f s v) k' \<longleftrightarrow> k' \<noteq> k \<and> set_or_absent v k'"
  "hash_or_absent (v_hset k f s v) k' \<longleftrightarrow> k' = k \<or> hash_or_absent v k'"
  by (simp_all add: type_defs v_hset_def)

lemma type_tick [view_type]:
  "str_or_absent v k \<Longrightarrow> str_or_absent (v_tick n v) k"
  "set_or_absent v k \<Longrightarrow> set_or_absent (v_tick n v) k"
  "hash_or_absent v k \<Longrightarrow> hash_or_absent (v_tick n v) k"
  by (auto simp: type_defs v_tick_def split: option.splits)

lemma members_at_present: "m \<in> members_at v k \<Longrightarrow> v k \<noteq> None"
  by (cases "v k") (auto simp: members_at_def)

lemma str_at_present: "str_at v k = Some s \<Longrightarrow> v k \<noteq> None"
  by (cases "v k") (auto simp: str_at_def)

section \<open>The commands and their documented effect\<close>

record 'r redis =
  r_get :: "string \<Rightarrow> 'r \<Rightarrow> string option"
  r_set_ex :: "string \<Rightarrow> string \<Rightarrow> nat \<Rightarrow> 'r \<Rightarrow> 'r"
  r_set_nx_ex :: "string \<Rightarrow> string \<Rightarrow> nat \<Rightarrow> 'r \<Rightarrow> bool \<times> 'r"
  r_del :: "string \<Rightarrow> 'r \<Rightarrow> nat \<times> 'r"
  r_getdel :: "string \<Rightarrow> 'r \<Rightarrow> string option \<times> 'r"
  r_exists :: "string \<Rightarrow> 'r \<Rightarrow> bool"
  r_expire :: "string \<Rightarrow> nat \<Rightarrow> 'r \<Rightarrow> 'r"
  r_ttl :: "string \<Rightarrow> 'r \<Rightarrow> int"
  r_incr :: "string \<Rightarrow> 'r \<Rightarrow> nat \<times> 'r"
  r_sadd :: "string \<Rightarrow> string \<Rightarrow> 'r \<Rightarrow> 'r"
  r_srem :: "string \<Rightarrow> string \<Rightarrow> 'r \<Rightarrow> 'r"
  r_smembers :: "string \<Rightarrow> 'r \<Rightarrow> string list"
  r_sismember :: "string \<Rightarrow> string \<Rightarrow> 'r \<Rightarrow> bool"
  r_hget :: "string \<Rightarrow> string \<Rightarrow> 'r \<Rightarrow> string option"
  r_hset :: "string \<Rightarrow> string \<Rightarrow> string \<Rightarrow> 'r \<Rightarrow> 'r"
  r_hincr :: "string \<Rightarrow> string \<Rightarrow> 'r \<Rightarrow> 'r"
  r_tick :: "nat \<Rightarrow> 'r \<Rightarrow> 'r"

locale redis_service =
  fixes R :: "'r redis" and view :: "'r \<Rightarrow> rview"
  assumes get: "str_or_absent (view r) k \<Longrightarrow> r_get R k r = str_at (view r) k"
    and set_ex: "ttl_ok t \<Longrightarrow> view (r_set_ex R k s t r) = v_set_ex k s t (view r)"
    and set_nx_ex: "ttl_ok t \<Longrightarrow> view (snd (r_set_nx_ex R k s t r)) =
          (if view r k = None then v_set_ex k s t (view r) else view r)"
    and set_nx_ex_won: "ttl_ok t \<Longrightarrow> fst (r_set_nx_ex R k s t r) \<longleftrightarrow> view r k = None"
    and del: "view (snd (r_del R k r)) = v_del k (view r)"
    and del_count: "fst (r_del R k r) = (if view r k = None then 0 else 1)"
    and getdel: "str_or_absent (view r) k \<Longrightarrow> view (snd (r_getdel R k r)) = v_del k (view r)"
    and getdel_value: "str_or_absent (view r) k \<Longrightarrow> fst (r_getdel R k r) = str_at (view r) k"
    and exists: "r_exists R k r \<longleftrightarrow> view r k \<noteq> None"
    and expire: "ttl_ok t \<Longrightarrow> view (r_expire R k t r) = v_expire k t (view r)"
    and ttl: "r_ttl R k r = (case view r k of
          None \<Rightarrow> -2 | Some (_, None) \<Rightarrow> -1 | Some (_, Some t) \<Rightarrow> int t)"
    and incr_absent: "view r k = None \<Longrightarrow> view (snd (r_incr R k r)) = v_set_num k 1 (view r)"
    and incr_absent_value: "view r k = None \<Longrightarrow> fst (r_incr R k r) = 1"
    and incr: "str_at (view r) k = Some (show_nat n) \<Longrightarrow> n + 1 < 2 ^ 63 \<Longrightarrow>
          view (snd (r_incr R k r)) = v_set_num k (n + 1) (view r)"
    and incr_value: "str_at (view r) k = Some (show_nat n) \<Longrightarrow> n + 1 < 2 ^ 63 \<Longrightarrow>
          fst (r_incr R k r) = n + 1"
    and sadd: "set_or_absent (view r) k \<Longrightarrow> view (r_sadd R k m r) = v_sadd k m (view r)"
    and srem: "set_or_absent (view r) k \<Longrightarrow> view (r_srem R k m r) = v_srem k m (view r)"
    and smembers: "set_or_absent (view r) k \<Longrightarrow> set (r_smembers R k r) = members_at (view r) k"
    and smembers_distinct: "set_or_absent (view r) k \<Longrightarrow> distinct (r_smembers R k r)"
    and sismember: "set_or_absent (view r) k \<Longrightarrow>
          r_sismember R k m r \<longleftrightarrow> m \<in> members_at (view r) k"
    and hget: "hash_or_absent (view r) k \<Longrightarrow> r_hget R k f r = field_at (view r) k f"
    and hset: "hash_or_absent (view r) k \<Longrightarrow> view (r_hset R k f s r) = v_hset k f s (view r)"
    and hincr: "hash_or_absent (view r) k \<Longrightarrow> field_at (view r) k f = Some (show_nat n) \<Longrightarrow>
          n + 1 < 2 ^ 63 \<Longrightarrow> view (r_hincr R k f r) = v_hset k f (show_nat (n + 1)) (view r)"
    and tick: "view (r_tick R n r) = v_tick n (view r)"

section \<open>An in-process server\<close>

datatype mvalue =
    MStr string
  | MSet "string list"
  | MHash "(string \<times> string) list"

type_synonym mem = "string \<rightharpoonup> mvalue \<times> nat option"

fun abs_mvalue :: "mvalue \<Rightarrow> rvalue" where
  "abs_mvalue (MStr s) = RStr s"
| "abs_mvalue (MSet xs) = RSet (set xs)"
| "abs_mvalue (MHash h) = RHash (map_of h)"

definition mem_view :: "mem \<Rightarrow> rview" where
  "mem_view m k = map_option (\<lambda>(x, t). (abs_mvalue x, t)) (m k)"

definition m_str :: "mem \<Rightarrow> string \<Rightarrow> string option" where
  "m_str m k = (case m k of Some (MStr s, _) \<Rightarrow> Some s | _ \<Rightarrow> None)"

definition m_set :: "mem \<Rightarrow> string \<Rightarrow> string list" where
  "m_set m k = (case m k of Some (MSet xs, _) \<Rightarrow> xs | _ \<Rightarrow> [])"

definition m_hash :: "mem \<Rightarrow> string \<Rightarrow> (string \<times> string) list" where
  "m_hash m k = (case m k of Some (MHash h, _) \<Rightarrow> h | _ \<Rightarrow> [])"

definition m_ttl :: "mem \<Rightarrow> string \<Rightarrow> nat option" where
  "m_ttl m k = (case m k of Some (_, t) \<Rightarrow> t | None \<Rightarrow> None)"

definition m_num :: "mem \<Rightarrow> string \<Rightarrow> nat" where
  "m_num m k = (case m_str m k of None \<Rightarrow> 0 | Some s \<Rightarrow> (case parse_nat s of None \<Rightarrow> 0 | Some n \<Rightarrow> n))"

definition mem_redis :: "mem redis" where
  "mem_redis =
     \<lparr>r_get = (\<lambda>k m. m_str m k),
      r_set_ex = (\<lambda>k s t m. m(k \<mapsto> (MStr s, Some t))),
      r_set_nx_ex = (\<lambda>k s t m. if m k = None then (True, m(k \<mapsto> (MStr s, Some t))) else (False, m)),
      r_del = (\<lambda>k m. (if m k = None then 0 else 1, m(k := None))),
      r_getdel = (\<lambda>k m. (m_str m k, m(k := None))),
      r_exists = (\<lambda>k m. m k \<noteq> None),
      r_expire = (\<lambda>k t m. case m k of None \<Rightarrow> m | Some (x, _) \<Rightarrow> m(k \<mapsto> (x, Some t))),
      r_ttl = (\<lambda>k m. case m k of None \<Rightarrow> -2 | Some (_, None) \<Rightarrow> -1 | Some (_, Some t) \<Rightarrow> int t),
      r_incr = (\<lambda>k m. let n = m_num m k + 1 in (n, m(k \<mapsto> (MStr (show_nat n), m_ttl m k)))),
      r_sadd = (\<lambda>k x m. m(k \<mapsto> (MSet (List.insert x (m_set m k)), m_ttl m k))),
      r_srem = (\<lambda>k x m. let xs = filter (\<lambda>y. y \<noteq> x) (m_set m k)
                        in if xs = [] then m(k := None) else m(k \<mapsto> (MSet xs, m_ttl m k))),
      r_smembers = (\<lambda>k m. remdups (m_set m k)),
      r_sismember = (\<lambda>k x m. x \<in> set (m_set m k)),
      r_hget = (\<lambda>k f m. map_of (m_hash m k) f),
      r_hset = (\<lambda>k f s m. m(k \<mapsto> (MHash ((f, s) # m_hash m k), m_ttl m k))),
      r_hincr = (\<lambda>k f m. let n = (case map_of (m_hash m k) f of None \<Rightarrow> 0
                           | Some s \<Rightarrow> (case parse_nat s of None \<Rightarrow> 0 | Some i \<Rightarrow> i)) + 1
                         in m(k \<mapsto> (MHash ((f, show_nat n) # m_hash m k), m_ttl m k))),
      r_tick = (\<lambda>n m k. case m k of
          Some (x, Some t) \<Rightarrow> if t \<le> n then None else Some (x, Some (t - n)) | e \<Rightarrow> e)\<rparr>"

lemma mem_view_upd [simp]:
  "mem_view (m(k \<mapsto> (x, t))) = (mem_view m)(k \<mapsto> (abs_mvalue x, t))"
  "mem_view (m(k := None)) = (mem_view m)(k := None)"
  by (auto simp: mem_view_def)

lemma mem_view_str: "str_at (mem_view m) k = m_str m k"
  by (cases "m k"; cases "fst (the (m k))") (auto simp: mem_view_def m_str_def str_at_def)

lemma mem_view_set: "members_at (mem_view m) k = set (m_set m k)"
  by (cases "m k"; cases "fst (the (m k))") (auto simp: mem_view_def m_set_def members_at_def)

lemma mem_view_hash: "field_at (mem_view m) k = map_of (m_hash m k)"
  by (rule ext, cases "m k"; cases "fst (the (m k))") (auto simp: mem_view_def m_hash_def field_at_def)

lemma mem_view_ttl: "ttl_at (mem_view m) k = m_ttl m k"
  by (auto simp: mem_view_def m_ttl_def ttl_at_def split: option.splits)

lemma mem_view_None: "mem_view m k = None \<longleftrightarrow> m k = None"
  by (simp add: mem_view_def)

lemmas mem_view_simps = mem_view_str mem_view_set mem_view_hash mem_view_ttl mem_view_None

lemma mem_view_tick: "mem_view (r_tick mem_redis n m) = v_tick n (mem_view m)"
  by (rule ext) (auto simp: mem_redis_def mem_view_def v_tick_def split: option.splits)

lemma mem_view_expire: "mem_view (r_expire mem_redis k t m) = v_expire k t (mem_view m)"
  by (auto simp: mem_redis_def v_expire_def mem_view_def fun_eq_iff split: option.splits)

lemma mem_view_srem: "mem_view (r_srem mem_redis k x m) = v_srem k x (mem_view m)"
proof -
  have "set (filter (\<lambda>y. y \<noteq> x) (m_set m k)) = set (m_set m k) - {x}" by auto
  then show ?thesis
    by (auto simp: mem_redis_def v_srem_def mem_view_simps Let_def filter_empty_conv
        simp flip: set_filter)
qed

lemma m_num_show: "m_str m k = Some (show_nat n) \<Longrightarrow> m_num m k = n"
  by (simp add: m_num_def)

lemma m_num_absent: "m k = None \<Longrightarrow> m_num m k = 0"
  by (simp add: m_num_def m_str_def)

interpretation mem: redis_service mem_redis mem_view
proof unfold_locales
  fix k m r
  show "set_or_absent (mem_view r) k \<Longrightarrow> mem_view (r_srem mem_redis k m r) = v_srem k m (mem_view r)"
    by (rule mem_view_srem)
next
  fix t k r
  show "mem_view (r_expire mem_redis k t r) = v_expire k t (mem_view r)"
    by (rule mem_view_expire)
next
  fix n r
  show "mem_view (r_tick mem_redis n r) = v_tick n (mem_view r)"
    by (rule mem_view_tick)
next
  fix r k
  show "r_ttl mem_redis k r = (case mem_view r k of
      None \<Rightarrow> -2 | Some (_, None) \<Rightarrow> -1 | Some (_, Some t) \<Rightarrow> int t)"
    by (auto simp: mem_redis_def mem_view_def split: option.splits)
qed (auto simp: mem_redis_def mem_view_simps m_num_show m_num_absent v_set_ex_def v_del_def
    v_set_num_def v_sadd_def v_hset_def Let_def split: if_splits)

section \<open>The client and its network\<close>

datatype RedisStoreError = Pool | Command | Decode | Build

text \<open>What happens to one use of the connection: it works, it is refused before it has any effect,
  or the server acts and its reply never arrives.\<close>

datatype net_event = Up | Refused | ReplyLost

record 'r client =
  server :: 'r
  net :: "net_event list"

definition pop_net :: "'r client \<Rightarrow> net_event \<times> 'r client" where
  "pop_net c = (case net c of [] \<Rightarrow> (Up, c) | e # es \<Rightarrow> (e, c\<lparr>net := es\<rparr>))"

definition connection :: "('r client, RedisStoreError, unit) io" where
  "connection c = (case pop_net c of
      (Refused, c') \<Rightarrow> (Inl Pool, c')
    | (_, c') \<Rightarrow> (Inr (), c'))"

text \<open>One round trip: a command, a transaction or a script, applied atomically by the server.\<close>

definition query :: "('r \<Rightarrow> 'a \<times> 'r) \<Rightarrow> ('r client, RedisStoreError, 'a) io" where
  "query f c = (case pop_net c of
      (Up, c') \<Rightarrow> (case f (server c') of (a, r) \<Rightarrow> (Inr a, c'\<lparr>server := r\<rparr>))
    | (Refused, c') \<Rightarrow> (Inl Command, c')
    | (ReplyLost, c') \<Rightarrow> (Inl Command, c'\<lparr>server := snd (f (server c'))\<rparr>))"

text \<open>The result of a \<open>serde_json\<close> call: its failure is the variant \<open>Decode\<close>.\<close>

definition json_result :: "'a option \<Rightarrow> ('s, RedisStoreError, 'a) io" where
  "json_result x = (case x of None \<Rightarrow> raise Decode | Some a \<Rightarrow> ret a)"

definition from_redis_error :: "RedisStoreError \<Rightarrow> AuthError" where
  "from_redis_error e = AuthError.Internal (case e of
      Pool \<Rightarrow> ''redis connection pool unavailable''
    | Command \<Rightarrow> ''redis command failed''
    | Decode \<Rightarrow> ''stored redis value could not be decoded''
    | Build \<Rightarrow> ''redis connection pool could not be created'')"

definition calm :: "'r client \<Rightarrow> bool" where
  "calm c \<longleftrightarrow> set (net c) \<subseteq> {Up}"

lemma pop_net_calm: "calm c \<Longrightarrow> fst (pop_net c) = Up \<and> calm (snd (pop_net c))"
  by (auto simp: calm_def pop_net_def split: list.splits)

lemma server_pop_net: "pop_net c = (e, c') \<Longrightarrow> server c' = server c"
  by (auto simp: pop_net_def split: list.splits)

lemma pop_net_nil [simp]: "net c = [] \<Longrightarrow> pop_net c = (Up, c)"
  by (simp add: pop_net_def)

lemma server_connection: "server (snd (connection c)) = server c"
  by (auto simp: connection_def server_pop_net split: prod.splits net_event.splits)

lemma connection_calm:
  assumes "calm c"
  shows "\<exists>c'. connection c = (Inr (), c') \<and> calm c' \<and> server c' = server c"
proof -
  obtain e c' where p: "pop_net c = (e, c')" by fastforce
  with pop_net_calm [OF assms] show ?thesis
    by (simp add: connection_def server_pop_net)
qed

lemma connection_Inr: "connection c = (Inr u, c') \<Longrightarrow> server c' = server c"
  using server_connection [of c] by simp

lemma query_calm:
  assumes "calm c"
  shows "\<exists>c'. query f c = (Inr (fst (f (server c))), c') \<and> calm c' \<and> server c' = snd (f (server c))"
proof -
  obtain e c' where p: "pop_net c = (e, c')" by fastforce
  with pop_net_calm [OF assms] show ?thesis
    by (auto simp: query_def calm_def server_pop_net split: prod.splits)
qed

text \<open>Whatever the network does, a round trip either had its effect or left the server alone, and
  it had its effect when it answered.\<close>

lemma query_server: "server (snd (query f c)) \<in> {server c, snd (f (server c))}"
  by (auto simp: query_def dest: server_pop_net split: prod.splits net_event.splits)

lemma query_Inr: "query f c = (Inr a, c') \<Longrightarrow> f (server c) = (a, server c')"
  by (auto simp: query_def dest: server_pop_net split: prod.splits net_event.splits)

end
