(* ===== verification/Redis_Keys.thy ===== *)
theory Redis_Keys
  imports Redis_Service "HOL-Library.Word"
begin

text \<open>
  The key catalog of the store crate (\<open>keys.rs\<close>), the member format of the session index and the
  prefixes each identity plane selects (\<open>stores/session.rs\<close>). The lemmas show that the catalog is
  a code: two keys built under one namespace are equal only for the same prefix and the same
  identifier, so no operation on one key space can touch a key of another; a rate-limit key
  collides with none of them; and the hex rendering of a digest is injective.
\<close>

unbundle bit_operations_syntax

section \<open>Hexadecimal rendering\<close>

type_synonym u8 = "8 word"

definition hex_alphabet :: string where
  "hex_alphabet = ''0123456789abcdef''"

fun to_hex :: "u8 list \<Rightarrow> string" where
  "to_hex [] = []"
| "to_hex (byte # bytes) =
     hex_alphabet ! unat (drop_bit 4 byte) # hex_alphabet ! unat (byte AND 0x0f) # to_hex bytes"

section \<open>The prefix catalog\<close>

datatype Prefix =
    Rt
  | Rv
  | Ep
  | Pep
  | Rp
  | Cf
  | Fam
  | Sess
  | Sd
  | Lf
  | Otp
  | Resend
  | Wst
  | PwReset
  | PwVtok
  | Inv
  | Rcu
  | Ra
  | Ec
  | Invidx
  | Us
  | Uev
  | Prt
  | Prp
  | Pcf
  | Pfam
  | Psess
  | Psd
  | MfaSetup
  | Mfa
  | Mfalock
  | Tu
  | Os

fun as_str :: "Prefix \<Rightarrow> string" where
  "as_str Rt = ''rt''"
| "as_str Rv = ''rv''"
| "as_str Ep = ''ep''"
| "as_str Pep = ''pep''"
| "as_str Rp = ''rp''"
| "as_str Cf = ''cf''"
| "as_str Fam = ''fam''"
| "as_str Sess = ''sess''"
| "as_str Sd = ''sd''"
| "as_str Lf = ''lf''"
| "as_str Otp = ''otp''"
| "as_str Resend = ''resend''"
| "as_str Wst = ''wst''"
| "as_str PwReset = ''pw_reset''"
| "as_str PwVtok = ''pw_vtok''"
| "as_str Inv = ''inv''"
| "as_str Rcu = ''rcu''"
| "as_str Ra = ''ra''"
| "as_str Ec = ''ec''"
| "as_str Invidx = ''invidx''"
| "as_str Us = ''us''"
| "as_str Uev = ''uev''"
| "as_str Prt = ''prt''"
| "as_str Prp = ''prp''"
| "as_str Pcf = ''pcf''"
| "as_str Pfam = ''pfam''"
| "as_str Psess = ''psess''"
| "as_str Psd = ''psd''"
| "as_str MfaSetup = ''mfa_setup''"
| "as_str Mfa = ''mfa''"
| "as_str Mfalock = ''mfalock''"
| "as_str Tu = ''tu''"
| "as_str Os = ''os''"

definition key :: "string \<Rightarrow> Prefix \<Rightarrow> string \<Rightarrow> string" where
  "key ns prefix id' = ns @ '':'' @ as_str prefix @ '':'' @ id'"

definition rate_limit_key :: "string \<Rightarrow> string \<Rightarrow> string \<Rightarrow> string" where
  "rate_limit_key ns route bucket_hash = ns @ '':rl:'' @ route @ '':'' @ bucket_hash"

section \<open>Identity planes and the session index\<close>

datatype SessionKind = Dashboard | Platform

record KindPrefixes =
  kp_rt :: Prefix
  kp_rp :: Prefix
  kp_cf :: Prefix
  kp_fam :: Prefix
  kp_sess :: Prefix
  kp_sd :: Prefix

fun kind_prefixes :: "SessionKind \<Rightarrow> KindPrefixes" where
  "kind_prefixes Dashboard =
     \<lparr>kp_rt = Rt, kp_rp = Rp, kp_cf = Cf, kp_fam = Fam, kp_sess = Sess, kp_sd = Sd\<rparr>"
| "kind_prefixes Platform =
     \<lparr>kp_rt = Prt, kp_rp = Prp, kp_cf = Pcf, kp_fam = Pfam, kp_sess = Psess, kp_sd = Psd\<rparr>"

fun epoch_prefix :: "SessionKind \<Rightarrow> Prefix" where
  "epoch_prefix Dashboard = Ep"
| "epoch_prefix Platform = Pep"

definition index_member :: "Prefix \<Rightarrow> string \<Rightarrow> string" where
  "index_member prefix hash = as_str prefix @ '':'' @ hash"

definition live_member_hash :: "string \<Rightarrow> Prefix \<Rightarrow> string option" where
  "live_member_hash member live =
     (case strip_prefix (as_str live) member of
        None \<Rightarrow> None
      | Some rest \<Rightarrow> strip_prefix '':'' rest)"

abbreviation rt_key :: "string \<Rightarrow> SessionKind \<Rightarrow> string \<Rightarrow> string" where
  "rt_key ns kind h \<equiv> key ns (kp_rt (kind_prefixes kind)) h"

abbreviation rp_key :: "string \<Rightarrow> SessionKind \<Rightarrow> string \<Rightarrow> string" where
  "rp_key ns kind h \<equiv> key ns (kp_rp (kind_prefixes kind)) h"

abbreviation cf_key :: "string \<Rightarrow> SessionKind \<Rightarrow> string \<Rightarrow> string" where
  "cf_key ns kind h \<equiv> key ns (kp_cf (kind_prefixes kind)) h"

abbreviation fam_key :: "string \<Rightarrow> SessionKind \<Rightarrow> string \<Rightarrow> string" where
  "fam_key ns kind f \<equiv> key ns (kp_fam (kind_prefixes kind)) f"

abbreviation sess_key :: "string \<Rightarrow> SessionKind \<Rightarrow> string \<Rightarrow> string" where
  "sess_key ns kind s \<equiv> key ns (kp_sess (kind_prefixes kind)) s"

abbreviation sd_key :: "string \<Rightarrow> SessionKind \<Rightarrow> string \<Rightarrow> string" where
  "sd_key ns kind h \<equiv> key ns (kp_sd (kind_prefixes kind)) h"

section \<open>The catalog is a code\<close>

lemma as_str_inj [simp]: "as_str p = as_str q \<longleftrightarrow> p = q"
  by (cases p; cases q) simp_all

lemma colon_notin_as_str [simp]: "CHR '':'' \<notin> set (as_str p)"
  by (cases p) simp_all

lemma as_str_not_rl: "as_str p \<noteq> ''rl''"
  by (cases p) simp_all

lemma as_str_sep_inj [simp]:
  "as_str p @ CHR '':'' # i = as_str q @ CHR '':'' # j \<longleftrightarrow> p = q \<and> i = j"
  by (simp add: sep_append_inj)

lemma key_eq_iff [simp]: "key ns p i = key ns q j \<longleftrightarrow> p = q \<and> i = j"
  by (simp add: key_def)

lemma key_not_Nil [simp]: "key ns p i \<noteq> []"
  by (simp add: key_def)

lemma index_member_eq_iff [simp]: "index_member p h = index_member q g \<longleftrightarrow> p = q \<and> h = g"
  by (simp add: index_member_def)

text \<open>A member of the index names its own key: prepending the namespace rebuilds it.\<close>

lemma key_index_member: "ns @ '':'' @ index_member p h = key ns p h"
  by (simp add: index_member_def key_def)

lemma key_fold: "ns @ CHR '':'' # as_str p @ CHR '':'' # i = key ns p i"
  by (simp add: key_def)

lemma index_member_fold: "as_str p @ CHR '':'' # i = index_member p i"
  by (simp add: index_member_def)

lemma live_member_hash_iff: "live_member_hash m p = Some h \<longleftrightarrow> m = index_member p h"
  by (auto simp: live_member_hash_def index_member_def strip_prefix_Some_iff
      split: option.splits)

lemma live_member_hash_index_member [simp]:
  "live_member_hash (index_member q h) p = (if p = q then Some h else None)"
  using live_member_hash_iff [of "index_member q h" p]
  by (cases "live_member_hash (index_member q h) p") auto

lemma starts_with_index_member [simp]:
  "starts_with (as_str p @ '':'') (index_member q h) \<longleftrightarrow> p = q"
  by (auto simp: starts_with_iff index_member_def)

lemma rate_limit_key_not_key: "rate_limit_key ns route b \<noteq> key ns p i"
proof
  assume "rate_limit_key ns route b = key ns p i"
  then have "''rl'' @ CHR '':'' # (route @ '':'' @ b) = as_str p @ CHR '':'' # i"
    by (simp add: rate_limit_key_def key_def)
  then have "''rl'' = as_str p"
    by (subst (asm) sep_append_inj) simp_all
  with as_str_not_rl show False by metis
qed

lemma rate_limit_key_eq_iff:
  "length b = length b' \<Longrightarrow>
     rate_limit_key ns route b = rate_limit_key ns route' b' \<longleftrightarrow> route = route' \<and> b = b'"
  by (simp add: rate_limit_key_def)

lemma kind_prefixes_eq_iff [simp]:
  "kp_rt (kind_prefixes k) = kp_rt (kind_prefixes l) \<longleftrightarrow> k = l"
  "kp_rp (kind_prefixes k) = kp_rp (kind_prefixes l) \<longleftrightarrow> k = l"
  "kp_cf (kind_prefixes k) = kp_cf (kind_prefixes l) \<longleftrightarrow> k = l"
  "kp_fam (kind_prefixes k) = kp_fam (kind_prefixes l) \<longleftrightarrow> k = l"
  "kp_sess (kind_prefixes k) = kp_sess (kind_prefixes l) \<longleftrightarrow> k = l"
  "kp_sd (kind_prefixes k) = kp_sd (kind_prefixes l) \<longleftrightarrow> k = l"
  by (cases k; cases l; simp)+

lemma kind_prefixes_distinct [simp]:
  "kp_rt (kind_prefixes k) \<noteq> kp_rp (kind_prefixes l)" "kp_rp (kind_prefixes l) \<noteq> kp_rt (kind_prefixes k)"
  "kp_rt (kind_prefixes k) \<noteq> kp_cf (kind_prefixes l)" "kp_cf (kind_prefixes l) \<noteq> kp_rt (kind_prefixes k)"
  "kp_rt (kind_prefixes k) \<noteq> kp_fam (kind_prefixes l)" "kp_fam (kind_prefixes l) \<noteq> kp_rt (kind_prefixes k)"
  "kp_rt (kind_prefixes k) \<noteq> kp_sess (kind_prefixes l)" "kp_sess (kind_prefixes l) \<noteq> kp_rt (kind_prefixes k)"
  "kp_rt (kind_prefixes k) \<noteq> kp_sd (kind_prefixes l)" "kp_sd (kind_prefixes l) \<noteq> kp_rt (kind_prefixes k)"
  "kp_rp (kind_prefixes k) \<noteq> kp_cf (kind_prefixes l)" "kp_cf (kind_prefixes l) \<noteq> kp_rp (kind_prefixes k)"
  "kp_rp (kind_prefixes k) \<noteq> kp_fam (kind_prefixes l)" "kp_fam (kind_prefixes l) \<noteq> kp_rp (kind_prefixes k)"
  "kp_rp (kind_prefixes k) \<noteq> kp_sess (kind_prefixes l)" "kp_sess (kind_prefixes l) \<noteq> kp_rp (kind_prefixes k)"
  "kp_rp (kind_prefixes k) \<noteq> kp_sd (kind_prefixes l)" "kp_sd (kind_prefixes l) \<noteq> kp_rp (kind_prefixes k)"
  "kp_cf (kind_prefixes k) \<noteq> kp_fam (kind_prefixes l)" "kp_fam (kind_prefixes l) \<noteq> kp_cf (kind_prefixes k)"
  "kp_cf (kind_prefixes k) \<noteq> kp_sess (kind_prefixes l)" "kp_sess (kind_prefixes l) \<noteq> kp_cf (kind_prefixes k)"
  "kp_cf (kind_prefixes k) \<noteq> kp_sd (kind_prefixes l)" "kp_sd (kind_prefixes l) \<noteq> kp_cf (kind_prefixes k)"
  "kp_fam (kind_prefixes k) \<noteq> kp_sess (kind_prefixes l)" "kp_sess (kind_prefixes l) \<noteq> kp_fam (kind_prefixes k)"
  "kp_fam (kind_prefixes k) \<noteq> kp_sd (kind_prefixes l)" "kp_sd (kind_prefixes l) \<noteq> kp_fam (kind_prefixes k)"
  "kp_sess (kind_prefixes k) \<noteq> kp_sd (kind_prefixes l)" "kp_sd (kind_prefixes l) \<noteq> kp_sess (kind_prefixes k)"
  by (cases k; cases l; simp)+

section \<open>Hex is injective\<close>

lemma hex_alphabet_nth_inj:
  assumes "i < 16" and "j < 16"
  shows "hex_alphabet ! i = hex_alphabet ! j \<longleftrightarrow> i = j"
proof -
  have "distinct hex_alphabet" by (simp add: hex_alphabet_def)
  moreover have "length hex_alphabet = 16" by (simp add: hex_alphabet_def)
  ultimately show ?thesis using assms nth_eq_iff_index_eq by metis
qed

lemma hi_nibble_less: "unat (drop_bit 4 (b :: u8)) < 16"
proof -
  have "unat b < 256" using unsigned_less [of b] by simp
  then show ?thesis by (simp add: drop_bit_eq_div unat_div)
qed

lemma lo_nibble_eq: "unat ((b :: u8) AND 0x0f) = unat b mod 16"
proof -
  have "(b AND 0x0f) = take_bit 4 b"
    by (simp add: take_bit_eq_mask mask_eq_exp_minus_1)
  then show ?thesis by (simp add: take_bit_eq_mod unat_mod)
qed

lemma hi_nibble_eq: "unat (drop_bit 4 (b :: u8)) = unat b div 16"
  by (simp add: drop_bit_eq_div unat_div)

lemma length_to_hex [simp]: "length (to_hex bs) = 2 * length bs"
  by (induction bs) auto

lemma set_to_hex: "set (to_hex bs) \<subseteq> set hex_alphabet"
proof (induction bs)
  case (Cons b bs)
  have "length hex_alphabet = 16" by (simp add: hex_alphabet_def)
  with Cons hi_nibble_less [of b] lo_nibble_eq [of b] show ?case by (auto intro!: nth_mem)
qed simp

lemma colon_notin_to_hex [simp]: "CHR '':'' \<notin> set (to_hex bs)"
  using set_to_hex [of bs] by (auto simp: hex_alphabet_def)

lemma byte_eq_of_nibbles:
  "unat (b :: u8) div 16 = unat c div 16 \<Longrightarrow> unat b mod 16 = unat c mod 16 \<Longrightarrow> b = c"
  by (metis div_mult_mod_eq unsigned_word_eqI)

lemma to_hex_inj [simp]: "to_hex bs = to_hex cs \<longleftrightarrow> bs = cs"
proof (induction bs arbitrary: cs)
  case Nil
  show ?case by (cases cs) auto
next
  case (Cons b bs)
  show ?case
  proof (cases cs)
    case (Cons c cs')
    have "unat b mod 16 < 16" "unat c mod 16 < 16" by simp_all
    with Cons Cons.IH hi_nibble_less [of b] hi_nibble_less [of c] show ?thesis
      by (auto simp: hex_alphabet_nth_inj lo_nibble_eq hi_nibble_eq intro: byte_eq_of_nibbles)
  qed simp
qed

end
