(* ===== verification/Session_Store.thy ===== *)
theory Session_Store
  imports Redis_Keys
begin

text \<open>
  The refresh-session store: \<open>stores/session.rs\<close>, \<open>stores/session_listing.rs\<close>, the scripts
  \<open>refresh_rotate\<close>, \<open>recover_grace\<close>, \<open>session_revoke\<close>, \<open>session_prune_dead\<close>,
  \<open>invalidate_user_sessions\<close> and \<open>revoke_family\<close>, and the records they store
  (\<open>crates/bymax-auth-core/src/traits/store.rs\<close>).

  A script is a function on the server state, as it runs there as one step; a Rust method is a
  sequence of round trips through the client. The JSON codec is a parameter (\<open>codec\<close>); what the
  store relies on is the locale \<open>session_codec\<close>: a record reads back as it was written, a record
  is written as a JSON object, and a detail reads back at millisecond precision.
\<close>

section \<open>Stored records\<close>

record SessionRecord =
  sr_user_id :: string
  sr_tenant_id :: "string option"
  sr_role :: string
  sr_device :: string
  sr_ip :: string
  sr_created_at :: int
  sr_mfa_enabled :: bool
  sr_mfa_verified :: bool
  sr_family_id :: string
  sr_family_created_at :: "int option"

record SessionDetailValue =
  dv_device :: string
  dv_ip :: string
  dv_created_at :: int
  dv_last_activity_at :: int

definition at_creation :: "SessionRecord \<Rightarrow> SessionDetailValue" where
  "at_creation record' =
     \<lparr>dv_device = sr_device record', dv_ip = sr_ip record',
      dv_created_at = sr_created_at record', dv_last_activity_at = sr_created_at record'\<rparr>"

record SessionDetail =
  sdt_session_hash :: string
  sdt_device :: string
  sdt_ip :: string
  sdt_created_at :: int
  sdt_last_activity_at :: int

record SessionEntry =
  se_session_hash :: string
  se_detail :: "SessionDetail option"

record SessionRotation =
  ro_old_hash :: string
  ro_new_hash :: string
  ro_new_raw :: string
  ro_new_record :: SessionRecord
  ro_subject_hash :: string
  ro_refresh_ttl :: nat
  ro_grace_ttl :: nat

datatype RotateOutcome =
    Rotated SessionRecord
  | Grace SessionRecord
  | Reused string
  | Invalid

definition token_epoch_retention_secs :: nat where
  "token_epoch_retention_secs = 30 * 24 * 60 * 60"

section \<open>Instants on the wire\<close>

text \<open>
  Instants are nanoseconds since the epoch. The detail record carries them as milliseconds:
  division truncates towards zero and the result is clamped to the \<open>i64\<close> range.
\<close>

definition trunc_div :: "int \<Rightarrow> int \<Rightarrow> int" where
  "trunc_div a b = sgn a * sgn b * (\<bar>a\<bar> div \<bar>b\<bar>)"

definition i64_clamp :: "int \<Rightarrow> int" where
  "i64_clamp n = max (- (2 ^ 63)) (min (2 ^ 63 - 1) n)"

definition unix_millis_serialize :: "int \<Rightarrow> int" where
  "unix_millis_serialize nanos = i64_clamp (trunc_div nanos 1000000)"

definition unix_millis_deserialize :: "int \<Rightarrow> int" where
  "unix_millis_deserialize millis = millis * 1000000"

definition at_millis :: "SessionDetailValue \<Rightarrow> SessionDetailValue" where
  "at_millis d =
     d\<lparr>dv_created_at := unix_millis_deserialize (unix_millis_serialize (dv_created_at d)),
       dv_last_activity_at :=
         unix_millis_deserialize (unix_millis_serialize (dv_last_activity_at d))\<rparr>"

section \<open>The JSON codec\<close>

record codec =
  enc_rec :: "SessionRecord \<Rightarrow> string option"
  dec_rec :: "string \<Rightarrow> SessionRecord option"
  enc_det :: "SessionDetailValue \<Rightarrow> string"
  dec_det :: "string \<Rightarrow> SessionDetailValue option"

text \<open>
  The RFC 3339 form of an instant covers the years 0 to 9999; a record outside it is refused by
  the encoder.
\<close>

definition instant_ok :: "int \<Rightarrow> bool" where
  "instant_ok t \<longleftrightarrow> -62167219200 * 10 ^ 9 \<le> t \<and> t < 253402300800 * 10 ^ 9"

definition record_ok :: "SessionRecord \<Rightarrow> bool" where
  "record_ok s \<longleftrightarrow> instant_ok (sr_created_at s) \<and>
     (case sr_family_created_at s of None \<Rightarrow> True | Some t \<Rightarrow> instant_ok t)"

locale session_codec =
  fixes J :: codec
  assumes enc_rec_total: "record_ok s \<Longrightarrow> \<exists>j. enc_rec J s = Some j"
    and enc_rec_object: "enc_rec J s = Some j \<Longrightarrow> \<exists>body. j = CHR ''{'' # body"
    and dec_enc_rec: "enc_rec J s = Some j \<Longrightarrow> dec_rec J j = Some s"
    and dec_enc_det: "instant_ok (dv_created_at d) \<Longrightarrow> instant_ok (dv_last_activity_at d) \<Longrightarrow>
          dec_det J (enc_det J d) = Some (at_millis d)"

text \<open>The pooled handle: the server's commands, the codec and the namespace of its keys.\<close>

record 'r RedisStores =
  rs_redis :: "'r redis"
  rs_codec :: codec
  rs_namespace :: string

type_synonym ('r, 'a) redis_io = "('r client, RedisStoreError, 'a) io"
type_synonym ('r, 'a) store_io = "('r client, AuthError, 'a) io"

text \<open>\<open>i64::try_from(ttl).unwrap_or(i64::MAX)\<close>.\<close>

definition ttl_window :: "nat \<Rightarrow> nat" where
  "ttl_window ttl_secs = (if ttl_secs \<le> 2 ^ 63 - 1 then ttl_secs else 2 ^ 63 - 1)"

section \<open>Creating a session\<close>

text \<open>The \<open>MULTI\<close>/\<open>EXEC\<close> transaction.\<close>

definition create_session_tx ::
    "'r RedisStores \<Rightarrow> SessionKind \<Rightarrow> string \<Rightarrow> string \<Rightarrow> string \<Rightarrow> string \<Rightarrow> string \<Rightarrow> nat \<Rightarrow> 'r \<Rightarrow> 'r" where
  "create_session_tx S kind subject_hash token_hash family record_json detail_json ttl_secs r0 =
     (let R = rs_redis S; ns = rs_namespace S; p = kind_prefixes kind;
          sess = key ns (kp_sess p) subject_hash;
          r1 = r_set_ex R (key ns (kp_rt p) token_hash) record_json ttl_secs r0;
          r2 = r_sadd R sess (index_member (kp_rt p) token_hash) r1;
          r3 = r_set_ex R (key ns (kp_sd p) token_hash) detail_json ttl_secs r2;
          r4 = r_expire R sess (ttl_window ttl_secs) r3
      in if family = [] then r4
         else let fam = key ns (kp_fam p) family
              in r_expire R fam (ttl_window ttl_secs) (r_sadd R fam token_hash r4))"

definition create_session_inner ::
    "'r RedisStores \<Rightarrow> SessionKind \<Rightarrow> string \<Rightarrow> string \<Rightarrow> SessionRecord \<Rightarrow> nat \<Rightarrow> ('r, unit) redis_io" where
  "create_session_inner S kind subject_hash token_hash detail ttl_secs =
     (let J = rs_codec S
      in rbind (json_result (enc_rec J detail)) (\<lambda>record_json.
         rbind connection (\<lambda>_.
           query (\<lambda>r. ((), create_session_tx S kind subject_hash token_hash (sr_family_id detail)
                            record_json (enc_det J (at_creation detail)) ttl_secs r)))))"

definition recover_grace ::
    "'r redis \<Rightarrow> string \<Rightarrow> string \<Rightarrow> string \<Rightarrow> string \<Rightarrow> string \<Rightarrow> string \<Rightarrow> nat \<Rightarrow> string \<Rightarrow> string \<Rightarrow>
     string \<Rightarrow> 'r \<Rightarrow> nat \<times> 'r" where
  "recover_grace R rt sess sd fam record_json detail_json ttl family live_member new_hash r0 =
     (if \<not> r_exists R sess r0 then (0, r0)
      else if family \<noteq> [] \<and> \<not> r_exists R fam r0 then (0, r0)
      else let r1 = r_set_ex R rt record_json ttl r0;
               r2 = r_sadd R sess live_member r1;
               r3 = r_expire R sess ttl r2;
               r4 = r_set_ex R sd detail_json ttl r3
           in (1, if family \<noteq> [] then r_expire R fam ttl (r_sadd R fam new_hash r4) else r4))"

definition recover_script ::
    "'r RedisStores \<Rightarrow> SessionKind \<Rightarrow> string \<Rightarrow> string \<Rightarrow> string \<Rightarrow> string \<Rightarrow> string \<Rightarrow> nat \<Rightarrow> 'r \<Rightarrow>
     nat \<times> 'r" where
  "recover_script S kind subject_hash token_hash family record_json detail_json ttl_secs =
     (let ns = rs_namespace S; p = kind_prefixes kind
      in recover_grace (rs_redis S) (key ns (kp_rt p) token_hash) (key ns (kp_sess p) subject_hash)
           (key ns (kp_sd p) token_hash) (key ns (kp_fam p) family) record_json detail_json ttl_secs
           family (index_member (kp_rt p) token_hash) token_hash)"

definition create_recovered_session_inner ::
    "'r RedisStores \<Rightarrow> SessionKind \<Rightarrow> string \<Rightarrow> string \<Rightarrow> SessionRecord \<Rightarrow> nat \<Rightarrow> ('r, bool) redis_io" where
  "create_recovered_session_inner S kind subject_hash token_hash detail ttl_secs =
     (let J = rs_codec S
      in rbind (json_result (enc_rec J detail)) (\<lambda>record_json.
         rbind connection (\<lambda>_.
         rbind (query (recover_script S kind subject_hash token_hash (sr_family_id detail)
                  record_json (enc_det J (at_creation detail)) ttl_secs))
           (\<lambda>written. ret (written = 1)))))"

section \<open>Rotation\<close>

definition consumed_family :: "'r redis \<Rightarrow> string \<Rightarrow> 'r \<Rightarrow> string option \<times> 'r" where
  "consumed_family R cf_old r =
     (case r_get R cf_old r of Some family \<Rightarrow> (Some (''REUSED:'' @ family), r) | None \<Rightarrow> (None, r))"

definition refresh_rotate ::
    "'r redis \<Rightarrow> string \<Rightarrow> string \<Rightarrow> string \<Rightarrow> string \<Rightarrow> string \<Rightarrow> string \<Rightarrow> string \<Rightarrow> nat \<Rightarrow> nat \<Rightarrow> string \<Rightarrow>
     string \<Rightarrow> string \<Rightarrow> string \<Rightarrow> string \<Rightarrow> string \<Rightarrow> 'r \<Rightarrow> string option \<times> 'r" where
  "refresh_rotate R rt_old rt_new rp_old cf_old fam sess new_json refresh_ttl grace_ttl family
       old_hash new_hash rt_prefix rt_name rp_name r0 =
     (case r_get R rt_old r0 of
        Some old \<Rightarrow>
          (let r1 = r_set_ex R rt_new new_json refresh_ttl r0;
               r2 = (if grace_ttl > 0 then r_set_ex R rp_old (new_hash @ '':'' @ new_json) grace_ttl r1
                     else r1);
               r3 = (if family \<noteq> []
                     then r_expire R fam refresh_ttl
                            (r_sadd R fam new_hash
                              (r_srem R fam old_hash (r_set_ex R cf_old family refresh_ttl r2)))
                     else r2);
               r4 = r_srem R sess (rt_name @ '':'' @ old_hash) r3;
               r5 = r_sadd R sess (rt_name @ '':'' @ new_hash) r4;
               r6 = (if grace_ttl > 0 then r_sadd R sess (rp_name @ '':'' @ old_hash) r5 else r5);
               r7 = r_expire R sess refresh_ttl r6
           in (Some old, snd (r_del R rt_old r7)))
      | None \<Rightarrow>
          (case r_get R rp_old r0 of
             Some grace \<Rightarrow>
               (let r1 = snd (r_del R rp_old r0)
                in case split_once (CHR '':'') grace of
                     Some (successor, json) \<Rightarrow>
                       if r_exists R (rt_prefix @ '':'' @ successor) r1
                       then (Some (''GRACE:'' @ json), r1)
                       else consumed_family R cf_old r1
                   | None \<Rightarrow> consumed_family R cf_old r1)
           | None \<Rightarrow> consumed_family R cf_old r0))"

datatype RotateParsed =
    PRotated SessionRecord
  | PGrace SessionRecord
  | PReused string
  | PInvalid

definition interpret_rotate :: "codec \<Rightarrow> string option \<Rightarrow> RedisStoreError + RotateParsed" where
  "interpret_rotate J raw =
     (case raw of
        None \<Rightarrow> Inr PInvalid
      | Some payload \<Rightarrow>
          (case strip_prefix ''GRACE:'' payload of
             Some grace_json \<Rightarrow>
               (case dec_rec J grace_json of None \<Rightarrow> Inl Decode | Some s \<Rightarrow> Inr (PGrace s))
           | None \<Rightarrow>
               (case strip_prefix ''REUSED:'' payload of
                  Some family \<Rightarrow> Inr (PReused family)
                | None \<Rightarrow>
                    (case dec_rec J payload of None \<Rightarrow> Inl Decode | Some s \<Rightarrow> Inr (PRotated s)))))"

definition family_is_alive :: "'r RedisStores \<Rightarrow> Prefix \<Rightarrow> SessionRecord \<Rightarrow> ('r, bool) redis_io" where
  "family_is_alive S fam record' =
     (if sr_family_id record' = [] then ret True
      else query (\<lambda>r. (r_exists (rs_redis S) (key (rs_namespace S) fam (sr_family_id record')) r, r)))"

definition move_detail_tx :: "'r RedisStores \<Rightarrow> SessionKind \<Rightarrow> SessionRotation \<Rightarrow> 'r \<Rightarrow> 'r" where
  "move_detail_tx S kind rotation r =
     (let R = rs_redis S; ns = rs_namespace S; p = kind_prefixes kind
      in r_set_ex R (key ns (kp_sd p) (ro_new_hash rotation))
           (enc_det (rs_codec S) (at_creation (ro_new_record rotation))) (ro_refresh_ttl rotation)
           (snd (r_del R (key ns (kp_sd p) (ro_old_hash rotation)) r)))"

definition move_session_detail ::
    "'r RedisStores \<Rightarrow> SessionKind \<Rightarrow> SessionRotation \<Rightarrow> ('r, unit) redis_io" where
  "move_session_detail S kind rotation = query (\<lambda>r. ((), move_detail_tx S kind rotation r))"

definition rotate_script ::
    "'r RedisStores \<Rightarrow> SessionKind \<Rightarrow> SessionRotation \<Rightarrow> string \<Rightarrow> 'r \<Rightarrow> string option \<times> 'r" where
  "rotate_script S kind rotation new_json =
     (let ns = rs_namespace S; p = kind_prefixes kind; family = sr_family_id (ro_new_record rotation)
      in refresh_rotate (rs_redis S)
           (key ns (kp_rt p) (ro_old_hash rotation)) (key ns (kp_rt p) (ro_new_hash rotation))
           (key ns (kp_rp p) (ro_old_hash rotation)) (key ns (kp_cf p) (ro_old_hash rotation))
           (key ns (kp_fam p) family) (key ns (kp_sess p) (ro_subject_hash rotation))
           new_json (ro_refresh_ttl rotation) (ro_grace_ttl rotation) family
           (ro_old_hash rotation) (ro_new_hash rotation)
           (ns @ '':'' @ as_str (kp_rt p)) (as_str (kp_rt p)) (as_str (kp_rp p)))"

definition rotate_inner ::
    "'r RedisStores \<Rightarrow> SessionKind \<Rightarrow> SessionRotation \<Rightarrow> ('r, RotateOutcome) redis_io" where
  "rotate_inner S kind rotation =
     (let p = kind_prefixes kind
      in rbind (json_result (enc_rec (rs_codec S) (ro_new_record rotation))) (\<lambda>new_json.
         rbind connection (\<lambda>_.
         rbind (query (rotate_script S kind rotation new_json)) (\<lambda>raw.
         rbind (lift_result (interpret_rotate (rs_codec S) raw)) (\<lambda>parsed.
           case parsed of
             PInvalid \<Rightarrow> ret Invalid
           | PGrace record' \<Rightarrow>
               rbind (family_is_alive S (kp_fam p) record') (\<lambda>alive.
                 ret (if alive then Grace record' else Invalid))
           | PReused family \<Rightarrow> ret (Reused family)
           | PRotated old_record \<Rightarrow>
               rbind (move_session_detail S kind rotation) (\<lambda>_. ret (Rotated old_record)))))))"

section \<open>Revocation\<close>

fun revoke_members :: "'r redis \<Rightarrow> string \<Rightarrow> string \<Rightarrow> string \<Rightarrow> string \<Rightarrow> string list \<Rightarrow> 'r \<Rightarrow> 'r" where
  "revoke_members R ns rt sd sess_key' [] r = r"
| "revoke_members R ns rt sd sess_key' (hash # hashes) r =
     (let r1 = snd (r_del R (ns @ '':'' @ rt @ '':'' @ hash) r);
          r2 = snd (r_del R (ns @ '':'' @ sd @ '':'' @ hash) r1);
          r3 = (if sess_key' \<noteq> [] then r_srem R sess_key' (rt @ '':'' @ hash) r2 else r2)
      in revoke_members R ns rt sd sess_key' hashes r3)"

definition revoke_family_script ::
    "'r redis \<Rightarrow> string \<Rightarrow> string \<Rightarrow> string \<Rightarrow> string \<Rightarrow> string \<Rightarrow> 'r \<Rightarrow> nat \<times> 'r" where
  "revoke_family_script R fam ns rt sd sess_key' r =
     (let members = r_smembers R fam r
      in if members = [] then (0, snd (r_del R fam r))
         else (length members, snd (r_del R fam (revoke_members R ns rt sd sess_key' members r))))"

definition family_script ::
    "'r RedisStores \<Rightarrow> SessionKind \<Rightarrow> string \<Rightarrow> string option \<Rightarrow> 'r \<Rightarrow> nat \<times> 'r" where
  "family_script S kind family_id owner_subject_hash =
     (let ns = rs_namespace S; p = kind_prefixes kind;
          owner_index = (case owner_subject_hash of None \<Rightarrow> []
                         | Some hash \<Rightarrow> key ns (kp_sess p) hash)
      in revoke_family_script (rs_redis S) (key ns (kp_fam p) family_id) ns
           (as_str (kp_rt p)) (as_str (kp_sd p)) owner_index)"

definition revoke_family_inner ::
    "'r RedisStores \<Rightarrow> SessionKind \<Rightarrow> string \<Rightarrow> string option \<Rightarrow> ('r, unit) redis_io" where
  "revoke_family_inner S kind family_id owner_subject_hash =
     (if family_id = [] then ret ()
      else rbind connection (\<lambda>_.
           rbind (query (family_script S kind family_id owner_subject_hash)) (\<lambda>_. ret ())))"

text \<open>The loop over the members of a family: one \<open>GET\<close> each, the first readable owner wins.\<close>

fun find_owner_loop ::
    "'r RedisStores \<Rightarrow> Prefix \<Rightarrow> string list \<Rightarrow> ('r, SessionRecord option) redis_io" where
  "find_owner_loop S rt [] = ret None"
| "find_owner_loop S rt (hash # hashes) =
     rbind (query (\<lambda>r. (r_get (rs_redis S) (key (rs_namespace S) rt hash) r, r))) (\<lambda>raw.
       case raw of
         None \<Rightarrow> find_owner_loop S rt hashes
       | Some json \<Rightarrow>
           (case dec_rec (rs_codec S) json of
              None \<Rightarrow> find_owner_loop S rt hashes
            | Some record' \<Rightarrow>
                if sr_user_id record' \<noteq> [] then ret (Some record')
                else find_owner_loop S rt hashes))"

definition find_family_owner_inner ::
    "'r RedisStores \<Rightarrow> SessionKind \<Rightarrow> string \<Rightarrow> ('r, SessionRecord option) redis_io" where
  "find_family_owner_inner S kind family_id =
     (if family_id = [] then ret None
      else let p = kind_prefixes kind
           in rbind connection (\<lambda>_.
              rbind (query (\<lambda>r. (r_smembers (rs_redis S)
                                  (key (rs_namespace S) (kp_fam p) family_id) r, r)))
                (\<lambda>members. find_owner_loop S (kp_rt p) members)))"

definition find_session_inner ::
    "'r RedisStores \<Rightarrow> SessionKind \<Rightarrow> string \<Rightarrow> ('r, SessionRecord option) redis_io" where
  "find_session_inner S kind token_hash =
     rbind connection (\<lambda>_.
     rbind (query (\<lambda>r. (r_get (rs_redis S)
                          (key (rs_namespace S) (kp_rt (kind_prefixes kind)) token_hash) r, r)))
       (\<lambda>raw. case raw of
          None \<Rightarrow> ret None
        | Some json \<Rightarrow> rbind (json_result (dec_rec (rs_codec S) json)) (\<lambda>s. ret (Some s))))"

definition session_revoke :: "'r redis \<Rightarrow> string \<Rightarrow> string \<Rightarrow> string \<Rightarrow> string \<Rightarrow> 'r \<Rightarrow> bool \<times> 'r" where
  "session_revoke R sess rt sd member r =
     (if \<not> r_sismember R sess member r then (False, r)
      else (True, snd (r_del R sd (snd (r_del R rt (r_srem R sess member r))))))"

definition revoke_script :: "'r RedisStores \<Rightarrow> SessionKind \<Rightarrow> string \<Rightarrow> string \<Rightarrow> 'r \<Rightarrow> bool \<times> 'r" where
  "revoke_script S kind subject_hash session_hash =
     (let ns = rs_namespace S; p = kind_prefixes kind
      in session_revoke (rs_redis S) (key ns (kp_sess p) subject_hash)
           (key ns (kp_rt p) session_hash) (key ns (kp_sd p) session_hash)
           (index_member (kp_rt p) session_hash))"

definition revoke_session_inner ::
    "'r RedisStores \<Rightarrow> SessionKind \<Rightarrow> string \<Rightarrow> string \<Rightarrow> ('r, bool) redis_io" where
  "revoke_session_inner S kind subject_hash session_hash =
     rbind connection (\<lambda>_. query (revoke_script S kind subject_hash session_hash))"

definition delete_grace_pointer_inner ::
    "'r RedisStores \<Rightarrow> SessionKind \<Rightarrow> string \<Rightarrow> ('r, unit) redis_io" where
  "delete_grace_pointer_inner S kind session_hash =
     rbind connection (\<lambda>_.
     rbind (query (r_del (rs_redis S)
              (key (rs_namespace S) (kp_rp (kind_prefixes kind)) session_hash)))
       (\<lambda>_. ret ()))"

definition is_hash64 :: "string \<Rightarrow> bool" where
  "is_hash64 s \<longleftrightarrow> length s = 64 \<and> list_all (\<lambda>c. c \<in> set hex_alphabet) s"

definition successor_of_pointer :: "string \<Rightarrow> string option" where
  "successor_of_pointer pointer =
     (case split_once (CHR '':'') pointer of
        None \<Rightarrow> None
      | Some (successor, _) \<Rightarrow> if is_hash64 successor then Some successor else None)"

definition grace_successor_inner ::
    "'r RedisStores \<Rightarrow> SessionKind \<Rightarrow> string \<Rightarrow> ('r, string option) redis_io" where
  "grace_successor_inner S kind session_hash =
     rbind connection (\<lambda>_.
     rbind (query (\<lambda>r. (r_get (rs_redis S)
                          (key (rs_namespace S) (kp_rp (kind_prefixes kind)) session_hash) r, r)))
       (\<lambda>pointer. ret (case pointer of None \<Rightarrow> None | Some s \<Rightarrow> successor_of_pointer s)))"

fun sweep_pointers_loop ::
    "'r RedisStores \<Rightarrow> string \<Rightarrow> string list \<Rightarrow> ('r, unit) redis_io" where
  "sweep_pointers_loop S sess [] = ret ()"
| "sweep_pointers_loop S sess (member # members) =
     rbind (query (r_del (rs_redis S) (rs_namespace S @ '':'' @ member))) (\<lambda>_.
     rbind (query (\<lambda>r. ((), r_srem (rs_redis S) sess member r))) (\<lambda>_.
       sweep_pointers_loop S sess members))"

definition sweep_grace_pointers_inner ::
    "'r RedisStores \<Rightarrow> SessionKind \<Rightarrow> string \<Rightarrow> ('r, unit) redis_io" where
  "sweep_grace_pointers_inner S kind subject_hash =
     (let p = kind_prefixes kind; sess = key (rs_namespace S) (kp_sess p) subject_hash
      in rbind connection (\<lambda>_.
         rbind (query (\<lambda>r. (r_smembers (rs_redis S) sess r, r))) (\<lambda>members.
           sweep_pointers_loop S sess
             (filter (starts_with (as_str (kp_rp p) @ '':'')) members))))"

fun invalidate_members :: "'r redis \<Rightarrow> string \<Rightarrow> string \<Rightarrow> string \<Rightarrow> string list \<Rightarrow> 'r \<Rightarrow> 'r" where
  "invalidate_members R ns live sd [] r = r"
| "invalidate_members R ns live sd (member # members) r =
     (let r1 = snd (r_del R (ns @ '':'' @ member) r);
          r2 = (case strip_prefix (live @ '':'') member of
                  Some hash \<Rightarrow> snd (r_del R (ns @ '':'' @ sd @ '':'' @ hash) r1)
                | None \<Rightarrow> r1)
      in invalidate_members R ns live sd members r2)"

definition invalidate_user_sessions ::
    "'r redis \<Rightarrow> string \<Rightarrow> string \<Rightarrow> string \<Rightarrow> string \<Rightarrow> 'r \<Rightarrow> nat \<times> 'r" where
  "invalidate_user_sessions R sess ns live sd r =
     (let members = r_smembers R sess r
      in (length members, snd (r_del R sess (invalidate_members R ns live sd members r))))"

definition revoke_all_script :: "'r RedisStores \<Rightarrow> SessionKind \<Rightarrow> string \<Rightarrow> 'r \<Rightarrow> nat \<times> 'r" where
  "revoke_all_script S kind subject_hash =
     (let p = kind_prefixes kind
      in invalidate_user_sessions (rs_redis S) (key (rs_namespace S) (kp_sess p) subject_hash)
           (rs_namespace S) (as_str (kp_rt p)) (as_str (kp_sd p)))"

definition revoke_all_inner :: "'r RedisStores \<Rightarrow> SessionKind \<Rightarrow> string \<Rightarrow> ('r, unit) redis_io" where
  "revoke_all_inner S kind subject_hash =
     rbind connection (\<lambda>_. rbind (query (revoke_all_script S kind subject_hash)) (\<lambda>_. ret ()))"

section \<open>The blacklist, the token epoch and the recent-authentication marker\<close>

definition blacklist_access_inner :: "'r RedisStores \<Rightarrow> string \<Rightarrow> nat \<Rightarrow> ('r, unit) redis_io" where
  "blacklist_access_inner S jti_or_hash remaining_ttl_secs =
     (if remaining_ttl_secs = 0 then ret ()
      else rbind connection (\<lambda>_.
           query (\<lambda>r. ((), r_set_ex (rs_redis S) (key (rs_namespace S) Rv jti_or_hash) ''1''
                            remaining_ttl_secs r))))"

definition is_blacklisted_inner :: "'r RedisStores \<Rightarrow> string \<Rightarrow> ('r, bool) redis_io" where
  "is_blacklisted_inner S jti_or_hash =
     rbind connection (\<lambda>_.
       query (\<lambda>r. (r_exists (rs_redis S) (key (rs_namespace S) Rv jti_or_hash) r, r)))"

text \<open>
  The driver reads a \<open>u64\<close> out of the reply with \<open>str::parse\<close>: an optional sign, then digits within
  the range. Anything else is a command error.
\<close>

definition parse_u64 :: "string \<Rightarrow> nat option" where
  "parse_u64 s =
     (case parse_nat (case s of CHR ''+'' # t \<Rightarrow> t | _ \<Rightarrow> s) of
        None \<Rightarrow> None
      | Some n \<Rightarrow> if n < 2 ^ 64 then Some n else None)"

definition read_u64 :: "string option \<Rightarrow> ('s, RedisStoreError, nat option) io" where
  "read_u64 raw = (case raw of
      None \<Rightarrow> ret None
    | Some s \<Rightarrow> (case parse_u64 s of None \<Rightarrow> raise Command | Some n \<Rightarrow> ret (Some n)))"

definition current_epoch_inner :: "'r RedisStores \<Rightarrow> SessionKind \<Rightarrow> string \<Rightarrow> ('r, nat) redis_io" where
  "current_epoch_inner S kind subject_hash =
     rbind connection (\<lambda>_.
     rbind (query (\<lambda>r. (r_get (rs_redis S)
                          (key (rs_namespace S) (epoch_prefix kind) subject_hash) r, r))) (\<lambda>raw.
     rbind (read_u64 raw) (\<lambda>value. ret (case value of None \<Rightarrow> 0 | Some n \<Rightarrow> n))))"

definition mark_recent_auth_inner :: "'r RedisStores \<Rightarrow> string \<Rightarrow> nat \<Rightarrow> ('r, unit) redis_io" where
  "mark_recent_auth_inner S user_id_hash ttl =
     rbind connection (\<lambda>_.
       query (\<lambda>r. ((), r_set_ex (rs_redis S) (key (rs_namespace S) Ra user_id_hash) ''1'' ttl r)))"

definition has_recent_auth_inner :: "'r RedisStores \<Rightarrow> string \<Rightarrow> ('r, bool) redis_io" where
  "has_recent_auth_inner S user_id_hash =
     rbind connection (\<lambda>_.
       query (\<lambda>r. (r_exists (rs_redis S) (key (rs_namespace S) Ra user_id_hash) r, r)))"

definition bump_epoch_inner :: "'r RedisStores \<Rightarrow> SessionKind \<Rightarrow> string \<Rightarrow> ('r, nat) redis_io" where
  "bump_epoch_inner S kind subject_hash =
     (let R = rs_redis S; k = key (rs_namespace S) (epoch_prefix kind) subject_hash
      in rbind connection (\<lambda>_.
         query (\<lambda>r. case r_incr R k r of
                      (new_value, r1) \<Rightarrow> (new_value, r_expire R k token_epoch_retention_secs r1))))"

section \<open>Listing\<close>

datatype DetailRead = Listed SessionDetail | Excluded

definition read_detail :: "codec \<Rightarrow> string \<Rightarrow> string option \<Rightarrow> DetailRead" where
  "read_detail J hash raw =
     (case raw of
        None \<Rightarrow> Excluded
      | Some s \<Rightarrow>
          (case dec_det J s of
             Some value \<Rightarrow>
               Listed \<lparr>sdt_session_hash = hash, sdt_device = dv_device value, sdt_ip = dv_ip value,
                       sdt_created_at = dv_created_at value,
                       sdt_last_activity_at = dv_last_activity_at value\<rparr>
           | None \<Rightarrow> Excluded))"

fun session_prune_dead ::
    "'r redis \<Rightarrow> string \<Rightarrow> string \<Rightarrow> string list \<Rightarrow> 'r \<Rightarrow> string list \<times> 'r" where
  "session_prune_dead R sess ns [] r = ([], r)"
| "session_prune_dead R sess ns (member # members) r =
     (if r_exists R (ns @ '':'' @ member) r then session_prune_dead R sess ns members r
      else case session_prune_dead R sess ns members (r_srem R sess member r) of
             (removed, r') \<Rightarrow> (member # removed, r'))"

definition prune_dead_members ::
    "'r RedisStores \<Rightarrow> string \<Rightarrow> string list \<Rightarrow> ('r, string list) redis_io" where
  "prune_dead_members S sess members =
     (if members = [] then ret []
      else query (session_prune_dead (rs_redis S) sess (rs_namespace S) members))"

text \<open>One pass over the members: the entries to report and the members that may be dead.\<close>

fun list_loop ::
    "'r RedisStores \<Rightarrow> KindPrefixes \<Rightarrow> string list \<Rightarrow> SessionEntry list \<Rightarrow> string list \<Rightarrow>
     ('r, SessionEntry list \<times> string list) redis_io" where
  "list_loop S p [] entries stale = ret (entries, stale)"
| "list_loop S p (member # members) entries stale =
     (case live_member_hash member (kp_rt p) of
        None \<Rightarrow>
          list_loop S p members entries
            (if starts_with (as_str (kp_rp p) @ '':'') member then stale @ [member] else stale)
      | Some hash \<Rightarrow>
          rbind (query (\<lambda>r. (r_get (rs_redis S) (key (rs_namespace S) (kp_sd p) hash) r, r))) (\<lambda>raw.
            case read_detail (rs_codec S) hash raw of
              Listed detail \<Rightarrow>
                list_loop S p members
                  (entries @ [\<lparr>se_session_hash = hash, se_detail = Some detail\<rparr>]) stale
            | Excluded \<Rightarrow>
                list_loop S p members
                  (entries @ [\<lparr>se_session_hash = hash, se_detail = None\<rparr>]) (stale @ [member])))"

definition list_session_entries_inner ::
    "'r RedisStores \<Rightarrow> SessionKind \<Rightarrow> string \<Rightarrow> ('r, SessionEntry list) redis_io" where
  "list_session_entries_inner S kind subject_hash =
     (let p = kind_prefixes kind; sess = key (rs_namespace S) (kp_sess p) subject_hash
      in rbind connection (\<lambda>_.
         rbind (query (\<lambda>r. (r_smembers (rs_redis S) sess r, r))) (\<lambda>members.
         rbind (list_loop S p members [] []) (\<lambda>(entries, stale).
         rbind (prune_dead_members S sess stale) (\<lambda>removed.
           ret (filter (\<lambda>entry. se_detail entry \<noteq> None \<or>
                   index_member (kp_rt p) (se_session_hash entry) \<notin> set removed) entries))))))"

section \<open>The store trait over Redis\<close>

definition create_session ::
    "'r RedisStores \<Rightarrow> SessionKind \<Rightarrow> string \<Rightarrow> string \<Rightarrow> SessionRecord \<Rightarrow> nat \<Rightarrow> ('r, unit) store_io" where
  "create_session S kind subject_hash token_hash detail ttl_secs =
     map_err from_redis_error (create_session_inner S kind subject_hash token_hash detail ttl_secs)"

definition rotate_session :: "'r RedisStores \<Rightarrow> SessionKind \<Rightarrow> SessionRotation \<Rightarrow> ('r, RotateOutcome) store_io" where
  "rotate_session S kind rotation = map_err from_redis_error (rotate_inner S kind rotation)"

definition find_session ::
    "'r RedisStores \<Rightarrow> SessionKind \<Rightarrow> string \<Rightarrow> ('r, SessionRecord option) store_io" where
  "find_session S kind token_hash = map_err from_redis_error (find_session_inner S kind token_hash)"

definition list_session_entries ::
    "'r RedisStores \<Rightarrow> SessionKind \<Rightarrow> string \<Rightarrow> ('r, SessionEntry list) store_io" where
  "list_session_entries S kind subject_hash =
     map_err from_redis_error (list_session_entries_inner S kind subject_hash)"

definition list_sessions ::
    "'r RedisStores \<Rightarrow> SessionKind \<Rightarrow> string \<Rightarrow> ('r, SessionDetail list) store_io" where
  "list_sessions S kind subject_hash =
     rbind (list_session_entries S kind subject_hash)
       (\<lambda>entries. ret (List.map_filter se_detail entries))"

definition revoke_session ::
    "'r RedisStores \<Rightarrow> SessionKind \<Rightarrow> string \<Rightarrow> string \<Rightarrow> ('r, unit) store_io" where
  "revoke_session S kind subject_hash session_hash =
     rbind (map_err from_redis_error (revoke_session_inner S kind subject_hash session_hash))
       (\<lambda>owned. if owned then ret () else raise AuthError.SessionNotFound)"

definition create_recovered_session ::
    "'r RedisStores \<Rightarrow> SessionKind \<Rightarrow> string \<Rightarrow> string \<Rightarrow> SessionRecord \<Rightarrow> nat \<Rightarrow> ('r, bool) store_io" where
  "create_recovered_session S kind subject_hash token_hash detail ttl_secs =
     map_err from_redis_error
       (create_recovered_session_inner S kind subject_hash token_hash detail ttl_secs)"

definition delete_grace_pointer :: "'r RedisStores \<Rightarrow> SessionKind \<Rightarrow> string \<Rightarrow> ('r, unit) store_io" where
  "delete_grace_pointer S kind session_hash =
     map_err from_redis_error (delete_grace_pointer_inner S kind session_hash)"

definition grace_successor :: "'r RedisStores \<Rightarrow> SessionKind \<Rightarrow> string \<Rightarrow> ('r, string option) store_io" where
  "grace_successor S kind session_hash =
     map_err from_redis_error (grace_successor_inner S kind session_hash)"

definition sweep_grace_pointers :: "'r RedisStores \<Rightarrow> SessionKind \<Rightarrow> string \<Rightarrow> ('r, unit) store_io" where
  "sweep_grace_pointers S kind subject_hash =
     map_err from_redis_error (sweep_grace_pointers_inner S kind subject_hash)"

definition revoke_all :: "'r RedisStores \<Rightarrow> SessionKind \<Rightarrow> string \<Rightarrow> ('r, unit) store_io" where
  "revoke_all S kind subject_hash = map_err from_redis_error (revoke_all_inner S kind subject_hash)"

definition find_family_owner ::
    "'r RedisStores \<Rightarrow> SessionKind \<Rightarrow> string \<Rightarrow> ('r, SessionRecord option) store_io" where
  "find_family_owner S kind family_id =
     map_err from_redis_error (find_family_owner_inner S kind family_id)"

definition revoke_family ::
    "'r RedisStores \<Rightarrow> SessionKind \<Rightarrow> string \<Rightarrow> string option \<Rightarrow> ('r, unit) store_io" where
  "revoke_family S kind family_id owner_subject_hash =
     map_err from_redis_error (revoke_family_inner S kind family_id owner_subject_hash)"

definition blacklist_access :: "'r RedisStores \<Rightarrow> string \<Rightarrow> nat \<Rightarrow> ('r, unit) store_io" where
  "blacklist_access S jti_or_hash remaining_ttl_secs =
     map_err from_redis_error (blacklist_access_inner S jti_or_hash remaining_ttl_secs)"

definition is_blacklisted :: "'r RedisStores \<Rightarrow> string \<Rightarrow> ('r, bool) store_io" where
  "is_blacklisted S jti_or_hash = map_err from_redis_error (is_blacklisted_inner S jti_or_hash)"

definition current_epoch :: "'r RedisStores \<Rightarrow> SessionKind \<Rightarrow> string \<Rightarrow> ('r, nat) store_io" where
  "current_epoch S kind subject_hash =
     map_err from_redis_error (current_epoch_inner S kind subject_hash)"

definition mark_recent_auth :: "'r RedisStores \<Rightarrow> string \<Rightarrow> nat \<Rightarrow> ('r, unit) store_io" where
  "mark_recent_auth S user_id_hash ttl =
     map_err from_redis_error (mark_recent_auth_inner S user_id_hash ttl)"

definition has_recent_auth :: "'r RedisStores \<Rightarrow> string \<Rightarrow> ('r, bool) store_io" where
  "has_recent_auth S user_id_hash = map_err from_redis_error (has_recent_auth_inner S user_id_hash)"

definition bump_epoch :: "'r RedisStores \<Rightarrow> SessionKind \<Rightarrow> string \<Rightarrow> ('r, nat) store_io" where
  "bump_epoch S kind subject_hash = map_err from_redis_error (bump_epoch_inner S kind subject_hash)"

end
