(* ===== verification/Field_Codec.thy ===== *)
theory Field_Codec
  imports Session_Store
begin

text \<open>
  A concrete codec. The sources encode stored values with \<open>serde_json\<close>, which is a parameter of the
  development; this theory builds a length-prefixed encoding of field lists and instantiates the
  contract \<open>session_codec\<close> with it, so that the contract is known to be satisfiable and concrete
  runs have values to work on.
\<close>

section \<open>Length-prefixed fields\<close>

definition put_field :: "string \<Rightarrow> string" where
  "put_field s = show_nat (length s) @ CHR '':'' # s"

definition take_field :: "string \<Rightarrow> (string \<times> string) option" where
  "take_field s =
     (case split_once (CHR '':'') s of
        None \<Rightarrow> None
      | Some (d, rest) \<Rightarrow>
          (case parse_nat d of None \<Rightarrow> None | Some n \<Rightarrow> Some (take n rest, drop n rest)))"

definition put_fields :: "string list \<Rightarrow> string" where
  "put_fields xs = concat (map put_field xs)"

fun take_fields :: "nat \<Rightarrow> string \<Rightarrow> string list option" where
  "take_fields 0 s = (if s = [] then Some [] else None)"
| "take_fields (Suc n) s =
     (case take_field s of
        None \<Rightarrow> None
      | Some (x, rest) \<Rightarrow> map_option (\<lambda>xs. x # xs) (take_fields n rest))"

lemma colon_notin_show_nat [simp]: "CHR '':'' \<notin> set (show_nat n)"
proof (induction n rule: show_nat.induct)
  case (1 n)
  have digit: "CHR '':'' \<noteq> digit_char d" if "d < 10" for d
  proof
    assume "CHR '':'' = digit_char d"
    with that have "char_digit (CHR '':'') = Some d" by simp
    then show False by (simp add: char_digit_def)
  qed
  show ?case
  proof (cases "n < 10")
    case True
    then show ?thesis by (simp add: show_nat.simps [of n] digit)
  next
    case False
    have "n mod 10 < 10" by simp
    with digit have "CHR '':'' \<noteq> digit_char (n mod 10)" by blast
    with False 1 show ?thesis by (simp add: show_nat.simps [of n])
  qed
qed

lemma take_put_field [simp]: "take_field (put_field s @ t) = Some (s, t)"
  by (simp add: take_field_def put_field_def split_once_append)

lemma take_put_fields: "length xs = n \<Longrightarrow> take_fields n (put_fields xs) = Some xs"
  by (induction xs arbitrary: n) (auto simp: put_fields_def)

section \<open>Scalars\<close>

definition show_int :: "int \<Rightarrow> string" where
  "show_int i = (if i < 0 then CHR ''-'' # show_nat (nat (- i)) else CHR ''+'' # show_nat (nat i))"

definition parse_int :: "string \<Rightarrow> int option" where
  "parse_int s =
     (case s of
        CHR ''-'' # t \<Rightarrow> map_option (\<lambda>n. - int n) (parse_nat t)
      | CHR ''+'' # t \<Rightarrow> map_option int (parse_nat t)
      | _ \<Rightarrow> None)"

definition show_bool :: "bool \<Rightarrow> string" where
  "show_bool b = (if b then ''true'' else ''false'')"

definition parse_bool :: "string \<Rightarrow> bool" where
  "parse_bool s \<longleftrightarrow> s = ''true''"

definition show_opt :: "('a \<Rightarrow> string) \<Rightarrow> 'a option \<Rightarrow> string" where
  "show_opt f x = (case x of None \<Rightarrow> [] | Some a \<Rightarrow> CHR ''='' # f a)"

definition parse_opt :: "(string \<Rightarrow> 'a option) \<Rightarrow> string \<Rightarrow> 'a option option" where
  "parse_opt f s = (case s of [] \<Rightarrow> Some None | _ # t \<Rightarrow> map_option Some (f t))"

lemma parse_int_show_int [simp]: "parse_int (show_int i) = Some i"
  by (simp add: parse_int_def show_int_def)

lemma parse_bool_show_bool [simp]: "parse_bool (show_bool b) = b"
  by (simp add: parse_bool_def show_bool_def)

lemma parse_opt_show_opt [simp]:
  "(\<And>a. f (g a) = Some a) \<Longrightarrow> parse_opt f (show_opt g x) = Some x"
  by (simp add: parse_opt_def show_opt_def split: option.splits)

section \<open>The session records\<close>

definition field_enc_rec :: "SessionRecord \<Rightarrow> string option" where
  "field_enc_rec s =
     (if record_ok s
      then Some (CHR ''{'' # put_fields
        [sr_user_id s, show_opt id (sr_tenant_id s), sr_role s, sr_device s, sr_ip s,
         show_int (sr_created_at s), show_bool (sr_mfa_enabled s), show_bool (sr_mfa_verified s),
         sr_family_id s, show_opt show_int (sr_family_created_at s)])
      else None)"

definition field_dec_rec :: "string \<Rightarrow> SessionRecord option" where
  "field_dec_rec j =
     (case take_fields 10 (tl j) of
        Some [user_id, tenant_id, role, device, ip, created_at, enabled, verified, family_id, birth] \<Rightarrow>
          (case (parse_opt Some tenant_id, parse_int created_at, parse_opt parse_int birth) of
             (Some tenant, Some created, Some born) \<Rightarrow>
               Some \<lparr>sr_user_id = user_id, sr_tenant_id = tenant, sr_role = role, sr_device = device,
                 sr_ip = ip, sr_created_at = created, sr_mfa_enabled = parse_bool enabled,
                 sr_mfa_verified = parse_bool verified, sr_family_id = family_id,
                 sr_family_created_at = born\<rparr>
           | _ \<Rightarrow> None)
      | _ \<Rightarrow> None)"

definition field_enc_det :: "SessionDetailValue \<Rightarrow> string" where
  "field_enc_det d = CHR ''{'' # put_fields
     [dv_device d, dv_ip d, show_int (unix_millis_serialize (dv_created_at d)),
      show_int (unix_millis_serialize (dv_last_activity_at d))]"

definition field_dec_det :: "string \<Rightarrow> SessionDetailValue option" where
  "field_dec_det j =
     (case take_fields 4 (tl j) of
        Some [device, ip, created_at, last_activity_at] \<Rightarrow>
          (case (parse_int created_at, parse_int last_activity_at) of
             (Some created, Some activity) \<Rightarrow>
               Some \<lparr>dv_device = device, dv_ip = ip,
                 dv_created_at = unix_millis_deserialize created,
                 dv_last_activity_at = unix_millis_deserialize activity\<rparr>
           | _ \<Rightarrow> None)
      | _ \<Rightarrow> None)"

definition field_codec :: codec where
  "field_codec = \<lparr>enc_rec = field_enc_rec, dec_rec = field_dec_rec,
                  enc_det = field_enc_det, dec_det = field_dec_det\<rparr>"

lemma take_put_fields_10:
  "take_fields 10 (put_fields [a, b, c, d, e, f, g, h, i, j]) = Some [a, b, c, d, e, f, g, h, i, j]"
  by (rule take_put_fields) simp

lemma take_put_fields_4:
  "take_fields 4 (put_fields [a, b, c, d]) = Some [a, b, c, d]"
  by (rule take_put_fields) simp

lemma field_dec_enc_rec: "field_enc_rec s = Some j \<Longrightarrow> field_dec_rec j = Some s"
  by (auto simp: field_enc_rec_def field_dec_rec_def take_put_fields_10 split: if_splits)

lemma field_dec_enc_det: "field_dec_det (field_enc_det d) = Some (at_millis d)"
  by (simp add: field_enc_det_def field_dec_det_def take_put_fields_4 at_millis_def)

interpretation fields: session_codec field_codec
  by unfold_locales
    (auto simp: field_codec_def field_dec_enc_rec field_dec_enc_det, auto simp: field_enc_rec_def
      split: if_splits)

end
