(* ===== verification/Session_Scripts.thy ===== *)
theory Session_Scripts
  imports Field_Codec
begin

text \<open>
  The effect of each session script on the key space, once for every server that satisfies
  \<open>redis_service\<close> and every codec that satisfies \<open>session_codec\<close>. The keyspaces of the session
  store hold the types its commands expect (\<open>typed\<close>), which every script keeps.
\<close>

section \<open>The contract the session store runs on\<close>

locale store_service = redis_service "rs_redis S" view + session_codec "rs_codec S"
  for S :: "'r RedisStores" and view :: "'r \<Rightarrow> rview"

definition mem_stores :: "mem RedisStores" where
  "mem_stores = \<lparr>rs_redis = mem_redis, rs_codec = field_codec, rs_namespace = ''auth''\<rparr>"

lemma mem_stores_sel [simp]:
  "rs_redis mem_stores = mem_redis" "rs_codec mem_stores = field_codec"
  "rs_namespace mem_stores = ''auth''"
  by (simp_all add: mem_stores_def)

interpretation mem_store: store_service mem_stores mem_view
  by (simp add: store_service_def mem.redis_service_axioms fields.session_codec_axioms)

definition typed :: "string \<Rightarrow> rview \<Rightarrow> bool" where
  "typed ns v \<longleftrightarrow> (\<forall>kind i. str_or_absent v (rt_key ns kind i) \<and> str_or_absent v (rp_key ns kind i) \<and>
     str_or_absent v (cf_key ns kind i) \<and> str_or_absent v (sd_key ns kind i) \<and>
     set_or_absent v (fam_key ns kind i) \<and> set_or_absent v (sess_key ns kind i))"

lemma typedD:
  assumes "typed ns v"
  shows "str_or_absent v (rt_key ns kind i)" "str_or_absent v (rp_key ns kind i)"
    "str_or_absent v (cf_key ns kind i)" "str_or_absent v (sd_key ns kind i)"
    "set_or_absent v (fam_key ns kind i)" "set_or_absent v (sess_key ns kind i)"
  using assms by (simp_all add: typed_def)

lemma typed_str_absent:
  "typed ns v \<Longrightarrow> v (rt_key ns kind i) = None \<longleftrightarrow> str_at v (rt_key ns kind i) = None"
  "typed ns v \<Longrightarrow> v (rp_key ns kind i) = None \<longleftrightarrow> str_at v (rp_key ns kind i) = None"
  using typedD [of ns v kind i]
  by (auto simp: str_or_absent_def str_at_def split: option.splits rvalue.splits)

lemma typed_tick: "typed ns v \<Longrightarrow> typed ns (v_tick n v)"
  by (simp add: typed_def view_type)

lemma ttl_window_ok [simp]: "ttl_ok t \<Longrightarrow> ttl_window t = t"
  by (simp add: ttl_ok_def ttl_window_def)

lemma ttl_ok_mono: "ttl_ok t \<Longrightarrow> 0 < u \<Longrightarrow> u \<le> t \<Longrightarrow> ttl_ok u"
  by (simp add: ttl_ok_def)

section \<open>Effects of the scripts\<close>

definition v_create ::
    "string \<Rightarrow> SessionKind \<Rightarrow> string \<Rightarrow> string \<Rightarrow> string \<Rightarrow> string \<Rightarrow> string \<Rightarrow> nat \<Rightarrow> rview \<Rightarrow> rview" where
  "v_create ns kind subject h family j d t v =
     (let v' = v_expire (sess_key ns kind subject) t (v_set_ex (sd_key ns kind h) d t
                 (v_sadd (sess_key ns kind subject) (index_member (kp_rt (kind_prefixes kind)) h)
                   (v_set_ex (rt_key ns kind h) j t v)))
      in if family = [] then v'
         else v_expire (fam_key ns kind family) t (v_sadd (fam_key ns kind family) h v'))"

definition v_rotate ::
    "string \<Rightarrow> SessionKind \<Rightarrow> SessionRotation \<Rightarrow> string \<Rightarrow> rview \<Rightarrow> rview" where
  "v_rotate ns kind rot j v =
     (let p = kind_prefixes kind; T = ro_refresh_ttl rot; G = ro_grace_ttl rot;
          family = sr_family_id (ro_new_record rot); old = ro_old_hash rot; new = ro_new_hash rot;
          sess = sess_key ns kind (ro_subject_hash rot); fam = fam_key ns kind family;
          v1 = v_set_ex (rt_key ns kind new) j T v;
          v2 = (if G > 0 then v_set_ex (rp_key ns kind old) (new @ '':'' @ j) G v1 else v1);
          v3 = (if family \<noteq> [] then v_expire fam T (v_sadd fam new (v_srem fam old
                  (v_set_ex (cf_key ns kind old) family T v2))) else v2);
          v4 = v_sadd sess (index_member (kp_rt p) new) (v_srem sess (index_member (kp_rt p) old) v3);
          v5 = (if G > 0 then v_sadd sess (index_member (kp_rp p) old) v4 else v4)
      in v_del (rt_key ns kind old) (v_expire sess T v5))"

lemma v_expire_set_ex: "k \<noteq> k' \<Longrightarrow> v_expire k t (v_set_ex k' s u v) = v_set_ex k' s u (v_expire k t v)"
  by (auto simp: v_expire_def v_set_ex_def fun_upd_twist split: option.splits)

text \<open>Deleting several keys, and removing several members of one set.\<close>

definition v_dels :: "string set \<Rightarrow> rview \<Rightarrow> rview" where
  "v_dels K v = (\<lambda>k. if k \<in> K then None else v k)"

definition v_srems :: "string \<Rightarrow> string set \<Rightarrow> rview \<Rightarrow> rview" where
  "v_srems k M v =
     (if members_at v k - M = {} then v(k := None)
      else v(k \<mapsto> (RSet (members_at v k - M), ttl_at v k)))"

lemma v_del_absent: "v k = None \<Longrightarrow> v_del k v = v"
  by (simp add: v_del_def fun_upd_idem)

lemma v_del_dels: "v_del k v = v_dels {k} v"
  by (auto simp: v_del_def v_dels_def)

lemma v_dels_empty [simp]: "v_dels {} v = v"
  by (simp add: v_dels_def)

lemma v_dels_dels [simp]: "v_dels K (v_dels L v) = v_dels (K \<union> L) v"
  by (auto simp: v_dels_def)

lemma v_srem_srems: "v_srem k m v = v_srems k {m} v"
  by (simp add: v_srem_def v_srems_def)

lemma v_srems_srems [simp]: "v_srems k M (v_srems k N v) = v_srems k (M \<union> N) v"
proof -
  have "members_at v k - N - M = members_at v k - (M \<union> N)" by auto
  then show ?thesis by (auto simp: v_srems_def obs_defs)
qed

lemma v_dels_srems: "k \<notin> K \<Longrightarrow> v_dels K (v_srems k M v) = v_srems k M (v_dels K v)"
  by (auto simp: v_dels_def v_srems_def obs_defs fun_eq_iff)

lemma obs_dels [view_obs]:
  "str_at (v_dels K v) k = (if k \<in> K then None else str_at v k)"
  "members_at (v_dels K v) k = (if k \<in> K then {} else members_at v k)"
  "ttl_at (v_dels K v) k = (if k \<in> K then None else ttl_at v k)"
  "v_dels K v k = None \<longleftrightarrow> k \<in> K \<or> v k = None"
  by (simp_all add: obs_defs v_dels_def)

lemma obs_srems [view_obs]:
  "str_at (v_srems k M v) k' = (if k' = k then None else str_at v k')"
  "members_at (v_srems k M v) k' = (if k' = k then members_at v k - M else members_at v k')"
  "ttl_at (v_srems k M v) k' =
     (if k' = k \<and> members_at v k - M = {} then None else ttl_at v k')"
  "v_srems k M v k' = None \<longleftrightarrow> (if k' = k then members_at v k - M = {} else v k' = None)"
  by (auto simp: obs_defs v_srems_def)

lemma type_dels [view_type]:
  "str_or_absent v k \<Longrightarrow> str_or_absent (v_dels K v) k"
  "set_or_absent v k \<Longrightarrow> set_or_absent (v_dels K v) k"
  by (auto simp: type_defs v_dels_def)

lemma type_srems [view_type]:
  "k' \<noteq> k \<Longrightarrow> str_or_absent (v_srems k M v) k' \<longleftrightarrow> str_or_absent v k'"
  "set_or_absent (v_srems k M v) k' \<longleftrightarrow> k' = k \<or> set_or_absent v k'"
  by (simp_all add: type_defs v_srems_def)

text \<open>The keys a sweep of one subject's index deletes.\<close>

definition doomed :: "string \<Rightarrow> SessionKind \<Rightarrow> string \<Rightarrow> rview \<Rightarrow> string set" where
  "doomed ns kind subject v =
     {k. k = sess_key ns kind subject \<or>
         (\<exists>m \<in> members_at v (sess_key ns kind subject). k = ns @ '':'' @ m) \<or>
         (\<exists>h. index_member (kp_rt (kind_prefixes kind)) h \<in> members_at v (sess_key ns kind subject) \<and>
              k = sd_key ns kind h)}"

context store_service
begin

lemma view_create:
  assumes "typed (rs_namespace S) (view r)" and "ttl_ok t"
  shows "view (create_session_tx S kind subject h family j d t r) =
    v_create (rs_namespace S) kind subject h family j d t (view r)"
  using assms
  by (simp add: create_session_tx_def v_create_def Let_def set_ex expire sadd view_type typedD)

lemma view_recover:
  assumes "typed (rs_namespace S) (view r)" and "ttl_ok t"
  shows "view (snd (recover_script S kind subject h family j d t r)) =
    (if view r (sess_key (rs_namespace S) kind subject) = None \<or>
        family \<noteq> [] \<and> view r (fam_key (rs_namespace S) kind family) = None
     then view r else v_create (rs_namespace S) kind subject h family j d t (view r))"
  using assms
  by (simp add: recover_script_def recover_grace_def v_create_def Let_def set_ex expire sadd exists
      view_type typedD v_expire_set_ex)

lemma fst_recover:
  "fst (recover_script S kind subject h family j d t r) =
    (if view r (sess_key (rs_namespace S) kind subject) = None \<or>
        family \<noteq> [] \<and> view r (fam_key (rs_namespace S) kind family) = None then 0 else 1)"
  by (simp add: recover_script_def recover_grace_def Let_def exists)

lemma rotate_live:
  assumes "typed (rs_namespace S) (view r)" and "ttl_ok (ro_refresh_ttl rot)"
    and "ro_grace_ttl rot \<le> ro_refresh_ttl rot"
    and "str_at (view r) (rt_key (rs_namespace S) kind (ro_old_hash rot)) = Some old"
  shows "fst (rotate_script S kind rot j r) = Some old"
    and "view (snd (rotate_script S kind rot j r)) = v_rotate (rs_namespace S) kind rot j (view r)"
  using assms ttl_ok_mono [OF assms(2) _ assms(3)]
  by (simp_all add: rotate_script_def refresh_rotate_def v_rotate_def Let_def get set_ex expire
      sadd srem del view_type typedD index_member_def)

text \<open>A token that is no longer live: the grace pointer is spent, whatever it then answers.\<close>

lemma rotate_spent:
  assumes "typed (rs_namespace S) (view r)"
    and "str_at (view r) (rt_key (rs_namespace S) kind (ro_old_hash rot)) = None"
  shows "view (snd (rotate_script S kind rot j r)) =
    v_del (rp_key (rs_namespace S) kind (ro_old_hash rot)) (view r)"
proof (cases "str_at (view r) (rp_key (rs_namespace S) kind (ro_old_hash rot))")
  case None
  with assms have "v_del (rp_key (rs_namespace S) kind (ro_old_hash rot)) (view r) = view r"
    by (simp add: v_del_absent typed_str_absent)
  with None assms show ?thesis
    by (simp add: rotate_script_def refresh_rotate_def consumed_family_def Let_def get typedD
        split: option.splits)
next
  case (Some grace)
  with assms show ?thesis
    by (auto simp: rotate_script_def refresh_rotate_def consumed_family_def Let_def get typedD del
        split: option.splits)
qed

lemma rotate_grace:
  assumes "typed (rs_namespace S) (view r)"
    and "str_at (view r) (rt_key (rs_namespace S) kind (ro_old_hash rot)) = None"
    and "str_at (view r) (rp_key (rs_namespace S) kind (ro_old_hash rot)) = Some (succ @ '':'' @ json)"
    and "CHR '':'' \<notin> set succ"
    and "view r (rt_key (rs_namespace S) kind succ) \<noteq> None"
  shows "fst (rotate_script S kind rot j r) = Some (''GRACE:'' @ json)"
  using assms
  by (simp add: rotate_script_def refresh_rotate_def Let_def get del exists typedD split_once_append
      key_fold view_obs del: not_None_eq)

lemma rotate_no_grace:
  assumes "typed (rs_namespace S) (view r)"
    and "str_at (view r) (rt_key (rs_namespace S) kind (ro_old_hash rot)) = None"
    and "str_at (view r) (rp_key (rs_namespace S) kind (ro_old_hash rot)) = None \<or>
      (\<exists>succ json. str_at (view r) (rp_key (rs_namespace S) kind (ro_old_hash rot)) =
          Some (succ @ '':'' @ json) \<and> CHR '':'' \<notin> set succ \<and>
          view r (rt_key (rs_namespace S) kind succ) = None)"
  shows "fst (rotate_script S kind rot j r) =
    map_option (\<lambda>family. ''REUSED:'' @ family)
      (str_at (view r) (cf_key (rs_namespace S) kind (ro_old_hash rot)))"
  using assms
  by (auto simp: rotate_script_def refresh_rotate_def consumed_family_def Let_def get del exists
      typedD split_once_append key_fold view_obs view_type simp del: not_None_eq split: option.splits)

lemma view_revoke_session:
  assumes "typed (rs_namespace S) (view r)"
  shows "fst (revoke_script S kind subject h r) \<longleftrightarrow>
      index_member (kp_rt (kind_prefixes kind)) h \<in>
        members_at (view r) (sess_key (rs_namespace S) kind subject)"
    and "view (snd (revoke_script S kind subject h r)) =
      (if fst (revoke_script S kind subject h r)
       then v_del (sd_key (rs_namespace S) kind h) (v_del (rt_key (rs_namespace S) kind h)
              (v_srem (sess_key (rs_namespace S) kind subject)
                (index_member (kp_rt (kind_prefixes kind)) h) (view r)))
       else view r)"
  using assms by (simp_all add: revoke_script_def session_revoke_def Let_def sismember srem del typedD)

lemma view_move_detail:
  assumes "ttl_ok (ro_refresh_ttl rot)"
  shows "view (move_detail_tx S kind rot r) =
    v_set_ex (sd_key (rs_namespace S) kind (ro_new_hash rot))
      (enc_det (rs_codec S) (at_creation (ro_new_record rot))) (ro_refresh_ttl rot)
      (v_del (sd_key (rs_namespace S) kind (ro_old_hash rot)) (view r))"
  using assms by (simp add: move_detail_tx_def Let_def set_ex del)

text \<open>The sweep deletes every key its members name, and the details of the live ones.\<close>

lemma view_invalidate_members:
  "view (invalidate_members (rs_redis S) ns (as_str live) (as_str sd) ms r) =
    (\<lambda>k. if (\<exists>m \<in> set ms. k = ns @ '':'' @ m) \<or>
            (\<exists>h. index_member live h \<in> set ms \<and> k = key ns sd h) then None else view r k)"
proof (induction ms arbitrary: r)
  case Nil
  show ?case by simp
next
  case (Cons m ms)
  show ?case
  proof (cases "strip_prefix (as_str live @ '':'') m")
    case None
    then have "\<forall>h. m \<noteq> index_member live h"
      by (auto simp: strip_prefix_None_iff index_member_def)
    with None show ?thesis by (auto simp: Cons.IH del v_del_def fun_eq_iff)
  next
    case (Some h)
    then have "m = index_member live h"
      by (simp add: strip_prefix_Some_iff index_member_def)
    with Some show ?thesis
      by (auto simp: Cons.IH del v_del_def fun_eq_iff key_def)
  qed
qed

lemma view_revoke_all:
  assumes "typed (rs_namespace S) (view r)"
  shows "view (snd (revoke_all_script S kind subject r)) =
    v_dels (doomed (rs_namespace S) kind subject (view r)) (view r)"
  using assms
  by (auto simp: revoke_all_script_def invalidate_user_sessions_def Let_def del v_del_def v_dels_def
      doomed_def view_invalidate_members smembers typedD fun_eq_iff)

text \<open>The loop over a family, without and with an index to prune.\<close>

lemma view_revoke_members_no_index:
  "view (revoke_members (rs_redis S) ns (as_str rt) (as_str sd) [] hs r) =
    v_dels {k. \<exists>h \<in> set hs. k = key ns rt h \<or> k = key ns sd h} (view r)"
  by (induction hs arbitrary: r) (auto simp: del v_del_def v_dels_def fun_eq_iff key_def)

lemma view_revoke_members_index:
  assumes "hs \<noteq> []" and "set_or_absent (view r) sk" and "sk \<noteq> []"
    and "\<forall>h. sk \<noteq> key ns rt h \<and> sk \<noteq> key ns sd h"
  shows "view (revoke_members (rs_redis S) ns (as_str rt) (as_str sd) sk hs r) =
    v_srems sk (index_member rt ` set hs)
      (v_dels {k. \<exists>h \<in> set hs. k = key ns rt h \<or> k = key ns sd h} (view r))"
  using assms(1,2)
proof (induction hs arbitrary: r rule: list_nonempty_induct)
  case (single h)
  have "view (revoke_members (rs_redis S) ns (as_str rt) (as_str sd) sk [h] r) =
      v_srem sk (index_member rt h) (v_del (key ns sd h) (v_del (key ns rt h) (view r)))"
    using single assms(3,4)
    by (simp add: Let_def del srem view_type index_member_fold key_index_member [simplified])
  moreover have "{k. \<exists>h' \<in> set [h]. k = key ns rt h' \<or> k = key ns sd h'} = {key ns rt h, key ns sd h}"
    by auto
  ultimately show ?case by (simp add: v_srem_srems v_del_dels)
next
  case (cons h hs)
  let ?r = "r_srem (rs_redis S) sk (index_member rt h)
    (snd (r_del (rs_redis S) (key ns sd h) (snd (r_del (rs_redis S) (key ns rt h) r))))"
  have r: "view ?r = v_srem sk (index_member rt h) (v_del (key ns sd h) (v_del (key ns rt h) (view r)))"
    using cons.prems assms(4) by (simp add: del srem view_type)
  have "revoke_members (rs_redis S) ns (as_str rt) (as_str sd) sk (h # hs) r =
      revoke_members (rs_redis S) ns (as_str rt) (as_str sd) sk hs ?r"
    using assms(3) by (simp add: Let_def key_def index_member_def)
  moreover have "set_or_absent (view ?r) sk" by (simp add: r view_type)
  moreover have "{k. \<exists>h' \<in> set (h # hs). k = key ns rt h' \<or> k = key ns sd h'} =
      {k. \<exists>h' \<in> set hs. k = key ns rt h' \<or> k = key ns sd h'} \<union> {key ns rt h, key ns sd h}"
    by auto
  ultimately show ?case
    using cons.IH [of ?r] assms(4) by (simp add: r v_srem_srems v_del_dels v_dels_srems)
qed

text \<open>
  The effect of revoking a family: its index goes, with the records and details of its members;
  the owner's index loses the members.
\<close>

lemma view_family:
  assumes "typed (rs_namespace S) (view r)"
  defines "ns \<equiv> rs_namespace S"
  shows "view (snd (family_script S kind family subject r)) =
    (let hs = members_at (view r) (fam_key ns kind family);
         v = v_dels {k. \<exists>h \<in> hs. k = rt_key ns kind h \<or> k = sd_key ns kind h} (view r)
     in v_del (fam_key ns kind family)
          (case subject of
             None \<Rightarrow> v
           | Some s \<Rightarrow> if hs = {} then v
               else v_srems (sess_key ns kind s) (index_member (kp_rt (kind_prefixes kind)) ` hs) v))"
proof -
  let ?members = "r_smembers (rs_redis S) (fam_key ns kind family) r"
  have hs: "members_at (view r) (fam_key ns kind family) = set ?members"
    using assms by (simp add: smembers typedD)
  show ?thesis
  proof (cases "?members = []")
    case True
    then show ?thesis
      by (simp add: hs family_script_def revoke_family_script_def Let_def del v_dels_def
          ns_def [symmetric] split: option.splits)
  next
    case False
    with assms(1) hs show ?thesis
      unfolding ns_def
      by (cases subject) (simp_all add: family_script_def revoke_family_script_def Let_def del
          typedD view_revoke_members_no_index view_revoke_members_index)
  qed
qed

text \<open>
  The prune removes only members whose key is absent, one by one: what such removals keep, the
  script keeps.
\<close>

lemma view_prune_invariant:
  assumes "P (view r)"
    and typed: "\<And>v. P v \<Longrightarrow> set_or_absent v sk"
    and step: "\<And>v m. P v \<Longrightarrow> v (ns @ '':'' @ m) = None \<Longrightarrow> P (v_srem sk m v)"
  shows "P (view (snd (session_prune_dead (rs_redis S) sk ns ms r)))"
  using assms(1)
proof (induction ms arbitrary: r)
  case (Cons m ms)
  show ?case
  proof (cases "r_exists (rs_redis S) (ns @ '':'' @ m) r")
    case False
    with Cons.prems typed step have "P (view (r_srem (rs_redis S) sk m r))"
      by (simp add: exists srem del: not_None_eq)
    from Cons.IH [OF this] False show ?thesis by (auto split: prod.splits)
  qed (use Cons in simp)
qed simp

end

end
