(* ===== verification/Session_Index.thy ===== *)
theory Session_Index
  imports Session_Scripts
begin

text \<open>
  The session index as a shared data structure: every interleaving of the atomic steps that the
  session store, its callers and the clock take on one server. The index \<open>sess:{subject}\<close> is what
  "log out everywhere" sweeps, so the development shows that no reachable state holds a live
  session or a grace pointer that the index of its owner does not name, for at least as long as
  the key lives.
\<close>

section \<open>Steps\<close>

datatype 'r store_action =
    Create SessionKind string string SessionRecord
  | Rotate SessionKind SessionRotation
  | MoveDetail SessionKind SessionRotation
  | Recover SessionKind string string SessionRecord
  | RevokeSession SessionKind string string
  | RevokeAll SessionKind string
  | RevokeFamily SessionKind string "string option"
  | PruneDead SessionKind string "string list"
  | DeletePointer SessionKind string
  | SweepRead SessionKind string
  | SweepDel SessionKind string
  | SweepRem SessionKind string string
  | Tick nat
  | Elsewhere 'r

text \<open>
  The state of the server, with the history the argument needs: the token hashes that were ever
  handed out, the pointers a sweep has read and the pointers it has deleted.
\<close>

record 'r world =
  srv :: 'r
  used :: "(SessionKind \<times> string) set"
  seen :: "(SessionKind \<times> string) set"
  swept :: "(SessionKind \<times> string) set"

definition session_keys :: "string \<Rightarrow> string set" where
  "session_keys ns =
     {k. \<exists>kind i. k \<in> {rt_key ns kind i, rp_key ns kind i, cf_key ns kind i, fam_key ns kind i,
                       sess_key ns kind i, sd_key ns kind i}}"

text \<open>
  What the callers guarantee: a new token hash is fresh and is not a separator, the subject is
  that of the record, lifetimes are the configured ones. A rotation of a live session is for the
  owner of that session; the caller has read it before. \<open>Elsewhere\<close> is any step on other keys.
\<close>

inductive store_step ::
    "'r RedisStores \<Rightarrow> ('r \<Rightarrow> rview) \<Rightarrow> (SessionKind \<Rightarrow> SessionRecord \<Rightarrow> string) \<Rightarrow> nat \<Rightarrow>
     'r store_action \<Rightarrow> 'r world \<Rightarrow> 'r world \<Rightarrow> bool"
  for S :: "'r RedisStores" and view :: "'r \<Rightarrow> rview"
    and owner :: "SessionKind \<Rightarrow> SessionRecord \<Rightarrow> string" and T :: nat
where
  create: "\<lbrakk>enc_rec (rs_codec S) detail = Some j; (kind, h) \<notin> used w\<rbrakk> \<Longrightarrow>
    store_step S view owner T (Create kind (owner kind detail) h detail) w
      (w\<lparr>srv := create_session_tx S kind (owner kind detail) h (sr_family_id detail) j
                 (enc_det (rs_codec S) (at_creation detail)) T (srv w),
         used := insert (kind, h) (used w)\<rparr>)"
| rotate: "\<lbrakk>enc_rec (rs_codec S) (ro_new_record rot) = Some j; (kind, ro_new_hash rot) \<notin> used w;
    CHR '':'' \<notin> set (ro_new_hash rot); ro_refresh_ttl rot = T; ro_grace_ttl rot \<le> T;
    \<forall>old s. find_session_inner S kind (ro_old_hash rot) \<lparr>server = srv w, net = []\<rparr>
              = (Inr (Some old), s) \<longrightarrow>
            owner kind old = ro_subject_hash rot \<and> owner kind (ro_new_record rot) = ro_subject_hash rot\<rbrakk> \<Longrightarrow>
    store_step S view owner T (Rotate kind rot) w
      (w\<lparr>srv := snd (rotate_script S kind rot j (srv w)),
         used := insert (kind, ro_new_hash rot) (used w)\<rparr>)"
| move_detail: "ro_refresh_ttl rot = T \<Longrightarrow>
    store_step S view owner T (MoveDetail kind rot) w
      (w\<lparr>srv := move_detail_tx S kind rot (srv w)\<rparr>)"
| recover: "\<lbrakk>enc_rec (rs_codec S) detail = Some j; (kind, h) \<notin> used w\<rbrakk> \<Longrightarrow>
    store_step S view owner T (Recover kind (owner kind detail) h detail) w
      (w\<lparr>srv := snd (recover_script S kind (owner kind detail) h (sr_family_id detail) j
                 (enc_det (rs_codec S) (at_creation detail)) T (srv w)),
         used := insert (kind, h) (used w)\<rparr>)"
| revoke_session: "store_step S view owner T (RevokeSession kind subject h) w
      (w\<lparr>srv := snd (revoke_script S kind subject h (srv w))\<rparr>)"
| revoke_all: "store_step S view owner T (RevokeAll kind subject) w
      (w\<lparr>srv := snd (revoke_all_script S kind subject (srv w))\<rparr>)"
| revoke_family: "store_step S view owner T (RevokeFamily kind family subject) w
      (w\<lparr>srv := snd (family_script S kind family subject (srv w))\<rparr>)"
| prune_dead: "store_step S view owner T (PruneDead kind subject members) w
      (w\<lparr>srv := snd (session_prune_dead (rs_redis S) (sess_key (rs_namespace S) kind subject)
                      (rs_namespace S) members (srv w))\<rparr>)"
| delete_pointer: "store_step S view owner T (DeletePointer kind h) w
      (w\<lparr>srv := snd (r_del (rs_redis S) (rp_key (rs_namespace S) kind h) (srv w))\<rparr>)"
| sweep_read: "store_step S view owner T (SweepRead kind subject) w
      (w\<lparr>seen := seen w \<union> {(kind, h) | h. index_member (kp_rp (kind_prefixes kind)) h \<in>
           set (r_smembers (rs_redis S) (sess_key (rs_namespace S) kind subject) (srv w))}\<rparr>)"
| sweep_del: "(kind, h) \<in> seen w \<Longrightarrow>
    store_step S view owner T (SweepDel kind h) w
      (w\<lparr>srv := snd (r_del (rs_redis S) (rp_key (rs_namespace S) kind h) (srv w)),
         swept := insert (kind, h) (swept w)\<rparr>)"
| sweep_rem: "(kind, h) \<in> swept w \<Longrightarrow>
    store_step S view owner T (SweepRem kind subject h) w
      (w\<lparr>srv := r_srem (rs_redis S) (sess_key (rs_namespace S) kind subject)
                 (index_member (kp_rp (kind_prefixes kind)) h) (srv w)\<rparr>)"
| tick: "store_step S view owner T (Tick n) w (w\<lparr>srv := r_tick (rs_redis S) n (srv w)\<rparr>)"
| elsewhere: "(\<forall>k \<in> session_keys (rs_namespace S). view r k = view (srv w) k) \<Longrightarrow>
    store_step S view owner T (Elsewhere r) w (w\<lparr>srv := r\<rparr>)"

inductive_cases store_stepE: "store_step S view owner T a w w'"

inductive reachable ::
    "'r RedisStores \<Rightarrow> ('r \<Rightarrow> rview) \<Rightarrow> (SessionKind \<Rightarrow> SessionRecord \<Rightarrow> string) \<Rightarrow> nat \<Rightarrow>
     'r world \<Rightarrow> bool"
  for S :: "'r RedisStores" and view :: "'r \<Rightarrow> rview"
    and owner :: "SessionKind \<Rightarrow> SessionRecord \<Rightarrow> string" and T :: nat
where
  start: "(\<forall>k \<in> session_keys (rs_namespace S). view r k = None) \<Longrightarrow>
    reachable S view owner T \<lparr>srv = r, used = {}, seen = {}, swept = {}\<rparr>"
| step: "reachable S view owner T w \<Longrightarrow> store_step S view owner T a w w' \<Longrightarrow>
    reachable S view owner T w'"

section \<open>The index names every credential\<close>

text \<open>A key is covered by another when it expires no later, within the refresh lifetime.\<close>

fun covered :: "nat \<Rightarrow> nat option \<Rightarrow> nat option \<Rightarrow> bool" where
  "covered T (Some t) (Some u) \<longleftrightarrow> t \<le> u \<and> t \<le> T"
| "covered T _ _ \<longleftrightarrow> False"

lemma covered_iff: "covered T a b \<longleftrightarrow> (\<exists>t u. a = Some t \<and> b = Some u \<and> t \<le> u \<and> t \<le> T)"
  by (cases "(T, a, b)" rule: covered.cases) auto

definition live_indexed ::
    "codec \<Rightarrow> string \<Rightarrow> (SessionKind \<Rightarrow> SessionRecord \<Rightarrow> string) \<Rightarrow> nat \<Rightarrow>
     (SessionKind \<times> string) set \<Rightarrow> rview \<Rightarrow> bool" where
  "live_indexed J ns owner T U v \<longleftrightarrow>
     (\<forall>kind h j. str_at v (rt_key ns kind h) = Some j \<longrightarrow> (kind, h) \<in> U \<and>
       (\<exists>s. enc_rec J s = Some j \<and>
          index_member (kp_rt (kind_prefixes kind)) h \<in> members_at v (sess_key ns kind (owner kind s)) \<and>
          covered T (ttl_at v (rt_key ns kind h)) (ttl_at v (sess_key ns kind (owner kind s)))))"

definition pointers_indexed ::
    "codec \<Rightarrow> string \<Rightarrow> (SessionKind \<Rightarrow> SessionRecord \<Rightarrow> string) \<Rightarrow> nat \<Rightarrow> rview \<Rightarrow> bool" where
  "pointers_indexed J ns owner T v \<longleftrightarrow>
     (\<forall>kind h p. str_at v (rp_key ns kind h) = Some p \<longrightarrow>
       (\<exists>new j s. p = new @ '':'' @ j \<and> CHR '':'' \<notin> set new \<and> enc_rec J s = Some j \<and>
          index_member (kp_rp (kind_prefixes kind)) h \<in> members_at v (sess_key ns kind (owner kind s)) \<and>
          covered T (ttl_at v (rp_key ns kind h)) (ttl_at v (sess_key ns kind (owner kind s)))))"

text \<open>A hash whose pointer is indexed, or was read or deleted by a sweep, is spent for good.\<close>

definition spent :: "string \<Rightarrow> (SessionKind \<times> string) set \<Rightarrow> rview \<Rightarrow> SessionKind \<Rightarrow> string \<Rightarrow> bool" where
  "spent ns U v kind h \<longleftrightarrow> (kind, h) \<in> U \<and> str_at v (rt_key ns kind h) = None"

definition pointers_spent :: "string \<Rightarrow> 'r world \<Rightarrow> rview \<Rightarrow> bool" where
  "pointers_spent ns w v \<longleftrightarrow>
     (\<forall>kind h subject. index_member (kp_rp (kind_prefixes kind)) h \<in> members_at v (sess_key ns kind subject)
        \<longrightarrow> spent ns (used w) v kind h) \<and>
     (\<forall>kind h. (kind, h) \<in> seen w \<longrightarrow> spent ns (used w) v kind h) \<and>
     (\<forall>kind h. (kind, h) \<in> swept w \<longrightarrow>
        spent ns (used w) v kind h \<and> str_at v (rp_key ns kind h) = None)"

text \<open>An index holds nothing but the members of live sessions and of grace pointers of its kind.\<close>

definition members_wf :: "string \<Rightarrow> rview \<Rightarrow> bool" where
  "members_wf ns v \<longleftrightarrow> (\<forall>kind subject m. m \<in> members_at v (sess_key ns kind subject) \<longrightarrow>
     (\<exists>h. m = index_member (kp_rt (kind_prefixes kind)) h \<or> m = index_member (kp_rp (kind_prefixes kind)) h))"

definition index_inv ::
    "codec \<Rightarrow> string \<Rightarrow> (SessionKind \<Rightarrow> SessionRecord \<Rightarrow> string) \<Rightarrow> nat \<Rightarrow> 'r world \<Rightarrow> rview \<Rightarrow> bool" where
  "index_inv J ns owner T w v \<longleftrightarrow> typed ns v \<and> live_indexed J ns owner T (used w) v \<and>
     pointers_indexed J ns owner T v \<and> pointers_spent ns w v \<and> members_wf ns v"

lemma index_invI:
  assumes "typed ns v" "live_indexed J ns owner T (used w) v" "pointers_indexed J ns owner T v"
    "pointers_spent ns w v" "members_wf ns v"
  shows "index_inv J ns owner T w v"
  using assms by (simp add: index_inv_def)

lemma index_invD:
  assumes "index_inv J ns owner T w v"
  shows "typed ns v" "live_indexed J ns owner T (used w) v" "pointers_indexed J ns owner T v"
    "pointers_spent ns w v" "members_wf ns v"
  using assms by (simp_all add: index_inv_def)

lemmas index_defs = live_indexed_def pointers_indexed_def pointers_spent_def spent_def

lemma index_inv_create:
  assumes inv: "index_inv J ns owner T w v" and "(kind, h) \<notin> used w"
    and j: "enc_rec J detail = Some j"
  shows "index_inv J ns owner T (w\<lparr>srv := r, used := insert (kind, h) (used w)\<rparr>)
    (v_create ns kind (owner kind detail) h family j d T v)"
proof (rule index_invI)
  show "typed ns (v_create ns kind (owner kind detail) h family j d T v)"
    using index_invD(1) [OF inv] by (simp add: typed_def v_create_def Let_def view_type)
  show "live_indexed J ns owner T (used (w\<lparr>srv := r, used := insert (kind, h) (used w)\<rparr>))
      (v_create ns kind (owner kind detail) h family j d T v)"
    using index_invD(2) [OF inv] j
    by (fastforce simp: live_indexed_def v_create_def Let_def view_obs covered_iff)
  show "pointers_indexed J ns owner T (v_create ns kind (owner kind detail) h family j d T v)"
    using index_invD(3) [OF inv]
    by (fastforce simp: pointers_indexed_def v_create_def Let_def view_obs covered_iff)
  show "pointers_spent ns (w\<lparr>srv := r, used := insert (kind, h) (used w)\<rparr>)
      (v_create ns kind (owner kind detail) h family j d T v)"
    using index_invD(4) [OF inv] assms(2)
    by (fastforce simp: pointers_spent_def spent_def v_create_def Let_def view_obs)
  show "members_wf ns (v_create ns kind (owner kind detail) h family j d T v)"
    using index_invD(5) [OF inv] by (auto simp: members_wf_def v_create_def Let_def view_obs)
qed

lemma obs_rotate:
  assumes "ro_new_hash rot \<noteq> ro_old_hash rot"
  shows "str_at (v_rotate ns kind rot j v) (rt_key ns k h) =
      (if k = kind \<and> h = ro_old_hash rot then None
       else if k = kind \<and> h = ro_new_hash rot then Some j else str_at v (rt_key ns k h))"
    and "ttl_at (v_rotate ns kind rot j v) (rt_key ns k h) =
      (if k = kind \<and> h = ro_old_hash rot then None
       else if k = kind \<and> h = ro_new_hash rot then Some (ro_refresh_ttl rot)
       else ttl_at v (rt_key ns k h))"
    and "str_at (v_rotate ns kind rot j v) (rp_key ns k h) =
      (if k = kind \<and> h = ro_old_hash rot \<and> ro_grace_ttl rot > 0
       then Some (ro_new_hash rot @ '':'' @ j) else str_at v (rp_key ns k h))"
    and "ttl_at (v_rotate ns kind rot j v) (rp_key ns k h) =
      (if k = kind \<and> h = ro_old_hash rot \<and> ro_grace_ttl rot > 0
       then Some (ro_grace_ttl rot) else ttl_at v (rp_key ns k h))"
    and "members_at (v_rotate ns kind rot j v) (sess_key ns k s) =
      (if k = kind \<and> s = ro_subject_hash rot
       then insert (index_member (kp_rt (kind_prefixes kind)) (ro_new_hash rot))
              ((members_at v (sess_key ns k s) -
                  {index_member (kp_rt (kind_prefixes kind)) (ro_old_hash rot)}) \<union>
                (if ro_grace_ttl rot > 0
                 then {index_member (kp_rp (kind_prefixes kind)) (ro_old_hash rot)} else {}))
       else members_at v (sess_key ns k s))"
    and "ttl_at (v_rotate ns kind rot j v) (sess_key ns k s) =
      (if k = kind \<and> s = ro_subject_hash rot then Some (ro_refresh_ttl rot)
       else ttl_at v (sess_key ns k s))"
  using assms by (auto simp: v_rotate_def Let_def view_obs simp del: not_None_eq)

lemma live_indexedE:
  assumes "live_indexed J ns owner T U v" and "str_at v (rt_key ns kind h) = Some j"
  obtains s t u where "(kind, h) \<in> U" and "enc_rec J s = Some j"
    and "index_member (kp_rt (kind_prefixes kind)) h \<in> members_at v (sess_key ns kind (owner kind s))"
    and "ttl_at v (rt_key ns kind h) = Some t" and "t \<le> T"
    and "ttl_at v (sess_key ns kind (owner kind s)) = Some u" and "t \<le> u"
  using assms by (fastforce simp: live_indexed_def covered_iff)

lemma pointers_indexedE:
  assumes "pointers_indexed J ns owner T v" and "str_at v (rp_key ns kind h) = Some p"
  obtains new j s t u where "p = new @ '':'' @ j" and "CHR '':'' \<notin> set new"
    and "enc_rec J s = Some j"
    and "index_member (kp_rp (kind_prefixes kind)) h \<in> members_at v (sess_key ns kind (owner kind s))"
    and "ttl_at v (rp_key ns kind h) = Some t" and "t \<le> T"
    and "ttl_at v (sess_key ns kind (owner kind s)) = Some u" and "t \<le> u"
  using assms by (fastforce simp: pointers_indexed_def covered_iff)

lemma live_indexedI:
  assumes "\<And>kind h j. str_at v (rt_key ns kind h) = Some j \<Longrightarrow> (kind, h) \<in> U \<and>
    (\<exists>s. enc_rec J s = Some j \<and>
       index_member (kp_rt (kind_prefixes kind)) h \<in> members_at v (sess_key ns kind (owner kind s)) \<and>
       covered T (ttl_at v (rt_key ns kind h)) (ttl_at v (sess_key ns kind (owner kind s))))"
  shows "live_indexed J ns owner T U v"
  using assms by (simp add: live_indexed_def)

lemma pointers_indexedI:
  assumes "\<And>kind h p. str_at v (rp_key ns kind h) = Some p \<Longrightarrow>
    \<exists>new j s. p = new @ '':'' @ j \<and> CHR '':'' \<notin> set new \<and> enc_rec J s = Some j \<and>
       index_member (kp_rp (kind_prefixes kind)) h \<in> members_at v (sess_key ns kind (owner kind s)) \<and>
       covered T (ttl_at v (rp_key ns kind h)) (ttl_at v (sess_key ns kind (owner kind s)))"
  shows "pointers_indexed J ns owner T v"
  using assms by (simp add: pointers_indexed_def)

lemma live_indexed_rotate:
  assumes live: "live_indexed J ns owner T U v" and neq: "ro_new_hash rot \<noteq> ro_old_hash rot"
    and ttl: "ro_refresh_ttl rot = T"
    and j: "enc_rec J (ro_new_record rot) = Some j"
    and owner: "owner kind (ro_new_record rot) = ro_subject_hash rot"
  shows "live_indexed J ns owner T (insert (kind, ro_new_hash rot) U) (v_rotate ns kind rot j v)"
    (is "live_indexed _ _ _ _ ?U ?v")
proof (rule live_indexedI)
  note obs = obs_rotate [OF neq, of ns kind j v]
  fix k h i
  assume "str_at ?v (rt_key ns k h) = Some i"
  then consider (new) "k = kind" "h = ro_new_hash rot" "i = j" "h \<noteq> ro_old_hash rot"
    | (kept) "str_at v (rt_key ns k h) = Some i" "\<not> (k = kind \<and> h = ro_old_hash rot)"
        "\<not> (k = kind \<and> h = ro_new_hash rot)"
    unfolding obs(1) by (metis option.distinct(1) option.inject)
  then show "(k, h) \<in> ?U \<and> (\<exists>s. enc_rec J s = Some i \<and>
      index_member (kp_rt (kind_prefixes k)) h \<in> members_at ?v (sess_key ns k (owner k s)) \<and>
      covered T (ttl_at ?v (rt_key ns k h)) (ttl_at ?v (sess_key ns k (owner k s))))"
  proof cases
    case new
    with j owner ttl show ?thesis
      by (intro conjI exI [of _ "ro_new_record rot"]) (simp_all add: obs)
  next
    case kept
    obtain s t u where s: "(k, h) \<in> U" "enc_rec J s = Some i"
      "index_member (kp_rt (kind_prefixes k)) h \<in> members_at v (sess_key ns k (owner k s))"
      "ttl_at v (rt_key ns k h) = Some t" "t \<le> T"
      "ttl_at v (sess_key ns k (owner k s)) = Some u" "t \<le> u"
      by (rule live_indexedE [OF live kept(1)])
    from s kept(2,3) ttl show ?thesis by (intro conjI exI [of _ s]) (auto simp: obs)
  qed
qed

lemma pointers_indexed_rotate:
  assumes pointers: "pointers_indexed J ns owner T v" and neq: "ro_new_hash rot \<noteq> ro_old_hash rot"
    and colon: "CHR '':'' \<notin> set (ro_new_hash rot)"
    and ttl: "ro_refresh_ttl rot = T" "ro_grace_ttl rot \<le> T"
    and j: "enc_rec J (ro_new_record rot) = Some j"
    and owner: "owner kind (ro_new_record rot) = ro_subject_hash rot"
  shows "pointers_indexed J ns owner T (v_rotate ns kind rot j v)" (is "pointers_indexed _ _ _ _ ?v")
proof (rule pointers_indexedI)
  note obs = obs_rotate [OF neq, of ns kind j v]
  fix k h p
  assume "str_at ?v (rp_key ns k h) = Some p"
  then consider (new) "k = kind" "h = ro_old_hash rot" "0 < ro_grace_ttl rot"
      "p = ro_new_hash rot @ '':'' @ j"
    | (kept) "str_at v (rp_key ns k h) = Some p" "\<not> (k = kind \<and> h = ro_old_hash rot \<and> 0 < ro_grace_ttl rot)"
    unfolding obs(3) by (metis option.inject)
  then show "\<exists>new j s. p = new @ '':'' @ j \<and> CHR '':'' \<notin> set new \<and> enc_rec J s = Some j \<and>
     index_member (kp_rp (kind_prefixes k)) h \<in> members_at ?v (sess_key ns k (owner k s)) \<and>
     covered T (ttl_at ?v (rp_key ns k h)) (ttl_at ?v (sess_key ns k (owner k s)))"
  proof cases
    case new
    with j owner ttl colon show ?thesis
      by (intro exI [of _ "ro_new_hash rot"] exI [of _ j] exI [of _ "ro_new_record rot"])
        (simp add: obs)
  next
    case kept
    obtain new i s t u where p: "p = new @ '':'' @ i" "CHR '':'' \<notin> set new" "enc_rec J s = Some i"
      "index_member (kp_rp (kind_prefixes k)) h \<in> members_at v (sess_key ns k (owner k s))"
      "ttl_at v (rp_key ns k h) = Some t" "t \<le> T"
      "ttl_at v (sess_key ns k (owner k s)) = Some u" "t \<le> u"
      by (rule pointers_indexedE [OF pointers kept(1)])
    from p kept(2) ttl show ?thesis
      by (intro exI [of _ new] exI [of _ i] exI [of _ s]) (auto simp: obs)
  qed
qed

lemma index_inv_rotate:
  assumes inv: "index_inv J ns owner T w v" and fresh: "(kind, ro_new_hash rot) \<notin> used w"
    and colon: "CHR '':'' \<notin> set (ro_new_hash rot)"
    and ttl: "ro_refresh_ttl rot = T" "ro_grace_ttl rot \<le> T"
    and old: "str_at v (rt_key ns kind (ro_old_hash rot)) = Some old"
    and j: "enc_rec J (ro_new_record rot) = Some j"
    and owner: "owner kind (ro_new_record rot) = ro_subject_hash rot"
  shows "index_inv J ns owner T (w\<lparr>srv := r, used := insert (kind, ro_new_hash rot) (used w)\<rparr>)
    (v_rotate ns kind rot j v)" (is "index_inv _ _ _ _ ?w ?v")
proof (rule index_invI)
  show "typed ns ?v"
    using index_invD(1) [OF inv] by (simp add: typed_def v_rotate_def Let_def view_type)
  have used: "(kind, ro_old_hash rot) \<in> used w"
    using index_invD(2) [OF inv] old by (auto elim: live_indexedE)
  with fresh have neq: "ro_new_hash rot \<noteq> ro_old_hash rot" by auto
  show "live_indexed J ns owner T (used ?w) ?v"
    using live_indexed_rotate [OF index_invD(2) [OF inv] neq ttl(1) j owner] by simp
  show "pointers_indexed J ns owner T ?v"
    by (rule pointers_indexed_rotate [OF index_invD(3) [OF inv] neq colon ttl j owner])
  show "pointers_spent ns ?w ?v"
    using index_invD(4) [OF inv] fresh used old
    by (auto simp: pointers_spent_def spent_def obs_rotate [OF neq] split: if_splits)
  show "members_wf ns ?v"
    using index_invD(5) [OF inv] by (auto simp: members_wf_def obs_rotate [OF neq])
qed

text \<open>
  A step that only removes: what is left of the sessions and pointers is unchanged, the indexes
  keep the members whose keys are left, and gain none.
\<close>

definition shrinks :: "string \<Rightarrow> rview \<Rightarrow> rview \<Rightarrow> bool" where
  "shrinks ns v v' \<longleftrightarrow> typed ns v' \<and>
     (\<forall>k h j. str_at v' (rt_key ns k h) = Some j \<longrightarrow>
        str_at v (rt_key ns k h) = Some j \<and> ttl_at v' (rt_key ns k h) = ttl_at v (rt_key ns k h)) \<and>
     (\<forall>k h j. str_at v' (rp_key ns k h) = Some j \<longrightarrow>
        str_at v (rp_key ns k h) = Some j \<and> ttl_at v' (rp_key ns k h) = ttl_at v (rp_key ns k h)) \<and>
     (\<forall>k s m. m \<in> members_at v' (sess_key ns k s) \<longrightarrow>
        m \<in> members_at v (sess_key ns k s) \<and> ttl_at v' (sess_key ns k s) = ttl_at v (sess_key ns k s)) \<and>
     (\<forall>k s h j. index_member (kp_rt (kind_prefixes k)) h \<in> members_at v (sess_key ns k s) \<longrightarrow>
        str_at v' (rt_key ns k h) = Some j \<longrightarrow>
        index_member (kp_rt (kind_prefixes k)) h \<in> members_at v' (sess_key ns k s)) \<and>
     (\<forall>k s h j. index_member (kp_rp (kind_prefixes k)) h \<in> members_at v (sess_key ns k s) \<longrightarrow>
        str_at v' (rp_key ns k h) = Some j \<longrightarrow>
        index_member (kp_rp (kind_prefixes k)) h \<in> members_at v' (sess_key ns k s)) \<and>
     (\<forall>k s. v (sess_key ns k s) = None \<longrightarrow> v' (sess_key ns k s) = None)"

lemma shrinksD:
  assumes "shrinks ns v v'"
  shows "typed ns v'"
    and "str_at v' (rt_key ns k h) = Some j \<Longrightarrow>
      str_at v (rt_key ns k h) = Some j \<and> ttl_at v' (rt_key ns k h) = ttl_at v (rt_key ns k h)"
    and "str_at v' (rp_key ns k h) = Some j \<Longrightarrow>
      str_at v (rp_key ns k h) = Some j \<and> ttl_at v' (rp_key ns k h) = ttl_at v (rp_key ns k h)"
    and "m \<in> members_at v' (sess_key ns k s) \<Longrightarrow>
      m \<in> members_at v (sess_key ns k s) \<and> ttl_at v' (sess_key ns k s) = ttl_at v (sess_key ns k s)"
    and "index_member (kp_rt (kind_prefixes k)) h \<in> members_at v (sess_key ns k s) \<Longrightarrow>
      str_at v' (rt_key ns k h) = Some j \<Longrightarrow>
      index_member (kp_rt (kind_prefixes k)) h \<in> members_at v' (sess_key ns k s)"
    and "index_member (kp_rp (kind_prefixes k)) h \<in> members_at v (sess_key ns k s) \<Longrightarrow>
      str_at v' (rp_key ns k h) = Some j \<Longrightarrow>
      index_member (kp_rp (kind_prefixes k)) h \<in> members_at v' (sess_key ns k s)"
    and "str_at v (rt_key ns k h) = None \<Longrightarrow> str_at v' (rt_key ns k h) = None"
    and "str_at v (rp_key ns k h) = None \<Longrightarrow> str_at v' (rp_key ns k h) = None"
    and "v (sess_key ns k s) = None \<Longrightarrow> v' (sess_key ns k s) = None"
  using assms
  by (simp_all add: shrinks_def) (metis not_None_eq option.distinct(1))+

lemma live_indexed_shrinks:
  assumes live: "live_indexed J ns owner T U v" and sh: "shrinks ns v v'"
  shows "live_indexed J ns owner T U v'"
proof (rule live_indexedI)
  fix k h j
  assume *: "str_at v' (rt_key ns k h) = Some j"
  note rt = shrinksD(2) [OF sh *]
  obtain s t u where s: "(k, h) \<in> U" "enc_rec J s = Some j"
    "index_member (kp_rt (kind_prefixes k)) h \<in> members_at v (sess_key ns k (owner k s))"
    "ttl_at v (rt_key ns k h) = Some t" "t \<le> T"
    "ttl_at v (sess_key ns k (owner k s)) = Some u" "t \<le> u"
    using rt by (auto elim: live_indexedE [OF live])
  with rt shrinksD(4) [OF sh shrinksD(5) [OF sh s(3) *]] shrinksD(5) [OF sh s(3) *]
  show "(k, h) \<in> U \<and> (\<exists>s. enc_rec J s = Some j \<and>
      index_member (kp_rt (kind_prefixes k)) h \<in> members_at v' (sess_key ns k (owner k s)) \<and>
      covered T (ttl_at v' (rt_key ns k h)) (ttl_at v' (sess_key ns k (owner k s))))"
    by (intro conjI exI [of _ s]) simp_all
qed

lemma pointers_indexed_shrinks:
  assumes pointers: "pointers_indexed J ns owner T v" and sh: "shrinks ns v v'"
  shows "pointers_indexed J ns owner T v'"
proof (rule pointers_indexedI)
  fix k h p
  assume *: "str_at v' (rp_key ns k h) = Some p"
  note rp = shrinksD(3) [OF sh *]
  obtain new i s t u where p: "p = new @ '':'' @ i" "CHR '':'' \<notin> set new" "enc_rec J s = Some i"
    "index_member (kp_rp (kind_prefixes k)) h \<in> members_at v (sess_key ns k (owner k s))"
    "ttl_at v (rp_key ns k h) = Some t" "t \<le> T"
    "ttl_at v (sess_key ns k (owner k s)) = Some u" "t \<le> u"
    using rp by (auto elim: pointers_indexedE [OF pointers])
  with rp shrinksD(4) [OF sh shrinksD(6) [OF sh p(4) *]] shrinksD(6) [OF sh p(4) *]
  show "\<exists>new j s. p = new @ '':'' @ j \<and> CHR '':'' \<notin> set new \<and> enc_rec J s = Some j \<and>
     index_member (kp_rp (kind_prefixes k)) h \<in> members_at v' (sess_key ns k (owner k s)) \<and>
     covered T (ttl_at v' (rp_key ns k h)) (ttl_at v' (sess_key ns k (owner k s)))"
    by (intro exI [of _ new] exI [of _ i] exI [of _ s]) simp
qed

lemma index_inv_shrinks:
  assumes inv: "index_inv J ns owner T w v" and sh: "shrinks ns v v'"
  shows "index_inv J ns owner T (w\<lparr>srv := r\<rparr>) v'"
proof (rule index_invI)
  show "typed ns v'" by (rule shrinksD(1) [OF sh])
  show "live_indexed J ns owner T (used (w\<lparr>srv := r\<rparr>)) v'"
    using live_indexed_shrinks [OF index_invD(2) [OF inv] sh] by simp
  show "pointers_indexed J ns owner T v'"
    by (rule pointers_indexed_shrinks [OF index_invD(3) [OF inv] sh])
  show "pointers_spent ns (w\<lparr>srv := r\<rparr>) v'"
    using index_invD(4) [OF inv] shrinksD(4,7,8) [OF sh]
    by (simp add: pointers_spent_def spent_def) blast
  show "members_wf ns v'"
    using index_invD(5) [OF inv] shrinksD(4) [OF sh] unfolding members_wf_def by blast
qed

section \<open>The removing steps shrink\<close>

lemma shrinks_refl: "typed ns v \<Longrightarrow> shrinks ns v v"
  by (simp add: shrinks_def)

lemma shrinks_trans [trans]:
  assumes uv: "shrinks ns u v" and vw: "shrinks ns v w"
  shows "shrinks ns u w"
  unfolding shrinks_def
proof (intro conjI allI impI)
  show "typed ns w" by (rule shrinksD(1) [OF vw])
next
  fix k s m
  assume "m \<in> members_at w (sess_key ns k s)"
  from shrinksD(4) [OF vw this] shrinksD(4) [OF uv, of m k s]
  show "m \<in> members_at u (sess_key ns k s)" "ttl_at w (sess_key ns k s) = ttl_at u (sess_key ns k s)"
    by simp_all
qed (use shrinksD(2,3,5,6,9) [OF uv] shrinksD(2,3,5,6,9) [OF vw] in \<open>simp_all (no_asm_simp)\<close>)

lemma shrinks_del:
  "typed ns v \<Longrightarrow> shrinks ns v (v_del (rp_key ns kind h) v)"
  "typed ns v \<Longrightarrow> shrinks ns v (v_del (rt_key ns kind h) v)"
  "typed ns v \<Longrightarrow> shrinks ns v (v_del (sd_key ns kind h) v)"
  "typed ns v \<Longrightarrow> shrinks ns v (v_del (fam_key ns kind h) v)"
  by (simp_all add: shrinks_def typed_def view_obs view_type)

lemma shrinks_set_sd: "typed ns v \<Longrightarrow> shrinks ns v (v_set_ex (sd_key ns kind h) d t v)"
  by (simp add: shrinks_def typed_def view_obs view_type)

lemma shrinks_srems_dead:
  assumes typed: "typed ns v" and dead: "\<And>m. m \<in> M \<Longrightarrow> v (ns @ '':'' @ m) = None"
  shows "shrinks ns v (v_srems (sess_key ns kind subject) M v)"
proof -
  have rt: "str_at v (rt_key ns k h) = None" if "index_member (kp_rt (kind_prefixes k)) h \<in> M" for k h
    using dead [OF that] by (simp add: key_index_member [simplified] str_at_def)
  have rp: "str_at v (rp_key ns k h) = None" if "index_member (kp_rp (kind_prefixes k)) h \<in> M" for k h
    using dead [OF that] by (simp add: key_index_member [simplified] str_at_def)
  have none: "members_at v (sess_key ns k s) = {}" if "v (sess_key ns k s) = None" for k s
    using that by (simp add: members_at_def)
  show ?thesis
    unfolding shrinks_def
  proof (intro conjI allI impI)
    show "typed ns (v_srems (sess_key ns kind subject) M v)"
      using typed by (simp add: typed_def view_type)
  qed (use rt rp none in \<open>auto simp: view_obs split: if_splits\<close>)
qed

lemma shrinks_dels:
  assumes typed: "typed ns v"
    and other: "\<And>k s. sess_key ns k s \<in> K \<Longrightarrow> k = kind \<and> s = subject"
    and swept: "sess_key ns kind subject \<in> K \<Longrightarrow>
      (\<forall>h. index_member (kp_rt (kind_prefixes kind)) h \<in> members_at v (sess_key ns kind subject)
           \<longrightarrow> rt_key ns kind h \<in> K) \<and>
      (\<forall>h. index_member (kp_rp (kind_prefixes kind)) h \<in> members_at v (sess_key ns kind subject)
           \<longrightarrow> rp_key ns kind h \<in> K)"
  shows "shrinks ns v (v_dels K v)"
proof -
  have rt: "sess_key ns k s \<notin> K"
    if "index_member (kp_rt (kind_prefixes k)) h \<in> members_at v (sess_key ns k s)" "rt_key ns k h \<notin> K"
    for k s h using that other [of k s] swept by blast
  have rp: "sess_key ns k s \<notin> K"
    if "index_member (kp_rp (kind_prefixes k)) h \<in> members_at v (sess_key ns k s)" "rp_key ns k h \<notin> K"
    for k s h using that other [of k s] swept by blast
  have "typed ns (v_dels K v)"
    using typed by (simp add: typed_def view_type)
  with rt rp show ?thesis
    unfolding shrinks_def by (auto simp: view_obs split: if_splits)
qed

text \<open>Time passes: an index never expires before a key it covers.\<close>

lemma covered_tick:
  assumes "survives n v k" and "covered T (ttl_at v k) (ttl_at v k')"
  shows "survives n v k' \<and> covered T (ttl_at (v_tick n v) k) (ttl_at (v_tick n v) k')"
  using assms by (auto simp: covered_iff survives_def view_obs)

lemma live_indexed_tick:
  assumes "live_indexed J ns owner T U v"
  shows "live_indexed J ns owner T U (v_tick n v)"
  using assms covered_tick [of n v _ T]
  unfolding live_indexed_def obs_tick(1,2) by (metis option.distinct(1))

lemma pointers_indexed_tick:
  assumes "pointers_indexed J ns owner T v"
  shows "pointers_indexed J ns owner T (v_tick n v)"
  using assms covered_tick [of n v _ T]
  unfolding pointers_indexed_def obs_tick(1,2) by (metis option.distinct(1))

lemma index_inv_tick:
  assumes inv: "index_inv J ns owner T w v"
  shows "index_inv J ns owner T (w\<lparr>srv := r\<rparr>) (v_tick n v)"
proof (rule index_invI)
  show "pointers_spent ns (w\<lparr>srv := r\<rparr>) (v_tick n v)"
    using index_invD(4) [OF inv] unfolding pointers_spent_def spent_def obs_tick(1,2)
    by (simp, metis empty_iff)
  show "members_wf ns (v_tick n v)"
    using index_invD(5) [OF inv] unfolding members_wf_def obs_tick(2) by (metis empty_iff)
qed (use index_invD [OF inv] in \<open>simp_all add: typed_tick live_indexed_tick pointers_indexed_tick\<close>)

lemma v_del_srem: "k \<noteq> k' \<Longrightarrow> v_del k (v_srem k' m v) = v_srem k' m (v_del k v)"
  by (auto simp: v_del_def v_srem_def obs_defs fun_eq_iff)

lemma shrinks_same:
  assumes typed: "typed ns v" and same: "\<forall>k \<in> session_keys ns. v' k = v k"
  shows "shrinks ns v v'"
proof -
  have same: "v' (rt_key ns k i) = v (rt_key ns k i)" "v' (rp_key ns k i) = v (rp_key ns k i)"
    "v' (cf_key ns k i) = v (cf_key ns k i)" "v' (fam_key ns k i) = v (fam_key ns k i)"
    "v' (sess_key ns k i) = v (sess_key ns k i)" "v' (sd_key ns k i) = v (sd_key ns k i)" for k i
    using same by (auto simp: session_keys_def)
  show ?thesis
    using typed unfolding shrinks_def typed_def type_defs obs_defs by (simp add: same)
qed

lemma shrinks_revoke_session:
  assumes "typed ns v"
  shows "shrinks ns v (v_del (sd_key ns kind h) (v_del (rt_key ns kind h)
    (v_srem (sess_key ns kind subject) (index_member (kp_rt (kind_prefixes kind)) h) v)))"
proof -
  let ?m = "index_member (kp_rt (kind_prefixes kind)) h"
  let ?v = "v_del (rt_key ns kind h) v"
  have "shrinks ns v ?v" using assms by (rule shrinks_del(2))
  also have "shrinks ns ?v (v_srems (sess_key ns kind subject) {?m} ?v)"
    by (rule shrinks_srems_dead [OF shrinksD(1) [OF shrinks_del(2) [OF assms]]])
      (simp add: key_index_member [simplified] view_obs)
  also (shrinks_trans) have "shrinks ns \<dots> (v_del (sd_key ns kind h) \<dots>)"
    using calculation by (intro shrinks_del(3)) (rule shrinksD(1))
  finally show ?thesis by (simp add: v_del_srem flip: v_srem_srems)
qed

lemma shrinks_revoke_all:
  assumes "typed ns v" and wf: "members_wf ns v"
  shows "shrinks ns v (v_dels (doomed ns kind subject v) v)"
proof (rule shrinks_dels [OF assms(1)])
  fix k s
  assume "sess_key ns k s \<in> doomed ns kind subject v"
  moreover have "sess_key ns k s \<noteq> ns @ '':'' @ m" if "m \<in> members_at v (sess_key ns kind subject)" for m
  proof -
    from wf that obtain h where "m = index_member (kp_rt (kind_prefixes kind)) h \<or>
        m = index_member (kp_rp (kind_prefixes kind)) h"
      unfolding members_wf_def by blast
    then show ?thesis by (auto simp: key_index_member [simplified])
  qed
  ultimately show "k = kind \<and> s = subject" by (auto simp: doomed_def)
qed (auto simp: doomed_def simp flip: key_index_member)

lemma index_inv_used:
  "index_inv J ns owner T w v \<Longrightarrow> index_inv J ns owner T (w\<lparr>srv := r, used := insert x (used w)\<rparr>) v"
  by (auto simp: index_inv_def live_indexed_def pointers_spent_def spent_def)

section \<open>Every step keeps the invariant\<close>

fun removing :: "'r store_action \<Rightarrow> bool" where
  "removing (Create _ _ _ _) = False"
| "removing (Rotate _ _) = False"
| "removing (Recover _ _ _ _) = False"
| "removing (Tick _) = False"
| "removing _ = True"

lemma json_result_simps [simp]: "json_result (Some a) = ret a" "json_result None = raise Decode"
  by (simp_all add: json_result_def)

text \<open>No live session and no grace pointer of the subject is left.\<close>

definition locked_out ::
    "codec \<Rightarrow> string \<Rightarrow> (SessionKind \<Rightarrow> SessionRecord \<Rightarrow> string) \<Rightarrow> SessionKind \<Rightarrow> string \<Rightarrow> rview \<Rightarrow> bool"
where
  "locked_out J ns owner kind subject v \<longleftrightarrow>
     (\<forall>h j s. str_at v (rt_key ns kind h) = Some j \<longrightarrow> dec_rec J j = Some s \<longrightarrow> owner kind s \<noteq> subject) \<and>
     (\<forall>h new j s. str_at v (rp_key ns kind h) = Some (new @ '':'' @ j) \<longrightarrow> CHR '':'' \<notin> set new \<longrightarrow>
        dec_rec J j = Some s \<longrightarrow> owner kind s \<noteq> subject)"

text \<open>Runs in which the subject does not log in.\<close>

inductive quiet_run ::
    "'r RedisStores \<Rightarrow> ('r \<Rightarrow> rview) \<Rightarrow> (SessionKind \<Rightarrow> SessionRecord \<Rightarrow> string) \<Rightarrow> nat \<Rightarrow>
     SessionKind \<Rightarrow> string \<Rightarrow> 'r world \<Rightarrow> 'r world \<Rightarrow> bool"
  for S :: "'r RedisStores" and view :: "'r \<Rightarrow> rview"
    and owner :: "SessionKind \<Rightarrow> SessionRecord \<Rightarrow> string" and T :: nat
    and kind :: SessionKind and subject :: string
where
  refl: "quiet_run S view owner T kind subject w w"
| step: "\<lbrakk>quiet_run S view owner T kind subject w w'; store_step S view owner T a w' w'';
    \<forall>h d. a \<noteq> Create kind subject h d\<rbrakk> \<Longrightarrow> quiet_run S view owner T kind subject w w''"

context store_service
begin

lemmas view_tick = tick

lemma find_session_run:
  assumes "typed (rs_namespace S) (view r)"
    and "str_at (view r) (rt_key (rs_namespace S) kind h) = Some j" and "dec_rec (rs_codec S) j = Some s"
  shows "find_session_inner S kind h \<lparr>server = r, net = []\<rparr> = (Inr (Some s), \<lparr>server = r, net = []\<rparr>)"
  using assms by (simp add: find_session_inner_def rbind_def connection_def query_def get typedD)

abbreviation inv :: "(SessionKind \<Rightarrow> SessionRecord \<Rightarrow> string) \<Rightarrow> nat \<Rightarrow> 'r world \<Rightarrow> bool" where
  "inv owner T w \<equiv> index_inv (rs_codec S) (rs_namespace S) owner T w (view (srv w))"

lemma inv_rotate:
  assumes inv: "inv owner T w" and "ttl_ok T"
    and step: "store_step S view owner T (Rotate kind rot) w w'"
  shows "inv owner T w'"
proof -
  note typed = index_invD(1) [OF inv]
  from step obtain j where j: "enc_rec (rs_codec S) (ro_new_record rot) = Some j"
    and fresh: "(kind, ro_new_hash rot) \<notin> used w" "CHR '':'' \<notin> set (ro_new_hash rot)"
    and ttl: "ro_refresh_ttl rot = T" "ro_grace_ttl rot \<le> T"
    and owner: "\<And>old s. find_session_inner S kind (ro_old_hash rot) \<lparr>server = srv w, net = []\<rparr>
              = (Inr (Some old), s) \<Longrightarrow> owner kind (ro_new_record rot) = ro_subject_hash rot"
    and w': "w' = w\<lparr>srv := snd (rotate_script S kind rot j (srv w)),
         used := insert (kind, ro_new_hash rot) (used w)\<rparr>"
    by cases auto
  show ?thesis
  proof (cases "str_at (view (srv w)) (rt_key (rs_namespace S) kind (ro_old_hash rot))")
    case None
    have "index_inv (rs_codec S) (rs_namespace S) owner T w
        (v_del (rp_key (rs_namespace S) kind (ro_old_hash rot)) (view (srv w)))"
      using index_inv_shrinks [OF inv shrinks_del(1) [OF typed], where r = "srv w"] by simp
    from index_inv_used [OF this] show ?thesis
      by (simp add: w' rotate_spent [OF typed None])
  next
    case (Some old)
    then obtain s where "enc_rec (rs_codec S) s = Some old"
      by (rule live_indexedE [OF index_invD(2) [OF inv]])
    then have "dec_rec (rs_codec S) old = Some s" by (rule dec_enc_rec)
    with owner find_session_run [OF typed Some]
    have "owner kind (ro_new_record rot) = ro_subject_hash rot" by blast
    with index_inv_rotate [OF inv fresh ttl Some j] assms(2) ttl typed Some
    show ?thesis by (simp add: w' rotate_live)
  qed
qed

lemma shrinks_family:
  assumes typed: "typed (rs_namespace S) (view r)"
  shows "shrinks (rs_namespace S) (view r) (view (snd (family_script S kind family subject r)))"
proof -
  let ?ns = "rs_namespace S"
  let ?hs = "members_at (view r) (fam_key ?ns kind family)"
  let ?v = "v_dels {k. \<exists>h \<in> ?hs. k = rt_key ?ns kind h \<or> k = sd_key ?ns kind h} (view r)"
  let ?m = "index_member (kp_rt (kind_prefixes kind)) ` ?hs"
  have v: "shrinks ?ns (view r) ?v"
    by (rule shrinks_dels [OF typed]) auto
  have "shrinks ?ns ?v (v_srems (sess_key ?ns kind s) ?m ?v)" for s
    by (rule shrinks_srems_dead [OF shrinksD(1) [OF v]])
      (auto simp: key_index_member [simplified] view_obs)
  then have s: "shrinks ?ns (view r) (v_srems (sess_key ?ns kind s) ?m ?v)" for s
    by (rule shrinks_trans [OF v])
  have d: "shrinks ?ns (view r) (v_del (fam_key ?ns kind family) v')" if "shrinks ?ns (view r) v'" for v'
    by (rule shrinks_trans [OF that shrinks_del(4) [OF shrinksD(1) [OF that]]])
  show ?thesis
    unfolding view_family [OF typed] Let_def by (rule d) (simp add: v s shrinks_refl [OF typed] split: option.split)
qed

lemma shrinks_prune:
  assumes "typed (rs_namespace S) (view r)"
  shows "shrinks (rs_namespace S) (view r)
    (view (snd (session_prune_dead (rs_redis S) (sess_key (rs_namespace S) kind subject)
                  (rs_namespace S) ms r)))"
proof (rule view_prune_invariant)
  show "shrinks (rs_namespace S) (view r) (view r)" using assms by (rule shrinks_refl)
next
  fix v
  assume v: "shrinks (rs_namespace S) (view r) v"
  show "set_or_absent v (sess_key (rs_namespace S) kind subject)"
    by (rule typedD(6) [OF shrinksD(1) [OF v]])
  fix m
  assume "v (rs_namespace S @ '':'' @ m) = None"
  then show "shrinks (rs_namespace S) (view r) (v_srem (sess_key (rs_namespace S) kind subject) m v)"
    unfolding v_srem_srems
    by (intro shrinks_trans [OF v] shrinks_srems_dead [OF shrinksD(1) [OF v]]) simp
qed

lemma inv_grow:
  assumes inv: "inv owner T w" and "ttl_ok T" and j: "enc_rec (rs_codec S) detail = Some j"
    and fresh: "(kind, h) \<notin> used w"
  shows "inv owner T (w\<lparr>srv := create_session_tx S kind (owner kind detail) h (sr_family_id detail) j
                 (enc_det (rs_codec S) (at_creation detail)) T (srv w),
         used := insert (kind, h) (used w)\<rparr>)" (is ?create)
    and "inv owner T (w\<lparr>srv := snd (recover_script S kind (owner kind detail) h (sr_family_id detail) j
                 (enc_det (rs_codec S) (at_creation detail)) T (srv w)),
         used := insert (kind, h) (used w)\<rparr>)" (is ?recover)
proof -
  note typed = index_invD(1) [OF inv]
  note create = index_inv_create [OF inv fresh j]
  show ?create using create by (simp add: view_create [OF typed assms(2)])
  show ?recover using create index_inv_used [OF inv] by (simp add: view_recover [OF typed assms(2)])
qed

lemma removing_step:
  assumes inv: "inv owner T w" and "ttl_ok T" and step: "store_step S view owner T a w w'"
    and "removing a"
  shows "shrinks (rs_namespace S) (view (srv w)) (view (srv w'))"
proof -
  note typed = index_invD(1) [OF inv]
  from step show ?thesis
  proof cases
    case (move_detail rot kind)
    note sd = shrinks_del(3) [OF typed]
    show ?thesis
      using move_detail assms(2) shrinks_trans [OF sd shrinks_set_sd [OF shrinksD(1) [OF sd]]]
      by (simp add: view_move_detail)
  next
    case (sweep_rem kind h subject)
    with inv have "str_at (view (srv w)) (rp_key (rs_namespace S) kind h) = None"
      by (simp add: index_inv_def pointers_spent_def)
    with typed have "shrinks (rs_namespace S) (view (srv w)) (v_srems (sess_key (rs_namespace S) kind subject)
        {index_member (kp_rp (kind_prefixes kind)) h} (view (srv w)))"
      by (intro shrinks_srems_dead) (simp_all add: typed_str_absent key_index_member [simplified])
    with sweep_rem typed show ?thesis by (simp add: srem typedD v_srem_srems)
  qed (use assms(4) typed index_invD(5) [OF inv] in
      \<open>simp_all add: view_revoke_session shrinks_revoke_session shrinks_refl view_revoke_all
        shrinks_revoke_all shrinks_family shrinks_prune del shrinks_del shrinks_same\<close>)
qed

text \<open>What a removing step adds to the history: pointers that are spent.\<close>

lemma removing_history:
  assumes inv: "inv owner T w" and ttl: "ttl_ok T" and step: "store_step S view owner T a w w'"
    and removing: "removing a"
  shows "used w' = used w"
    and "(kind, h) \<in> seen w' \<Longrightarrow> spent (rs_namespace S) (used w) (view (srv w)) kind h"
    and "(kind, h) \<in> swept w' \<Longrightarrow> spent (rs_namespace S) (used w) (view (srv w)) kind h \<and>
      str_at (view (srv w')) (rp_key (rs_namespace S) kind h) = None"
proof -
  note sh = removing_step [OF inv ttl step removing]
  note members = smembers [OF typedD(6) [OF index_invD(1) [OF inv]]]
  from index_invD(4) [OF inv] have
    indexed: "\<And>kind h subject. index_member (kp_rp (kind_prefixes kind)) h \<in>
      members_at (view (srv w)) (sess_key (rs_namespace S) kind subject) \<Longrightarrow>
      spent (rs_namespace S) (used w) (view (srv w)) kind h"
    and seen: "\<And>kind h. (kind, h) \<in> seen w \<Longrightarrow> spent (rs_namespace S) (used w) (view (srv w)) kind h"
    and swept: "\<And>kind h. (kind, h) \<in> swept w \<Longrightarrow> spent (rs_namespace S) (used w) (view (srv w)) kind h"
      "\<And>kind h. (kind, h) \<in> swept w \<Longrightarrow> str_at (view (srv w)) (rp_key (rs_namespace S) kind h) = None"
    by (simp_all add: pointers_spent_def) blast
  show "used w' = used w" using step removing by cases simp_all
  show "spent (rs_namespace S) (used w) (view (srv w)) kind h" if "(kind, h) \<in> seen w'"
    using step removing
  proof cases
    case sweep_read
    with that seen indexed show ?thesis by (auto simp: members)
  qed (use that seen in simp_all)
  show "spent (rs_namespace S) (used w) (view (srv w)) kind h \<and>
      str_at (view (srv w')) (rp_key (rs_namespace S) kind h) = None" if "(kind, h) \<in> swept w'"
  proof (cases "(kind, h) \<in> swept w")
    case True
    with swept shrinksD(8) [OF sh] show ?thesis by simp
  next
    case False
    from step removing show ?thesis
    proof cases
      case sweep_del
      with that False seen show ?thesis by (auto simp: del view_obs)
    qed (use that False in simp_all)
  qed
qed

lemma inv_step:
  assumes inv: "inv owner T w" and ttl: "ttl_ok T" and step: "store_step S view owner T a w w'"
  shows "inv owner T w'"
proof (cases "removing a")
  case True
  note sh = removing_step [OF inv ttl step True]
  note history = removing_history [OF inv ttl step True]
  have "index_inv (rs_codec S) (rs_namespace S) owner T w (view (srv w'))"
    using index_inv_shrinks [OF inv sh, where r = "srv w"] by simp
  with history shrinksD(7) [OF sh] show ?thesis
    by (auto simp: index_inv_def pointers_spent_def spent_def)
next
  case False
  from step show ?thesis
  proof cases
    case create
    with inv_grow(1) [OF inv ttl] show ?thesis by simp
  next
    case rotate
    show ?thesis by (rule inv_rotate [OF inv ttl step [unfolded rotate(1)]])
  next
    case recover
    with inv_grow(2) [OF inv ttl] show ?thesis by simp
  next
    case (tick n)
    with index_inv_tick [OF inv] show ?thesis by (simp add: view_tick)
  qed (use False in simp_all)
qed

lemma inv_reachable:
  assumes "reachable S view owner T w" and "ttl_ok T"
  shows "inv owner T w"
  using assms
proof (induction rule: reachable.induct)
  case (start r)
  then have none: "view r (rt_key (rs_namespace S) k i) = None" "view r (rp_key (rs_namespace S) k i) = None"
    "view r (cf_key (rs_namespace S) k i) = None" "view r (fam_key (rs_namespace S) k i) = None"
    "view r (sess_key (rs_namespace S) k i) = None" "view r (sd_key (rs_namespace S) k i) = None" for k i
    by (auto simp: session_keys_def)
  then show ?case
    by (simp add: index_inv_def index_defs members_wf_def typed_def type_defs obs_defs)
qed (rule inv_step)

text \<open>With no index, nothing of the subject is left; only a login brings an index back.\<close>

lemma locked_out_of_no_index:
  assumes inv: "inv owner T w" and none: "view (srv w) (sess_key (rs_namespace S) kind subject) = None"
  shows "locked_out (rs_codec S) (rs_namespace S) owner kind subject (view (srv w))"
proof -
  have empty: "members_at (view (srv w)) (sess_key (rs_namespace S) kind subject) = {}"
    using none by (simp add: members_at_def)
  show ?thesis unfolding locked_out_def
  proof (intro conjI allI impI notI)
    fix h j s
    assume "str_at (view (srv w)) (rt_key (rs_namespace S) kind h) = Some j"
      "dec_rec (rs_codec S) j = Some s" "owner kind s = subject"
    with empty show False
      by (auto elim!: live_indexedE [OF index_invD(2) [OF inv]] dest!: dec_enc_rec)
  next
    fix h new j s
    assume "str_at (view (srv w)) (rp_key (rs_namespace S) kind h) = Some (new @ '':'' @ j)"
      "CHR '':'' \<notin> set new" "dec_rec (rs_codec S) j = Some s" "owner kind s = subject"
    with empty show False
      by (auto elim!: pointers_indexedE [OF index_invD(3) [OF inv]] simp: sep_append_inj dest!: dec_enc_rec)
  qed
qed

lemma no_index_step:
  assumes inv: "inv owner T w" and ttl: "ttl_ok T" and step: "store_step S view owner T a w w'"
    and none: "view (srv w) (sess_key (rs_namespace S) kind subject) = None"
    and quiet: "\<forall>h d. a \<noteq> Create kind subject h d"
  shows "view (srv w') (sess_key (rs_namespace S) kind subject) = None"
proof (cases "removing a")
  case True
  show ?thesis by (rule shrinksD(9) [OF removing_step [OF inv ttl step True] none])
next
  case False
  note typed = index_invD(1) [OF inv]
  from step show ?thesis
  proof cases
    case create
    with quiet none show ?thesis
      by (auto simp: view_create [OF typed ttl] v_create_def Let_def view_obs)
  next
    case (rotate rot j k)
    show ?thesis
    proof (cases "str_at (view (srv w)) (rt_key (rs_namespace S) k (ro_old_hash rot))")
      case None
      with none rotate show ?thesis by (simp add: rotate_spent [OF typed None] view_obs)
    next
      case (Some old)
      then obtain s where "enc_rec (rs_codec S) s = Some old"
        by (rule live_indexedE [OF index_invD(2) [OF inv]])
      then have s: "dec_rec (rs_codec S) old = Some s" by (rule dec_enc_rec)
      with rotate(8) find_session_run [OF typed Some s] have "owner k s = ro_subject_hash rot" by blast
      with locked_out_of_no_index [OF inv none] Some s have "\<not> (k = kind \<and> ro_subject_hash rot = subject)"
        by (auto simp: locked_out_def)
      with none rotate(6,7) ttl show ?thesis
        by (auto simp: rotate(2) rotate_live(2) [OF typed _ _ Some] v_rotate_def Let_def view_obs)
    qed
  next
    case recover
    with none show ?thesis
      by (auto simp: view_recover [OF typed ttl] v_create_def Let_def view_obs)
  next
    case (tick n)
    with none show ?thesis by (simp add: view_tick view_obs)
  qed (use False in simp_all)
qed

lemma no_index_run:
  assumes "quiet_run S view owner T kind subject w w'" and "inv owner T w" and "ttl_ok T"
    and "view (srv w) (sess_key (rs_namespace S) kind subject) = None"
  shows "inv owner T w' \<and> view (srv w') (sess_key (rs_namespace S) kind subject) = None"
  using assms by (induction rule: quiet_run.induct) (auto intro: inv_step no_index_step)

lemma sweep_no_index:
  assumes "inv owner T w"
  shows "view (snd (revoke_all_script S kind subject (srv w))) (sess_key (rs_namespace S) kind subject) = None"
  by (simp add: view_revoke_all [OF index_invD(1) [OF assms]] view_obs doomed_def)

end

end
