(* ===== verification/Session_Properties.thy ===== *)
theory Session_Properties
  imports Session_Index
begin

text \<open>
  What the session store promises, proved for every server that meets \<open>redis_service\<close>, every
  codec that meets \<open>session_codec\<close>, every interleaving of steps and, where stated, every network
  schedule. The witnesses run the operations on the in-process server.
\<close>

section \<open>Answers and effects of the trait methods\<close>

lemma revoke_all_Inr:
  "revoke_all S kind subject c = (Inr u, c') \<Longrightarrow>
     server c' = snd (revoke_all_script S kind subject (server c))"
  by (auto simp: revoke_all_def revoke_all_inner_def map_err_eq_Inr rbind_eq_Inr
      dest!: connection_Inr query_Inr)

lemma interpret_rotate_simps:
  "interpret_rotate J None = Inr PInvalid"
  "interpret_rotate J (Some (''GRACE:'' @ x)) =
     (case dec_rec J x of None \<Rightarrow> Inl Decode | Some s \<Rightarrow> Inr (PGrace s))"
  "interpret_rotate J (Some (''REUSED:'' @ f)) = Inr (PReused f)"
  "interpret_rotate J (Some (CHR ''{'' # x)) =
     (case dec_rec J (CHR ''{'' # x) of None \<Rightarrow> Inl Decode | Some s \<Rightarrow> Inr (PRotated s))"
  by (simp_all add: interpret_rotate_def)

lemma rotate_session_Inr:
  assumes "rotate_session S kind rot c = (Inr out, c')"
  obtains j raw r1 parsed where "enc_rec (rs_codec S) (ro_new_record rot) = Some j"
    and "rotate_script S kind rot j (server c) = (raw, r1)"
    and "interpret_rotate (rs_codec S) raw = Inr parsed"
    and "\<And>old. out = Rotated old \<Longrightarrow> parsed = PRotated old"
proof -
  from assms obtain j c1 raw c2 parsed where j: "enc_rec (rs_codec S) (ro_new_record rot) = Some j"
    and c1: "connection c = (Inr (), c1)" and q: "query (rotate_script S kind rot j) c1 = (Inr raw, c2)"
    and i: "interpret_rotate (rs_codec S) raw = Inr parsed"
    and rest: "(case parsed of PInvalid \<Rightarrow> ret Invalid
           | PGrace record' \<Rightarrow> rbind (family_is_alive S (kp_fam (kind_prefixes kind)) record')
                (\<lambda>alive. ret (if alive then Grace record' else Invalid))
           | PReused family \<Rightarrow> ret (Reused family)
           | PRotated old_record \<Rightarrow>
               rbind (move_session_detail S kind rot) (\<lambda>_. ret (Rotated old_record))) c2 = (Inr out, c')"
    by (cases "enc_rec (rs_codec S) (ro_new_record rot)")
      (auto simp: rotate_session_def rotate_inner_def Let_def map_err_eq_Inr rbind_eq_Inr)
  have "rotate_script S kind rot j (server c) = (raw, server c2)"
    using query_Inr [OF q] connection_Inr [OF c1] by simp
  moreover have "parsed = PRotated old" if "out = Rotated old" for old
    using rest that by (cases parsed) (auto simp: rbind_eq_Inr split: if_splits)
  ultimately show thesis using j i that by blast
qed

section \<open>A refresh token rotates once\<close>

inductive store_run ::
    "'r RedisStores \<Rightarrow> ('r \<Rightarrow> rview) \<Rightarrow> (SessionKind \<Rightarrow> SessionRecord \<Rightarrow> string) \<Rightarrow> nat \<Rightarrow>
     'r world \<Rightarrow> 'r world \<Rightarrow> bool"
  for S :: "'r RedisStores" and view :: "'r \<Rightarrow> rview"
    and owner :: "SessionKind \<Rightarrow> SessionRecord \<Rightarrow> string" and T :: nat
where
  refl: "store_run S view owner T w w"
| step: "\<lbrakk>store_run S view owner T w w'; store_step S view owner T a w' w''\<rbrakk> \<Longrightarrow>
    store_run S view owner T w w''"

context store_service
begin

lemma spent_step:
  assumes inv: "inv owner T w" and ttl: "ttl_ok T" and step: "store_step S view owner T a w w'"
    and spent: "spent (rs_namespace S) (used w) (view (srv w)) kind h"
  shows "spent (rs_namespace S) (used w') (view (srv w')) kind h"
proof (cases "removing a")
  case True
  with spent removing_history(1) [OF inv ttl step True]
    shrinksD(7) [OF removing_step [OF inv ttl step True]]
  show ?thesis by (simp add: spent_def)
next
  case False
  note typed = index_invD(1) [OF inv]
  from step show ?thesis
  proof cases
    case create
    with spent show ?thesis
      by (auto simp: spent_def view_create [OF typed ttl] v_create_def Let_def view_obs)
  next
    case (rotate rot j k)
    show ?thesis
    proof (cases "str_at (view (srv w)) (rt_key (rs_namespace S) k (ro_old_hash rot))")
      case None
      with spent rotate show ?thesis by (simp add: spent_def rotate_spent [OF typed None] view_obs)
    next
      case (Some old)
      with spent rotate(4,6,7) ttl show ?thesis
        by (auto simp: spent_def rotate(2) rotate_live(2) [OF typed _ _ Some] v_rotate_def Let_def
            view_obs)
    qed
  next
    case recover
    with spent show ?thesis
      by (auto simp: spent_def view_recover [OF typed ttl] v_create_def Let_def view_obs)
  next
    case (tick n)
    with spent show ?thesis by (simp add: spent_def view_tick view_obs)
  qed (use False in simp_all)
qed

lemma spent_run:
  assumes "store_run S view owner T w w'" and "inv owner T w" and "ttl_ok T"
    and "spent (rs_namespace S) (used w) (view (srv w)) kind h"
  shows "inv owner T w' \<and> spent (rs_namespace S) (used w') (view (srv w')) kind h"
  using assms by (induction rule: store_run.induct) (auto intro: inv_step spent_step)

lemma rotate_spends:
  assumes inv: "inv owner T w" and ttl: "ttl_ok T"
    and step: "store_step S view owner T (Rotate kind rot) w w'"
    and issued: "(kind, ro_old_hash rot) \<in> used w"
  shows "spent (rs_namespace S) (used w') (view (srv w')) kind (ro_old_hash rot)"
proof -
  note typed = index_invD(1) [OF inv]
  from step show ?thesis
  proof cases
    case (rotate j)
    show ?thesis
    proof (cases "str_at (view (srv w)) (rt_key (rs_namespace S) kind (ro_old_hash rot))")
      case None
      with issued rotate show ?thesis by (simp add: spent_def rotate_spent [OF typed None] view_obs)
    next
      case (Some old)
      with issued rotate ttl show ?thesis
        by (simp add: spent_def rotate_live(2) [OF typed _ _ Some] v_rotate_def Let_def view_obs)
    qed
  qed
qed

text \<open>The reply to a token that is not live is never taken for a rotation.\<close>

lemma spent_reply:
  assumes typed: "typed (rs_namespace S) (view r)"
    and "str_at (view r) (rt_key (rs_namespace S) kind (ro_old_hash rot)) = None"
  shows "\<exists>x. fst (rotate_script S kind rot j r) \<in> {None, Some (''GRACE:'' @ x), Some (''REUSED:'' @ x)}"
  using assms
  by (auto simp: rotate_script_def refresh_rotate_def consumed_family_def Let_def get typedD
      split: option.splits)

lemma spent_never_rotates:
  assumes "typed (rs_namespace S) (view (server c))"
    and "str_at (view (server c)) (rt_key (rs_namespace S) kind (ro_old_hash rot)) = None"
    and "rotate_session S kind rot c = (Inr out, c')"
  shows "out \<noteq> Rotated old"
proof
  assume "out = Rotated old"
  with assms(3) obtain j raw r1 where "rotate_script S kind rot j (server c) = (raw, r1)"
    and "interpret_rotate (rs_codec S) raw = Inr (PRotated old)"
    by (auto elim!: rotate_session_Inr)
  with spent_reply [OF assms(1,2), of j] show False
    by (auto simp: interpret_rotate_simps simp flip: append_Cons split: option.splits)
qed

end

section \<open>Runs on a working network\<close>

lemma connection_up: "net c = [] \<Longrightarrow> connection c = (Inr (), c)"
  by (simp add: connection_def)

lemma query_up:
  "net c = [] \<Longrightarrow> query f c = (Inr (fst (f (server c))), c\<lparr>server := snd (f (server c))\<rparr>)"
  by (simp add: query_def split: prod.splits)

lemma client_same: "server c = r \<Longrightarrow> c\<lparr>server := r\<rparr> = c"
  by (cases c) simp

lemmas run_simps = rbind_def connection_up query_up map_err_def

text \<open>
  The outcome of presenting a refresh token, read off the key space: live tokens rotate; a
  rotated-away token recovers once, while its successor and its family live; a consumed token is
  reported as reused; anything else was never issued.
\<close>

definition rotate_spec :: "codec \<Rightarrow> string \<Rightarrow> SessionKind \<Rightarrow> string \<Rightarrow> rview \<Rightarrow> RotateOutcome" where
  "rotate_spec J ns kind old v =
     (let consumed = (case str_at v (cf_key ns kind old) of Some f \<Rightarrow> Reused f | None \<Rightarrow> Invalid)
      in case str_at v (rt_key ns kind old) of
           Some j \<Rightarrow> (case dec_rec J j of Some s \<Rightarrow> Rotated s | None \<Rightarrow> Invalid)
         | None \<Rightarrow>
             (case str_at v (rp_key ns kind old) of
                None \<Rightarrow> consumed
              | Some p \<Rightarrow>
                  (case split_once (CHR '':'') p of
                     None \<Rightarrow> consumed
                   | Some (successor, j) \<Rightarrow>
                       if v (rt_key ns kind successor) = None then consumed
                       else (case dec_rec J j of
                               None \<Rightarrow> Invalid
                             | Some s \<Rightarrow>
                                 if sr_family_id s = [] \<or> v (fam_key ns kind (sr_family_id s)) \<noteq> None
                                 then Grace s else Invalid))))"

context store_service
begin

lemma rotate_run_live:
  assumes "interpret_rotate (rs_codec S) (fst (rotate_script S kind rot j (server c))) = Inr (PRotated s)"
    and "enc_rec (rs_codec S) (ro_new_record rot) = Some j" and "net c = []"
  shows "fst (rotate_session S kind rot c) = Inr (Rotated s)"
  using assms
  by (simp add: rotate_session_def rotate_inner_def Let_def run_simps move_session_detail_def)

lemma rotate_run_replayed:
  assumes "interpret_rotate (rs_codec S) (fst (rotate_script S kind rot j (server c))) = Inr (PReused f)"
    and "enc_rec (rs_codec S) (ro_new_record rot) = Some j" and "net c = []"
  shows "fst (rotate_session S kind rot c) = Inr (Reused f)"
  using assms by (simp add: rotate_session_def rotate_inner_def Let_def run_simps)

lemma rotate_run_unknown:
  assumes "interpret_rotate (rs_codec S) (fst (rotate_script S kind rot j (server c))) = Inr PInvalid"
    and "enc_rec (rs_codec S) (ro_new_record rot) = Some j" and "net c = []"
  shows "fst (rotate_session S kind rot c) = Inr Invalid"
  using assms by (simp add: rotate_session_def rotate_inner_def Let_def run_simps)

lemma rotate_run_grace:
  assumes "interpret_rotate (rs_codec S) (fst (rotate_script S kind rot j (server c))) = Inr (PGrace s)"
    and "enc_rec (rs_codec S) (ro_new_record rot) = Some j" and "net c = []"
    and "view (snd (rotate_script S kind rot j (server c))) (fam_key (rs_namespace S) kind (sr_family_id s)) =
         view (server c) (fam_key (rs_namespace S) kind (sr_family_id s))"
  shows "fst (rotate_session S kind rot c) =
    Inr (if sr_family_id s = [] \<or> view (server c) (fam_key (rs_namespace S) kind (sr_family_id s)) \<noteq> None
         then Grace s else Invalid)"
  using assms
  by (simp add: rotate_session_def rotate_inner_def Let_def run_simps family_is_alive_def exists)

lemma rotate_run_consumed:
  assumes "fst (rotate_script S kind rot j (server c)) = map_option (\<lambda>f. ''REUSED:'' @ f) x"
    and "enc_rec (rs_codec S) (ro_new_record rot) = Some j" and "net c = []"
  shows "fst (rotate_session S kind rot c) = Inr (case x of Some f \<Rightarrow> Reused f | None \<Rightarrow> Invalid)"
  using assms(1) rotate_run_replayed [OF _ assms(2,3)] rotate_run_unknown [OF _ assms(2,3)]
  by (cases x) (simp_all add: interpret_rotate_simps [simplified])

lemma rotate_refines_live:
  assumes inv: "inv owner T w" and j: "enc_rec (rs_codec S) (ro_new_record rot) = Some j"
    and ttl: "ttl_ok (ro_refresh_ttl rot)" "ro_grace_ttl rot \<le> ro_refresh_ttl rot"
    and c: "net c = []" "server c = srv w"
    and live: "str_at (view (srv w)) (rt_key (rs_namespace S) kind (ro_old_hash rot)) = Some i"
  shows "fst (rotate_session S kind rot c) =
    Inr (rotate_spec (rs_codec S) (rs_namespace S) kind (ro_old_hash rot) (view (srv w)))"
proof -
  obtain s where s: "enc_rec (rs_codec S) s = Some i"
    using live by (rule live_indexedE [OF index_invD(2) [OF inv]])
  with enc_rec_object [OF s] have "interpret_rotate (rs_codec S) (Some i) = Inr (PRotated s)"
    by (auto simp: interpret_rotate_simps dec_enc_rec)
  with rotate_run_live j c s live rotate_live(1) [OF index_invD(1) [OF inv] ttl live] show ?thesis
    by (simp add: rotate_spec_def Let_def dec_enc_rec)
qed

lemma rotate_refines_pointer:
  assumes inv: "inv owner T w" and j: "enc_rec (rs_codec S) (ro_new_record rot) = Some j"
    and c: "net c = []" "server c = srv w"
    and dead: "str_at (view (srv w)) (rt_key (rs_namespace S) kind (ro_old_hash rot)) = None"
    and pointer: "str_at (view (srv w)) (rp_key (rs_namespace S) kind (ro_old_hash rot)) = Some p"
  shows "fst (rotate_session S kind rot c) =
    Inr (rotate_spec (rs_codec S) (rs_namespace S) kind (ro_old_hash rot) (view (srv w)))"
proof -
  note typed = index_invD(1) [OF inv]
  obtain new i s where p: "p = new @ '':'' @ i" "CHR '':'' \<notin> set new" "enc_rec (rs_codec S) s = Some i"
    using pointer by (rule pointers_indexedE [OF index_invD(3) [OF inv]])
  have split: "split_once (CHR '':'') p = Some (new, i)" using p by (simp add: split_once_append)
  show ?thesis
  proof (cases "view (srv w) (rt_key (rs_namespace S) kind new)")
    case None
    have "fst (rotate_script S kind rot j (srv w)) = map_option (\<lambda>f. ''REUSED:'' @ f)
        (str_at (view (srv w)) (cf_key (rs_namespace S) kind (ro_old_hash rot)))"
      by (rule rotate_no_grace [OF typed dead]) (use None pointer p in blast)
    with rotate_run_consumed [OF _ j c(1)] dead pointer split None c show ?thesis
      by (simp add: rotate_spec_def Let_def)
  next
    case (Some x)
    have "fst (rotate_script S kind rot j (srv w)) = Some (''GRACE:'' @ i)"
      using rotate_grace [OF typed dead] pointer p Some by simp
    then have "interpret_rotate (rs_codec S) (fst (rotate_script S kind rot j (srv w))) = Inr (PGrace s)"
      using interpret_rotate_simps(2) p(3) by (simp add: dec_enc_rec)
    with rotate_run_grace [OF _ j c(1), of kind s] dead pointer split Some p(3) show ?thesis
      by (simp add: c rotate_spent [OF typed dead] v_del_def rotate_spec_def Let_def dec_enc_rec)
  qed
qed

lemma rotate_refines:
  assumes inv: "inv owner T w" and j: "enc_rec (rs_codec S) (ro_new_record rot) = Some j"
    and ttl: "ttl_ok (ro_refresh_ttl rot)" "ro_grace_ttl rot \<le> ro_refresh_ttl rot"
    and c: "net c = []" "server c = srv w"
  shows "fst (rotate_session S kind rot c) =
    Inr (rotate_spec (rs_codec S) (rs_namespace S) kind (ro_old_hash rot) (view (srv w)))"
proof (cases "str_at (view (srv w)) (rt_key (rs_namespace S) kind (ro_old_hash rot))")
  case (Some i)
  then show ?thesis by (rule rotate_refines_live [OF assms])
next
  case dead: None
  show ?thesis
  proof (cases "str_at (view (srv w)) (rp_key (rs_namespace S) kind (ro_old_hash rot))")
    case (Some p)
    with dead show ?thesis by (rule rotate_refines_pointer [OF inv j c])
  next
    case None
    with dead rotate_run_consumed [OF _ j c(1)] rotate_no_grace [OF index_invD(1) [OF inv] dead] c
    show ?thesis by (simp add: rotate_spec_def Let_def)
  qed
qed

end

section \<open>Listing\<close>

definition detail_at :: "codec \<Rightarrow> string \<Rightarrow> SessionKind \<Rightarrow> rview \<Rightarrow> string \<Rightarrow> SessionDetail option" where
  "detail_at J ns kind v h =
     (case read_detail J h (str_at v (sd_key ns kind h)) of Listed d \<Rightarrow> Some d | Excluded \<Rightarrow> None)"

fun entries_of :: "codec \<Rightarrow> string \<Rightarrow> SessionKind \<Rightarrow> rview \<Rightarrow> string list \<Rightarrow> SessionEntry list" where
  "entries_of J ns kind v [] = []"
| "entries_of J ns kind v (m # ms) =
     (case live_member_hash m (kp_rt (kind_prefixes kind)) of
        None \<Rightarrow> entries_of J ns kind v ms
      | Some h \<Rightarrow> \<lparr>se_session_hash = h, se_detail = detail_at J ns kind v h\<rparr> # entries_of J ns kind v ms)"

definition candidate :: "codec \<Rightarrow> string \<Rightarrow> SessionKind \<Rightarrow> rview \<Rightarrow> string \<Rightarrow> bool" where
  "candidate J ns kind v m =
     (case live_member_hash m (kp_rt (kind_prefixes kind)) of
        None \<Rightarrow> starts_with (as_str (kp_rp (kind_prefixes kind)) @ '':'') m
      | Some h \<Rightarrow> detail_at J ns kind v h = None)"

lemma set_entries_of:
  "e \<in> set (entries_of J ns kind v ms) \<longleftrightarrow>
     index_member (kp_rt (kind_prefixes kind)) (se_session_hash e) \<in> set ms \<and>
     se_detail e = detail_at J ns kind v (se_session_hash e)"
proof (induction ms)
  case (Cons m ms)
  then show ?case
    by (cases "live_member_hash m (kp_rt (kind_prefixes kind))"; cases e)
      (auto simp: live_member_hash_iff)
qed simp

context store_service
begin

lemma list_loop_run:
  assumes "typed (rs_namespace S) (view (server c))" and "net c = []"
  shows "list_loop S (kind_prefixes kind) ms es st c =
    (Inr (es @ entries_of (rs_codec S) (rs_namespace S) kind (view (server c)) ms,
          st @ filter (candidate (rs_codec S) (rs_namespace S) kind (view (server c))) ms), c)"
proof (induction ms arbitrary: es st)
  case (Cons m ms)
  show ?case
  proof (cases "live_member_hash m (kp_rt (kind_prefixes kind))")
    case None
    with Cons show ?thesis by (simp add: candidate_def)
  next
    case (Some h)
    with Cons assms show ?thesis
      by (simp add: candidate_def run_simps get typedD detail_at_def split: DetailRead.split)
  qed
qed simp

lemma prune_exact:
  assumes "\<forall>m \<in> set ms. ns @ '':'' @ m \<noteq> sk" and "set_or_absent (view r) sk"
  shows "fst (session_prune_dead (rs_redis S) sk ns ms r) = filter (\<lambda>m. view r (ns @ '':'' @ m) = None) ms"
  using assms
proof (induction ms arbitrary: r)
  case (Cons m ms)
  have "filter (\<lambda>x. view (r_srem (rs_redis S) sk m r) (ns @ '':'' @ x) = None) ms =
      filter (\<lambda>x. view r (ns @ '':'' @ x) = None) ms"
    using Cons.prems by (intro filter_cong) (auto simp: srem view_obs)
  moreover have "fst (session_prune_dead (rs_redis S) sk ns ms (r_srem (rs_redis S) sk m r)) =
      filter (\<lambda>x. view (r_srem (rs_redis S) sk m r) (ns @ '':'' @ x) = None) ms"
    using Cons.prems by (intro Cons.IH) (simp_all add: srem view_type)
  ultimately show ?case
    using Cons by (simp add: exists split: prod.splits del: not_None_eq) (metis fst_conv)
qed simp

lemma prune_members_run:
  assumes inv: "inv owner T w" and c: "net c = []" "server c = srv w"
    and ms: "set ms \<subseteq> members_at (view (srv w)) (sess_key (rs_namespace S) kind subject)"
  shows "\<exists>c'. prune_dead_members S (sess_key (rs_namespace S) kind subject) ms c =
    (Inr (filter (\<lambda>m. view (srv w) (rs_namespace S @ '':'' @ m) = None) ms), c')"
proof -
  have "rs_namespace S @ '':'' @ m \<noteq> sess_key (rs_namespace S) kind subject" if "m \<in> set ms" for m
  proof -
    from index_invD(5) [OF inv] that ms obtain h
      where "m = index_member (kp_rt (kind_prefixes kind)) h \<or> m = index_member (kp_rp (kind_prefixes kind)) h"
      unfolding members_wf_def by blast
    then show ?thesis by (auto simp: key_index_member [simplified])
  qed
  then show ?thesis
    using c prune_exact [of ms "rs_namespace S" "sess_key (rs_namespace S) kind subject" "srv w"]
      typedD(6) [OF index_invD(1) [OF inv]]
    by (simp add: prune_dead_members_def query_up)
qed

lemma list_entries_run:
  assumes inv: "inv owner T w" and c: "net c = []" "server c = srv w"
  defines "ns \<equiv> rs_namespace S" and "v \<equiv> view (srv w)"
  shows "\<exists>es c'. list_session_entries S kind subject c = (Inr es, c') \<and>
    (\<forall>e. e \<in> set es \<longleftrightarrow>
      index_member (kp_rt (kind_prefixes kind)) (se_session_hash e) \<in> members_at v (sess_key ns kind subject) \<and>
      se_detail e = detail_at (rs_codec S) ns kind v (se_session_hash e) \<and>
      (v (rt_key ns kind (se_session_hash e)) \<noteq> None \<or> se_detail e \<noteq> None))"
proof -
  define ms where "ms = r_smembers (rs_redis S) (sess_key ns kind subject) (srv w)"
  define st where "st = filter (candidate (rs_codec S) ns kind v) ms"
  define dead where "dead = filter (\<lambda>m. v (ns @ '':'' @ m) = None) st"
  let ?es = "filter (\<lambda>e. se_detail e \<noteq> None \<or>
    index_member (kp_rt (kind_prefixes kind)) (se_session_hash e) \<notin> set dead)
    (entries_of (rs_codec S) ns kind v ms)"
  note typed = index_invD(1) [OF inv]
  have set_ms: "set ms = members_at v (sess_key ns kind subject)"
    using typed by (simp add: smembers typedD ns_def v_def ms_def)
  then obtain c' where "prune_dead_members S (sess_key ns kind subject) st c = (Inr dead, c')"
    using prune_members_run [OF inv c, of st kind subject] by (auto simp: ns_def v_def st_def dead_def)
  moreover have "list_loop S (kind_prefixes kind) ms [] [] c = (Inr (entries_of (rs_codec S) ns kind v ms, st), c)"
    using list_loop_run [of c kind ms "[]" "[]"] typed c by (simp add: ns_def v_def st_def)
  ultimately have "list_session_entries S kind subject c = (Inr ?es, c')"
    using c by (simp add: list_session_entries_def list_session_entries_inner_def Let_def run_simps
        ns_def [symmetric] ms_def [symmetric] client_same [OF c(2)])
  moreover have "\<forall>e. e \<in> set ?es \<longleftrightarrow>
      index_member (kp_rt (kind_prefixes kind)) (se_session_hash e) \<in> members_at v (sess_key ns kind subject) \<and>
      se_detail e = detail_at (rs_codec S) ns kind v (se_session_hash e) \<and>
      (v (rt_key ns kind (se_session_hash e)) \<noteq> None \<or> se_detail e \<noteq> None)"
    by (auto simp: set_entries_of set_ms dead_def st_def candidate_def key_index_member [simplified]
        simp del: not_None_eq)
  ultimately show ?thesis by blast
qed

lemma after_sweep:
  fixes kind subject
  assumes inv: "inv owner T w" and ttl: "ttl_ok T"
  defines "w' \<equiv> w\<lparr>srv := snd (revoke_all_script S kind subject (srv w))\<rparr>"
  shows "inv owner T w'" and "view (srv w') (sess_key (rs_namespace S) kind subject) = None"
  using inv_step [OF inv ttl store_step.revoke_all [of S view owner T kind subject w]]
    sweep_no_index [OF inv] by (simp_all add: w'_def)

lemma locked_out_after_sweep:
  assumes "inv owner T w" and "ttl_ok T"
  shows "locked_out (rs_codec S) (rs_namespace S) owner kind subject
    (view (snd (revoke_all_script S kind subject (srv w))))"
  using locked_out_of_no_index [OF after_sweep [OF assms]] by simp

lemma locked_out_after_run:
  assumes "inv owner T w" and "ttl_ok T"
    and "quiet_run S view owner T kind subject
           (w\<lparr>srv := snd (revoke_all_script S kind subject (srv w))\<rparr>) w'"
  shows "locked_out (rs_codec S) (rs_namespace S) owner kind subject (view (srv w'))"
  using no_index_run [OF assms(3) after_sweep(1) [OF assms(1,2)] assms(2) after_sweep(2) [OF assms(1,2)]]
    locked_out_of_no_index by blast

lemma family_after_revoke:
  fixes kind family subject
  assumes typed: "typed (rs_namespace S) (view r)"
  defines "v \<equiv> view (snd (family_script S kind family subject r))"
  shows "v (fam_key (rs_namespace S) kind family) = None"
    and "h \<in> members_at (view r) (fam_key (rs_namespace S) kind family) \<Longrightarrow>
      v (rt_key (rs_namespace S) kind h) = None \<and> v (sd_key (rs_namespace S) kind h) = None"
  by (auto simp: v_def view_family [OF typed] Let_def view_obs split: option.splits)

lemma typed_reachable: "reachable S view owner T w \<Longrightarrow> ttl_ok T \<Longrightarrow> typed (rs_namespace S) (view (srv w))"
  by (rule index_invD(1) [OF inv_reachable])

end

lemma revoke_family_Inr:
  "revoke_family S kind family subject c = (Inr u, c') \<Longrightarrow> family \<noteq> [] \<Longrightarrow>
     server c' = snd (family_script S kind family subject (server c))"
  by (auto simp: revoke_family_def revoke_family_inner_def map_err_eq_Inr rbind_eq_Inr
      dest!: connection_Inr query_Inr)

section \<open>A concrete deployment\<close>

text \<open>One dashboard user with one session, on the in-process server, a refresh lifetime of a week.\<close>

definition demo_record :: SessionRecord where
  "demo_record = \<lparr>sr_user_id = ''u1'', sr_tenant_id = Some ''t1'', sr_role = ''admin'',
     sr_device = ''cli'', sr_ip = ''10.0.0.1'', sr_created_at = 0, sr_mfa_enabled = True,
     sr_mfa_verified = True, sr_family_id = ''f1'', sr_family_created_at = Some 0\<rparr>"

definition demo_owner :: "SessionKind \<Rightarrow> SessionRecord \<Rightarrow> string" where
  "demo_owner kind s = sr_user_id s"

definition demo_json :: string where
  "demo_json = the (field_enc_rec demo_record)"

definition demo_world :: "mem world" where
  "demo_world = \<lparr>srv = create_session_tx mem_stores Dashboard ''u1'' ''h1'' ''f1'' demo_json
       (field_enc_det (at_creation demo_record)) 604800 Map.empty,
     used = {(Dashboard, ''h1'')}, seen = {}, swept = {}\<rparr>"

lemma demo_json: "enc_rec field_codec demo_record = Some demo_json"
  by (simp add: field_codec_def demo_json_def field_enc_rec_def record_ok_def instant_ok_def
      demo_record_def)

lemma demo_ttl: "ttl_ok 604800"
  by (simp add: ttl_ok_def)

lemma demo_reachable: "reachable mem_stores mem_view demo_owner 604800 demo_world"
proof -
  have "reachable mem_stores mem_view demo_owner 604800 \<lparr>srv = Map.empty, used = {}, seen = {}, swept = {}\<rparr>"
    by (rule reachable.start) (simp add: mem_view_def)
  moreover have "store_step mem_stores mem_view demo_owner 604800
      (Create Dashboard (demo_owner Dashboard demo_record) ''h1'' demo_record)
      \<lparr>srv = Map.empty, used = {}, seen = {}, swept = {}\<rparr> demo_world"
    using store_step.create [of mem_stores demo_record demo_json Dashboard "''h1''"
        "\<lparr>srv = Map.empty, used = {}, seen = {}, swept = {}\<rparr>" mem_view demo_owner 604800]
    by (simp add: demo_json demo_world_def demo_owner_def) (simp add: field_codec_def demo_record_def)
  ultimately show ?thesis by (rule reachable.step)
qed

lemma revoke_all_up:
  "revoke_all S kind subject \<lparr>server = r, net = []\<rparr> =
     (Inr (), \<lparr>server = snd (revoke_all_script S kind subject r), net = []\<rparr>)"
  by (simp add: revoke_all_def revoke_all_inner_def run_simps)

section \<open>Properties\<close>

text \<open>
  C1. Log out everywhere is complete. In every state that any interleaving of the store's steps can
  reach, and whatever the network does, when \<open>revoke_all\<close> answers \<open>Ok\<close> the server holds no live
  refresh session of that subject and no grace pointer that could recover one.
\<close>

theorem log_out_everywhere:
  assumes "store_service S view" and "reachable S view owner T w" and "ttl_ok T"
    and "revoke_all S kind subject \<lparr>server = srv w, net = events\<rparr> = (Inr (), c)"
  shows "locked_out (rs_codec S) (rs_namespace S) owner kind subject (view (server c))"
  using store_service.locked_out_after_sweep [OF assms(1)
      store_service.inv_reachable [OF assms(1-3)] assms(3), of kind subject]
    revoke_all_Inr [OF assms(4)] by simp

theorem log_out_everywhere_witness:
  "locked_out field_codec ''auth'' demo_owner Dashboard ''u1''
     (mem_view (snd (revoke_all_script mem_stores Dashboard ''u1'' (srv demo_world))))"
  using log_out_everywhere [OF mem_store.store_service_axioms demo_reachable demo_ttl revoke_all_up]
  by simp

text \<open>
  C2. Log out everywhere lasts. After the sweep, no sequence of steps in which the subject does not
  log in again brings back a live session or a grace pointer of the subject: rotations and grace
  recoveries already in flight included.
\<close>

theorem log_out_lasts:
  assumes "store_service S view" and "reachable S view owner T w" and "ttl_ok T"
    and "quiet_run S view owner T kind subject
           (w\<lparr>srv := snd (revoke_all_script S kind subject (srv w))\<rparr>) w'"
  shows "locked_out (rs_codec S) (rs_namespace S) owner kind subject (view (srv w'))"
  by (rule store_service.locked_out_after_run [OF assms(1)
      store_service.inv_reachable [OF assms(1-3)] assms(3,4)])

theorem log_out_lasts_witness:
  "\<exists>w'. quiet_run mem_stores mem_view demo_owner 604800 Dashboard ''u1''
     (demo_world\<lparr>srv := snd (revoke_all_script mem_stores Dashboard ''u1'' (srv demo_world))\<rparr>) w' \<and>
     (Dashboard, ''h2'') \<in> used w' \<and>
     locked_out field_codec ''auth'' demo_owner Dashboard ''u1'' (mem_view (srv w'))"
proof -
  let ?w = "demo_world\<lparr>srv := snd (revoke_all_script mem_stores Dashboard ''u1'' (srv demo_world))\<rparr>"
  have "(Dashboard, ''h2'') \<notin> used ?w" by (simp add: demo_world_def)
  from store_step.recover [of mem_stores demo_record demo_json Dashboard, OF _ this, of mem_view demo_owner 604800]
  have step: "store_step mem_stores mem_view demo_owner 604800 (Recover Dashboard ''u1'' ''h2'' demo_record) ?w
      (?w\<lparr>srv := snd (recover_script mem_stores Dashboard ''u1'' ''h2'' ''f1'' demo_json
         (enc_det field_codec (at_creation demo_record)) 604800 (srv ?w)),
         used := insert (Dashboard, ''h2'') (used ?w)\<rparr>)" (is "store_step _ _ _ _ _ _ ?w'")
    by (simp add: demo_json demo_owner_def) (simp add: demo_record_def)
  have run: "quiet_run mem_stores mem_view demo_owner 604800 Dashboard ''u1'' ?w ?w'"
    by (rule quiet_run.step [OF quiet_run.refl step]) simp
  moreover have "(Dashboard, ''h2'') \<in> used ?w'" by simp
  ultimately show ?thesis
    using log_out_lasts [OF mem_store.store_service_axioms demo_reachable demo_ttl run] by auto
qed

text \<open>
  C3. A refresh token rotates at most once. Once a rotation of an issued token has been attempted,
  no later rotation of the same token, after any further steps and whatever the network does,
  answers \<open>Rotated\<close>: two requests carrying one token never both mint a session from it.
\<close>

theorem refresh_token_rotates_once:
  assumes "store_service S view" and "reachable S view owner T w" and "ttl_ok T"
    and "(kind, ro_old_hash rot) \<in> used w" and "store_step S view owner T (Rotate kind rot) w w1"
    and "store_run S view owner T w1 w2" and "ro_old_hash rot' = ro_old_hash rot"
    and "rotate_session S kind rot' \<lparr>server = srv w2, net = events\<rparr> = (Inr out, c)"
  shows "out \<noteq> Rotated old"
proof -
  note inv = store_service.inv_reachable [OF assms(1-3)]
  note spent = store_service.rotate_spends [OF assms(1) inv assms(3,5,4)]
  note later = store_service.spent_run [OF assms(1) assms(6)
      store_service.inv_step [OF assms(1) inv assms(3,5)] assms(3) spent]
  from later assms(7,8) show ?thesis
    by (intro store_service.spent_never_rotates [OF assms(1), where c = "\<lparr>server = srv w2, net = events\<rparr>"])
      (auto simp: spent_def dest: index_invD(1))
qed

definition demo_rotation :: "string \<Rightarrow> SessionRotation" where
  "demo_rotation new = \<lparr>ro_old_hash = ''h1'', ro_new_hash = new, ro_new_raw = ''raw'',
     ro_new_record = demo_record, ro_subject_hash = ''u1'', ro_refresh_ttl = 604800, ro_grace_ttl = 30\<rparr>"

lemma demo_rotation_sel [simp]:
  "ro_old_hash (demo_rotation new) = ''h1''" "ro_new_hash (demo_rotation new) = new"
  "ro_new_record (demo_rotation new) = demo_record" "ro_subject_hash (demo_rotation new) = ''u1''"
  "ro_refresh_ttl (demo_rotation new) = 604800" "ro_grace_ttl (demo_rotation new) = 30"
  by (simp_all add: demo_rotation_def)

lemma demo_view:
  "mem_view (srv demo_world) = v_create ''auth'' Dashboard ''u1'' ''h1'' ''f1'' demo_json
     (field_enc_det (at_creation demo_record)) 604800 Map.empty"
proof -
  have "mem_view Map.empty = Map.empty" by (simp add: mem_view_def fun_eq_iff)
  moreover have "typed ''auth'' Map.empty" by (simp add: typed_def type_defs)
  ultimately show ?thesis
    using mem_store.view_create [of Map.empty 604800] demo_ttl by (simp add: demo_world_def)
qed

lemma demo_dec: "dec_rec field_codec demo_json = Some demo_record"
  by (rule fields.dec_enc_rec [OF demo_json])

lemma demo_record_ok: "record_ok demo_record"
  by (simp add: record_ok_def instant_ok_def demo_record_def)

lemma members_at_empty: "members_at Map.empty k = {}"
  by (simp add: members_at_def)

lemma demo_index: "members_at (mem_view (srv demo_world)) (sess_key ''auth'' Dashboard s) =
    (if s = ''u1'' then {index_member (kp_rt (kind_prefixes Dashboard)) ''h1''} else {})"
  by (simp add: demo_view v_create_def Let_def view_obs members_at_empty)

lemma demo_family: "members_at (mem_view (srv demo_world)) (fam_key ''auth'' Dashboard ''f1'') = {''h1''}"
  by (simp add: demo_view v_create_def Let_def view_obs members_at_empty)

lemma demo_live: "str_at (mem_view (srv demo_world)) (rt_key ''auth'' Dashboard ''h1'') = Some demo_json"
  by (simp add: demo_view v_create_def Let_def view_obs)

lemma demo_inv: "index_inv field_codec ''auth'' demo_owner 604800 demo_world (mem_view (srv demo_world))"
  using mem_store.inv_reachable [OF demo_reachable demo_ttl] by simp

lemma demo_rotates:
  "\<exists>w. store_step mem_stores mem_view demo_owner 604800 (Rotate Dashboard (demo_rotation ''h2'')) demo_world w"
proof -
  have "find_session_inner mem_stores Dashboard ''h1'' \<lparr>server = srv demo_world, net = []\<rparr> =
      (Inr (Some demo_record), \<lparr>server = srv demo_world, net = []\<rparr>)"
    using mem_store.find_session_run [of "srv demo_world" Dashboard "''h1''" demo_json demo_record]
      index_invD(1) [OF demo_inv] demo_live demo_dec by simp
  moreover have "demo_owner Dashboard demo_record = ''u1''"
    by (simp add: demo_owner_def demo_record_def)
  moreover have "(Dashboard, ''h2'') \<notin> used demo_world" by (simp add: demo_world_def)
  ultimately show ?thesis
    using store_step.rotate [of mem_stores "demo_rotation ''h2''" demo_json Dashboard demo_world 604800
        demo_owner mem_view] by (auto simp: demo_json)
qed

theorem refresh_token_rotates_once_witness:
  "\<exists>w1 out c. store_step mem_stores mem_view demo_owner 604800
       (Rotate Dashboard (demo_rotation ''h2'')) demo_world w1 \<and>
     rotate_session mem_stores Dashboard (demo_rotation ''h3'') \<lparr>server = srv w1, net = []\<rparr> = (Inr out, c) \<and>
     (\<forall>old. out \<noteq> Rotated old)"
proof -
  from demo_rotates obtain w1 where step: "store_step mem_stores mem_view demo_owner 604800
      (Rotate Dashboard (demo_rotation ''h2'')) demo_world w1" ..
  have "\<exists>out c. rotate_session mem_stores Dashboard (demo_rotation ''h3'') \<lparr>server = srv w1, net = []\<rparr> = (Inr out, c)"
    using mem_store.rotate_refines [OF mem_store.inv_step [OF _ demo_ttl step], of "demo_rotation ''h3''"
        demo_json "\<lparr>server = srv w1, net = []\<rparr>" Dashboard] demo_inv demo_ttl
    by (simp add: demo_json) (metis prod.collapse)
  then obtain out c where run: "rotate_session mem_stores Dashboard (demo_rotation ''h3'')
      \<lparr>server = srv w1, net = []\<rparr> = (Inr out, c)" by blast
  have "out \<noteq> Rotated old" for old
    by (rule refresh_token_rotates_once [OF mem_store.store_service_axioms demo_reachable demo_ttl _ step
          store_run.refl _ run]) (simp_all add: demo_world_def)
  with step run show ?thesis by blast
qed

text \<open>
  C4. Presenting a refresh token always has the outcome the specification names: a live token
  rotates to the record it carried; a rotated-away token recovers while its successor and its
  family live; a consumed token is reported as reused with its family; any other token is invalid.
  On a working network the operation never fails, and the reply tags are never confused with a
  stored record.
\<close>

theorem rotation_outcome:
  assumes "store_service S view" and "reachable S view owner T w" and "ttl_ok T"
    and "record_ok (ro_new_record rot)" and "ttl_ok (ro_refresh_ttl rot)"
    and "ro_grace_ttl rot \<le> ro_refresh_ttl rot"
  shows "fst (rotate_session S kind rot \<lparr>server = srv w, net = []\<rparr>) =
    Inr (rotate_spec (rs_codec S) (rs_namespace S) kind (ro_old_hash rot) (view (srv w)))"
proof -
  have "session_codec (rs_codec S)" using assms(1) by (simp add: store_service_def)
  then obtain j where "enc_rec (rs_codec S) (ro_new_record rot) = Some j"
    using session_codec.enc_rec_total assms(4) by blast
  from store_service.rotate_refines [OF assms(1) store_service.inv_reachable [OF assms(1-3)] this assms(5,6)]
  show ?thesis by simp
qed

theorem rotation_outcome_witness:
  "fst (rotate_session mem_stores Dashboard (demo_rotation ''h2'') \<lparr>server = srv demo_world, net = []\<rparr>) =
     Inr (Rotated demo_record)"
  using rotation_outcome [OF mem_store.store_service_axioms demo_reachable demo_ttl,
      of "demo_rotation ''h2''" Dashboard] demo_ttl demo_record_ok
  by (simp add: rotate_spec_def Let_def demo_live [simplified] demo_dec)

text \<open>
  C5. Revoking one session is ownership-checked. A subject whose index does not name the session
  gets \<open>SessionNotFound\<close> and nothing changes; otherwise the record and its detail are gone, the index
  holds the members it held without that one and keeps its time to live while any is left, and no other
  key changes: every sibling stays live and indexed.
\<close>

theorem revoke_session_owned:
  assumes "store_service S view" and "typed (rs_namespace S) (view r)"
    and "revoke_session S kind subject h \<lparr>server = r, net = []\<rparr> = (out, c)"
  shows "if index_member (kp_rt (kind_prefixes kind)) h \<in>
            members_at (view r) (sess_key (rs_namespace S) kind subject)
         then out = Inr () \<and>
           view (server c) (rt_key (rs_namespace S) kind h) = None \<and>
           view (server c) (sd_key (rs_namespace S) kind h) = None \<and>
           members_at (view (server c)) (sess_key (rs_namespace S) kind subject) =
             members_at (view r) (sess_key (rs_namespace S) kind subject) - {index_member (kp_rt (kind_prefixes kind)) h} \<and>
           (members_at (view (server c)) (sess_key (rs_namespace S) kind subject) \<noteq> {} \<longrightarrow>
             ttl_at (view (server c)) (sess_key (rs_namespace S) kind subject) =
             ttl_at (view r) (sess_key (rs_namespace S) kind subject)) \<and>
           (\<forall>k. k \<notin> {rt_key (rs_namespace S) kind h, sd_key (rs_namespace S) kind h,
                     sess_key (rs_namespace S) kind subject} \<longrightarrow> view (server c) k = view r k)
         else out = Inl AuthError.SessionNotFound \<and> server c = r"
proof (cases "fst (revoke_script S kind subject h r)")
  case True
  from assms(3) True have "out = Inr ()" "server c = snd (revoke_script S kind subject h r)"
    by (simp_all add: revoke_session_def revoke_session_inner_def run_simps)
       (auto simp: revoke_session_def revoke_session_inner_def run_simps)
  with True store_service.view_revoke_session [OF assms(1,2), of kind subject h] show ?thesis
    by (simp add: view_obs) (simp add: v_del_def v_srem_def)
next
  case False
  then have "snd (revoke_script S kind subject h r) = r"
    by (auto simp: revoke_script_def session_revoke_def Let_def split: if_splits)
  with assms(3) False store_service.view_revoke_session(1) [OF assms(1,2), of kind subject h]
  show ?thesis by (auto simp: revoke_session_def revoke_session_inner_def run_simps)
qed

theorem revoke_session_owned_witness:
  "fst (revoke_session mem_stores Dashboard ''mallory'' ''h1'' \<lparr>server = srv demo_world, net = []\<rparr>) =
     Inl AuthError.SessionNotFound \<and>
   fst (revoke_session mem_stores Dashboard ''u1'' ''h1'' \<lparr>server = srv demo_world, net = []\<rparr>) = Inr ()"
proof -
  have typed: "typed (rs_namespace mem_stores) (mem_view (srv demo_world))"
    using index_invD(1) [OF demo_inv] by simp
  note owned = revoke_session_owned [OF mem_store.store_service_axioms typed prod.collapse [symmetric]]
  show ?thesis
    using owned [where kind = Dashboard and subject = "''mallory''" and h = "''h1''"]
      owned [where kind = Dashboard and subject = "''u1''" and h = "''h1''"]
    by (simp add: demo_index [simplified])
qed

text \<open>
  C6. Listing is exact and prunes only the dead. It reports every indexed session that is live or
  has a readable detail, once read, and no other; in particular a live session whose detail is lost
  or damaged is still an entry.
\<close>

theorem listing_exact:
  assumes "store_service S view" and "reachable S view owner T w" and "ttl_ok T"
  shows "\<exists>es c. list_session_entries S kind subject \<lparr>server = srv w, net = []\<rparr> = (Inr es, c) \<and>
    (\<forall>e. e \<in> set es \<longleftrightarrow>
      index_member (kp_rt (kind_prefixes kind)) (se_session_hash e) \<in>
        members_at (view (srv w)) (sess_key (rs_namespace S) kind subject) \<and>
      se_detail e = detail_at (rs_codec S) (rs_namespace S) kind (view (srv w)) (se_session_hash e) \<and>
      (view (srv w) (rt_key (rs_namespace S) kind (se_session_hash e)) \<noteq> None \<or> se_detail e \<noteq> None))"
  using store_service.list_entries_run [OF assms(1) store_service.inv_reachable [OF assms(1-3)],
      of "\<lparr>server = srv w, net = []\<rparr>" kind subject] by simp

theorem listing_exact_witness:
  "\<exists>es c. list_session_entries mem_stores Dashboard ''u1'' \<lparr>server = srv demo_world, net = []\<rparr> = (Inr es, c) \<and>
     se_session_hash ` set es = {''h1''}"
proof -
  obtain es c where run: "list_session_entries mem_stores Dashboard ''u1'' \<lparr>server = srv demo_world, net = []\<rparr> = (Inr es, c)"
    and es: "\<And>e. e \<in> set es \<longleftrightarrow> se_session_hash e = ''h1'' \<and>
      se_detail e = detail_at field_codec ''auth'' Dashboard (mem_view (srv demo_world)) (se_session_hash e)"
    using listing_exact [OF mem_store.store_service_axioms demo_reachable demo_ttl, of Dashboard "''u1''"]
      str_at_present [OF demo_live]
    by (auto simp: demo_index [simplified] cong: conj_cong)
  have "\<lparr>se_session_hash = ''h1'', se_detail = detail_at field_codec ''auth'' Dashboard
      (mem_view (srv demo_world)) ''h1''\<rparr> \<in> set es" by (simp add: es)
  then have "''h1'' \<in> se_session_hash ` set es" by (rule image_eqI [rotated]) simp
  moreover have "se_session_hash ` set es \<subseteq> {''h1''}" by (auto simp: es)
  ultimately show ?thesis using run by blast
qed

text \<open>
  C7. Revoking a family ends the lineage. When \<open>revoke_family\<close> answers \<open>Ok\<close>, whatever the network
  did, the family index and the record and detail of every member are gone, and a grace recovery of
  a record of that family is refused and writes nothing.
\<close>

theorem family_revoked:
  assumes "store_service S view" and "reachable S view owner T w" and "ttl_ok T" and "family \<noteq> []"
    and "revoke_family S kind family subject \<lparr>server = srv w, net = events\<rparr> = (Inr (), c)"
    and "record_ok s" and "sr_family_id s = family"
  shows "view (server c) (fam_key (rs_namespace S) kind family) = None \<and>
    (\<forall>h \<in> members_at (view (srv w)) (fam_key (rs_namespace S) kind family).
       view (server c) (rt_key (rs_namespace S) kind h) = None \<and>
       view (server c) (sd_key (rs_namespace S) kind h) = None) \<and>
    create_recovered_session S kind subject' h' s ttl \<lparr>server = server c, net = []\<rparr> =
      (Inr False, \<lparr>server = server c, net = []\<rparr>)"
proof -
  note typed = store_service.typed_reachable [OF assms(1-3)]
  have c: "server c = snd (family_script S kind family subject (srv w))"
    using revoke_family_Inr [OF assms(5,4)] by simp
  note gone = store_service.family_after_revoke [OF assms(1) typed, where kind = kind and
      family = family and subject = subject, folded c]
  have "session_codec (rs_codec S)" using assms(1) by (simp add: store_service_def)
  then obtain j where j: "enc_rec (rs_codec S) s = Some j"
    using session_codec.enc_rec_total assms(6) by blast
  have "redis_service (rs_redis S) view" using assms(1) by (simp add: store_service_def)
  then have "\<not> r_exists (rs_redis S) (fam_key (rs_namespace S) kind family) (server c)"
    by (simp add: redis_service.exists gone(1))
  then have "recover_script S kind subject' h' family j d ttl (server c) = (0, server c)" for d
    using assms(4) by (simp add: recover_script_def recover_grace_def Let_def)
  with gone j assms(7) show ?thesis
    by (simp add: create_recovered_session_def create_recovered_session_inner_def run_simps Let_def)
qed

theorem family_revoked_witness:
  "let c = snd (revoke_family mem_stores Dashboard ''f1'' (Some ''u1'') \<lparr>server = srv demo_world, net = []\<rparr>)
   in mem_view (server c) (rt_key ''auth'' Dashboard ''h1'') = None \<and>
      create_recovered_session mem_stores Dashboard ''u1'' ''h2'' demo_record 604800
        \<lparr>server = server c, net = []\<rparr> = (Inr False, \<lparr>server = server c, net = []\<rparr>)"
proof -
  let ?c = "snd (revoke_family mem_stores Dashboard ''f1'' (Some ''u1'') \<lparr>server = srv demo_world, net = []\<rparr>)"
  have run: "revoke_family mem_stores Dashboard ''f1'' (Some ''u1'') \<lparr>server = srv demo_world, net = []\<rparr> = (Inr (), ?c)"
    by (simp add: revoke_family_def revoke_family_inner_def run_simps)
  have "sr_family_id demo_record = ''f1''" by (simp add: demo_record_def)
  from family_revoked [OF mem_store.store_service_axioms demo_reachable demo_ttl _ run demo_record_ok this]
  show ?thesis by (simp add: Let_def demo_family [simplified])
qed

end
