(* ===== verification/Counter_Stores.thy ===== *)
theory Counter_Stores
  imports Session_Properties
begin

text \<open>
  The fixed-window counters: failed logins (\<open>stores/brute_force.rs\<close>) and request rates
  (\<open>stores/rate_limit.rs\<close>), both over \<open>brute_force_incr.lua\<close>, and the attempt-bounded one-time
  passwords (\<open>stores/otp.rs\<close>, \<open>otp_verify.lua\<close>). A window opens at the first event and is never
  extended by a later one; a one-time password is compared at most the configured number of times
  and accepted at most once.
\<close>

section \<open>Fixed-window counters\<close>

definition brute_force_incr :: "'r redis \<Rightarrow> string \<Rightarrow> nat \<Rightarrow> 'r \<Rightarrow> nat \<times> 'r" where
  "brute_force_incr R k window r =
     (case r_incr R k r of
        (count, r1) \<Rightarrow> (count, if count = 1 then r_expire R k window r1 else r1))"

text \<open>A reply read as an \<open>i64\<close> by the driver.\<close>

definition parse_i64 :: "string \<Rightarrow> int option" where
  "parse_i64 s =
     (case s of
        [] \<Rightarrow> None
      | c # t \<Rightarrow>
          if c = CHR ''-'' then
            (case parse_nat t of None \<Rightarrow> None | Some n \<Rightarrow> if n \<le> 2 ^ 63 then Some (- int n) else None)
          else
            (case parse_nat (if c = CHR ''+'' then t else s) of
               None \<Rightarrow> None | Some n \<Rightarrow> if n < 2 ^ 63 then Some (int n) else None))"

definition is_locked_inner :: "'r RedisStores \<Rightarrow> string \<Rightarrow> nat \<Rightarrow> ('r, bool) redis_io" where
  "is_locked_inner S identifier max_attempts =
     rbind connection (\<lambda>_.
     rbind (query (\<lambda>r. (r_get (rs_redis S) (key (rs_namespace S) Lf identifier) r, r))) (\<lambda>raw.
       case raw of
         None \<Rightarrow> ret (0 \<ge> int max_attempts)
       | Some s \<Rightarrow> (case parse_i64 s of None \<Rightarrow> raise Command
                     | Some count \<Rightarrow> ret (count \<ge> int max_attempts))))"

definition record_failure_inner :: "'r RedisStores \<Rightarrow> string \<Rightarrow> nat \<Rightarrow> ('r, nat) redis_io" where
  "record_failure_inner S identifier window_secs =
     rbind connection (\<lambda>_.
       query (brute_force_incr (rs_redis S) (key (rs_namespace S) Lf identifier) window_secs))"

definition reset_inner :: "'r RedisStores \<Rightarrow> string \<Rightarrow> ('r, unit) redis_io" where
  "reset_inner S identifier =
     rbind connection (\<lambda>_.
     rbind (query (r_del (rs_redis S) (key (rs_namespace S) Lf identifier))) (\<lambda>_. ret ()))"

definition remaining_lockout_secs_inner :: "'r RedisStores \<Rightarrow> string \<Rightarrow> ('r, nat) redis_io" where
  "remaining_lockout_secs_inner S identifier =
     rbind connection (\<lambda>_.
     rbind (query (\<lambda>r. (r_ttl (rs_redis S) (key (rs_namespace S) Lf identifier) r, r)))
       (\<lambda>ttl. ret (if ttl < 0 then 0 else nat ttl)))"

definition is_locked :: "'r RedisStores \<Rightarrow> string \<Rightarrow> nat \<Rightarrow> ('r, bool) store_io" where
  "is_locked S identifier max_attempts = map_err from_redis_error (is_locked_inner S identifier max_attempts)"

definition record_failure :: "'r RedisStores \<Rightarrow> string \<Rightarrow> nat \<Rightarrow> ('r, nat) store_io" where
  "record_failure S identifier window_secs =
     map_err from_redis_error (record_failure_inner S identifier window_secs)"

definition reset_failures :: "'r RedisStores \<Rightarrow> string \<Rightarrow> ('r, unit) store_io" where
  "reset_failures S identifier = map_err from_redis_error (reset_inner S identifier)"

definition remaining_lockout_secs :: "'r RedisStores \<Rightarrow> string \<Rightarrow> ('r, nat) store_io" where
  "remaining_lockout_secs S identifier =
     map_err from_redis_error (remaining_lockout_secs_inner S identifier)"

definition hit_inner :: "'r RedisStores \<Rightarrow> string \<Rightarrow> string \<Rightarrow> nat \<Rightarrow> ('r, nat) redis_io" where
  "hit_inner S route bucket_hash window_secs =
     rbind connection (\<lambda>_.
       query (brute_force_incr (rs_redis S) (rate_limit_key (rs_namespace S) route bucket_hash) window_secs))"

definition hit :: "'r RedisStores \<Rightarrow> string \<Rightarrow> string \<Rightarrow> nat \<Rightarrow> ('r, nat) store_io" where
  "hit S route bucket_hash window_secs =
     map_err from_redis_error (hit_inner S route bucket_hash window_secs)"

section \<open>The window as a specification\<close>

text \<open>
  The abstract counter: nothing while no window is open, otherwise the events of the window and
  the seconds left of it. An event opens a window or is counted in the open one; time closes it.
\<close>

datatype window_event = Hit | Wait nat | Clear

type_synonym window = "(nat \<times> nat) option"

fun window_step :: "nat \<Rightarrow> window_event \<Rightarrow> window \<Rightarrow> window" where
  "window_step W Hit None = Some (1, W)"
| "window_step W Hit (Some (n, t)) = Some (n + 1, t)"
| "window_step W (Wait s) None = None"
| "window_step W (Wait s) (Some (n, t)) = (if t \<le> s then None else Some (n, t - s))"
| "window_step W Clear _ = None"

definition window_run :: "nat \<Rightarrow> window_event list \<Rightarrow> window \<Rightarrow> window" where
  "window_run W es x = fold (window_step W) es x"

fun counter_step :: "'r redis \<Rightarrow> string \<Rightarrow> nat \<Rightarrow> window_event \<Rightarrow> 'r \<Rightarrow> 'r" where
  "counter_step R k W Hit r = snd (brute_force_incr R k W r)"
| "counter_step R k W (Wait s) r = r_tick R s r"
| "counter_step R k W Clear r = snd (r_del R k r)"

definition counter_run :: "'r redis \<Rightarrow> string \<Rightarrow> nat \<Rightarrow> window_event list \<Rightarrow> 'r \<Rightarrow> 'r" where
  "counter_run R k W es r = fold (counter_step R k W) es r"

text \<open>The key space shows the abstract counter at a key.\<close>

definition shows_window :: "rview \<Rightarrow> string \<Rightarrow> window \<Rightarrow> bool" where
  "shows_window v k x \<longleftrightarrow> (case x of
      None \<Rightarrow> v k = None
    | Some (n, t) \<Rightarrow> v k = Some (RStr (show_nat n), Some t) \<and> 0 < n \<and> 0 < t)"

fun hits :: "window_event list \<Rightarrow> nat" where
  "hits [] = 0"
| "hits (Hit # es) = Suc (hits es)"
| "hits (_ # es) = hits es"

definition window_size :: "window \<Rightarrow> nat" where
  "window_size x = (case x of None \<Rightarrow> 0 | Some (n, _) \<Rightarrow> n)"

lemma window_size_step: "window_size (window_step W e x) \<le> window_size x + (if e = Hit then 1 else 0)"
  by (cases "(W, e, x)" rule: window_step.cases) (auto simp: window_size_def)

lemma window_size_run: "window_size (window_run W es x) \<le> window_size x + hits es"
proof (induction es arbitrary: x)
  case (Cons e es)
  from Cons [of "window_step W e x"] window_size_step [of W e x] show ?case
    by (cases e) (simp_all add: window_run_def)
qed (simp add: window_run_def)

context redis_service
begin

lemma incr_opens:
  assumes "view r k = None" and "ttl_ok W"
  shows "fst (brute_force_incr R k W r) = 1"
    and "view (snd (brute_force_incr R k W r)) k = Some (RStr (show_nat 1), Some W)"
proof -
  obtain c r1 where i: "r_incr R k r = (c, r1)" by fastforce
  with assms incr_absent [of r k] incr_absent_value [of r k]
  have "c = 1" "view r1 = v_set_num k 1 (view r)" by simp_all
  with i assms show "fst (brute_force_incr R k W r) = 1"
    and "view (snd (brute_force_incr R k W r)) k = Some (RStr (show_nat 1), Some W)"
    by (simp_all add: brute_force_incr_def expire v_expire_def v_set_num_def)
qed

lemma incr_counts:
  assumes "view r k = Some (RStr (show_nat n), Some t)" and "0 < n" and "n + 1 < 2 ^ 63"
  shows "fst (brute_force_incr R k W r) = n + 1"
    and "view (snd (brute_force_incr R k W r)) k = Some (RStr (show_nat (n + 1)), Some t)"
proof -
  obtain c r1 where i: "r_incr R k r = (c, r1)" by fastforce
  from assms(1) have "str_at (view r) k = Some (show_nat n)" "ttl_at (view r) k = Some t"
    by (simp_all add: obs_defs)
  with i assms(3) incr [of r k n] incr_value [of r k n]
  have "c = n + 1" "view r1 = v_set_num k (n + 1) (view r)" by simp_all
  with i assms \<open>ttl_at (view r) k = Some t\<close>
  show "fst (brute_force_incr R k W r) = n + 1"
    and "view (snd (brute_force_incr R k W r)) k = Some (RStr (show_nat (n + 1)), Some t)"
    by (simp_all add: brute_force_incr_def v_set_num_def)
qed

lemma counter_step_refines:
  assumes "shows_window (view r) k x" and "ttl_ok W" and "window_size x + 1 < 2 ^ 63"
  shows "shows_window (view (counter_step R k W e r)) k (window_step W e x)"
proof (cases e)
  case Hit
  with assms show ?thesis
    by (cases x)
      (auto simp: shows_window_def window_size_def incr_opens incr_counts ttl_ok_def split: prod.splits)
next
  case (Wait s)
  with assms show ?thesis
    by (cases x) (auto simp: shows_window_def tick v_tick_def split: prod.splits)
next
  case Clear
  then show ?thesis by (simp add: shows_window_def del v_del_def)
qed

lemma counter_run_refines:
  assumes "shows_window (view r) k x" and "ttl_ok W" and "window_size x + hits es < 2 ^ 63"
  shows "shows_window (view (counter_run R k W es r)) k (window_run W es x)"
  using assms(1,3)
proof (induction es arbitrary: r x)
  case (Cons e es)
  show ?case
  proof (cases "e = Hit")
    case True
    with Cons.prems assms(2) have "shows_window (view (counter_step R k W e r)) k (window_step W e x)"
      by (intro counter_step_refines) simp_all
    moreover have "window_size (window_step W e x) + hits es < 2 ^ 63"
      using Cons.prems(2) True window_size_step [of W e x] by simp
    ultimately show ?thesis using Cons.IH by (simp add: counter_run_def window_run_def)
  next
    case False
    have "shows_window (view (counter_step R k W e r)) k (window_step W e x)"
      using False Cons.prems assms(2)
      by (cases e; cases x) (auto simp: shows_window_def tick del v_del_def v_tick_def split: prod.splits)
    moreover have "window_size (window_step W e x) + hits es < 2 ^ 63"
      using Cons.prems(2) False window_size_step [of W e x] by (cases e) simp_all
    ultimately show ?thesis using Cons.IH by (simp add: counter_run_def window_run_def)
  qed
qed (simp add: counter_run_def window_run_def)

end

section \<open>One-time passwords\<close>

datatype OtpPurpose = PasswordReset | EmailVerification

fun otp_purpose_str :: "OtpPurpose \<Rightarrow> string" where
  "otp_purpose_str PasswordReset = ''password_reset''"
| "otp_purpose_str EmailVerification = ''email_verification''"

definition purpose_segment :: "OtpPurpose \<Rightarrow> string \<Rightarrow> string" where
  "purpose_segment purpose identifier = otp_purpose_str purpose @ '':'' @ identifier"

definition otp_verify :: "'r redis \<Rightarrow> string \<Rightarrow> string \<Rightarrow> nat \<Rightarrow> 'r \<Rightarrow> (string \<times> string) \<times> 'r" where
  "otp_verify R k submitted max_attempts r =
     (case r_hget R k ''code'' r of
        None \<Rightarrow> ((''EXPIRED'', []), r)
      | Some code \<Rightarrow>
          (let attempts = (case r_hget R k ''attempts'' r of
                             None \<Rightarrow> 0
                           | Some s \<Rightarrow> (case parse_nat s of None \<Rightarrow> 0 | Some n \<Rightarrow> n))
           in if attempts \<ge> max_attempts then ((''MAX'', []), snd (r_del R k r))
              else if code = submitted then ((''PRESENT'', code), snd (r_del R k r))
              else ((''PRESENT'', code), r_hincr R k ''attempts'' r)))"

text \<open>
  The byte comparison \<open>subtle::ConstantTimeEq\<close> is a parameter; its contract is that it decides
  equality.
\<close>

definition interpret_otp ::
    "(string \<Rightarrow> string \<Rightarrow> bool) \<Rightarrow> string \<Rightarrow> string \<Rightarrow> string \<Rightarrow> AuthError + unit" where
  "interpret_otp ct_eq tag stored submitted =
     (if tag = ''EXPIRED'' then Inl AuthError.OtpExpired
      else if tag = ''MAX'' then Inl AuthError.OtpMaxAttempts
      else if tag = ''PRESENT'' then
        (if ct_eq submitted stored then Inr () else Inl AuthError.OtpInvalid)
      else Inl (AuthError.Internal ''unexpected otp_verify reply''))"

definition otp_put_tx :: "'r redis \<Rightarrow> string \<Rightarrow> string \<Rightarrow> nat \<Rightarrow> 'r \<Rightarrow> 'r" where
  "otp_put_tx R k code ttl_secs r =
     r_expire R k (ttl_window ttl_secs) (r_hset R k ''attempts'' ''0'' (r_hset R k ''code'' code r))"

definition put_inner :: "'r RedisStores \<Rightarrow> OtpPurpose \<Rightarrow> string \<Rightarrow> string \<Rightarrow> nat \<Rightarrow> ('r, unit) redis_io" where
  "put_inner S purpose identifier code ttl_secs =
     rbind connection (\<lambda>_.
       query (\<lambda>r. ((), otp_put_tx (rs_redis S)
         (key (rs_namespace S) Otp (purpose_segment purpose identifier)) code ttl_secs r)))"

definition verify_inner ::
    "'r RedisStores \<Rightarrow> OtpPurpose \<Rightarrow> string \<Rightarrow> string \<Rightarrow> nat \<Rightarrow> ('r, string \<times> string) redis_io" where
  "verify_inner S purpose identifier code max_attempts =
     rbind connection (\<lambda>_.
       query (otp_verify (rs_redis S)
         (key (rs_namespace S) Otp (purpose_segment purpose identifier)) code max_attempts))"

definition try_begin_resend_inner ::
    "'r RedisStores \<Rightarrow> OtpPurpose \<Rightarrow> string \<Rightarrow> nat \<Rightarrow> ('r, bool) redis_io" where
  "try_begin_resend_inner S purpose identifier cooldown_secs =
     rbind connection (\<lambda>_.
       query (r_set_nx_ex (rs_redis S)
         (key (rs_namespace S) Resend (purpose_segment purpose identifier)) ''1'' cooldown_secs))"

definition otp_put :: "'r RedisStores \<Rightarrow> OtpPurpose \<Rightarrow> string \<Rightarrow> string \<Rightarrow> nat \<Rightarrow> ('r, unit) store_io" where
  "otp_put S purpose identifier code ttl_secs =
     map_err from_redis_error (put_inner S purpose identifier code ttl_secs)"

definition otp_check ::
    "(string \<Rightarrow> string \<Rightarrow> bool) \<Rightarrow> 'r RedisStores \<Rightarrow> OtpPurpose \<Rightarrow> string \<Rightarrow> string \<Rightarrow> nat \<Rightarrow>
     ('r, unit) store_io" where
  "otp_check ct_eq S purpose identifier code max_attempts =
     rbind (map_err from_redis_error (verify_inner S purpose identifier code max_attempts))
       (\<lambda>(tag, stored). lift_result (interpret_otp ct_eq tag stored code))"

definition try_begin_resend ::
    "'r RedisStores \<Rightarrow> OtpPurpose \<Rightarrow> string \<Rightarrow> nat \<Rightarrow> ('r, bool) store_io" where
  "try_begin_resend S purpose identifier cooldown_secs =
     map_err from_redis_error (try_begin_resend_inner S purpose identifier cooldown_secs)"

text \<open>A sequence of guesses, and what it must answer.\<close>

fun guess_all ::
    "(string \<Rightarrow> string \<Rightarrow> bool) \<Rightarrow> 'r RedisStores \<Rightarrow> OtpPurpose \<Rightarrow> string \<Rightarrow> nat \<Rightarrow> string list \<Rightarrow>
     'r client \<Rightarrow> (AuthError + unit) list" where
  "guess_all ct_eq S purpose identifier m [] c = []"
| "guess_all ct_eq S purpose identifier m (g # gs) c =
     (case otp_check ct_eq S purpose identifier g m c of
        (out, c') \<Rightarrow> out # guess_all ct_eq S purpose identifier m gs c')"

fun guess_spec :: "string \<Rightarrow> nat \<Rightarrow> string list \<Rightarrow> (AuthError + unit) list" where
  "guess_spec code left [] = []"
| "guess_spec code left (g # gs) =
     (if left = 0 then Inl AuthError.OtpMaxAttempts # map (\<lambda>_. Inl AuthError.OtpExpired) gs
      else if g = code then Inr () # map (\<lambda>_. Inl AuthError.OtpExpired) gs
      else Inl AuthError.OtpInvalid # guess_spec code (left - 1) gs)"

lemma otp_check_up:
  "net c = [] \<Longrightarrow> otp_check ct_eq S purpose identifier g m c =
     (let k = key (rs_namespace S) Otp (purpose_segment purpose identifier);
          out = otp_verify (rs_redis S) k g m (server c)
      in (interpret_otp ct_eq (fst (fst out)) (snd (fst out)) g, c\<lparr>server := snd out\<rparr>))"
  by (simp add: otp_check_def verify_inner_def run_simps Let_def split: prod.splits)

context store_service
begin

lemma otp_gone:
  assumes "view (server c) (key (rs_namespace S) Otp (purpose_segment purpose identifier)) = None"
    and "net c = []"
  shows "guess_all ct_eq S purpose identifier m gs c = map (\<lambda>_. Inl AuthError.OtpExpired) gs"
  using assms
proof (induction gs arbitrary: c)
  case (Cons g gs)
  let ?k = "key (rs_namespace S) Otp (purpose_segment purpose identifier)"
  have "r_hget (rs_redis S) ?k ''code'' (server c) = None"
    using Cons.prems by (simp add: hget type_defs field_at_def)
  then have "otp_verify (rs_redis S) ?k g m (server c) = ((''EXPIRED'', []), server c)"
    by (simp add: otp_verify_def)
  with Cons show ?case
    by (simp add: otp_check_up Let_def interpret_otp_def client_same)
qed simp

lemma otp_step:
  assumes code: "field_at (view r) k ''code'' = Some code"
    and attempts: "field_at (view r) k ''attempts'' = Some (show_nat a)"
    and hash: "hash_or_absent (view r) k" and small: "a + 1 < 2 ^ 63"
  shows "fst (otp_verify (rs_redis S) k g m r) =
      (if m \<le> a then (''MAX'', []) else (''PRESENT'', code))"
    and "m \<le> a \<or> g = code \<Longrightarrow> view (snd (otp_verify (rs_redis S) k g m r)) k = None"
    and "\<not> m \<le> a \<Longrightarrow> g \<noteq> code \<Longrightarrow>
      view (snd (otp_verify (rs_redis S) k g m r)) = v_hset k ''attempts'' (show_nat (a + 1)) (view r)"
  using assms by (auto simp: otp_verify_def Let_def hget del view_obs hincr)

lemma otp_sequence:
  fixes purpose ident
  defines "k \<equiv> key (rs_namespace S) Otp (purpose_segment purpose ident)"
  assumes "m < 2 ^ 62"
    and "field_at (view (server c)) k ''code'' = Some code"
    and "field_at (view (server c)) k ''attempts'' = Some (show_nat a)"
    and "hash_or_absent (view (server c)) k" and "a \<le> m" and "net c = []"
  shows "guess_all (=) S purpose ident m gs c = guess_spec code (m - a) gs"
  using assms(3-7)
proof (induction gs arbitrary: a c)
  case (Cons g gs)
  note step = otp_step [OF Cons.prems(1,2,3)]
  from Cons.prems(4) assms(2) have small: "a + 1 < 2 ^ 63" by simp
  let ?c = "c\<lparr>server := snd (otp_verify (rs_redis S) k g m (server c))\<rparr>"
  note run = otp_check_up [OF Cons.prems(5), of "(=)" S purpose ident g m, folded k_def,
      unfolded Let_def step(1) [OF small]]
  show ?case
  proof (cases "m \<le> a \<or> g = code")
    case True
    with step(2) [OF small, of m g] otp_gone [of ?c purpose ident "(=)" m gs, folded k_def] Cons.prems
    show ?thesis by (auto simp: run interpret_otp_def)
  next
    case False
    have "guess_all (=) S purpose ident m gs ?c = guess_spec code (m - (a + 1)) gs"
      using False step(3) [OF small, of m g] Cons.prems
      by (intro Cons.IH) (simp_all add: view_obs view_type)
    with False show ?thesis by (auto simp: run interpret_otp_def)
  qed
qed simp

end

section \<open>Properties\<close>

lemma show_nat_digits: "c \<in> set (show_nat n) \<Longrightarrow> char_digit c \<noteq> None"
proof (induction n rule: show_nat.induct)
  case (1 n)
  have "char_digit (digit_char (n mod 10)) = Some (n mod 10)" by simp
  with 1 show ?case
    by (cases "n < 10") (auto simp: show_nat.simps [of n])
qed

lemma parse_i64_show_nat: "n < 2 ^ 63 \<Longrightarrow> parse_i64 (show_nat n) = Some (int n)"
proof -
  assume n: "n < 2 ^ 63"
  obtain c cs where cs: "show_nat n = c # cs"
    using show_nat_not_Nil [of n] by (cases "show_nat n") auto
  with show_nat_digits [of c n] have "char_digit c \<noteq> None" by simp
  then have "c \<noteq> CHR ''-''" "c \<noteq> CHR ''+''" by (auto simp: char_digit_def)
  with n parse_nat_show_nat [of n] show ?thesis
    unfolding cs by (simp add: parse_i64_def)
qed

text \<open>The identity's failures, waits and resets, through the trait methods.\<close>

fun lockout_step :: "'r RedisStores \<Rightarrow> string \<Rightarrow> nat \<Rightarrow> window_event \<Rightarrow> 'r client \<Rightarrow> 'r client" where
  "lockout_step S ident W Hit c = snd (record_failure S ident W c)"
| "lockout_step S ident W (Wait s) c = c\<lparr>server := r_tick (rs_redis S) s (server c)\<rparr>"
| "lockout_step S ident W Clear c = snd (reset_failures S ident c)"

definition lockout_run :: "'r RedisStores \<Rightarrow> string \<Rightarrow> nat \<Rightarrow> window_event list \<Rightarrow> 'r client \<Rightarrow> 'r client" where
  "lockout_run S ident W es c = fold (lockout_step S ident W) es c"

lemma lockout_run_counter:
  "lockout_run S ident W es \<lparr>server = r, net = []\<rparr> =
     \<lparr>server = counter_run (rs_redis S) (key (rs_namespace S) Lf ident) W es r, net = []\<rparr>"
proof (induction es arbitrary: r)
  case (Cons e es)
  have "lockout_step S ident W e \<lparr>server = r, net = []\<rparr> =
      \<lparr>server = counter_step (rs_redis S) (key (rs_namespace S) Lf ident) W e r, net = []\<rparr>"
    by (cases e) (simp_all add: record_failure_def record_failure_inner_def reset_failures_def
        reset_inner_def run_simps split: prod.splits sum.splits)
  with Cons show ?case by (simp add: lockout_run_def counter_run_def)
qed (simp add: lockout_run_def counter_run_def)

text \<open>
  C16. The lockout counts a fixed window. After any sequence of failures, waits and resets that
  starts with no failure on record, \<open>is_locked\<close> says whether the failures of the current window
  reach the limit, and \<open>remaining_lockout_secs\<close> is what is left of that window: it opens at the
  first failure and no later failure extends it.
\<close>

theorem lockout_window:
  assumes "redis_service (rs_redis S) view" and "ttl_ok W" and "hits es < 2 ^ 63"
    and "view r (key (rs_namespace S) Lf ident) = None"
  defines "c \<equiv> lockout_run S ident W es \<lparr>server = r, net = []\<rparr>"
  shows "fst (is_locked S ident m c) = Inr (m \<le> window_size (window_run W es None)) \<and>
    fst (remaining_lockout_secs S ident c) =
      Inr (case window_run W es None of None \<Rightarrow> 0 | Some (_, t) \<Rightarrow> t)"
proof -
  let ?k = "key (rs_namespace S) Lf ident"
  have w: "shows_window (view (server c)) ?k (window_run W es None)"
    using redis_service.counter_run_refines [OF assms(1), of r ?k None W es] assms(2-4)
    by (simp add: c_def lockout_run_counter shows_window_def window_size_def)
  have net: "net c = []" by (simp add: c_def lockout_run_counter)
  have small: "window_size (window_run W es None) < 2 ^ 63"
    using window_size_run [of W es None] assms(3) by (simp add: window_size_def)
  show ?thesis
  proof (cases "window_run W es None")
    case None
    with w show ?thesis
      by (simp add: is_locked_def is_locked_inner_def remaining_lockout_secs_def
          remaining_lockout_secs_inner_def run_simps net shows_window_def window_size_def
          redis_service.get [OF assms(1)] redis_service.ttl [OF assms(1)] type_defs obs_defs)
  next
    case (Some x)
    with w small show ?thesis
      by (cases x) (simp add: is_locked_def is_locked_inner_def remaining_lockout_secs_def
          remaining_lockout_secs_inner_def run_simps net shows_window_def window_size_def
          redis_service.get [OF assms(1)] redis_service.ttl [OF assms(1)] type_defs obs_defs
          parse_i64_show_nat)
  qed
qed

theorem lockout_window_witness:
  "fst (is_locked mem_stores ''id'' 2
     (lockout_run mem_stores ''id'' 900 [Hit, Wait 100, Hit] \<lparr>server = Map.empty, net = []\<rparr>)) = Inr True \<and>
   fst (remaining_lockout_secs mem_stores ''id''
     (lockout_run mem_stores ''id'' 900 [Hit, Wait 100, Hit] \<lparr>server = Map.empty, net = []\<rparr>)) = Inr 800"
  using lockout_window [of mem_stores mem_view 900 "[Hit, Wait 100, Hit]" Map.empty "''id''" 2]
    mem_store.redis_service_axioms
  by (simp add: ttl_ok_def mem_view_def window_run_def window_size_def)

lemma guess_spec_accepts: "length (filter (\<lambda>out. out = Inr ()) (guess_spec code n gs)) \<le> 1"
  by (induction code n gs rule: guess_spec.induct) (auto simp: filter_empty_conv)

lemma guess_spec_compares:
  "length (filter (\<lambda>out. out \<in> {Inr (), Inl AuthError.OtpInvalid}) (guess_spec code n gs)) \<le> n"
  by (induction code n gs rule: guess_spec.induct) (auto simp: filter_empty_conv)

text \<open>
  C17. A one-time password resists guessing. After \<open>put\<close>, any sequence of guesses is answered as the
  specification says: a wrong guess costs an attempt, the right one within the limit is accepted and
  consumes the code, past the limit the record is dropped. So at most one guess is accepted, and at
  most the configured number are ever compared with the code.
\<close>

theorem otp_guesses:
  assumes "store_service S view" and "\<And>x y. ct_eq x y \<longleftrightarrow> x = y" and "ttl_ok t" and "m < 2 ^ 32"
    and "hash_or_absent (view r) (key (rs_namespace S) Otp (purpose_segment purpose ident))"
    and "otp_put S purpose ident code t \<lparr>server = r, net = []\<rparr> = (Inr (), c)"
  shows "guess_all ct_eq S purpose ident m gs c = guess_spec code m gs \<and>
    length (filter (\<lambda>out. out = Inr ()) (guess_all ct_eq S purpose ident m gs c)) \<le> 1 \<and>
    length (filter (\<lambda>out. out \<in> {Inr (), Inl AuthError.OtpInvalid})
      (guess_all ct_eq S purpose ident m gs c)) \<le> m"
proof -
  let ?k = "key (rs_namespace S) Otp (purpose_segment purpose ident)"
  have ct: "ct_eq = (=)" using assms(2) by (intro ext) simp
  have "redis_service (rs_redis S) view" using assms(1) by (simp add: store_service_def)
  note laws = redis_service.hset [OF this] redis_service.expire [OF this]
  have c: "view (server c) = v_expire ?k t (v_hset ?k ''attempts'' ''0'' (v_hset ?k ''code'' code (view r)))"
    "net c = []"
    using assms(3,5,6) by (auto simp: otp_put_def put_inner_def otp_put_tx_def run_simps laws view_type)
  have zero: "show_nat 0 = ''0''" by code_simp
  have "guess_all (=) S purpose ident m gs c = guess_spec code (m - 0) gs"
    by (rule store_service.otp_sequence [OF assms(1)])
      (use assms(4) in \<open>simp_all add: c zero view_obs view_type\<close>)
  then have spec: "guess_all ct_eq S purpose ident m gs c = guess_spec code m gs" by (simp add: ct)
  show ?thesis unfolding spec using guess_spec_accepts guess_spec_compares by simp
qed

theorem otp_guesses_witness:
  "guess_all (=) mem_stores PasswordReset ''id'' 3 [''000000'', ''123456'', ''123456'']
     (snd (otp_put mem_stores PasswordReset ''id'' ''123456'' 600 \<lparr>server = Map.empty, net = []\<rparr>)) =
   [Inl AuthError.OtpInvalid, Inr (), Inl AuthError.OtpExpired]"
proof -
  let ?c = "snd (otp_put mem_stores PasswordReset ''id'' ''123456'' 600 \<lparr>server = Map.empty, net = []\<rparr>)"
  have put: "otp_put mem_stores PasswordReset ''id'' ''123456'' 600 \<lparr>server = Map.empty, net = []\<rparr> = (Inr (), ?c)"
    by (simp add: otp_put_def put_inner_def run_simps)
  have "hash_or_absent (mem_view Map.empty) (key (rs_namespace mem_stores) Otp (purpose_segment PasswordReset ''id''))"
    by (simp add: mem_view_def type_defs)
  from otp_guesses [OF mem_store.store_service_axioms _ _ _ this put, of "(=)" 3 "[''000000'', ''123456'', ''123456'']"]
  show ?thesis by (simp add: ttl_ok_def)
qed

end
