(* ===== verification/Single_Use.thy ===== *)
theory Single_Use
  imports Counter_Stores
begin

text \<open>
  The single-use keyspaces of the store crate: opaque proof tokens (\<open>stores/single_use.rs\<close>: password
  reset, verified reset, address change, invitation), the OAuth state (\<open>stores/oauth.rs\<close>), the
  WebSocket upgrade ticket (\<open>stores/ws_ticket.rs\<close>), the invitee index with its compare-and-set
  script, and the account-status cache (\<open>stores/user_status.rs\<close>). The digest \<open>sha256\<close> and the JSON
  codecs are parameters: both are third-party code. The random bytes of a ticket are an argument.

  The locale \<open>one_shot\<close> is the contract of a keyspace that answers once; every store operation built
  on \<open>GETDEL\<close> is an instance, and so is the challenge of the MFA store.
\<close>

section \<open>The stored values\<close>

record ResetContext =
  rc_user_id :: string
  rc_email :: string
  rc_tenant_id :: string
  rc_password_fingerprint :: string

record EmailChangeContext =
  ec_user_id :: string
  ec_new_email :: string
  ec_tenant_id :: string
  ec_password_fingerprint :: string

record StoredInvitation =
  si_email :: string
  si_role :: string
  si_tenant_id :: string
  si_inviter_user_id :: string
  si_created_at :: int

record WsTicketSnapshot =
  ws_sub :: string
  ws_tenant_id :: "string option"
  ws_role :: string
  ws_status :: string
  ws_mfa_enabled :: bool
  ws_mfa_verified :: bool
  ws_jti :: string
  ws_epoch :: nat

text \<open>The JSON form of a value type; \<open>None\<close> is a \<open>serde_json\<close> error.\<close>

record 'v value_codec =
  enc_val :: "'v \<Rightarrow> string option"
  dec_val :: "string \<Rightarrow> 'v option"

text \<open>What the store relies on of the JSON library: a value that was written is read back.\<close>

locale value_round_trip =
  fixes J :: "'v value_codec"
  assumes dec_enc: "enc_val J val = Some s \<Longrightarrow> dec_val J s = Some val"

definition reset_codec :: "ResetContext value_codec" where
  "reset_codec =
     \<lparr>enc_val = (\<lambda>x. Some (put_fields [rc_user_id x, rc_email x, rc_tenant_id x, rc_password_fingerprint x])),
      dec_val = (\<lambda>s. case take_fields 4 s of
         Some [a, b, c, d] \<Rightarrow> Some \<lparr>rc_user_id = a, rc_email = b, rc_tenant_id = c, rc_password_fingerprint = d\<rparr>
       | _ \<Rightarrow> None)\<rparr>"

definition snapshot_codec :: "WsTicketSnapshot value_codec" where
  "snapshot_codec =
     \<lparr>enc_val = (\<lambda>x. Some (put_fields [ws_sub x, show_opt id (ws_tenant_id x), ws_role x, ws_status x,
        show_bool (ws_mfa_enabled x), show_bool (ws_mfa_verified x), ws_jti x, show_nat (ws_epoch x)])),
      dec_val = (\<lambda>s. case take_fields 8 s of
         Some [a, b, c, d, e, f, g, h] \<Rightarrow>
           (case (parse_opt Some b, parse_nat h) of
              (Some tenant, Some epoch) \<Rightarrow>
                Some \<lparr>ws_sub = a, ws_tenant_id = tenant, ws_role = c, ws_status = d,
                  ws_mfa_enabled = parse_bool e, ws_mfa_verified = parse_bool f, ws_jti = g, ws_epoch = epoch\<rparr>
            | _ \<Rightarrow> None)
       | _ \<Rightarrow> None)\<rparr>"

lemma take_put_fields_8:
  "take_fields 8 (put_fields [a, b, c, d, e, f, g, h]) = Some [a, b, c, d, e, f, g, h]"
  by (rule take_put_fields) simp

interpretation reset_values: value_round_trip reset_codec
  by unfold_locales (auto simp: reset_codec_def take_put_fields_4)

interpretation ticket_values: value_round_trip snapshot_codec
  by unfold_locales (auto simp: snapshot_codec_def take_put_fields_8)

type_synonym digest = "u8 list \<Rightarrow> u8 list"

definition as_bytes :: "string \<Rightarrow> u8 list" where
  "as_bytes s = map of_char s"

section \<open>Opaque tokens and invitations\<close>

definition token_key :: "digest \<Rightarrow> 'r RedisStores \<Rightarrow> Prefix \<Rightarrow> string \<Rightarrow> string" where
  "token_key sha256 S prefix token = key (rs_namespace S) prefix (to_hex (sha256 (as_bytes token)))"

definition invitee_key :: "'r RedisStores \<Rightarrow> string \<Rightarrow> string \<Rightarrow> string" where
  "invitee_key S tenant_id invitee_hash = key (rs_namespace S) Invidx (tenant_id @ '':'' @ invitee_hash)"

definition put_invitation_index_inner ::
    "'r RedisStores \<Rightarrow> string \<Rightarrow> string \<Rightarrow> string \<Rightarrow> nat \<Rightarrow> ('r, unit) redis_io" where
  "put_invitation_index_inner S tenant_id invitee_hash token_hash ttl_secs =
     rbind connection (\<lambda>_.
       query (\<lambda>r. ((), r_set_ex (rs_redis S) (invitee_key S tenant_id invitee_hash) token_hash ttl_secs r)))"

text \<open>\<open>claim_invitation_index.lua\<close>.\<close>

definition claim_script :: "'r redis \<Rightarrow> string \<Rightarrow> string \<Rightarrow> nat \<Rightarrow> string \<Rightarrow> 'r \<Rightarrow> nat \<times> 'r" where
  "claim_script R k token_hash ttl_secs expected r =
     (let current = r_get R k r in
      if (case current of None \<Rightarrow> [] | Some h \<Rightarrow> h) \<noteq> expected then (0, r)
      else (1, r_set_ex R k token_hash ttl_secs r))"

definition claim_invitation_index_inner ::
    "'r RedisStores \<Rightarrow> string \<Rightarrow> string \<Rightarrow> string \<Rightarrow> nat \<Rightarrow> string option \<Rightarrow> ('r, bool) redis_io" where
  "claim_invitation_index_inner S tenant_id invitee_hash token_hash ttl_secs expected =
     rbind connection (\<lambda>_.
     rbind (query (claim_script (rs_redis S) (invitee_key S tenant_id invitee_hash) token_hash ttl_secs
              (case expected of None \<Rightarrow> [] | Some h \<Rightarrow> h)))
       (\<lambda>claimed. ret (claimed = 1)))"

definition read_invitation_index_inner ::
    "'r RedisStores \<Rightarrow> string \<Rightarrow> string \<Rightarrow> ('r, string option) redis_io" where
  "read_invitation_index_inner S tenant_id invitee_hash =
     rbind connection (\<lambda>_. query (\<lambda>r. (r_get (rs_redis S) (invitee_key S tenant_id invitee_hash) r, r)))"

definition take_invitation_index_inner ::
    "'r RedisStores \<Rightarrow> string \<Rightarrow> string \<Rightarrow> ('r, string option) redis_io" where
  "take_invitation_index_inner S tenant_id invitee_hash =
     rbind connection (\<lambda>_. query (r_getdel (rs_redis S) (invitee_key S tenant_id invitee_hash)))"

definition read_invitation_by_hash_inner ::
    "StoredInvitation value_codec \<Rightarrow> 'r RedisStores \<Rightarrow> string \<Rightarrow> ('r, StoredInvitation option) redis_io" where
  "read_invitation_by_hash_inner J S token_hash =
     rbind connection (\<lambda>_.
     rbind (query (\<lambda>r. (r_get (rs_redis S) (key (rs_namespace S) Inv token_hash) r, r)))
       (\<lambda>raw. ret (Option.bind raw (dec_val J))))"

definition delete_invitation_by_hash_inner :: "'r RedisStores \<Rightarrow> string \<Rightarrow> ('r, bool) redis_io" where
  "delete_invitation_by_hash_inner S token_hash =
     rbind connection (\<lambda>_.
     rbind (query (r_del (rs_redis S) (key (rs_namespace S) Inv token_hash)))
       (\<lambda>removed. ret (removed > 0)))"

definition put_value ::
    "digest \<Rightarrow> 'v value_codec \<Rightarrow> 'r RedisStores \<Rightarrow> Prefix \<Rightarrow> string \<Rightarrow> 'v \<Rightarrow> nat \<Rightarrow> ('r, unit) redis_io" where
  "put_value sha256 J S prefix token val ttl_secs =
     rbind (json_result (enc_val J val)) (\<lambda>json.
     rbind connection (\<lambda>_.
       query (\<lambda>r. ((), r_set_ex (rs_redis S) (token_key sha256 S prefix token) json ttl_secs r))))"

definition consume_value ::
    "digest \<Rightarrow> 'v value_codec \<Rightarrow> 'r RedisStores \<Rightarrow> Prefix \<Rightarrow> string \<Rightarrow> ('r, 'v option) redis_io" where
  "consume_value sha256 J S prefix token =
     rbind connection (\<lambda>_.
     rbind (query (r_getdel (rs_redis S) (token_key sha256 S prefix token))) (\<lambda>raw.
       case raw of
         Some json \<Rightarrow> rbind (json_result (dec_val J json)) (\<lambda>x. ret (Some x))
       | None \<Rightarrow> ret None))"

definition delete_value :: "digest \<Rightarrow> 'r RedisStores \<Rightarrow> Prefix \<Rightarrow> string \<Rightarrow> ('r, unit) redis_io" where
  "delete_value sha256 S prefix token =
     rbind connection (\<lambda>_.
     rbind (query (r_del (rs_redis S) (token_key sha256 S prefix token))) (\<lambda>_. ret ()))"

text \<open>\<open>PasswordResetStore\<close>.\<close>

definition put_token ::
    "digest \<Rightarrow> ResetContext value_codec \<Rightarrow> 'r RedisStores \<Rightarrow> string \<Rightarrow> ResetContext \<Rightarrow> nat \<Rightarrow> ('r, unit) store_io" where
  "put_token sha256 J S token context ttl_secs =
     map_err from_redis_error (put_value sha256 J S PwReset token context ttl_secs)"

definition consume_token ::
    "digest \<Rightarrow> ResetContext value_codec \<Rightarrow> 'r RedisStores \<Rightarrow> string \<Rightarrow> ('r, ResetContext option) store_io" where
  "consume_token sha256 J S token = map_err from_redis_error (consume_value sha256 J S PwReset token)"

definition delete_token :: "digest \<Rightarrow> 'r RedisStores \<Rightarrow> string \<Rightarrow> ('r, unit) store_io" where
  "delete_token sha256 S token = map_err from_redis_error (delete_value sha256 S PwReset token)"

definition put_verified ::
    "digest \<Rightarrow> ResetContext value_codec \<Rightarrow> 'r RedisStores \<Rightarrow> string \<Rightarrow> ResetContext \<Rightarrow> nat \<Rightarrow> ('r, unit) store_io" where
  "put_verified sha256 J S token context ttl_secs =
     map_err from_redis_error (put_value sha256 J S PwVtok token context ttl_secs)"

definition put_email_change ::
    "digest \<Rightarrow> EmailChangeContext value_codec \<Rightarrow> 'r RedisStores \<Rightarrow> string \<Rightarrow> EmailChangeContext \<Rightarrow> nat \<Rightarrow>
      ('r, unit) store_io" where
  "put_email_change sha256 J S token context ttl_secs =
     map_err from_redis_error (put_value sha256 J S Ec token context ttl_secs)"

definition consume_email_change ::
    "digest \<Rightarrow> EmailChangeContext value_codec \<Rightarrow> 'r RedisStores \<Rightarrow> string \<Rightarrow> ('r, EmailChangeContext option) store_io" where
  "consume_email_change sha256 J S token = map_err from_redis_error (consume_value sha256 J S Ec token)"

definition consume_verified ::
    "digest \<Rightarrow> ResetContext value_codec \<Rightarrow> 'r RedisStores \<Rightarrow> string \<Rightarrow> ('r, ResetContext option) store_io" where
  "consume_verified sha256 J S token = map_err from_redis_error (consume_value sha256 J S PwVtok token)"

text \<open>\<open>InvitationStore\<close>.\<close>

definition put_invitation ::
    "digest \<Rightarrow> StoredInvitation value_codec \<Rightarrow> 'r RedisStores \<Rightarrow> string \<Rightarrow> StoredInvitation \<Rightarrow> nat \<Rightarrow>
      ('r, unit) store_io" where
  "put_invitation sha256 J S token invitation ttl_secs =
     map_err from_redis_error (put_value sha256 J S Inv token invitation ttl_secs)"

definition consume_invitation ::
    "digest \<Rightarrow> StoredInvitation value_codec \<Rightarrow> 'r RedisStores \<Rightarrow> string \<Rightarrow> ('r, StoredInvitation option) store_io" where
  "consume_invitation sha256 J S token = map_err from_redis_error (consume_value sha256 J S Inv token)"

definition put_invitation_index ::
    "'r RedisStores \<Rightarrow> string \<Rightarrow> string \<Rightarrow> string \<Rightarrow> nat \<Rightarrow> ('r, unit) store_io" where
  "put_invitation_index S tenant_id invitee_hash token_hash ttl_secs =
     map_err from_redis_error (put_invitation_index_inner S tenant_id invitee_hash token_hash ttl_secs)"

definition claim_invitation_index ::
    "'r RedisStores \<Rightarrow> string \<Rightarrow> string \<Rightarrow> string \<Rightarrow> nat \<Rightarrow> string option \<Rightarrow> ('r, bool) store_io" where
  "claim_invitation_index S tenant_id invitee_hash token_hash ttl_secs expected =
     map_err from_redis_error
       (claim_invitation_index_inner S tenant_id invitee_hash token_hash ttl_secs expected)"

definition read_invitation_index ::
    "'r RedisStores \<Rightarrow> string \<Rightarrow> string \<Rightarrow> ('r, string option) store_io" where
  "read_invitation_index S tenant_id invitee_hash =
     map_err from_redis_error (read_invitation_index_inner S tenant_id invitee_hash)"

definition take_invitation_index ::
    "'r RedisStores \<Rightarrow> string \<Rightarrow> string \<Rightarrow> ('r, string option) store_io" where
  "take_invitation_index S tenant_id invitee_hash =
     map_err from_redis_error (take_invitation_index_inner S tenant_id invitee_hash)"

definition read_invitation_by_hash ::
    "StoredInvitation value_codec \<Rightarrow> 'r RedisStores \<Rightarrow> string \<Rightarrow> ('r, StoredInvitation option) store_io" where
  "read_invitation_by_hash J S token_hash = map_err from_redis_error (read_invitation_by_hash_inner J S token_hash)"

definition delete_invitation_by_hash :: "'r RedisStores \<Rightarrow> string \<Rightarrow> ('r, bool) store_io" where
  "delete_invitation_by_hash S token_hash =
     map_err from_redis_error (delete_invitation_by_hash_inner S token_hash)"

section \<open>OAuth state\<close>

definition put_state_inner :: "'r RedisStores \<Rightarrow> string \<Rightarrow> string \<Rightarrow> nat \<Rightarrow> ('r, unit) redis_io" where
  "put_state_inner S state_hash payload ttl_secs =
     rbind connection (\<lambda>_.
       query (\<lambda>r. ((), r_set_ex (rs_redis S) (key (rs_namespace S) Os state_hash) payload ttl_secs r)))"

definition take_state_inner :: "'r RedisStores \<Rightarrow> string \<Rightarrow> ('r, string option) redis_io" where
  "take_state_inner S state_hash =
     rbind connection (\<lambda>_. query (r_getdel (rs_redis S) (key (rs_namespace S) Os state_hash)))"

definition put_state :: "'r RedisStores \<Rightarrow> string \<Rightarrow> string \<Rightarrow> nat \<Rightarrow> ('r, unit) store_io" where
  "put_state S state_hash payload ttl_secs =
     map_err from_redis_error (put_state_inner S state_hash payload ttl_secs)"

definition take_state :: "'r RedisStores \<Rightarrow> string \<Rightarrow> ('r, string option) store_io" where
  "take_state S state_hash = map_err from_redis_error (take_state_inner S state_hash)"

section \<open>WebSocket tickets\<close>

text \<open>\<open>random_bytes\<close> stands for the operating system's generator.\<close>

fun encode_hex :: "u8 list \<Rightarrow> string" where
  "encode_hex [] = []"
| "encode_hex (byte # bytes) =
     [hex_alphabet ! unat (drop_bit 4 byte), hex_alphabet ! unat (byte AND 0x0f)] @ encode_hex bytes"

definition generate_secure_token :: "(nat \<Rightarrow> u8 list) \<Rightarrow> nat \<Rightarrow> string" where
  "generate_secure_token random_bytes byte_len = encode_hex (random_bytes byte_len)"

definition WS_TICKET_ENTROPY_BYTES :: nat where
  "WS_TICKET_ENTROPY_BYTES = 32"

definition ws_ticket_key :: "digest \<Rightarrow> 'r RedisStores \<Rightarrow> string \<Rightarrow> string" where
  "ws_ticket_key sha256 S ticket = key (rs_namespace S) Wst (to_hex (sha256 (as_bytes ticket)))"

definition mint_inner ::
    "(nat \<Rightarrow> u8 list) \<Rightarrow> digest \<Rightarrow> WsTicketSnapshot value_codec \<Rightarrow> 'r RedisStores \<Rightarrow> WsTicketSnapshot \<Rightarrow> nat \<Rightarrow>
      ('r, string) redis_io" where
  "mint_inner random_bytes sha256 J S snapshot ttl_secs =
     (let ticket = generate_secure_token random_bytes WS_TICKET_ENTROPY_BYTES in
      rbind (json_result (enc_val J snapshot)) (\<lambda>json.
      rbind connection (\<lambda>_.
      rbind (query (\<lambda>r. ((), r_set_ex (rs_redis S) (ws_ticket_key sha256 S ticket) json ttl_secs r)))
        (\<lambda>_. ret ticket))))"

definition parse_snapshot :: "WsTicketSnapshot value_codec \<Rightarrow> string \<Rightarrow> WsTicketSnapshot option" where
  "parse_snapshot J json = dec_val J json"

definition redeem_inner ::
    "digest \<Rightarrow> WsTicketSnapshot value_codec \<Rightarrow> 'r RedisStores \<Rightarrow> string \<Rightarrow> ('r, WsTicketSnapshot option) redis_io" where
  "redeem_inner sha256 J S ticket =
     rbind connection (\<lambda>_.
     rbind (query (r_getdel (rs_redis S) (ws_ticket_key sha256 S ticket)))
       (\<lambda>raw. ret (Option.bind raw (parse_snapshot J))))"

definition mint ::
    "(nat \<Rightarrow> u8 list) \<Rightarrow> digest \<Rightarrow> WsTicketSnapshot value_codec \<Rightarrow> 'r RedisStores \<Rightarrow> WsTicketSnapshot \<Rightarrow> nat \<Rightarrow>
      ('r, string) store_io" where
  "mint random_bytes sha256 J S snapshot ttl_secs =
     map_err from_redis_error (mint_inner random_bytes sha256 J S snapshot ttl_secs)"

definition redeem ::
    "digest \<Rightarrow> WsTicketSnapshot value_codec \<Rightarrow> 'r RedisStores \<Rightarrow> string \<Rightarrow> ('r, WsTicketSnapshot option) store_io" where
  "redeem sha256 J S ticket = map_err from_redis_error (redeem_inner sha256 J S ticket)"

section \<open>Account-status cache\<close>

definition read_key :: "'r RedisStores \<Rightarrow> string \<Rightarrow> ('r, string option) redis_io" where
  "read_key S k = rbind connection (\<lambda>_. query (\<lambda>r. (r_get (rs_redis S) k r, r)))"

definition write_key :: "'r RedisStores \<Rightarrow> string \<Rightarrow> string \<Rightarrow> nat \<Rightarrow> ('r, unit) redis_io" where
  "write_key S k val ttl_secs =
     rbind connection (\<lambda>_. query (\<lambda>r. ((), r_set_ex (rs_redis S) k val ttl_secs r)))"

definition delete_key :: "'r RedisStores \<Rightarrow> string \<Rightarrow> ('r, unit) redis_io" where
  "delete_key S k = rbind connection (\<lambda>_. rbind (query (r_del (rs_redis S) k)) (\<lambda>_. ret ()))"

definition get_status :: "'r RedisStores \<Rightarrow> string \<Rightarrow> ('r, string option) store_io" where
  "get_status S subject_hash =
     map_err from_redis_error (read_key S (key (rs_namespace S) Us subject_hash))"

definition get_verified :: "'r RedisStores \<Rightarrow> string \<Rightarrow> ('r, bool option) store_io" where
  "get_verified S subject_hash =
     rbind (map_err from_redis_error (read_key S (key (rs_namespace S) Uev subject_hash)))
       (\<lambda>raw. ret (map_option (\<lambda>x. x \<noteq> ''0'') raw))"

definition put_status :: "'r RedisStores \<Rightarrow> string \<Rightarrow> string \<Rightarrow> nat \<Rightarrow> ('r, unit) store_io" where
  "put_status S subject_hash status ttl_secs =
     map_err from_redis_error (write_key S (key (rs_namespace S) Us subject_hash) status ttl_secs)"

definition put_verified_flag :: "'r RedisStores \<Rightarrow> string \<Rightarrow> bool \<Rightarrow> nat \<Rightarrow> ('r, unit) store_io" where
  "put_verified_flag S subject_hash verified ttl_secs =
     map_err from_redis_error (write_key S (key (rs_namespace S) Uev subject_hash)
       (if verified then ''1'' else ''0'') ttl_secs)"

definition invalidate_status :: "'r RedisStores \<Rightarrow> string \<Rightarrow> ('r, unit) store_io" where
  "invalidate_status S subject_hash =
     rbind (map_err from_redis_error (delete_key S (key (rs_namespace S) Uev subject_hash)))
       (\<lambda>_. map_err from_redis_error (delete_key S (key (rs_namespace S) Us subject_hash)))"

section \<open>One round trip\<close>

text \<open>Most operations are one round trip and a pure reading of its reply.\<close>

lemma round_trip:
  assumes "rbind connection (\<lambda>_. query f) c = (x, c')"
  shows "server c' \<in> {server c, snd (f (server c))}" 
    and "x = Inr a \<Longrightarrow> a = fst (f (server c)) \<and> server c' = snd (f (server c))"
proof -
  obtain u c1 where conn: "connection c = (u, c1)" by fastforce
  have same: "server c1 = server c" using server_connection [of c] conn by simp
  show "server c' \<in> {server c, snd (f (server c))}"
    using assms conn same query_server [of f c1] by (cases u) (auto simp: rbind_def)
  show "a = fst (f (server c)) \<and> server c' = snd (f (server c))" if "x = Inr a"
    using assms conn same that query_Inr [of f c1 a c'] by (cases u) (auto simp: rbind_def)
qed

lemma round_trip_post:
  assumes "map_err g (rbind connection (\<lambda>_. rbind (query f) (\<lambda>a. ret (post a)))) c = (x, c')"
  shows "server c' \<in> {server c, snd (f (server c))}"
    and "x = Inr b \<Longrightarrow> b = post (fst (f (server c))) \<and> server c' = snd (f (server c))"
proof -
  obtain y c1 where trip: "rbind connection (\<lambda>_. query f) c = (y, c1)" by fastforce
  from assms have "map_err g (rbind (rbind connection (\<lambda>_. query f)) (\<lambda>a. ret (post a))) c = (x, c')"
    by (simp add: rbind_assoc)
  then have c1: "c' = c1" and x: "x = Inr b \<Longrightarrow> \<exists>a. y = Inr a \<and> b = post a"
    using trip by (auto simp: map_err_def rbind_def split: sum.splits prod.splits)
  show "server c' \<in> {server c, snd (f (server c))}" using round_trip(1) [OF trip] c1 by simp
  show "b = post (fst (f (server c))) \<and> server c' = snd (f (server c))" if "x = Inr b"
    using x [OF that] round_trip(2) [OF trip] c1 by auto
qed

section \<open>A keyspace that answers once\<close>

text \<open>
  One slot of a server, shared by any number of callers. A caller takes from it over its own network
  schedule; between the takes the server moves in any way that does not fill the slot.
\<close>

datatype ('r, 'a) slot_event =
    Take "('r, 'a option) store_io" "net_event list"
  | Elsewhere "'r \<Rightarrow> 'r"

fun taken :: "('r, 'a) slot_event list \<Rightarrow> 'r \<Rightarrow> 'a list" where
  "taken [] r = []"
| "taken (Take t ns # es) r =
     (case t \<lparr>server = r, net = ns\<rparr> of
        (Inr (Some a), c) \<Rightarrow> a # taken es (server c)
      | (_, c) \<Rightarrow> taken es (server c))"
| "taken (Elsewhere f # es) r = taken es (f r)"

definition leaves :: "('r \<Rightarrow> bool) \<Rightarrow> ('r \<Rightarrow> 'a option) \<Rightarrow> ('r \<Rightarrow> 'r) \<Rightarrow> bool" where
  "leaves ok held f \<longleftrightarrow> (\<forall>r. ok r \<longrightarrow> ok (f r) \<and> held (f r) \<in> {None, held r})"

definition fair ::
    "('r, 'a option) store_io set \<Rightarrow> ('r \<Rightarrow> 'a option) \<Rightarrow> ('r \<Rightarrow> bool) \<Rightarrow> ('r, 'a) slot_event \<Rightarrow> bool" where
  "fair takes held ok e \<longleftrightarrow> (case e of Take t ns \<Rightarrow> t \<in> takes | Elsewhere f \<Rightarrow> leaves ok held f)"

locale one_shot =
  fixes takes :: "('r, 'a option) store_io set" and held :: "'r \<Rightarrow> 'a option" and ok :: "'r \<Rightarrow> bool"
  assumes take_ok: "t \<in> takes \<Longrightarrow> ok (server c) \<Longrightarrow> ok (server (snd (t c)))"
    and take_held: "t \<in> takes \<Longrightarrow> ok (server c) \<Longrightarrow> held (server (snd (t c))) \<in> {None, held (server c)}"
    and take_some: "t \<in> takes \<Longrightarrow> ok (server c) \<Longrightarrow> t c = (Inr (Some a), c') \<Longrightarrow>
          held (server c) = Some a \<and> held (server c') = None"
begin

lemma taken_held:
  assumes "\<forall>e\<in>set es. fair takes held ok e" and "ok r"
  shows "set (taken es r) \<subseteq> set_option (held r) \<and> length (taken es r) \<le> 1"
  using assms
proof (induction es arbitrary: r)
  case (Cons e es)
  show ?case
  proof (cases e)
    case (Elsewhere f)
    with Cons.prems have "ok (f r)" "held (f r) \<in> {None, held r}" by (auto simp: fair_def leaves_def)
    with Cons.IH [of "f r"] Cons.prems(1) Elsewhere show ?thesis by auto
  next
    case (Take t ns)
    let ?c = "\<lparr>server = r, net = ns\<rparr>"
    obtain x c' where run: "t ?c = (x, c')" by fastforce
    have t: "t \<in> takes" using Cons.prems(1) Take by (simp add: fair_def)
    have next_ok: "ok (server c')" "held (server c') \<in> {None, held r}"
      using take_ok [OF t, of ?c] take_held [OF t, of ?c] Cons.prems(2) run by auto
    note rest = Cons.IH [OF _ next_ok(1)]
    show ?thesis
    proof (cases "\<exists>a. x = Inr (Some a)")
      case True
      then obtain a where x: "x = Inr (Some a)" by blast
      with take_some [OF t, of ?c] Cons.prems(2) run have "held r = Some a" "held (server c') = None"
        by auto
      with rest Cons.prems(1) Take run x show ?thesis by auto
    next
      case False
      then have "taken (e # es) r = taken es (server c')"
        using Take run by (auto split: sum.splits option.splits)
      with rest Cons.prems(1) next_ok(2) show ?thesis by auto
    qed
  qed
qed simp

end

text \<open>A read-and-delete of one key followed by decoding is an instance, on every server.\<close>

definition decoded :: "('r \<Rightarrow> rview) \<Rightarrow> (string \<Rightarrow> 'a option) \<Rightarrow> string \<Rightarrow> 'r \<Rightarrow> 'a option" where
  "decoded view dec k r = Option.bind (str_at (view r) k) dec"

definition text_key :: "('r \<Rightarrow> rview) \<Rightarrow> string \<Rightarrow> 'r \<Rightarrow> bool" where
  "text_key view k r \<longleftrightarrow> str_or_absent (view r) k"

context redis_service
begin

lemma getdel_round_trip:
  assumes "str_or_absent (view (server c)) k"
    and "rbind connection (\<lambda>_. query (r_getdel R k)) c = (x, c')"
  shows "view (server c') \<in> {view (server c), v_del k (view (server c))} \<and>
    (\<forall>raw. x = Inr raw \<longrightarrow> raw = str_at (view (server c)) k \<and> view (server c') = v_del k (view (server c)))"
  using round_trip [OF assms(2)] getdel [OF assms(1)] getdel_value [OF assms(1)] by auto

lemma getdel_one_shot:
  assumes post_state: "\<And>raw c. snd (post raw c) = c"
    and post_some: "\<And>raw c a. fst (post raw c) = Inr (Some a) \<Longrightarrow> Option.bind raw dec = Some a"
    and t: "t = map_err from_redis_error (rbind (rbind connection (\<lambda>_. query (r_getdel R k))) post)"
  shows "one_shot {t} (decoded view dec k) (text_key view k)"
proof -
  have step: "view (server c') \<in> {view (server c), v_del k (view (server c))} \<and>
      (\<forall>a. x = Inr (Some a) \<longrightarrow> decoded view dec k (server c) = Some a \<and>
         view (server c') = v_del k (view (server c)))"
    if ok: "text_key view k (server c)" and run: "t c = (x, c')" for c c' x
  proof -
    obtain y c1 where g: "rbind connection (\<lambda>_. query (r_getdel R k)) c = (y, c1)" by fastforce
    from getdel_round_trip [OF _ this] ok
    have trip: "view (server c1) \<in> {view (server c), v_del k (view (server c))}"
      "\<And>raw. y = Inr raw \<Longrightarrow> raw = str_at (view (server c)) k \<and> view (server c1) = v_del k (view (server c))"
      by (auto simp: text_key_def)
    show ?thesis
    proof (cases y)
      case (Inl e)
      with run g have "c' = c1" "x = Inl (from_redis_error e)" by (auto simp: t map_err_def rbind_def)
      with trip(1) show ?thesis by simp
    next
      case (Inr raw)
      have "c' = c1" using run g Inr post_state [of raw c1]
        by (auto simp: t map_err_def rbind_def split: sum.splits prod.splits)
      moreover have "fst (post raw c1) = Inr (Some a)" if "x = Inr (Some a)" for a
        using run g Inr that by (auto simp: t map_err_eq_Inr rbind_def)
      ultimately show ?thesis using trip Inr post_some by (auto simp: decoded_def)
    qed
  qed
  show ?thesis
  proof (unfold_locales, unfold singleton_iff)
    fix t' and c :: "'r client" assume a: "t' = t" "text_key view k (server c)"
    obtain x c' where run: "t c = (x, c')" by fastforce
    from step [OF a(2) run] a run show "text_key view k (server (snd (t' c)))"
      by (auto simp: text_key_def view_type)
    from step [OF a(2) run] a run show "decoded view dec k (server (snd (t' c))) \<in> {None, decoded view dec k (server c)}"
      by (auto simp: decoded_def view_obs)
  next
    fix t' a and c c' :: "'r client" assume a: "t' = t" "text_key view k (server c)" "t' c = (Inr (Some a), c')"
    from step [OF a(2)] a(1,3) show "decoded view dec k (server c) = Some a \<and> decoded view dec k (server c') = None"
      by (auto simp: decoded_def view_obs)
  qed
qed

lemma consume_one_shot:
  assumes "R = rs_redis S"
  shows "one_shot {map_err from_redis_error (consume_value sha256 J S prefix token)}
    (decoded view (dec_val J) (token_key sha256 S prefix token)) (text_key view (token_key sha256 S prefix token))"
  by (rule getdel_one_shot [where post = "\<lambda>raw. case raw of
        Some json \<Rightarrow> rbind (json_result (dec_val J json)) (\<lambda>x. ret (Some x)) | None \<Rightarrow> ret None"])
    (auto simp: assms consume_value_def rbind_assoc json_result_def rbind_def ret_def raise_def
      split: option.splits)

lemma take_state_one_shot:
  assumes "R = rs_redis S"
  shows "one_shot {take_state S state_hash} (decoded view Some (key (rs_namespace S) Os state_hash))
    (text_key view (key (rs_namespace S) Os state_hash))"
  by (rule getdel_one_shot [where post = ret])
    (auto simp: assms take_state_def take_state_inner_def)

lemma redeem_one_shot:
  assumes "R = rs_redis S"
  shows "one_shot {redeem sha256 J S ticket} (decoded view (dec_val J) (ws_ticket_key sha256 S ticket))
    (text_key view (ws_ticket_key sha256 S ticket))"
  by (rule getdel_one_shot [where post = "\<lambda>raw. ret (Option.bind raw (parse_snapshot J))"])
    (auto simp: assms redeem_def redeem_inner_def rbind_assoc ret_def parse_snapshot_def [abs_def])

lemma set_ex_done:
  assumes "rbind connection (\<lambda>_. query (\<lambda>r. ((), r_set_ex R k s t r))) c = (Inr (), c')" and "ttl_ok t"
  shows "view (server c') = v_set_ex k s t (view (server c))"
proof -
  from assms(1) connection_Inr [of c] have "server c' = r_set_ex R k s t (server c)"
    by (auto simp: rbind_eq_Inr dest!: query_Inr)
  with set_ex [OF assms(2)] show ?thesis by simp
qed

lemma one_shot_after_set:
  assumes "view (server c) = v_set_ex k s t v" and "dec s = Some a"
    and "one_shot T (decoded view dec k) (text_key view k)"
    and "\<forall>e\<in>set es. fair T (decoded view dec k) (text_key view k) e"
  shows "set (taken es (server c)) \<subseteq> {a} \<and> length (taken es (server c)) \<le> 1"
  using one_shot.taken_held [OF assms(3,4), of "server c"] assms(1,2)
  by (simp add: decoded_def text_key_def view_obs view_type)

lemma tick_leaves: "leaves (text_key view k) (decoded view dec k) (r_tick R n)"
  by (auto simp: leaves_def text_key_def decoded_def tick view_type view_obs)

lemma getdel_within_ttl:
  assumes "view r = v_set_ex k s t v" and "n < t"
  shows "fst (r_getdel R k (r_tick R n r)) = Some s"
  using assms by (simp add: getdel_value tick view_type view_obs survives_def)

end

interpretation mem_tokens: one_shot "{map_err from_redis_error (consume_value sha256 J mem_stores prefix token)}"
    "decoded mem_view (dec_val J) (token_key sha256 mem_stores prefix token)"
    "text_key mem_view (token_key sha256 mem_stores prefix token)"
  by (rule mem.consume_one_shot) simp

section \<open>Properties\<close>

text \<open>
  C18. An opaque proof token (password reset, verified reset, address change, invitation) is good for
  one use. Once \<open>put_value\<close> has answered, the callers that present the token obtain the stored value
  at most once between them, and nothing else, whatever the network does to each call and whatever
  else happens on the server short of writing that key. Within its lifetime the first presentation
  over a working connection obtains it.
\<close>

theorem token_consumed_once:
  assumes "redis_service (rs_redis S) view" and "value_round_trip J" and "ttl_ok t"
    and "put_value sha256 J S prefix token val t \<lparr>server = r, net = ns\<rparr> = (Inr (), c)"
    and "\<forall>e\<in>set es. fair {map_err from_redis_error (consume_value sha256 J S prefix token)}
      (decoded view (dec_val J) (token_key sha256 S prefix token))
      (text_key view (token_key sha256 S prefix token)) e"
  shows "set (taken es (server c)) \<subseteq> {val} \<and> length (taken es (server c)) \<le> 1 \<and>
    (n < t \<longrightarrow> fst (consume_value sha256 J S prefix token
       \<lparr>server = r_tick (rs_redis S) n (server c), net = []\<rparr>) = Inr (Some val))"
proof -
  let ?k = "token_key sha256 S prefix token"
  from assms(4) obtain json where json: "enc_val J val = Some json"
    and put: "rbind connection (\<lambda>_. query (\<lambda>r. ((), r_set_ex (rs_redis S) ?k json t r)))
      \<lparr>server = r, net = ns\<rparr> = (Inr (), c)"
    by (auto simp: put_value_def json_result_def split: option.splits)
  have dec: "dec_val J json = Some val" using value_round_trip.dec_enc [OF assms(2) json] .
  note v = redis_service.set_ex_done [OF assms(1) put assms(3)]
  have "fst (consume_value sha256 J S prefix token \<lparr>server = r_tick (rs_redis S) n (server c), net = []\<rparr>)
      = Inr (Some val)" if "n < t"
    using redis_service.getdel_within_ttl [OF assms(1) v that] dec
    by (simp add: consume_value_def run_simps json_result_def split: prod.splits)
  with redis_service.one_shot_after_set [OF assms(1) v dec
      redis_service.consume_one_shot [OF assms(1) HOL.refl] assms(5)] show ?thesis by blast
qed

definition demo_reset :: ResetContext where
  "demo_reset = \<lparr>rc_user_id = ''u1'', rc_email = ''a@b.c'', rc_tenant_id = ''t1'', rc_password_fingerprint = ''f''\<rparr>"

definition demo_reset_client :: "mem client" where
  "demo_reset_client =
     snd (put_value id reset_codec mem_stores PwReset ''tok'' demo_reset 600 \<lparr>server = Map.empty, net = []\<rparr>)"

lemma demo_reset_put:
  "put_value id reset_codec mem_stores PwReset ''tok'' demo_reset 600 \<lparr>server = Map.empty, net = []\<rparr> =
     (Inr (), demo_reset_client)"
  by (simp add: demo_reset_client_def put_value_def reset_codec_def json_result_def run_simps)

theorem token_consumed_once_witness:
  "length (taken
     [Take (consume_token id reset_codec mem_stores ''tok'') [Up, ReplyLost], Elsewhere (r_tick mem_redis 5),
      Take (consume_token id reset_codec mem_stores ''tok'') []] (server demo_reset_client)) \<le> 1 \<and>
   fst (consume_value id reset_codec mem_stores PwReset ''tok''
     \<lparr>server = r_tick mem_redis 5 (server demo_reset_client), net = []\<rparr>) = Inr (Some demo_reset)"
proof -
  let ?es = "[Take (consume_token id reset_codec mem_stores ''tok'') [Up, ReplyLost], Elsewhere (r_tick mem_redis 5),
      Take (consume_token id reset_codec mem_stores ''tok'') []]"
  have "\<forall>e\<in>set ?es. fair {map_err from_redis_error (consume_value id reset_codec mem_stores PwReset ''tok'')}
      (decoded mem_view (dec_val reset_codec) (token_key id mem_stores PwReset ''tok''))
      (text_key mem_view (token_key id mem_stores PwReset ''tok'')) e"
    by (simp add: fair_def consume_token_def mem.tick_leaves)
  from token_consumed_once [OF _ reset_values.value_round_trip_axioms _ demo_reset_put this, of 5]
    mem_store.redis_service_axioms show ?thesis by (simp add: ttl_ok_def)
qed

text \<open>
  A WebSocket ticket is good for one upgrade: the ticket \<open>mint\<close> returned is redeemed at most
  once, for the snapshot it was minted with, and within its lifetime the first redemption succeeds.
\<close>

theorem ticket_redeemed_once:
  assumes "redis_service (rs_redis S) view" and "value_round_trip J" and "ttl_ok t"
    and "mint random_bytes sha256 J S snapshot t \<lparr>server = r, net = ns\<rparr> = (Inr ticket, c)"
    and "\<forall>e\<in>set es. fair {redeem sha256 J S ticket}
      (decoded view (dec_val J) (ws_ticket_key sha256 S ticket))
      (text_key view (ws_ticket_key sha256 S ticket)) e"
  shows "set (taken es (server c)) \<subseteq> {snapshot} \<and> length (taken es (server c)) \<le> 1 \<and>
    (n < t \<longrightarrow> fst (redeem sha256 J S ticket
       \<lparr>server = r_tick (rs_redis S) n (server c), net = []\<rparr>) = Inr (Some snapshot))"
proof -
  let ?k = "ws_ticket_key sha256 S ticket"
  from assms(4) obtain json where json: "enc_val J snapshot = Some json"
    and put: "rbind connection (\<lambda>_. query (\<lambda>r. ((), r_set_ex (rs_redis S) ?k json t r)))
      \<lparr>server = r, net = ns\<rparr> = (Inr (), c)"
    by (auto simp: mint_def mint_inner_def json_result_def Let_def map_err_eq_Inr rbind_eq_Inr
        split: option.splits)
  have dec: "dec_val J json = Some snapshot" using value_round_trip.dec_enc [OF assms(2) json] .
  note v = redis_service.set_ex_done [OF assms(1) put assms(3)]
  have "fst (redeem sha256 J S ticket \<lparr>server = r_tick (rs_redis S) n (server c), net = []\<rparr>)
      = Inr (Some snapshot)" if "n < t"
    using redis_service.getdel_within_ttl [OF assms(1) v that] dec
    by (simp add: redeem_def redeem_inner_def parse_snapshot_def run_simps split: prod.splits)
  with redis_service.one_shot_after_set [OF assms(1) v dec
      redis_service.redeem_one_shot [OF assms(1) HOL.refl] assms(5)] show ?thesis by blast
qed

definition demo_snapshot :: WsTicketSnapshot where
  "demo_snapshot = \<lparr>ws_sub = ''u1'', ws_tenant_id = Some ''t1'', ws_role = ''user'', ws_status = ''active'',
     ws_mfa_enabled = False, ws_mfa_verified = False, ws_jti = ''j1'', ws_epoch = 0\<rparr>"

definition demo_ticket_client :: "mem client" where
  "demo_ticket_client =
     snd (mint (\<lambda>n. replicate n 7) id snapshot_codec mem_stores demo_snapshot 30 \<lparr>server = Map.empty, net = []\<rparr>)"

lemma demo_ticket_mint:
  "mint (\<lambda>n. replicate n 7) id snapshot_codec mem_stores demo_snapshot 30 \<lparr>server = Map.empty, net = []\<rparr> =
     (Inr (generate_secure_token (\<lambda>n. replicate n 7) 32), demo_ticket_client)"
  by (simp add: demo_ticket_client_def mint_def mint_inner_def snapshot_codec_def json_result_def Let_def
      run_simps WS_TICKET_ENTROPY_BYTES_def)

theorem ticket_redeemed_once_witness:
  "let ticket = generate_secure_token (\<lambda>n. replicate n 7) 32; redeem' = redeem id snapshot_codec mem_stores ticket in
   length (taken [Take redeem' [], Elsewhere (r_tick mem_redis 5), Take redeem' []] (server demo_ticket_client)) \<le> 1 \<and>
   fst (redeem' \<lparr>server = r_tick mem_redis 5 (server demo_ticket_client), net = []\<rparr>) = Inr (Some demo_snapshot)"
proof -
  let ?ticket = "generate_secure_token (\<lambda>n. replicate n 7) 32"
  let ?redeem = "redeem id snapshot_codec mem_stores ?ticket"
  have "\<forall>e\<in>set [Take ?redeem [], Elsewhere (r_tick mem_redis 5), Take ?redeem []]. fair {?redeem}
      (decoded mem_view (dec_val snapshot_codec) (ws_ticket_key id mem_stores ?ticket))
      (text_key mem_view (ws_ticket_key id mem_stores ?ticket)) e"
    by (simp add: fair_def mem.tick_leaves)
  from ticket_redeemed_once [OF _ ticket_values.value_round_trip_axioms _ demo_ticket_mint this, of 5]
    mem_store.redis_service_axioms show ?thesis by (simp add: ttl_ok_def Let_def)
qed

text \<open>
  An OAuth state is consumed by one callback: the payload stored for it is handed out at most
  once, and within its lifetime the first callback obtains it.
\<close>

theorem oauth_state_taken_once:
  assumes "redis_service (rs_redis S) view" and "ttl_ok t"
    and "put_state S state_hash payload t \<lparr>server = r, net = ns\<rparr> = (Inr (), c)"
    and "\<forall>e\<in>set es. fair {take_state S state_hash}
      (decoded view Some (key (rs_namespace S) Os state_hash))
      (text_key view (key (rs_namespace S) Os state_hash)) e"
  shows "set (taken es (server c)) \<subseteq> {payload} \<and> length (taken es (server c)) \<le> 1 \<and>
    (n < t \<longrightarrow> fst (take_state S state_hash
       \<lparr>server = r_tick (rs_redis S) n (server c), net = []\<rparr>) = Inr (Some payload))"
proof -
  let ?k = "key (rs_namespace S) Os state_hash"
  from assms(3) have put: "rbind connection (\<lambda>_. query (\<lambda>r. ((), r_set_ex (rs_redis S) ?k payload t r)))
      \<lparr>server = r, net = ns\<rparr> = (Inr (), c)"
    by (simp add: put_state_def put_state_inner_def map_err_eq_Inr)
  note v = redis_service.set_ex_done [OF assms(1) put assms(2)]
  have "fst (take_state S state_hash \<lparr>server = r_tick (rs_redis S) n (server c), net = []\<rparr>)
      = Inr (Some payload)" if "n < t"
    using redis_service.getdel_within_ttl [OF assms(1) v that]
    by (simp add: take_state_def take_state_inner_def run_simps split: prod.splits)
  with redis_service.one_shot_after_set [OF assms(1) v _
      redis_service.take_state_one_shot [OF assms(1) HOL.refl] assms(4)] show ?thesis by simp
qed

theorem oauth_state_taken_once_witness:
  "let c = snd (put_state mem_stores ''h1'' ''payload'' 600 \<lparr>server = Map.empty, net = []\<rparr>);
       take = take_state mem_stores ''h1'' in
   length (taken [Take take [], Elsewhere (r_tick mem_redis 5), Take take []] (server c)) \<le> 1 \<and>
   fst (take \<lparr>server = r_tick mem_redis 5 (server c), net = []\<rparr>) = Inr (Some ''payload'')"
proof -
  let ?c = "snd (put_state mem_stores ''h1'' ''payload'' 600 \<lparr>server = Map.empty, net = []\<rparr>)"
  let ?take = "take_state mem_stores ''h1''"
  have put: "put_state mem_stores ''h1'' ''payload'' 600 \<lparr>server = Map.empty, net = []\<rparr> = (Inr (), ?c)"
    by (simp add: put_state_def put_state_inner_def run_simps)
  have "\<forall>e\<in>set [Take ?take [], Elsewhere (r_tick mem_redis 5), Take ?take []]. fair {?take}
      (decoded mem_view Some (key (rs_namespace mem_stores) Os ''h1''))
      (text_key mem_view (key (rs_namespace mem_stores) Os ''h1'')) e"
    by (simp add: fair_def mem.tick_leaves)
  from oauth_state_taken_once [OF _ _ put this, of 5] mem_store.redis_service_axioms
  show ?thesis by (simp add: ttl_ok_def Let_def)
qed

text \<open>A claim as a take: the answer \<open>true\<close> is the value.\<close>

definition won :: "('r, bool) store_io \<Rightarrow> ('r, unit option) store_io" where
  "won m = rbind m (\<lambda>b. ret (if b then Some () else None))"

lemma won_some: "won m c = (Inr (Some u), c') \<longleftrightarrow> m c = (Inr True, c')"
  by (auto simp: won_def rbind_eq_Inr)

lemma snd_won [simp]: "snd (won m c) = snd (m c)"
  by (auto simp: won_def rbind_def split: prod.splits sum.splits)

definition index_text :: "string option \<Rightarrow> string" where
  "index_text h = (case h of None \<Rightarrow> [] | Some h \<Rightarrow> h)"

definition approved :: "('r \<Rightarrow> rview) \<Rightarrow> string \<Rightarrow> string option \<Rightarrow> 'r \<Rightarrow> unit option" where
  "approved view k expected r = (if index_text (str_at (view r) k) = index_text expected then Some () else None)"

definition rival_claims :: "'r RedisStores \<Rightarrow> string \<Rightarrow> string \<Rightarrow> string option \<Rightarrow> ('r, unit option) store_io set" where
  "rival_claims S tenant_id invitee_hash expected =
     {won (claim_invitation_index S tenant_id invitee_hash h t expected) | h t.
        ttl_ok t \<and> h \<noteq> index_text expected}"

context redis_service
begin

lemma claim_effect:
  assumes "text_key view k r" and "ttl_ok t"
  shows "view (snd (claim_script R k h t e r)) =
      (if index_text (str_at (view r) k) = e then v_set_ex k h t (view r) else view r)"
    and "fst (claim_script R k h t e r) = (if index_text (str_at (view r) k) = e then 1 else 0)"
  using assms by (simp_all add: claim_script_def get text_key_def index_text_def set_ex)

lemma claim_one_shot:
  assumes "R = rs_redis S" and "k = invitee_key S tenant_id invitee_hash"
  shows "one_shot (rival_claims S tenant_id invitee_hash expected) (approved view k expected) (text_key view k)"
proof -
  have step: "server c' \<in> {server c, snd (claim_script R k h t (index_text expected) (server c))} \<and>
      (x = Inr True \<longrightarrow> fst (claim_script R k h t (index_text expected) (server c)) = 1 \<and>
         server c' = snd (claim_script R k h t (index_text expected) (server c)))"
    if "claim_invitation_index S tenant_id invitee_hash h t expected c = (x, c')" for h t c c' x
    using round_trip_post [OF that [unfolded claim_invitation_index_def claim_invitation_index_inner_def]]
    by (auto simp: assms index_text_def)
  show ?thesis
  proof
    fix m and c :: "'r client"
    assume m: "m \<in> rival_claims S tenant_id invitee_hash expected" "text_key view k (server c)"
    then obtain h t where h: "m = won (claim_invitation_index S tenant_id invitee_hash h t expected)"
      "ttl_ok t" "h \<noteq> index_text expected" by (auto simp: rival_claims_def)
    obtain x c' where run: "claim_invitation_index S tenant_id invitee_hash h t expected c = (x, c')"
      by fastforce
    note eff = claim_effect [OF m(2) h(2), of h "index_text expected"]
    have v: "view (server c') = view (server c) \<or> view (server c') = v_set_ex k h t (view (server c))"
      using step [OF run] eff(1) by (auto split: if_splits)
    with m(2) h(1) run show "text_key view k (server (snd (m c)))" by (auto simp: text_key_def view_type)
    from v h run show "approved view k expected (server (snd (m c))) \<in> {None, approved view k expected (server c)}"
      by (auto simp: approved_def view_obs index_text_def)
    fix u c'' assume "m c = (Inr (Some u), c'')"
    then have "claim_invitation_index S tenant_id invitee_hash h t expected c = (Inr True, c'')"
      by (simp add: h(1) won_some)
    from step [OF this] eff h(3)
    show "approved view k expected (server c) = Some u \<and> approved view k expected (server c'') = None"
      by (auto simp: approved_def view_obs index_text_def split: if_splits)
  qed
qed

end

interpretation mem_claims: one_shot "rival_claims mem_stores tenant_id invitee_hash expected"
    "approved mem_view (invitee_key mem_stores tenant_id invitee_hash) expected"
    "text_key mem_view (invitee_key mem_stores tenant_id invitee_hash)"
  by (rule mem.claim_one_shot) simp_all

text \<open>
  Of the inviters that supersede the same invitation, one wins. However the claims that were
  approved against one index entry interleave, with each other and with the rest of the system short
  of restoring that entry, at most one answers \<open>true\<close>. A claim over a working connection answers
  \<open>true\<close> exactly when the index still holds what was approved, and then points the index at the new
  hash; otherwise it changes nothing.
\<close>

theorem invitation_claimed_once:
  assumes "redis_service (rs_redis S) view" and "k = invitee_key S tenant_id invitee_hash"
    and "text_key view k r" and "ttl_ok t"
    and "\<forall>e\<in>set es. fair (rival_claims S tenant_id invitee_hash expected) (approved view k expected) (text_key view k) e"
    and "claim_invitation_index S tenant_id invitee_hash h t expected \<lparr>server = r, net = []\<rparr> = (x, c)"
  shows "length (taken es r) \<le> 1 \<and>
    x = Inr (index_text (str_at (view r) k) = index_text expected) \<and>
    view (server c) = (if x = Inr True then v_set_ex k h t (view r) else view r)"
proof -
  have "length (taken es r) \<le> 1"
    using one_shot.taken_held [OF redis_service.claim_one_shot [OF assms(1) HOL.refl assms(2)] assms(5,3)] by simp
  moreover have "x = Inr (fst (claim_script (rs_redis S) k h t (index_text expected) r) = 1) \<and>
      server c = snd (claim_script (rs_redis S) k h t (index_text expected) r)"
    using assms(6) by (auto simp: claim_invitation_index_def claim_invitation_index_inner_def run_simps
        assms(2) index_text_def [symmetric] split: prod.splits)
  ultimately show ?thesis
    using redis_service.claim_effect [OF assms(1,3,4), of h "index_text expected"] by simp
qed

theorem invitation_claimed_once_witness:
  "let claim = (\<lambda>h. claim_invitation_index mem_stores ''t1'' ''inv'' h 600 None) in
   length (taken [Take (won (claim ''h1'')) [], Take (won (claim ''h2'')) []] Map.empty) \<le> 1 \<and>
   fst (claim ''h1'' \<lparr>server = Map.empty, net = []\<rparr>) = Inr True"
proof -
  let ?claim = "\<lambda>h. claim_invitation_index mem_stores ''t1'' ''inv'' h 600 None"
  let ?k = "invitee_key mem_stores ''t1'' ''inv''"
  let ?es = "[Take (won (?claim ''h1'')) [], Take (won (?claim ''h2'')) []]"
  obtain x c where run: "?claim ''h1'' \<lparr>server = Map.empty, net = []\<rparr> = (x, c)" by fastforce
  have "won (?claim h) \<in> rival_claims mem_stores ''t1'' ''inv'' None" if "h \<noteq> []" for h
    unfolding rival_claims_def using that
    by (intro CollectI exI [of _ h] exI [of _ 600]) (simp add: index_text_def ttl_ok_def)
  then have "\<forall>e\<in>set ?es. fair (rival_claims mem_stores ''t1'' ''inv'' None)
      (approved mem_view ?k None) (text_key mem_view ?k) e"
    by (simp add: fair_def)
  from invitation_claimed_once [OF _ HOL.refl _ _ this run] mem_store.redis_service_axioms run
  show ?thesis
    by (simp add: ttl_ok_def text_key_def type_defs mem_view_def str_at_def index_text_def)
qed

end
