(* ===== verification/Mfa_Store.thy ===== *)
theory Mfa_Store
  imports Single_Use
begin

text \<open>
  The MFA store over Redis (\<open>stores/mfa.rs\<close>): the pending-setup record, the single-use challenge
  token, the anti-replay marker of a TOTP code, the claim on a recovery code and the per-account
  transition lock, with the scripts \<open>mfa_challenge.lua\<close> and \<open>release_lock.lua\<close>.
\<close>

section \<open>Operations\<close>

definition put_setup_nx_inner :: "'r RedisStores \<Rightarrow> string \<Rightarrow> string \<Rightarrow> nat \<Rightarrow> ('r, bool) redis_io" where
  "put_setup_nx_inner S user_id_hash val ttl =
     rbind connection (\<lambda>_.
       query (r_set_nx_ex (rs_redis S) (key (rs_namespace S) MfaSetup user_id_hash) val ttl))"

definition get_setup_inner :: "'r RedisStores \<Rightarrow> string \<Rightarrow> ('r, string option) redis_io" where
  "get_setup_inner S user_id_hash =
     rbind connection (\<lambda>_.
       query (\<lambda>r. (r_get (rs_redis S) (key (rs_namespace S) MfaSetup user_id_hash) r, r)))"

definition take_setup_inner :: "'r RedisStores \<Rightarrow> string \<Rightarrow> ('r, string option) redis_io" where
  "take_setup_inner S user_id_hash =
     rbind connection (\<lambda>_. query (r_getdel (rs_redis S) (key (rs_namespace S) MfaSetup user_id_hash)))"

definition put_temp_inner :: "'r RedisStores \<Rightarrow> string \<Rightarrow> string \<Rightarrow> nat \<Rightarrow> ('r, unit) redis_io" where
  "put_temp_inner S jti_hash user_id ttl =
     rbind connection (\<lambda>_.
       query (\<lambda>r. ((), r_set_ex (rs_redis S) (key (rs_namespace S) Mfa jti_hash) user_id ttl r)))"

definition get_temp_inner :: "'r RedisStores \<Rightarrow> string \<Rightarrow> ('r, string option) redis_io" where
  "get_temp_inner S jti_hash =
     rbind connection (\<lambda>_. query (\<lambda>r. (r_get (rs_redis S) (key (rs_namespace S) Mfa jti_hash) r, r)))"

definition del_temp_inner :: "'r RedisStores \<Rightarrow> string \<Rightarrow> ('r, bool) redis_io" where
  "del_temp_inner S jti_hash =
     rbind connection (\<lambda>_.
     rbind (query (r_del (rs_redis S) (key (rs_namespace S) Mfa jti_hash)))
       (\<lambda>removed. ret (removed > 0)))"

text \<open>\<open>release_lock.lua\<close>.\<close>

definition release_lock :: "'r redis \<Rightarrow> string \<Rightarrow> string \<Rightarrow> 'r \<Rightarrow> nat \<times> 'r" where
  "release_lock R k token r = (if r_get R k r = Some token then r_del R k r else (0, r))"

definition release_mfa_lock_inner :: "'r RedisStores \<Rightarrow> string \<Rightarrow> string \<Rightarrow> ('r, unit) redis_io" where
  "release_mfa_lock_inner S lock_id token =
     rbind connection (\<lambda>_.
     rbind (query (release_lock (rs_redis S) (key (rs_namespace S) Mfalock lock_id) token))
       (\<lambda>_. ret ()))"

definition set_nx_value :: "'r RedisStores \<Rightarrow> Prefix \<Rightarrow> string \<Rightarrow> string \<Rightarrow> nat \<Rightarrow> ('r, bool) redis_io" where
  "set_nx_value S prefix id' val ttl =
     rbind connection (\<lambda>_. query (r_set_nx_ex (rs_redis S) (key (rs_namespace S) prefix id') val ttl))"

definition set_nx_marker :: "'r RedisStores \<Rightarrow> Prefix \<Rightarrow> string \<Rightarrow> nat \<Rightarrow> ('r, bool) redis_io" where
  "set_nx_marker S prefix id' ttl = set_nx_value S prefix id' ''1'' ttl"

definition mark_totp_used_inner :: "'r RedisStores \<Rightarrow> string \<Rightarrow> nat \<Rightarrow> ('r, bool) redis_io" where
  "mark_totp_used_inner S replay_id ttl = set_nx_marker S Tu replay_id ttl"

text \<open>\<open>mfa_challenge.lua\<close>.\<close>

definition mfa_challenge :: "'r redis \<Rightarrow> string \<Rightarrow> string \<Rightarrow> nat \<Rightarrow> 'r \<Rightarrow> nat \<times> 'r" where
  "mfa_challenge R tu_key mfa_key ttl r =
     (case r_set_nx_ex R tu_key ''1'' ttl r of
        (created, r1) \<Rightarrow>
          if \<not> created then (0, r1)
          else (case r_del R mfa_key r1 of
                  (removed, r2) \<Rightarrow>
                    if removed = 1 then (1, r2) else (0, snd (r_del R tu_key r2))))"

definition challenge_consume_inner :: "'r RedisStores \<Rightarrow> string \<Rightarrow> string \<Rightarrow> nat \<Rightarrow> ('r, bool) redis_io" where
  "challenge_consume_inner S replay_id jti_hash ttl =
     rbind connection (\<lambda>_.
     rbind (query (mfa_challenge (rs_redis S) (key (rs_namespace S) Tu replay_id)
              (key (rs_namespace S) Mfa jti_hash) ttl))
       (\<lambda>created. ret (created = 1)))"

text \<open>The trait methods.\<close>

definition put_setup_nx :: "'r RedisStores \<Rightarrow> string \<Rightarrow> string \<Rightarrow> nat \<Rightarrow> ('r, bool) store_io" where
  "put_setup_nx S user_id_hash val ttl = map_err from_redis_error (put_setup_nx_inner S user_id_hash val ttl)"

definition get_setup :: "'r RedisStores \<Rightarrow> string \<Rightarrow> ('r, string option) store_io" where
  "get_setup S user_id_hash = map_err from_redis_error (get_setup_inner S user_id_hash)"

definition take_setup :: "'r RedisStores \<Rightarrow> string \<Rightarrow> ('r, string option) store_io" where
  "take_setup S user_id_hash = map_err from_redis_error (take_setup_inner S user_id_hash)"

definition put_temp :: "'r RedisStores \<Rightarrow> string \<Rightarrow> string \<Rightarrow> nat \<Rightarrow> ('r, unit) store_io" where
  "put_temp S jti_hash user_id ttl = map_err from_redis_error (put_temp_inner S jti_hash user_id ttl)"

definition get_temp :: "'r RedisStores \<Rightarrow> string \<Rightarrow> ('r, string option) store_io" where
  "get_temp S jti_hash = map_err from_redis_error (get_temp_inner S jti_hash)"

definition del_temp :: "'r RedisStores \<Rightarrow> string \<Rightarrow> ('r, bool) store_io" where
  "del_temp S jti_hash = map_err from_redis_error (del_temp_inner S jti_hash)"

definition claim_recovery_code :: "'r RedisStores \<Rightarrow> string \<Rightarrow> nat \<Rightarrow> ('r, bool) store_io" where
  "claim_recovery_code S claim_id ttl = map_err from_redis_error (set_nx_marker S Rcu claim_id ttl)"

definition acquire_mfa_lock :: "'r RedisStores \<Rightarrow> string \<Rightarrow> string \<Rightarrow> nat \<Rightarrow> ('r, bool) store_io" where
  "acquire_mfa_lock S lock_id token ttl =
     map_err from_redis_error (set_nx_value S Mfalock lock_id token ttl)"

definition release_mfa_lock :: "'r RedisStores \<Rightarrow> string \<Rightarrow> string \<Rightarrow> ('r, unit) store_io" where
  "release_mfa_lock S lock_id token = map_err from_redis_error (release_mfa_lock_inner S lock_id token)"

definition mark_totp_used :: "'r RedisStores \<Rightarrow> string \<Rightarrow> nat \<Rightarrow> ('r, bool) store_io" where
  "mark_totp_used S replay_id ttl = map_err from_redis_error (mark_totp_used_inner S replay_id ttl)"

definition challenge_consume :: "'r RedisStores \<Rightarrow> string \<Rightarrow> string \<Rightarrow> nat \<Rightarrow> ('r, bool) store_io" where
  "challenge_consume S replay_id jti_hash ttl =
     map_err from_redis_error (challenge_consume_inner S replay_id jti_hash ttl)"

section \<open>The challenge token\<close>

definition present_at :: "('r \<Rightarrow> rview) \<Rightarrow> string \<Rightarrow> 'r \<Rightarrow> unit option" where
  "present_at view k r = (if view r k = None then None else Some ())"

text \<open>Everything that consumes one challenge token: a TOTP challenge with any code, and the
  recovery-code path.\<close>

definition token_uses :: "'r RedisStores \<Rightarrow> string \<Rightarrow> ('r, unit option) store_io set" where
  "token_uses S jti_hash =
     {won (challenge_consume S replay_id jti_hash ttl) | replay_id ttl. ttl_ok ttl} \<union>
     {won (del_temp S jti_hash)}"

context redis_service
begin

text \<open>The script wins when the code is fresh and the token is there; otherwise nothing changes.\<close>

lemma challenge_effect:
  assumes "ttl_ok t" and "tu \<noteq> mfa"
  shows "fst (mfa_challenge R tu mfa t r) = (if view r tu = None \<and> view r mfa \<noteq> None then 1 else 0)"
    and "view (snd (mfa_challenge R tu mfa t r)) =
      (if view r tu = None \<and> view r mfa \<noteq> None then v_del mfa (v_set_ex tu ''1'' t (view r)) else view r)"
proof -
  obtain w r1 where nx: "r_set_nx_ex R tu ''1'' t r = (w, r1)" by fastforce
  obtain n r2 where d: "r_del R mfa r1 = (n, r2)" by fastforce
  from nx set_nx_ex [OF assms(1), of tu "''1''" r] set_nx_ex_won [OF assms(1), of tu "''1''" r]
  have w: "w \<longleftrightarrow> view r tu = None" "view r1 = (if w then v_set_ex tu ''1'' t (view r) else view r)" by auto
  from d del [of mfa r1] del_count [of mfa r1]
  have n: "n = (if view r1 mfa = None then 0 else 1)" "view r2 = v_del mfa (view r1)" by auto
  have undone: "v_del tu (v_del mfa (v_set_ex tu ''1'' t (view r))) = view r"
    if "view r tu = None" "view r mfa = None"
    using that by (auto simp: effect_defs)
  show "fst (mfa_challenge R tu mfa t r) = (if view r tu = None \<and> view r mfa \<noteq> None then 1 else 0)"
    using assms(2) w n by (auto simp: mfa_challenge_def nx d v_set_ex_def)
  show "view (snd (mfa_challenge R tu mfa t r)) =
      (if view r tu = None \<and> view r mfa \<noteq> None then v_del mfa (v_set_ex tu ''1'' t (view r)) else view r)"
    using assms(2) w n undone by (auto simp: mfa_challenge_def nx d v_set_ex_def del split: if_splits)
qed

lemma token_uses_one_shot:
  assumes "R = rs_redis S" and "k = key (rs_namespace S) Mfa jti_hash"
  shows "one_shot (token_uses S jti_hash) (present_at view k) (\<lambda>_. True)"
proof -
  have step: "view (server c') k \<in> {None, view (server c) k} \<and>
      (x = Inr (Some ()) \<longrightarrow> view (server c) k \<noteq> None \<and> view (server c') k = None)"
    if m: "m \<in> token_uses S jti_hash" and run: "m c = (x, c')" for m c x c'
  proof -
    from m consider replay_id ttl where "m = won (challenge_consume S replay_id jti_hash ttl)" "ttl_ok ttl"
      | "m = won (del_temp S jti_hash)" by (auto simp: token_uses_def)
    then show ?thesis
    proof cases
      case 1
      obtain y where y: "challenge_consume S replay_id jti_hash ttl c = (y, c')"
        using run 1 snd_won [of "challenge_consume S replay_id jti_hash ttl" c]
        by (cases "challenge_consume S replay_id jti_hash ttl c") simp
      have "x = Inr (Some ()) \<Longrightarrow> y = Inr True"
        using run y 1 won_some [of "challenge_consume S replay_id jti_hash ttl" c] by auto
      with round_trip_post [OF y [unfolded challenge_consume_def challenge_consume_inner_def]]
        challenge_effect [OF 1(2), of "key (rs_namespace S) Tu replay_id" k "server c"] assms
      show ?thesis by (auto simp: effect_defs split: if_splits)
    next
      case 2
      obtain y where y: "del_temp S jti_hash c = (y, c')"
        using run 2 snd_won [of "del_temp S jti_hash" c] by (cases "del_temp S jti_hash c") simp
      have "x = Inr (Some ()) \<Longrightarrow> y = Inr True"
        using run y 2 won_some [of "del_temp S jti_hash" c] by auto
      with round_trip_post [OF y [unfolded del_temp_def del_temp_inner_def]]
        del [of k "server c"] del_count [of k "server c"] assms
      show ?thesis by (auto simp: v_del_def split: if_splits)
    qed
  qed
  show ?thesis
  proof (unfold_locales)
    fix m and c :: "'r client"
    assume m: "m \<in> token_uses S jti_hash"
    obtain x c' where run: "m c = (x, c')" by fastforce
    from step [OF m run] run
    show "present_at view k (server (snd (m c))) \<in> {None, present_at view k (server c)}"
      by (auto simp: present_at_def)
  next
    fix m a and c c' :: "'r client"
    assume "m \<in> token_uses S jti_hash" "m c = (Inr (Some a), c')"
    from step [OF this]
    show "present_at view k (server c) = Some a \<and> present_at view k (server c') = None"
      by (simp add: present_at_def)
  qed simp
qed

end

interpretation mem_challenges: one_shot "token_uses mem_stores jti_hash"
    "present_at mem_view (key (rs_namespace mem_stores) Mfa jti_hash)" "\<lambda>_. True"
  by (rule mem.token_uses_one_shot) simp_all

section \<open>Leases\<close>

text \<open>
  A key written with \<open>NX\<close> and a lifetime is a lease: the transition lock, the anti-replay marker of a
  code, the claim on a recovery code. Others attempt to take it over their own connections, time
  passes, and the server moves elsewhere.
\<close>

datatype 'r lease_event =
    Attempt "('r, bool) store_io" "net_event list"
  | Pass nat
  | Aside "'r \<Rightarrow> 'r"

fun lease_wins :: "(nat \<Rightarrow> 'r \<Rightarrow> 'r) \<Rightarrow> 'r lease_event list \<Rightarrow> 'r \<Rightarrow> nat" where
  "lease_wins wait [] r = 0"
| "lease_wins wait (Attempt m ns # es) r =
     (case m \<lparr>server = r, net = ns\<rparr> of
        (Inr True, c) \<Rightarrow> Suc (lease_wins wait es (server c))
      | (_, c) \<Rightarrow> lease_wins wait es (server c))"
| "lease_wins wait (Pass n # es) r = lease_wins wait es (wait n r)"
| "lease_wins wait (Aside f # es) r = lease_wins wait es (f r)"

fun elapsed :: "'r lease_event list \<Rightarrow> nat" where
  "elapsed [] = 0"
| "elapsed (Pass n # es) = n + elapsed es"
| "elapsed (_ # es) = elapsed es"

definition lease_kept :: "('r, bool) store_io set \<Rightarrow> ('r \<Rightarrow> nat option) \<Rightarrow> 'r lease_event \<Rightarrow> bool" where
  "lease_kept tries left e \<longleftrightarrow> (case e of
      Attempt m ns \<Rightarrow> m \<in> tries
    | Pass n \<Rightarrow> True
    | Aside f \<Rightarrow> \<forall>r t. left r = Some t \<longrightarrow> left (f r) = Some t)"

locale lease =
  fixes tries :: "('r, bool) store_io set" and wait :: "nat \<Rightarrow> 'r \<Rightarrow> 'r" and left :: "'r \<Rightarrow> nat option"
  assumes try_refused: "m \<in> tries \<Longrightarrow> left (server c) = Some t \<Longrightarrow> m c = (x, c') \<Longrightarrow>
      x \<noteq> Inr True \<and> left (server c') = Some t"
    and wait_left: "left r = Some t \<Longrightarrow> n < t \<Longrightarrow> left (wait n r) = Some (t - n)"
begin

lemma lease_exclusive:
  assumes "\<forall>e\<in>set es. lease_kept tries left e" and "left r = Some t" and "elapsed es < t"
  shows "lease_wins wait es r = 0"
  using assms
proof (induction es arbitrary: r t)
  case (Cons e es)
  show ?case
  proof (cases e)
    case (Attempt m ns)
    obtain x c' where run: "m \<lparr>server = r, net = ns\<rparr> = (x, c')" by fastforce
    have "m \<in> tries" using Cons.prems(1) Attempt by (simp add: lease_kept_def)
    from try_refused [OF this _ run] Cons.prems(2) have "x \<noteq> Inr True" "left (server c') = Some t"
      by auto
    with Cons.IH [of "server c'" t] Cons.prems Attempt run show ?thesis
      by (auto split: sum.splits bool.splits)
  next
    case (Pass n)
    with Cons.prems wait_left [of r t n] have "left (wait n r) = Some (t - n)" by simp
    with Cons.IH [of "wait n r" "t - n"] Cons.prems Pass show ?thesis by simp
  next
    case (Aside f)
    with Cons.prems have "left (f r) = Some t" by (simp add: lease_kept_def)
    with Cons.IH [of "f r" t] Cons.prems Aside show ?thesis by simp
  qed
qed simp

end

text \<open>The lifetime left to a key that holds a given text.\<close>

definition left_at :: "('r \<Rightarrow> rview) \<Rightarrow> string \<Rightarrow> string \<Rightarrow> 'r \<Rightarrow> nat option" where
  "left_at view k s r = (case view r k of Some (RStr s', Some t) \<Rightarrow> if s' = s then Some t else None | _ \<Rightarrow> None)"

lemma left_at_Some: "left_at view k s r = Some t \<longleftrightarrow> view r k = Some (RStr s, Some t)"
  by (auto simp: left_at_def split: option.splits rvalue.splits if_splits)

definition lock_tries :: "'r RedisStores \<Rightarrow> string \<Rightarrow> ('r, bool) store_io set" where
  "lock_tries S lock_id = {acquire_mfa_lock S lock_id token ttl | token ttl. ttl_ok ttl}"

definition code_tries :: "'r RedisStores \<Rightarrow> string \<Rightarrow> ('r, bool) store_io set" where
  "code_tries S replay_id =
     {challenge_consume S replay_id jti_hash ttl | jti_hash ttl. ttl_ok ttl} \<union>
     {mark_totp_used S replay_id ttl | ttl. ttl_ok ttl}"

definition recovery_tries :: "'r RedisStores \<Rightarrow> string \<Rightarrow> ('r, bool) store_io set" where
  "recovery_tries S claim_id = {claim_recovery_code S claim_id ttl | ttl. ttl_ok ttl}"

context redis_service
begin

lemma nx_effect:
  assumes "map_err from_redis_error (rbind connection (\<lambda>_. query (r_set_nx_ex R k s t))) c = (x, c')" and "ttl_ok t"
  shows "view (server c) k \<noteq> None \<Longrightarrow> x \<noteq> Inr True \<and> view (server c') = view (server c)"
    and "x = Inr True \<Longrightarrow> view (server c') = v_set_ex k s t (view (server c))"
proof -
  from assms(1) have "map_err from_redis_error
      (rbind connection (\<lambda>_. rbind (query (r_set_nx_ex R k s t)) (\<lambda>b. ret b))) c = (x, c')" by simp
  note trip = round_trip_post [OF this]
  note eff = set_nx_ex [OF assms(2), of k s "server c"] set_nx_ex_won [OF assms(2), of k s "server c"]
  show "x \<noteq> Inr True \<and> view (server c') = view (server c)" if "view (server c) k \<noteq> None"
    using trip(1) trip(2) [of True] eff that by (metis empty_iff insertE)
  show "view (server c') = v_set_ex k s t (view (server c))" if "x = Inr True"
    using trip(2) [OF that] eff by simp
qed

lemma wait_left_at: "left_at view k s r = Some t \<Longrightarrow> n < t \<Longrightarrow> left_at view k s (r_tick R n r) = Some (t - n)"
  by (simp add: left_at_Some tick v_tick_def)

lemma lock_lease:
  assumes "R = rs_redis S" and "k = key (rs_namespace S) Mfalock lock_id"
  shows "lease (lock_tries S lock_id) (r_tick R) (left_at view k token)"
proof (unfold_locales, goal_cases)
  case (1 m c t x c')
  then obtain token' ttl where m: "m = acquire_mfa_lock S lock_id token' ttl" "ttl_ok ttl"
    by (auto simp: lock_tries_def)
  from 1(3) have "map_err from_redis_error (rbind connection (\<lambda>_. query (r_set_nx_ex R k token' ttl))) c = (x, c')"
    by (simp add: m(1) acquire_mfa_lock_def set_nx_value_def assms)
  from nx_effect(1) [OF this m(2)] 1(2) show ?case by (simp add: left_at_Some)
qed (rule wait_left_at)

lemma recovery_lease:
  assumes "R = rs_redis S" and "k = key (rs_namespace S) Rcu claim_id"
  shows "lease (recovery_tries S claim_id) (r_tick R) (left_at view k ''1'')"
proof (unfold_locales, goal_cases)
  case (1 m c t x c')
  then obtain ttl where m: "m = claim_recovery_code S claim_id ttl" "ttl_ok ttl"
    by (auto simp: recovery_tries_def)
  from 1(3) have "map_err from_redis_error (rbind connection (\<lambda>_. query (r_set_nx_ex R k ''1'' ttl))) c = (x, c')"
    by (simp add: m(1) claim_recovery_code_def set_nx_marker_def set_nx_value_def assms)
  from nx_effect(1) [OF this m(2)] 1(2) show ?case by (simp add: left_at_Some)
qed (rule wait_left_at)

lemma code_use_effect:
  assumes "m \<in> {challenge_consume S replay_id jti_hash ttl, mark_totp_used S replay_id ttl}"
    and "m c = (x, c')" and "ttl_ok ttl" and "R = rs_redis S" and "k = key (rs_namespace S) Tu replay_id"
  shows "view (server c) k \<noteq> None \<Longrightarrow> x \<noteq> Inr True \<and> view (server c') = view (server c)"
    and "x = Inr True \<Longrightarrow> view (server c') k = Some (RStr ''1'', Some ttl)"
proof -
  from assms(1) consider "m = challenge_consume S replay_id jti_hash ttl" | "m = mark_totp_used S replay_id ttl"
    by auto
  then have "(view (server c) k \<noteq> None \<longrightarrow> x \<noteq> Inr True \<and> view (server c') = view (server c)) \<and>
    (x = Inr True \<longrightarrow> view (server c') k = Some (RStr ''1'', Some ttl))"
  proof cases
    case 1
    let ?mfa = "key (rs_namespace S) Mfa jti_hash"
    from round_trip_post [OF assms(2) [unfolded 1 challenge_consume_def challenge_consume_inner_def]]
      challenge_effect [OF assms(3), of k ?mfa "server c"] assms(4,5)
    show ?thesis by (auto simp: effect_defs split: if_splits)
  next
    case 2
    from assms(2) have "map_err from_redis_error (rbind connection (\<lambda>_. query (r_set_nx_ex R k ''1'' ttl))) c = (x, c')"
      by (simp add: 2 mark_totp_used_def mark_totp_used_inner_def set_nx_marker_def set_nx_value_def assms(4,5))
    from nx_effect [OF this assms(3)] show ?thesis by (auto simp: v_set_ex_def)
  qed
  then show "view (server c) k \<noteq> None \<Longrightarrow> x \<noteq> Inr True \<and> view (server c') = view (server c)"
    and "x = Inr True \<Longrightarrow> view (server c') k = Some (RStr ''1'', Some ttl)" by auto
qed

lemma code_lease:
  assumes "R = rs_redis S" and "k = key (rs_namespace S) Tu replay_id"
  shows "lease (code_tries S replay_id) (r_tick R) (left_at view k ''1'')"
proof (unfold_locales, goal_cases)
  case (1 m c t x c')
  then obtain jti_hash ttl where
    "m \<in> {challenge_consume S replay_id jti_hash ttl, mark_totp_used S replay_id ttl}" "ttl_ok ttl"
    by (auto simp: code_tries_def)
  from code_use_effect(1) [OF this(1) 1(3) this(2) assms] 1(2) show ?case by (simp add: left_at_Some)
qed (rule wait_left_at)

text \<open>Releasing with another token leaves the holder's lease alone, whatever the network does.\<close>

lemma foreign_release:
  assumes "R = rs_redis S" and "k = key (rs_namespace S) Mfalock lock_id" and "token' \<noteq> token"
    and "left_at view k token (server c) = Some t"
  shows "left_at view k token (server (snd (release_mfa_lock S lock_id token' c))) = Some t"
proof -
  obtain x c' where run: "release_mfa_lock S lock_id token' c = (x, c')" by fastforce
  have "r_get R k (server c) = Some token"
    using assms(4) by (simp add: left_at_Some get type_defs obs_defs)
  with assms(3) have "snd (release_lock R k token' (server c)) = server c" by (simp add: release_lock_def)
  with round_trip_post(1) [OF run [unfolded release_mfa_lock_def release_mfa_lock_inner_def]] run assms
  show ?thesis by simp
qed

end

interpretation mem_lock: lease "lock_tries mem_stores lock_id" "r_tick mem_redis"
    "left_at mem_view (key (rs_namespace mem_stores) Mfalock lock_id) token"
  by (rule mem.lock_lease) simp_all

interpretation mem_code: lease "code_tries mem_stores replay_id" "r_tick mem_redis"
    "left_at mem_view (key (rs_namespace mem_stores) Tu replay_id) ''1''"
  by (rule mem.code_lease) simp_all

interpretation mem_recovery: lease "recovery_tries mem_stores claim_id" "r_tick mem_redis"
    "left_at mem_view (key (rs_namespace mem_stores) Rcu claim_id) ''1''"
  by (rule mem.recovery_lease) simp_all

section \<open>Properties\<close>

text \<open>
  C19. An MFA challenge has one winner. The calls that consume one challenge token, with any codes
  and through the TOTP or the recovery path, under any network schedules and interleaved with
  anything that does not reissue the token, answer \<open>true\<close> at most once between them. Over a working
  connection a challenge wins exactly when its code is fresh and the token is still there; it then
  marks the code and removes the token, and otherwise changes nothing, so a losing code is not burned.
\<close>

theorem challenge_single_winner:
  assumes "redis_service (rs_redis S) view" and "ttl_ok ttl"
    and "\<forall>e\<in>set es. fair (token_uses S jti_hash) (present_at view (key (rs_namespace S) Mfa jti_hash)) (\<lambda>_. True) e"
    and "challenge_consume S replay_id jti_hash ttl \<lparr>server = r, net = []\<rparr> = (x, c)"
  defines "tu \<equiv> key (rs_namespace S) Tu replay_id" and "mfa \<equiv> key (rs_namespace S) Mfa jti_hash"
  shows "length (taken es r) \<le> 1 \<and>
    x = Inr (view r tu = None \<and> view r mfa \<noteq> None) \<and>
    view (server c) = (if x = Inr True then v_del mfa (v_set_ex tu ''1'' ttl (view r)) else view r)"
proof -
  have "length (taken es r) \<le> 1"
    using one_shot.taken_held [OF redis_service.token_uses_one_shot [OF assms(1) HOL.refl HOL.refl] assms(3), of r]
    by simp
  moreover have "x = Inr (fst (mfa_challenge (rs_redis S) tu mfa ttl r) = 1) \<and>
      server c = snd (mfa_challenge (rs_redis S) tu mfa ttl r)"
    using assms(4) by (auto simp: challenge_consume_def challenge_consume_inner_def run_simps tu_def mfa_def
        split: prod.splits)
  ultimately show ?thesis
    using redis_service.challenge_effect [OF assms(1,2), of tu mfa r] by (simp add: tu_def mfa_def)
qed

theorem challenge_single_winner_witness:
  "let r = [''auth:mfa:j'' \<mapsto> (MStr ''u1'', Some 300)];
       challenge = (\<lambda>code. challenge_consume mem_stores code ''j'' 90) in
   length (taken [Take (won (challenge ''c1'')) [], Take (won (challenge ''c2'')) [Up, ReplyLost],
     Take (won (del_temp mem_stores ''j'')) []] r) \<le> 1 \<and>
   fst (challenge ''c1'' \<lparr>server = r, net = []\<rparr>) = Inr True"
proof -
  let ?r = "[''auth:mfa:j'' \<mapsto> (MStr ''u1'', Some 300)] :: mem"
  let ?challenge = "\<lambda>code. challenge_consume mem_stores code ''j'' 90"
  let ?es = "[Take (won (?challenge ''c1'')) [], Take (won (?challenge ''c2'')) [Up, ReplyLost],
     Take (won (del_temp mem_stores ''j'')) []]"
  obtain x c where run: "?challenge ''c1'' \<lparr>server = ?r, net = []\<rparr> = (x, c)" by fastforce
  have "won (?challenge code) \<in> token_uses mem_stores ''j''" for code
    unfolding token_uses_def by (intro UnI1 CollectI exI [of _ code] exI [of _ 90]) (simp add: ttl_ok_def)
  then have "\<forall>e\<in>set ?es. fair (token_uses mem_stores ''j'')
      (present_at mem_view (key (rs_namespace mem_stores) Mfa ''j'')) (\<lambda>_. True) e"
    by (simp add: fair_def token_uses_def)
  from challenge_single_winner [OF _ _ this run] mem_store.redis_service_axioms run
  show ?thesis by (simp add: ttl_ok_def mem_view_def key_def)
qed

text \<open>
  The per-account MFA lock excludes. From the moment an acquisition answers \<open>true\<close> until its
  lifetime is over, no other acquisition of that lock answers \<open>true\<close>, whatever the network does and
  whatever other holders release: a release carries a token, and only the holder's token frees the
  lock. A release by the holder over a working connection does free it.
\<close>

theorem mfa_lock_exclusive:
  assumes "redis_service (rs_redis S) view" and "ttl_ok ttl"
    and "acquire_mfa_lock S lock_id token ttl \<lparr>server = r, net = ns\<rparr> = (Inr True, c)"
    and "\<forall>e\<in>set es. (\<exists>m ns. e = Attempt m ns \<and> m \<in> lock_tries S lock_id) \<or> (\<exists>n. e = Pass n) \<or>
      (\<exists>token' ns. token' \<noteq> token \<and>
         e = Aside (\<lambda>r. server (snd (release_mfa_lock S lock_id token' \<lparr>server = r, net = ns\<rparr>))))"
    and "elapsed es < ttl"
  shows "lease_wins (r_tick (rs_redis S)) es (server c) = 0 \<and>
    view (server (snd (release_mfa_lock S lock_id token \<lparr>server = server c, net = []\<rparr>)))
      (key (rs_namespace S) Mfalock lock_id) = None"
proof -
  let ?k = "key (rs_namespace S) Mfalock lock_id"
  from assms(3) have "map_err from_redis_error
      (rbind connection (\<lambda>_. query (r_set_nx_ex (rs_redis S) ?k token ttl))) \<lparr>server = r, net = ns\<rparr> = (Inr True, c)"
    by (simp add: acquire_mfa_lock_def set_nx_value_def)
  from redis_service.nx_effect(2) [OF assms(1) this assms(2)]
  have v: "view (server c) ?k = Some (RStr token, Some ttl)" by (simp add: v_set_ex_def)
  have "lease_kept (lock_tries S lock_id) (left_at view ?k token) e" if "e \<in> set es" for e
    using bspec [OF assms(4) that] redis_service.foreign_release [OF assms(1) HOL.refl HOL.refl]
    by (elim disjE exE conjE) (simp_all add: lease_kept_def)
  then have "lease_wins (r_tick (rs_redis S)) es (server c) = 0"
    using v by (intro lease.lease_exclusive [OF redis_service.lock_lease [OF assms(1) HOL.refl HOL.refl] _ _ assms(5)])
      (auto simp: left_at_Some)
  moreover have "r_get (rs_redis S) ?k (server c) = Some token"
    using v by (simp add: redis_service.get [OF assms(1)] type_defs obs_defs)
  ultimately show ?thesis
    by (simp add: release_mfa_lock_def release_mfa_lock_inner_def run_simps release_lock_def
        redis_service.del [OF assms(1)] v_del_def split: prod.splits)
qed

theorem mfa_lock_exclusive_witness:
  "lease_wins (r_tick mem_redis)
     [Attempt (acquire_mfa_lock mem_stores ''u1'' ''tok2'' 30) [], Pass 10,
      Aside (\<lambda>r. server (snd (release_mfa_lock mem_stores ''u1'' ''tok2'' \<lparr>server = r, net = []\<rparr>))),
      Attempt (acquire_mfa_lock mem_stores ''u1'' ''tok3'' 30) [Up, ReplyLost]]
     (server (snd (acquire_mfa_lock mem_stores ''u1'' ''tok1'' 30 \<lparr>server = Map.empty, net = []\<rparr>))) = 0"
proof -
  let ?c = "snd (acquire_mfa_lock mem_stores ''u1'' ''tok1'' 30 \<lparr>server = Map.empty, net = []\<rparr>)"
  have got: "acquire_mfa_lock mem_stores ''u1'' ''tok1'' 30 \<lparr>server = Map.empty, net = []\<rparr> = (Inr True, ?c)"
    by (simp add: acquire_mfa_lock_def set_nx_value_def run_simps mem_redis_def)
  have tries: "acquire_mfa_lock mem_stores ''u1'' tok 30 \<in> lock_tries mem_stores ''u1''" for tok
    unfolding lock_tries_def by (intro CollectI exI [of _ tok] exI [of _ 30]) (simp add: ttl_ok_def)
  show ?thesis
    by (rule conjunct1 [OF mfa_lock_exclusive [where S = mem_stores and view = mem_view and ttl = 30 and
          lock_id = "''u1''" and token = "''tok1''" and r = Map.empty and ns = "[]" and c = ?c,
          unfolded mem_stores_sel]])
      (use tries got mem.redis_service_axioms in
        \<open>auto simp: ttl_ok_def intro!: exI [of _ "''tok2''"] exI [of _ "[] :: net_event list"]\<close>)
qed

text \<open>
  A TOTP code is not replayed. After a code was accepted, by a challenge or by the standalone
  mark, no further use of the same code for the same account is accepted before its marker expires,
  in any interleaving of challenges and marks.
\<close>

theorem totp_code_not_replayed:
  assumes "redis_service (rs_redis S) view" and "ttl_ok ttl"
    and "m \<in> {challenge_consume S replay_id jti_hash ttl, mark_totp_used S replay_id ttl}"
    and "m \<lparr>server = r, net = ns\<rparr> = (Inr True, c)"
    and "\<forall>e\<in>set es. lease_kept (code_tries S replay_id)
      (left_at view (key (rs_namespace S) Tu replay_id) ''1'') e"
    and "elapsed es < ttl"
  shows "lease_wins (r_tick (rs_redis S)) es (server c) = 0"
  using lease.lease_exclusive [OF redis_service.code_lease [OF assms(1) HOL.refl HOL.refl] assms(5) _ assms(6)]
    redis_service.code_use_effect(2) [OF assms(1,3,4,2) HOL.refl HOL.refl HOL.refl]
  by (simp add: left_at_Some)

theorem totp_code_not_replayed_witness:
  "lease_wins (r_tick mem_redis)
     [Attempt (mark_totp_used mem_stores ''c1'' 90) [], Pass 60, Attempt (mark_totp_used mem_stores ''c1'' 90) []]
     (server (snd (mark_totp_used mem_stores ''c1'' 90 \<lparr>server = Map.empty, net = []\<rparr>))) = 0"
proof -
  let ?c = "snd (mark_totp_used mem_stores ''c1'' 90 \<lparr>server = Map.empty, net = []\<rparr>)"
  have got: "mark_totp_used mem_stores ''c1'' 90 \<lparr>server = Map.empty, net = []\<rparr> = (Inr True, ?c)"
    by (simp add: mark_totp_used_def mark_totp_used_inner_def set_nx_marker_def set_nx_value_def run_simps
        mem_redis_def)
  have tries: "mark_totp_used mem_stores ''c1'' 90 \<in> code_tries mem_stores ''c1''"
    unfolding code_tries_def by (intro UnI2 CollectI exI [of _ 90]) (simp add: ttl_ok_def)
  show ?thesis
    by (rule totp_code_not_replayed [where S = mem_stores and view = mem_view and ttl = 90 and replay_id = "''c1''"
          and m = "mark_totp_used mem_stores ''c1'' 90" and r = Map.empty and ns = "[]" and c = ?c,
          unfolded mem_stores_sel])
      (use tries got mem.redis_service_axioms in \<open>auto simp: ttl_ok_def lease_kept_def\<close>)
qed

end
