(* ===== verification/Jwt.thy ===== *)
theory Jwt
  imports Mfa_Store
begin

text \<open>
  The JWT crate (\<open>crates/bymax-auth-jwt\<close>: \<open>hs256.rs\<close>, \<open>keys.rs\<close>, \<open>error.rs\<close>) and the claim types of
  \<open>crates/bymax-auth-types/src/claims.rs\<close>. Base64, HMAC, the constant-time comparison and the JSON
  library are third-party code: they are the fields of \<open>jws_lib\<close> and \<open>json_codec\<close>, and the locale
  \<open>jws_service\<close> is what the crate relies on of them. The host clock is an argument of the verifier,
  read only when the policy does not supply the current time.
\<close>

section \<open>Claims\<close>

datatype DashboardType = DashboardType_Dashboard
datatype PlatformType = PlatformType_Platform
datatype MfaTempType = MfaChallenge
datatype MfaContext = MfaContext_Dashboard | MfaContext_Platform

fun mfa_context_str :: "MfaContext \<Rightarrow> string" where
  "mfa_context_str MfaContext_Dashboard = ''dashboard''"
| "mfa_context_str MfaContext_Platform = ''platform''"

record DashboardClaims =
  dc_sub :: string
  dc_jti :: string
  dc_tenant_id :: string
  dc_role :: string
  dc_token_type :: DashboardType
  dc_status :: string
  dc_mfa_enabled :: bool
  dc_mfa_verified :: bool
  dc_iat :: int
  dc_exp :: int
  dc_epoch :: nat
  dc_iss :: "string option"
  dc_aud :: "string option"

record PlatformClaims =
  pc_sub :: string
  pc_jti :: string
  pc_role :: string
  pc_token_type :: PlatformType
  pc_mfa_enabled :: bool
  pc_mfa_verified :: bool
  pc_iat :: int
  pc_exp :: int
  pc_epoch :: nat
  pc_iss :: "string option"
  pc_aud :: "string option"

record MfaTempClaims =
  mc_sub :: string
  mc_jti :: string
  mc_token_type :: MfaTempType
  mc_context :: MfaContext
  mc_tenant_id :: "string option"
  mc_epoch :: nat
  mc_iat :: int
  mc_exp :: int
  mc_iss :: "string option"
  mc_aud :: "string option"

section \<open>Keys and policy\<close>

datatype JwtError = Malformed | UnsupportedAlg | BadSignature | Expired | Decode

type_synonym HsKey = "u8 list"

record VerifyOptions =
  leeway_secs :: nat
  validate_exp :: bool
  validate_iat :: bool
  vo_now_unix :: "int option"
  expected_iss :: "string option"
  expected_aud :: "string option"

definition default_options :: VerifyOptions where
  "default_options = \<lparr>leeway_secs = 0, validate_exp = True, validate_iat = True, vo_now_unix = None,
     expected_iss = None, expected_aud = None\<rparr>"

text \<open>The trait \<open>JwtClaims\<close> and its three implementations.\<close>

record 'c JwtClaims =
  jc_exp :: "'c \<Rightarrow> int"
  jc_iat :: "'c \<Rightarrow> int"
  jc_iss :: "'c \<Rightarrow> string option"
  jc_aud :: "'c \<Rightarrow> string option"

definition dashboard_jwt_claims :: "DashboardClaims JwtClaims" where
  "dashboard_jwt_claims = \<lparr>jc_exp = dc_exp, jc_iat = dc_iat, jc_iss = dc_iss, jc_aud = dc_aud\<rparr>"

definition platform_jwt_claims :: "PlatformClaims JwtClaims" where
  "platform_jwt_claims = \<lparr>jc_exp = pc_exp, jc_iat = pc_iat, jc_iss = pc_iss, jc_aud = pc_aud\<rparr>"

definition mfa_temp_jwt_claims :: "MfaTempClaims JwtClaims" where
  "mfa_temp_jwt_claims = \<lparr>jc_exp = mc_exp, jc_iat = mc_iat, jc_iss = mc_iss, jc_aud = mc_aud\<rparr>"

definition REFRESH_TOKEN_BYTES :: nat where
  "REFRESH_TOKEN_BYTES = 32"

definition redis_hash :: "digest \<Rightarrow> string \<Rightarrow> string" where
  "redis_hash sha256 raw = to_hex (sha256 (as_bytes raw))"

section \<open>The codec\<close>

record jws_lib =
  b64_encode :: "u8 list \<Rightarrow> string"
  b64_decode :: "string \<Rightarrow> u8 list option"
  hmac_sha256 :: "u8 list \<Rightarrow> u8 list \<Rightarrow> u8 list"
  constant_time_eq :: "u8 list \<Rightarrow> u8 list \<Rightarrow> bool"
  header_alg :: "u8 list \<Rightarrow> string option"

record 'c json_codec =
  to_vec :: "'c \<Rightarrow> u8 list option"
  from_slice :: "u8 list \<Rightarrow> 'c option"

definition HEADER_JSON :: string where
  "HEADER_JSON = ''{\"alg\":\"HS256\",\"typ\":\"JWT\"}''"

definition HS256 :: string where
  "HS256 = ''HS256''"

definition or_err :: "'e \<Rightarrow> 'a option \<Rightarrow> 'e + 'a" where
  "or_err e x = (case x of None \<Rightarrow> Inl e | Some a \<Rightarrow> Inr a)"

definition sign :: "jws_lib \<Rightarrow> 'c json_codec \<Rightarrow> 'c \<Rightarrow> HsKey \<Rightarrow> JwtError + string" where
  "sign L J claims k =
     (case to_vec J claims of
        None \<Rightarrow> Inl Decode
      | Some payload_json \<Rightarrow>
          let header_b64 = b64_encode L (as_bytes HEADER_JSON);
              payload_b64 = b64_encode L payload_json;
              signing_input = header_b64 @ ''.'' @ payload_b64;
              signature = hmac_sha256 L k (as_bytes signing_input);
              signature_b64 = b64_encode L signature
          in Inr (signing_input @ ''.'' @ signature_b64))"

text \<open>\<open>str::split\<close> on one character: the pieces between the separators.\<close>

fun split_on :: "char \<Rightarrow> string \<Rightarrow> string list" where
  "split_on c [] = [[]]"
| "split_on c (x # xs) =
     (if x = c then [] # split_on c xs
      else (case split_on c xs of [] \<Rightarrow> [[x]] | p # ps \<Rightarrow> (x # p) # ps))"

definition split_segments :: "string \<Rightarrow> JwtError + (string \<times> string \<times> string)" where
  "split_segments token =
     (case split_on (CHR ''.'') token of
        [header, payload, signature] \<Rightarrow> Inr (header, payload, signature)
      | _ \<Rightarrow> Inl Malformed)"

text \<open>\<open>i64\<close> arithmetic that saturates at the bounds of the type.\<close>

definition i64_max :: int where
  "i64_max = 2 ^ 63 - 1"

definition saturating_add :: "int \<Rightarrow> int \<Rightarrow> int" where
  "saturating_add x y = max (- (2 ^ 63)) (min i64_max (x + y))"

definition saturating_sub :: "int \<Rightarrow> int \<Rightarrow> int" where
  "saturating_sub x y = max (- (2 ^ 63)) (min i64_max (x - y))"

type_synonym 's read_clock = "'s \<Rightarrow> int \<times> 's"

text \<open>A clock reading is in nanoseconds from the Unix epoch.\<close>

definition system_now_unix :: "'s read_clock \<Rightarrow> ('s, 'e, int) io" where
  "system_now_unix clk s =
     (case clk s of (t, s') \<Rightarrow> (Inr (if t < 0 then 0 else min (t div 10 ^ 9) i64_max), s'))"

definition resolve_now :: "'s read_clock \<Rightarrow> VerifyOptions \<Rightarrow> ('s, 'e, int) io" where
  "resolve_now clk opts = (case vo_now_unix opts of Some now \<Rightarrow> ret now | None \<Rightarrow> system_now_unix clk)"

definition validate_temporal ::
    "'c JwtClaims \<Rightarrow> 's read_clock \<Rightarrow> 'c \<Rightarrow> VerifyOptions \<Rightarrow> ('s, JwtError, unit) io" where
  "validate_temporal K clk claims opts =
     (let leeway = min (int (leeway_secs opts)) i64_max in
      rbind (resolve_now clk opts) (\<lambda>now.
        if validate_exp opts \<and> saturating_add (jc_exp K claims) leeway \<le> now then raise Expired
        else if validate_iat opts \<and> saturating_add now leeway < jc_iat K claims then raise Malformed
        else ret ()))"

definition validate_binding :: "'c JwtClaims \<Rightarrow> 'c \<Rightarrow> VerifyOptions \<Rightarrow> JwtError + unit" where
  "validate_binding K claims opts =
     (let issuer_ok = (case expected_iss opts of Some e \<Rightarrow> jc_iss K claims = Some e | None \<Rightarrow> True);
          audience_ok = (case expected_aud opts of Some e \<Rightarrow> jc_aud K claims = Some e | None \<Rightarrow> True)
      in if issuer_ok \<and> audience_ok then Inr () else Inl Malformed)"

definition verify ::
    "jws_lib \<Rightarrow> 'c json_codec \<Rightarrow> 'c JwtClaims \<Rightarrow> 's read_clock \<Rightarrow> string \<Rightarrow> HsKey \<Rightarrow> VerifyOptions \<Rightarrow>
      ('s, JwtError, 'c) io" where
  "verify L J K clk token k opts =
     rbind (lift_result (split_segments token)) (\<lambda>(header_b64, payload_b64, signature_b64).
     rbind (lift_result (or_err Malformed (b64_decode L header_b64))) (\<lambda>header_bytes.
     rbind (lift_result (or_err Malformed (header_alg L header_bytes))) (\<lambda>alg.
       if alg \<noteq> HS256 then raise UnsupportedAlg
       else
         let signing_input = header_b64 @ ''.'' @ payload_b64;
             expected = hmac_sha256 L k (as_bytes signing_input)
         in
         rbind (lift_result (or_err Malformed (b64_decode L signature_b64))) (\<lambda>provided.
           if \<not> constant_time_eq L expected provided then raise BadSignature
           else
             rbind (lift_result (or_err Malformed (b64_decode L payload_b64))) (\<lambda>payload_bytes.
             rbind (lift_result (or_err Decode (from_slice J payload_bytes))) (\<lambda>claims.
             rbind (validate_temporal K clk claims opts) (\<lambda>_.
             rbind (lift_result (validate_binding K claims opts)) (\<lambda>_.
               ret claims))))))))"

definition decode_unverified :: "jws_lib \<Rightarrow> 'c json_codec \<Rightarrow> string \<Rightarrow> JwtError + 'c" where
  "decode_unverified L J token =
     (case split_segments token of
        Inl e \<Rightarrow> Inl e
      | Inr (_, payload_b64, _) \<Rightarrow>
          (case b64_decode L payload_b64 of
             None \<Rightarrow> Inl Malformed
           | Some payload_bytes \<Rightarrow> or_err Decode (from_slice J payload_bytes)))"

section \<open>Segments\<close>

lemma split_on_no_sep: "c \<notin> set a \<Longrightarrow> split_on c a = [a]"
  by (induction a) auto

lemma split_on_sep: "c \<notin> set a \<Longrightarrow> split_on c (a @ c # b) = a # split_on c b"
  by (induction a) auto

lemma split_on_not_Nil [simp]: "split_on c s \<noteq> []"
  by (cases s) (auto split: list.splits)

lemma split_on_Cons:
  "split_on c s = p # ps \<Longrightarrow>
     c \<notin> set p \<and> (if ps = [] then s = p else \<exists>t. s = p @ c # t \<and> split_on c t = ps)"
proof (induction s arbitrary: p ps)
  case (Cons x xs)
  show ?case
  proof (cases "x = c")
    case True
    with Cons.prems show ?thesis by auto
  next
    case False
    obtain q qs where q: "split_on c xs = q # qs" by (cases "split_on c xs") auto
    with Cons.prems False have "p = x # q" "ps = qs" by auto
    with Cons.IH [OF q] False show ?thesis by auto
  qed
qed simp

lemma split_segments_Inr:
  "split_segments token = Inr (h, p, sg) \<longleftrightarrow>
     token = h @ ''.'' @ p @ ''.'' @ sg \<and> CHR ''.'' \<notin> set h \<and> CHR ''.'' \<notin> set p \<and> CHR ''.'' \<notin> set sg"
proof
  assume "split_segments token = Inr (h, p, sg)"
  then have "split_on (CHR ''.'') token = [h, p, sg]"
    by (auto simp: split_segments_def split: list.splits)
  then obtain t1 where t1: "token = h @ CHR ''.'' # t1" "split_on (CHR ''.'') t1 = [p, sg]" "CHR ''.'' \<notin> set h"
    using split_on_Cons by fastforce
  then obtain t2 where t2: "t1 = p @ CHR ''.'' # t2" "split_on (CHR ''.'') t2 = [sg]" "CHR ''.'' \<notin> set p"
    using split_on_Cons by fastforce
  with split_on_Cons [of "CHR ''.''" t2 sg "[]"] t1
  show "token = h @ ''.'' @ p @ ''.'' @ sg \<and> CHR ''.'' \<notin> set h \<and> CHR ''.'' \<notin> set p \<and> CHR ''.'' \<notin> set sg"
    by simp
next
  assume "token = h @ ''.'' @ p @ ''.'' @ sg \<and> CHR ''.'' \<notin> set h \<and> CHR ''.'' \<notin> set p \<and> CHR ''.'' \<notin> set sg"
  then show "split_segments token = Inr (h, p, sg)"
    by (simp add: split_segments_def split_on_sep split_on_no_sep)
qed

section \<open>What the codec relies on\<close>

locale jws_service =
  fixes L :: jws_lib
  assumes b64_decode_encode: "b64_decode L (b64_encode L x) = Some x"
    and b64_no_dot: "CHR ''.'' \<notin> set (b64_encode L x)"
    and constant_time_eq: "constant_time_eq L x y \<longleftrightarrow> x = y"
    and header_alg: "header_alg L (as_bytes HEADER_JSON) = Some HS256"

locale json_round_trip =
  fixes J :: "'c json_codec"
  assumes from_to: "to_vec J claims = Some b \<Longrightarrow> from_slice J b = Some claims"

text \<open>The verdict on claims whose signature holds, at a given second.\<close>

definition verdict :: "'c JwtClaims \<Rightarrow> VerifyOptions \<Rightarrow> int \<Rightarrow> 'c \<Rightarrow> JwtError + 'c" where
  "verdict K opts now claims =
     (let leeway = min (int (leeway_secs opts)) i64_max in
      if validate_exp opts \<and> saturating_add (jc_exp K claims) leeway \<le> now then Inl Expired
      else if validate_iat opts \<and> saturating_add now leeway < jc_iat K claims then Inl Malformed
      else if (\<exists>e. expected_iss opts = Some e \<and> jc_iss K claims \<noteq> Some e) \<or>
              (\<exists>e. expected_aud opts = Some e \<and> jc_aud K claims \<noteq> Some e) then Inl Malformed
      else Inr claims)"

definition now_of :: "VerifyOptions \<Rightarrow> int \<Rightarrow> int" where
  "now_of opts t = (case vo_now_unix opts of Some n \<Rightarrow> n
     | None \<Rightarrow> if t < 0 then 0 else min (t div 10 ^ 9) i64_max)"

lemma validate_verdict:
  "fst (rbind (validate_temporal K clk claims opts) (\<lambda>_. rbind (lift_result (validate_binding K claims opts))
      (\<lambda>_. ret claims)) s) = verdict K opts (now_of opts (fst (clk s))) claims"
  by (auto simp: validate_temporal_def resolve_now_def system_now_unix_def validate_binding_def verdict_def
      now_of_def rbind_def Let_def split: option.splits prod.splits)

context jws_service
begin

lemma verify_signed:
  assumes "json_round_trip J" and "sign L J claims k = Inr token"
  shows "verify L J K clk token k opts =
    rbind (validate_temporal K clk claims opts) (\<lambda>_. rbind (lift_result (validate_binding K claims opts))
      (\<lambda>_. ret claims))"
proof -
  from assms(2) obtain b where b: "to_vec J claims = Some b" by (auto simp: sign_def split: option.splits)
  let ?h = "b64_encode L (as_bytes HEADER_JSON)" and ?p = "b64_encode L b"
  let ?sg = "b64_encode L (hmac_sha256 L k (as_bytes (?h @ ''.'' @ ?p)))"
  from assms(2) b have "token = ?h @ ''.'' @ ?p @ ''.'' @ ?sg" by (simp add: sign_def Let_def)
  then have "split_segments token = Inr (?h, ?p, ?sg)"
    by (simp add: split_segments_Inr b64_no_dot)
  with json_round_trip.from_to [OF assms(1) b] show ?thesis
    by (intro ext) (simp add: verify_def rbind_def or_err_def b64_decode_encode header_alg constant_time_eq Let_def)
qed

lemma verify_Inr:
  assumes "verify L J K clk token k opts s = (Inr claims, s')"
  obtains h p sg hb pb where "token = h @ ''.'' @ p @ ''.'' @ sg"
    and "b64_decode L h = Some hb" and "header_alg L hb = Some HS256"
    and "b64_decode L sg = Some (hmac_sha256 L k (as_bytes (h @ ''.'' @ p)))"
    and "b64_decode L p = Some pb" and "from_slice J pb = Some claims"
    and "verdict K opts (now_of opts (fst (clk s))) claims = Inr claims"
proof -
  from assms obtain h p sg where seg: "split_segments token = Inr (h, p, sg)"
    by (cases "split_segments token") (auto simp: verify_def rbind_def)
  note run = assms [unfolded verify_def seg rbind_eq_Inr]
  obtain hb where hb: "b64_decode L h = Some hb" "header_alg L hb = Some HS256"
    using run by (auto simp: rbind_eq_Inr or_err_def split: option.splits if_splits)
  obtain pv where pv: "b64_decode L sg = Some pv" "pv = hmac_sha256 L k (as_bytes (h @ ''.'' @ p))"
    using run hb by (auto simp: rbind_eq_Inr or_err_def Let_def constant_time_eq split: option.splits if_splits)
  obtain pb where pb: "b64_decode L p = Some pb" "from_slice J pb = Some claims"
    using run hb pv
    by (auto simp: rbind_eq_Inr or_err_def Let_def constant_time_eq split: option.splits if_splits)
  have "rbind (validate_temporal K clk claims opts) (\<lambda>_. rbind (lift_result (validate_binding K claims opts))
      (\<lambda>_. ret claims)) s = (Inr claims, s')"
    using run hb pv pb by (auto simp: rbind_eq_Inr or_err_def Let_def constant_time_eq split: option.splits if_splits)
  with validate_verdict [of K clk claims opts s]
  have "verdict K opts (now_of opts (fst (clk s))) claims = Inr claims" by simp
  with that seg hb pv pb show thesis by (simp add: split_segments_Inr)
qed

end

section \<open>A concrete library\<close>

text \<open>Hexadecimal for base64 and a keyed tag that is not secret: enough to run the codec.\<close>

definition hex_value :: "char \<Rightarrow> u8 option" where
  "hex_value c = map_of (zip hex_alphabet (map of_nat [0..<16])) c"

fun of_hex :: "string \<Rightarrow> u8 list option" where
  "of_hex [] = Some []"
| "of_hex [c] = None"
| "of_hex (a # b # cs) =
     (case (hex_value a, hex_value b, of_hex cs) of
        (Some x, Some y, Some bs) \<Rightarrow> Some ((push_bit 4 x OR y) # bs)
      | _ \<Rightarrow> None)"

definition plain_lib :: jws_lib where
  "plain_lib = \<lparr>b64_encode = to_hex, b64_decode = of_hex, hmac_sha256 = (\<lambda>k m. k @ m),
     constant_time_eq = (=),
     header_alg = (\<lambda>b. if b = as_bytes HEADER_JSON then Some HS256 else None)\<rparr>"

lemma hex_value_nth: "i < 16 \<Longrightarrow> hex_value (hex_alphabet ! i) = Some (of_nat i)"
proof -
  assume "i < 16"
  moreover have "length hex_alphabet = 16" "distinct hex_alphabet" by (simp_all add: hex_alphabet_def)
  ultimately show ?thesis
    unfolding hex_value_def by (subst map_of_zip_nth) simp_all
qed

lemma nibbles_join: "push_bit 4 (drop_bit 4 (b :: u8)) OR (b AND 0x0f) = b"
proof (rule bit_word_eqI)
  fix n assume "n < LENGTH(8)"
  have "bit (0x0f :: u8) n \<longleftrightarrow> n < 4"
    using \<open>n < LENGTH(8)\<close> by (simp add: bit_iff_odd_drop_bit numeral_eq_Suc less_Suc_eq) auto
  with \<open>n < LENGTH(8)\<close> show "bit (push_bit 4 (drop_bit 4 b) OR (b AND 0x0f)) n = bit b n"
    by (auto simp: bit_simps)
qed

lemma of_hex_to_hex: "of_hex (to_hex bs) = Some bs"
proof (induction bs)
  case (Cons b bs)
  have "unat (b AND 0x0f) < 16" by (simp add: lo_nibble_eq)
  with Cons hi_nibble_less [of b] show ?case
    by (simp add: hex_value_nth nibbles_join)
qed simp

interpretation plain: jws_service plain_lib
proof
  show "CHR ''.'' \<notin> set (b64_encode plain_lib x)" for x
    using set_to_hex [of x] by (auto simp: plain_lib_def hex_alphabet_def)
qed (simp_all add: plain_lib_def of_hex_to_hex)

definition of_bytes :: "u8 list \<Rightarrow> string" where
  "of_bytes bs = map (\<lambda>b. char_of (unat b)) bs"

lemma unat_of_char: "unat (of_char c :: u8) = of_char c"
proof -
  have "unat (of_nat (of_char c) :: u8) = of_char c mod 256" by (simp add: unat_of_nat)
  moreover have "(of_nat (of_char c) :: u8) = of_char c" by (simp only: of_nat_of_char)
  ultimately show ?thesis by simp
qed

lemma of_bytes_as_bytes [simp]: "of_bytes (as_bytes s) = s"
  by (induction s) (simp_all add: of_bytes_def as_bytes_def unat_of_char)

lemma as_bytes_eq [simp]: "as_bytes a = as_bytes b \<longleftrightarrow> a = b"
  by (metis of_bytes_as_bytes)

definition dashboard_json :: "DashboardClaims json_codec" where
  "dashboard_json =
     \<lparr>to_vec = (\<lambda>c. Some (as_bytes (put_fields [dc_sub c, dc_jti c, dc_tenant_id c, dc_role c, dc_status c,
        show_bool (dc_mfa_enabled c) @ ''/'' @ show_bool (dc_mfa_verified c),
        show_int (dc_iat c), show_int (dc_exp c), show_nat (dc_epoch c),
        put_fields [show_opt id (dc_iss c), show_opt id (dc_aud c)]]))),
      from_slice = (\<lambda>b. case take_fields 10 (of_bytes b) of
         Some [sub, jti, tenant, role, status, mfa, iat, exp, epoch, bound] \<Rightarrow>
           (case (split_once (CHR ''/'') mfa, parse_int iat, parse_int exp, parse_nat epoch, take_fields 2 bound) of
              (Some (enabled, verified), Some i, Some e, Some ep, Some [iss, aud]) \<Rightarrow>
                (case (parse_opt Some iss, parse_opt Some aud) of
                   (Some is, Some au) \<Rightarrow>
                     Some \<lparr>dc_sub = sub, dc_jti = jti, dc_tenant_id = tenant, dc_role = role,
                       dc_token_type = DashboardType_Dashboard, dc_status = status,
                       dc_mfa_enabled = parse_bool enabled, dc_mfa_verified = parse_bool verified,
                       dc_iat = i, dc_exp = e, dc_epoch = ep, dc_iss = is, dc_aud = au\<rparr>
                 | _ \<Rightarrow> None)
            | _ \<Rightarrow> None)
       | _ \<Rightarrow> None)\<rparr>"

lemma slash_notin_show_bool [simp]: "CHR ''/'' \<notin> set (show_bool b)"
  by (simp add: show_bool_def)

lemma take_put_fields_2: "take_fields 2 (put_fields [a, b]) = Some [a, b]"
  by (rule take_put_fields) simp

interpretation dashboard_values: json_round_trip dashboard_json
proof
  fix claims b assume b: "to_vec dashboard_json claims = Some b"
  have "dc_token_type claims = DashboardType_Dashboard" by (cases "dc_token_type claims") simp
  with b show "from_slice dashboard_json b = Some claims"
    by (auto simp: dashboard_json_def take_put_fields_10 take_put_fields_2 split_once_append)
qed

section \<open>Properties\<close>

text \<open>
  C20. Signing and verifying round-trip under one key: a token the crate signed is judged by its
  claims alone. It is accepted, with exactly the claims that were signed, unless the policy finds it
  expired, issued in the future, or bound to another issuer or audience; each refusal has the error
  the crate documents, and saturating arithmetic keeps the boundary for every \<open>i64\<close>.
\<close>

theorem signed_token_verdict:
  assumes "jws_service L" and "json_round_trip J" and "sign L J claims k = Inr token"
  shows "fst (verify L J K clk token k opts s) = verdict K opts (now_of opts (fst (clk s))) claims"
  unfolding jws_service.verify_signed [OF assms] by (rule validate_verdict)

definition demo_claims :: DashboardClaims where
  "demo_claims = \<lparr>dc_sub = ''u1'', dc_jti = ''j1'', dc_tenant_id = ''t1'', dc_role = ''user'',
     dc_token_type = DashboardType_Dashboard, dc_status = ''ACTIVE'', dc_mfa_enabled = True, dc_mfa_verified = False,
     dc_iat = 1000, dc_exp = 1900, dc_epoch = 0, dc_iss = None, dc_aud = None\<rparr>"

lemma demo_verdict:
  "verdict dashboard_jwt_claims default_options (now_of default_options 1899000000000) demo_claims = Inr demo_claims"
  "verdict dashboard_jwt_claims default_options (now_of default_options 1900000000000) demo_claims = Inl Expired"
  by (simp_all add: verdict_def now_of_def default_options_def dashboard_jwt_claims_def demo_claims_def
      saturating_add_def i64_max_def Let_def)

theorem signed_token_verdict_witness:
  "\<exists>token. sign plain_lib dashboard_json demo_claims [1, 2, 3] = Inr token \<and>
     fst (verify plain_lib dashboard_json dashboard_jwt_claims (\<lambda>s. (s, s)) token [1, 2, 3] default_options
       (1899000000000)) = Inr demo_claims \<and>
     fst (verify plain_lib dashboard_json dashboard_jwt_claims (\<lambda>s. (s, s)) token [1, 2, 3] default_options
       (1900000000000)) = Inl Expired"
proof -
  obtain token where t: "sign plain_lib dashboard_json demo_claims [1, 2, 3] = Inr token"
    by (simp add: sign_def dashboard_json_def Let_def)
  note v = signed_token_verdict [OF plain.jws_service_axioms dashboard_values.json_round_trip_axioms t,
      of dashboard_jwt_claims "\<lambda>s. (s, s)" default_options]
  with t v [of "1899000000000"] v [of "1900000000000"] show ?thesis by (intro exI [of _ token]) (simp add: demo_verdict)
qed

text \<open>
  C21. Nothing else is accepted. A token that verifies is three segments, its header names \<open>HS256\<close>,
  its third segment decodes to the HMAC under the verifying key of the first two exactly as they were
  presented, its claims are those of the payload, and they pass the temporal and binding checks. So
  an unsigned token, another algorithm, a tag under another key or a changed payload is refused.
\<close>

theorem verified_token_authentic:
  assumes "jws_service L" and "verify L J K clk token k opts s = (Inr claims, s')"
  shows "\<exists>h p sg hb pb. token = h @ ''.'' @ p @ ''.'' @ sg \<and>
    b64_decode L h = Some hb \<and> header_alg L hb = Some HS256 \<and>
    b64_decode L sg = Some (hmac_sha256 L k (as_bytes (h @ ''.'' @ p))) \<and>
    b64_decode L p = Some pb \<and> from_slice J pb = Some claims \<and>
    verdict K opts (now_of opts (fst (clk s))) claims = Inr claims"
  by (rule jws_service.verify_Inr [OF assms]) blast

theorem verified_token_authentic_witness:
  "\<exists>token h p sg. sign plain_lib dashboard_json demo_claims [1, 2, 3] = Inr token \<and>
     token = h @ ''.'' @ p @ ''.'' @ sg \<and>
     of_hex sg = Some ([1, 2, 3] @ as_bytes (h @ ''.'' @ p))"
proof -
  obtain token where t: "sign plain_lib dashboard_json demo_claims [1, 2, 3] = Inr token"
    by (simp add: sign_def dashboard_json_def Let_def)
  have "fst (verify plain_lib dashboard_json dashboard_jwt_claims (\<lambda>s. (s, s)) token [1, 2, 3] default_options
      (1899000000000)) = Inr demo_claims"
    unfolding plain.verify_signed [OF dashboard_values.json_round_trip_axioms t] validate_verdict
    by (simp add: demo_verdict)
  then obtain s' where "verify plain_lib dashboard_json dashboard_jwt_claims (\<lambda>s. (s, s)) token [1, 2, 3]
      default_options (1899000000000) = (Inr demo_claims, s')"
    by (cases "verify plain_lib dashboard_json dashboard_jwt_claims (\<lambda>s. (s, s)) token [1, 2, 3] default_options
        (1899000000000 :: int)") simp
  from verified_token_authentic [OF plain.jws_service_axioms this] t show ?thesis
    by (auto simp: plain_lib_def)
qed

end
