(* ===== verification/Domain_Types.thy ===== *)
theory Domain_Types
  imports Jwt
begin

text \<open>
  The domain records of \<open>crates/bymax-auth-types\<close>: users and administrators with their
  credential-free projections (\<open>domain.rs\<close>), the results of authentication (\<open>results.rs\<close>), and the
  hook context of \<open>traits/hooks.rs\<close>. Instants are nanoseconds from the Unix epoch.
\<close>

section \<open>Users\<close>

record AuthUser =
  au_id :: string
  au_email :: string
  au_name :: string
  au_password_hash :: "string option"
  au_role :: string
  au_status :: string
  au_tenant_id :: string
  au_email_verified :: bool
  au_mfa_enabled :: bool
  au_mfa_secret :: "string option"
  au_mfa_recovery_codes :: "string list option"
  au_oauth_provider :: "string option"
  au_oauth_provider_id :: "string option"
  au_last_login_at :: "int option"
  au_created_at :: int

record SafeAuthUser =
  su_id :: string
  su_email :: string
  su_name :: string
  su_role :: string
  su_status :: string
  su_tenant_id :: string
  su_email_verified :: bool
  su_mfa_enabled :: bool
  su_oauth_provider :: "string option"
  su_oauth_provider_id :: "string option"
  su_last_login_at :: "int option"
  su_created_at :: int

definition safe_user :: "AuthUser \<Rightarrow> SafeAuthUser" where
  "safe_user user =
     \<lparr>su_id = au_id user, su_email = au_email user, su_name = au_name user, su_role = au_role user,
      su_status = au_status user, su_tenant_id = au_tenant_id user,
      su_email_verified = au_email_verified user, su_mfa_enabled = au_mfa_enabled user,
      su_oauth_provider = au_oauth_provider user, su_oauth_provider_id = au_oauth_provider_id user,
      su_last_login_at = au_last_login_at user, su_created_at = au_created_at user\<rparr>"

record AuthPlatformUser =
  ap_id :: string
  ap_email :: string
  ap_name :: string
  ap_password_hash :: string
  ap_role :: string
  ap_status :: string
  ap_mfa_enabled :: bool
  ap_mfa_secret :: "string option"
  ap_mfa_recovery_codes :: "string list option"
  ap_platform_id :: "string option"
  ap_last_login_at :: "int option"
  ap_updated_at :: int
  ap_created_at :: int

record SafeAuthPlatformUser =
  sp_id :: string
  sp_email :: string
  sp_name :: string
  sp_role :: string
  sp_status :: string
  sp_mfa_enabled :: bool
  sp_platform_id :: "string option"
  sp_last_login_at :: "int option"
  sp_updated_at :: int
  sp_created_at :: int

definition safe_platform_user :: "AuthPlatformUser \<Rightarrow> SafeAuthPlatformUser" where
  "safe_platform_user admin =
     \<lparr>sp_id = ap_id admin, sp_email = ap_email admin, sp_name = ap_name admin, sp_role = ap_role admin,
      sp_status = ap_status admin, sp_mfa_enabled = ap_mfa_enabled admin,
      sp_platform_id = ap_platform_id admin, sp_last_login_at = ap_last_login_at admin,
      sp_updated_at = ap_updated_at admin, sp_created_at = ap_created_at admin\<rparr>"

section \<open>Results\<close>

record AuthResult =
  ar_user :: SafeAuthUser
  ar_access_token :: string
  ar_refresh_token :: string

record PlatformAuthResult =
  par_admin :: SafeAuthPlatformUser
  par_access_token :: string
  par_refresh_token :: string

record MfaChallengeResult =
  mcr_mfa_required :: bool
  mcr_mfa_temp_token :: string

datatype LoginResult = LoginSuccess AuthResult | LoginMfaChallenge MfaChallengeResult

datatype PlatformLoginResult =
    PlatformLoginSuccess PlatformAuthResult | PlatformLoginMfaChallenge MfaChallengeResult

record RotatedTokens =
  rot_access_token :: string
  rot_refresh_token :: string

section \<open>Hooks\<close>

datatype HookPlane = HookPlane_Dashboard | HookPlane_Platform

record HookContext =
  hc_plane :: HookPlane
  hc_user_id :: "string option"
  hc_email :: "string option"
  hc_tenant_id :: "string option"
  hc_ip :: string
  hc_user_agent :: string
  hc_sanitized_headers :: "(string \<times> string) list"

definition detached_context :: "HookPlane \<Rightarrow> string \<Rightarrow> string \<Rightarrow> string \<Rightarrow> HookContext" where
  "detached_context plane user_id ip user_agent =
     \<lparr>hc_plane = plane, hc_user_id = Some user_id, hc_email = None, hc_tenant_id = None, hc_ip = ip,
      hc_user_agent = user_agent, hc_sanitized_headers = []\<rparr>"

datatype LoginFailureReason = InvalidCredentials | AccountBlocked | EmailNotVerified | LockedOut

fun login_failure_reason_str :: "LoginFailureReason \<Rightarrow> string" where
  "login_failure_reason_str InvalidCredentials = ''invalid_credentials''"
| "login_failure_reason_str AccountBlocked = ''account_blocked''"
| "login_failure_reason_str EmailNotVerified = ''email_not_verified''"
| "login_failure_reason_str LockedOut = ''locked_out''"

record LoginFailure =
  lf_email :: string
  lf_tenant_id :: string
  lf_user_id :: "string option"
  lf_reason :: LoginFailureReason

end
