(* ===== verification/Service_Core.thy ===== *)
theory Service_Core
  imports Domain_Types
begin

text \<open>
  What the engine services share (\<open>crates/bymax-auth-core/src/services/mod.rs\<close>, with
  \<open>SessionKind::plane\<close> of \<open>traits/store.rs\<close> and the plane predicates of \<open>services/mfa/mod.rs\<close>): the
  account subject every per-account key derives from, version-4 identifiers, the clock in its three
  roundings, and the shape check on refresh tokens.

  A service runs on a \<open>host\<close>: the client of the store, the sequence of random bytes the operating
  system will deliver, the sequence of readings its clock will give, and the notifications that were
  spawned. Drawing randomness and reading the clock consume their sequence, so two draws of one call
  are two values and nothing is assumed about them.
\<close>

section \<open>The host\<close>

datatype notification =
    RefreshTokenReuseDetected string string HookContext
  | NewSession SafeAuthUser string string string HookContext
  | SessionEvicted string string HookContext
  | OnLoginFailed LoginFailure HookContext
  | OnLockout string string nat HookContext
  | AfterLogin SafeAuthUser HookContext
  | AfterLogout string HookContext
  | AfterRegister SafeAuthUser HookContext
  | UpdateLastLogin string string
  | RehashPassword string string string string
  | SendVerificationEmail string string string
  | AfterEmailVerified SafeAuthUser HookContext
  | AfterPasswordReset SafeAuthUser HookContext
  | AfterInvitationAccepted SafeAuthUser HookContext
  | SendResetOtpEmail string string string
  | SendPasswordChanged string string
  | AfterPlatformLogout string HookContext
  | UpdatePlatformLastLogin string
  | RehashPlatformPassword string string string
  | SendMfaEnabled string string
  | AfterMfaEnabled SafeAuthUser HookContext
  | SendMfaDisabled string string
  | AfterMfaDisabled SafeAuthUser HookContext
  | AfterMfaRecoveryCodesRegenerated SafeAuthUser HookContext

record 'r host =
  store_client :: "'r client"
  entropy :: "nat \<Rightarrow> u8"
  clock :: "nat \<Rightarrow> int"
  spawned :: "notification list"

type_synonym ('r, 'a) engine_io = "('r host, AuthError, 'a) io"

definition on_store :: "('r client, 'e, 'a) io \<Rightarrow> ('r host, 'e, 'a) io" where
  "on_store m h = (case m (store_client h) of (x, c) \<Rightarrow> (x, h\<lparr>store_client := c\<rparr>))"

definition random_bytes :: "nat \<Rightarrow> ('r host, 'e, u8 list) io" where
  "random_bytes n h = (Inr (map (entropy h) [0..<n]), h\<lparr>entropy := (\<lambda>i. entropy h (n + i))\<rparr>)"

definition read_clock :: "'r host read_clock" where
  "read_clock h = (clock h 0, h\<lparr>clock := (\<lambda>i. clock h (Suc i))\<rparr>)"

definition spawn_guarded :: "notification \<Rightarrow> ('r host, 'e, unit) io" where
  "spawn_guarded e h = (Inr (), h\<lparr>spawned := spawned h @ [e]\<rparr>)"

section \<open>Errors\<close>

definition internal_error :: "string \<Rightarrow> AuthError" where
  "internal_error context = AuthError.Internal context"

text \<open>A logout keeps the first failure of its writes, as a generic internal error.\<close>

definition note_logout_failure :: "AuthError option \<Rightarrow> AuthError + unit \<Rightarrow> AuthError option" where
  "note_logout_failure first result =
     (case result of
        Inr _ \<Rightarrow> first
      | Inl _ \<Rightarrow> (case first of
          Some e \<Rightarrow> Some e
        | None \<Rightarrow> Some (internal_error ''a logout revocation write failed'')))"

section \<open>The account subject\<close>

fun plane :: "SessionKind \<Rightarrow> MfaContext" where
  "plane Dashboard = MfaContext_Dashboard"
| "plane Platform = MfaContext_Platform"

fun session_kind :: "MfaContext \<Rightarrow> SessionKind" where
  "session_kind MfaContext_Dashboard = Dashboard"
| "session_kind MfaContext_Platform = Platform"

definition plane_tenant_is_well_formed :: "MfaContext \<Rightarrow> string option \<Rightarrow> bool" where
  "plane_tenant_is_well_formed ctx tenant_id =
     (case (ctx, tenant_id) of
        (MfaContext_Dashboard, Some tenant) \<Rightarrow> tenant \<noteq> []
      | (MfaContext_Platform, None) \<Rightarrow> True
      | _ \<Rightarrow> False)"

definition user_subject :: "MfaContext \<Rightarrow> string option \<Rightarrow> string \<Rightarrow> string" where
  "user_subject pl tenant_id user_id =
     (case (pl, tenant_id) of
        (MfaContext_Dashboard, Some tenant) \<Rightarrow>
          mfa_context_str pl @ '':'' @ show_nat (length tenant) @ '':'' @ tenant @ '':'' @ user_id
      | _ \<Rightarrow> mfa_context_str pl @ '':'' @ user_id)"

definition user_subject_hash :: "jws_lib \<Rightarrow> u8 list \<Rightarrow> MfaContext \<Rightarrow> string option \<Rightarrow> string \<Rightarrow> string" where
  "user_subject_hash L identifier_key pl tenant_id user_id =
     to_hex (hmac_sha256 L identifier_key (as_bytes (user_subject pl tenant_id user_id)))"

definition session_subject_hash :: "jws_lib \<Rightarrow> u8 list \<Rightarrow> SessionKind \<Rightarrow> string option \<Rightarrow> string \<Rightarrow> string" where
  "session_subject_hash L identifier_key kind tenant_id user_id =
     user_subject_hash L identifier_key (plane kind) tenant_id user_id"

section \<open>Identifiers\<close>

definition uuid_of_bytes :: "u8 list \<Rightarrow> string" where
  "uuid_of_bytes bs =
     (let b = bs[6 := (bs ! 6 AND 0x0f) OR 0x40];
          b = b[8 := (b ! 8 AND 0x3f) OR 0x80];
          hex = to_hex b
      in take 8 hex @ ''-'' @ take 4 (drop 8 hex) @ ''-'' @ take 4 (drop 12 hex) @ ''-'' @
         take 4 (drop 16 hex) @ ''-'' @ take 12 (drop 20 hex))"

definition new_uuid_v4 :: "('r host, 'e, string) io" where
  "new_uuid_v4 = rbind (random_bytes 16) (\<lambda>b. ret (uuid_of_bytes b))"

definition generate_refresh :: "('r host, 'e, string) io" where
  "generate_refresh = rbind (random_bytes REFRESH_TOKEN_BYTES) (\<lambda>b. ret (encode_hex b))"

section \<open>Time\<close>

definition now_offset :: "('r host, 'e, int) io" where
  "now_offset h = (case read_clock h of (t, h') \<Rightarrow> (Inr t, h'))"

definition unix_timestamp :: "int \<Rightarrow> int" where
  "unix_timestamp t = t div 10 ^ 9"

definition now_unix :: "('r host, 'e, int) io" where
  "now_unix = rbind now_offset (\<lambda>t. ret (unix_timestamp t))"

definition ceil_unix :: "int \<Rightarrow> int" where
  "ceil_unix at = unix_timestamp at + (if at mod 10 ^ 9 > 0 then 1 else 0)"

definition now_unix_ceil :: "('r host, 'e, int) io" where
  "now_unix_ceil = rbind now_offset (\<lambda>t. ret (ceil_unix t))"

section \<open>Refresh-token shape\<close>

definition is_lower_hex :: "char \<Rightarrow> bool" where
  "is_lower_hex c \<longleftrightarrow>
     (let b = of_char c :: nat in (48 \<le> b \<and> b \<le> 57) \<or> (97 \<le> b \<and> b \<le> 102))"

definition is_hex_token_shape :: "string \<Rightarrow> bool" where
  "is_hex_token_shape raw \<longleftrightarrow> length raw = 64 \<and> list_all is_lower_hex raw"

definition is_refresh_token_shape :: "string \<Rightarrow> bool" where
  "is_refresh_token_shape raw \<longleftrightarrow> is_hex_token_shape raw"

section \<open>Hexadecimal text\<close>

lemma hex_alphabet_codes: "hex_alphabet = map char_of ([48..<58] @ [97..<103])"
  by code_simp

lemma is_lower_hex_iff: "is_lower_hex c \<longleftrightarrow> c \<in> set hex_alphabet"
proof
  assume "is_lower_hex c"
  then have "(of_char c :: nat) \<in> set ([48..<58] @ [97..<103])"
    unfolding is_lower_hex_def Let_def set_append Un_iff set_upt atLeastLessThan_iff by linarith
  then have "char_of (of_char c :: nat) \<in> set hex_alphabet" unfolding hex_alphabet_codes by (simp only: set_map image_eqI)
  then show "c \<in> set hex_alphabet" by simp
next
  assume "c \<in> set hex_alphabet"
  then obtain n :: nat where "n \<in> set ([48..<58] @ [97..<103])" "c = char_of n"
    unfolding hex_alphabet_codes by auto
  then have "(48 \<le> n \<and> n < 58) \<or> (97 \<le> n \<and> n < 103)" "of_char c = n"
    unfolding set_append Un_iff set_upt atLeastLessThan_iff by auto
  then show "is_lower_hex c" by (simp add: is_lower_hex_def Let_def) linarith
qed

lemma encode_hex_eq [simp]: "encode_hex bs = to_hex bs"
  by (induction bs) simp_all

lemma to_hex_lower: "list_all is_lower_hex (to_hex bs)"
  using set_to_hex [of bs] by (auto simp: list_all_iff is_lower_hex_iff)

lemma to_hex_append: "to_hex (xs @ ys) = to_hex xs @ to_hex ys"
  by (induction xs) simp_all

lemma nth_to_hex:
  "i < length bs \<Longrightarrow> to_hex bs ! (2 * i) = hex_alphabet ! unat (drop_bit 4 (bs ! i)) \<and>
     to_hex bs ! (2 * i + 1) = hex_alphabet ! unat (bs ! i AND 0x0f)"
proof (induction bs arbitrary: i)
  case (Cons b bs)
  then show ?case by (cases i) auto
qed simp

lemma generate_refresh_run:
  "generate_refresh h = (Inr (to_hex (map (entropy h) [0..<32])), h\<lparr>entropy := (\<lambda>i. entropy h (32 + i))\<rparr>)"
  by (simp add: generate_refresh_def rbind_def random_bytes_def REFRESH_TOKEN_BYTES_def)

lemma refresh_shape: "length bs = 32 \<Longrightarrow> is_refresh_token_shape (to_hex bs)"
  by (simp add: is_refresh_token_shape_def is_hex_token_shape_def to_hex_lower)

section \<open>Properties\<close>

lemma show_nat_inj: "show_nat m = show_nat n \<Longrightarrow> m = n"
  by (metis parse_nat_show_nat option.inject)

text \<open>
  C22. Two accounts never share a subject. On the shapes the engine accepts (a dashboard account
  with a non-empty tenant, a platform account with none) the text every per-account store key is
  derived from determines the plane, the tenant and the user, whatever characters the tenant and the
  user contain.
\<close>

theorem user_subject_injective:
  assumes "plane_tenant_is_well_formed p t" and "plane_tenant_is_well_formed p' t'"
  shows "user_subject p t u = user_subject p' t' u' \<longleftrightarrow> p = p' \<and> t = t' \<and> u = u'"
proof -
  have dash: "user_subject MfaContext_Dashboard (Some a) u = user_subject MfaContext_Dashboard (Some b) u' \<longleftrightarrow>
      a = b \<and> u = u'" for a b
  proof
    assume "user_subject MfaContext_Dashboard (Some a) u = user_subject MfaContext_Dashboard (Some b) u'"
    then have "show_nat (length a) @ CHR '':'' # a @ CHR '':'' # u = show_nat (length b) @ CHR '':'' # b @ CHR '':'' # u'"
      by (simp add: user_subject_def)
    then have "show_nat (length a) = show_nat (length b)" "a @ CHR '':'' # u = b @ CHR '':'' # u'"
      by (simp_all add: sep_append_inj)
    then have "length a = length b" using show_nat_inj by blast
    with \<open>a @ _ = b @ _\<close> show "a = b \<and> u = u'" by simp
  qed simp
  show ?thesis
  proof (cases p; cases p')
    assume p: "p = MfaContext_Dashboard" "p' = MfaContext_Dashboard"
    with assms obtain a b where "t = Some a" "t' = Some b"
      by (auto simp: plane_tenant_is_well_formed_def split: option.splits)
    with p dash show ?thesis by simp
  qed (use assms in \<open>auto simp: user_subject_def plane_tenant_is_well_formed_def split: option.splits\<close>)
qed

theorem user_subject_injective_witness:
  "user_subject MfaContext_Dashboard (Some ''acme:prod'') ''u1'' \<noteq>
     user_subject MfaContext_Dashboard (Some ''acme'') ''prod:u1''"
  using user_subject_injective [of MfaContext_Dashboard "Some ''acme:prod''" MfaContext_Dashboard "Some ''acme''"
      "''u1''" "''prod:u1''"]
  by (simp add: plane_tenant_is_well_formed_def)

text \<open>Off those shapes the text is ambiguous: an empty tenant takes the tenant-bearing arm.\<close>

lemma user_subject_blank_tenant:
  "user_subject MfaContext_Dashboard (Some []) u = ''dashboard:0::'' @ u"
  "user_subject MfaContext_Dashboard None (''0::'' @ u) = user_subject MfaContext_Dashboard (Some []) u"
proof -
  have "show_nat 0 = ''0''" by code_simp
  then show "user_subject MfaContext_Dashboard (Some []) u = ''dashboard:0::'' @ u"
    "user_subject MfaContext_Dashboard None (''0::'' @ u) = user_subject MfaContext_Dashboard (Some []) u"
    by (simp_all add: user_subject_def)
qed

lemma version_nibble: "drop_bit 4 ((b AND 0x0f) OR 0x40 :: u8) = 4"
  by (rule bit_word_eqI) (auto simp: bit_simps bit_numeral_rec)

lemma variant_nibble: "unat (drop_bit 4 ((b AND 0x3f) OR 0x80 :: u8)) \<in> {8, 9, 10, 11}"
proof -
  have "drop_bit 4 ((b AND 0x3f) OR 0x80) = (drop_bit 4 b AND 3) OR (8 :: u8)"
    by (simp add: drop_bit_or drop_bit_and)
  have "x AND 3 \<in> {0, 1, 2, 3}" for x :: u8
  proof -
    have "x AND 3 = take_bit 2 x" by (simp add: take_bit_eq_mask mask_eq_exp_minus_1)
    then have "unat (x AND 3) < 4" by (simp add: unsigned_take_bit_eq take_bit_nat_def)
    then have "unat (x AND 3) \<in> {0, 1, 2, 3}" by auto
    then have "of_nat (unat (x AND 3)) \<in> {0, 1, 2, 3 :: u8}" by (elim insertE emptyE) simp_all
    then show ?thesis by simp
  qed
  from this [of "drop_bit 4 b"] have "unat ((drop_bit 4 b AND 3) OR 8) \<in> {8, 9, 10, 11}"
    by (elim insertE emptyE) simp_all
  with \<open>drop_bit 4 _ = _\<close> show ?thesis by simp
qed

text \<open>
  A minted identifier is a version-4 UUID whatever bytes the generator delivers: 36 characters,
  hyphens at positions 8, 13, 18 and 23, the version digit 4, a variant digit among 8, 9, a and b, and
  lower-case hexadecimal everywhere else. It spends exactly sixteen bytes.
\<close>

theorem uuid_v4_layout:
  "\<exists>id'. new_uuid_v4 h = (Inr id', h\<lparr>entropy := (\<lambda>i. entropy h (16 + i))\<rparr>) \<and>
     length id' = 36 \<and> id' ! 8 = CHR ''-'' \<and> id' ! 13 = CHR ''-'' \<and> id' ! 18 = CHR ''-'' \<and>
     id' ! 23 = CHR ''-'' \<and> id' ! 14 = CHR ''4'' \<and> id' ! 19 \<in> set ''89ab'' \<and>
     list_all (\<lambda>c. c = CHR ''-'' \<or> is_lower_hex c) id'"
proof -
  define bs where "bs = map (entropy h) [0..<16]"
  define b where "b = (bs[6 := (bs ! 6 AND 0x0f) OR 0x40])[8 := (bs ! 8 AND 0x3f) OR 0x80]"
  let ?x = "to_hex b"
  have len: "length b = 16" "length ?x = 32" by (simp_all add: b_def bs_def)
  have v: "?x ! 12 = CHR ''4''" "?x ! 16 \<in> set ''89ab''"
    using nth_to_hex [of 6 b] nth_to_hex [of 8 b] variant_nibble [of "bs ! 8"] len
    by (auto simp: b_def bs_def version_nibble hex_alphabet_def)
  have low: "list_all (\<lambda>c. c = CHR ''-'' \<or> is_lower_hex c) (take n (drop m ?x))"
    "list_all (\<lambda>c. c = CHR ''-'' \<or> is_lower_hex c) (take n ?x)"
    "list_all (\<lambda>c. c = CHR ''-'' \<or> is_lower_hex c) (drop n ?x)" for m n
    using to_hex_lower [of b] by (auto simp: list_all_iff dest: in_set_takeD in_set_dropD)
  have "new_uuid_v4 h = (Inr (uuid_of_bytes bs), h\<lparr>entropy := (\<lambda>i. entropy h (16 + i))\<rparr>)"
    by (simp add: new_uuid_v4_def rbind_def random_bytes_def bs_def)
  moreover have "uuid_of_bytes bs = take 8 ?x @ ''-'' @ take 4 (drop 8 ?x) @ ''-'' @ take 4 (drop 12 ?x) @ ''-'' @
      take 4 (drop 16 ?x) @ ''-'' @ take 12 (drop 20 ?x)"
    by (simp add: uuid_of_bytes_def b_def Let_def)
  ultimately show ?thesis
    using v len low by (intro exI [of _ "uuid_of_bytes bs"]) (simp add: nth_append)
qed

end
