(* ===== verification/Session_Metadata.thy ===== *)
theory Session_Metadata
  imports Service_Core
begin

text \<open>
  The request metadata a session keeps and shows (the free functions of
  \<open>crates/bymax-auth-core/src/services/session.rs\<close>): the device label read off a user agent, the
  bounded address, the hash check and the display projection. Text is its sequence of UTF-8 bytes.
\<close>

section \<open>Definitions\<close>

fun contains :: "string \<Rightarrow> string \<Rightarrow> bool" where
  "contains [] p \<longleftrightarrow> p = []"
| "contains (c # cs) p \<longleftrightarrow> starts_with p (c # cs) \<or> contains cs p"

definition MAX_IP_LENGTH :: nat where
  "MAX_IP_LENGTH = 45"

text \<open>The offsets at which the characters of a UTF-8 text start: those of its bytes that do not
  continue a character.\<close>

definition continues :: "char \<Rightarrow> bool" where
  "continues c \<longleftrightarrow> (let b = of_char c :: nat in 128 \<le> b \<and> b < 192)"

definition char_offsets :: "string \<Rightarrow> nat list" where
  "char_offsets s = filter (\<lambda>i. \<not> continues (s ! i)) [0..<length s]"

definition truncate_ip :: "string \<Rightarrow> string" where
  "truncate_ip ip =
     (if length ip \<le> MAX_IP_LENGTH then ip
      else
        let within = takeWhile (\<lambda>offset. offset \<le> MAX_IP_LENGTH) (char_offsets ip);
            cut = (if within = [] then 0 else last within)
        in take cut ip)"

definition detect_browser :: "string \<Rightarrow> string" where
  "detect_browser ua =
     (if contains ua ''Edg'' then ''Edge''
      else if contains ua ''OPR'' \<or> contains ua ''Opera'' then ''Opera''
      else if contains ua ''Chrome'' then ''Chrome''
      else if contains ua ''Firefox'' then ''Firefox''
      else if contains ua ''Safari'' \<and> contains ua ''Version/'' then ''Safari''
      else ''Unknown Browser'')"

definition detect_os :: "string \<Rightarrow> string" where
  "detect_os ua =
     (if contains ua ''Android'' then ''Android''
      else if contains ua ''iPhone'' \<or> contains ua ''iPad'' \<or> contains ua ''iOS'' then ''iOS''
      else if contains ua ''Windows'' then ''Windows''
      else if contains ua ''Mac OS X'' \<or> contains ua ''Macintosh'' then ''macOS''
      else if contains ua ''Linux'' then ''Linux''
      else ''Unknown OS'')"

definition parse_user_agent :: "string \<Rightarrow> string" where
  "parse_user_agent user_agent = detect_browser user_agent @ '' on '' @ detect_os user_agent"

definition normalize_session_metadata :: "string \<Rightarrow> string \<Rightarrow> string \<times> string" where
  "normalize_session_metadata user_agent ip = (parse_user_agent user_agent, truncate_ip ip)"

definition is_session_hash :: "string \<Rightarrow> bool" where
  "is_session_hash hash \<longleftrightarrow> length hash = 64 \<and>
     list_all (\<lambda>c. let b = of_char c :: nat in (48 \<le> b \<and> b \<le> 57) \<or> (97 \<le> b \<and> b \<le> 102)) hash"

text \<open>The first characters of a text, as \<open>chars().take(n)\<close>.\<close>

definition take_chars :: "nat \<Rightarrow> string \<Rightarrow> string" where
  "take_chars n s = (let offsets = char_offsets s in if length offsets \<le> n then s else take (offsets ! n) s)"

definition short_hash :: "string \<Rightarrow> string" where
  "short_hash hash = take_chars 8 hash"

record SessionInfo =
  in_id :: string
  in_session_hash :: string
  in_device :: string
  in_ip :: string
  in_is_current :: bool
  in_created_at :: int
  in_last_activity_at :: int

definition to_info :: "jws_lib \<Rightarrow> SessionDetail \<Rightarrow> string \<Rightarrow> SessionInfo" where
  "to_info L detail current =
     (let is_current = constant_time_eq L (as_bytes (sdt_session_hash detail)) (as_bytes current) in
      \<lparr>in_id = short_hash (sdt_session_hash detail), in_session_hash = sdt_session_hash detail,
       in_device = sdt_device detail, in_ip = sdt_ip detail, in_is_current = is_current,
       in_created_at = sdt_created_at detail, in_last_activity_at = sdt_last_activity_at detail\<rparr>)"

section \<open>Hashes\<close>

lemma is_session_hash_eq: "is_session_hash hash \<longleftrightarrow> is_refresh_token_shape hash"
  by (simp add: is_session_hash_def is_refresh_token_shape_def is_hex_token_shape_def list_all_iff is_lower_hex_def)

lemma is_session_hash64: "is_session_hash hash \<longleftrightarrow> is_hash64 hash"
  by (simp add: is_session_hash_eq is_refresh_token_shape_def is_hex_token_shape_def is_hash64_def
      list_all_iff is_lower_hex_iff)

lemma redis_hash_shape: "length (sha256 (as_bytes raw)) = 32 \<Longrightarrow> is_session_hash (redis_hash sha256 raw)"
  by (simp add: is_session_hash_eq redis_hash_def refresh_shape)

section \<open>Properties\<close>

lemma char_offsets_sorted: "sorted_wrt (<) (char_offsets s)"
  by (simp add: char_offsets_def sorted_wrt_filter)

lemma takeWhile_last:
  assumes "sorted_wrt (<) xs" and "takeWhile (\<lambda>x. x \<le> n) xs \<noteq> []"
  shows "last (takeWhile (\<lambda>x. x \<le> n) xs) \<le> (n :: nat)"
    and "x \<in> set xs \<Longrightarrow> x \<le> n \<Longrightarrow> x \<le> last (takeWhile (\<lambda>x. x \<le> n) xs)"
proof -
  let ?w = "takeWhile (\<lambda>x. x \<le> n) xs"
  show "last ?w \<le> n" using last_in_set [OF assms(2)] set_takeWhileD by fastforce
  assume x: "x \<in> set xs" "x \<le> n"
  have "xs = ?w @ dropWhile (\<lambda>x. x \<le> n) xs" by simp
  moreover have "y > n" if y: "y \<in> set (dropWhile (\<lambda>x. x \<le> n) xs)" for y
  proof -
    obtain z zs where z: "dropWhile (\<lambda>x. x \<le> n) xs = z # zs" using y by (cases "dropWhile (\<lambda>x. x \<le> n) xs") auto
    then have "z > n" using hd_dropWhile [of "\<lambda>x. x \<le> n" xs] by auto
    moreover have "sorted_wrt (<) (z # zs)" using assms(1) by (metis sorted_wrt_append takeWhile_dropWhile_id z)
    ultimately show ?thesis using y z by auto
  qed
  ultimately have "x \<in> set ?w" using x by (metis Un_iff not_le set_append)
  moreover have "sorted_wrt (<) ?w" using assms(1) by (metis sorted_wrt_append takeWhile_dropWhile_id)
  ultimately show "x \<le> last ?w"
    by (cases ?w rule: rev_cases) (auto simp: sorted_wrt_append order.strict_implies_order)
qed

text \<open>
  The stored address is bounded and never splits a character. \<open>truncate_ip\<close> returns a prefix of
  at most 45 bytes, an address within the bound unchanged, and otherwise the longest prefix that ends
  where a character starts.
\<close>

theorem truncate_ip_bound:
  "length (truncate_ip ip) \<le> 45 \<and> truncate_ip ip = take (length (truncate_ip ip)) ip \<and>
    (if length ip \<le> 45 then truncate_ip ip = ip
     else (\<forall>offset\<in>set (char_offsets ip). offset \<le> 45 \<longrightarrow> offset \<le> length (truncate_ip ip)) \<and>
       (length (truncate_ip ip) \<in> set (char_offsets ip) \<or> truncate_ip ip = []))"
proof (cases "length ip \<le> 45")
  case False
  let ?w = "takeWhile (\<lambda>offset. offset \<le> 45) (char_offsets ip)"
  have cut: "truncate_ip ip = take (if ?w = [] then 0 else last ?w) ip"
    using False by (simp add: truncate_ip_def MAX_IP_LENGTH_def)
  show ?thesis
  proof (cases "?w = []")
    case True
    then have "char_offsets ip = [] \<or> hd (char_offsets ip) > 45"
      by (cases "char_offsets ip") (auto split: if_splits)
    then have "\<forall>offset\<in>set (char_offsets ip). offset > 45"
      using char_offsets_sorted [of ip] by (cases "char_offsets ip") auto
    with True False cut show ?thesis by auto
  next
    case nonempty: False
    have mem: "last ?w \<in> set (char_offsets ip)" using last_in_set [OF nonempty] by (auto dest: set_takeWhileD)
    then have "last ?w < length ip" by (auto simp: char_offsets_def)
    with mem takeWhile_last [OF char_offsets_sorted nonempty] nonempty False cut show ?thesis by simp
  qed
qed (simp add: truncate_ip_def MAX_IP_LENGTH_def)

theorem truncate_ip_bound_witness:
  "truncate_ip (replicate 50 (CHR ''a'')) = replicate 45 (CHR ''a'')"
proof -
  let ?ip = "replicate 50 (CHR ''a'')"
  have "\<not> continues (CHR ''a'')" by (simp add: continues_def)
  then have "set (char_offsets ?ip) = {0..<50}" by (auto simp: char_offsets_def)
  then have "length (truncate_ip ?ip) = 45"
    using truncate_ip_bound [of ?ip] by force
  with truncate_ip_bound [of ?ip] show ?thesis by (metis length_replicate take_replicate)
qed

end
