(* ===== verification/Normalize.thy ===== *)
theory Normalize
  imports Session_Metadata
begin

text \<open>
  Canonical forms of caller-supplied text (\<open>crates/bymax-auth-core/src/normalize.rs\<close>) and the account
  status gate (\<open>status_gate.rs\<close>). Text is its sequence of UTF-8 bytes, so the standard library's
  \<open>trim\<close> removes the encodings of the characters with the \<open>White_Space\<close> property and \<open>is_control\<close>
  recognises the encodings of category \<open>Cc\<close>. Unicode lower-casing is a table of the standard library
  and stays a parameter.
\<close>

section \<open>ASCII case\<close>

definition to_ascii_lower :: "char \<Rightarrow> char" where
  "to_ascii_lower c = (let b = of_char c :: nat in if 65 \<le> b \<and> b \<le> 90 then char_of (b + 32) else c)"

definition to_ascii_lowercase :: "string \<Rightarrow> string" where
  "to_ascii_lowercase s = map to_ascii_lower s"

definition eq_ignore_ascii_case :: "string \<Rightarrow> string \<Rightarrow> bool" where
  "eq_ignore_ascii_case a b \<longleftrightarrow> to_ascii_lowercase a = to_ascii_lowercase b"

section \<open>White space\<close>

definition white_space :: "string list" where
  "white_space =
     map (map char_of)
       ([[9], [10], [11], [12], [13], [32], [0xC2, 0x85], [0xC2, 0xA0], [0xE1, 0x9A, 0x80]] @
        map (\<lambda>b. [0xE2, 0x80, b]) ([0x80..<0x8B] @ [0xA8, 0xA9, 0xAF]) @
        [[0xE2, 0x81, 0x9F], [0xE3, 0x80, 0x80 :: nat]])"

function trim_with :: "string list \<Rightarrow> string \<Rightarrow> string" where
  "trim_with ws s =
     (case find (\<lambda>w. w \<noteq> [] \<and> starts_with w s) ws of
        None \<Rightarrow> s
      | Some w \<Rightarrow> trim_with ws (drop (length w) s))"
  by pat_completeness auto
termination
proof (relation "measure (\<lambda>(ws, s). length s)")
  fix ws s w assume "find (\<lambda>w. w \<noteq> [] \<and> starts_with w s) ws = Some w"
  then have "w \<noteq> []" "starts_with w s" by (auto simp: find_Some_iff)
  then have "0 < length w" "length w \<le> length s" by (auto simp: starts_with_iff)
  then have "length s - length w < length s" by linarith
  then show "((ws, drop (length w) s), ws, s) \<in> measure (\<lambda>(ws, s). length s)" by simp
qed simp

declare trim_with.simps [simp del]

definition trim :: "string \<Rightarrow> string" where
  "trim s = rev (trim_with (map rev white_space) (rev (trim_with white_space s)))"

definition normalize_email :: "(string \<Rightarrow> string) \<Rightarrow> string \<Rightarrow> string" where
  "normalize_email to_lowercase email = to_lowercase (trim email)"

section \<open>Values for a log line\<close>

definition mask_email :: "string \<Rightarrow> string" where
  "mask_email email =
     (case split_once (CHR ''@'') email of
        Some (local, domain) \<Rightarrow>
          if local \<noteq> [] then take_chars 1 email @ ''***'' @ CHR ''@'' # domain else ''***''
      | None \<Rightarrow> ''***'')"

fun has_control :: "string \<Rightarrow> bool" where
  "has_control [] \<longleftrightarrow> False"
| "has_control (c # cs) \<longleftrightarrow>
     (let b = of_char c :: nat in
        b < 32 \<or> b = 127 \<or>
        (b = 0xC2 \<and> (case cs of [] \<Rightarrow> False | d # _ \<Rightarrow> 128 \<le> (of_char d :: nat) \<and> (of_char d :: nat) < 160))) \<or>
     has_control cs"

definition log_safe :: "string \<Rightarrow> string" where
  "log_safe value = (if has_control value then ''<malformed>'' else value)"

section \<open>The status gate\<close>

definition assert_not_blocked :: "string \<Rightarrow> string list \<Rightarrow> AuthError + unit" where
  "assert_not_blocked status blocked_statuses =
     (if \<not> list_ex (\<lambda>blocked. eq_ignore_ascii_case blocked status) blocked_statuses then Inr ()
      else
        let s = to_ascii_lowercase status in
        Inl (if s = ''banned'' then AuthError.AccountBanned
             else if s = ''inactive'' then AuthError.AccountInactive
             else if s = ''suspended'' then AuthError.AccountSuspended
             else if s = ''pending'' \<or> s = ''pending_approval'' then AuthError.PendingApproval
             else AuthError.AccountInactive))"

section \<open>Lemmas\<close>

lemma eq_ignore_ascii_case_refl [simp]: "eq_ignore_ascii_case s s"
  by (simp add: eq_ignore_ascii_case_def)

lemma eq_ignore_ascii_case_sym: "eq_ignore_ascii_case a b \<longleftrightarrow> eq_ignore_ascii_case b a"
  by (auto simp: eq_ignore_ascii_case_def)

text \<open>The gate reads a status and the list it is checked against up to ASCII case.\<close>

lemma assert_not_blocked_case:
  "eq_ignore_ascii_case s t \<Longrightarrow> assert_not_blocked s blocked = assert_not_blocked t blocked"
  by (simp add: assert_not_blocked_def eq_ignore_ascii_case_def)

lemma assert_not_blocked_Inr:
  "assert_not_blocked status blocked = Inr () \<longleftrightarrow>
     (\<forall>b \<in> set blocked. \<not> eq_ignore_ascii_case b status)"
  by (auto simp: assert_not_blocked_def Let_def list_ex_iff)

lemma has_control_member: "c \<in> set s \<Longrightarrow> (of_char c :: nat) < 32 \<Longrightarrow> has_control s"
  by (induction s) auto

text \<open>A sanitised value never carries a line break: one value is one log record.\<close>

lemma log_safe_one_line: "(of_char c :: nat) < 32 \<Longrightarrow> c \<notin> set (log_safe value)"
  using has_control_member by (auto simp: log_safe_def)

lemma trim_with_fixed: "find (\<lambda>w. w \<noteq> [] \<and> starts_with w s) ws = None \<Longrightarrow> trim_with ws s = s"
  by (simp add: trim_with.simps)

lemma trim_with_done: "find (\<lambda>w. w \<noteq> [] \<and> starts_with w (trim_with ws s)) ws = None"
proof (induction ws s rule: trim_with.induct)
  case (1 ws s)
  then show ?case
    by (cases "find (\<lambda>w. w \<noteq> [] \<and> starts_with w s) ws") (simp_all add: trim_with.simps [of ws s])
qed

text \<open>An address inside which nothing is white space at either end is its own canonical form up to case.\<close>

lemma trim_plain:
  assumes "\<forall>w \<in> set white_space. \<not> starts_with w s" and "\<forall>w \<in> set white_space. \<not> starts_with (rev w) (rev s)"
  shows "trim s = s"
proof -
  have "find (\<lambda>w. w \<noteq> [] \<and> starts_with w s) white_space = None" using assms(1) by (auto simp: find_None_iff)
  moreover have "find (\<lambda>w. w \<noteq> [] \<and> starts_with w (rev s)) (map rev white_space) = None"
    using assms(2) by (auto simp: find_None_iff)
  ultimately show ?thesis by (simp add: trim_def trim_with_fixed)
qed

lemma starts_with_hd: "starts_with (c # w) s \<Longrightarrow> c \<in> set s"
  by (cases s) (auto simp: starts_with_def split: if_splits)

lemma trim_unspaced: "\<forall>w \<in> set white_space. w \<noteq> [] \<and> hd w \<notin> set s \<and> last w \<notin> set s \<Longrightarrow> trim s = s"
  by (rule trim_plain) (metis list.collapse starts_with_hd set_rev hd_rev rev_is_Nil_conv)+

end
