(* ===== verification/Common_Passwords.thy ===== *)
theory Common_Passwords
  imports Normalize
begin

text \<open>
  The default password screen (\<open>traits/common_password.rs\<close>): a password is reduced to the word its
  author started from, and refused when that word is too short, listed, one character repeated, a run
  along a keyboard row or an alphabet, or a short unit repeated. The Unicode tables of the standard
  library (lower-casing, \<open>is_alphabetic\<close>, \<open>is_alphanumeric\<close>) are a parameter; what is used of them is
  what they say of ASCII.
\<close>

section \<open>Characters\<close>

text \<open>The characters of a text, each as its UTF-8 bytes.\<close>

function chars :: "string \<Rightarrow> string list" where
  "chars [] = []"
| "chars (c # cs) = (c # takeWhile continues cs) # chars (dropWhile continues cs)"
  by pat_completeness auto
termination by (relation "measure length") (auto simp: le_imp_less_Suc length_dropWhile_le)

record unicode_lib =
  uc_to_lowercase :: "string \<Rightarrow> string"
  uc_is_alphabetic :: "string \<Rightarrow> bool"
  uc_is_alphanumeric :: "string \<Rightarrow> bool"

section \<open>The screen\<close>

definition COMMON_BASE_WORDS :: "string list" where
  "COMMON_BASE_WORDS =
    [
     ''password'', ''passwort'', ''passwd'', ''senha'', ''contrasena'', ''motdepasse'', ''welcome'', ''letmein'',
     ''changeme'', ''secret'', ''default'', ''temporary'', ''temppassword'', ''admin'', ''administrator'', ''root'',
     ''toor'', ''guest'', ''test'', ''testing'', ''demo'', ''sample'', ''login'', ''user'', ''username'',
     ''account'', ''access'', ''private'', ''security'', ''secure'', ''qwerty'', ''qwertyui'', ''qwertyuiop'',
     ''azerty'', ''qwertz'', ''asdfgh'', ''asdfghjk'', ''asdfghjkl'', ''zxcvbn'', ''zxcvbnm'', ''qazwsx'',
     ''qazwsxedc'', ''wsxedc'', ''qweasd'', ''qweasdzxc'', ''poiuytrewq'', ''iloveyou'', ''ilovegod'', ''loveyou'',
     ''lovely'', ''sweetheart'', ''darling'', ''princess'', ''prince'', ''sunshine'', ''baby'', ''angel'', ''honey'',
     ''butterfly'', ''flower'', ''kisses'', ''football'', ''baseball'', ''basketball'', ''softball'', ''soccer'',
     ''hockey'', ''liverpool'', ''arsenal'', ''chelsea'', ''barcelona'', ''realmadrid'', ''juventus'', ''manutd'',
     ''manchester'', ''superman'', ''batman'', ''spiderman'', ''starwars'', ''pokemon'', ''minecraft'', ''fortnite'',
     ''thomas'', ''harley'', ''ferrari'', ''porsche'', ''mercedes'', ''corvette'', ''mustang'', ''michael'',
     ''jennifer'', ''jessica'', ''ashley'', ''daniel'', ''charlie'', ''matthew'', ''joshua'', ''andrew'', ''robert'',
     ''william'', ''nicole'', ''hunter'', ''jordan'', ''taylor'', ''george'', ''maggie'', ''buster'', ''shadow'',
     ''ginger'', ''tigger'', ''pepper'', ''cookie'', ''peanut'', ''snoopy'', ''dragon'', ''monkey'', ''master'',
     ''freedom'', ''whatever'', ''trustno'', ''nothing'', ''anything'', ''computer'', ''internet'', ''samsung'',
     ''google'', ''facebook'', ''apple'', ''microsoft'', ''windows'', ''letmeinnow'', ''iamgod'', ''ihateyou'',
     ''fuckyou'', ''fuckoff'', ''bullshit'', ''asshole'', ''summer'', ''winter'', ''spring'', ''autumn'',
     ''january'', ''february'', ''october'', ''november'', ''december'', ''september'', ''monday'', ''friday'',
     ''sunday'', ''money'', ''business'', ''company'', ''office'', ''manager'', ''director'', ''service'',
     ''support'', ''chocolate'', ''cheese'', ''orange'', ''purple'', ''yellow'', ''silver'', ''golden'', ''diamond'',
     ''phoenix'', ''thunder'', ''lightning'', ''warrior'', ''ranger'', ''killer'', ''legend'', ''forever'',
     ''together'', ''nevermind'', ''whatsup'', ''blessed'', ''jesus'', ''jesuschrist'']"

definition SEQUENCE_ALPHABETS :: "string list" where
  "SEQUENCE_ALPHABETS = [''abcdefghijklmnopqrstuvwxyz'', ''01234567890'', ''qwertyuiopasdfghjklzxcvbnm'']"

definition MIN_BASE_LENGTH :: nat where
  "MIN_BASE_LENGTH = 4"

definition undo_leet :: "string \<Rightarrow> string" where
  "undo_leet c =
     (if c = ''0'' then ''o'' else if c = ''1'' then ''i'' else if c = ''3'' then ''e'' else if c = ''4'' then ''a''
      else if c = ''5'' then ''s'' else if c = ''7'' then ''t'' else if c = ''8'' then ''b'' else if c = ''9'' then ''g''
      else if c = ''@'' then ''a'' else if c = ''$'' then ''s'' else if c = ''!'' \<or> c = ''|'' then ''i''
      else if c = ''+'' then ''t'' else c)"

text \<open>\<open>trim_end_matches\<close> on the characters of a text.\<close>

definition trim_end_matches :: "(string \<Rightarrow> bool) \<Rightarrow> string list \<Rightarrow> string list" where
  "trim_end_matches P cs = rev (dropWhile P (rev cs))"

definition reduce_to_base_word :: "unicode_lib \<Rightarrow> string \<Rightarrow> string" where
  "reduce_to_base_word U password =
     (let lowered = uc_to_lowercase U password;
          undecorated = trim_end_matches (\<lambda>c. \<not> uc_is_alphabetic U c) (chars lowered)
      in concat (filter (uc_is_alphanumeric U) (map undo_leet undecorated)))"

fun contains_str :: "string \<Rightarrow> string \<Rightarrow> bool" where
  "contains_str value [] \<longleftrightarrow> value = []"
| "contains_str value (c # cs) \<longleftrightarrow> starts_with value (c # cs) \<or> contains_str value cs"

definition is_sequential :: "string \<Rightarrow> bool" where
  "is_sequential value \<longleftrightarrow>
     list_ex (\<lambda>alphabet. contains_str value alphabet \<or> contains_str value (rev alphabet)) SEQUENCE_ALPHABETS"

function chunks :: "nat \<Rightarrow> 'a list \<Rightarrow> 'a list list" where
  "chunks n xs = (if xs = [] \<or> n = 0 then [] else take n xs # chunks n (drop n xs))"
  by pat_completeness auto
termination by (relation "measure (\<lambda>(n, xs). length xs)") auto

declare chunks.simps [simp del]

definition is_padded_repeat :: "string \<Rightarrow> bool" where
  "is_padded_repeat value \<longleftrightarrow>
     (let cs = chars value in
      list_ex (\<lambda>unit. length cs > unit * 2 \<and> length cs mod unit = 0 \<and>
        list_all (\<lambda>chunk. chunk = take unit cs) (chunks unit cs)) [1, 2, 3, 4])"

record CommonPasswordChecker =
  cp_blocked :: "string list"

definition common_password_checker :: CommonPasswordChecker where
  "common_password_checker = \<lparr>cp_blocked = COMMON_BASE_WORDS\<rparr>"

definition with_extra_words :: "unicode_lib \<Rightarrow> string list \<Rightarrow> CommonPasswordChecker" where
  "with_extra_words U extra =
     \<lparr>cp_blocked = cp_blocked common_password_checker @ map (reduce_to_base_word U) extra\<rparr>"

definition is_breached :: "unicode_lib \<Rightarrow> CommonPasswordChecker \<Rightarrow> string \<Rightarrow> bool" where
  "is_breached U C password =
     (let base = reduce_to_base_word U password in
      if length (chars base) < MIN_BASE_LENGTH then True
      else if base \<in> set (cp_blocked C) then True
      else if (case chars base of [] \<Rightarrow> False | first # rest \<Rightarrow> list_all (\<lambda>c. c = first) rest) then True
      else is_sequential base \<or> is_padded_repeat base)"

end
