(* ===== verification/Password_Hash.thy ===== *)
theory Password_Hash
  imports Service_Core
begin

text \<open>
  Password hashing (\<open>crates/bymax-auth-crypto/src/password/\<close>: \<open>mod.rs\<close>, \<open>scrypt.rs\<close>, \<open>argon2.rs\<close>,
  \<open>phc.rs\<close>), in the build with both hashers compiled in. Parameter floors, the ceiling a stored record
  must respect before its cost is honoured, and the staleness test are modelled; the key derivations
  and the parser of PHC strings belong to the \<open>scrypt\<close>, \<open>argon2\<close> and \<open>password-hash\<close> crates and are
  the parameter \<open>kdf_lib\<close>, whose documented behaviour is the locale \<open>kdf_service\<close>.
\<close>

section \<open>Parameters\<close>

datatype CryptoError = Hash | Verify | Decrypt | InvalidParams | Encoding

datatype PasswordAlgorithm = Scrypt | Argon2id

record ScryptParams =
  sp_cost_factor :: nat
  sp_block_size :: nat
  sp_parallelization :: nat

record Argon2Params =
  ag_memory_kib :: nat
  ag_iterations :: nat
  ag_parallelism :: nat

record PasswordParams =
  pp_active :: PasswordAlgorithm
  pp_scrypt :: ScryptParams
  pp_argon2 :: Argon2Params

text \<open>The bit operations of \<open>u32\<close> and \<open>u64\<close> the sources use.\<close>

fun count_ones :: "nat \<Rightarrow> nat" where
  "count_ones n = (if n = 0 then 0 else n mod 2 + count_ones (n div 2))"

fun trailing_zeros :: "nat \<Rightarrow> nat" where
  "trailing_zeros n = (if n = 0 then 32 else if even n then Suc (trailing_zeros (n div 2)) else 0)"

fun ilog2 :: "nat \<Rightarrow> nat" where
  "ilog2 n = (if n < 2 then 0 else Suc (ilog2 (n div 2)))"

declare count_ones.simps [simp del] trailing_zeros.simps [simp del] ilog2.simps [simp del]

definition is_power_of_two :: "nat \<Rightarrow> bool" where
  "is_power_of_two n \<longleftrightarrow> count_ones n = 1"

definition MIN_COST_FACTOR :: nat where
  "MIN_COST_FACTOR = 2 ^ 14"

definition scrypt_validate :: "ScryptParams \<Rightarrow> CryptoError + unit" where
  "scrypt_validate params =
     (if sp_cost_factor params < MIN_COST_FACTOR \<or> \<not> is_power_of_two (sp_cost_factor params)
      then Inl InvalidParams else Inr ())"

definition scrypt_default :: ScryptParams where
  "scrypt_default = \<lparr>sp_cost_factor = 2 ^ 17, sp_block_size = 8, sp_parallelization = 1\<rparr>"

definition MIN_MEMORY_KIB :: nat where
  "MIN_MEMORY_KIB = 19456"

definition MIN_ITERATIONS :: nat where
  "MIN_ITERATIONS = 2"

definition argon2_validate :: "Argon2Params \<Rightarrow> CryptoError + unit" where
  "argon2_validate params =
     (if ag_memory_kib params < MIN_MEMORY_KIB \<or> ag_iterations params < MIN_ITERATIONS \<or>
         ag_parallelism params = 0
      then Inl InvalidParams else Inr ())"

definition argon2_default :: Argon2Params where
  "argon2_default =
     \<lparr>ag_memory_kib = MIN_MEMORY_KIB, ag_iterations = MIN_ITERATIONS, ag_parallelism = 1\<rparr>"

section \<open>The hashing crates\<close>

text \<open>A parsed PHC string: its algorithm, its decimal parameters, and the verdict of the verifiers on
  a password.\<close>

record phc =
  ph_algorithm :: string
  ph_decimal :: "string \<Rightarrow> nat option"
  ph_verify_password :: "u8 list \<Rightarrow> bool"

record kdf_lib =
  kdf_parse :: "string \<Rightarrow> phc option"
  kdf_scrypt_params :: "nat \<Rightarrow> nat \<Rightarrow> nat \<Rightarrow> nat \<Rightarrow> bool"
  kdf_scrypt_hash :: "u8 list \<Rightarrow> nat \<Rightarrow> nat \<Rightarrow> nat \<Rightarrow> nat \<Rightarrow> u8 list \<Rightarrow> string option"
  kdf_argon2_params :: "nat \<Rightarrow> nat \<Rightarrow> nat \<Rightarrow> nat \<Rightarrow> bool"
  kdf_argon2_hash :: "u8 list \<Rightarrow> nat \<Rightarrow> nat \<Rightarrow> nat \<Rightarrow> nat \<Rightarrow> u8 list \<Rightarrow> string option"

text \<open>
  A PHC string written by a hasher parses back to its algorithm and the parameters it was made with,
  and the verifier accepts the password it was made from.
\<close>

locale kdf_service =
  fixes L :: kdf_lib
  assumes scrypt_phc: "kdf_scrypt_hash L pw ln r p n salt = Some s \<Longrightarrow>
      \<exists>h. kdf_parse L s = Some h \<and> ph_algorithm h = ''scrypt'' \<and> ph_decimal h ''ln'' = Some ln \<and>
        ph_decimal h ''r'' = Some r \<and> ph_decimal h ''p'' = Some p \<and> ph_verify_password h pw"
    and argon2_phc: "kdf_argon2_hash L pw m t p n salt = Some s \<Longrightarrow>
      \<exists>h. kdf_parse L s = Some h \<and> ph_algorithm h = ''argon2id'' \<and> ph_decimal h ''m'' = Some m \<and>
        ph_decimal h ''t'' = Some t \<and> ph_decimal h ''p'' = Some p \<and> ph_verify_password h pw"

section \<open>Hashing\<close>

definition OUTPUT_LEN :: nat where
  "OUTPUT_LEN = 32"

definition SALT_LEN :: nat where
  "SALT_LEN = 16"

definition hash_scrypt :: "kdf_lib \<Rightarrow> u8 list \<Rightarrow> ScryptParams \<Rightarrow> ('r host, CryptoError, string) io" where
  "hash_scrypt L password params =
     rbind (lift_result (scrypt_validate params)) (\<lambda>_.
       let log_n = trailing_zeros (sp_cost_factor params) in
       if \<not> kdf_scrypt_params L log_n (sp_block_size params) (sp_parallelization params) OUTPUT_LEN
       then raise InvalidParams
       else rbind (random_bytes SALT_LEN) (\<lambda>salt.
         case kdf_scrypt_hash L password log_n (sp_block_size params) (sp_parallelization params) OUTPUT_LEN salt of
           None \<Rightarrow> raise Hash
         | Some phc \<Rightarrow> ret phc))"

definition hash_argon2 :: "kdf_lib \<Rightarrow> u8 list \<Rightarrow> Argon2Params \<Rightarrow> ('r host, CryptoError, string) io" where
  "hash_argon2 L password params =
     rbind (lift_result (argon2_validate params)) (\<lambda>_.
       if \<not> kdf_argon2_params L (ag_memory_kib params) (ag_iterations params) (ag_parallelism params) OUTPUT_LEN
       then raise InvalidParams
       else rbind (random_bytes SALT_LEN) (\<lambda>salt.
         case kdf_argon2_hash L password (ag_memory_kib params) (ag_iterations params) (ag_parallelism params)
             OUTPUT_LEN salt of
           None \<Rightarrow> raise Hash
         | Some phc \<Rightarrow> ret phc))"

definition hash :: "kdf_lib \<Rightarrow> u8 list \<Rightarrow> PasswordParams \<Rightarrow> ('r host, CryptoError, string) io" where
  "hash L password params =
     (case pp_active params of
        Scrypt \<Rightarrow> hash_scrypt L password (pp_scrypt params)
      | Argon2id \<Rightarrow> hash_argon2 L password (pp_argon2 params))"

section \<open>Verification\<close>

definition MAX_KDF_BYTES_PER_DERIVATION :: nat where
  "MAX_KDF_BYTES_PER_DERIVATION = 512 * 1024 * 1024"

definition MAX_SCRYPT_PARAMETER :: nat where
  "MAX_SCRYPT_PARAMETER = 255"

definition MAX_ADMISSIBLE_LN :: nat where
  "MAX_ADMISSIBLE_LN = ilog2 (MAX_KDF_BYTES_PER_DERIVATION div 128)"

definition scrypt_cost_is_admissible :: "phc \<Rightarrow> bool" where
  "scrypt_cost_is_admissible h =
     (case (ph_decimal h ''ln'', ph_decimal h ''r'', ph_decimal h ''p'') of
        (Some ln, Some r, Some p) \<Rightarrow>
          if ln = 0 \<or> ln > MAX_ADMISSIBLE_LN \<or> \<not> (1 \<le> r \<and> r \<le> MAX_SCRYPT_PARAMETER) \<or>
             \<not> (1 \<le> p \<and> p \<le> MAX_SCRYPT_PARAMETER)
          then False
          else 128 * 2 ^ ln * r \<le> MAX_KDF_BYTES_PER_DERIVATION
      | _ \<Rightarrow> False)"

definition argon2_cost_is_admissible :: "phc \<Rightarrow> bool" where
  "argon2_cost_is_admissible h =
     (case ph_decimal h ''m'' of
        None \<Rightarrow> False
      | Some memory_kib \<Rightarrow> memory_kib * 1024 \<le> MAX_KDF_BYTES_PER_DERIVATION)"

definition cost_is_admissible :: "phc \<Rightarrow> bool" where
  "cost_is_admissible h =
     (if ph_algorithm h = ''scrypt'' then scrypt_cost_is_admissible h
      else if ph_algorithm h = ''argon2id'' then argon2_cost_is_admissible h
      else True)"

definition verify_phc :: "kdf_lib \<Rightarrow> u8 list \<Rightarrow> string \<Rightarrow> bool" where
  "verify_phc L password phc =
     (case kdf_parse L phc of
        None \<Rightarrow> False
      | Some h \<Rightarrow> if \<not> cost_is_admissible h then False else ph_verify_password h password)"

definition verify_password :: "kdf_lib \<Rightarrow> u8 list \<Rightarrow> string \<Rightarrow> CryptoError + bool" where
  "verify_password L password phc = Inr (verify_phc L password phc)"

section \<open>Staleness\<close>

definition scrypt_is_stale :: "phc \<Rightarrow> string \<Rightarrow> ScryptParams \<Rightarrow> bool" where
  "scrypt_is_stale h ident current =
     (if ident \<noteq> ''scrypt'' then True
      else
        let current_ln = trailing_zeros (sp_cost_factor current) in
        case (ph_decimal h ''ln'', ph_decimal h ''r'', ph_decimal h ''p'') of
          (Some ln, Some r, Some p) \<Rightarrow>
            ln < current_ln \<or> r < sp_block_size current \<or> p < sp_parallelization current
        | _ \<Rightarrow> True)"

definition argon2_is_stale :: "phc \<Rightarrow> string \<Rightarrow> Argon2Params \<Rightarrow> bool" where
  "argon2_is_stale h ident current =
     (if ident \<noteq> ''argon2id'' then True
      else
        case (ph_decimal h ''m'', ph_decimal h ''t'', ph_decimal h ''p'') of
          (Some m, Some t, Some p) \<Rightarrow>
            m < ag_memory_kib current \<or> t < ag_iterations current \<or> p < ag_parallelism current
        | _ \<Rightarrow> True)"

definition needs_rehash_phc :: "kdf_lib \<Rightarrow> string \<Rightarrow> PasswordParams \<Rightarrow> bool" where
  "needs_rehash_phc L phc current =
     (case kdf_parse L phc of
        None \<Rightarrow> True
      | Some h \<Rightarrow>
          let ident = ph_algorithm h in
          (case pp_active current of
             Scrypt \<Rightarrow> scrypt_is_stale h ident (pp_scrypt current)
           | Argon2id \<Rightarrow> argon2_is_stale h ident (pp_argon2 current)))"

definition needs_rehash :: "kdf_lib \<Rightarrow> string \<Rightarrow> PasswordParams \<Rightarrow> bool" where
  "needs_rehash L phc current = needs_rehash_phc L phc current"

section \<open>Powers of two\<close>

lemma count_ones_0: "count_ones n = 0 \<longleftrightarrow> n = 0"
proof (induction n rule: count_ones.induct)
  case (1 n)
  have "count_ones n = (if n = 0 then 0 else n mod 2 + count_ones (n div 2))" by (rule count_ones.simps)
  with 1 show ?case by (auto split: if_splits)
qed

text \<open>The shift a validated cost factor is written with recovers it.\<close>

lemma power_of_two_trailing: "is_power_of_two n \<Longrightarrow> 2 ^ trailing_zeros n = n"
  unfolding is_power_of_two_def
proof (induction n rule: trailing_zeros.induct)
  case (1 n)
  then have n: "n \<noteq> 0" using count_ones_0 [of n] by auto
  then have ones: "n mod 2 + count_ones (n div 2) = 1" using 1(2) by (simp add: count_ones.simps [of n])
  show ?case
  proof (cases "even n")
    case True
    with ones have "count_ones (n div 2) = 1" by (simp add: even_iff_mod_2_eq_zero)
    with 1(1) n True have "2 ^ trailing_zeros (n div 2) = n div 2" by blast
    with n True show ?thesis by (simp add: trailing_zeros.simps [of n])
  next
    case False
    then have "n mod 2 = 1" by presburger
    with ones have "n div 2 = 0" by (simp add: count_ones_0)
    with False n have "n = 1" by presburger
    then show ?thesis by (simp add: trailing_zeros.simps)
  qed
qed

lemma MAX_ADMISSIBLE_LN_eq: "MAX_ADMISSIBLE_LN = 22"
  by (simp add: MAX_ADMISSIBLE_LN_def MAX_KDF_BYTES_PER_DERIVATION_def ilog2.simps)

text \<open>The product of the ceiling test stays inside a \<open>u64\<close> for every record that reaches it.\<close>

lemma admissible_product_bound:
  assumes "ln \<le> MAX_ADMISSIBLE_LN" and "r \<le> MAX_SCRYPT_PARAMETER"
  shows "128 * 2 ^ ln * r < (2 :: nat) ^ 64"
proof -
  have "(2 :: nat) ^ ln \<le> 2 ^ 22" using assms(1) unfolding MAX_ADMISSIBLE_LN_eq by (intro power_increasing) simp_all
  moreover have "r \<le> 255" using assms(2) by (simp add: MAX_SCRYPT_PARAMETER_def)
  ultimately have "2 ^ ln * r \<le> 2 ^ 22 * 255" by (rule mult_le_mono)
  then show ?thesis by (simp add: mult.commute)
qed

section \<open>What a fresh hash does\<close>

text \<open>The cost a configuration asks of every verification, against the ceiling.\<close>

definition within_ceiling :: "PasswordParams \<Rightarrow> bool" where
  "within_ceiling params =
     (case pp_active params of
        Scrypt \<Rightarrow> 128 * sp_cost_factor (pp_scrypt params) * sp_block_size (pp_scrypt params) \<le> MAX_KDF_BYTES_PER_DERIVATION \<and>
          1 \<le> sp_block_size (pp_scrypt params) \<and> sp_block_size (pp_scrypt params) \<le> MAX_SCRYPT_PARAMETER \<and>
          1 \<le> sp_parallelization (pp_scrypt params) \<and> sp_parallelization (pp_scrypt params) \<le> MAX_SCRYPT_PARAMETER
      | Argon2id \<Rightarrow> ag_memory_kib (pp_argon2 params) * 1024 \<le> MAX_KDF_BYTES_PER_DERIVATION)"

lemma hash_scrypt_Inr:
  assumes "hash_scrypt L pw params h = (Inr s, h')"
  obtains salt where "scrypt_validate params = Inr ()"
    and "kdf_scrypt_hash L pw (trailing_zeros (sp_cost_factor params)) (sp_block_size params)
      (sp_parallelization params) OUTPUT_LEN salt = Some s"
  using assms
  by (auto simp: hash_scrypt_def rbind_eq_Inr lift_result_def Let_def split: if_splits option.splits)

lemma hash_argon2_Inr:
  assumes "hash_argon2 L pw params h = (Inr s, h')"
  obtains salt where "argon2_validate params = Inr ()"
    and "kdf_argon2_hash L pw (ag_memory_kib params) (ag_iterations params) (ag_parallelism params) OUTPUT_LEN salt = Some s"
  using assms
  by (auto simp: hash_argon2_def rbind_eq_Inr lift_result_def split: if_splits option.splits)

lemma scrypt_ceiling:
  assumes "scrypt_validate params = Inr ()"
  shows "(if trailing_zeros (sp_cost_factor params) = 0 \<or> trailing_zeros (sp_cost_factor params) > MAX_ADMISSIBLE_LN \<or>
       \<not> (1 \<le> r \<and> r \<le> MAX_SCRYPT_PARAMETER) \<or> \<not> (1 \<le> p \<and> p \<le> MAX_SCRYPT_PARAMETER) then False
      else 128 * 2 ^ trailing_zeros (sp_cost_factor params) * r \<le> MAX_KDF_BYTES_PER_DERIVATION) \<longleftrightarrow>
    128 * sp_cost_factor params * r \<le> MAX_KDF_BYTES_PER_DERIVATION \<and>
      1 \<le> r \<and> r \<le> MAX_SCRYPT_PARAMETER \<and> 1 \<le> p \<and> p \<le> MAX_SCRYPT_PARAMETER"
proof -
  let ?ln = "trailing_zeros (sp_cost_factor params)"
  from assms have pow: "2 ^ ?ln = sp_cost_factor params" and floor: "2 ^ 14 \<le> sp_cost_factor params"
    by (auto simp: scrypt_validate_def MIN_COST_FACTOR_def power_of_two_trailing split: if_splits)
  from floor pow have "?ln \<noteq> 0" by (metis numeral_le_one_iff one_le_numeral order_trans power_0 power_increasing
      power_one_right semiring_norm(69) zero_neq_numeral le_numeral_extra(4) one_le_power)
  moreover have "?ln \<le> 22" if "128 * 2 ^ ?ln * r \<le> MAX_KDF_BYTES_PER_DERIVATION" "1 \<le> r"
  proof -
    have "128 * 2 ^ ?ln \<le> 128 * 2 ^ ?ln * r" using that(2) by simp
    with that(1) have "128 * 2 ^ ?ln \<le> MAX_KDF_BYTES_PER_DERIVATION" by linarith
    then have "(2 :: nat) ^ ?ln \<le> 2 ^ 22" unfolding MAX_KDF_BYTES_PER_DERIVATION_def by simp
    then show ?thesis by (rule power_le_imp_le_exp [rotated]) simp
  qed
  ultimately show ?thesis using pow by (auto simp: MAX_ADMISSIBLE_LN_eq)
qed

context kdf_service
begin

text \<open>
  A freshly written hash is never stale under the parameters it was written with, and it verifies its
  own password exactly when those parameters are under the ceiling.
\<close>

lemma fresh_hash:
  assumes "hash L pw params h = (Inr s, h')"
  shows "verify_password L pw s = Inr (within_ceiling params)" and "\<not> needs_rehash L s params"
    and "\<not> within_ceiling params \<Longrightarrow> verify_password L other s = Inr False"
proof -
  have "verify_password L pw s = Inr (within_ceiling params) \<and> \<not> needs_rehash L s params \<and>
    (\<not> within_ceiling params \<longrightarrow> verify_password L other s = Inr False)"
  proof (cases "pp_active params")
    case Scrypt
    with assms have "hash_scrypt L pw (pp_scrypt params) h = (Inr s, h')" by (simp add: hash_def)
    then obtain salt where v: "scrypt_validate (pp_scrypt params) = Inr ()"
      and "kdf_scrypt_hash L pw (trailing_zeros (sp_cost_factor (pp_scrypt params))) (sp_block_size (pp_scrypt params))
        (sp_parallelization (pp_scrypt params)) OUTPUT_LEN salt = Some s" by (rule hash_scrypt_Inr)
    then obtain x where "kdf_parse L s = Some x" "ph_algorithm x = ''scrypt''"
      "ph_decimal x ''ln'' = Some (trailing_zeros (sp_cost_factor (pp_scrypt params)))"
      "ph_decimal x ''r'' = Some (sp_block_size (pp_scrypt params))"
      "ph_decimal x ''p'' = Some (sp_parallelization (pp_scrypt params))" "ph_verify_password x pw"
      using scrypt_phc by blast
    with Scrypt scrypt_ceiling [OF v] show ?thesis
      by (simp add: verify_password_def verify_phc_def needs_rehash_def needs_rehash_phc_def cost_is_admissible_def
          scrypt_cost_is_admissible_def scrypt_is_stale_def within_ceiling_def)
  next
    case Argon2id
    with assms have "hash_argon2 L pw (pp_argon2 params) h = (Inr s, h')" by (simp add: hash_def)
    then obtain salt where "kdf_argon2_hash L pw (ag_memory_kib (pp_argon2 params)) (ag_iterations (pp_argon2 params))
        (ag_parallelism (pp_argon2 params)) OUTPUT_LEN salt = Some s" by (rule hash_argon2_Inr)
    then obtain x where "kdf_parse L s = Some x" "ph_algorithm x = ''argon2id''"
      "ph_decimal x ''m'' = Some (ag_memory_kib (pp_argon2 params))"
      "ph_decimal x ''t'' = Some (ag_iterations (pp_argon2 params))"
      "ph_decimal x ''p'' = Some (ag_parallelism (pp_argon2 params))" "ph_verify_password x pw"
      using argon2_phc by blast
    with Argon2id show ?thesis
      by (simp add: verify_password_def verify_phc_def needs_rehash_def needs_rehash_phc_def cost_is_admissible_def
          argon2_cost_is_admissible_def argon2_is_stale_def within_ceiling_def)
  qed
  then show "verify_password L pw s = Inr (within_ceiling params)" and "\<not> needs_rehash L s params"
    and "\<not> within_ceiling params \<Longrightarrow> verify_password L other s = Inr False" by simp_all
qed

end

end
