(* ===== verification/Token_Manager.thy ===== *)
theory Token_Manager
  imports Session_Metadata
begin

text \<open>
  The token manager of the engine (\<open>crates/bymax-auth-core/src/services/token_manager.rs\<close>): issuing a
  dashboard or platform token pair, rotating a refresh token with its grace window and its reuse
  detection, verifying access tokens against the blacklist and the account's epoch, and the MFA
  challenge token. The store behind it is the Redis session store; the digest, the JWS library and the
  JSON codecs are fields of the manager. Hooks appear as the notifications they spawn; log lines are
  left out. The build is the one with the \<open>mfa\<close> and \<open>platform\<close> features.
\<close>

section \<open>The service\<close>

definition MFA_TEMP_TOKEN_TTL_SECONDS :: int where
  "MFA_TEMP_TOKEN_TTL_SECONDS = 300"

definition RECENT_AUTH_TTL_SECS :: nat where
  "RECENT_AUTH_TTL_SECS = 300"

record MfaTempVerified =
  mv_user_id :: string
  mv_context :: MfaContext
  mv_tenant_id :: "string option"
  mv_jti :: string

datatype CredentialProof = Proved | Unproven

text \<open>Durations are nanoseconds.\<close>

definition as_secs :: "nat \<Rightarrow> nat" where
  "as_secs d = d div 10 ^ 9"

record TokenLifetimes =
  tl_access_ttl :: nat
  tl_refresh_expires_in_days :: nat
  tl_grace_window :: nat
  tl_absolute_session_lifetime_days :: nat

record TokenBinding =
  tb_issuer :: "string option"
  tb_audience :: "string option"

record token_libs =
  lib_jws :: jws_lib
  lib_sha256 :: digest
  lib_dashboard :: "DashboardClaims json_codec"
  lib_platform :: "PlatformClaims json_codec"
  lib_mfa :: "MfaTempClaims json_codec"

record 'r TokenManagerService =
  tm_libs :: token_libs
  tm_key :: HsKey
  tm_previous_keys :: "HsKey list"
  tm_session_store :: "'r RedisStores"
  tm_access_ttl :: nat
  tm_refresh_ttl_secs :: nat
  tm_grace_ttl_secs :: nat
  tm_absolute_lifetime_secs :: nat
  tm_binding :: TokenBinding
  tm_identifier_key :: "u8 list"
  tm_mfa :: "'r RedisStores option"

definition new_token_manager ::
    "token_libs \<Rightarrow> HsKey \<Rightarrow> HsKey list \<Rightarrow> 'r RedisStores \<Rightarrow> TokenLifetimes \<Rightarrow> u8 list \<Rightarrow> 'r TokenManagerService" where
  "new_token_manager libs k previous_keys session_store lifetimes identifier_key =
     \<lparr>tm_libs = libs, tm_key = k, tm_previous_keys = previous_keys, tm_session_store = session_store,
      tm_access_ttl = tl_access_ttl lifetimes,
      tm_refresh_ttl_secs = tl_refresh_expires_in_days lifetimes * 86400,
      tm_grace_ttl_secs = as_secs (tl_grace_window lifetimes),
      tm_absolute_lifetime_secs = tl_absolute_session_lifetime_days lifetimes * 86400,
      tm_binding = \<lparr>tb_issuer = None, tb_audience = None\<rparr>, tm_identifier_key = identifier_key, tm_mfa = None\<rparr>"

definition with_binding :: "'r TokenManagerService \<Rightarrow> TokenBinding \<Rightarrow> 'r TokenManagerService" where
  "with_binding M binding = M\<lparr>tm_binding := binding\<rparr>"

definition with_mfa_support :: "'r TokenManagerService \<Rightarrow> 'r RedisStores \<Rightarrow> 'r TokenManagerService" where
  "with_mfa_support M support = M\<lparr>tm_mfa := Some support\<rparr>"

definition subject_hash :: "'r TokenManagerService \<Rightarrow> SessionKind \<Rightarrow> string option \<Rightarrow> string \<Rightarrow> string" where
  "subject_hash M kind tenant_id user_id =
     session_subject_hash (lib_jws (tm_libs M)) (tm_identifier_key M) kind tenant_id user_id"

definition jti_hash :: "'r TokenManagerService \<Rightarrow> string \<Rightarrow> string" where
  "jti_hash M jti = to_hex (lib_sha256 (tm_libs M) (as_bytes jti))"

section \<open>Verification under rotating keys\<close>

fun verify_previous ::
    "jws_lib \<Rightarrow> 'c json_codec \<Rightarrow> 'c JwtClaims \<Rightarrow> string \<Rightarrow> VerifyOptions \<Rightarrow> HsKey list \<Rightarrow> JwtError \<Rightarrow>
      ('r host, JwtError, 'c) io" where
  "verify_previous L J K token opts [] current h = (Inl current, h)"
| "verify_previous L J K token opts (k # ks) current h =
     (case verify L J K read_clock token k opts h of
        (Inr claims, h') \<Rightarrow> (Inr claims, h')
      | (Inl _, h') \<Rightarrow> verify_previous L J K token opts ks current h')"

definition verify_rotating_with ::
    "'r TokenManagerService \<Rightarrow> 'c json_codec \<Rightarrow> 'c JwtClaims \<Rightarrow> string \<Rightarrow> VerifyOptions \<Rightarrow>
      ('r host, JwtError, 'c) io" where
  "verify_rotating_with M J K token opts h =
     (let L = lib_jws (tm_libs M);
          opts = opts\<lparr>expected_iss := tb_issuer (tm_binding M), expected_aud := tb_audience (tm_binding M)\<rparr>
      in case verify L J K read_clock token (tm_key M) opts h of
           (Inr claims, h') \<Rightarrow> (Inr claims, h')
         | (Inl current, h') \<Rightarrow> verify_previous L J K token opts (tm_previous_keys M) current h')"

definition verify_rotating ::
    "'r TokenManagerService \<Rightarrow> 'c json_codec \<Rightarrow> 'c JwtClaims \<Rightarrow> string \<Rightarrow> ('r host, JwtError, 'c) io" where
  "verify_rotating M J K token = verify_rotating_with M J K token default_options"

definition map_jwt_error :: "JwtError \<Rightarrow> AuthError" where
  "map_jwt_error e = (case e of Expired \<Rightarrow> AuthError.TokenExpired | _ \<Rightarrow> AuthError.TokenInvalid)"

definition signing_failed :: "JwtError \<Rightarrow> AuthError" where
  "signing_failed _ = internal_error ''token signing failed''"

definition verify_access_ignoring_expiry ::
    "'r TokenManagerService \<Rightarrow> string \<Rightarrow> ('r, DashboardClaims) engine_io" where
  "verify_access_ignoring_expiry M token =
     map_err map_jwt_error (verify_rotating_with M (lib_dashboard (tm_libs M)) dashboard_jwt_claims token
       (default_options\<lparr>validate_exp := False\<rparr>))"

definition verify_platform_access_ignoring_expiry ::
    "'r TokenManagerService \<Rightarrow> string \<Rightarrow> ('r, PlatformClaims) engine_io" where
  "verify_platform_access_ignoring_expiry M token =
     map_err map_jwt_error (verify_rotating_with M (lib_platform (tm_libs M)) platform_jwt_claims token
       (default_options\<lparr>validate_exp := False\<rparr>))"

section \<open>Claims and records\<close>

definition stamp_dashboard :: "'r TokenManagerService \<Rightarrow> DashboardClaims \<Rightarrow> DashboardClaims" where
  "stamp_dashboard M claims =
     claims\<lparr>dc_iss := tb_issuer (tm_binding M), dc_aud := tb_audience (tm_binding M)\<rparr>"

definition stamp_platform :: "'r TokenManagerService \<Rightarrow> PlatformClaims \<Rightarrow> PlatformClaims" where
  "stamp_platform M claims =
     claims\<lparr>pc_iss := tb_issuer (tm_binding M), pc_aud := tb_audience (tm_binding M)\<rparr>"

definition stamp_mfa :: "'r TokenManagerService \<Rightarrow> MfaTempClaims \<Rightarrow> MfaTempClaims" where
  "stamp_mfa M claims =
     claims\<lparr>mc_iss := tb_issuer (tm_binding M), mc_aud := tb_audience (tm_binding M)\<rparr>"

definition issue_access :: "'r TokenManagerService \<Rightarrow> DashboardClaims \<Rightarrow> ('r, string) engine_io" where
  "issue_access M claims =
     map_err signing_failed
       (lift_result (sign (lib_jws (tm_libs M)) (lib_dashboard (tm_libs M)) (stamp_dashboard M claims) (tm_key M)))"

definition issue_platform_access :: "'r TokenManagerService \<Rightarrow> PlatformClaims \<Rightarrow> ('r, string) engine_io" where
  "issue_platform_access M claims =
     map_err signing_failed
       (lift_result (sign (lib_jws (tm_libs M)) (lib_platform (tm_libs M)) (stamp_platform M claims) (tm_key M)))"

definition access_exp :: "'r TokenManagerService \<Rightarrow> int \<Rightarrow> int" where
  "access_exp M now = saturating_add now (min (int (as_secs (tm_access_ttl M))) i64_max)"

definition names_a_tenant :: "SessionRecord \<Rightarrow> bool" where
  "names_a_tenant rec = (case sr_tenant_id rec of None \<Rightarrow> False | Some tenant \<Rightarrow> tenant \<noteq> [])"

definition identity_record :: "SessionRecord \<Rightarrow> string \<Rightarrow> string \<Rightarrow> ('r host, 'e, SessionRecord) io" where
  "identity_record seed ip user_agent =
     (case normalize_session_metadata user_agent ip of (device, stored_ip) \<Rightarrow>
      rbind now_offset (\<lambda>now.
        ret \<lparr>sr_user_id = sr_user_id seed, sr_tenant_id = sr_tenant_id seed, sr_role = sr_role seed,
             sr_device = device, sr_ip = stored_ip, sr_created_at = now,
             sr_mfa_enabled = sr_mfa_enabled seed, sr_mfa_verified = sr_mfa_verified seed,
             sr_family_id = sr_family_id seed, sr_family_created_at = sr_family_created_at seed\<rparr>))"

definition platform_identity_record ::
    "SessionRecord \<Rightarrow> string \<Rightarrow> string \<Rightarrow> ('r host, 'e, SessionRecord) io" where
  "platform_identity_record seed ip user_agent =
     (case normalize_session_metadata user_agent ip of (device, stored_ip) \<Rightarrow>
      rbind now_offset (\<lambda>now.
        ret \<lparr>sr_user_id = sr_user_id seed, sr_tenant_id = None, sr_role = sr_role seed,
             sr_device = device, sr_ip = stored_ip, sr_created_at = now,
             sr_mfa_enabled = sr_mfa_enabled seed, sr_mfa_verified = sr_mfa_verified seed,
             sr_family_id = sr_family_id seed, sr_family_created_at = sr_family_created_at seed\<rparr>))"

definition placeholder_record :: "string \<Rightarrow> string \<Rightarrow> ('r host, 'e, SessionRecord) io" where
  "placeholder_record ip user_agent =
     (case normalize_session_metadata user_agent ip of (device, stored_ip) \<Rightarrow>
      rbind now_offset (\<lambda>now.
        ret \<lparr>sr_user_id = [], sr_tenant_id = None, sr_role = [], sr_device = device, sr_ip = stored_ip,
             sr_created_at = now, sr_mfa_enabled = False, sr_mfa_verified = False, sr_family_id = [],
             sr_family_created_at = None\<rparr>))"

definition whole_seconds :: "int \<Rightarrow> int" where
  "whole_seconds d = (if 0 \<le> d then d div 10 ^ 9 else - ((- d) div 10 ^ 9))"

definition assert_within_absolute_lifetime :: "'r TokenManagerService \<Rightarrow> SessionRecord \<Rightarrow> ('r, unit) engine_io" where
  "assert_within_absolute_lifetime M rec =
     (if tm_absolute_lifetime_secs M = 0 then ret ()
      else
        case sr_family_created_at rec of
          None \<Rightarrow> ret ()
        | Some born_at \<Rightarrow>
            rbind now_offset (\<lambda>now.
              let age = now - born_at in
              if \<bar>whole_seconds age\<bar> > int (tm_absolute_lifetime_secs M) \<and> age > 0
              then raise AuthError.RefreshTokenInvalid
              else ret ()))"

definition rotated_claims :: "'r TokenManagerService \<Rightarrow> SessionRecord \<Rightarrow> nat \<Rightarrow> ('r host, 'e, DashboardClaims) io" where
  "rotated_claims M rec epoch =
     rbind now_unix (\<lambda>now.
     rbind new_uuid_v4 (\<lambda>jti.
       ret \<lparr>dc_sub = sr_user_id rec, dc_jti = jti,
            dc_tenant_id = (case sr_tenant_id rec of None \<Rightarrow> [] | Some t \<Rightarrow> t), dc_role = sr_role rec,
            dc_token_type = DashboardType_Dashboard, dc_status = [], dc_mfa_enabled = sr_mfa_enabled rec,
            dc_mfa_verified = sr_mfa_verified rec, dc_iat = now, dc_exp = access_exp M now, dc_epoch = epoch,
            dc_iss = None, dc_aud = None\<rparr>))"

definition rotated_platform_claims ::
    "'r TokenManagerService \<Rightarrow> SessionRecord \<Rightarrow> nat \<Rightarrow> ('r host, 'e, PlatformClaims) io" where
  "rotated_platform_claims M rec epoch =
     rbind now_unix (\<lambda>now.
     rbind new_uuid_v4 (\<lambda>jti.
       ret \<lparr>pc_sub = sr_user_id rec, pc_jti = jti, pc_role = sr_role rec,
            pc_token_type = PlatformType_Platform, pc_mfa_enabled = sr_mfa_enabled rec,
            pc_mfa_verified = sr_mfa_verified rec, pc_iat = now, pc_exp = access_exp M now, pc_epoch = epoch,
            pc_iss = None, pc_aud = None\<rparr>))"

section \<open>Issuing\<close>

definition issue_tokens ::
    "'r TokenManagerService \<Rightarrow> SafeAuthUser \<Rightarrow> string \<Rightarrow> string \<Rightarrow> bool \<Rightarrow> CredentialProof \<Rightarrow>
      ('r, AuthResult) engine_io" where
  "issue_tokens M user ip user_agent mfa_verified proof =
     rbind generate_refresh (\<lambda>refresh.
     rbind now_unix (\<lambda>now.
     let subject = subject_hash M Dashboard (Some (su_tenant_id user)) (su_id user) in
     rbind (on_store (current_epoch (tm_session_store M) Dashboard subject)) (\<lambda>epoch.
     rbind new_uuid_v4 (\<lambda>jti.
     let claims = \<lparr>dc_sub = su_id user, dc_jti = jti, dc_tenant_id = su_tenant_id user, dc_role = su_role user,
           dc_token_type = DashboardType_Dashboard, dc_status = su_status user,
           dc_mfa_enabled = su_mfa_enabled user, dc_mfa_verified = mfa_verified, dc_iat = now,
           dc_exp = access_exp M now, dc_epoch = epoch, dc_iss = None, dc_aud = None\<rparr> in
     rbind (issue_access M claims) (\<lambda>access_token.
     case normalize_session_metadata user_agent ip of (device, stored_ip) \<Rightarrow>
     rbind now_offset (\<lambda>created_at.
     rbind new_uuid_v4 (\<lambda>family_id.
     rbind now_offset (\<lambda>family_created_at.
     let rec = \<lparr>sr_user_id = su_id user, sr_tenant_id = Some (su_tenant_id user), sr_role = su_role user,
           sr_device = device, sr_ip = stored_ip, sr_created_at = created_at,
           sr_mfa_enabled = su_mfa_enabled user, sr_mfa_verified = mfa_verified, sr_family_id = family_id,
           sr_family_created_at = Some family_created_at\<rparr> in
     rbind (on_store (create_session (tm_session_store M) Dashboard subject
             (redis_hash (lib_sha256 (tm_libs M)) refresh) rec (tm_refresh_ttl_secs M))) (\<lambda>_.
     rbind (if proof = Proved
            then on_store (mark_recent_auth (tm_session_store M) subject RECENT_AUTH_TTL_SECS)
            else ret ()) (\<lambda>_.
     ret \<lparr>ar_user = user, ar_access_token = access_token, ar_refresh_token = refresh\<rparr>))))))))))"

definition issue_platform_tokens ::
    "'r TokenManagerService \<Rightarrow> SafeAuthPlatformUser \<Rightarrow> string \<Rightarrow> string \<Rightarrow> bool \<Rightarrow>
      ('r, PlatformAuthResult) engine_io" where
  "issue_platform_tokens M admin ip user_agent mfa_verified =
     rbind generate_refresh (\<lambda>refresh.
     rbind now_unix (\<lambda>now.
     let subject = subject_hash M Platform None (sp_id admin) in
     rbind (on_store (current_epoch (tm_session_store M) Platform subject)) (\<lambda>epoch.
     rbind new_uuid_v4 (\<lambda>jti.
     let claims = \<lparr>pc_sub = sp_id admin, pc_jti = jti, pc_role = sp_role admin,
           pc_token_type = PlatformType_Platform, pc_mfa_enabled = sp_mfa_enabled admin,
           pc_mfa_verified = mfa_verified, pc_iat = now, pc_exp = access_exp M now, pc_epoch = epoch,
           pc_iss = None, pc_aud = None\<rparr> in
     rbind (issue_platform_access M claims) (\<lambda>access_token.
     case normalize_session_metadata user_agent ip of (device, stored_ip) \<Rightarrow>
     rbind now_offset (\<lambda>created_at.
     rbind new_uuid_v4 (\<lambda>family_id.
     rbind now_offset (\<lambda>family_created_at.
     let rec = \<lparr>sr_user_id = sp_id admin, sr_tenant_id = None, sr_role = sp_role admin,
           sr_device = device, sr_ip = stored_ip, sr_created_at = created_at,
           sr_mfa_enabled = sp_mfa_enabled admin, sr_mfa_verified = mfa_verified, sr_family_id = family_id,
           sr_family_created_at = Some family_created_at\<rparr> in
     rbind (on_store (create_session (tm_session_store M) Platform subject
             (redis_hash (lib_sha256 (tm_libs M)) refresh) rec (tm_refresh_ttl_secs M))) (\<lambda>_.
     ret \<lparr>par_admin = admin, par_access_token = access_token, par_refresh_token = refresh\<rparr>)))))))))"

section \<open>Rotating\<close>

definition fire_reuse_detected ::
    "HookPlane \<Rightarrow> string option \<Rightarrow> string \<Rightarrow> string \<Rightarrow> string \<Rightarrow> ('r host, 'e, unit) io" where
  "fire_reuse_detected hook_plane user_id family_id ip user_agent =
     (case user_id of
        None \<Rightarrow> ret ()
      | Some user_id \<Rightarrow>
          spawn_guarded (RefreshTokenReuseDetected user_id family_id
            (detached_context hook_plane user_id ip user_agent)))"

text \<open>The record a rotation starts from: the live one, else the placeholder.\<close>

definition seed_record :: "SessionRecord option \<Rightarrow> string \<Rightarrow> string \<Rightarrow> ('r host, 'e, SessionRecord) io" where
  "seed_record live ip user_agent =
     (case live of Some rec \<Rightarrow> ret rec | None \<Rightarrow> placeholder_record ip user_agent)"

text \<open>The arms of the \<open>match\<close> on the rotation's outcome, dashboard plane.\<close>

definition reissue_rotated ::
    "'r TokenManagerService \<Rightarrow> SessionRecord \<Rightarrow> string \<Rightarrow> string \<Rightarrow> ('r, RotatedTokens) engine_io" where
  "reissue_rotated M new_record subject new =
     rbind (on_store (current_epoch (tm_session_store M) Dashboard subject)) (\<lambda>epoch.
     rbind (rotated_claims M new_record epoch) (\<lambda>claims.
     rbind (issue_access M claims) (\<lambda>access_token.
     ret \<lparr>rot_access_token = access_token, rot_refresh_token = new\<rparr>)))"

definition reissue_grace ::
    "'r TokenManagerService \<Rightarrow> SessionRecord \<Rightarrow> string \<Rightarrow> string \<Rightarrow> ('r, RotatedTokens) engine_io" where
  "reissue_grace M recovered ip user_agent =
     rbind (assert_within_absolute_lifetime M recovered) (\<lambda>_.
     if \<not> names_a_tenant recovered then raise AuthError.RefreshTokenInvalid
     else
       rbind generate_refresh (\<lambda>fresh.
       rbind (identity_record recovered ip user_agent) (\<lambda>fresh_record.
       let recovered_subject = subject_hash M Dashboard (sr_tenant_id fresh_record) (sr_user_id fresh_record) in
       rbind (on_store (create_recovered_session (tm_session_store M) Dashboard recovered_subject
               (redis_hash (lib_sha256 (tm_libs M)) fresh) fresh_record (tm_refresh_ttl_secs M))) (\<lambda>created.
       if \<not> created then raise AuthError.RefreshTokenInvalid
       else reissue_rotated M fresh_record recovered_subject fresh))))"

definition reissue_reused ::
    "'r TokenManagerService \<Rightarrow> string \<Rightarrow> string \<Rightarrow> string \<Rightarrow> ('r, RotatedTokens) engine_io" where
  "reissue_reused M family ip user_agent =
     rbind (on_store (find_family_owner (tm_session_store M) Dashboard family)) (\<lambda>owner.
     let owner_subject = map_option (\<lambda>rec. subject_hash M Dashboard (sr_tenant_id rec) (sr_user_id rec)) owner in
     rbind (on_store (revoke_family (tm_session_store M) Dashboard family owner_subject)) (\<lambda>_.
     rbind (fire_reuse_detected HookPlane_Dashboard (map_option sr_user_id owner) family ip user_agent) (\<lambda>_.
     raise AuthError.RefreshTokenInvalid)))"

definition reissue_tokens ::
    "'r TokenManagerService \<Rightarrow> string \<Rightarrow> string \<Rightarrow> string \<Rightarrow> ('r, RotatedTokens) engine_io" where
  "reissue_tokens M raw_refresh ip user_agent =
     (if \<not> is_refresh_token_shape raw_refresh then raise AuthError.RefreshTokenInvalid
      else
        let old_hash = redis_hash (lib_sha256 (tm_libs M)) raw_refresh in
        rbind generate_refresh (\<lambda>new.
        rbind (on_store (find_session (tm_session_store M) Dashboard old_hash)) (\<lambda>live.
        if (case live of None \<Rightarrow> False | Some rec \<Rightarrow> \<not> names_a_tenant rec)
        then raise AuthError.RefreshTokenInvalid
        else
          rbind (seed_record live ip user_agent) (\<lambda>seed.
          rbind (assert_within_absolute_lifetime M seed) (\<lambda>_.
          rbind (identity_record seed ip user_agent) (\<lambda>new_record.
          let subject = subject_hash M Dashboard (sr_tenant_id new_record) (sr_user_id new_record);
              rotation = \<lparr>ro_old_hash = old_hash, ro_new_hash = redis_hash (lib_sha256 (tm_libs M)) new,
                ro_new_raw = new, ro_new_record = new_record, ro_subject_hash = subject,
                ro_refresh_ttl = tm_refresh_ttl_secs M, ro_grace_ttl = tm_grace_ttl_secs M\<rparr> in
          rbind (on_store (rotate_session (tm_session_store M) Dashboard rotation)) (\<lambda>outcome.
          case outcome of
            Rotated _ \<Rightarrow> reissue_rotated M new_record subject new
          | Grace recovered \<Rightarrow> reissue_grace M recovered ip user_agent
          | Reused family \<Rightarrow> reissue_reused M family ip user_agent
          | Invalid \<Rightarrow> raise AuthError.RefreshTokenInvalid)))))))"

text \<open>The platform twin: no tenant is asked for and none is carried.\<close>

definition reissue_platform_rotated ::
    "'r TokenManagerService \<Rightarrow> SessionRecord \<Rightarrow> string \<Rightarrow> string \<Rightarrow> ('r, RotatedTokens) engine_io" where
  "reissue_platform_rotated M new_record subject new =
     rbind (on_store (current_epoch (tm_session_store M) Platform subject)) (\<lambda>epoch.
     rbind (rotated_platform_claims M new_record epoch) (\<lambda>claims.
     rbind (issue_platform_access M claims) (\<lambda>access_token.
     ret \<lparr>rot_access_token = access_token, rot_refresh_token = new\<rparr>)))"

definition reissue_platform_grace ::
    "'r TokenManagerService \<Rightarrow> SessionRecord \<Rightarrow> string \<Rightarrow> string \<Rightarrow> ('r, RotatedTokens) engine_io" where
  "reissue_platform_grace M recovered ip user_agent =
     rbind (assert_within_absolute_lifetime M recovered) (\<lambda>_.
     rbind generate_refresh (\<lambda>fresh.
     rbind (platform_identity_record recovered ip user_agent) (\<lambda>fresh_record.
     let recovered_subject = subject_hash M Platform None (sr_user_id fresh_record) in
     rbind (on_store (create_recovered_session (tm_session_store M) Platform recovered_subject
             (redis_hash (lib_sha256 (tm_libs M)) fresh) fresh_record (tm_refresh_ttl_secs M))) (\<lambda>created.
     if \<not> created then raise AuthError.RefreshTokenInvalid
     else reissue_platform_rotated M fresh_record recovered_subject fresh))))"

definition reissue_platform_reused ::
    "'r TokenManagerService \<Rightarrow> string \<Rightarrow> string \<Rightarrow> string \<Rightarrow> ('r, RotatedTokens) engine_io" where
  "reissue_platform_reused M family ip user_agent =
     rbind (on_store (find_family_owner (tm_session_store M) Platform family)) (\<lambda>owner.
     let owner_subject = map_option (\<lambda>rec. subject_hash M Platform None (sr_user_id rec)) owner in
     rbind (on_store (revoke_family (tm_session_store M) Platform family owner_subject)) (\<lambda>_.
     rbind (fire_reuse_detected HookPlane_Platform (map_option sr_user_id owner) family ip user_agent) (\<lambda>_.
     raise AuthError.RefreshTokenInvalid)))"

definition reissue_platform_tokens ::
    "'r TokenManagerService \<Rightarrow> string \<Rightarrow> string \<Rightarrow> string \<Rightarrow> ('r, RotatedTokens) engine_io" where
  "reissue_platform_tokens M raw_refresh ip user_agent =
     (if \<not> is_refresh_token_shape raw_refresh then raise AuthError.RefreshTokenInvalid
      else
        let old_hash = redis_hash (lib_sha256 (tm_libs M)) raw_refresh in
        rbind generate_refresh (\<lambda>new.
        rbind (on_store (find_session (tm_session_store M) Platform old_hash)) (\<lambda>live.
        rbind (seed_record live ip user_agent) (\<lambda>seed.
        rbind (assert_within_absolute_lifetime M seed) (\<lambda>_.
        rbind (platform_identity_record seed ip user_agent) (\<lambda>new_record.
        let subject = subject_hash M Platform None (sr_user_id new_record);
            rotation = \<lparr>ro_old_hash = old_hash, ro_new_hash = redis_hash (lib_sha256 (tm_libs M)) new,
              ro_new_raw = new, ro_new_record = new_record, ro_subject_hash = subject,
              ro_refresh_ttl = tm_refresh_ttl_secs M, ro_grace_ttl = tm_grace_ttl_secs M\<rparr> in
        rbind (on_store (rotate_session (tm_session_store M) Platform rotation)) (\<lambda>outcome.
        case outcome of
          Rotated _ \<Rightarrow> reissue_platform_rotated M new_record subject new
        | Grace recovered \<Rightarrow> reissue_platform_grace M recovered ip user_agent
        | Reused family \<Rightarrow> reissue_platform_reused M family ip user_agent
        | Invalid \<Rightarrow> raise AuthError.RefreshTokenInvalid)))))))"

section \<open>Verifying and revoking access tokens\<close>

definition verify_access :: "'r TokenManagerService \<Rightarrow> string \<Rightarrow> ('r, DashboardClaims) engine_io" where
  "verify_access M token =
     rbind (map_err map_jwt_error
             (verify_rotating M (lib_dashboard (tm_libs M)) dashboard_jwt_claims token)) (\<lambda>claims.
     rbind (on_store (is_blacklisted (tm_session_store M) (dc_jti claims))) (\<lambda>blacklisted.
     if blacklisted then raise AuthError.TokenRevoked
     else
       rbind (on_store (current_epoch (tm_session_store M) Dashboard
               (subject_hash M Dashboard (Some (dc_tenant_id claims)) (dc_sub claims)))) (\<lambda>epoch.
       if dc_epoch claims < epoch then raise AuthError.TokenRevoked else ret claims)))"

definition verify_platform_access :: "'r TokenManagerService \<Rightarrow> string \<Rightarrow> ('r, PlatformClaims) engine_io" where
  "verify_platform_access M token =
     rbind (map_err map_jwt_error
             (verify_rotating M (lib_platform (tm_libs M)) platform_jwt_claims token)) (\<lambda>claims.
     rbind (on_store (is_blacklisted (tm_session_store M) (pc_jti claims))) (\<lambda>blacklisted.
     if blacklisted then raise AuthError.TokenRevoked
     else
       rbind (on_store (current_epoch (tm_session_store M) Platform
               (subject_hash M Platform None (pc_sub claims)))) (\<lambda>epoch.
       if pc_epoch claims < epoch then raise AuthError.TokenRevoked else ret claims)))"

definition revoke_access :: "'r TokenManagerService \<Rightarrow> string \<Rightarrow> nat \<Rightarrow> ('r, unit) engine_io" where
  "revoke_access M jti remaining_ttl_secs =
     on_store (blacklist_access (tm_session_store M) jti remaining_ttl_secs)"

definition reissue_access_with_authority ::
    "'r TokenManagerService \<Rightarrow> DashboardClaims \<Rightarrow> string \<Rightarrow> string \<Rightarrow> bool \<Rightarrow> ('r, string) engine_io" where
  "reissue_access_with_authority M claims role tenant_id mfa_enabled =
     rbind now_unix (\<lambda>now.
     rbind (on_store (current_epoch (tm_session_store M) Dashboard
             (subject_hash M Dashboard (Some tenant_id) (dc_sub claims)))) (\<lambda>epoch.
     rbind new_uuid_v4 (\<lambda>jti.
     issue_access M (claims\<lparr>dc_epoch := epoch, dc_jti := jti, dc_role := role, dc_tenant_id := tenant_id,
       dc_mfa_enabled := mfa_enabled, dc_iat := now, dc_exp := access_exp M now\<rparr>))))"

definition reissue_platform_access_with_authority ::
    "'r TokenManagerService \<Rightarrow> PlatformClaims \<Rightarrow> string \<Rightarrow> bool \<Rightarrow> ('r, string) engine_io" where
  "reissue_platform_access_with_authority M claims role mfa_enabled =
     rbind now_unix (\<lambda>now.
     rbind (on_store (current_epoch (tm_session_store M) Platform
             (subject_hash M Platform None (pc_sub claims)))) (\<lambda>epoch.
     rbind new_uuid_v4 (\<lambda>jti.
     issue_platform_access M (claims\<lparr>pc_epoch := epoch, pc_jti := jti, pc_role := role,
       pc_mfa_enabled := mfa_enabled, pc_iat := now, pc_exp := access_exp M now\<rparr>))))"

section \<open>The MFA challenge token\<close>

definition build_mfa_temp_token ::
    "'r TokenManagerService \<Rightarrow> string \<Rightarrow> MfaContext \<Rightarrow> string option \<Rightarrow> nat \<Rightarrow> ('r, string \<times> string) engine_io" where
  "build_mfa_temp_token M user_id ctx tenant_id epoch =
     rbind now_unix (\<lambda>now.
     rbind new_uuid_v4 (\<lambda>jti.
     let claims = \<lparr>mc_sub = user_id, mc_jti = jti, mc_token_type = MfaChallenge, mc_context = ctx,
           mc_tenant_id = tenant_id, mc_epoch = epoch, mc_iat = now,
           mc_exp = saturating_add now MFA_TEMP_TOKEN_TTL_SECONDS, mc_iss = None, mc_aud = None\<rparr> in
     rbind (map_err signing_failed
             (lift_result (sign (lib_jws (tm_libs M)) (lib_mfa (tm_libs M)) (stamp_mfa M claims) (tm_key M)))) (\<lambda>token.
     ret (token, jti))))"

definition malformed_challenge :: AuthError where
  "malformed_challenge = AuthError.Validation [\<lparr>fe_field = ''tenantId'', fe_message =
     ''a dashboard MFA challenge requires a non-empty tenantId, and a platform one requires none''\<rparr>]"

definition issue_mfa_temp_token ::
    "'r TokenManagerService \<Rightarrow> string \<Rightarrow> MfaContext \<Rightarrow> string option \<Rightarrow> ('r, string) engine_io" where
  "issue_mfa_temp_token M user_id ctx tenant_id =
     (if \<not> plane_tenant_is_well_formed ctx tenant_id then raise malformed_challenge
      else
        let kind = session_kind ctx in
        rbind (on_store (current_epoch (tm_session_store M) kind (subject_hash M kind tenant_id user_id))) (\<lambda>epoch.
        rbind (build_mfa_temp_token M user_id ctx tenant_id epoch) (\<lambda>(token, jti).
        rbind (case tm_mfa M of
                 Some support \<Rightarrow>
                   on_store (put_temp support (jti_hash M jti) user_id (nat \<bar>MFA_TEMP_TOKEN_TTL_SECONDS\<bar>))
               | None \<Rightarrow> ret ()) (\<lambda>_.
        ret token))))"

definition verify_mfa_temp_token :: "'r TokenManagerService \<Rightarrow> string \<Rightarrow> ('r, MfaTempVerified) engine_io" where
  "verify_mfa_temp_token M token =
     rbind (map_err (\<lambda>_. AuthError.MfaTempTokenInvalid)
             (verify_rotating M (lib_mfa (tm_libs M)) mfa_temp_jwt_claims token)) (\<lambda>claims.
     case tm_mfa M of
       None \<Rightarrow> raise AuthError.MfaTempTokenInvalid
     | Some support \<Rightarrow>
         rbind (on_store (get_temp support (jti_hash M (mc_jti claims)))) (\<lambda>stored.
         case stored of
           None \<Rightarrow> raise AuthError.MfaTempTokenInvalid
         | Some stored_user \<Rightarrow>
             if \<not> constant_time_eq (lib_jws (tm_libs M)) (as_bytes stored_user) (as_bytes (mc_sub claims))
             then raise AuthError.MfaTempTokenInvalid
             else
               let kind = session_kind (mc_context claims) in
               rbind (on_store (current_epoch (tm_session_store M) kind
                       (subject_hash M kind (mc_tenant_id claims) (mc_sub claims)))) (\<lambda>epoch.
               if mc_epoch claims < epoch then raise AuthError.MfaTempTokenInvalid
               else if \<not> plane_tenant_is_well_formed (mc_context claims) (mc_tenant_id claims)
               then raise AuthError.MfaTempTokenInvalid
               else ret \<lparr>mv_user_id = mc_sub claims, mv_context = mc_context claims,
                      mv_tenant_id = mc_tenant_id claims, mv_jti = mc_jti claims\<rparr>)))"

definition consume_mfa_temp_token :: "'r TokenManagerService \<Rightarrow> string \<Rightarrow> ('r, bool) engine_io" where
  "consume_mfa_temp_token M jti =
     (case tm_mfa M of
        None \<Rightarrow> raise AuthError.MfaTempTokenInvalid
      | Some support \<Rightarrow> on_store (del_temp support (jti_hash M jti)))"

end
