(* ===== verification/Auth_Config.thy ===== *)
theory Auth_Config
  imports Normalize Password_Hash Token_Manager "HOL-Library.Char_ord" "HOL-Library.List_Lexorder"
begin

text \<open>
  The configuration of the engine and its startup validation (\<open>crates/bymax-auth-core/src/config/\<close>:
  \<open>mod.rs\<close>, \<open>profiles.rs\<close>, \<open>validate.rs\<close>, \<open>cookie_prefix.rs\<close>), in the build with every feature.
  Durations are nanoseconds, a hash map is an association list with distinct keys, and a resolver is a
  computation over the application's own state. Base64 decoding belongs to the \<open>base64\<close> crate; the
  Shannon entropy of a secret is a floating-point sum, so the verdict on it is a parameter too.
\<close>

section \<open>Configuration\<close>

datatype ConfigError =
    TenantBindingWithoutResolver
  | JwtSecretTooShort nat
  | JwtSecretLowEntropy
  | IdentifierKeyTooShort nat
  | IdentifierKeyLowEntropy
  | RefreshGraceTooLarge nat nat
  | RefreshGraceCeiling nat nat
  | PasswordMinLengthRange nat
  | BruteForceWindowInvalid
  | BruteForceAttemptsRange nat
  | RefreshLifetimeInvalid nat
  | AccessLifetimeExceedsEpochRetention nat nat
  | PreviousSecretRepeated
  | EmptyRoleHierarchy
  | UnknownRoleReference string string
  | MissingPlatformHierarchy
  | MissingPlatformRepository
  | ScryptCostFactor nat
  | ScryptBlockSize nat
  | ScryptParallelization nat
  | TotpWindowRange nat nat
  | RecoveryCodeCountRange nat
  | Argon2Memory nat
  | Argon2Iterations nat
  | Argon2Parallelism nat
  | MfaKeyInvalidBase64
  | MfaKeyLength nat
  | MfaIssuerMissing
  | MfaToggleWithoutConfig
  | OtpLengthRange nat
  | OAuthFieldMissing string string
  | OAuthCallbackInsecure string string
  | OAuthRedirectNeedsCookie
  | OAuthRedirectInsecure string string
  | OAuthRedirectNotAllowlisted string
  | SameSiteNoneRequiresSecure
  | SecureCookiesRequiredInProduction
  | CookiePrefixUnsatisfied string string string
  | TrustedOriginsRequired
  | TrustedOriginMalformed string
  | RefreshPathMismatch string
  | OAuthToggleWithoutProvider
  | OAuthStateStoreMissing
  | MissingUserRepository
  | MissingStores
  | MissingInvitationStore
  | SentinelHashFailed

record PasswordConfig =
  pwc_active_algorithm :: PasswordAlgorithm
  pwc_rehash_on_verify :: bool
  pwc_min_length :: nat
  pwc_scrypt :: ScryptParams
  pwc_argon2 :: Argon2Params

definition password_config_default :: PasswordConfig where
  "password_config_default =
     \<lparr>pwc_active_algorithm = Scrypt, pwc_rehash_on_verify = True, pwc_min_length = 15,
      pwc_scrypt = scrypt_default, pwc_argon2 = argon2_default\<rparr>"

record JwtConfig =
  jc_secret :: string
  jc_previous_secrets :: "string list"
  jc_access_expires_in :: nat
  jc_access_cookie_max_age :: nat
  jc_refresh_expires_in_days :: nat
  jc_absolute_session_lifetime_days :: nat
  jc_issuer :: "string option"
  jc_audience :: "string option"
  jc_refresh_grace_window :: nat

definition from_secs :: "nat \<Rightarrow> nat" where
  "from_secs n = n * 10 ^ 9"

definition jwt_config_default :: JwtConfig where
  "jwt_config_default =
     \<lparr>jc_secret = [], jc_previous_secrets = [], jc_access_expires_in = from_secs (15 * 60),
      jc_access_cookie_max_age = from_secs (15 * 60), jc_refresh_expires_in_days = 7,
      jc_absolute_session_lifetime_days = 30, jc_issuer = None, jc_audience = None,
      jc_refresh_grace_window = from_secs 30\<rparr>"

type_synonym role_hierarchy = "(string \<times> string list) list"

record RolesConfig =
  ro_hierarchy :: role_hierarchy
  ro_platform_hierarchy :: "role_hierarchy option"

datatype TokenDelivery = Cookie | Bearer | Both

datatype SameSite = Lax | Strict | SameSite_None

record CookieConfig =
  ck_access_token_name :: string
  ck_refresh_token_name :: string
  ck_session_signal_name :: string
  ck_refresh_cookie_path :: string
  ck_mfa_temp_cookie_path :: string
  ck_same_site :: SameSite
  ck_trusted_origins :: "string list"
  ck_resolve_domains :: "(string \<Rightarrow> string list) option"

definition cookie_config_default :: CookieConfig where
  "cookie_config_default =
     \<lparr>ck_access_token_name = ''access_token'', ck_refresh_token_name = ''refresh_token'',
      ck_session_signal_name = ''has_session'', ck_refresh_cookie_path = ''/auth'',
      ck_mfa_temp_cookie_path = ''/auth/mfa'', ck_same_site = Lax, ck_trusted_origins = [],
      ck_resolve_domains = None\<rparr>"

datatype Environment = Production | Development | Test

record MfaConfig =
  mf_encryption_key :: string
  mf_previous_encryption_keys :: "string list"
  mf_issuer :: string
  mf_recovery_code_count :: nat
  mf_totp_window :: nat

record 'w SessionConfig =
  sc_enabled :: bool
  sc_default_max_sessions :: nat
  sc_max_sessions_resolver :: "(AuthUser \<Rightarrow> 'w \<Rightarrow> nat \<times> 'w) option"

record BruteForceConfig =
  bf_max_attempts :: nat
  bf_window :: nat

datatype ResetMethod = ResetMethod_Token | ResetMethod_Otp

record PasswordResetConfig =
  pr_method :: ResetMethod
  pr_token_ttl :: nat
  pr_otp_ttl :: nat
  pr_otp_length :: nat

record EmailVerificationConfig =
  ev_required :: bool
  ev_otp_ttl :: nat

record GoogleOAuthConfig =
  go_client_id :: string
  go_client_secret :: string
  go_callback_url :: string
  go_scope :: "string list"

record OAuthConfig =
  oa_success_redirect_url :: "string option"
  oa_mfa_redirect_url :: "string option"
  oa_error_redirect_url :: "string option"
  oa_redirect_allowlist :: "string list"
  oa_google :: "GoogleOAuthConfig option"

record ControllerToggles =
  ct_auth :: bool
  ct_password_reset :: bool
  ct_mfa :: bool
  ct_sessions :: bool
  ct_platform :: bool
  ct_oauth :: bool
  ct_invitations :: bool
  ct_email_change :: bool

record RequestParts =
  rp_method :: string
  rp_uri :: string
  rp_host :: "string option"
  rp_headers :: "(string \<times> string) list"

datatype TenantResolveError = TenantEmpty | TenantInternal string

record 'w AuthConfig =
  ac_jwt :: JwtConfig
  ac_identifier_key :: "string option"
  ac_roles :: RolesConfig
  ac_password :: PasswordConfig
  ac_token_delivery :: TokenDelivery
  ac_secure_cookies :: "bool option"
  ac_cookies :: CookieConfig
  ac_mfa :: "MfaConfig option"
  ac_sessions :: "'w SessionConfig"
  ac_brute_force :: BruteForceConfig
  ac_password_reset :: PasswordResetConfig
  ac_email_verification :: EmailVerificationConfig
  ac_platform_enabled :: bool
  ac_invitations_enabled :: bool
  ac_invitation_token_ttl :: nat
  ac_email_change_token_ttl :: nat
  ac_oauth :: OAuthConfig
  ac_route_prefix :: string
  ac_redis_namespace :: string
  ac_blocked_statuses :: "string list"
  ac_user_status_cache_ttl :: nat
  ac_controllers :: ControllerToggles
  ac_tenant_id_resolver :: "(RequestParts \<Rightarrow> ('w, TenantResolveError, string) io) option"
  ac_enforce_tenant_binding :: bool

definition config_base :: "PasswordAlgorithm \<Rightarrow> 'w AuthConfig" where
  "config_base active_algorithm =
     \<lparr>ac_jwt = jwt_config_default, ac_identifier_key = None,
      ac_roles = \<lparr>ro_hierarchy = [], ro_platform_hierarchy = None\<rparr>,
      ac_password = password_config_default\<lparr>pwc_active_algorithm := active_algorithm\<rparr>,
      ac_token_delivery = Cookie, ac_secure_cookies = None, ac_cookies = cookie_config_default,
      ac_mfa = None,
      ac_sessions = \<lparr>sc_enabled = False, sc_default_max_sessions = 5, sc_max_sessions_resolver = None\<rparr>,
      ac_brute_force = \<lparr>bf_max_attempts = 5, bf_window = from_secs 900\<rparr>,
      ac_password_reset = \<lparr>pr_method = ResetMethod_Token, pr_token_ttl = from_secs 600, pr_otp_ttl = from_secs 600, pr_otp_length = 6\<rparr>,
      ac_email_verification = \<lparr>ev_required = True, ev_otp_ttl = from_secs 600\<rparr>,
      ac_platform_enabled = False, ac_invitations_enabled = False,
      ac_invitation_token_ttl = from_secs 172800, ac_email_change_token_ttl = from_secs 3600,
      ac_oauth = \<lparr>oa_success_redirect_url = None, oa_mfa_redirect_url = None, oa_error_redirect_url = None,
        oa_redirect_allowlist = [], oa_google = None\<rparr>,
      ac_route_prefix = ''auth'', ac_redis_namespace = ''auth'',
      ac_blocked_statuses = [''BANNED'', ''INACTIVE'', ''SUSPENDED''],
      ac_user_status_cache_ttl = from_secs 60,
      ac_controllers = \<lparr>ct_auth = True, ct_password_reset = True, ct_mfa = False, ct_sessions = False,
        ct_platform = False, ct_oauth = False, ct_invitations = False, ct_email_change = False\<rparr>,
      ac_tenant_id_resolver = None, ac_enforce_tenant_binding = False\<rparr>"

definition nest_compat_defaults :: "'w AuthConfig" where
  "nest_compat_defaults = config_base Scrypt"

definition secure_defaults :: "'w AuthConfig" where
  "secure_defaults = config_base Argon2id"

section \<open>Role hierarchies\<close>

definition role_satisfies :: "role_hierarchy \<Rightarrow> string \<Rightarrow> string \<Rightarrow> bool" where
  "role_satisfies hierarchy held_role required_role =
     (if held_role = required_role then True
      else (case map_of hierarchy held_role of
              None \<Rightarrow> False
            | Some included \<Rightarrow> list_ex (\<lambda>role. role = required_role) included))"

definition dashboard_role_satisfies :: "'w AuthConfig \<Rightarrow> string \<Rightarrow> string \<Rightarrow> bool" where
  "dashboard_role_satisfies C held_role required_role =
     role_satisfies (ro_hierarchy (ac_roles C)) held_role required_role"

definition platform_role_satisfies :: "'w AuthConfig \<Rightarrow> string \<Rightarrow> string \<Rightarrow> bool" where
  "platform_role_satisfies C held_role required_role =
     (case ro_platform_hierarchy (ac_roles C) of
        Some hierarchy \<Rightarrow> role_satisfies hierarchy held_role required_role
      | None \<Rightarrow> False)"

fun check_children :: "role_hierarchy \<Rightarrow> string \<Rightarrow> string list \<Rightarrow> ConfigError + unit" where
  "check_children hierarchy role [] = Inr ()"
| "check_children hierarchy role (child # children) =
     (if child \<notin> set (map fst hierarchy) then Inl (UnknownRoleReference role child)
      else check_children hierarchy role children)"

fun check_roles :: "role_hierarchy \<Rightarrow> string list \<Rightarrow> ConfigError + unit" where
  "check_roles hierarchy [] = Inr ()"
| "check_roles hierarchy (role # roles) =
     and_then (check_children hierarchy role (the_default [] (map_of hierarchy role)))
       (\<lambda>_. check_roles hierarchy roles)"

definition validate_referential :: "role_hierarchy \<Rightarrow> ConfigError + unit" where
  "validate_referential hierarchy = check_roles hierarchy (sort (map fst hierarchy))"

section \<open>URLs\<close>

fun split_once_str :: "string \<Rightarrow> string \<Rightarrow> (string \<times> string) option" where
  "split_once_str p [] = (if p = [] then Some ([], []) else None)"
| "split_once_str p (c # cs) =
     (if starts_with p (c # cs) then Some ([], drop (length p) (c # cs))
      else map_option (\<lambda>(a, b). (c # a, b)) (split_once_str p cs))"

definition backslash :: char where
  "backslash = CHR 0x5C"

definition url_host :: "string \<Rightarrow> string option" where
  "url_host url =
     (case (case split_once_str ''://'' url of
              Some (_, rest) \<Rightarrow> Some rest
            | None \<Rightarrow> strip_prefix ''//'' url) of
        None \<Rightarrow> None
      | Some after_scheme \<Rightarrow>
          let authority = takeWhile (\<lambda>c. c \<notin> {CHR ''/'', CHR ''?'', CHR ''#'', backslash}) after_scheme;
              without_userinfo = rev (takeWhile (\<lambda>c. c \<noteq> CHR ''@'') (rev authority));
              host = (if starts_with ''['' without_userinfo then
                        (case split_once (CHR '']'') without_userinfo of
                           None \<Rightarrow> without_userinfo
                         | Some (a, _) \<Rightarrow> a @ '']'')
                      else takeWhile (\<lambda>c. c \<noteq> CHR '':'') without_userinfo)
          in if host = [] then None else Some host)"

definition is_ascii_alphanumeric :: "char \<Rightarrow> bool" where
  "is_ascii_alphanumeric c \<longleftrightarrow>
     (let b = of_char c :: nat in (48 \<le> b \<and> b \<le> 57) \<or> (65 \<le> b \<and> b \<le> 90) \<or> (97 \<le> b \<and> b \<le> 122))"

definition is_bare_origin :: "string \<Rightarrow> bool" where
  "is_bare_origin value =
     (case split_once_str ''://'' value of
        None \<Rightarrow> False
      | Some (scheme, rest) \<Rightarrow>
          if scheme = [] \<or> \<not> list_all (\<lambda>c. is_ascii_alphanumeric c \<or> c = CHR ''+'' \<or> c = CHR ''-'' \<or> c = CHR ''.'') scheme
          then False
          else if rest = [] \<or>
                  list_ex (\<lambda>c. c \<in> {CHR ''/'', CHR ''?'', CHR ''#'', backslash, CHR ''@''}) rest
          then False
          else url_host value \<noteq> None)"

definition is_secure_https :: "string \<Rightarrow> bool" where
  "is_secure_https url \<longleftrightarrow> starts_with ''https://'' url \<and> url_host url \<noteq> None"

definition is_same_origin_path :: "string \<Rightarrow> bool" where
  "is_same_origin_path url \<longleftrightarrow>
     starts_with ''/'' url \<and>
     \<not> (1 < length url \<and> (url ! 1 = CHR ''/'' \<or> url ! 1 = backslash))"

definition is_https_or_relative :: "string \<Rightarrow> bool" where
  "is_https_or_relative url \<longleftrightarrow> is_secure_https url \<or> is_same_origin_path url"

definition host_allowlisted :: "string \<Rightarrow> string list \<Rightarrow> bool" where
  "host_allowlisted url allowlist =
     (case url_host url of
        None \<Rightarrow> True
      | Some host \<Rightarrow> list_ex (\<lambda>allowed. eq_ignore_ascii_case allowed host) allowlist)"

section \<open>Keys\<close>

text \<open>The four decoders of the \<open>base64\<close> crate, the verdict on a secret's entropy, and SHA-256.\<close>

record config_libs =
  cl_low_entropy :: "string \<Rightarrow> bool"
  cl_standard :: "string \<Rightarrow> u8 list option"
  cl_url_safe :: "string \<Rightarrow> u8 list option"
  cl_standard_no_pad :: "string \<Rightarrow> u8 list option"
  cl_url_safe_no_pad :: "string \<Rightarrow> u8 list option"
  cl_sha256 :: digest

definition decode_base64_any :: "config_libs \<Rightarrow> string \<Rightarrow> u8 list option" where
  "decode_base64_any L s =
     (case cl_standard L s of Some b \<Rightarrow> Some b | None \<Rightarrow>
      (case cl_url_safe L s of Some b \<Rightarrow> Some b | None \<Rightarrow>
       (case cl_standard_no_pad L s of Some b \<Rightarrow> Some b | None \<Rightarrow> cl_url_safe_no_pad L s)))"

definition decode_aes256_key :: "config_libs \<Rightarrow> string \<Rightarrow> u8 list option" where
  "decode_aes256_key L encoded =
     (case decode_base64_any L encoded of
        None \<Rightarrow> None
      | Some raw \<Rightarrow> if length raw = 32 then Some raw else None)"

definition HMAC_KEY_LABEL :: string where
  "HMAC_KEY_LABEL = ''bymax-auth:hmac-key:v1''"

definition derive_hmac_key :: "config_libs \<Rightarrow> string \<Rightarrow> u8 list" where
  "derive_hmac_key L secret =
     as_bytes (to_hex (cl_sha256 L (as_bytes (HMAC_KEY_LABEL @ '':'' @ secret))))"

definition hmac_key :: "config_libs \<Rightarrow> 'w AuthConfig \<Rightarrow> u8 list" where
  "hmac_key L C =
     derive_hmac_key L (case ac_identifier_key C of Some k \<Rightarrow> k | None \<Rightarrow> jc_secret (ac_jwt C))"

definition previous_hmac_keys :: "config_libs \<Rightarrow> 'w AuthConfig \<Rightarrow> u8 list list" where
  "previous_hmac_keys L C = map (derive_hmac_key L) (jc_previous_secrets (ac_jwt C))"

section \<open>Validation\<close>

definition MIN_SECRET_LEN :: nat where
  "MIN_SECRET_LEN = 32"

definition MAX_REFRESH_GRACE_WINDOW_SECS :: nat where
  "MAX_REFRESH_GRACE_WINDOW_SECS = 300"

definition MAX_VERIFY_WINDOW :: nat where
  "MAX_VERIFY_WINDOW = 2"

text \<open>The number of characters of a UTF-8 text.\<close>

definition char_count :: "string \<Rightarrow> nat" where
  "char_count s = length (char_offsets s)"

definition resolve_secure_cookies :: "'w AuthConfig \<Rightarrow> Environment \<Rightarrow> bool" where
  "resolve_secure_cookies C environment =
     (case ac_secure_cookies C of Some b \<Rightarrow> b | None \<Rightarrow> environment = Production)"

definition validate_secret ::
    "config_libs \<Rightarrow> (nat \<Rightarrow> ConfigError) \<Rightarrow> ConfigError \<Rightarrow> string \<Rightarrow> ConfigError + unit" where
  "validate_secret L too_short low_entropy secret =
     (let len = char_count secret in
      if len < MIN_SECRET_LEN then Inl (too_short len)
      else if cl_low_entropy L secret then Inl low_entropy
      else Inr ())"

fun validate_previous_secrets :: "config_libs \<Rightarrow> string list \<Rightarrow> string list \<Rightarrow> ConfigError + unit" where
  "validate_previous_secrets L earlier [] = Inr ()"
| "validate_previous_secrets L earlier (previous # rest) =
     and_then (validate_secret L JwtSecretTooShort JwtSecretLowEntropy previous) (\<lambda>_.
       if previous \<in> set earlier then Inl PreviousSecretRepeated
       else validate_previous_secrets L (earlier @ [previous]) rest)"

definition validate_lifetimes :: "'w AuthConfig \<Rightarrow> ConfigError + unit" where
  "validate_lifetimes C =
     (let jwt = ac_jwt C; grace = as_secs (jc_refresh_grace_window jwt);
          lifetime = jc_refresh_expires_in_days jwt * 86400; access = as_secs (jc_access_expires_in jwt) in
      if jc_refresh_expires_in_days jwt = 0 then Inl (RefreshLifetimeInvalid 0)
      else if grace \<ge> lifetime then Inl (RefreshGraceTooLarge grace lifetime)
      else if grace > MAX_REFRESH_GRACE_WINDOW_SECS then
        Inl (RefreshGraceCeiling grace MAX_REFRESH_GRACE_WINDOW_SECS)
      else if as_secs (bf_window (ac_brute_force C)) = 0 then Inl BruteForceWindowInvalid
      else if \<not> (1 \<le> bf_max_attempts (ac_brute_force C) \<and> bf_max_attempts (ac_brute_force C) \<le> 100) then
        Inl (BruteForceAttemptsRange (bf_max_attempts (ac_brute_force C)))
      else if access > token_epoch_retention_secs then
        Inl (AccessLifetimeExceedsEpochRetention access token_epoch_retention_secs)
      else Inr ())"

fun validate_previous_keys :: "config_libs \<Rightarrow> string list \<Rightarrow> string list \<Rightarrow> ConfigError + unit" where
  "validate_previous_keys L earlier [] = Inr ()"
| "validate_previous_keys L earlier (previous # rest) =
     (if decode_aes256_key L previous = None then Inl MfaKeyInvalidBase64
      else if previous \<in> set earlier then Inl PreviousSecretRepeated
      else validate_previous_keys L (earlier @ [previous]) rest)"

definition validate_roles :: "'w AuthConfig \<Rightarrow> ConfigError + unit" where
  "validate_roles C =
     (if ro_hierarchy (ac_roles C) = [] then Inl EmptyRoleHierarchy
      else
        and_then (validate_referential (ro_hierarchy (ac_roles C))) (\<lambda>_.
        and_then (case ro_platform_hierarchy (ac_roles C) of
                    None \<Rightarrow> Inr () | Some platform_hierarchy \<Rightarrow> validate_referential platform_hierarchy) (\<lambda>_.
        if ac_platform_enabled C \<and> ro_platform_hierarchy (ac_roles C) = None then Inl MissingPlatformHierarchy
        else Inr ())))"

definition validate_password :: "PasswordConfig \<Rightarrow> ConfigError + unit" where
  "validate_password password =
     (if \<not> is_power_of_two (sp_cost_factor (pwc_scrypt password)) \<or> sp_cost_factor (pwc_scrypt password) < 16384 then
        Inl (ScryptCostFactor (sp_cost_factor (pwc_scrypt password)))
      else if sp_block_size (pwc_scrypt password) < 8 then
        Inl (ScryptBlockSize (sp_block_size (pwc_scrypt password)))
      else if sp_parallelization (pwc_scrypt password) < 1 then
        Inl (ScryptParallelization (sp_parallelization (pwc_scrypt password)))
      else if ag_memory_kib (pwc_argon2 password) < 19456 then
        Inl (Argon2Memory (ag_memory_kib (pwc_argon2 password)))
      else if ag_iterations (pwc_argon2 password) < 2 then
        Inl (Argon2Iterations (ag_iterations (pwc_argon2 password)))
      else if ag_parallelism (pwc_argon2 password) < 1 then
        Inl (Argon2Parallelism (ag_parallelism (pwc_argon2 password)))
      else Inr ())"

definition validate_mfa_key :: "config_libs \<Rightarrow> MfaConfig \<Rightarrow> ConfigError + unit" where
  "validate_mfa_key L mfa =
     (case decode_base64_any L (mf_encryption_key mfa) of
        None \<Rightarrow> Inl MfaKeyInvalidBase64
      | Some raw \<Rightarrow>
          if length raw \<noteq> 32 then Inl (MfaKeyLength (length raw))
          else if trim (mf_issuer mfa) = [] then Inl MfaIssuerMissing
          else Inr ())"

definition validate_mfa_bounds :: "MfaConfig \<Rightarrow> ConfigError + unit" where
  "validate_mfa_bounds mfa =
     (if mf_totp_window mfa > MAX_VERIFY_WINDOW then
        Inl (TotpWindowRange (mf_totp_window mfa) (mf_totp_window mfa * 2 + 1))
      else if \<not> (1 \<le> mf_recovery_code_count mfa \<and> mf_recovery_code_count mfa \<le> 50) then
        Inl (RecoveryCodeCountRange (mf_recovery_code_count mfa))
      else Inr ())"

definition allowlist_candidate_urls :: "'w AuthConfig \<Rightarrow> string list" where
  "allowlist_candidate_urls C =
     List.map_filter id [oa_success_redirect_url (ac_oauth C), oa_mfa_redirect_url (ac_oauth C),
       oa_error_redirect_url (ac_oauth C)] @
     (case oa_google (ac_oauth C) of None \<Rightarrow> [] | Some google \<Rightarrow> [go_callback_url google])"

definition validate_google :: "Environment \<Rightarrow> GoogleOAuthConfig \<Rightarrow> ConfigError + unit" where
  "validate_google environment google =
     (if trim (go_client_id google) = [] then Inl (OAuthFieldMissing ''google'' ''client_id'')
      else if trim (go_client_secret google) = [] then Inl (OAuthFieldMissing ''google'' ''client_secret'')
      else if trim (go_callback_url google) = [] then Inl (OAuthFieldMissing ''google'' ''callback_url'')
      else if environment = Production \<and> \<not> is_secure_https (go_callback_url google) then
        Inl (OAuthCallbackInsecure ''google'' (go_callback_url google))
      else Inr ())"

fun check_redirects :: "(string \<times> string option) list \<Rightarrow> ConfigError + unit" where
  "check_redirects [] = Inr ()"
| "check_redirects ((kind, url) # rest) =
     (case url of
        Some u \<Rightarrow> if \<not> is_https_or_relative u then Inl (OAuthRedirectInsecure kind u) else check_redirects rest
      | None \<Rightarrow> check_redirects rest)"

fun check_allowlisted :: "string list \<Rightarrow> string list \<Rightarrow> ConfigError + unit" where
  "check_allowlisted allowlist [] = Inr ()"
| "check_allowlisted allowlist (url # urls) =
     (if \<not> host_allowlisted url allowlist then Inl (OAuthRedirectNotAllowlisted url)
      else check_allowlisted allowlist urls)"

definition validate_oauth :: "'w AuthConfig \<Rightarrow> Environment \<Rightarrow> ConfigError + unit" where
  "validate_oauth C environment =
     and_then (case oa_google (ac_oauth C) of None \<Rightarrow> Inr () | Some google \<Rightarrow> validate_google environment google) (\<lambda>_.
       if oa_success_redirect_url (ac_oauth C) \<noteq> None \<and> \<not> (ac_token_delivery C = Cookie \<or> ac_token_delivery C = Both)
       then Inl OAuthRedirectNeedsCookie
       else if environment = Production then
         and_then (check_redirects [(''success'', oa_success_redirect_url (ac_oauth C)),
             (''mfa'', oa_mfa_redirect_url (ac_oauth C)), (''error'', oa_error_redirect_url (ac_oauth C))]) (\<lambda>_.
           if oa_redirect_allowlist (ac_oauth C) \<noteq> [] then
             check_allowlisted (oa_redirect_allowlist (ac_oauth C)) (allowlist_candidate_urls C)
           else Inr ())
       else Inr ())"

fun check_origins :: "string list \<Rightarrow> ConfigError + unit" where
  "check_origins [] = Inr ()"
| "check_origins (origin # rest) =
     (if \<not> is_bare_origin origin then Inl (TrustedOriginMalformed origin) else check_origins rest)"

definition validate_trusted_origins :: "'w AuthConfig \<Rightarrow> ConfigError + unit" where
  "validate_trusted_origins C =
     (if ck_same_site (ac_cookies C) = SameSite_None \<and> ck_trusted_origins (ac_cookies C) = [] then
        Inl TrustedOriginsRequired
      else check_origins (ck_trusted_origins (ac_cookies C)))"

definition SECURE_PREFIX :: string where
  "SECURE_PREFIX = ''__Secure-''"

definition HOST_PREFIX :: string where
  "HOST_PREFIX = ''__Host-''"

definition unmet_requirement :: "CookieConfig \<Rightarrow> bool \<Rightarrow> string \<Rightarrow> string \<Rightarrow> string option" where
  "unmet_requirement cookies secure name path =
     (if starts_with HOST_PREFIX name then
        (if \<not> secure then Some ''secure_cookies = true''
         else if path \<noteq> ''/'' then Some (''Path=/ (this cookie uses '' @ [CHR 0x27] @ path @ [CHR 0x27] @ '')'')
         else if ck_resolve_domains cookies \<noteq> None then Some ''no cookies.resolve_domains''
         else None)
      else if starts_with SECURE_PREFIX name \<and> \<not> secure then Some ''secure_cookies = true''
      else None)"

fun check_prefixes :: "CookieConfig \<Rightarrow> bool \<Rightarrow> (string \<times> string \<times> string) list \<Rightarrow> ConfigError + unit" where
  "check_prefixes cookies secure [] = Inr ()"
| "check_prefixes cookies secure ((option, name, path) # rest) =
     (case unmet_requirement cookies secure name path of
        Some requirement \<Rightarrow> Inl (CookiePrefixUnsatisfied option name requirement)
      | None \<Rightarrow> check_prefixes cookies secure rest)"

definition validate_cookie_prefixes :: "CookieConfig \<Rightarrow> bool \<Rightarrow> ConfigError + unit" where
  "validate_cookie_prefixes cookies secure =
     check_prefixes cookies secure
       [(''cookies.access_token_name'', ck_access_token_name cookies, ''/''),
        (''cookies.refresh_token_name'', ck_refresh_token_name cookies, ck_refresh_cookie_path cookies),
        (''cookies.session_signal_name'', ck_session_signal_name cookies, ''/'')]"

definition validate :: "config_libs \<Rightarrow> 'w AuthConfig \<Rightarrow> Environment \<Rightarrow> ConfigError + bool" where
  "validate L C environment =
     (let secure_cookies = resolve_secure_cookies C environment in
      and_then (ensure (\<not> (ac_enforce_tenant_binding C \<and> ac_tenant_id_resolver C = None)) TenantBindingWithoutResolver) (\<lambda>_.
      and_then (validate_secret L JwtSecretTooShort JwtSecretLowEntropy (jc_secret (ac_jwt C))) (\<lambda>_.
      and_then (case ac_identifier_key C of None \<Rightarrow> Inr ()
                | Some k \<Rightarrow> validate_secret L IdentifierKeyTooShort IdentifierKeyLowEntropy k) (\<lambda>_.
      and_then (validate_previous_secrets L [jc_secret (ac_jwt C)] (jc_previous_secrets (ac_jwt C))) (\<lambda>_.
      and_then (validate_lifetimes C) (\<lambda>_.
      and_then (case ac_mfa C of None \<Rightarrow> Inr ()
                | Some mfa \<Rightarrow> validate_previous_keys L [mf_encryption_key mfa] (mf_previous_encryption_keys mfa)) (\<lambda>_.
      and_then (validate_roles C) (\<lambda>_.
      and_then (validate_password (ac_password C)) (\<lambda>_.
      and_then (case ac_mfa C of None \<Rightarrow> Inr () | Some mfa \<Rightarrow> validate_mfa_key L mfa) (\<lambda>_.
      and_then (ensure (\<not> (ct_mfa (ac_controllers C) \<and> ac_mfa C = None)) MfaToggleWithoutConfig) (\<lambda>_.
      and_then (case ac_mfa C of None \<Rightarrow> Inr () | Some mfa \<Rightarrow> validate_mfa_bounds mfa) (\<lambda>_.
      and_then (ensure (4 \<le> pr_otp_length (ac_password_reset C) \<and> pr_otp_length (ac_password_reset C) \<le> 8)
                 (OtpLengthRange (pr_otp_length (ac_password_reset C)))) (\<lambda>_.
      and_then (validate_oauth C environment) (\<lambda>_.
      and_then (ensure (\<not> (ck_same_site (ac_cookies C) = SameSite_None \<and> \<not> secure_cookies)) SameSiteNoneRequiresSecure) (\<lambda>_.
      and_then (ensure (\<not> (environment = Production \<and> ac_secure_cookies C = Some False))
                 SecureCookiesRequiredInProduction) (\<lambda>_.
      and_then (validate_trusted_origins C) (\<lambda>_.
      and_then (ensure (\<not> (ac_route_prefix C \<noteq> ''auth'' \<and> ck_refresh_cookie_path (ac_cookies C) = ''/auth''))
                 (RefreshPathMismatch (ac_route_prefix C))) (\<lambda>_.
      and_then (validate_cookie_prefixes (ac_cookies C) secure_cookies) (\<lambda>_.
        Inr secure_cookies)))))))))))))))))))"

section \<open>What an accepted configuration satisfies\<close>

lemma validate_Inr:
  assumes "validate L C environment = Inr secure"
  shows "secure = resolve_secure_cookies C environment"
    and "validate_previous_secrets L [jc_secret (ac_jwt C)] (jc_previous_secrets (ac_jwt C)) = Inr ()"
    and "validate_lifetimes C = Inr ()" and "validate_roles C = Inr ()"
    and "validate_password (ac_password C) = Inr ()"
    and "4 \<le> pr_otp_length (ac_password_reset C) \<and> pr_otp_length (ac_password_reset C) \<le> 8"
    and "validate_oauth C environment = Inr ()"
    and "ck_same_site (ac_cookies C) = SameSite_None \<Longrightarrow> secure"
    and "environment = Production \<Longrightarrow> ac_secure_cookies C \<noteq> Some False"
    and "validate_trusted_origins C = Inr ()"
    and "validate_cookie_prefixes (ac_cookies C) secure = Inr ()"
  using assms unfolding validate_def Let_def and_then_eq_Inr ensure_eq_Inr by auto

lemma validate_password_Inr:
  assumes "validate_password p = Inr ()"
  shows "is_power_of_two (sp_cost_factor (pwc_scrypt p))" "16384 \<le> sp_cost_factor (pwc_scrypt p)"
    "8 \<le> sp_block_size (pwc_scrypt p)" "1 \<le> sp_parallelization (pwc_scrypt p)"
    "19456 \<le> ag_memory_kib (pwc_argon2 p)" "2 \<le> ag_iterations (pwc_argon2 p)" "1 \<le> ag_parallelism (pwc_argon2 p)"
  using assms by (auto simp: validate_password_def split: if_splits)

lemma check_children_Inr: "check_children h role cs = Inr () \<Longrightarrow> set cs \<subseteq> set (map fst h)"
  by (induction cs) (auto split: if_splits)

lemma check_roles_Inr:
  "check_roles h roles = Inr () \<Longrightarrow> role \<in> set roles \<Longrightarrow> map_of h role = Some included \<Longrightarrow>
     set included \<subseteq> set (map fst h)"
proof (induction roles)
  case (Cons r roles)
  then have "check_children h r (the_default [] (map_of h r)) = Inr ()" "check_roles h roles = Inr ()"
    by (auto simp: and_then_eq_Inr)
  with Cons show ?case by (cases "role = r") (simp_all add: the_default_def check_children_Inr del: set_map)
qed simp

lemma validate_referential_Inr:
  assumes "validate_referential h = Inr ()" and "map_of h role = Some included" and "child \<in> set included"
  shows "child \<in> set (map fst h)"
proof -
  have "role \<in> set (sort (map fst h))" using assms(2) by (force dest: map_of_SomeD)
  with assms show ?thesis using check_roles_Inr unfolding validate_referential_def by blast
qed

lemma validate_previous_secrets_distinct:
  "validate_previous_secrets L earlier previous = Inr () \<Longrightarrow> distinct earlier \<Longrightarrow> distinct (earlier @ previous)"
proof (induction previous arbitrary: earlier)
  case (Cons p ps)
  then have "p \<notin> set earlier" "validate_previous_secrets L (earlier @ [p]) ps = Inr ()"
    by (auto simp: and_then_eq_Inr split: if_splits)
  with Cons.IH [of "earlier @ [p]"] Cons.prems(2) show ?case by simp
qed simp

lemma check_redirects_Inr:
  "check_redirects urls = Inr () \<Longrightarrow> (kind, Some u) \<in> set urls \<Longrightarrow> is_https_or_relative u"
proof (induction urls)
  case (Cons x urls)
  then show ?case by (cases x) (auto split: if_splits option.splits)
qed simp

lemma check_allowlisted_Inr: "check_allowlisted allowed urls = Inr () \<Longrightarrow> u \<in> set urls \<Longrightarrow> host_allowlisted u allowed"
  by (induction urls) (auto split: if_splits)

lemma check_origins_Inr: "check_origins origins = Inr () \<Longrightarrow> u \<in> set origins \<Longrightarrow> is_bare_origin u"
  by (induction origins) (auto split: if_splits)

lemma check_prefixes_Inr:
  "check_prefixes cookies secure named = Inr () \<Longrightarrow> (opt, name, path) \<in> set named \<Longrightarrow>
     unmet_requirement cookies secure name path = None"
proof (induction named)
  case (Cons x named)
  then show ?case by (cases x) (auto split: option.splits)
qed simp

text \<open>A browser keeps a prefixed cookie only with the attributes its prefix demands.\<close>

definition prefix_satisfied :: "CookieConfig \<Rightarrow> bool \<Rightarrow> string \<Rightarrow> string \<Rightarrow> bool" where
  "prefix_satisfied cookies secure name path \<longleftrightarrow>
     (starts_with HOST_PREFIX name \<longrightarrow> secure \<and> path = ''/'' \<and> ck_resolve_domains cookies = None) \<and>
     (starts_with SECURE_PREFIX name \<longrightarrow> secure)"

lemma unmet_requirement_None: "unmet_requirement cookies secure name path = None \<Longrightarrow> prefix_satisfied cookies secure name path"
  by (auto simp: unmet_requirement_def prefix_satisfied_def split: if_splits)

lemma checks_in_turn:
  fixes x y z :: "'e + unit"
  assumes "and_then x (\<lambda>_. if b then Inl e else if p then and_then y (\<lambda>_. if c then z else Inr ()) else Inr ()) = Inr ()"
    and p
  shows "y = Inr ()" and "c \<Longrightarrow> z = Inr ()"
  using assms by (cases x; cases y; simp split: if_splits)+

lemma redirects_safe:
  assumes "validate_oauth C Production = Inr ()"
    and "Some u \<in> {oa_success_redirect_url (ac_oauth C), oa_mfa_redirect_url (ac_oauth C), oa_error_redirect_url (ac_oauth C)}"
  shows "is_https_or_relative u" and "oa_redirect_allowlist (ac_oauth C) \<noteq> [] \<Longrightarrow> host_allowlisted u (oa_redirect_allowlist (ac_oauth C))"
proof -
  let ?rs = "[(''success'', oa_success_redirect_url (ac_oauth C)), (''mfa'', oa_mfa_redirect_url (ac_oauth C)),
    (''error'', oa_error_redirect_url (ac_oauth C))]"
  note oauth = checks_in_turn [OF assms(1) [unfolded validate_oauth_def] HOL.refl]
  have "Some u \<in> snd ` set ?rs" using assms(2) by (elim insertE emptyE) simp_all
  then obtain kind where "(kind, Some u) \<in> set ?rs" by (elim imageE) (metis prod.collapse)
  with oauth(1) show "is_https_or_relative u" by (rule check_redirects_Inr)
  from assms(2) have "u \<in> set (allowlist_candidate_urls C)"
    by (auto simp: allowlist_candidate_urls_def List.map_filter_def)
  with oauth(2) show "oa_redirect_allowlist (ac_oauth C) \<noteq> [] \<Longrightarrow> host_allowlisted u (oa_redirect_allowlist (ac_oauth C))"
    using check_allowlisted_Inr by blast
qed

text \<open>
  C31. A configuration that startup accepts is coherent: the replay window of a spent refresh token is
  shorter than its lifetime and at most five minutes, a failed-login counter lives at least a second
  and trips after one to a hundred attempts, no access token outlives the epoch that can revoke it, no
  retired signing secret repeats another or the current one, every role a role includes is declared,
  on the dashboard and on the platform plane, which has roles whenever it is enabled, password hashing costs
  at least the floors of both algorithms, production cookies are \<open>Secure\<close> and so are cross-site ones, every prefixed cookie name can be honoured
  by a browser, and in production every OAuth redirect is an https address or a path of this origin
  whose host is allow-listed whenever a list is given.
\<close>

theorem accepted_config_coherent:
  assumes "validate L C environment = Inr secure"
  shows "as_secs (jc_refresh_grace_window (ac_jwt C)) < jc_refresh_expires_in_days (ac_jwt C) * 86400 \<and>
      as_secs (jc_refresh_grace_window (ac_jwt C)) \<le> 300 \<and>
      0 < as_secs (bf_window (ac_brute_force C)) \<and>
      bf_max_attempts (ac_brute_force C) \<in> {1..100} \<and>
      as_secs (jc_access_expires_in (ac_jwt C)) \<le> token_epoch_retention_secs \<and>
      distinct (jc_secret (ac_jwt C) # jc_previous_secrets (ac_jwt C)) \<and>
      (\<forall>role included child. map_of (ro_hierarchy (ac_roles C)) role = Some included \<longrightarrow> child \<in> set included \<longrightarrow>
         child \<in> set (map fst (ro_hierarchy (ac_roles C)))) \<and>
      (\<forall>platform role included child. ro_platform_hierarchy (ac_roles C) = Some platform \<longrightarrow>
         map_of platform role = Some included \<longrightarrow> child \<in> set included \<longrightarrow> child \<in> set (map fst platform)) \<and>
      ro_hierarchy (ac_roles C) \<noteq> [] \<and> (ac_platform_enabled C \<longrightarrow> ro_platform_hierarchy (ac_roles C) \<noteq> None) \<and>
      is_power_of_two (sp_cost_factor (pwc_scrypt (ac_password C))) \<and> 16384 \<le> sp_cost_factor (pwc_scrypt (ac_password C)) \<and>
      8 \<le> sp_block_size (pwc_scrypt (ac_password C)) \<and> 1 \<le> sp_parallelization (pwc_scrypt (ac_password C)) \<and>
      19456 \<le> ag_memory_kib (pwc_argon2 (ac_password C)) \<and> 2 \<le> ag_iterations (pwc_argon2 (ac_password C)) \<and>
      1 \<le> ag_parallelism (pwc_argon2 (ac_password C)) \<and>
      (environment = Production \<or> ck_same_site (ac_cookies C) = SameSite_None \<longrightarrow> secure) \<and>
      (\<forall>origin \<in> set (ck_trusted_origins (ac_cookies C)). is_bare_origin origin) \<and>
      prefix_satisfied (ac_cookies C) secure (ck_access_token_name (ac_cookies C)) ''/'' \<and>
      prefix_satisfied (ac_cookies C) secure (ck_refresh_token_name (ac_cookies C)) (ck_refresh_cookie_path (ac_cookies C)) \<and>
      prefix_satisfied (ac_cookies C) secure (ck_session_signal_name (ac_cookies C)) ''/'' \<and>
      (environment = Production \<longrightarrow>
        (\<forall>u. Some u \<in> {oa_success_redirect_url (ac_oauth C), oa_mfa_redirect_url (ac_oauth C),
            oa_error_redirect_url (ac_oauth C)} \<longrightarrow>
          is_https_or_relative u \<and>
          (oa_redirect_allowlist (ac_oauth C) \<noteq> [] \<longrightarrow> host_allowlisted u (oa_redirect_allowlist (ac_oauth C)))))"
proof -
  note v = validate_Inr [OF assms]
  have lifetimes: "as_secs (jc_refresh_grace_window (ac_jwt C)) < jc_refresh_expires_in_days (ac_jwt C) * 86400 \<and>
      as_secs (jc_refresh_grace_window (ac_jwt C)) \<le> 300 \<and> 0 < as_secs (bf_window (ac_brute_force C)) \<and>
      bf_max_attempts (ac_brute_force C) \<in> {1..100} \<and>
      as_secs (jc_access_expires_in (ac_jwt C)) \<le> token_epoch_retention_secs"
    using v(3) by (auto simp: validate_lifetimes_def Let_def MAX_REFRESH_GRACE_WINDOW_SECS_def split: if_splits)
  have roles: "validate_referential (ro_hierarchy (ac_roles C)) = Inr ()"
    and platform: "ro_platform_hierarchy (ac_roles C) = Some platform \<Longrightarrow> validate_referential platform = Inr ()"
    and declared: "ro_hierarchy (ac_roles C) \<noteq> []" "ac_platform_enabled C \<longrightarrow> ro_platform_hierarchy (ac_roles C) \<noteq> None"
    for platform
    using v(4) by (auto simp: validate_roles_def and_then_eq_Inr split: if_splits)
  have secure: "environment = Production \<Longrightarrow> secure"
    using v(1,9) by (auto simp: resolve_secure_cookies_def split: option.splits)
  have origins: "check_origins (ck_trusted_origins (ac_cookies C)) = Inr ()"
    using v(10) by (auto simp: validate_trusted_origins_def split: if_splits)
  have prefixes: "prefix_satisfied (ac_cookies C) secure name path"
    if "(opt, name, path) \<in> set [(''cookies.access_token_name'', ck_access_token_name (ac_cookies C), ''/''),
      (''cookies.refresh_token_name'', ck_refresh_token_name (ac_cookies C), ck_refresh_cookie_path (ac_cookies C)),
      (''cookies.session_signal_name'', ck_session_signal_name (ac_cookies C), ''/'')]" for opt name path
    using check_prefixes_Inr [OF v(11) [unfolded validate_cookie_prefixes_def] that] by (rule unmet_requirement_None)
  have cookies: "prefix_satisfied (ac_cookies C) secure (ck_access_token_name (ac_cookies C)) ''/''"
    "prefix_satisfied (ac_cookies C) secure (ck_refresh_token_name (ac_cookies C)) (ck_refresh_cookie_path (ac_cookies C))"
    "prefix_satisfied (ac_cookies C) secure (ck_session_signal_name (ac_cookies C)) ''/''"
    using prefixes [of "''cookies.access_token_name''"] prefixes [of "''cookies.refresh_token_name''"]
      prefixes [of "''cookies.session_signal_name''"] by simp_all
  have distinct: "distinct (jc_secret (ac_jwt C) # jc_previous_secrets (ac_jwt C))"
    using validate_previous_secrets_distinct [OF v(2)] by simp
  have redirects: "is_https_or_relative u \<and>
      (oa_redirect_allowlist (ac_oauth C) \<noteq> [] \<longrightarrow> host_allowlisted u (oa_redirect_allowlist (ac_oauth C)))"
    if "environment = Production" "Some u \<in> {oa_success_redirect_url (ac_oauth C), oa_mfa_redirect_url (ac_oauth C),
      oa_error_redirect_url (ac_oauth C)}" for u
    using redirects_safe [OF v(7) [unfolded that(1)] that(2)] by blast
  show ?thesis
    using lifetimes distinct validate_referential_Inr [OF roles] validate_referential_Inr [OF platform] declared
      validate_password_Inr [OF v(5)] secure v(8) check_origins_Inr [OF origins] cookies redirects
    by blast
qed

text \<open>The compatible profile with a secret and two roles.\<close>

definition sample_config_libs :: config_libs where
  "sample_config_libs =
     \<lparr>cl_low_entropy = (\<lambda>_. False), cl_standard = (\<lambda>s. Some (as_bytes s)), cl_url_safe = (\<lambda>_. None),
      cl_standard_no_pad = (\<lambda>_. None), cl_url_safe_no_pad = (\<lambda>_. None), cl_sha256 = (\<lambda>b. take 32 (b @ replicate 32 0))\<rparr>"

definition sample_config :: "unit AuthConfig" where
  "sample_config = nest_compat_defaults
     \<lparr>ac_jwt := jwt_config_default\<lparr>jc_secret := ''0123456789abcdef0123456789abcdef''\<rparr>,
      ac_roles := \<lparr>ro_hierarchy = [(''ADMIN'', [''MEMBER'']), (''MEMBER'', [])], ro_platform_hierarchy = None\<rparr>,
      ac_oauth := \<lparr>oa_success_redirect_url = Some ''/home'', oa_mfa_redirect_url = None,
        oa_error_redirect_url = Some ''https://app.example.com/failed'',
        oa_redirect_allowlist = [''App.Example.com''], oa_google = None\<rparr>\<rparr>"

lemmas config_defaults = nest_compat_defaults_def config_base_def jwt_config_default_def password_config_default_def
  cookie_config_default_def scrypt_default_def argon2_default_def MIN_MEMORY_KIB_def MIN_ITERATIONS_def

lemma default_password_valid: "validate_password password_config_default = Inr ()"
proof -
  have "is_power_of_two (2 ^ 17)" by (simp add: is_power_of_two_def count_ones.simps)
  then show ?thesis by (simp add: validate_password_def config_defaults)
qed

lemma sample_config_parts:
  "validate_secret sample_config_libs JwtSecretTooShort JwtSecretLowEntropy ''0123456789abcdef0123456789abcdef'' = Inr ()"
  "validate_referential [(''ADMIN'', [''MEMBER'']), (''MEMBER'', [])] = Inr ()"
  "is_https_or_relative ''/home''" "is_https_or_relative ''https://app.example.com/failed''"
  "host_allowlisted ''/home'' [''App.Example.com'']"
  "host_allowlisted ''https://app.example.com/failed'' [''App.Example.com'']"
  by code_simp+

lemma sample_config_prefixes: "validate_cookie_prefixes cookie_config_default True = Inr ()"
  by (simp add: validate_cookie_prefixes_def unmet_requirement_def starts_with_def HOST_PREFIX_def SECURE_PREFIX_def
      cookie_config_default_def)

lemma sample_config_accepted: "validate sample_config_libs sample_config Production = Inr True"
proof -
  have lifetimes: "validate_lifetimes sample_config = Inr ()"
    by (simp add: validate_lifetimes_def sample_config_def config_defaults as_secs_def from_secs_def
        MAX_REFRESH_GRACE_WINDOW_SECS_def token_epoch_retention_secs_def)
  have oauth: "validate_oauth sample_config Production = Inr ()"
    using sample_config_parts(3-6)
    by (simp add: validate_oauth_def sample_config_def allowlist_candidate_urls_def List.map_filter_def config_defaults)
  show ?thesis
    using lifetimes oauth sample_config_parts(1,2) default_password_valid sample_config_prefixes
    by (simp add: validate_def sample_config_def nest_compat_defaults_def config_base_def jwt_config_default_def
        resolve_secure_cookies_def validate_roles_def validate_trusted_origins_def ensure_def password_config_default_def
        cookie_config_default_def)
qed

theorem accepted_config_coherent_witness:
  "validate sample_config_libs sample_config Production = Inr True \<and>
     host_allowlisted ''https://app.example.com/failed'' [''App.Example.com'']"
  using accepted_config_coherent [OF sample_config_accepted] sample_config_accepted
  by (simp add: sample_config_def)

end
