(* ===== verification/Collaborators.thy ===== *)
theory Collaborators
  imports Auth_Config
begin

text \<open>
  What an application supplies: its repositories (\<open>traits/repository.rs\<close>), the decision hooks of
  \<open>traits/hooks.rs\<close>, the mail provider (\<open>traits/email.rs\<close>) and the records they exchange
  (\<open>bymax-auth-types/src/domain.rs\<close>, \<open>traits/oauth.rs\<close>).

  The application is a state \<open>'w\<close> of its own: its repositories, hooks, mailer and resolvers are
  computations over it, so an answer may change from one call to the next and a write may change every
  later answer. A flow of the engine runs on an \<open>engine_state\<close>, the host together with the
  application. Mail and hooks the engine does not wait for are recorded as spawned notifications of
  the host instead.
\<close>

section \<open>The application\<close>

datatype RepositoryError = Conflict string | Backend string

datatype HookError = Rejected string | HookInternal string

record CreateUserData =
  cu_email :: string
  cu_name :: string
  cu_password_hash :: "string option"
  cu_role :: "string option"
  cu_status :: "string option"
  cu_tenant_id :: string
  cu_email_verified :: "bool option"

record CreateWithOAuthData =
  co_email :: string
  co_name :: string
  co_role :: "string option"
  co_status :: "string option"
  co_tenant_id :: string
  co_email_verified :: "bool option"
  co_oauth_provider :: string
  co_oauth_provider_id :: string

record UpdateMfaData =
  um_mfa_enabled :: bool
  um_mfa_secret :: "string option"
  um_mfa_recovery_codes :: "string list option"

record UpdatePlatformMfaData =
  upm_mfa_enabled :: bool
  upm_mfa_secret :: "string option"
  upm_mfa_recovery_codes :: "string list option"

record 'w UserRepository =
  ur_find_by_id :: "string \<Rightarrow> string option \<Rightarrow> ('w, RepositoryError, AuthUser option) io"
  ur_find_by_email :: "string \<Rightarrow> string \<Rightarrow> ('w, RepositoryError, AuthUser option) io"
  ur_create :: "CreateUserData \<Rightarrow> ('w, RepositoryError, AuthUser) io"
  ur_update_password :: "string \<Rightarrow> string \<Rightarrow> string \<Rightarrow> ('w, RepositoryError, unit) io"
  ur_update_mfa :: "string \<Rightarrow> string \<Rightarrow> UpdateMfaData \<Rightarrow> ('w, RepositoryError, unit) io"
  ur_update_last_login :: "string \<Rightarrow> string \<Rightarrow> ('w, RepositoryError, unit) io"
  ur_update_status :: "string \<Rightarrow> string \<Rightarrow> string \<Rightarrow> ('w, RepositoryError, unit) io"
  ur_update_email_verified :: "string \<Rightarrow> string \<Rightarrow> bool \<Rightarrow> ('w, RepositoryError, unit) io"
  ur_update_email :: "string \<Rightarrow> string \<Rightarrow> string \<Rightarrow> ('w, RepositoryError, unit) io"
  ur_find_by_oauth_id :: "string \<Rightarrow> string \<Rightarrow> string \<Rightarrow> ('w, RepositoryError, AuthUser option) io"
  ur_link_oauth :: "string \<Rightarrow> string \<Rightarrow> string \<Rightarrow> ('w, RepositoryError, unit) io"
  ur_create_with_oauth :: "CreateWithOAuthData \<Rightarrow> ('w, RepositoryError, AuthUser) io"

record 'w PlatformUserRepository =
  pu_find_by_id :: "string \<Rightarrow> ('w, RepositoryError, AuthPlatformUser option) io"
  pu_find_by_email :: "string \<Rightarrow> ('w, RepositoryError, AuthPlatformUser option) io"
  pu_update_last_login :: "string \<Rightarrow> ('w, RepositoryError, unit) io"
  pu_update_mfa :: "string \<Rightarrow> UpdatePlatformMfaData \<Rightarrow> ('w, RepositoryError, unit) io"
  pu_update_password :: "string \<Rightarrow> string \<Rightarrow> ('w, RepositoryError, unit) io"
  pu_update_status :: "string \<Rightarrow> string \<Rightarrow> ('w, RepositoryError, unit) io"

record RegisterAttempt =
  ra_email :: string
  ra_name :: string
  ra_tenant_id :: string

record RegisterOverrides =
  ov_role :: "string option"
  ov_status :: "string option"
  ov_email_verified :: "bool option"

datatype BeforeRegisterResult = Allow RegisterOverrides | Reject "string option"

record OAuthProfile =
  op_provider :: string
  op_provider_id :: string
  op_email :: string
  op_email_verified :: bool
  op_name :: "string option"
  op_avatar :: "string option"

record OAuthTokens =
  ot_access_token :: string
  ot_token_type :: string
  ot_expires_in :: "nat option"
  ot_scope :: "string option"
  ot_id_token :: "string option"
  ot_refresh_token :: "string option"

datatype OAuthProviderError =
    ProviderHttp nat
  | ProviderTransport string
  | UnexpectedTokenType string
  | ProviderEmailNotVerified
  | ProviderDecode string

record 'w OAuthProvider =
  pv_name :: string
  pv_authorize_url :: "string \<Rightarrow> string option \<Rightarrow> string"
  pv_exchange_code :: "string \<Rightarrow> string option \<Rightarrow> ('w, OAuthProviderError, OAuthTokens) io"
  pv_fetch_profile :: "string \<Rightarrow> ('w, OAuthProviderError, OAuthProfile) io"

datatype OAuthLoginResult = OAuth_Create | OAuth_Link | OAuth_Reject "string option"

text \<open>The hooks a flow waits for. The ones it only fires are the notifications of the host.\<close>

record 'w AuthHooks =
  hk_before_register :: "RegisterAttempt \<Rightarrow> HookContext \<Rightarrow> ('w, HookError, BeforeRegisterResult) io"
  hk_before_login :: "string \<Rightarrow> string \<Rightarrow> HookContext \<Rightarrow> ('w, HookError, unit) io"
  hk_on_oauth_login :: "OAuthProfile \<Rightarrow> SafeAuthUser option \<Rightarrow> HookContext \<Rightarrow> ('w, HookError, OAuthLoginResult) io"

text \<open>The default bodies of the trait: everything is allowed but an OAuth sign-in.\<close>

definition no_op_hooks :: "'w AuthHooks" where
  "no_op_hooks =
     \<lparr>hk_before_register = (\<lambda>_ _. ret (Allow \<lparr>ov_role = None, ov_status = None, ov_email_verified = None\<rparr>)),
      hk_before_login = (\<lambda>_ _ _. ret ()),
      hk_on_oauth_login = (\<lambda>_ _ _. ret (OAuth_Reject (Some ''OAuth login not configured'')))\<rparr>"

record InviteData =
  iv_inviter_name :: string
  iv_tenant_name :: string
  iv_invite_token :: string
  iv_expires_at :: int

datatype EmailError = Delivery string

text \<open>The mails a flow waits for; the last argument is the locale.\<close>

record 'w EmailProvider =
  em_send_password_reset_token :: "string \<Rightarrow> string \<Rightarrow> string \<Rightarrow> string option \<Rightarrow> ('w, EmailError, unit) io"
  em_send_email_change_verification :: "string \<Rightarrow> string \<Rightarrow> string \<Rightarrow> string option \<Rightarrow> ('w, EmailError, unit) io"
  em_send_email_changed_notification :: "string \<Rightarrow> string \<Rightarrow> string \<Rightarrow> string option \<Rightarrow> ('w, EmailError, unit) io"
  em_send_invitation :: "string \<Rightarrow> string \<Rightarrow> InviteData \<Rightarrow> string option \<Rightarrow> ('w, EmailError, unit) io"

text \<open>The default provider accepts every message and sends none.\<close>

definition no_op_email_provider :: "'w EmailProvider" where
  "no_op_email_provider =
     \<lparr>em_send_password_reset_token = (\<lambda>_ _ _ _. ret ()), em_send_email_change_verification = (\<lambda>_ _ _ _. ret ()),
      em_send_email_changed_notification = (\<lambda>_ _ _ _. ret ()), em_send_invitation = (\<lambda>_ _ _ _. ret ())\<rparr>"

record ('r, 'w) engine_state =
  es_host :: "'r host"
  es_app :: 'w

type_synonym ('r, 'w, 'a) flow_io = "(('r, 'w) engine_state, AuthError, 'a) io"

definition on_host :: "('r host, 'e, 'a) io \<Rightarrow> (('r, 'w) engine_state, 'e, 'a) io" where
  "on_host m s = (case m (es_host s) of (x, h) \<Rightarrow> (x, s\<lparr>es_host := h\<rparr>))"

definition on_app :: "('w, 'e, 'a) io \<Rightarrow> (('r, 'w) engine_state, 'e, 'a) io" where
  "on_app m s = (case m (es_app s) of (x, w) \<Rightarrow> (x, s\<lparr>es_app := w\<rparr>))"

text \<open>A collaborator that cannot fail.\<close>

definition asking :: "('w \<Rightarrow> 'a \<times> 'w) \<Rightarrow> (('r, 'w) engine_state, 'e, 'a) io" where
  "asking m s = (case m (es_app s) of (x, w) \<Rightarrow> (Inr x, s\<lparr>es_app := w\<rparr>))"

definition map_repository_error :: "RepositoryError \<Rightarrow> AuthError" where
  "map_repository_error e =
     (case e of Conflict _ \<Rightarrow> AuthError.EmailAlreadyExists | Backend source \<Rightarrow> AuthError.Internal source)"

definition repository :: "('w, RepositoryError, 'a) io \<Rightarrow> ('r, 'w, 'a) flow_io" where
  "repository m = map_err map_repository_error (on_app m)"

definition draw_token :: "nat \<Rightarrow> ('r, 'w, string) flow_io" where
  "draw_token n = rbind (on_host (random_bytes n)) (\<lambda>bytes. ret (generate_secure_token (\<lambda>_. bytes) n))"

end
