(* ===== verification/Auth_Services.thy ===== *)
theory Auth_Services
  imports Collaborators
begin

text \<open>
  The three services the flows call on: passwords (\<open>services/password.rs\<close>), one-time passwords
  (\<open>services/otp.rs\<close>) and the login throttle (\<open>services/brute_force.rs\<close>).
\<close>

section \<open>Passwords\<close>

record VerifyOutcome =
  vo_matched :: bool
  vo_needs_rehash :: bool

text \<open>
  The breach corpus is the application's; \<open>ps_joined\<close> is the runtime's answer to whether a blocking
  task ran to its end.
\<close>

record 'w PasswordService =
  ps_libs :: kdf_lib
  ps_params :: PasswordParams
  ps_rehash_on_verify :: bool
  ps_min_length :: nat
  ps_sentinel :: string
  ps_is_breached :: "string \<Rightarrow> 'w \<Rightarrow> bool \<times> 'w"
  ps_joined :: "'w \<Rightarrow> bool \<times> 'w"
  ps_kdf_permits :: nat

definition SENTINEL_PLAINTEXT :: string where
  "SENTINEL_PLAINTEXT = ''bymax-auth::anti-enumeration-sentinel::v1''"

definition MIN_CONFIGURABLE_LENGTH :: nat where
  "MIN_CONFIGURABLE_LENGTH = 8"

definition MAX_CONFIGURABLE_LENGTH :: nat where
  "MAX_CONFIGURABLE_LENGTH = 128"

definition KDF_MEMORY_BUDGET_MIB :: nat where
  "KDF_MEMORY_BUDGET_MIB = 512"

text \<open>\<open>usize\<close> is 64 bits wide; its products saturate.\<close>

definition usize_max :: nat where
  "usize_max = 2 ^ 64 - 1"

definition saturating_mul :: "nat \<Rightarrow> nat \<Rightarrow> nat" where
  "saturating_mul a b = min usize_max (a * b)"

definition kdf_working_set_mib :: "PasswordConfig \<Rightarrow> nat" where
  "kdf_working_set_mib config =
     (case pwc_active_algorithm config of
        Scrypt \<Rightarrow>
          max 1 (saturating_mul (saturating_mul 128 (sp_cost_factor (pwc_scrypt config)))
            (sp_block_size (pwc_scrypt config)) div (1024 * 1024))
      | Argon2id \<Rightarrow> max 1 (ag_memory_kib (pwc_argon2 config) div 1024))"

definition kdf_permit_count :: "nat \<Rightarrow> PasswordConfig \<Rightarrow> nat" where
  "kdf_permit_count cores config =
     (let by_memory = KDF_MEMORY_BUDGET_MIB div kdf_working_set_mib config
      in min (max by_memory 2) (max cores 2))"

definition to_crypto_params :: "PasswordConfig \<Rightarrow> PasswordParams" where
  "to_crypto_params config =
     \<lparr>pp_active = pwc_active_algorithm config, pp_scrypt = pwc_scrypt config, pp_argon2 = pwc_argon2 config\<rparr>"

definition new_password_service ::
    "kdf_lib \<Rightarrow> nat \<Rightarrow> PasswordConfig \<Rightarrow> (string \<Rightarrow> 'w \<Rightarrow> bool \<times> 'w) \<Rightarrow> ('w \<Rightarrow> bool \<times> 'w) \<Rightarrow>
      ('r host, ConfigError, 'w PasswordService) io" where
  "new_password_service L cores config is_breached joined =
     (if \<not> (MIN_CONFIGURABLE_LENGTH \<le> pwc_min_length config \<and> pwc_min_length config \<le> MAX_CONFIGURABLE_LENGTH)
      then raise (PasswordMinLengthRange (pwc_min_length config))
      else
        let params = to_crypto_params config in
        rbind (map_err (\<lambda>_. SentinelHashFailed) (hash L (as_bytes SENTINEL_PLAINTEXT) params)) (\<lambda>sentinel.
          ret \<lparr>ps_libs = L, ps_params = params, ps_rehash_on_verify = pwc_rehash_on_verify config,
               ps_min_length = pwc_min_length config, ps_sentinel = sentinel, ps_is_breached = is_breached,
               ps_joined = joined, ps_kdf_permits = kdf_permit_count cores config\<rparr>))"

definition task_join_failed :: AuthError where
  "task_join_failed = internal_error ''password task failed to join''"

definition hash_failed :: "CryptoError \<Rightarrow> AuthError" where
  "hash_failed _ = internal_error ''password hashing failed''"

definition assert_not_compromised :: "'w PasswordService \<Rightarrow> string \<Rightarrow> ('r, 'w, unit) flow_io" where
  "assert_not_compromised P password =
     rbind (asking (ps_is_breached P password)) (\<lambda>breached.
       if breached then raise AuthError.PasswordCompromised else ret ())"

definition assert_long_enough :: "'w PasswordService \<Rightarrow> string \<Rightarrow> string \<Rightarrow> AuthError + unit" where
  "assert_long_enough P password field =
     (if char_count password \<ge> ps_min_length P then Inr ()
      else Inl (AuthError.Validation
        [\<lparr>fe_field = field, fe_message = field @ '' must be at least '' @ show_nat (ps_min_length P) @ '' characters''\<rparr>]))"

definition assert_acceptable :: "'w PasswordService \<Rightarrow> string \<Rightarrow> string \<Rightarrow> ('r, 'w, unit) flow_io" where
  "assert_acceptable P password field =
     rbind (lift_result (assert_long_enough P password field)) (\<lambda>_. assert_not_compromised P password)"

definition hash_password :: "'w PasswordService \<Rightarrow> string \<Rightarrow> ('r, 'w, string) flow_io" where
  "hash_password P password =
     rbind (asking (ps_joined P)) (\<lambda>joined.
       if \<not> joined then raise task_join_failed
       else map_err hash_failed (on_host (hash (ps_libs P) (as_bytes password) (ps_params P))))"

definition verify_outcome :: "'w PasswordService \<Rightarrow> string \<Rightarrow> string \<Rightarrow> ('r, 'w, VerifyOutcome) flow_io" where
  "verify_outcome P password phc =
     rbind (asking (ps_joined P)) (\<lambda>joined.
       if \<not> joined then raise task_join_failed
       else
         let matched = (case verify_password (ps_libs P) (as_bytes password) phc of Inl _ \<Rightarrow> False | Inr b \<Rightarrow> b)
         in ret \<lparr>vo_matched = matched, vo_needs_rehash = needs_rehash (ps_libs P) phc (ps_params P)\<rparr>)"

definition verify_sentinel :: "'w PasswordService \<Rightarrow> string \<Rightarrow> ('r, 'w, unit) flow_io" where
  "verify_sentinel P password = rbind (verify_outcome P password (ps_sentinel P)) (\<lambda>_. ret ())"

section \<open>One-time passwords\<close>

definition MAX_ATTEMPTS :: nat where
  "MAX_ATTEMPTS = 5"

record 'r OtpService =
  os_libs :: jws_lib
  os_store :: "'r RedisStores"
  os_identifier_key :: "u8 list"

definition fingerprint :: "'r OtpService \<Rightarrow> string \<Rightarrow> string \<Rightarrow> string" where
  "fingerprint T identifier code =
     to_hex (hmac_sha256 (os_libs T) (os_identifier_key T) (as_bytes (identifier @ '':'' @ code)))"

definition digit_from_byte :: "u8 \<Rightarrow> char option" where
  "digit_from_byte byte = (if unat byte < 250 then Some (char_of (48 + unat byte mod 10)) else None)"

text \<open>
  Rejection sampling: bytes are drawn until one is kept. The loop has no bound, so a source that never
  delivers an acceptable byte makes it run forever, which is the value \<open>None\<close>. A draw answers the digit
  and the position in the source after the last byte it took.
\<close>

partial_function (option) draw_digit :: "(nat \<Rightarrow> u8) \<Rightarrow> nat \<Rightarrow> (char \<times> nat) option" where
  "draw_digit src i =
     (case digit_from_byte (src i) of
        Some digit \<Rightarrow> Some (digit, Suc i)
      | None \<Rightarrow> draw_digit src (Suc i))"

fun draw_digits :: "(nat \<Rightarrow> u8) \<Rightarrow> nat \<Rightarrow> nat \<Rightarrow> (string \<times> nat) option" where
  "draw_digits src i 0 = Some ([], i)"
| "draw_digits src i (Suc n) =
     (case draw_digit src i of
        None \<Rightarrow> None
      | Some (digit, j) \<Rightarrow>
          (case draw_digits src j n of None \<Rightarrow> None | Some (out, k) \<Rightarrow> Some (digit # out, k)))"

definition generate_otp :: "nat \<Rightarrow> 'r host \<Rightarrow> (string \<times> 'r host) option" where
  "generate_otp len h =
     (case draw_digits (entropy h) 0 len of
        None \<Rightarrow> None
      | Some (out, n) \<Rightarrow> Some (out, h\<lparr>entropy := (\<lambda>i. entropy h (n + i))\<rparr>))"

definition store_otp ::
    "'r OtpService \<Rightarrow> OtpPurpose \<Rightarrow> string \<Rightarrow> string \<Rightarrow> nat \<Rightarrow> ('r, unit) engine_io" where
  "store_otp T purpose identifier code ttl_secs =
     on_store (otp_put (os_store T) purpose identifier (fingerprint T identifier code) ttl_secs)"

text \<open>The store compares the two fingerprints as text, in constant time.\<close>

definition text_eq :: "'r OtpService \<Rightarrow> string \<Rightarrow> string \<Rightarrow> bool" where
  "text_eq T a b = constant_time_eq (os_libs T) (as_bytes a) (as_bytes b)"

definition verify_otp :: "'r OtpService \<Rightarrow> OtpPurpose \<Rightarrow> string \<Rightarrow> string \<Rightarrow> ('r, unit) engine_io" where
  "verify_otp T purpose identifier code =
     on_store (otp_check (text_eq T) (os_store T) purpose identifier (fingerprint T identifier code) MAX_ATTEMPTS)"

definition begin_resend :: "'r OtpService \<Rightarrow> OtpPurpose \<Rightarrow> string \<Rightarrow> nat \<Rightarrow> ('r, bool) engine_io" where
  "begin_resend T purpose identifier cooldown_secs =
     on_store (try_begin_resend (os_store T) purpose identifier cooldown_secs)"

section \<open>The login throttle\<close>

definition MAX_IDENTIFIER_LENGTH :: nat where
  "MAX_IDENTIFIER_LENGTH = 512"

record 'r BruteForceService =
  bs_store :: "'r RedisStores"
  bs_max_attempts :: nat
  bs_window_secs :: nat

definition validate_identifier :: "string \<Rightarrow> AuthError + unit" where
  "validate_identifier identifier =
     (if length identifier > MAX_IDENTIFIER_LENGTH \<or>
         list_ex (\<lambda>c. c \<in> {CHR '':'', CHR 0x0A, CHR 0x0D}) identifier
      then Inl AuthError.Forbidden else Inr ())"

definition throttle_is_locked :: "'r BruteForceService \<Rightarrow> string \<Rightarrow> ('r, bool) engine_io" where
  "throttle_is_locked B identifier =
     rbind (lift_result (validate_identifier identifier)) (\<lambda>_.
       on_store (is_locked (bs_store B) identifier (bs_max_attempts B)))"

definition throttle_record_failure :: "'r BruteForceService \<Rightarrow> string \<Rightarrow> ('r, unit) engine_io" where
  "throttle_record_failure B identifier =
     rbind (lift_result (validate_identifier identifier)) (\<lambda>_.
     rbind (on_store (record_failure (bs_store B) identifier (bs_window_secs B))) (\<lambda>_. ret ()))"

definition throttle_reset :: "'r BruteForceService \<Rightarrow> string \<Rightarrow> ('r, unit) engine_io" where
  "throttle_reset B identifier =
     rbind (lift_result (validate_identifier identifier)) (\<lambda>_.
       on_store (reset_failures (bs_store B) identifier))"

definition throttle_remaining_secs :: "'r BruteForceService \<Rightarrow> string \<Rightarrow> ('r, nat) engine_io" where
  "throttle_remaining_secs B identifier =
     rbind (lift_result (validate_identifier identifier)) (\<lambda>_.
       on_store (remaining_lockout_secs (bs_store B) identifier))"

end
