(* ===== verification/Totp.thy ===== *)
theory Totp
  imports Common_Passwords Auth_Services
begin

text \<open>
  One-time codes and encryption at rest (\<open>crates/bymax-auth-crypto/src/totp.rs\<close> and \<open>aead.rs\<close>): HOTP
  with its dynamic truncation, TOTP verification over a drift window, the Base32 form of a secret, the
  provisioning URI, and the three-segment wire form of an AES-256-GCM box. HMAC-SHA1, Base32, Base64,
  AES-GCM, the constant-time comparison and the upper-casing of a character are parameters.
\<close>

section \<open>One-time codes\<close>

record totp_lib =
  tt_hmac_sha1 :: "u8 list \<Rightarrow> u8 list \<Rightarrow> u8 list"
  tt_ct_eq :: "u8 list \<Rightarrow> u8 list \<Rightarrow> bool"
  tt_base32_encode :: "u8 list \<Rightarrow> string"
  tt_base32_decode :: "u8 list \<Rightarrow> u8 list option"
  tt_to_uppercase :: "string \<Rightarrow> string"

definition TOTP_STEP_SECS :: nat where
  "TOTP_STEP_SECS = 30"

definition TOTP_DIGITS :: nat where
  "TOTP_DIGITS = 6"

definition HMAC_SHA1_LEN :: nat where
  "HMAC_SHA1_LEN = 20"

definition HEX_UPPER :: string where
  "HEX_UPPER = ''0123456789ABCDEF''"

definition to_be_bytes :: "64 word \<Rightarrow> u8 list" where
  "to_be_bytes counter = map (\<lambda>i. ucast (drop_bit (8 * i) counter)) (rev [0..<8])"

definition hmac_sha1 :: "totp_lib \<Rightarrow> u8 list \<Rightarrow> 64 word \<Rightarrow> u8 list" where
  "hmac_sha1 L secret counter = tt_hmac_sha1 L secret (to_be_bytes counter)"

definition hotp :: "totp_lib \<Rightarrow> u8 list \<Rightarrow> 64 word \<Rightarrow> nat \<Rightarrow> 32 word" where
  "hotp L secret counter digits =
     (let hsh = hmac_sha1 L secret counter;
          offset = unat (hsh ! (HMAC_SHA1_LEN - 1) AND 0x0f);
          binary = push_bit 24 (ucast (hsh ! offset) AND 0x7f) OR push_bit 16 (ucast (hsh ! (offset + 1))) OR
                   push_bit 8 (ucast (hsh ! (offset + 2))) OR ucast (hsh ! (offset + 3));
          modulus = (if 10 ^ digits < (2 :: nat) ^ 32 then of_nat (10 ^ digits) else 1000000)
      in binary mod modulus)"

definition totp :: "totp_lib \<Rightarrow> u8 list \<Rightarrow> 64 word \<Rightarrow> 64 word \<Rightarrow> nat \<Rightarrow> 32 word" where
  "totp L secret unix_time step_secs digits =
     (let counter = (if step_secs = 0 then 0 else unix_time div step_secs) in hotp L secret counter digits)"

definition checked_add_signed :: "64 word \<Rightarrow> int \<Rightarrow> 64 word option" where
  "checked_add_signed step delta =
     (let v = uint step + delta in if 0 \<le> v \<and> v < 2 ^ 64 then Some (of_int v) else None)"

text \<open>The rendering \<open>{:0>width$}\<close>.\<close>

definition pad_zero :: "nat \<Rightarrow> nat \<Rightarrow> string" where
  "pad_zero width n = (let s = show_nat n in replicate (width - length s) (CHR ''0'') @ s)"

text \<open>Every step of the window is compared; a step before the epoch is skipped.\<close>

definition totp_verify :: "totp_lib \<Rightarrow> u8 list \<Rightarrow> string \<Rightarrow> 64 word \<Rightarrow> nat \<Rightarrow> bool" where
  "totp_verify L secret code unix_time window =
     (let current_step = unix_time div of_nat TOTP_STEP_SECS;
          w = int (min window MAX_VERIFY_WINDOW)
      in list_ex (\<lambda>delta.
           case checked_add_signed current_step delta of
             None \<Rightarrow> False
           | Some counter \<Rightarrow>
               tt_ct_eq L (as_bytes (pad_zero TOTP_DIGITS (unat (hotp L secret counter TOTP_DIGITS)))) (as_bytes code))
         [- w .. w])"

section \<open>Secrets as text\<close>

definition encode_secret_base32 :: "totp_lib \<Rightarrow> u8 list \<Rightarrow> string" where
  "encode_secret_base32 L secret = tt_base32_encode L secret"

definition decode_secret_base32 :: "totp_lib \<Rightarrow> string \<Rightarrow> CryptoError + u8 list" where
  "decode_secret_base32 L secret =
     (let cleaned = concat (map (tt_to_uppercase L)
            (filter (\<lambda>c. c \<notin> set white_space \<and> c \<noteq> ''-'') (chars secret)))
      in case tt_base32_decode L (as_bytes cleaned) of None \<Rightarrow> Inl CryptoError.Encoding | Some bs \<Rightarrow> Inr bs)"

definition is_unreserved :: "char \<Rightarrow> bool" where
  "is_unreserved c \<longleftrightarrow>
     (let b = of_char c :: nat in
      (48 \<le> b \<and> b \<le> 57) \<or> (65 \<le> b \<and> b \<le> 90) \<or> (97 \<le> b \<and> b \<le> 122) \<or> c \<in> set ''-_.~'')"

definition percent_encode :: "string \<Rightarrow> string" where
  "percent_encode input =
     concat (map (\<lambda>c. if is_unreserved c then [c]
        else (let b = of_char c :: u8 in
              [CHR ''%'', HEX_UPPER ! unat (drop_bit 4 b), HEX_UPPER ! unat (b AND 0x0f)])) input)"

definition provisioning_uri :: "totp_lib \<Rightarrow> u8 list \<Rightarrow> string \<Rightarrow> string \<Rightarrow> string" where
  "provisioning_uri L secret acct issuer =
     (let secret_b32 = encode_secret_base32 L secret; issuer_enc = percent_encode issuer in
      ''otpauth://totp/'' @ issuer_enc @ '':'' @ percent_encode acct @ ''?secret='' @ secret_b32 @ ''&issuer='' @ issuer_enc @
      ''&period='' @ show_nat TOTP_STEP_SECS @ ''&digits='' @ show_nat TOTP_DIGITS @ ''&algorithm=SHA1'')"

section \<open>Encryption at rest\<close>

record aead_lib =
  ae_seal :: "u8 list \<Rightarrow> u8 list \<Rightarrow> u8 list \<Rightarrow> u8 list option"
  ae_open :: "u8 list \<Rightarrow> u8 list \<Rightarrow> u8 list \<Rightarrow> u8 list option"
  ae_base64_encode :: "u8 list \<Rightarrow> string"
  ae_base64_decode :: "string \<Rightarrow> u8 list option"

definition NONCE_LEN :: nat where
  "NONCE_LEN = 12"

definition TAG_LEN :: nat where
  "TAG_LEN = 16"

text \<open>The box of the cipher is the ciphertext followed by the tag; the wire form has the tag first.\<close>

definition aead_encrypt :: "aead_lib \<Rightarrow> u8 list \<Rightarrow> u8 list \<Rightarrow> ('r host, CryptoError, string) io" where
  "aead_encrypt L plaintext k =
     rbind (random_bytes NONCE_LEN) (\<lambda>nonce_bytes.
       case ae_seal L k nonce_bytes plaintext of
         None \<Rightarrow> raise CryptoError.InvalidParams
       | Some combined \<Rightarrow>
           (let split = length combined - TAG_LEN; ciphertext = take split combined; tag = drop split combined in
            ret (ae_base64_encode L nonce_bytes @ '':'' @ ae_base64_encode L tag @ '':'' @ ae_base64_encode L ciphertext)))"

definition aead_decrypt :: "aead_lib \<Rightarrow> string \<Rightarrow> u8 list \<Rightarrow> CryptoError + u8 list" where
  "aead_decrypt L wire k =
     (case split_on (CHR '':'') wire of
        [nonce_b64, tag_b64, ct_b64] \<Rightarrow>
          (case (ae_base64_decode L nonce_b64, ae_base64_decode L tag_b64, ae_base64_decode L ct_b64) of
             (Some nonce, Some tag, Some ciphertext) \<Rightarrow>
               if length nonce \<noteq> NONCE_LEN \<or> length tag \<noteq> TAG_LEN then Inl CryptoError.Decrypt
               else (case ae_open L k nonce (ciphertext @ tag) of
                       None \<Rightarrow> Inl CryptoError.Decrypt
                     | Some plaintext \<Rightarrow> Inr plaintext)
           | _ \<Rightarrow> Inl CryptoError.Decrypt)
      | _ \<Rightarrow> Inl CryptoError.Decrypt)"

section \<open>What the libraries promise\<close>

definition base32_alphabet :: string where
  "base32_alphabet = ''ABCDEFGHIJKLMNOPQRSTUVWXYZ234567''"

locale totp_service =
  fixes L :: totp_lib
  assumes ct_eq: "tt_ct_eq L x y \<longleftrightarrow> x = y"
    and base32_decode_encode: "tt_base32_decode L (as_bytes (tt_base32_encode L bs)) = Some bs"
    and base32_letters: "set (tt_base32_encode L bs) \<subseteq> set base32_alphabet"
    and uppercase_letter: "c \<in> set base32_alphabet \<Longrightarrow> tt_to_uppercase L [c] = [c]"

locale aead_service =
  fixes L :: aead_lib
  assumes open_seal: "ae_seal L k nonce plain = Some box \<Longrightarrow> ae_open L k nonce box = Some plain"
    and seal_length: "ae_seal L k nonce plain = Some box \<Longrightarrow> TAG_LEN \<le> length box"
    and base64_decode_encode: "ae_base64_decode L (ae_base64_encode L bs) = Some bs"
    and base64_no_colon: "CHR '':'' \<notin> set (ae_base64_encode L bs)"

section \<open>Codes\<close>

text \<open>The steps a clock reading admits under a window.\<close>

definition admits :: "64 word \<Rightarrow> nat \<Rightarrow> int \<Rightarrow> bool" where
  "admits unix_time window step \<longleftrightarrow>
     0 \<le> step \<and> step < 2 ^ 64 \<and> \<bar>step - uint unix_time div int TOTP_STEP_SECS\<bar> \<le> int (min window MAX_VERIFY_WINDOW)"

definition code_of_step :: "totp_lib \<Rightarrow> u8 list \<Rightarrow> int \<Rightarrow> string" where
  "code_of_step L secret step = pad_zero TOTP_DIGITS (unat (hotp L secret (of_int step) TOTP_DIGITS))"

lemma uint_div_step: "uint (t div of_nat TOTP_STEP_SECS :: 64 word) = uint t div int TOTP_STEP_SECS"
  by (simp add: uint_div TOTP_STEP_SECS_def)

lemma totp_verify_iff:
  assumes "totp_service L"
  shows "totp_verify L secret code t w \<longleftrightarrow> (\<exists>step. admits t w step \<and> code = code_of_step L secret step)"
proof -
  define c m where "c = uint t div int TOTP_STEP_SECS" and "m = int (min w MAX_VERIFY_WINDOW)"
  have "totp_verify L secret code t w \<longleftrightarrow>
      (\<exists>delta \<in> {- m .. m}. 0 \<le> c + delta \<and> c + delta < 2 ^ 64 \<and> code = code_of_step L secret (c + delta))"
    unfolding totp_verify_def Let_def list_ex_iff set_upto checked_add_signed_def uint_div_step c_def [symmetric]
      m_def [symmetric] totp_service.ct_eq [OF assms] as_bytes_eq code_of_step_def
    by (intro bex_cong [OF HOL.refl]) (auto simp: eq_commute)
  also have "\<dots> \<longleftrightarrow> (\<exists>step. \<bar>step - c\<bar> \<le> m \<and> 0 \<le> step \<and> step < 2 ^ 64 \<and> code = code_of_step L secret step)"
  proof (intro iffI; elim exE bexE)
    fix delta assume "delta \<in> {- m .. m}" "0 \<le> c + delta \<and> c + delta < 2 ^ 64 \<and> code = code_of_step L secret (c + delta)"
    then show "\<exists>step. \<bar>step - c\<bar> \<le> m \<and> 0 \<le> step \<and> step < 2 ^ 64 \<and> code = code_of_step L secret step"
      by (intro exI [of _ "c + delta"]) auto
  next
    fix step assume "\<bar>step - c\<bar> \<le> m \<and> 0 \<le> step \<and> step < 2 ^ 64 \<and> code = code_of_step L secret step"
    then show "\<exists>delta \<in> {- m .. m}. 0 \<le> c + delta \<and> c + delta < 2 ^ 64 \<and> code = code_of_step L secret (c + delta)"
      by (intro bexI [of _ "step - c"]) auto
  qed
  finally show ?thesis by (auto simp: admits_def c_def m_def)
qed

lemma hotp_bound:
  assumes "digits \<le> 9"
  shows "unat (hotp L secret counter digits) < 10 ^ digits"
proof -
  have small: "(10 :: nat) ^ digits < 2 ^ 32"
    using power_increasing [OF assms, of "10 :: nat"] by simp
  have "unat (of_nat n :: 32 word) = n" if "n < 2 ^ 32" for n :: nat using that by (simp add: unat_of_nat)
  from this [OF small] have modulus: "unat (of_nat (10 ^ digits) :: 32 word) = 10 ^ digits" .
  have "unat (x mod of_nat (10 ^ digits) :: 32 word) < 10 ^ digits" for x
    unfolding unat_mod modulus by (rule mod_less_divisor) simp
  with small show ?thesis unfolding hotp_def Let_def by (simp only: if_True)
qed

lemma length_show_nat: "n < 10 ^ k \<Longrightarrow> 0 < k \<Longrightarrow> length (show_nat n) \<le> k"
proof (induction k arbitrary: n)
  case (Suc k)
  show ?case
  proof (cases "n < 10")
    case False
    then have "n div 10 < 10 ^ k" "0 < k" using Suc.prems by (auto intro: gr0I)
    with Suc.IH [of "n div 10"] False show ?thesis by (simp add: show_nat.simps [of n])
  qed (simp add: show_nat.simps [of n])
qed simp

lemma length_pad_zero: "n < 10 ^ k \<Longrightarrow> 0 < k \<Longrightarrow> length (pad_zero k n) = k"
  using length_show_nat [of n k] by (simp add: pad_zero_def Let_def)

section \<open>Secrets\<close>

lemma chars_ascii: "list_all (\<lambda>c. \<not> continues c) s \<Longrightarrow> chars s = map (\<lambda>c. [c]) s"
proof (induction s)
  case (Cons c s)
  then have "takeWhile continues s = []" "dropWhile continues s = s" by (cases s; simp)+
  with Cons show ?case by simp
qed simp

lemma base32_letter:
  assumes "c \<in> set base32_alphabet"
  shows "\<not> continues c \<and> [c] \<notin> set white_space \<and> c \<noteq> CHR ''-''"
proof -
  have "50 \<le> (of_char c :: nat) \<and> (of_char c :: nat) \<le> 90" using assms by (auto simp: base32_alphabet_def)
  moreover have "(of_char c :: nat) \<le> 32" if "[c] \<in> set white_space" using that by (auto simp: white_space_def)
  ultimately show ?thesis by (auto simp: continues_def)
qed

context totp_service
begin

lemma secret_text_round_trip: "decode_secret_base32 L (encode_secret_base32 L secret) = Inr secret"
proof -
  let ?s = "tt_base32_encode L secret"
  have letters: "c \<in> set ?s \<Longrightarrow> c \<in> set base32_alphabet" for c using base32_letters by blast
  then have "chars ?s = map (\<lambda>c. [c]) ?s" using base32_letter by (intro chars_ascii) (auto simp: list_all_iff)
  moreover have "filter (\<lambda>c. c \<notin> set white_space \<and> c \<noteq> ''-'') (map (\<lambda>c. [c]) ?s) = map (\<lambda>c. [c]) ?s"
    using letters base32_letter by (intro filter_True) auto
  moreover have "map (tt_to_uppercase L) (map (\<lambda>c. [c]) ?s) = map (\<lambda>c. [c]) ?s"
    using letters uppercase_letter by simp
  ultimately show ?thesis
    by (simp add: decode_secret_base32_def encode_secret_base32_def base32_decode_encode del: map_map)
qed

end

context aead_service
begin

lemma decrypt_encrypt:
  assumes "aead_encrypt L plain k h = (Inr wire, h')"
  shows "aead_decrypt L wire k = Inr plain"
proof -
  obtain nonce box where seal: "ae_seal L k nonce plain = Some box" and len: "length nonce = NONCE_LEN"
    and wire: "wire = ae_base64_encode L nonce @ '':'' @ ae_base64_encode L (drop (length box - TAG_LEN) box) @ '':'' @
      ae_base64_encode L (take (length box - TAG_LEN) box)"
    using assms by (auto simp: aead_encrypt_def rbind_def random_bytes_def Let_def split: option.splits)
  have "split_on (CHR '':'') wire = [ae_base64_encode L nonce, ae_base64_encode L (drop (length box - TAG_LEN) box),
      ae_base64_encode L (take (length box - TAG_LEN) box)]"
    by (simp add: wire split_on_sep split_on_no_sep base64_no_colon)
  moreover have "length (drop (length box - TAG_LEN) box) = TAG_LEN" using seal_length [OF seal] by simp
  ultimately show ?thesis using open_seal [OF seal] len by (simp add: aead_decrypt_def base64_decode_encode)
qed

end

section \<open>Concrete libraries\<close>

text \<open>
  Stand-ins to run the codes and the cipher: sixteen letters of the Base32 alphabet for the hexadecimal
  digits, a keyed digest of twenty bytes, and a box that carries a keyed tag and is not secret.
\<close>

definition hex_letter :: "char \<Rightarrow> char" where
  "hex_letter c = the_default (CHR ''A'') (map_of (zip hex_alphabet base32_alphabet) c)"

definition letter_hex :: "char \<Rightarrow> char" where
  "letter_hex c = the_default (CHR ''-'') (map_of (zip base32_alphabet hex_alphabet) c)"

definition sample_totp :: totp_lib where
  "sample_totp = \<lparr>tt_hmac_sha1 = (\<lambda>k m. take HMAC_SHA1_LEN (rev (k @ m) @ replicate HMAC_SHA1_LEN 0)), tt_ct_eq = (=),
     tt_base32_encode = (\<lambda>bs. map hex_letter (to_hex bs)),
     tt_base32_decode = (\<lambda>bs. of_hex (map letter_hex (of_bytes bs))), tt_to_uppercase = id\<rparr>"

definition sample_tag :: "u8 list \<Rightarrow> u8 list \<Rightarrow> u8 list \<Rightarrow> u8 list" where
  "sample_tag k nonce plain = take TAG_LEN (rev (k @ nonce @ plain) @ replicate TAG_LEN 0)"

definition sample_aead :: aead_lib where
  "sample_aead = \<lparr>ae_seal = (\<lambda>k nonce plain. Some (plain @ sample_tag k nonce plain)),
     ae_open = (\<lambda>k nonce box. let plain = take (length box - TAG_LEN) box in
       if drop (length box - TAG_LEN) box = sample_tag k nonce plain then Some plain else None),
     ae_base64_encode = to_hex, ae_base64_decode = of_hex\<rparr>"

lemma hex_letters: "c \<in> set hex_alphabet \<Longrightarrow> hex_letter c \<in> set base32_alphabet \<and> letter_hex (hex_letter c) = c"
  by (auto simp: hex_alphabet_def base32_alphabet_def hex_letter_def letter_hex_def the_default_def)

lemma length_sample_tag [simp]: "length (sample_tag k nonce plain) = TAG_LEN"
  by (simp add: sample_tag_def)

interpretation sample_codes: totp_service sample_totp
proof
  fix bs
  have hex: "c \<in> set hex_alphabet" if "c \<in> set (to_hex bs)" for c using that set_to_hex by blast
  show "set (tt_base32_encode sample_totp bs) \<subseteq> set base32_alphabet"
    using hex hex_letters by (auto simp: sample_totp_def)
  have "map letter_hex (map hex_letter (to_hex bs)) = to_hex bs"
    unfolding map_map by (rule map_idI) (use hex hex_letters in simp)
  then show "tt_base32_decode sample_totp (as_bytes (tt_base32_encode sample_totp bs)) = Some bs"
    by (simp add: sample_totp_def of_hex_to_hex del: map_map)
qed (simp_all add: sample_totp_def)

interpretation sample_cipher: aead_service sample_aead
  by unfold_locales (auto simp: sample_aead_def Let_def of_hex_to_hex)

end
