(* ===== verification/Session_Service.thy ===== *)
theory Session_Service
  imports Auth_Services "HOL-Library.Option_ord"
begin

text \<open>
  The session service of the engine (\<open>crates/bymax-auth-core/src/services/session.rs\<close>): the
  concurrent-session cap with first-in-first-out eviction, the display listing, ownership-checked
  revocation, the session a presented token stands for, signing out every other device, and the
  rotation of a session's detail. Log lines are left out; a spawned hook is the notification it
  carries.
\<close>

section \<open>The service\<close>

record ('r, 'w) SessionService =
  ss_libs :: jws_lib
  ss_store :: "'r RedisStores"
  ss_users :: "'w UserRepository"
  ss_config :: "'w SessionConfig"
  ss_refresh_ttl_secs :: nat
  ss_identifier_key :: "u8 list"

definition session_subject :: "('r, 'w) SessionService \<Rightarrow> string option \<Rightarrow> string \<Rightarrow> string" where
  "session_subject V tenant_id user_id =
     session_subject_hash (ss_libs V) (ss_identifier_key V) Dashboard tenant_id user_id"

definition same_hash :: "('r, 'w) SessionService \<Rightarrow> string \<Rightarrow> string \<Rightarrow> bool" where
  "same_hash V a b = constant_time_eq (ss_libs V) (as_bytes a) (as_bytes b)"

section \<open>The cap\<close>

definition resolve_session_limit ::
    "('r, 'w) SessionService \<Rightarrow> string option \<Rightarrow> string \<Rightarrow> ('r, 'w, nat) flow_io" where
  "resolve_session_limit V tenant_id user_id =
     (case sc_max_sessions_resolver (ss_config V) of
        None \<Rightarrow> ret (sc_default_max_sessions (ss_config V))
      | Some resolver \<Rightarrow>
          rbind (attempt (on_app (ur_find_by_id (ss_users V) user_id tenant_id))) (\<lambda>found.
            case found of
              Inr (Some user) \<Rightarrow> asking (resolver user)
            | _ \<Rightarrow> ret (sc_default_max_sessions (ss_config V))))"

definition fire_session_evicted :: "string \<Rightarrow> string \<Rightarrow> HookContext \<Rightarrow> ('r, 'w, unit) flow_io" where
  "fire_session_evicted user_id evicted_hash ctx =
     on_host (spawn_guarded (SessionEvicted user_id evicted_hash ctx))"

text \<open>Oldest first; a session without a readable detail has no creation time and sorts before the rest.\<close>

definition created_key :: "SessionEntry \<Rightarrow> int option" where
  "created_key entry = map_option sdt_created_at (se_detail entry)"

definition eviction_victims :: "('r, 'w) SessionService \<Rightarrow> nat \<Rightarrow> string \<Rightarrow> SessionEntry list \<Rightarrow> SessionEntry list" where
  "eviction_victims V limit new_hash sessions =
     (let sorted = sort_key created_key sessions; over = length sorted - limit in
      if over = 0 then []
      else take over (filter (\<lambda>entry. \<not> same_hash V (se_session_hash entry) new_hash) sorted))"

fun evict ::
    "('r, 'w) SessionService \<Rightarrow> string \<Rightarrow> string \<Rightarrow> HookContext \<Rightarrow> SessionEntry list \<Rightarrow>
      ('r, 'w, unit) flow_io" where
  "evict V subject user_id ctx [] = ret ()"
| "evict V subject user_id ctx (victim # victims) =
     rbind (attempt (on_host (on_store (revoke_session (ss_store V) Dashboard subject (se_session_hash victim))))) (\<lambda>_.
     rbind (fire_session_evicted user_id (se_session_hash victim) ctx) (\<lambda>_.
       evict V subject user_id ctx victims))"

definition enforce_session_limit ::
    "('r, 'w) SessionService \<Rightarrow> SessionRecord \<Rightarrow> string \<Rightarrow> HookContext \<Rightarrow> ('r, 'w, unit) flow_io" where
  "enforce_session_limit V rec new_hash ctx =
     (let user_id = sr_user_id rec; subject = session_subject V (sr_tenant_id rec) user_id in
      rbind (attempt (on_host (on_store (list_session_entries (ss_store V) Dashboard subject)))) (\<lambda>listed.
        case listed of
          Inl _ \<Rightarrow> ret ()
        | Inr sessions \<Rightarrow>
            rbind (resolve_session_limit V (sr_tenant_id rec) user_id) (\<lambda>resolved.
              let limit = max resolved 1 in
              evict V subject user_id ctx (eviction_victims V limit new_hash sessions))))"

definition fire_new_session ::
    "('r, 'w) SessionService \<Rightarrow> SessionRecord \<Rightarrow> string \<Rightarrow> HookContext \<Rightarrow> ('r, 'w, unit) flow_io" where
  "fire_new_session V rec new_hash ctx =
     rbind (attempt (on_app (ur_find_by_id (ss_users V) (sr_user_id rec) (sr_tenant_id rec)))) (\<lambda>found.
       case found of
         Inr (Some user) \<Rightarrow>
           on_host (spawn_guarded (NewSession (safe_user user) (sr_device rec) (sr_ip rec) (short_hash new_hash) ctx))
       | _ \<Rightarrow> ret ())"

definition after_session_created ::
    "('r, 'w) SessionService \<Rightarrow> SessionRecord \<Rightarrow> string \<Rightarrow> HookContext \<Rightarrow> ('r, 'w, unit) flow_io" where
  "after_session_created V rec new_hash ctx =
     rbind (enforce_session_limit V rec new_hash ctx) (\<lambda>_.
     rbind (fire_new_session V rec new_hash ctx) (\<lambda>_. ret ()))"

section \<open>Listing and revoking\<close>

definition service_list_sessions ::
    "('r, 'w) SessionService \<Rightarrow> string \<Rightarrow> string \<Rightarrow> string option \<Rightarrow> ('r, 'w, SessionInfo list) flow_io" where
  "service_list_sessions V tenant_id user_id current_hash =
     (let current = the_default [] current_hash in
      rbind (on_host (on_store (list_sessions (ss_store V) Dashboard (session_subject V (Some tenant_id) user_id)))) (\<lambda>sessions.
        let sorted = sort_key (\<lambda>detail. - sdt_created_at detail) sessions in
        ret (map (\<lambda>detail. to_info (ss_libs V) detail current) sorted)))"

definition service_revoke_session ::
    "('r, 'w) SessionService \<Rightarrow> string \<Rightarrow> string \<Rightarrow> string \<Rightarrow> ('r, 'w, unit) flow_io" where
  "service_revoke_session V tenant_id user_id session_hash =
     (if \<not> is_session_hash session_hash then raise AuthError.SessionNotFound
      else on_host (on_store (revoke_session (ss_store V) Dashboard (session_subject V (Some tenant_id) user_id) session_hash)))"

definition resolve_live_session ::
    "('r, 'w) SessionService \<Rightarrow> string \<Rightarrow> string \<Rightarrow> string \<Rightarrow> ('r, 'w, string) flow_io" where
  "resolve_live_session V tenant_id user_id presented_hash =
     (if \<not> is_session_hash presented_hash then raise AuthError.SessionNotFound
      else
        let subject = session_subject V (Some tenant_id) user_id in
        rbind (on_host (on_store (list_session_entries (ss_store V) Dashboard subject))) (\<lambda>entries.
          let is_live = (\<lambda>hash. list_ex (\<lambda>entry. same_hash V (se_session_hash entry) hash) entries) in
          if is_live presented_hash then ret presented_hash
          else
            rbind (on_host (on_store (grace_successor (ss_store V) Dashboard presented_hash))) (\<lambda>found.
              case found of
                Some successor \<Rightarrow> if is_live successor then ret successor else raise AuthError.SessionNotFound
              | None \<Rightarrow> raise AuthError.SessionNotFound)))"

fun revoke_others ::
    "('r, 'w) SessionService \<Rightarrow> string \<Rightarrow> string \<Rightarrow> SessionEntry list \<Rightarrow> ('r, 'w, unit) flow_io" where
  "revoke_others V subject current_hash [] = ret ()"
| "revoke_others V subject current_hash (entry # entries) =
     (if same_hash V (se_session_hash entry) current_hash then revoke_others V subject current_hash entries
      else
        rbind (attempt (on_host (on_store (revoke_session (ss_store V) Dashboard subject (se_session_hash entry))))) (\<lambda>result.
          case result of
            Inr _ \<Rightarrow> revoke_others V subject current_hash entries
          | Inl e \<Rightarrow>
              if e = AuthError.SessionNotFound then revoke_others V subject current_hash entries
              else raise e))"

definition revoke_all_except_current ::
    "('r, 'w) SessionService \<Rightarrow> string \<Rightarrow> string \<Rightarrow> string \<Rightarrow> ('r, 'w, unit) flow_io" where
  "revoke_all_except_current V tenant_id user_id current_hash =
     rbind (resolve_live_session V tenant_id user_id current_hash) (\<lambda>kept.
       let subject = session_subject V (Some tenant_id) user_id in
       rbind (on_host (on_store (list_session_entries (ss_store V) Dashboard subject))) (\<lambda>sessions.
       rbind (revoke_others V subject kept sessions) (\<lambda>_.
       rbind (on_host (on_store (sweep_grace_pointers (ss_store V) Dashboard subject))) (\<lambda>_.
       rbind (on_host (on_store (bump_epoch (ss_store V) Dashboard subject))) (\<lambda>_.
         ret ())))))"

definition service_rotate_session ::
    "('r, 'w) SessionService \<Rightarrow> string \<Rightarrow> string \<Rightarrow> SessionRecord \<Rightarrow> ('r, 'w, unit) flow_io" where
  "service_rotate_session V old_hash new_hash rec =
     (if \<not> is_session_hash old_hash \<or> \<not> is_session_hash new_hash then raise AuthError.SessionNotFound
      else if same_hash V old_hash new_hash then ret ()
      else
        rbind (on_host (on_store (rotate_session (ss_store V) Dashboard
          \<lparr>ro_old_hash = old_hash, ro_new_hash = new_hash, ro_new_raw = [], ro_new_record = rec,
           ro_subject_hash = session_subject V (sr_tenant_id rec) (sr_user_id rec),
           ro_refresh_ttl = ss_refresh_ttl_secs V, ro_grace_ttl = 0\<rparr>))) (\<lambda>_. ret ()))"

end
