(* ===== verification/Platform_Auth.thy ===== *)
theory Platform_Auth
  imports Auth_Services
begin

text \<open>
  The administrators' identity domain (\<open>services/platform.rs\<close>): its own login, refresh, logout and
  sweep, over the platform keyspaces of the store and with no tenant. Log lines and the timing floor
  of a refusal are left out.
\<close>

section \<open>The service\<close>

record ('r, 'w) PlatformAuthService =
  pa_repo :: "'w PlatformUserRepository"
  pa_tokens :: "'r TokenManagerService"
  pa_session_store :: "'r RedisStores"
  pa_passwords :: "'w PasswordService"
  pa_brute_force :: "'r BruteForceService"
  pa_identifier_key :: "u8 list"
  pa_mfa_enabled_for_build :: bool
  pa_blocked_statuses :: "string list"
  pa_to_lowercase :: "string \<Rightarrow> string"

definition platform_repository_error :: "RepositoryError \<Rightarrow> AuthError" where
  "platform_repository_error e =
     (case e of Backend source \<Rightarrow> AuthError.Internal source
      | Conflict _ \<Rightarrow> internal_error ''platform repository conflict'')"

definition platform_repo :: "('w, RepositoryError, 'a) io \<Rightarrow> ('r, 'w, 'a) flow_io" where
  "platform_repo m = map_err platform_repository_error (on_app m)"

definition platform_session_subject :: "('r, 'w) PlatformAuthService \<Rightarrow> string \<Rightarrow> string" where
  "platform_session_subject A admin_id =
     session_subject_hash (lib_jws (tm_libs (pa_tokens A))) (pa_identifier_key A) Platform None admin_id"

definition platform_lockout_identifier :: "('r, 'w) PlatformAuthService \<Rightarrow> string \<Rightarrow> string" where
  "platform_lockout_identifier A email =
     to_hex (hmac_sha256 (lib_jws (tm_libs (pa_tokens A))) (pa_identifier_key A) (as_bytes (''platform:'' @ email)))"

definition platform_token_hash :: "('r, 'w) PlatformAuthService \<Rightarrow> string \<Rightarrow> string" where
  "platform_token_hash A raw = redis_hash (lib_sha256 (tm_libs (pa_tokens A))) raw"

definition platform_assert_not_locked :: "('r, 'w) PlatformAuthService \<Rightarrow> string \<Rightarrow> ('r, 'w, unit) flow_io" where
  "platform_assert_not_locked A identifier =
     rbind (on_host (throttle_is_locked (pa_brute_force A) identifier)) (\<lambda>locked.
       if locked then
         rbind (on_host (throttle_remaining_secs (pa_brute_force A) identifier)) (\<lambda>retry.
           raise (AuthError.AccountLocked (Some retry)))
       else ret ())"

definition platform_record_failure_and_reject :: "('r, 'w) PlatformAuthService \<Rightarrow> string \<Rightarrow> ('r, 'w, 'a) flow_io" where
  "platform_record_failure_and_reject A identifier =
     rbind (on_host (throttle_record_failure (pa_brute_force A) identifier)) (\<lambda>_.
       raise AuthError.InvalidCredentials)"

definition platform_issue_login ::
    "('r, 'w) PlatformAuthService \<Rightarrow> AuthPlatformUser \<Rightarrow> string \<Rightarrow> string \<Rightarrow> ('r, 'w, PlatformLoginResult) flow_io" where
  "platform_issue_login A admin ip user_agent =
     rbind (on_host (issue_platform_tokens (pa_tokens A) (safe_platform_user admin) ip user_agent False)) (\<lambda>result.
     rbind (on_host (spawn_guarded (UpdatePlatformLastLogin (ap_id admin)))) (\<lambda>_.
       ret (PlatformLoginSuccess result)))"

section \<open>Login\<close>

definition platform_login ::
    "('r, 'w) PlatformAuthService \<Rightarrow> string \<Rightarrow> string \<Rightarrow> string \<Rightarrow> string \<Rightarrow> ('r, 'w, PlatformLoginResult) flow_io" where
  "platform_login A email0 password ip user_agent =
     (let email = normalize_email (pa_to_lowercase A) email0; identifier = platform_lockout_identifier A email in
      rbind (platform_assert_not_locked A identifier) (\<lambda>_.
      rbind (platform_repo (pu_find_by_email (pa_repo A) email)) (\<lambda>found.
        case found of
          None \<Rightarrow>
            rbind (verify_sentinel (pa_passwords A) password) (\<lambda>_.
              platform_record_failure_and_reject A identifier)
        | Some admin \<Rightarrow>
            rbind (verify_outcome (pa_passwords A) password (ap_password_hash admin)) (\<lambda>outcome.
              if \<not> vo_matched outcome then platform_record_failure_and_reject A identifier
              else
                rbind (lift_result (assert_not_blocked (ap_status admin) (pa_blocked_statuses A))) (\<lambda>_.
                rbind (on_host (throttle_reset (pa_brute_force A) identifier)) (\<lambda>_.
                rbind (if ps_rehash_on_verify (pa_passwords A) \<and> vo_needs_rehash outcome
                       then on_host (spawn_guarded (RehashPlatformPassword password (ap_id admin) (ap_password_hash admin)))
                       else ret ()) (\<lambda>_.
                  if ap_mfa_enabled admin then
                    if \<not> pa_mfa_enabled_for_build A then raise AuthError.InvalidCredentials
                    else
                      rbind (on_host (issue_mfa_temp_token (pa_tokens A) (ap_id admin) MfaContext_Platform None)) (\<lambda>mfa_temp_token.
                        ret (PlatformLoginMfaChallenge \<lparr>mcr_mfa_required = True, mcr_mfa_temp_token = mfa_temp_token\<rparr>))
                  else platform_issue_login A admin ip user_agent)))))))"

text \<open>The upgrade a login schedules, run later: it writes only over the hash that was verified.\<close>

definition run_rehash_platform_password ::
    "('r, 'w) PlatformAuthService \<Rightarrow> string \<Rightarrow> string \<Rightarrow> string \<Rightarrow> ('r, 'w, unit) flow_io" where
  "run_rehash_platform_password A password admin_id verified_hash =
     rbind (hash_password (pa_passwords A) password) (\<lambda>new_hash.
     rbind (platform_repo (pu_find_by_id (pa_repo A) admin_id)) (\<lambda>current.
       if map_option ap_password_hash current \<noteq> Some verified_hash then ret ()
       else platform_repo (pu_update_password (pa_repo A) admin_id new_hash)))"

definition platform_me :: "('r, 'w) PlatformAuthService \<Rightarrow> string \<Rightarrow> ('r, 'w, SafeAuthPlatformUser) flow_io" where
  "platform_me A admin_id =
     rbind (platform_repo (pu_find_by_id (pa_repo A) admin_id)) (\<lambda>found.
       case found of Some admin \<Rightarrow> ret (safe_platform_user admin) | None \<Rightarrow> raise AuthError.TokenInvalid)"

section \<open>Refresh and revocation\<close>

definition revoke_all_platform_sessions :: "('r, 'w) PlatformAuthService \<Rightarrow> string \<Rightarrow> ('r, 'w, unit) flow_io" where
  "revoke_all_platform_sessions A admin_id =
     (let subject = platform_session_subject A admin_id in
      rbind (on_host (on_store (revoke_all (pa_session_store A) Platform subject))) (\<lambda>_.
      rbind (on_host (on_store (bump_epoch (pa_session_store A) Platform subject))) (\<lambda>_. ret ())))"

definition platform_refresh ::
    "('r, 'w) PlatformAuthService \<Rightarrow> string \<Rightarrow> string \<Rightarrow> string \<Rightarrow> ('r, 'w, RotatedTokens) flow_io" where
  "platform_refresh A old_refresh ip user_agent =
     rbind (on_host (reissue_platform_tokens (pa_tokens A) old_refresh ip user_agent)) (\<lambda>rotated.
     rbind (on_host (verify_platform_access (pa_tokens A) (rot_access_token rotated))) (\<lambda>claims.
     rbind (platform_repo (pu_find_by_id (pa_repo A) (pc_sub claims))) (\<lambda>found.
       case found of
         None \<Rightarrow>
           rbind (revoke_all_platform_sessions A (pc_sub claims)) (\<lambda>_. raise AuthError.RefreshTokenInvalid)
       | Some admin \<Rightarrow>
           (case assert_not_blocked (ap_status admin) (pa_blocked_statuses A) of
              Inl error \<Rightarrow> rbind (revoke_all_platform_sessions A (ap_id admin)) (\<lambda>_. raise error)
            | Inr _ \<Rightarrow>
                if pc_role claims = ap_role admin \<and> pc_mfa_enabled claims = ap_mfa_enabled admin then ret rotated
                else
                  rbind (on_host (reissue_platform_access_with_authority (pa_tokens A) claims (ap_role admin)
                                    (ap_mfa_enabled admin))) (\<lambda>access_token.
                    ret \<lparr>rot_access_token = access_token, rot_refresh_token = rot_refresh_token rotated\<rparr>)))))"

section \<open>Logout\<close>

text \<open>The seconds a token still has, zero once it lapsed.\<close>

definition residual_ttl :: "int \<Rightarrow> int \<Rightarrow> nat" where
  "residual_ttl exp now = nat (saturating_sub exp now)"

text \<open>Both writes are attempted; a session that is already gone is no failure.\<close>

definition platform_revoke_logout_session ::
    "('r, 'w) PlatformAuthService \<Rightarrow> string \<Rightarrow> string \<Rightarrow> AuthError option \<Rightarrow> ('r, 'w, AuthError option) flow_io" where
  "platform_revoke_logout_session A raw_refresh admin_id failure =
     (let session_hash = platform_token_hash A raw_refresh in
      rbind (attempt (on_host (on_store (revoke_session (pa_session_store A) Platform
                       (platform_session_subject A admin_id) session_hash)))) (\<lambda>revoked.
      let failure1 = note_logout_failure failure (if revoked = Inl AuthError.SessionNotFound then Inr () else revoked) in
      rbind (attempt (on_host (on_store (delete_grace_pointer (pa_session_store A) Platform session_hash)))) (\<lambda>grace.
        ret (note_logout_failure failure1 grace))))"

definition platform_identity_only_context :: "string \<Rightarrow> HookContext" where
  "platform_identity_only_context admin_id =
     \<lparr>hc_plane = HookPlane_Platform, hc_user_id = Some admin_id, hc_email = None, hc_tenant_id = None,
      hc_ip = [], hc_user_agent = [], hc_sanitized_headers = []\<rparr>"

definition platform_logout :: "('r, 'w) PlatformAuthService \<Rightarrow> string \<Rightarrow> string \<Rightarrow> ('r, 'w, string) flow_io" where
  "platform_logout A access_token raw_refresh =
     rbind (if is_refresh_token_shape raw_refresh then
              rbind (map_err (\<lambda>_. internal_error ''a logout could not read its session'')
                       (on_host (on_store (find_session (pa_session_store A) Platform (platform_token_hash A raw_refresh))))) (\<lambda>found.
                ret (case found of Some rec \<Rightarrow> sr_user_id rec | None \<Rightarrow> []))
            else ret []) (\<lambda>admin_id.
     rbind (attempt (on_host (verify_platform_access_ignoring_expiry (pa_tokens A) access_token))) (\<lambda>verified.
     rbind (case verified of
              Inl _ \<Rightarrow> ret None
            | Inr claims \<Rightarrow>
                rbind (on_host now_unix) (\<lambda>now.
                rbind (attempt (on_host (revoke_access (pa_tokens A) (pc_jti claims) (residual_ttl (pc_exp claims) now)))) (\<lambda>revoked.
                  ret (note_logout_failure None revoked)))) (\<lambda>failure.
     rbind (if is_refresh_token_shape raw_refresh then platform_revoke_logout_session A raw_refresh admin_id failure
            else ret failure) (\<lambda>failure1.
       case failure1 of
         Some error \<Rightarrow> raise error
       | None \<Rightarrow>
           rbind (if admin_id \<noteq> [] then
                    on_host (spawn_guarded (AfterPlatformLogout admin_id (platform_identity_only_context admin_id)))
                  else ret ()) (\<lambda>_. ret admin_id)))))"

end
