(* ===== verification/Mfa_Service.thy ===== *)
theory Mfa_Service
  imports Totp Mfa_Store Session_Service Platform_Auth
begin

text \<open>
  The TOTP lifecycle (\<open>services/mfa/mod.rs\<close>, \<open>setup.rs\<close>, \<open>challenge.rs\<close>, \<open>manage.rs\<close> and \<open>hooks.rs\<close>):
  enrolment with its pending record, the challenge that finishes a login on either plane, removal of the
  factor by its holder or an administrator, and regeneration of the recovery codes. Every write of the
  factor runs under a per-account lock over the record as it is read inside it. Mails and hooks are
  notifications; log lines are left out.
\<close>

section \<open>The service\<close>

definition MFA_SETUP_TTL_SECONDS :: nat where
  "MFA_SETUP_TTL_SECONDS = 600"

definition TOTP_STEP_SECONDS :: nat where
  "TOTP_STEP_SECONDS = 30"

definition RECOVERY_CODE_CLAIM_TTL_SECONDS :: nat where
  "RECOVERY_CODE_CLAIM_TTL_SECONDS = 300"

definition MFA_TRANSITION_LOCK_TTL_SECONDS :: nat where
  "MFA_TRANSITION_LOCK_TTL_SECONDS = 10"

definition MFA_TRANSITION_LOCK_TOKEN_BYTES :: nat where
  "MFA_TRANSITION_LOCK_TOKEN_BYTES = 16"

definition RECOVERY_CODE_BYTES :: nat where
  "RECOVERY_CODE_BYTES = 12"

definition TOTP_SECRET_BYTES :: nat where
  "TOTP_SECRET_BYTES = 20"

record MfaSetupResult =
  msr_secret :: string
  msr_qr_code_uri :: string
  msr_recovery_codes :: "string list"

datatype LoginResultMfa = LoginResultMfa_Dashboard AuthResult | LoginResultMfa_Platform PlatformAuthResult

record MfaSetupData =
  msd_encrypted_secret :: string
  msd_hashed_codes :: "string list"
  msd_encrypted_plain_codes :: string

record MfaUserView =
  mu_email :: string
  mu_mfa_enabled :: bool
  mu_mfa_secret :: "string option"
  mu_mfa_recovery_codes :: "string list option"
  mu_dashboard_user :: "SafeAuthUser option"
  mu_hook_user :: SafeAuthUser
  mu_password_hash :: "string option"

definition view_plane :: "MfaUserView \<Rightarrow> HookPlane" where
  "view_plane v = (if mu_dashboard_user v \<noteq> None then HookPlane_Dashboard else HookPlane_Platform)"

definition PLATFORM_EMAIL_TENANT :: string where
  "PLATFORM_EMAIL_TENANT = ''platform''"

definition email_tenant :: "MfaUserView \<Rightarrow> string" where
  "email_tenant v = (case mu_dashboard_user v of None \<Rightarrow> PLATFORM_EMAIL_TENANT | Some u \<Rightarrow> su_tenant_id u)"

text \<open>The libraries: codes, the cipher, and the JSON of the pending record and of a list of codes.\<close>

record mfa_libs =
  ml_totp :: totp_lib
  ml_aead :: aead_lib
  ml_setup :: "MfaSetupData value_codec"
  ml_codes :: "string list value_codec"

record ('r, 'w) MfaService =
  ms_libs :: mfa_libs
  ms_mfa_store :: "'r RedisStores"
  ms_user_repo :: "'w UserRepository"
  ms_platform_repo :: "'w PlatformUserRepository option"
  ms_tokens :: "'r TokenManagerService"
  ms_sessions :: "('r, 'w) SessionService"
  ms_session_store :: "'r RedisStores"
  ms_brute_force :: "'r BruteForceService"
  ms_passwords :: "'w PasswordService"
  ms_encryption_key :: "u8 list"
  ms_previous_encryption_keys :: "u8 list list"
  ms_identifier_key :: "u8 list"
  ms_previous_identifier_keys :: "u8 list list"
  ms_issuer :: string
  ms_totp_window :: nat
  ms_recovery_code_count :: nat
  ms_sessions_enabled :: bool
  ms_blocked_statuses :: "string list"

abbreviation mfa_jws :: "('r, 'w) MfaService \<Rightarrow> jws_lib" where
  "mfa_jws S \<equiv> lib_jws (tm_libs (ms_tokens S))"

definition require_plane_tenant :: "MfaContext \<Rightarrow> string option \<Rightarrow> AuthError + unit" where
  "require_plane_tenant ctx tenant_id =
     (if plane_tenant_is_well_formed ctx tenant_id then Inr ()
      else Inl (AuthError.Validation [\<lparr>fe_field = ''tenantId'',
        fe_message = ''a dashboard MFA operation requires a non-empty tenantId, and a platform one requires none''\<rparr>]))"

definition mfa_repository_error :: "RepositoryError \<Rightarrow> AuthError" where
  "mfa_repository_error e =
     (case e of Backend source \<Rightarrow> AuthError.Internal source | Conflict _ \<Rightarrow> internal_error ''mfa repository conflict'')"

definition mfa_repo :: "('w, RepositoryError, 'a) io \<Rightarrow> ('r, 'w, 'a) flow_io" where
  "mfa_repo m = map_err mfa_repository_error (on_app m)"

section \<open>Keys\<close>

definition mfa_session_subject :: "('r, 'w) MfaService \<Rightarrow> MfaContext \<Rightarrow> string option \<Rightarrow> string \<Rightarrow> string" where
  "mfa_session_subject S ctx tenant_id user_id =
     session_subject_hash (mfa_jws S) (ms_identifier_key S) (session_kind ctx) tenant_id user_id"

definition setup_key :: "('r, 'w) MfaService \<Rightarrow> MfaContext \<Rightarrow> string option \<Rightarrow> string \<Rightarrow> string" where
  "setup_key S ctx tenant_id user_id = user_subject_hash (mfa_jws S) (ms_identifier_key S) ctx tenant_id user_id"

definition mfa_keyed :: "('r, 'w) MfaService \<Rightarrow> string \<Rightarrow> string" where
  "mfa_keyed S input = to_hex (hmac_sha256 (mfa_jws S) (ms_identifier_key S) (as_bytes input))"

definition replay_id :: "('r, 'w) MfaService \<Rightarrow> MfaContext \<Rightarrow> string option \<Rightarrow> string \<Rightarrow> string \<Rightarrow> string" where
  "replay_id S ctx tenant_id user_id code = mfa_keyed S (user_subject ctx tenant_id user_id @ '':'' @ code)"

definition anti_replay_ttl_seconds :: "('r, 'w) MfaService \<Rightarrow> nat" where
  "anti_replay_ttl_seconds S =
     (let window = min (ms_totp_window S) MAX_VERIFY_WINDOW in (2 * window + 1) * TOTP_STEP_SECONDS)"

definition challenge_bf_id :: "('r, 'w) MfaService \<Rightarrow> MfaContext \<Rightarrow> string option \<Rightarrow> string \<Rightarrow> string" where
  "challenge_bf_id S ctx tenant_id user_id = mfa_keyed S (''challenge:'' @ user_subject ctx tenant_id user_id)"

definition disable_bf_id :: "('r, 'w) MfaService \<Rightarrow> MfaContext \<Rightarrow> string option \<Rightarrow> string \<Rightarrow> string" where
  "disable_bf_id S ctx tenant_id user_id = mfa_keyed S (''disable:'' @ user_subject ctx tenant_id user_id)"

definition reauth_bf_id :: "('r, 'w) MfaService \<Rightarrow> MfaContext \<Rightarrow> string option \<Rightarrow> string \<Rightarrow> string" where
  "reauth_bf_id S ctx tenant_id user_id = mfa_keyed S (''reauth:'' @ user_subject ctx tenant_id user_id)"

definition mfa_lock_id :: "('r, 'w) MfaService \<Rightarrow> MfaContext \<Rightarrow> string option \<Rightarrow> string \<Rightarrow> string" where
  "mfa_lock_id S ctx tenant_id user_id = user_subject_hash (mfa_jws S) (ms_identifier_key S) ctx tenant_id user_id"

section \<open>Recovery codes\<close>

definition hash_recovery_code :: "('r, 'w) MfaService \<Rightarrow> string \<Rightarrow> string" where
  "hash_recovery_code S code = to_hex (hmac_sha256 (mfa_jws S) (ms_identifier_key S) (as_bytes code))"

definition recovery_code_candidates :: "('r, 'w) MfaService \<Rightarrow> string \<Rightarrow> string list" where
  "recovery_code_candidates S code =
     hash_recovery_code S code #
       map (\<lambda>k. to_hex (hmac_sha256 (mfa_jws S) k (as_bytes code))) (ms_previous_identifier_keys S)"

fun to_hex_upper :: "u8 list \<Rightarrow> string" where
  "to_hex_upper [] = []"
| "to_hex_upper (b # bs) = HEX_UPPER ! unat (drop_bit 4 b) # HEX_UPPER ! unat (b AND 0x0f) # to_hex_upper bs"

fun grouped_from :: "nat \<Rightarrow> string \<Rightarrow> string" where
  "grouped_from index [] = []"
| "grouped_from index (ch # rest) =
     (if index > 0 \<and> index mod 4 = 0 then [CHR ''-''] else []) @ ch # grouped_from (Suc index) rest"

definition generate_recovery_code :: "('r host, 'e, string) io" where
  "generate_recovery_code = rbind (random_bytes RECOVERY_CODE_BYTES) (\<lambda>bytes. ret (grouped_from 0 (to_hex_upper bytes)))"

fun generate_recovery_codes :: "nat \<Rightarrow> ('r host, 'e, string list) io" where
  "generate_recovery_codes 0 = ret []"
| "generate_recovery_codes (Suc n) =
     rbind generate_recovery_code (\<lambda>code. rbind (generate_recovery_codes n) (\<lambda>rest. ret (code # rest)))"

text \<open>Every stored digest is compared with every candidate; the first match is kept.\<close>

fun scan_recovery_codes :: "(u8 list \<Rightarrow> u8 list \<Rightarrow> bool) \<Rightarrow> string list \<Rightarrow> nat \<Rightarrow> nat option \<Rightarrow> string list \<Rightarrow> nat option" where
  "scan_recovery_codes ct_eq candidates index found [] = found"
| "scan_recovery_codes ct_eq candidates index found (dgst # digests) =
     scan_recovery_codes ct_eq candidates (Suc index)
       (foldl (\<lambda>found cand. if ct_eq (as_bytes dgst) (as_bytes cand)
          then (case found of Some i \<Rightarrow> Some i | None \<Rightarrow> Some index) else found) found candidates)
       digests"

definition verify_recovery_code :: "(u8 list \<Rightarrow> u8 list \<Rightarrow> bool) \<Rightarrow> string list \<Rightarrow> string list \<Rightarrow> nat option" where
  "verify_recovery_code ct_eq stored_digests candidates = scan_recovery_codes ct_eq candidates 0 None stored_digests"

section \<open>Encryption\<close>

definition mfa_encrypt :: "('r, 'w) MfaService \<Rightarrow> u8 list \<Rightarrow> ('r, 'w, string) flow_io" where
  "mfa_encrypt S plaintext =
     map_err (\<lambda>_. internal_error ''mfa secret encryption failed'')
       (on_host (aead_encrypt (ml_aead (ms_libs S)) plaintext (ms_encryption_key S)))"

fun decrypt_retired :: "aead_lib \<Rightarrow> string \<Rightarrow> u8 list list \<Rightarrow> (u8 list \<times> bool) option" where
  "decrypt_retired L wire [] = None"
| "decrypt_retired L wire (k # ks) =
     (case aead_decrypt L wire k of Inr plaintext \<Rightarrow> Some (plaintext, True) | Inl _ \<Rightarrow> decrypt_retired L wire ks)"

definition decrypt_with_rotation :: "('r, 'w) MfaService \<Rightarrow> string \<Rightarrow> (u8 list \<times> bool) option" where
  "decrypt_with_rotation S wire =
     (case aead_decrypt (ml_aead (ms_libs S)) wire (ms_encryption_key S) of
        Inr plaintext \<Rightarrow> Some (plaintext, False)
      | Inl _ \<Rightarrow> decrypt_retired (ml_aead (ms_libs S)) wire (ms_previous_encryption_keys S))"

definition mfa_decrypt :: "('r, 'w) MfaService \<Rightarrow> string \<Rightarrow> u8 list option" where
  "mfa_decrypt S wire = map_option fst (decrypt_with_rotation S wire)"

text \<open>The byte sequences \<open>String::from_utf8\<close> accepts.\<close>

definition utf8_between :: "nat \<Rightarrow> nat \<Rightarrow> u8 \<Rightarrow> bool" where
  "utf8_between lo hi b \<longleftrightarrow> lo \<le> unat b \<and> unat b \<le> hi"

fun valid_utf8 :: "u8 list \<Rightarrow> bool" where
  "valid_utf8 [] = True"
| "valid_utf8 (b # bs) =
     (if utf8_between 0 0x7F b then valid_utf8 bs
      else if utf8_between 0xC2 0xDF b then
        (case bs of c # cs \<Rightarrow> utf8_between 0x80 0xBF c \<and> valid_utf8 cs | _ \<Rightarrow> False)
      else if utf8_between 0xE0 0xEF b then
        (case bs of c # d # ds \<Rightarrow>
           utf8_between (if unat b = 0xE0 then 0xA0 else 0x80) (if unat b = 0xED then 0x9F else 0xBF) c \<and>
           utf8_between 0x80 0xBF d \<and> valid_utf8 ds
         | _ \<Rightarrow> False)
      else if utf8_between 0xF0 0xF4 b then
        (case bs of c # d # e # es \<Rightarrow>
           utf8_between (if unat b = 0xF0 then 0x90 else 0x80) (if unat b = 0xF4 then 0x8F else 0xBF) c \<and>
           utf8_between 0x80 0xBF d \<and> utf8_between 0x80 0xBF e \<and> valid_utf8 es
         | _ \<Rightarrow> False)
      else False)"

definition from_utf8 :: "u8 list \<Rightarrow> string option" where
  "from_utf8 bs = (if valid_utf8 bs then Some (of_bytes bs) else None)"

definition decrypt_secret_with_rotation :: "('r, 'w) MfaService \<Rightarrow> string \<Rightarrow> (u8 list \<times> bool) option" where
  "decrypt_secret_with_rotation S wire =
     (case decrypt_with_rotation S wire of
        None \<Rightarrow> None
      | Some (encoded, stale) \<Rightarrow>
          (case from_utf8 encoded of
             None \<Rightarrow> None
           | Some txt \<Rightarrow>
               (case decode_secret_base32 (ml_totp (ms_libs S)) txt of
                  Inl _ \<Rightarrow> None
                | Inr secret \<Rightarrow> Some (secret, stale))))"

definition decrypt_secret :: "('r, 'w) MfaService \<Rightarrow> string \<Rightarrow> u8 list option" where
  "decrypt_secret S wire = map_option fst (decrypt_secret_with_rotation S wire)"

definition holds_challenged_secret :: "('r, 'w) MfaService \<Rightarrow> MfaUserView \<Rightarrow> u8 list \<Rightarrow> bool" where
  "holds_challenged_secret S current challenged \<longleftrightarrow>
     mu_mfa_enabled current \<and>
     (case mu_mfa_secret current of
        None \<Rightarrow> False
      | Some wire \<Rightarrow>
          (case decrypt_secret S wire of None \<Rightarrow> False | Some stored \<Rightarrow> constant_time_eq (mfa_jws S) stored challenged))"

definition reencrypt_secret :: "('r, 'w) MfaService \<Rightarrow> u8 list \<Rightarrow> ('r, 'w, string) flow_io" where
  "reencrypt_secret S raw_secret = mfa_encrypt S (as_bytes (encode_secret_base32 (ml_totp (ms_libs S)) raw_secret))"

section \<open>The account\<close>

definition platform_hook_user :: "AuthPlatformUser \<Rightarrow> SafeAuthUser" where
  "platform_hook_user admin =
     \<lparr>su_id = ap_id admin, su_email = ap_email admin, su_name = ap_name admin, su_role = ap_role admin,
      su_status = ap_status admin, su_tenant_id = [], su_email_verified = True, su_mfa_enabled = ap_mfa_enabled admin,
      su_oauth_provider = None, su_oauth_provider_id = None, su_last_login_at = ap_last_login_at admin,
      su_created_at = ap_created_at admin\<rparr>"

definition after_transition :: "SafeAuthUser \<Rightarrow> bool \<Rightarrow> SafeAuthUser" where
  "after_transition user mfa_enabled = user\<lparr>su_mfa_enabled := mfa_enabled\<rparr>"

definition mfa_hook_context :: "HookPlane \<Rightarrow> string \<Rightarrow> string \<Rightarrow> string \<Rightarrow> string \<Rightarrow> HookContext" where
  "mfa_hook_context hook_plane user_id email ip user_agent =
     \<lparr>hc_plane = hook_plane, hc_user_id = Some user_id, hc_email = Some email, hc_tenant_id = None, hc_ip = ip,
      hc_user_agent = user_agent, hc_sanitized_headers = []\<rparr>"

definition view_of_user :: "AuthUser \<Rightarrow> MfaUserView" where
  "view_of_user user =
     \<lparr>mu_email = au_email user, mu_mfa_enabled = au_mfa_enabled user, mu_mfa_secret = au_mfa_secret user,
      mu_mfa_recovery_codes = au_mfa_recovery_codes user, mu_dashboard_user = Some (safe_user user),
      mu_hook_user = safe_user user, mu_password_hash = au_password_hash user\<rparr>"

definition view_of_admin :: "AuthPlatformUser \<Rightarrow> MfaUserView" where
  "view_of_admin admin =
     \<lparr>mu_email = ap_email admin, mu_mfa_enabled = ap_mfa_enabled admin, mu_mfa_secret = ap_mfa_secret admin,
      mu_mfa_recovery_codes = ap_mfa_recovery_codes admin, mu_dashboard_user = None,
      mu_hook_user = platform_hook_user admin, mu_password_hash = Some (ap_password_hash admin)\<rparr>"

definition fetch_user_mfa ::
    "('r, 'w) MfaService \<Rightarrow> string \<Rightarrow> MfaContext \<Rightarrow> string option \<Rightarrow> ('r, 'w, MfaUserView) flow_io" where
  "fetch_user_mfa S user_id ctx tenant_id =
     (case ctx of
        MfaContext_Dashboard \<Rightarrow>
          rbind (mfa_repo (ur_find_by_id (ms_user_repo S) user_id tenant_id)) (\<lambda>found.
            case found of
              None \<Rightarrow> raise AuthError.MfaNotEnabled
            | Some user \<Rightarrow>
                rbind (lift_result (assert_not_blocked (au_status user) (ms_blocked_statuses S))) (\<lambda>_.
                  ret (view_of_user user)))
      | MfaContext_Platform \<Rightarrow>
          (case ms_platform_repo S of
             None \<Rightarrow> raise AuthError.MfaNotEnabled
           | Some repo \<Rightarrow>
               rbind (mfa_repo (pu_find_by_id repo user_id)) (\<lambda>found.
                 case found of
                   None \<Rightarrow> raise AuthError.MfaNotEnabled
                 | Some admin \<Rightarrow>
                     rbind (lift_result (assert_not_blocked (ap_status admin) (ms_blocked_statuses S))) (\<lambda>_.
                       ret (view_of_admin admin)))))"

definition persist_mfa ::
    "('r, 'w) MfaService \<Rightarrow> string \<Rightarrow> MfaContext \<Rightarrow> string option \<Rightarrow> bool \<Rightarrow> string option \<Rightarrow> string list option \<Rightarrow>
      ('r, 'w, unit) flow_io" where
  "persist_mfa S user_id ctx tenant_id enabled secret codes =
     (case ctx of
        MfaContext_Dashboard \<Rightarrow>
          (case tenant_id of
             None \<Rightarrow> raise (internal_error ''MFA write without a tenant'')
           | Some tenant \<Rightarrow>
               mfa_repo (ur_update_mfa (ms_user_repo S) user_id tenant
                 \<lparr>um_mfa_enabled = enabled, um_mfa_secret = secret, um_mfa_recovery_codes = codes\<rparr>))
      | MfaContext_Platform \<Rightarrow>
          (case ms_platform_repo S of
             None \<Rightarrow> raise AuthError.MfaNotEnabled
           | Some repo \<Rightarrow>
               mfa_repo (pu_update_mfa repo user_id
                 \<lparr>upm_mfa_enabled = enabled, upm_mfa_secret = secret, upm_mfa_recovery_codes = codes\<rparr>)))"

section \<open>Transitions\<close>

text \<open>What a transition writes: the flag, the encrypted secret and the digests, or nothing.\<close>

type_synonym mfa_change = "MfaUserView \<Rightarrow> (bool \<times> string option \<times> string list option) option"

definition transition_locked ::
    "('r, 'w) MfaService \<Rightarrow> string \<Rightarrow> MfaContext \<Rightarrow> string option \<Rightarrow> mfa_change \<Rightarrow> ('r, 'w, bool) flow_io" where
  "transition_locked S user_id ctx tenant_id mutate =
     rbind (fetch_user_mfa S user_id ctx tenant_id) (\<lambda>current.
       case mutate current of
         None \<Rightarrow> ret False
       | Some (enabled, secret, codes) \<Rightarrow>
           rbind (persist_mfa S user_id ctx tenant_id enabled secret codes) (\<lambda>_. ret True))"

definition transition_mfa_record ::
    "('r, 'w) MfaService \<Rightarrow> string \<Rightarrow> MfaContext \<Rightarrow> string option \<Rightarrow> mfa_change \<Rightarrow> ('r, 'w, bool) flow_io" where
  "transition_mfa_record S user_id ctx tenant_id mutate =
     (let lock_id = mfa_lock_id S ctx tenant_id user_id in
      rbind (draw_token MFA_TRANSITION_LOCK_TOKEN_BYTES) (\<lambda>lock_token.
      rbind (on_host (on_store (acquire_mfa_lock (ms_mfa_store S) lock_id lock_token MFA_TRANSITION_LOCK_TTL_SECONDS))) (\<lambda>acquired.
        if \<not> acquired then raise AuthError.MfaStateConflict
        else
          rbind (attempt (transition_locked S user_id ctx tenant_id mutate)) (\<lambda>outcome.
          rbind (on_host (on_store (release_mfa_lock (ms_mfa_store S) lock_id lock_token))) (\<lambda>_.
            lift_result outcome)))))"

section \<open>Gates\<close>

definition mfa_assert_not_locked :: "('r, 'w) MfaService \<Rightarrow> string \<Rightarrow> ('r, 'w, unit) flow_io" where
  "mfa_assert_not_locked S bf_id =
     rbind (on_host (throttle_is_locked (ms_brute_force S) bf_id)) (\<lambda>locked.
       if locked then
         rbind (on_host (throttle_remaining_secs (ms_brute_force S) bf_id)) (\<lambda>retry.
           raise (AuthError.AccountLocked (Some retry)))
       else ret ())"

definition assert_reauthenticated ::
    "('r, 'w) MfaService \<Rightarrow> MfaContext \<Rightarrow> string option \<Rightarrow> string \<Rightarrow> string option \<Rightarrow> string option \<Rightarrow> ('r, 'w, unit) flow_io" where
  "assert_reauthenticated S ctx tenant_id user_id password_hash password =
     (case password_hash of
        None \<Rightarrow>
          (let marker = user_subject_hash (mfa_jws S) (ms_identifier_key S) ctx tenant_id user_id in
           rbind (on_host (on_store (has_recent_auth (ms_session_store S) marker))) (\<lambda>recent.
             if \<not> recent then raise AuthError.ReauthenticationRequired else ret ()))
      | Some hsh \<Rightarrow>
          (let bf_id = reauth_bf_id S ctx tenant_id user_id in
           rbind (mfa_assert_not_locked S bf_id) (\<lambda>_.
           rbind (verify_outcome (ms_passwords S) (the_default [] password) hsh) (\<lambda>outcome.
             if vo_matched outcome then on_host (throttle_reset (ms_brute_force S) bf_id)
             else
               rbind (on_host (throttle_record_failure (ms_brute_force S) bf_id)) (\<lambda>_.
                 raise AuthError.InvalidCredentials)))))"

definition current_unix_time :: "('r host, 'e, 64 word) io" where
  "current_unix_time = rbind now_unix (\<lambda>t. ret (if 0 \<le> t \<and> t < 2 ^ 64 then of_int t else 0))"

definition verify_totp_with_anti_replay ::
    "('r, 'w) MfaService \<Rightarrow> MfaContext \<Rightarrow> string option \<Rightarrow> string \<Rightarrow> u8 list \<Rightarrow> string \<Rightarrow> ('r, 'w, bool) flow_io" where
  "verify_totp_with_anti_replay S ctx tenant_id user_id secret code =
     rbind (on_host current_unix_time) (\<lambda>now.
       if \<not> totp_verify (ml_totp (ms_libs S)) secret code now (ms_totp_window S) then ret False
       else on_host (on_store (mark_totp_used (ms_mfa_store S) (replay_id S ctx tenant_id user_id code)
              (anti_replay_ttl_seconds S))))"

section \<open>Enrolment material\<close>

definition generate_setup_material :: "('r, 'w) MfaService \<Rightarrow> ('r, 'w, u8 list \<times> string list \<times> MfaSetupData) flow_io" where
  "generate_setup_material S =
     rbind (on_host (random_bytes TOTP_SECRET_BYTES)) (\<lambda>raw_secret.
     rbind (on_host (generate_recovery_codes (ms_recovery_code_count S))) (\<lambda>plain_codes.
     let hashed_codes = map (hash_recovery_code S) plain_codes in
     case enc_val (ml_codes (ms_libs S)) plain_codes of
       None \<Rightarrow> raise (internal_error ''mfa codes encode'')
     | Some plain_json \<Rightarrow>
         rbind (mfa_encrypt S (as_bytes (encode_secret_base32 (ml_totp (ms_libs S)) raw_secret))) (\<lambda>encrypted_secret.
         rbind (mfa_encrypt S (as_bytes plain_json)) (\<lambda>encrypted_plain_codes.
           ret (raw_secret, plain_codes, \<lparr>msd_encrypted_secret = encrypted_secret, msd_hashed_codes = hashed_codes,
             msd_encrypted_plain_codes = encrypted_plain_codes\<rparr>)))))"

definition build_setup_result :: "('r, 'w) MfaService \<Rightarrow> string \<Rightarrow> u8 list \<Rightarrow> string list \<Rightarrow> MfaSetupResult" where
  "build_setup_result S email raw_secret recovery_codes =
     \<lparr>msr_secret = encode_secret_base32 (ml_totp (ms_libs S)) raw_secret,
      msr_qr_code_uri = provisioning_uri (ml_totp (ms_libs S)) raw_secret email (ms_issuer S),
      msr_recovery_codes = recovery_codes\<rparr>"

definition setup_result_from_record :: "('r, 'w) MfaService \<Rightarrow> string \<Rightarrow> string \<Rightarrow> AuthError + MfaSetupResult" where
  "setup_result_from_record S email record_json =
     (case dec_val (ml_setup (ms_libs S)) record_json of
        None \<Rightarrow> Inl (internal_error ''mfa setup record decode'')
      | Some d \<Rightarrow>
          (case decrypt_secret S (msd_encrypted_secret d) of
             None \<Rightarrow> Inl (internal_error ''mfa setup record secret decrypt'')
           | Some raw_secret \<Rightarrow>
               (case mfa_decrypt S (msd_encrypted_plain_codes d) of
                  None \<Rightarrow> Inl (internal_error ''mfa setup record codes decrypt'')
                | Some plain_json \<Rightarrow>
                    (case dec_val (ml_codes (ms_libs S)) (of_bytes plain_json) of
                       None \<Rightarrow> Inl (internal_error ''mfa setup record codes decode'')
                     | Some recovery_codes \<Rightarrow> Inr (build_setup_result S email raw_secret recovery_codes)))))"

section \<open>Concrete codecs\<close>

definition codes_codec :: "string list value_codec" where
  "codes_codec = \<lparr>enc_val = (\<lambda>xs. Some (put_field (show_nat (length xs)) @ put_fields xs)),
     dec_val = (\<lambda>s. case take_field s of
        None \<Rightarrow> None
      | Some (n, rest) \<Rightarrow> (case parse_nat n of None \<Rightarrow> None | Some n \<Rightarrow> take_fields n rest))\<rparr>"

definition setup_codec :: "MfaSetupData value_codec" where
  "setup_codec = \<lparr>enc_val = (\<lambda>d. enc_val codes_codec (msd_encrypted_secret d # msd_encrypted_plain_codes d # msd_hashed_codes d)),
     dec_val = (\<lambda>s. case dec_val codes_codec s of
        Some (secret # codes # hashes) \<Rightarrow>
          Some \<lparr>msd_encrypted_secret = secret, msd_hashed_codes = hashes, msd_encrypted_plain_codes = codes\<rparr>
      | _ \<Rightarrow> None)\<rparr>"

interpretation code_values: value_round_trip codes_codec
  by unfold_locales (auto simp: codes_codec_def take_put_fields)

interpretation setup_values: value_round_trip setup_codec
  by unfold_locales (auto simp: setup_codec_def dest!: code_values.dec_enc)

definition sample_mfa_libs :: mfa_libs where
  "sample_mfa_libs = \<lparr>ml_totp = sample_totp, ml_aead = sample_aead, ml_setup = setup_codec, ml_codes = codes_codec\<rparr>"

end
