(* ===== verification/Mfa_Flows.thy ===== *)
theory Mfa_Flows
  imports Mfa_Service
begin

text \<open>
  The operations of the MFA service: enrolment (\<open>services/mfa/setup.rs\<close>), the challenge
  (\<open>challenge.rs\<close>) and management (\<open>manage.rs\<close>). The build has the \<open>platform\<close> feature.
\<close>

section \<open>Enrolment\<close>

definition mfa_setup ::
    "('r, 'w) MfaService \<Rightarrow> string \<Rightarrow> MfaContext \<Rightarrow> string option \<Rightarrow> string option \<Rightarrow> ('r, 'w, MfaSetupResult) flow_io" where
  "mfa_setup S user_id ctx tenant_id password =
     rbind (lift_result (require_plane_tenant ctx tenant_id)) (\<lambda>_.
     rbind (fetch_user_mfa S user_id ctx tenant_id) (\<lambda>v.
       if mu_mfa_enabled v then raise AuthError.MfaAlreadyEnabled
       else
         rbind (assert_reauthenticated S ctx tenant_id user_id (mu_password_hash v) password) (\<lambda>_.
         let k = setup_key S ctx tenant_id user_id in
         rbind (on_host (on_store (get_setup (ms_mfa_store S) k))) (\<lambda>pending.
           case pending of
             Some existing \<Rightarrow> lift_result (setup_result_from_record S (mu_email v) existing)
           | None \<Rightarrow>
               rbind (generate_setup_material S) (\<lambda>(raw_secret, plain_codes, d).
               case enc_val (ml_setup (ms_libs S)) d of
                 None \<Rightarrow> raise (internal_error ''mfa setup encode'')
               | Some json \<Rightarrow>
                   rbind (on_host (on_store (put_setup_nx (ms_mfa_store S) k json MFA_SETUP_TTL_SECONDS))) (\<lambda>won_race.
                     if won_race then ret (build_setup_result S (mu_email v) raw_secret plain_codes)
                     else
                       rbind (on_host (on_store (get_setup (ms_mfa_store S) k))) (\<lambda>winner.
                         case winner of
                           None \<Rightarrow> raise (internal_error ''mfa setup record vanished after NX race'')
                         | Some existing \<Rightarrow> lift_result (setup_result_from_record S (mu_email v) existing))))))))"

text \<open>A change of the factor ends every session of the account and every access token issued before it.\<close>

definition revoke_everything ::
    "('r, 'w) MfaService \<Rightarrow> MfaContext \<Rightarrow> string option \<Rightarrow> string \<Rightarrow> ('r, 'w, unit) flow_io" where
  "revoke_everything S ctx tenant_id user_id =
     (let subject = mfa_session_subject S ctx tenant_id user_id in
      rbind (on_host (on_store (revoke_all (ms_session_store S) (session_kind ctx) subject))) (\<lambda>_.
      rbind (on_host (on_store (bump_epoch (ms_session_store S) (session_kind ctx) subject))) (\<lambda>_. ret ())))"

definition notify_enabled :: "MfaUserView \<Rightarrow> string \<Rightarrow> string \<Rightarrow> string \<Rightarrow> ('r, 'w, unit) flow_io" where
  "notify_enabled v user_id ip user_agent =
     rbind (on_host (spawn_guarded (SendMfaEnabled (email_tenant v) (mu_email v)))) (\<lambda>_.
       on_host (spawn_guarded (AfterMfaEnabled (after_transition (mu_hook_user v) True)
         (mfa_hook_context (view_plane v) user_id (mu_email v) ip user_agent))))"

definition verify_and_enable ::
    "('r, 'w) MfaService \<Rightarrow> string \<Rightarrow> string \<Rightarrow> string \<Rightarrow> string \<Rightarrow> MfaContext \<Rightarrow> string option \<Rightarrow> ('r, 'w, unit) flow_io" where
  "verify_and_enable S user_id code ip user_agent ctx tenant_id =
     rbind (lift_result (require_plane_tenant ctx tenant_id)) (\<lambda>_.
     rbind (fetch_user_mfa S user_id ctx tenant_id) (\<lambda>v.
       if mu_mfa_enabled v then raise AuthError.MfaAlreadyEnabled
       else
         let k = setup_key S ctx tenant_id user_id in
         rbind (on_host (on_store (get_setup (ms_mfa_store S) k))) (\<lambda>pending.
           case pending of
             None \<Rightarrow> raise AuthError.MfaSetupRequired
           | Some record_json \<Rightarrow>
               (case dec_val (ml_setup (ms_libs S)) record_json of
                  None \<Rightarrow> raise AuthError.MfaSetupRequired
                | Some d \<Rightarrow>
                    (case decrypt_secret S (msd_encrypted_secret d) of
                       None \<Rightarrow> raise AuthError.MfaSetupRequired
                     | Some raw_secret \<Rightarrow>
                         rbind (verify_totp_with_anti_replay S ctx tenant_id user_id raw_secret code) (\<lambda>ok.
                           if \<not> ok then raise AuthError.MfaInvalidCode
                           else
                             rbind (on_host (on_store (take_setup (ms_mfa_store S) k))) (\<lambda>taken.
                               if taken = None then raise AuthError.MfaSetupRequired
                               else
                                 rbind (transition_mfa_record S user_id ctx tenant_id
                                   (\<lambda>_. Some (True, Some (msd_encrypted_secret d), Some (msd_hashed_codes d)))) (\<lambda>_.
                                 rbind (revoke_everything S ctx tenant_id user_id) (\<lambda>_.
                                   notify_enabled v user_id ip user_agent)))))))))"

section \<open>Management\<close>

definition reauth_gate ::
    "('r, 'w) MfaService \<Rightarrow> MfaContext \<Rightarrow> string option \<Rightarrow> string \<Rightarrow> string \<Rightarrow> MfaUserView \<Rightarrow> ('r, 'w, unit) flow_io" where
  "reauth_gate S ctx tenant_id user_id code v =
     (if \<not> mu_mfa_enabled v then raise AuthError.MfaNotEnabled
      else
        let bf_id = disable_bf_id S ctx tenant_id user_id in
        rbind (mfa_assert_not_locked S bf_id) (\<lambda>_.
          case mu_mfa_secret v of
            None \<Rightarrow> raise AuthError.TokenInvalid
          | Some encrypted \<Rightarrow>
              (case decrypt_secret S encrypted of
                 None \<Rightarrow> raise AuthError.TokenInvalid
               | Some raw_secret \<Rightarrow>
                   rbind (verify_totp_with_anti_replay S ctx tenant_id user_id raw_secret code) (\<lambda>ok.
                     if \<not> ok then
                       rbind (on_host (throttle_record_failure (ms_brute_force S) bf_id)) (\<lambda>_. raise AuthError.MfaInvalidCode)
                     else on_host (throttle_reset (ms_brute_force S) bf_id)))))"

definition notify_disabled :: "MfaUserView \<Rightarrow> string \<Rightarrow> string \<Rightarrow> string \<Rightarrow> ('r, 'w, unit) flow_io" where
  "notify_disabled v user_id ip user_agent =
     rbind (on_host (spawn_guarded (SendMfaDisabled (email_tenant v) (mu_email v)))) (\<lambda>_.
       on_host (spawn_guarded (AfterMfaDisabled (after_transition (mu_hook_user v) False)
         (mfa_hook_context (view_plane v) user_id (mu_email v) ip user_agent))))"

definition notify_regenerated :: "MfaUserView \<Rightarrow> string \<Rightarrow> string \<Rightarrow> string \<Rightarrow> ('r, 'w, unit) flow_io" where
  "notify_regenerated v user_id ip user_agent =
     on_host (spawn_guarded (AfterMfaRecoveryCodesRegenerated (mu_hook_user v)
       (mfa_hook_context (view_plane v) user_id (mu_email v) ip user_agent)))"

definition mfa_disable ::
    "('r, 'w) MfaService \<Rightarrow> string \<Rightarrow> string \<Rightarrow> string \<Rightarrow> string \<Rightarrow> MfaContext \<Rightarrow> string option \<Rightarrow> ('r, 'w, unit) flow_io" where
  "mfa_disable S user_id code ip user_agent ctx tenant_id =
     rbind (lift_result (require_plane_tenant ctx tenant_id)) (\<lambda>_.
     rbind (fetch_user_mfa S user_id ctx tenant_id) (\<lambda>v.
     rbind (reauth_gate S ctx tenant_id user_id code v) (\<lambda>_.
     rbind (transition_mfa_record S user_id ctx tenant_id (\<lambda>_. Some (False, None, None))) (\<lambda>_.
     rbind (revoke_everything S ctx tenant_id user_id) (\<lambda>_.
       notify_disabled v user_id ip user_agent)))))"

definition reset_mfa :: "('r, 'w) MfaService \<Rightarrow> string \<Rightarrow> MfaContext \<Rightarrow> string option \<Rightarrow> ('r, 'w, unit) flow_io" where
  "reset_mfa S user_id ctx tenant_id =
     rbind (lift_result (require_plane_tenant ctx tenant_id)) (\<lambda>_.
     rbind (fetch_user_mfa S user_id ctx tenant_id) (\<lambda>v.
       if \<not> mu_mfa_enabled v then ret ()
       else
         rbind (transition_mfa_record S user_id ctx tenant_id (\<lambda>_. Some (False, None, None))) (\<lambda>_.
         rbind (revoke_everything S ctx tenant_id user_id) (\<lambda>_.
           notify_disabled v user_id [] []))))"

definition regenerate_recovery_codes ::
    "('r, 'w) MfaService \<Rightarrow> string \<Rightarrow> string \<Rightarrow> string \<Rightarrow> string \<Rightarrow> MfaContext \<Rightarrow> string option \<Rightarrow> ('r, 'w, string list) flow_io" where
  "regenerate_recovery_codes S user_id totp_code ip user_agent ctx tenant_id =
     rbind (lift_result (require_plane_tenant ctx tenant_id)) (\<lambda>_.
     rbind (fetch_user_mfa S user_id ctx tenant_id) (\<lambda>v.
     rbind (reauth_gate S ctx tenant_id user_id totp_code v) (\<lambda>_.
     rbind (on_host (generate_recovery_codes (ms_recovery_code_count S))) (\<lambda>plain_codes.
     let hashed = map (hash_recovery_code S) plain_codes in
     rbind (transition_mfa_record S user_id ctx tenant_id (\<lambda>current.
              if \<not> mu_mfa_enabled current then None
              else map_option (\<lambda>secret. (True, Some secret, Some hashed)) (mu_mfa_secret current))) (\<lambda>replaced.
       if \<not> replaced then raise AuthError.MfaNotEnabled
       else
         rbind (notify_regenerated v user_id ip user_agent) (\<lambda>_. ret plain_codes))))))"

section \<open>The challenge\<close>

definition is_ascii_digit :: "char \<Rightarrow> bool" where
  "is_ascii_digit c \<longleftrightarrow> (let b = of_char c :: nat in 48 \<le> b \<and> b \<le> 57)"

definition is_totp_code :: "string \<Rightarrow> bool" where
  "is_totp_code code \<longleftrightarrow> length code = 6 \<and> list_all is_ascii_digit code"

definition accept_totp ::
    "('r, 'w) MfaService \<Rightarrow> MfaContext \<Rightarrow> string option \<Rightarrow> string \<Rightarrow> u8 list \<Rightarrow> string \<Rightarrow> string \<Rightarrow> ('r, 'w, bool) flow_io" where
  "accept_totp S ctx tenant_id user_id raw_secret code jti =
     rbind (on_host current_unix_time) (\<lambda>now.
       if \<not> totp_verify (ml_totp (ms_libs S)) raw_secret code now (ms_totp_window S) then ret False
       else
         let jti_marker = to_hex (lib_sha256 (tm_libs (ms_tokens S)) (as_bytes jti)) in
         on_host (on_store (challenge_consume (ms_mfa_store S) (replay_id S ctx tenant_id user_id code) jti_marker
           (anti_replay_ttl_seconds S))))"

definition claim_code :: "('r, 'w) MfaService \<Rightarrow> MfaContext \<Rightarrow> string option \<Rightarrow> string \<Rightarrow> string \<Rightarrow> ('r, 'w, bool) flow_io" where
  "claim_code S ctx tenant_id user_id code =
     on_host (on_store (claim_recovery_code (ms_mfa_store S) (replay_id S ctx tenant_id user_id code)
       RECOVERY_CODE_CLAIM_TTL_SECONDS))"

definition accept_recovery_code ::
    "('r, 'w) MfaService \<Rightarrow> MfaContext \<Rightarrow> AuthUser \<Rightarrow> string \<Rightarrow> ('r, 'w, nat option) flow_io" where
  "accept_recovery_code S ctx user code =
     (let candidates = recovery_code_candidates S code; stored = the_default [] (au_mfa_recovery_codes user) in
      case verify_recovery_code (constant_time_eq (mfa_jws S)) stored candidates of
        None \<Rightarrow> ret None
      | Some index \<Rightarrow>
          rbind (claim_code S ctx (Some (au_tenant_id user)) (au_id user) code) (\<lambda>claimed.
            ret (if claimed then Some index else None)))"

definition claim_matched_recovery_code ::
    "('r, 'w) MfaService \<Rightarrow> MfaContext \<Rightarrow> string \<Rightarrow> string \<Rightarrow> string list \<Rightarrow> ('r, 'w, nat option) flow_io" where
  "claim_matched_recovery_code S ctx user_id code stored =
     (case verify_recovery_code (constant_time_eq (mfa_jws S)) stored (recovery_code_candidates S code) of
        None \<Rightarrow> ret None
      | Some index \<Rightarrow>
          rbind (claim_code S ctx None user_id code) (\<lambda>claimed. ret (if claimed then Some index else None)))"

definition reject_code :: "('r, 'w) MfaService \<Rightarrow> string \<Rightarrow> ('r, 'w, 'a) flow_io" where
  "reject_code S bf_id =
     rbind (on_host (throttle_record_failure (ms_brute_force S) bf_id)) (\<lambda>_. raise AuthError.MfaInvalidCode)"

text \<open>The change a spent recovery code makes: the digest is searched for by value in the list as it is inside the lock.\<close>

definition nth_opt :: "'a list \<Rightarrow> nat \<Rightarrow> 'a option" where
  "nth_opt xs i = (if i < length xs then Some (xs ! i) else None)"

definition splice_change :: "('r, 'w) MfaService \<Rightarrow> u8 list \<Rightarrow> string \<Rightarrow> string option \<Rightarrow> mfa_change" where
  "splice_change S challenged stored_secret spent_digest current =
     (if \<not> holds_challenged_secret S current challenged then None
      else
        let codes = the_default [] (mu_mfa_recovery_codes current) in
        case spent_digest of
          None \<Rightarrow> None
        | Some d \<Rightarrow> if d \<in> set codes then Some (True, Some stored_secret, Some (remove1 d codes)) else None)"

definition splice_recovery_code ::
    "('r, 'w) MfaService \<Rightarrow> AuthUser \<Rightarrow> u8 list \<Rightarrow> string \<Rightarrow> nat \<Rightarrow> ('r, 'w, unit) flow_io" where
  "splice_recovery_code S user challenged encrypted_secret index =
     (let spent_digest = (case au_mfa_recovery_codes user of None \<Rightarrow> None | Some codes \<Rightarrow> nth_opt codes index) in
      rbind (transition_mfa_record S (au_id user) MfaContext_Dashboard (Some (au_tenant_id user))
        (splice_change S challenged encrypted_secret spent_digest)) (\<lambda>_. ret ()))"

text \<open>The rewrite of a secret that opened under a retired key.\<close>

definition rewrite_change :: "('r, 'w) MfaService \<Rightarrow> u8 list \<Rightarrow> string \<Rightarrow> mfa_change" where
  "rewrite_change S challenged stored_secret current =
     (if \<not> holds_challenged_secret S current challenged then None
      else Some (True, Some stored_secret, mu_mfa_recovery_codes current))"

definition mfa_enforce_session_limit ::
    "('r, 'w) MfaService \<Rightarrow> SafeAuthUser \<Rightarrow> string \<Rightarrow> AuthResult \<Rightarrow> string \<Rightarrow> string \<Rightarrow> ('r, 'w, unit) flow_io" where
  "mfa_enforce_session_limit S safe email result ip user_agent =
     (if \<not> ms_sessions_enabled S then ret ()
      else
        let new_hash = redis_hash (lib_sha256 (tm_libs (ms_tokens S))) (ar_refresh_token result);
            (device, stored_ip) = normalize_session_metadata user_agent ip
        in rbind (on_host now_offset) (\<lambda>created_at.
             after_session_created (ms_sessions S)
               \<lparr>sr_user_id = su_id safe, sr_tenant_id = Some (su_tenant_id safe), sr_role = su_role safe,
                sr_device = device, sr_ip = stored_ip, sr_created_at = created_at,
                sr_mfa_enabled = su_mfa_enabled safe, sr_mfa_verified = True, sr_family_id = [],
                sr_family_created_at = None\<rparr> new_hash
               (mfa_hook_context HookPlane_Dashboard (su_id safe) email ip user_agent)))"

definition settle_code :: "('r, 'w) MfaService \<Rightarrow> string \<Rightarrow> string \<Rightarrow> nat option \<Rightarrow> ('r, 'w, nat option) flow_io" where
  "settle_code S bf_id jti matched =
     (case matched of
        Some index \<Rightarrow>
          rbind (on_host (consume_mfa_temp_token (ms_tokens S) jti)) (\<lambda>consumed.
            if \<not> consumed then raise AuthError.MfaTempTokenInvalid else ret (Some index))
      | None \<Rightarrow> reject_code S bf_id)"

definition dashboard_code ::
    "('r, 'w) MfaService \<Rightarrow> string option \<Rightarrow> string \<Rightarrow> AuthUser \<Rightarrow> u8 list \<Rightarrow> string \<Rightarrow> string \<Rightarrow> string \<Rightarrow>
      ('r, 'w, nat option) flow_io" where
  "dashboard_code S tenant_id user_id user raw_secret code jti bf_id =
     (if is_totp_code code then
        rbind (accept_totp S MfaContext_Dashboard tenant_id user_id raw_secret code jti) (\<lambda>ok.
          if \<not> ok then reject_code S bf_id else ret None)
      else
        rbind (accept_recovery_code S MfaContext_Dashboard user code) (settle_code S bf_id jti))"

definition platform_code ::
    "('r, 'w) MfaService \<Rightarrow> string \<Rightarrow> string list \<Rightarrow> u8 list \<Rightarrow> string \<Rightarrow> string \<Rightarrow> string \<Rightarrow> ('r, 'w, nat option) flow_io" where
  "platform_code S user_id recovery_codes raw_secret code jti bf_id =
     (if is_totp_code code then
        rbind (accept_totp S MfaContext_Platform None user_id raw_secret code jti) (\<lambda>ok.
          if \<not> ok then reject_code S bf_id else ret None)
      else
        rbind (claim_matched_recovery_code S MfaContext_Platform user_id code recovery_codes) (settle_code S bf_id jti))"

definition stored_secret_of :: "('r, 'w) MfaService \<Rightarrow> bool \<Rightarrow> u8 list \<Rightarrow> string \<Rightarrow> ('r, 'w, string) flow_io" where
  "stored_secret_of S under_retired_key raw_secret encrypted_secret =
     (if under_retired_key then reencrypt_secret S raw_secret else ret encrypted_secret)"

definition finish_dashboard ::
    "('r, 'w) MfaService \<Rightarrow> string \<Rightarrow> AuthUser \<Rightarrow> string \<Rightarrow> string \<Rightarrow> ('r, 'w, LoginResultMfa) flow_io" where
  "finish_dashboard S user_id user ip user_agent =
     (let email = au_email user; safe = safe_user user in
      rbind (on_host (issue_tokens (ms_tokens S) safe ip user_agent True Proved)) (\<lambda>result.
      rbind (mfa_enforce_session_limit S safe email result ip user_agent) (\<lambda>_.
      rbind (on_host (spawn_guarded (UpdateLastLogin (su_tenant_id safe) (su_id safe)))) (\<lambda>_.
      rbind (on_host (spawn_guarded (AfterLogin safe (mfa_hook_context HookPlane_Dashboard user_id email ip user_agent)))) (\<lambda>_.
        ret (LoginResultMfa_Dashboard result))))))"

definition challenge_dashboard ::
    "('r, 'w) MfaService \<Rightarrow> MfaTempVerified \<Rightarrow> string \<Rightarrow> string \<Rightarrow> string \<Rightarrow> ('r, 'w, LoginResultMfa) flow_io" where
  "challenge_dashboard S verified code ip user_agent =
     (let user_id = mv_user_id verified; jti = mv_jti verified; tenant_id = mv_tenant_id verified;
          bf_id = challenge_bf_id S MfaContext_Dashboard tenant_id user_id
      in rbind (mfa_assert_not_locked S bf_id) (\<lambda>_.
         rbind (mfa_repo (ur_find_by_id (ms_user_repo S) user_id tenant_id)) (\<lambda>answer.
           case answer of
             None \<Rightarrow> raise AuthError.MfaNotEnabled
           | Some user \<Rightarrow>
               if Some (au_tenant_id user) \<noteq> tenant_id then raise AuthError.MfaNotEnabled
               else
                 rbind (lift_result (assert_not_blocked (au_status user) (ms_blocked_statuses S))) (\<lambda>_.
                   case (if au_mfa_enabled user then au_mfa_secret user else None) of
                     None \<Rightarrow> raise AuthError.MfaNotEnabled
                   | Some encrypted_secret \<Rightarrow>
                       (case decrypt_secret_with_rotation S encrypted_secret of
                          None \<Rightarrow> raise AuthError.TokenInvalid
                        | Some (raw_secret, under_retired_key) \<Rightarrow>
                            rbind (dashboard_code S tenant_id user_id user raw_secret code jti bf_id) (\<lambda>recovery_index.
                            rbind (on_host (throttle_reset (ms_brute_force S) bf_id)) (\<lambda>_.
                            rbind (stored_secret_of S under_retired_key raw_secret encrypted_secret) (\<lambda>stored_secret.
                            rbind (case recovery_index of
                                     Some index \<Rightarrow> splice_recovery_code S user raw_secret stored_secret index
                                   | None \<Rightarrow>
                                       if under_retired_key then
                                         rbind (transition_mfa_record S user_id MfaContext_Dashboard (Some (au_tenant_id user))
                                           (rewrite_change S raw_secret stored_secret)) (\<lambda>_. ret ())
                                       else ret ()) (\<lambda>_.
                              finish_dashboard S user_id user ip user_agent)))))))))"

definition finish_platform ::
    "('r, 'w) MfaService \<Rightarrow> string \<Rightarrow> AuthPlatformUser \<Rightarrow> string \<Rightarrow> string \<Rightarrow> ('r, 'w, LoginResultMfa) flow_io" where
  "finish_platform S user_id admin ip user_agent =
     (let hook_user = platform_hook_user admin; email = ap_email admin; safe = safe_platform_user admin in
      rbind (on_host (issue_platform_tokens (ms_tokens S) safe ip user_agent True)) (\<lambda>result.
      rbind (on_host (spawn_guarded (UpdatePlatformLastLogin user_id))) (\<lambda>_.
      rbind (on_host (spawn_guarded (AfterLogin hook_user (mfa_hook_context HookPlane_Platform user_id email ip user_agent)))) (\<lambda>_.
        ret (LoginResultMfa_Platform result)))))"

definition challenge_platform ::
    "('r, 'w) MfaService \<Rightarrow> MfaTempVerified \<Rightarrow> string \<Rightarrow> string \<Rightarrow> string \<Rightarrow> ('r, 'w, LoginResultMfa) flow_io" where
  "challenge_platform S verified code ip user_agent =
     (let user_id = mv_user_id verified; jti = mv_jti verified;
          bf_id = challenge_bf_id S MfaContext_Platform None user_id
      in rbind (mfa_assert_not_locked S bf_id) (\<lambda>_.
         case ms_platform_repo S of
           None \<Rightarrow> raise AuthError.MfaNotEnabled
         | Some repo \<Rightarrow>
             rbind (mfa_repo (pu_find_by_id repo user_id)) (\<lambda>answer.
               case answer of
                 None \<Rightarrow> raise AuthError.MfaNotEnabled
               | Some admin \<Rightarrow>
                   rbind (lift_result (assert_not_blocked (ap_status admin) (ms_blocked_statuses S))) (\<lambda>_.
                     case (if ap_mfa_enabled admin then ap_mfa_secret admin else None) of
                       None \<Rightarrow> raise AuthError.MfaNotEnabled
                     | Some encrypted_secret \<Rightarrow>
                         (case decrypt_secret_with_rotation S encrypted_secret of
                            None \<Rightarrow> raise AuthError.TokenInvalid
                          | Some (raw_secret, under_retired_key) \<Rightarrow>
                              let recovery_codes = the_default [] (ap_mfa_recovery_codes admin) in
                              rbind (platform_code S user_id recovery_codes raw_secret code jti bf_id) (\<lambda>recovery_index.
                              rbind (on_host (throttle_reset (ms_brute_force S) bf_id)) (\<lambda>_.
                              rbind (stored_secret_of S under_retired_key raw_secret encrypted_secret) (\<lambda>stored_secret.
                              rbind (case recovery_index of
                                       Some index \<Rightarrow>
                                         rbind (transition_mfa_record S (ap_id admin) MfaContext_Platform None
                                           (splice_change S raw_secret stored_secret (nth_opt recovery_codes index))) (\<lambda>_. ret ())
                                     | None \<Rightarrow>
                                         if under_retired_key then
                                           rbind (transition_mfa_record S (ap_id admin) MfaContext_Platform None
                                             (rewrite_change S raw_secret stored_secret)) (\<lambda>_. ret ())
                                         else ret ()) (\<lambda>_.
                                finish_platform S user_id admin ip user_agent)))))))))"

definition challenge_expecting ::
    "('r, 'w) MfaService \<Rightarrow> MfaContext option \<Rightarrow> string \<Rightarrow> string \<Rightarrow> string \<Rightarrow> string \<Rightarrow> ('r, 'w, LoginResultMfa) flow_io" where
  "challenge_expecting S expected mfa_temp_token code ip user_agent =
     rbind (on_host (verify_mfa_temp_token (ms_tokens S) mfa_temp_token)) (\<lambda>verified.
       if expected \<noteq> None \<and> expected \<noteq> Some (mv_context verified) then raise AuthError.PlatformAuthRequired
       else
         (case mv_context verified of
            MfaContext_Dashboard \<Rightarrow> challenge_dashboard S verified code ip user_agent
          | MfaContext_Platform \<Rightarrow> challenge_platform S verified code ip user_agent))"

definition challenge ::
    "('r, 'w) MfaService \<Rightarrow> string \<Rightarrow> string \<Rightarrow> string \<Rightarrow> string \<Rightarrow> ('r, 'w, LoginResultMfa) flow_io" where
  "challenge S mfa_temp_token code ip user_agent = challenge_expecting S None mfa_temp_token code ip user_agent"

definition challenge_platform_only ::
    "('r, 'w) MfaService \<Rightarrow> string \<Rightarrow> string \<Rightarrow> string \<Rightarrow> string \<Rightarrow> ('r, 'w, LoginResultMfa) flow_io" where
  "challenge_platform_only S mfa_temp_token code ip user_agent =
     challenge_expecting S (Some MfaContext_Platform) mfa_temp_token code ip user_agent"

end
