(* ===== verification/Engine.thy ===== *)
theory Engine
  imports Mfa_Flows "HOL-Library.AList"
begin

text \<open>
  The composition root (\<open>engine/mod.rs\<close>, \<open>engine/builder.rs\<close>, \<open>ResolvedConfig\<close> of
  \<open>config/validate.rs\<close>): a builder gathers the configuration and the collaborators, and one fallible
  \<open>build\<close> validates them and wires every service to the same stores and the same identifier key. The
  libraries the services are written against are one parameter, \<open>engine_libs\<close>. The build has the
  \<open>oauth\<close>, \<open>mfa\<close> and \<open>platform\<close> features.
\<close>

section \<open>The resolved configuration\<close>

record 'w ResolvedConfig =
  rc_config :: "'w AuthConfig"
  rc_environment :: Environment
  rc_secure_cookies :: bool
  rc_hmac_key :: "u8 list"
  rc_previous_hmac_keys :: "u8 list list"

definition new_resolved_config :: "config_libs \<Rightarrow> 'w AuthConfig \<Rightarrow> Environment \<Rightarrow> bool \<Rightarrow> 'w ResolvedConfig" where
  "new_resolved_config L config environment secure_cookies =
     \<lparr>rc_config = config, rc_environment = environment, rc_secure_cookies = secure_cookies,
      rc_hmac_key = hmac_key L config, rc_previous_hmac_keys = previous_hmac_keys L config\<rparr>"

section \<open>The engine\<close>

text \<open>
  The libraries: tokens and digests, configuration decoding, the key derivations, the Unicode tables,
  the JSON codecs of the single-use records, one-time codes and their cipher, the number of processors,
  and whether a blocking task joins.
\<close>

record OAuthStatePayload =
  sp_provider :: string
  sp_tenant_id :: string
  sp_code_verifier :: string

definition oauth_state_codec :: "OAuthStatePayload value_codec" where
  "oauth_state_codec = \<lparr>enc_val = (\<lambda>p. Some (put_fields [sp_provider p, sp_tenant_id p, sp_code_verifier p])),
     dec_val = (\<lambda>s. case take_fields 3 s of
        Some [a, b, c] \<Rightarrow> Some \<lparr>sp_provider = a, sp_tenant_id = b, sp_code_verifier = c\<rparr>
      | _ \<Rightarrow> None)\<rparr>"

lemma take_put_fields_3: "take_fields 3 (put_fields [a, b, c]) = Some [a, b, c]"
  by (rule take_put_fields) simp

interpretation oauth_state_values: value_round_trip oauth_state_codec
  by unfold_locales (auto simp: oauth_state_codec_def take_put_fields_3)

record 'w engine_libs =
  el_token :: token_libs
  el_config :: config_libs
  el_kdf :: kdf_lib
  el_unicode :: unicode_lib
  el_reset :: "ResetContext value_codec"
  el_email_change :: "EmailChangeContext value_codec"
  el_invitation :: "StoredInvitation value_codec"
  el_snapshot :: "WsTicketSnapshot value_codec"
  el_oauth_state :: "OAuthStatePayload value_codec"
  el_mfa :: mfa_libs
  el_cores :: nat
  el_joined :: "'w \<Rightarrow> bool \<times> 'w"

record ('r, 'w) AuthEngine =
  en_libs :: "'w engine_libs"
  en_config :: "'w ResolvedConfig"
  en_user_repository :: "'w UserRepository"
  en_platform_user_repository :: "'w PlatformUserRepository option"
  en_email_provider :: "'w EmailProvider"
  en_hooks :: "'w AuthHooks"
  en_session_store :: "'r RedisStores"
  en_otp_store :: "'r RedisStores"
  en_brute_force_store :: "'r RedisStores"
  en_rate_limit_store :: "'r RedisStores option"
  en_user_status_cache :: "'r RedisStores option"
  en_ws_ticket_store :: "'r RedisStores option"
  en_password_reset_store :: "'r RedisStores option"
  en_invitation_store :: "'r RedisStores option"
  en_oauth_providers :: "(string \<times> 'w OAuthProvider) list"
  en_oauth_state_store :: "'r RedisStores option"
  en_passwords :: "'w PasswordService"
  en_tokens :: "'r TokenManagerService"
  en_brute_force :: "'r BruteForceService"
  en_otp :: "'r OtpService"
  en_sessions :: "('r, 'w) SessionService"
  en_mfa :: "('r, 'w) MfaService option"
  en_platform_auth :: "('r, 'w) PlatformAuthService option"

abbreviation cfg :: "('r, 'w) AuthEngine \<Rightarrow> 'w AuthConfig" where
  "cfg E \<equiv> rc_config (en_config E)"

definition engine_session_subject :: "('r, 'w) AuthEngine \<Rightarrow> SessionKind \<Rightarrow> string option \<Rightarrow> string \<Rightarrow> string" where
  "engine_session_subject E kind tenant_id user_id =
     session_subject_hash (lib_jws (el_token (en_libs E))) (rc_hmac_key (en_config E)) kind tenant_id user_id"

section \<open>The builder\<close>

record ('r, 'w) AuthEngineBuilder =
  bd_config :: "'w AuthConfig option"
  bd_environment :: Environment
  bd_user_repository :: "'w UserRepository option"
  bd_platform_user_repository :: "'w PlatformUserRepository option"
  bd_email_provider :: "'w EmailProvider option"
  bd_breach_checker :: "(string \<Rightarrow> 'w \<Rightarrow> bool \<times> 'w) option"
  bd_hooks :: "'w AuthHooks option"
  bd_session_store :: "'r RedisStores option"
  bd_otp_store :: "'r RedisStores option"
  bd_brute_force_store :: "'r RedisStores option"
  bd_rate_limit_store :: "'r RedisStores option"
  bd_user_status_cache :: "'r RedisStores option"
  bd_ws_ticket_store :: "'r RedisStores option"
  bd_password_reset_store :: "'r RedisStores option"
  bd_invitation_store :: "'r RedisStores option"
  bd_oauth_providers :: "(string \<times> 'w OAuthProvider) list"
  bd_oauth_state_store :: "'r RedisStores option"
  bd_mfa_store :: "'r RedisStores option"

definition new_builder :: "('r, 'w) AuthEngineBuilder" where
  "new_builder =
     \<lparr>bd_config = None, bd_environment = Production, bd_user_repository = None, bd_platform_user_repository = None,
      bd_email_provider = None, bd_breach_checker = None, bd_hooks = None, bd_session_store = None,
      bd_otp_store = None, bd_brute_force_store = None, bd_rate_limit_store = None, bd_user_status_cache = None,
      bd_ws_ticket_store = None, bd_password_reset_store = None, bd_invitation_store = None,
      bd_oauth_providers = [], bd_oauth_state_store = None, bd_mfa_store = None\<rparr>"

definition redis_stores :: "('r, 'w) AuthEngineBuilder \<Rightarrow> 'r RedisStores \<Rightarrow> ('r, 'w) AuthEngineBuilder" where
  "redis_stores B stores =
     B\<lparr>bd_session_store := Some stores, bd_otp_store := Some stores, bd_brute_force_store := Some stores,
       bd_rate_limit_store := Some stores, bd_user_status_cache := Some stores, bd_ws_ticket_store := Some stores,
       bd_password_reset_store := Some stores, bd_invitation_store := Some stores, bd_mfa_store := Some stores\<rparr>"

text \<open>A provider is registered under its own name; a second one of that name replaces the first.\<close>

definition oauth_provider :: "('r, 'w) AuthEngineBuilder \<Rightarrow> 'w OAuthProvider \<Rightarrow> ('r, 'w) AuthEngineBuilder" where
  "oauth_provider B provider =
     B\<lparr>bd_oauth_providers := AList.update (pv_name provider) provider (bd_oauth_providers B)\<rparr>"

definition oauth_providers :: "('r, 'w) AuthEngineBuilder \<Rightarrow> 'w OAuthProvider list \<Rightarrow> ('r, 'w) AuthEngineBuilder" where
  "oauth_providers B providers = foldl oauth_provider B providers"

text \<open>A router toggle whose feature is enabled is switched on.\<close>

definition promote_toggles :: "'w AuthConfig \<Rightarrow> 'w AuthConfig" where
  "promote_toggles config =
     (let toggles = ac_controllers config in
      config\<lparr>ac_controllers := toggles
        \<lparr>ct_sessions := sc_enabled (ac_sessions config) \<or> ct_sessions toggles,
         ct_platform := ac_platform_enabled config \<or> ct_platform toggles,
         ct_invitations := ac_invitations_enabled config \<or> ct_invitations toggles\<rparr>\<rparr>)"

definition check_collaborators :: "('r, 'w) AuthEngineBuilder \<Rightarrow> 'w AuthConfig \<Rightarrow> ConfigError + unit" where
  "check_collaborators B config =
     (if bd_user_repository B = None then Inl MissingUserRepository
      else if bd_session_store B = None \<or> bd_otp_store B = None \<or> bd_brute_force_store B = None then Inl MissingStores
      else if ac_platform_enabled config \<and> bd_platform_user_repository B = None then Inl MissingPlatformRepository
      else if ct_oauth (ac_controllers config) \<and> bd_oauth_providers B = [] then Inl OAuthToggleWithoutProvider
      else if ct_oauth (ac_controllers config) \<and> bd_oauth_state_store B = None then Inl OAuthStateStoreMissing
      else if ac_invitations_enabled config \<and> bd_invitation_store B = None then Inl MissingInvitationStore
      else Inr ())"

definition non_empty :: "string option \<Rightarrow> string option" where
  "non_empty v = (if v = Some [] then None else v)"

definition build_tokens :: "'w engine_libs \<Rightarrow> 'w ResolvedConfig \<Rightarrow> 'r RedisStores \<Rightarrow> 'r RedisStores option \<Rightarrow> 'r TokenManagerService" where
  "build_tokens L R session_store mfa_store =
     (let jwt = ac_jwt (rc_config R);
          tokens = with_binding
            (new_token_manager (el_token L) (as_bytes (jc_secret jwt)) (map as_bytes (jc_previous_secrets jwt)) session_store
              \<lparr>tl_access_ttl = jc_access_expires_in jwt, tl_refresh_expires_in_days = jc_refresh_expires_in_days jwt,
               tl_grace_window = jc_refresh_grace_window jwt,
               tl_absolute_session_lifetime_days = jc_absolute_session_lifetime_days jwt\<rparr>
              (rc_hmac_key R))
            \<lparr>tb_issuer = non_empty (jc_issuer jwt), tb_audience = non_empty (jc_audience jwt)\<rparr>
      in case mfa_store of None \<Rightarrow> tokens | Some store \<Rightarrow> with_mfa_support tokens store)"

text \<open>The MFA service exists when it is configured, has a store and a key that decodes.\<close>

definition mfa_encryption_key :: "'w engine_libs \<Rightarrow> 'w ResolvedConfig \<Rightarrow> u8 list option" where
  "mfa_encryption_key L R =
     (case ac_mfa (rc_config R) of
        None \<Rightarrow> None
      | Some mfa \<Rightarrow> decode_aes256_key (el_config L) (mf_encryption_key mfa))"

definition previous_mfa_encryption_keys :: "'w engine_libs \<Rightarrow> 'w ResolvedConfig \<Rightarrow> u8 list list" where
  "previous_mfa_encryption_keys L R =
     (case ac_mfa (rc_config R) of
        None \<Rightarrow> []
      | Some mfa \<Rightarrow> List.map_filter (decode_aes256_key (el_config L)) (mf_previous_encryption_keys mfa))"

definition build_mfa_service ::
    "'w engine_libs \<Rightarrow> 'w ResolvedConfig \<Rightarrow> 'r RedisStores option \<Rightarrow> 'w UserRepository \<Rightarrow> 'w PlatformUserRepository option \<Rightarrow>
      'r TokenManagerService \<Rightarrow> ('r, 'w) SessionService \<Rightarrow> 'r RedisStores \<Rightarrow> 'r BruteForceService \<Rightarrow> 'w PasswordService \<Rightarrow>
      bool \<Rightarrow> ('r, 'w) MfaService option" where
  "build_mfa_service L R mfa_store user_repository platform_repository tokens sessions session_store brute_force passwords
      sessions_enabled =
     (case (ac_mfa (rc_config R), mfa_store, mfa_encryption_key L R) of
        (Some mfa, Some store, Some encryption_key) \<Rightarrow>
          Some \<lparr>ms_libs = el_mfa L, ms_mfa_store = store, ms_user_repo = user_repository,
            ms_platform_repo = platform_repository, ms_tokens = tokens, ms_sessions = sessions,
            ms_session_store = session_store, ms_brute_force = brute_force, ms_passwords = passwords,
            ms_encryption_key = encryption_key, ms_previous_encryption_keys = previous_mfa_encryption_keys L R,
            ms_identifier_key = rc_hmac_key R, ms_previous_identifier_keys = rc_previous_hmac_keys R,
            ms_issuer = mf_issuer mfa, ms_totp_window = mf_totp_window mfa,
            ms_recovery_code_count = mf_recovery_code_count mfa, ms_sessions_enabled = sessions_enabled,
            ms_blocked_statuses = ac_blocked_statuses (rc_config R)\<rparr>
      | _ \<Rightarrow> None)"

definition build_platform_auth ::
    "'w engine_libs \<Rightarrow> 'w ResolvedConfig \<Rightarrow> 'w PlatformUserRepository option \<Rightarrow> 'r RedisStores \<Rightarrow> 'r TokenManagerService \<Rightarrow>
      'w PasswordService \<Rightarrow> 'r BruteForceService \<Rightarrow> bool \<Rightarrow> ('r, 'w) PlatformAuthService option" where
  "build_platform_auth L R platform_repository session_store tokens passwords brute_force mfa_enabled =
     (case platform_repository of
        None \<Rightarrow> None
      | Some repo \<Rightarrow>
          if \<not> ac_platform_enabled (rc_config R) then None
          else Some \<lparr>pa_repo = repo, pa_tokens = tokens, pa_session_store = session_store, pa_passwords = passwords,
            pa_brute_force = brute_force, pa_identifier_key = rc_hmac_key R, pa_mfa_enabled_for_build = mfa_enabled,
            pa_blocked_statuses = ac_blocked_statuses (rc_config R), pa_to_lowercase = uc_to_lowercase (el_unicode L)\<rparr>)"

definition default_breach_checker :: "'w engine_libs \<Rightarrow> string \<Rightarrow> 'w \<Rightarrow> bool \<times> 'w" where
  "default_breach_checker L password w = (is_breached (el_unicode L) common_password_checker password, w)"

definition assemble ::
    "'w engine_libs \<Rightarrow> ('r, 'w) AuthEngineBuilder \<Rightarrow> 'w ResolvedConfig \<Rightarrow> 'w PasswordService \<Rightarrow> ('r, 'w) AuthEngine" where
  "assemble L B R passwords =
     (let config = rc_config R; user_repository = the (bd_user_repository B); session_store = the (bd_session_store B);
          tokens = build_tokens L R session_store (bd_mfa_store B);
          brute_force = \<lparr>bs_store = the (bd_brute_force_store B), bs_max_attempts = bf_max_attempts (ac_brute_force config),
            bs_window_secs = as_secs (bf_window (ac_brute_force config))\<rparr>;
          sessions = \<lparr>ss_libs = lib_jws (el_token L), ss_store = session_store, ss_users = user_repository,
            ss_config = ac_sessions config, ss_refresh_ttl_secs = jc_refresh_expires_in_days (ac_jwt config) * 86400,
            ss_identifier_key = rc_hmac_key R\<rparr>;
          mfa = build_mfa_service L R (bd_mfa_store B) user_repository (bd_platform_user_repository B) tokens sessions
            session_store brute_force passwords (sc_enabled (ac_sessions config))
      in \<lparr>en_libs = L, en_config = R, en_user_repository = user_repository,
          en_platform_user_repository = bd_platform_user_repository B,
          en_email_provider = the_default no_op_email_provider (bd_email_provider B),
          en_hooks = the_default no_op_hooks (bd_hooks B), en_session_store = session_store,
          en_otp_store = the (bd_otp_store B), en_brute_force_store = the (bd_brute_force_store B),
          en_rate_limit_store = bd_rate_limit_store B, en_user_status_cache = bd_user_status_cache B,
          en_ws_ticket_store = bd_ws_ticket_store B, en_password_reset_store = bd_password_reset_store B,
          en_invitation_store = bd_invitation_store B, en_oauth_providers = bd_oauth_providers B,
          en_oauth_state_store = bd_oauth_state_store B, en_passwords = passwords, en_tokens = tokens,
          en_brute_force = brute_force,
          en_otp = \<lparr>os_libs = lib_jws (el_token L), os_store = the (bd_otp_store B), os_identifier_key = rc_hmac_key R\<rparr>,
          en_sessions = sessions, en_mfa = mfa,
          en_platform_auth = build_platform_auth L R (bd_platform_user_repository B) session_store tokens passwords
            brute_force (mfa \<noteq> None)\<rparr>)"

definition build :: "'w engine_libs \<Rightarrow> ('r, 'w) AuthEngineBuilder \<Rightarrow> ('r host, ConfigError, ('r, 'w) AuthEngine) io" where
  "build L B =
     (let config = promote_toggles (the_default nest_compat_defaults (bd_config B)) in
      rbind (lift_result (validate (el_config L) config (bd_environment B))) (\<lambda>secure_cookies.
      rbind (lift_result (check_collaborators B config)) (\<lambda>_.
      rbind (new_password_service (el_kdf L) (el_cores L) (ac_password config)
               (the_default (default_breach_checker L) (bd_breach_checker B)) (el_joined L)) (\<lambda>passwords.
        ret (assemble L B (new_resolved_config (el_config L) config (bd_environment B) secure_cookies) passwords)))))"

end
