(* ===== verification/Login_Flow.thy ===== *)
theory Login_Flow
  imports Engine
begin

text \<open>
  What the flows of the engine share (\<open>services/auth/mod.rs\<close>, \<open>context.rs\<close>, \<open>HookContext::from_request\<close>)
  and the login flow (\<open>services/auth/login.rs\<close>, \<open>run_rehash_password\<close> of \<open>services/auth/detached.rs\<close>).
  Log lines and the timing floor of a refusal are left out. A detached task is the notification it is
  spawned with.
\<close>

section \<open>Requests\<close>

record RequestContext =
  rx_ip :: string
  rx_user_agent :: string
  rx_sanitized_headers :: "(string \<times> string) list"

definition from_request ::
    "HookPlane \<Rightarrow> RequestContext \<Rightarrow> string option \<Rightarrow> string option \<Rightarrow> string option \<Rightarrow> HookContext" where
  "from_request hook_plane ctx user_id email tenant_id =
     \<lparr>hc_plane = hook_plane, hc_user_id = user_id, hc_email = email, hc_tenant_id = tenant_id, hc_ip = rx_ip ctx,
      hc_user_agent = rx_user_agent ctx, hc_sanitized_headers = rx_sanitized_headers ctx\<rparr>"

definition request_parts_from_context :: "RequestContext \<Rightarrow> RequestParts" where
  "request_parts_from_context ctx =
     \<lparr>rp_method = [], rp_uri = [], rp_host = map_of (rx_sanitized_headers ctx) ''host'',
      rp_headers = rx_sanitized_headers ctx\<rparr>"

definition BODY_TENANT_REFUSAL :: string where
  "BODY_TENANT_REFUSAL = ''tenantId is decided by this deployment and must not be sent''"

definition map_tenant_error :: "TenantResolveError \<Rightarrow> AuthError" where
  "map_tenant_error e =
     (case e of TenantEmpty \<Rightarrow> AuthError.Forbidden | TenantInternal _ \<Rightarrow> internal_error ''tenant resolution failed'')"

definition resolve_tenant ::
    "('r, 'w) AuthEngine \<Rightarrow> string option \<Rightarrow> RequestContext \<Rightarrow> ('r, 'w, string) flow_io" where
  "resolve_tenant E body_tenant ctx =
     (case ac_tenant_id_resolver (cfg E) of
        Some resolver \<Rightarrow>
          if body_tenant \<noteq> None
          then raise (AuthError.Validation [\<lparr>fe_field = ''tenantId'', fe_message = BODY_TENANT_REFUSAL\<rparr>])
          else map_err map_tenant_error (on_app (resolver (request_parts_from_context ctx)))
      | None \<Rightarrow>
          (case body_tenant of
             Some tenant \<Rightarrow> ret tenant
           | None \<Rightarrow> raise (AuthError.Validation [\<lparr>fe_field = ''tenantId'',
               fe_message = ''tenantId is required unless the deployment configures a TenantIdResolver''\<rparr>])))"

section \<open>Identifiers\<close>

definition keyed_hex :: "('r, 'w) AuthEngine \<Rightarrow> string \<Rightarrow> string" where
  "keyed_hex E input = to_hex (hmac_sha256 (lib_jws (el_token (en_libs E))) (rc_hmac_key (en_config E)) (as_bytes input))"

definition lockout_identifier :: "('r, 'w) AuthEngine \<Rightarrow> string \<Rightarrow> string \<Rightarrow> string" where
  "lockout_identifier E tenant_id email = keyed_hex E (''dashboard:'' @ tenant_id @ '':'' @ email)"

definition reproof_identifier :: "('r, 'w) AuthEngine \<Rightarrow> string \<Rightarrow> string \<Rightarrow> string" where
  "reproof_identifier E flow user_id = keyed_hex E (''reauth:'' @ flow @ '':'' @ user_id)"

definition invitee_identifier :: "('r, 'w) AuthEngine \<Rightarrow> string \<Rightarrow> string" where
  "invitee_identifier E email = keyed_hex E email"

definition hashed_identifier :: "('r, 'w) AuthEngine \<Rightarrow> string \<Rightarrow> string \<Rightarrow> string" where
  "hashed_identifier E tenant_id email = keyed_hex E (tenant_id @ '':'' @ email)"

definition engine_normalize_email :: "('r, 'w) AuthEngine \<Rightarrow> string \<Rightarrow> string" where
  "engine_normalize_email E email = normalize_email (uc_to_lowercase (el_unicode (en_libs E))) email"

definition engine_token_hash :: "('r, 'w) AuthEngine \<Rightarrow> string \<Rightarrow> string" where
  "engine_token_hash E raw = redis_hash (lib_sha256 (el_token (en_libs E))) raw"

definition tenant_scoped :: "AuthUser option \<Rightarrow> string \<Rightarrow> AuthUser option" where
  "tenant_scoped user tenant_id =
     (case user of
        Some account \<Rightarrow> if au_tenant_id account = tenant_id then Some account else None
      | None \<Rightarrow> None)"

definition assert_user_not_blocked :: "('r, 'w) AuthEngine \<Rightarrow> string \<Rightarrow> AuthError + unit" where
  "assert_user_not_blocked E status = assert_not_blocked status (ac_blocked_statuses (cfg E))"

section \<open>After a session is issued\<close>

definition enforce_sessions_after_issue ::
    "('r, 'w) AuthEngine \<Rightarrow> AuthResult \<Rightarrow> string \<Rightarrow> string \<Rightarrow> HookContext \<Rightarrow> ('r, 'w, unit) flow_io" where
  "enforce_sessions_after_issue E result ip user_agent hook_ctx =
     (if \<not> sc_enabled (ac_sessions (cfg E)) then ret ()
      else
        let new_hash = engine_token_hash E (ar_refresh_token result);
            (device, stored_ip) = normalize_session_metadata user_agent ip;
            user = ar_user result
        in rbind (on_host now_offset) (\<lambda>created_at.
             after_session_created (en_sessions E)
               \<lparr>sr_user_id = su_id user, sr_tenant_id = Some (su_tenant_id user), sr_role = su_role user,
                sr_device = device, sr_ip = stored_ip, sr_created_at = created_at,
                sr_mfa_enabled = su_mfa_enabled user, sr_mfa_verified = False, sr_family_id = [],
                sr_family_created_at = None\<rparr> new_hash hook_ctx))"

section \<open>Refusals\<close>

record LoginInput =
  li_email :: string
  li_password :: string
  li_tenant_id :: "string option"

definition fire_login_failed ::
    "string \<Rightarrow> string \<Rightarrow> string option \<Rightarrow> LoginFailureReason \<Rightarrow> HookContext \<Rightarrow> ('r, 'w, unit) flow_io" where
  "fire_login_failed email tenant_id user_id reason hook_ctx =
     on_host (spawn_guarded (OnLoginFailed
       \<lparr>lf_email = email, lf_tenant_id = tenant_id, lf_user_id = user_id, lf_reason = reason\<rparr> hook_ctx))"

definition fire_lockout_if_crossed ::
    "('r, 'w) AuthEngine \<Rightarrow> string \<Rightarrow> string \<Rightarrow> string \<Rightarrow> HookContext \<Rightarrow> ('r, 'w, unit) flow_io" where
  "fire_lockout_if_crossed E identifier email tenant_id hook_ctx =
     rbind (attempt (on_host (throttle_is_locked (en_brute_force E) identifier))) (\<lambda>crossed.
       case crossed of
         Inl _ \<Rightarrow> ret ()
       | Inr locked \<Rightarrow>
           if \<not> locked then ret ()
           else
             rbind (attempt (on_host (throttle_remaining_secs (en_brute_force E) identifier))) (\<lambda>remaining.
               let retry = (case remaining of Inr secs \<Rightarrow> secs | Inl _ \<Rightarrow> bs_window_secs (en_brute_force E)) in
               on_host (spawn_guarded (OnLockout email tenant_id retry hook_ctx))))"

definition record_failure_and_reject ::
    "('r, 'w) AuthEngine \<Rightarrow> string \<Rightarrow> string \<Rightarrow> string \<Rightarrow> string option \<Rightarrow> HookContext \<Rightarrow> ('r, 'w, 'a) flow_io" where
  "record_failure_and_reject E identifier email tenant_id user_id hook_ctx =
     rbind (on_host (throttle_record_failure (en_brute_force E) identifier)) (\<lambda>_.
     rbind (fire_login_failed email tenant_id user_id LoginFailureReason.InvalidCredentials hook_ctx) (\<lambda>_.
     rbind (fire_lockout_if_crossed E identifier email tenant_id hook_ctx) (\<lambda>_.
       raise AuthError.InvalidCredentials)))"

definition unlock_account :: "('r, 'w) AuthEngine \<Rightarrow> string \<Rightarrow> string \<Rightarrow> ('r, 'w, unit) flow_io" where
  "unlock_account E email tenant_id =
     on_host (throttle_reset (en_brute_force E) (lockout_identifier E tenant_id (engine_normalize_email E email)))"

definition assert_not_locked :: "('r, 'w) AuthEngine \<Rightarrow> string \<Rightarrow> ('r, 'w, unit) flow_io" where
  "assert_not_locked E identifier =
     rbind (on_host (throttle_is_locked (en_brute_force E) identifier)) (\<lambda>locked.
       if locked then
         rbind (on_host (throttle_remaining_secs (en_brute_force E) identifier)) (\<lambda>retry.
           raise (AuthError.AccountLocked (Some retry)))
       else ret ())"

section \<open>Login\<close>

definition has_local_hash :: "AuthUser \<Rightarrow> bool" where
  "has_local_hash user \<longleftrightarrow> au_password_hash user \<noteq> None"

text \<open>The account a login checks: of the requested tenant, with a password of its own.\<close>

definition login_candidate :: "AuthUser option \<Rightarrow> string \<Rightarrow> AuthUser option" where
  "login_candidate found tenant_id =
     (case tenant_scoped found tenant_id of
        Some user \<Rightarrow> if has_local_hash user then Some user else None
      | None \<Rightarrow> None)"

definition issue_session_result ::
    "('r, 'w) AuthEngine \<Rightarrow> AuthUser \<Rightarrow> string \<Rightarrow> string \<Rightarrow> HookContext \<Rightarrow> ('r, 'w, LoginResult) flow_io" where
  "issue_session_result E user ip user_agent hook_ctx =
     (let safe = safe_user user in
      rbind (on_host (issue_tokens (en_tokens E) safe ip user_agent False Proved)) (\<lambda>result.
      rbind (enforce_sessions_after_issue E result ip user_agent hook_ctx) (\<lambda>_.
      rbind (on_host (spawn_guarded (UpdateLastLogin (su_tenant_id safe) (su_id safe)))) (\<lambda>_.
      rbind (on_host (spawn_guarded (AfterLogin safe hook_ctx))) (\<lambda>_.
        ret (LoginSuccess result))))))"

text \<open>What follows a proved password: the counter is cleared, then a challenge or a session.\<close>

definition login_proven ::
    "('r, 'w) AuthEngine \<Rightarrow> RequestContext \<Rightarrow> HookContext \<Rightarrow> string \<Rightarrow> string \<Rightarrow> AuthUser \<Rightarrow> string \<Rightarrow> VerifyOutcome \<Rightarrow>
      ('r, 'w, LoginResult) flow_io" where
  "login_proven E ctx hook_ctx identifier password user phc outcome =
     rbind (on_host (throttle_reset (en_brute_force E) identifier)) (\<lambda>_.
     rbind (if ps_rehash_on_verify (en_passwords E) \<and> vo_needs_rehash outcome
            then on_host (spawn_guarded (RehashPassword password (au_tenant_id user) (au_id user) phc))
            else ret ()) (\<lambda>_.
       if au_mfa_enabled user then
         rbind (on_host (issue_mfa_temp_token (en_tokens E) (au_id user) MfaContext_Dashboard (Some (au_tenant_id user)))) (\<lambda>mfa_temp_token.
           ret (LoginMfaChallenge \<lparr>mcr_mfa_required = True, mcr_mfa_temp_token = mfa_temp_token\<rparr>))
       else issue_session_result E user (rx_ip ctx) (rx_user_agent ctx) hook_ctx))"

definition login_gates ::
    "('r, 'w) AuthEngine \<Rightarrow> string \<Rightarrow> string \<Rightarrow> HookContext \<Rightarrow> AuthUser \<Rightarrow> ('r, 'w, unit) flow_io" where
  "login_gates E email tenant_id hook_ctx user =
     (case assert_user_not_blocked E (au_status user) of
        Inl error \<Rightarrow>
          rbind (fire_login_failed email tenant_id (Some (au_id user)) AccountBlocked hook_ctx) (\<lambda>_. raise error)
      | Inr _ \<Rightarrow>
          if ev_required (ac_email_verification (cfg E)) \<and> \<not> au_email_verified user then
            rbind (fire_login_failed email tenant_id (Some (au_id user)) LoginFailureReason.EmailNotVerified hook_ctx) (\<lambda>_.
              raise AuthError.EmailNotVerified)
          else ret ())"

definition login :: "('r, 'w) AuthEngine \<Rightarrow> LoginInput \<Rightarrow> RequestContext \<Rightarrow> ('r, 'w, LoginResult) flow_io" where
  "login E input ctx =
     (let email = engine_normalize_email E (li_email input); password = li_password input in
      rbind (resolve_tenant E (li_tenant_id input) ctx) (\<lambda>tenant_id.
      let identifier = lockout_identifier E tenant_id email;
          hook_ctx = from_request HookPlane_Dashboard ctx None (Some email) (Some tenant_id)
      in rbind (attempt (assert_not_locked E identifier)) (\<lambda>locked.
        case locked of
          Inl error \<Rightarrow> rbind (fire_login_failed email tenant_id None LockedOut hook_ctx) (\<lambda>_. raise error)
        | Inr _ \<Rightarrow>
            rbind (map_err (\<lambda>_. AuthError.Forbidden) (on_app (hk_before_login (en_hooks E) email tenant_id hook_ctx))) (\<lambda>_.
            rbind (repository (ur_find_by_email (en_user_repository E) email tenant_id)) (\<lambda>found.
              case login_candidate found tenant_id of
                None \<Rightarrow>
                  rbind (verify_sentinel (en_passwords E) password) (\<lambda>_.
                    record_failure_and_reject E identifier email tenant_id None hook_ctx)
              | Some user \<Rightarrow>
                  let phc = the_default [] (au_password_hash user) in
                  rbind (verify_outcome (en_passwords E) password phc) (\<lambda>outcome.
                    if \<not> vo_matched outcome
                    then record_failure_and_reject E identifier email tenant_id (Some (au_id user)) hook_ctx
                    else
                      rbind (login_gates E email tenant_id hook_ctx user) (\<lambda>_.
                        login_proven E ctx hook_ctx identifier password user phc outcome)))))))"

text \<open>The upgrade a login schedules, run later: it writes only over the hash that was verified.\<close>

definition run_rehash_password ::
    "'w PasswordService \<Rightarrow> 'w UserRepository \<Rightarrow> string \<Rightarrow> string \<Rightarrow> string \<Rightarrow> string \<Rightarrow> ('r, 'w, unit) flow_io" where
  "run_rehash_password P users password tenant_id user_id verified_hash =
     rbind (hash_password P password) (\<lambda>new_hash.
     rbind (repository (ur_find_by_id users user_id (Some tenant_id))) (\<lambda>current.
       if Option.bind current au_password_hash \<noteq> Some verified_hash then ret ()
       else repository (ur_update_password users user_id tenant_id new_hash)))"

end
