(* ===== verification/Session_Flows.thy ===== *)
theory Session_Flows
  imports Login_Flow
begin

text \<open>
  The session-scoped flows (\<open>services/auth/session_ops.rs\<close>): logout, the caller's own profile, refresh,
  the sweep of an account's sessions, and issuance without a password.
\<close>

section \<open>Sweep\<close>

definition revoke_all_sessions :: "('r, 'w) AuthEngine \<Rightarrow> string \<Rightarrow> string \<Rightarrow> ('r, 'w, unit) flow_io" where
  "revoke_all_sessions E tenant_id user_id =
     (let subject = engine_session_subject E Dashboard (Some tenant_id) user_id in
      rbind (on_host (on_store (revoke_all (en_session_store E) Dashboard subject))) (\<lambda>_.
      rbind (on_host (on_store (bump_epoch (en_session_store E) Dashboard subject))) (\<lambda>_. ret ())))"

section \<open>Logout\<close>

definition identity_only_context :: "string \<Rightarrow> string option \<Rightarrow> string option \<Rightarrow> HookContext" where
  "identity_only_context user_id email tenant_id =
     \<lparr>hc_plane = HookPlane_Dashboard, hc_user_id = Some user_id, hc_email = email, hc_tenant_id = tenant_id,
      hc_ip = [], hc_user_agent = [], hc_sanitized_headers = []\<rparr>"

text \<open>The owner a logout aims at. Without a record it is the empty id with no tenant.\<close>

definition owner_id :: "SessionRecord option \<Rightarrow> string" where
  "owner_id owner = (case owner of Some rec \<Rightarrow> sr_user_id rec | None \<Rightarrow> [])"

definition owner_tenant :: "SessionRecord option \<Rightarrow> string option" where
  "owner_tenant owner = Option.bind owner sr_tenant_id"

definition revoke_logout_session ::
    "('r, 'w) AuthEngine \<Rightarrow> string \<Rightarrow> SessionRecord option \<Rightarrow> AuthError option \<Rightarrow> ('r, 'w, AuthError option) flow_io" where
  "revoke_logout_session E session_hash owner failure =
     (let subject = engine_session_subject E Dashboard (owner_tenant owner) (owner_id owner) in
      rbind (attempt (on_host (on_store (revoke_session (en_session_store E) Dashboard subject session_hash)))) (\<lambda>revoked.
      let failure1 = note_logout_failure failure (if revoked = Inl AuthError.SessionNotFound then Inr () else revoked) in
      rbind (attempt (on_host (on_store (delete_grace_pointer (en_session_store E) Dashboard session_hash)))) (\<lambda>grace.
        ret (note_logout_failure failure1 grace))))"

definition logout_lookup :: "('r, 'w) AuthEngine \<Rightarrow> string option \<Rightarrow> ('r, 'w, SessionRecord option) flow_io" where
  "logout_lookup E session_hash =
     (case session_hash of
        Some sh \<Rightarrow>
          map_err (\<lambda>_. internal_error ''a logout could not read its session'')
            (on_host (on_store (find_session (en_session_store E) Dashboard sh)))
      | None \<Rightarrow> ret None)"

text \<open>The access token is put out of use for the seconds it has left, when its signature verifies.\<close>

definition blacklist_presented :: "('r, 'w) AuthEngine \<Rightarrow> string \<Rightarrow> ('r, 'w, AuthError option) flow_io" where
  "blacklist_presented E access_token =
     rbind (attempt (on_host (verify_access_ignoring_expiry (en_tokens E) access_token))) (\<lambda>verified.
       case verified of
         Inl _ \<Rightarrow> ret None
       | Inr claims \<Rightarrow>
           rbind (on_host now_unix) (\<lambda>now.
           rbind (attempt (on_host (revoke_access (en_tokens E) (dc_jti claims) (residual_ttl (dc_exp claims) now)))) (\<lambda>revoked.
             ret (note_logout_failure None revoked))))"

definition logout :: "('r, 'w) AuthEngine \<Rightarrow> string \<Rightarrow> string \<Rightarrow> ('r, 'w, unit) flow_io" where
  "logout E access_token raw_refresh =
     (let session_hash = (if is_refresh_token_shape raw_refresh then Some (engine_token_hash E raw_refresh) else None) in
      rbind (logout_lookup E session_hash) (\<lambda>owner.
      rbind (blacklist_presented E access_token) (\<lambda>failure.
      rbind (case session_hash of
               Some sh \<Rightarrow> revoke_logout_session E sh owner failure
             | None \<Rightarrow> ret failure) (\<lambda>failure1.
        case failure1 of
          Some error \<Rightarrow> raise error
        | None \<Rightarrow>
            if owner_id owner \<noteq> [] then
              on_host (spawn_guarded (AfterLogout (owner_id owner)
                (identity_only_context (owner_id owner) None (owner_tenant owner))))
            else ret ()))))"

section \<open>Profile and refresh\<close>

definition me :: "('r, 'w) AuthEngine \<Rightarrow> string \<Rightarrow> string option \<Rightarrow> ('r, 'w, SafeAuthUser) flow_io" where
  "me E user_id tenant_id =
     rbind (repository (ur_find_by_id (en_user_repository E) user_id tenant_id)) (\<lambda>found.
       case found of Some user \<Rightarrow> ret (safe_user user) | None \<Rightarrow> raise AuthError.TokenInvalid)"

record RefreshedSession =
  rfs_tokens :: RotatedTokens
  rfs_user :: SafeAuthUser

text \<open>The account behind the rotated session, re-read in its tenant and gated again.\<close>

definition refresh_gates :: "('r, 'w) AuthEngine \<Rightarrow> DashboardClaims \<Rightarrow> ('r, 'w, AuthUser) flow_io" where
  "refresh_gates E claims =
     rbind (repository (ur_find_by_id (en_user_repository E) (dc_sub claims) (Some (dc_tenant_id claims)))) (\<lambda>found.
       case found of
         None \<Rightarrow>
           rbind (revoke_all_sessions E (dc_tenant_id claims) (dc_sub claims)) (\<lambda>_. raise AuthError.TokenInvalid)
       | Some user \<Rightarrow>
           (case assert_user_not_blocked E (au_status user) of
              Inl error \<Rightarrow>
                rbind (revoke_all_sessions E (au_tenant_id user) (dc_sub claims)) (\<lambda>_. raise error)
            | Inr _ \<Rightarrow>
                if ev_required (ac_email_verification (cfg E)) \<and> \<not> au_email_verified user
                then raise AuthError.EmailNotVerified
                else ret user))"

definition refresh ::
    "('r, 'w) AuthEngine \<Rightarrow> string \<Rightarrow> string \<Rightarrow> string \<Rightarrow> ('r, 'w, RefreshedSession) flow_io" where
  "refresh E old_refresh ip user_agent =
     rbind (on_host (reissue_tokens (en_tokens E) old_refresh ip user_agent)) (\<lambda>rotated.
     rbind (on_host (verify_access (en_tokens E) (rot_access_token rotated))) (\<lambda>claims.
     rbind (refresh_gates E claims) (\<lambda>user.
     rbind (if dc_role claims = au_role user \<and> dc_mfa_enabled claims = au_mfa_enabled user then ret rotated
            else
              rbind (on_host (reissue_access_with_authority (en_tokens E) claims (au_role user) (au_tenant_id user)
                                (au_mfa_enabled user))) (\<lambda>access_token.
                ret \<lparr>rot_access_token = access_token, rot_refresh_token = rot_refresh_token rotated\<rparr>)) (\<lambda>tokens.
       ret \<lparr>rfs_tokens = tokens, rfs_user = safe_user user\<rparr>))))"

section \<open>Issuance without a password\<close>

definition issue_tokens_for_user_id ::
    "('r, 'w) AuthEngine \<Rightarrow> string \<Rightarrow> string \<Rightarrow> string \<Rightarrow> string \<Rightarrow> ('r, 'w, AuthResult) flow_io" where
  "issue_tokens_for_user_id E tenant_id user_id ip user_agent =
     rbind (repository (ur_find_by_id (en_user_repository E) user_id (Some tenant_id))) (\<lambda>found.
       case found of
         None \<Rightarrow> raise AuthError.TokenInvalid
       | Some user \<Rightarrow>
           rbind (lift_result (assert_user_not_blocked E (au_status user))) (\<lambda>_.
             if ev_required (ac_email_verification (cfg E)) \<and> \<not> au_email_verified user
             then raise AuthError.EmailNotVerified
             else if au_mfa_enabled user then raise AuthError.MfaRequired
             else
               let safe = safe_user user;
                   hook_ctx = identity_only_context (su_id safe) (Some (su_email safe)) (Some (su_tenant_id safe))
               in rbind (on_host (issue_tokens (en_tokens E) safe ip user_agent False Unproven)) (\<lambda>result.
                  rbind (enforce_sessions_after_issue E result ip user_agent hook_ctx) (\<lambda>_.
                  rbind (on_host (spawn_guarded (UpdateLastLogin (su_tenant_id safe) (su_id safe)))) (\<lambda>_.
                  rbind (on_host (spawn_guarded (AfterLogin safe hook_ctx))) (\<lambda>_.
                    ret result))))))"

end
