(* ===== verification/Account_Gates.thy ===== *)
theory Account_Gates
  imports Session_Flows
begin

text \<open>
  The checks on an authenticated request: the account-status gate and its cache
  (\<open>services/account_status.rs\<close>), the tenant binding (\<open>services/tenant_binding.rs\<close>), the shared request
  counter (\<open>services/rate_limit.rs\<close>), and the one-call verifier
  (\<open>services/verifier.rs\<close>), with the delegations of \<open>services/adapter_api.rs\<close> it calls.
\<close>

section \<open>Account status\<close>

record AccountFacts =
  af_status :: string
  af_verified :: "bool option"

definition status_cache :: "('r, 'w) AuthEngine \<Rightarrow> ('r RedisStores \<times> nat) option" where
  "status_cache E =
     (let ttl = as_secs (ac_user_status_cache_ttl (cfg E)) in
      case en_user_status_cache E of
        None \<Rightarrow> None
      | Some cache \<Rightarrow> if ttl > 0 then Some (cache, ttl) else None)"

text \<open>What the cache holds of the facts asked for.\<close>

definition cached_facts ::
    "('r RedisStores \<times> nat) option \<Rightarrow> string \<Rightarrow> bool \<Rightarrow> ('r, 'w, string option \<times> bool option) flow_io" where
  "cached_facts cache subject want_verified =
     (case cache of
        None \<Rightarrow> ret (None, None)
      | Some (store, _) \<Rightarrow>
          rbind (on_host (on_store (get_status store subject))) (\<lambda>status.
          rbind (if want_verified then on_host (on_store (get_verified store subject)) else ret None) (\<lambda>verified.
            ret (status, verified))))"

definition refill_facts ::
    "('r, 'w) AuthEngine \<Rightarrow> ('r RedisStores \<times> nat) option \<Rightarrow> string \<Rightarrow> AuthUser \<Rightarrow> ('r, 'w, unit) flow_io" where
  "refill_facts E cache subject user =
     (case cache of
        None \<Rightarrow> ret ()
      | Some (store, ttl) \<Rightarrow>
          rbind (on_host (on_store (put_status store subject (au_status user) ttl))) (\<lambda>_.
            if ev_required (ac_email_verification (cfg E))
            then on_host (on_store (put_verified_flag store subject (au_email_verified user) ttl))
            else ret ()))"

definition account_facts ::
    "('r, 'w) AuthEngine \<Rightarrow> string \<Rightarrow> string \<Rightarrow> bool \<Rightarrow> ('r, 'w, AccountFacts) flow_io" where
  "account_facts E sub tenant_id want_verified =
     (let cache = status_cache E; subject = engine_session_subject E Dashboard (Some tenant_id) sub in
      rbind (cached_facts cache subject want_verified) (\<lambda>(status, verified).
        if status \<noteq> None \<and> (\<not> want_verified \<or> verified \<noteq> None)
        then ret \<lparr>af_status = the status, af_verified = verified\<rparr>
        else
          rbind (repository (ur_find_by_id (en_user_repository E) sub (Some tenant_id))) (\<lambda>found.
            case found of
              None \<Rightarrow> raise AuthError.TokenInvalid
            | Some user \<Rightarrow>
                rbind (refill_facts E cache subject user) (\<lambda>_.
                  ret \<lparr>af_status = au_status user, af_verified = Some (au_email_verified user)\<rparr>))))"

definition assert_account_usable ::
    "('r, 'w) AuthEngine \<Rightarrow> string \<Rightarrow> string \<Rightarrow> bool \<Rightarrow> ('r, 'w, unit) flow_io" where
  "assert_account_usable E sub tenant_id check_verified =
     (let require_verified = (check_verified \<and> ev_required (ac_email_verification (cfg E))) in
      rbind (account_facts E sub tenant_id require_verified) (\<lambda>facts.
      rbind (lift_result (assert_user_not_blocked E (af_status facts))) (\<lambda>_.
        if require_verified \<and> af_verified facts = Some False then raise AuthError.EmailNotVerified else ret ())))"

definition invalidate_account_status :: "('r, 'w) AuthEngine \<Rightarrow> string \<Rightarrow> string \<Rightarrow> ('r, 'w, unit) flow_io" where
  "invalidate_account_status E user_id tenant_id =
     (case status_cache E of
        None \<Rightarrow> ret ()
      | Some (cache, _) \<Rightarrow>
          if trim user_id = [] \<or> trim tenant_id = [] then ret ()
          else on_host (on_store (invalidate_status cache (engine_session_subject E Dashboard (Some tenant_id) user_id))))"

definition drop_cached_account_facts :: "('r, 'w) AuthEngine \<Rightarrow> string \<Rightarrow> string \<Rightarrow> ('r, 'w, unit) flow_io" where
  "drop_cached_account_facts E user_id tenant_id =
     rbind (attempt (invalidate_account_status E user_id tenant_id)) (\<lambda>_. ret ())"

section \<open>Tenant binding and request counting\<close>

definition assert_tenant_binding :: "('r, 'w) AuthEngine \<Rightarrow> string \<Rightarrow> RequestContext \<Rightarrow> ('r, 'w, unit) flow_io" where
  "assert_tenant_binding E token_tenant ctx =
     (case ac_tenant_id_resolver (cfg E) of
        None \<Rightarrow> ret ()
      | Some resolver \<Rightarrow>
          if \<not> ac_enforce_tenant_binding (cfg E) then ret ()
          else
            rbind (map_err map_tenant_error (on_app (resolver (request_parts_from_context ctx)))) (\<lambda>request_tenant.
              if request_tenant = token_tenant then ret () else raise AuthError.TokenInvalid))"

definition count_rate_limited_request ::
    "('r, 'w) AuthEngine \<Rightarrow> string \<Rightarrow> string \<Rightarrow> nat \<Rightarrow> ('r, 'w, nat option) flow_io" where
  "count_rate_limited_request E route client_bucket window_secs =
     (case en_rate_limit_store E of
        None \<Rightarrow> ret None
      | Some store \<Rightarrow>
          rbind (on_host (on_store (hit store route (keyed_hex E client_bucket) window_secs))) (\<lambda>count.
            ret (Some count)))"

section \<open>Verifying an access token\<close>

datatype AuthPlane = AuthPlane_Dashboard | AuthPlane_Platform

record VerifyAccessOptions =
  va_plane :: AuthPlane
  va_require_mfa :: bool
  va_check_status :: bool
  va_request :: "RequestContext option"

definition new_verify_access_options :: "AuthPlane \<Rightarrow> VerifyAccessOptions" where
  "new_verify_access_options p = \<lparr>va_plane = p, va_require_mfa = True, va_check_status = True, va_request = None\<rparr>"

datatype VerifiedAccessToken = VerifiedDashboard DashboardClaims | VerifiedPlatform PlatformClaims

definition MAX_SUBJECT_LEN :: nat where
  "MAX_SUBJECT_LEN = 256"

definition is_ascii_hexdigit :: "char \<Rightarrow> bool" where
  "is_ascii_hexdigit c \<longleftrightarrow> is_lower_hex (to_ascii_lower c)"

definition is_uuid_v4 :: "string \<Rightarrow> bool" where
  "is_uuid_v4 value \<longleftrightarrow>
     (let groups = split_on (CHR ''-'') value in
      length groups = 5 \<and>
      list_all2 (\<lambda>g len. length g = len \<and> list_all is_ascii_hexdigit g) groups [8, 4, 4, 4, 12] \<and>
      starts_with ''4'' (groups ! 2) \<and>
      (case groups ! 3 of [] \<Rightarrow> False | b # _ \<Rightarrow> to_ascii_lower b \<in> set ''89ab''))"

definition is_bounded_id :: "string \<Rightarrow> bool" where
  "is_bounded_id value \<longleftrightarrow> value \<noteq> [] \<and> char_count value \<le> MAX_SUBJECT_LEN"

definition dashboard_shape_ok :: "DashboardClaims \<Rightarrow> bool" where
  "dashboard_shape_ok claims \<longleftrightarrow>
     is_uuid_v4 (dc_jti claims) \<and> is_bounded_id (dc_sub claims) \<and> is_bounded_id (dc_tenant_id claims)"

definition collapse :: "AuthError \<Rightarrow> AuthError" where
  "collapse error =
     (case error of
        AuthError.TokenExpired \<Rightarrow> AuthError.TokenInvalid
      | AuthError.TokenRevoked \<Rightarrow> AuthError.TokenInvalid
      | other \<Rightarrow> other)"

definition verify_access_token :: "('r, 'w) AuthEngine \<Rightarrow> string \<Rightarrow> ('r, 'w, DashboardClaims) flow_io" where
  "verify_access_token E token = on_host (verify_access (en_tokens E) token)"

definition verify_platform_token :: "('r, 'w) AuthEngine \<Rightarrow> string \<Rightarrow> ('r, 'w, PlatformClaims) flow_io" where
  "verify_platform_token E token = on_host (verify_platform_access (en_tokens E) token)"

definition assert_user_active :: "('r, 'w) AuthEngine \<Rightarrow> string \<Rightarrow> string \<Rightarrow> ('r, 'w, unit) flow_io" where
  "assert_user_active E sub tenant_id = assert_account_usable E sub tenant_id False"

definition assert_user_active_and_verified :: "('r, 'w) AuthEngine \<Rightarrow> string \<Rightarrow> string \<Rightarrow> ('r, 'w, unit) flow_io" where
  "assert_user_active_and_verified E sub tenant_id = assert_account_usable E sub tenant_id True"

definition bind_to_request :: "('r, 'w) AuthEngine \<Rightarrow> string \<Rightarrow> RequestContext option \<Rightarrow> ('r, 'w, unit) flow_io" where
  "bind_to_request E tenant_id request =
     (case request of
        Some ctx \<Rightarrow> map_err (\<lambda>_. AuthError.TokenInvalid) (assert_tenant_binding E tenant_id ctx)
      | None \<Rightarrow> ret ())"

definition verify_dashboard_plane ::
    "('r, 'w) AuthEngine \<Rightarrow> string \<Rightarrow> VerifyAccessOptions \<Rightarrow> ('r, 'w, DashboardClaims) flow_io" where
  "verify_dashboard_plane E token options =
     rbind (map_err collapse (verify_access_token E token)) (\<lambda>claims.
       if \<not> dashboard_shape_ok claims then raise AuthError.TokenInvalid
       else
         rbind (bind_to_request E (dc_tenant_id claims) (va_request options)) (\<lambda>_.
         rbind (if va_check_status options
                then assert_user_active_and_verified E (dc_sub claims) (dc_tenant_id claims) else ret ()) (\<lambda>_.
           if va_require_mfa options \<and> dc_mfa_enabled claims \<and> \<not> dc_mfa_verified claims
           then raise AuthError.MfaRequired else ret claims)))"

definition assert_platform_active :: "('r, 'w) AuthEngine \<Rightarrow> string \<Rightarrow> ('r, 'w, unit) flow_io" where
  "assert_platform_active E admin_id =
     (case en_platform_user_repository E of
        None \<Rightarrow> raise AuthError.TokenInvalid
      | Some repo \<Rightarrow>
          rbind (repository (pu_find_by_id repo admin_id)) (\<lambda>found.
            case found of
              None \<Rightarrow> raise AuthError.TokenInvalid
            | Some admin \<Rightarrow> lift_result (assert_not_blocked (ap_status admin) (ac_blocked_statuses (cfg E)))))"

definition explain_platform_refusal ::
    "('r, 'w) AuthEngine \<Rightarrow> string \<Rightarrow> AuthError \<Rightarrow> ('r, 'w, AuthError) flow_io" where
  "explain_platform_refusal E token error =
     (if error \<noteq> AuthError.TokenInvalid then ret (collapse error)
      else
        rbind (attempt (verify_access_token E token)) (\<lambda>verified.
          ret (case verified of
                 Inr claims \<Rightarrow> if dashboard_shape_ok claims then AuthError.PlatformAuthRequired else AuthError.TokenInvalid
               | Inl e \<Rightarrow> if e = AuthError.TokenRevoked then AuthError.PlatformAuthRequired else AuthError.TokenInvalid)))"

definition verify_platform_plane ::
    "('r, 'w) AuthEngine \<Rightarrow> string \<Rightarrow> VerifyAccessOptions \<Rightarrow> ('r, 'w, PlatformClaims) flow_io" where
  "verify_platform_plane E token options =
     rbind (attempt (verify_platform_token E token)) (\<lambda>verified.
       case verified of
         Inl error \<Rightarrow> rbind (explain_platform_refusal E token error) raise
       | Inr claims \<Rightarrow>
           if \<not> is_uuid_v4 (pc_jti claims) \<or> \<not> is_bounded_id (pc_sub claims) then raise AuthError.TokenInvalid
           else
             rbind (if va_check_status options then assert_platform_active E (pc_sub claims) else ret ()) (\<lambda>_.
               if va_require_mfa options \<and> pc_mfa_enabled claims \<and> \<not> pc_mfa_verified claims
               then raise AuthError.MfaRequired else ret claims))"

definition engine_verify_access ::
    "('r, 'w) AuthEngine \<Rightarrow> string \<Rightarrow> VerifyAccessOptions \<Rightarrow> ('r, 'w, VerifiedAccessToken) flow_io" where
  "engine_verify_access E token options =
     (case va_plane options of
        AuthPlane_Dashboard \<Rightarrow> rbind (verify_dashboard_plane E token options) (\<lambda>claims. ret (VerifiedDashboard claims))
      | AuthPlane_Platform \<Rightarrow> rbind (verify_platform_plane E token options) (\<lambda>claims. ret (VerifiedPlatform claims)))"

end
