(* ===== verification/Adapter_Api.thy ===== *)
theory Adapter_Api
  imports Account_Gates
begin

text \<open>
  The surface an HTTP adapter calls (\<open>services/adapter_api.rs\<close>): role checks, the caller's own
  sessions, the WebSocket tickets, and the delegations to the MFA and platform services.
\<close>

section \<open>Roles\<close>

definition engine_role_satisfies :: "('r, 'w) AuthEngine \<Rightarrow> string \<Rightarrow> string \<Rightarrow> bool" where
  "engine_role_satisfies E held_role required_role = dashboard_role_satisfies (cfg E) held_role required_role"

definition engine_platform_role_satisfies :: "('r, 'w) AuthEngine \<Rightarrow> string \<Rightarrow> string \<Rightarrow> bool" where
  "engine_platform_role_satisfies E held_role required_role = platform_role_satisfies (cfg E) held_role required_role"

section \<open>The caller's sessions\<close>

definition current_session_hash :: "('r, 'w) AuthEngine \<Rightarrow> string option \<Rightarrow> string option" where
  "current_session_hash E raw_refresh =
     (case raw_refresh of
        None \<Rightarrow> None
      | Some raw \<Rightarrow> if \<not> is_refresh_token_shape raw then None else Some (engine_token_hash E raw))"

definition list_user_sessions ::
    "('r, 'w) AuthEngine \<Rightarrow> string \<Rightarrow> string \<Rightarrow> string option \<Rightarrow> ('r, 'w, SessionInfo list) flow_io" where
  "list_user_sessions E tenant_id user_id raw_refresh =
     service_list_sessions (en_sessions E) tenant_id user_id (current_session_hash E raw_refresh)"

definition revoke_user_session ::
    "('r, 'w) AuthEngine \<Rightarrow> string \<Rightarrow> string \<Rightarrow> string \<Rightarrow> ('r, 'w, unit) flow_io" where
  "revoke_user_session E tenant_id user_id session_hash =
     rbind (service_revoke_session (en_sessions E) tenant_id user_id session_hash) (\<lambda>_.
     rbind (on_host (on_store (bump_epoch (en_session_store E) Dashboard
              (engine_session_subject E Dashboard (Some tenant_id) user_id)))) (\<lambda>_. ret ()))"

definition revoke_other_user_sessions ::
    "('r, 'w) AuthEngine \<Rightarrow> string \<Rightarrow> string \<Rightarrow> string option \<Rightarrow> ('r, 'w, unit) flow_io" where
  "revoke_other_user_sessions E tenant_id user_id raw_refresh =
     (case current_session_hash E raw_refresh of
        Some current \<Rightarrow> revoke_all_except_current (en_sessions E) tenant_id user_id current
      | None \<Rightarrow> raise AuthError.SessionNotFound)"

section \<open>WebSocket tickets\<close>

record IssuedWsTicket =
  iw_ticket :: string
  iw_expires_in :: nat

definition WS_TICKET_TTL_SECONDS :: nat where
  "WS_TICKET_TTL_SECONDS = 30"

definition ticket_ttl :: "int \<Rightarrow> int \<Rightarrow> nat option" where
  "ticket_ttl exp now =
     (let remaining = residual_ttl exp now; ttl = min WS_TICKET_TTL_SECONDS (remaining - 1) in
      if ttl > 0 then Some ttl else None)"

definition ws_store_missing :: AuthError where
  "ws_store_missing = internal_error ''ws-ticket store not configured''"

text \<open>The thirty-two bytes of a ticket are drawn from the host.\<close>

definition mint_ticket ::
    "('r, 'w) AuthEngine \<Rightarrow> 'r RedisStores \<Rightarrow> WsTicketSnapshot \<Rightarrow> nat \<Rightarrow> ('r, 'w, string) flow_io" where
  "mint_ticket E store snapshot ttl =
     rbind (on_host (random_bytes WS_TICKET_ENTROPY_BYTES)) (\<lambda>bytes.
       on_host (on_store (mint (\<lambda>_. bytes) (lib_sha256 (el_token (en_libs E))) (el_snapshot (en_libs E)) store snapshot ttl)))"

definition issue_ws_ticket :: "('r, 'w) AuthEngine \<Rightarrow> DashboardClaims \<Rightarrow> ('r, 'w, IssuedWsTicket) flow_io" where
  "issue_ws_ticket E claims =
     (case en_ws_ticket_store E of
        None \<Rightarrow> raise ws_store_missing
      | Some store \<Rightarrow>
          if dc_mfa_enabled claims \<and> \<not> dc_mfa_verified claims then raise AuthError.MfaRequired
          else
            rbind (repository (ur_find_by_id (en_user_repository E) (dc_sub claims) (Some (dc_tenant_id claims)))) (\<lambda>found.
              case found of
                None \<Rightarrow> raise AuthError.TokenInvalid
              | Some user \<Rightarrow>
                  rbind (lift_result (assert_user_not_blocked E (au_status user))) (\<lambda>_.
                  rbind (on_host now_unix_ceil) (\<lambda>now.
                    case ticket_ttl (dc_exp claims) now of
                      None \<Rightarrow> raise AuthError.TokenInvalid
                    | Some ttl \<Rightarrow>
                        rbind (mint_ticket E store
                          \<lparr>ws_sub = au_id user, ws_tenant_id = Some (au_tenant_id user), ws_role = au_role user,
                           ws_status = au_status user, ws_mfa_enabled = dc_mfa_enabled claims,
                           ws_mfa_verified = dc_mfa_verified claims, ws_jti = dc_jti claims, ws_epoch = dc_epoch claims\<rparr> ttl)
                          (\<lambda>ticket. ret \<lparr>iw_ticket = ticket, iw_expires_in = ttl\<rparr>)))))"

definition ws_ticket_is_revoked :: "('r, 'w) AuthEngine \<Rightarrow> WsTicketSnapshot \<Rightarrow> string \<Rightarrow> ('r, 'w, bool) flow_io" where
  "ws_ticket_is_revoked E snapshot tenant =
     (if ws_jti snapshot = [] then ret True
      else
        rbind (on_host (on_store (is_blacklisted (en_session_store E) (ws_jti snapshot)))) (\<lambda>blacklisted.
          if blacklisted then ret True
          else
            rbind (on_host (on_store (current_epoch (en_session_store E) Dashboard
                     (engine_session_subject E Dashboard (Some tenant) (ws_sub snapshot))))) (\<lambda>current.
              ret (ws_epoch snapshot < current))))"

definition ticket_claims :: "WsTicketSnapshot \<Rightarrow> string \<Rightarrow> int \<Rightarrow> string \<Rightarrow> DashboardClaims" where
  "ticket_claims snapshot tenant now jti =
     \<lparr>dc_sub = ws_sub snapshot, dc_jti = jti, dc_tenant_id = tenant, dc_role = ws_role snapshot,
      dc_token_type = DashboardType_Dashboard, dc_status = ws_status snapshot, dc_mfa_enabled = ws_mfa_enabled snapshot,
      dc_mfa_verified = ws_mfa_verified snapshot, dc_iat = now,
      dc_exp = saturating_add now (int WS_TICKET_TTL_SECONDS), dc_epoch = 0, dc_iss = None, dc_aud = None\<rparr>"

definition redeem_ws_ticket :: "('r, 'w) AuthEngine \<Rightarrow> string \<Rightarrow> ('r, 'w, DashboardClaims) flow_io" where
  "redeem_ws_ticket E ticket =
     (case en_ws_ticket_store E of
        None \<Rightarrow> raise ws_store_missing
      | Some store \<Rightarrow>
          if \<not> is_refresh_token_shape ticket then raise AuthError.TokenInvalid
          else
            rbind (on_host (on_store (redeem (lib_sha256 (el_token (en_libs E))) (el_snapshot (en_libs E)) store ticket))) (\<lambda>found.
              case found of
                None \<Rightarrow> raise AuthError.TokenInvalid
              | Some snapshot \<Rightarrow>
                  (case ws_tenant_id snapshot of
                     None \<Rightarrow> raise AuthError.TokenInvalid
                   | Some tenant \<Rightarrow>
                       if tenant = [] then raise AuthError.TokenInvalid
                       else
                         rbind (ws_ticket_is_revoked E snapshot tenant) (\<lambda>revoked.
                           if revoked then raise AuthError.TokenInvalid
                           else
                             rbind (on_host now_unix) (\<lambda>now.
                             rbind (on_host new_uuid_v4) (\<lambda>jti.
                               ret (ticket_claims snapshot tenant now jti)))))))"

section \<open>The platform delegations\<close>

definition with_platform ::
    "('r, 'w) AuthEngine \<Rightarrow> (('r, 'w) PlatformAuthService \<Rightarrow> ('r, 'w, 'a) flow_io) \<Rightarrow> ('r, 'w, 'a) flow_io" where
  "with_platform E f =
     (case en_platform_auth E of None \<Rightarrow> raise AuthError.PlatformAuthRequired | Some service \<Rightarrow> f service)"

definition engine_platform_login ::
    "('r, 'w) AuthEngine \<Rightarrow> string \<Rightarrow> string \<Rightarrow> string \<Rightarrow> string \<Rightarrow> ('r, 'w, PlatformLoginResult) flow_io" where
  "engine_platform_login E email password ip user_agent =
     with_platform E (\<lambda>A. platform_login A email password ip user_agent)"

definition engine_platform_me :: "('r, 'w) AuthEngine \<Rightarrow> string \<Rightarrow> ('r, 'w, SafeAuthPlatformUser) flow_io" where
  "engine_platform_me E admin_id = with_platform E (\<lambda>A. platform_me A admin_id)"

definition engine_platform_refresh ::
    "('r, 'w) AuthEngine \<Rightarrow> string \<Rightarrow> string \<Rightarrow> string \<Rightarrow> ('r, 'w, RotatedTokens) flow_io" where
  "engine_platform_refresh E old_refresh ip user_agent =
     with_platform E (\<lambda>A. platform_refresh A old_refresh ip user_agent)"

definition engine_platform_logout :: "('r, 'w) AuthEngine \<Rightarrow> string \<Rightarrow> string \<Rightarrow> ('r, 'w, string) flow_io" where
  "engine_platform_logout E access_token raw_refresh =
     with_platform E (\<lambda>A. platform_logout A access_token raw_refresh)"

definition platform_revoke_all :: "('r, 'w) AuthEngine \<Rightarrow> string \<Rightarrow> ('r, 'w, unit) flow_io" where
  "platform_revoke_all E admin_id = with_platform E (\<lambda>A. revoke_all_platform_sessions A admin_id)"

section \<open>The MFA delegations\<close>

definition with_mfa ::
    "('r, 'w) AuthEngine \<Rightarrow> (('r, 'w) MfaService \<Rightarrow> ('r, 'w, 'a) flow_io) \<Rightarrow> ('r, 'w, 'a) flow_io" where
  "with_mfa E f = (case en_mfa E of None \<Rightarrow> raise AuthError.MfaNotEnabled | Some service \<Rightarrow> f service)"

definition engine_mfa_setup ::
    "('r, 'w) AuthEngine \<Rightarrow> string \<Rightarrow> MfaContext \<Rightarrow> string option \<Rightarrow> string option \<Rightarrow> ('r, 'w, MfaSetupResult) flow_io" where
  "engine_mfa_setup E user_id ctx tenant_id password = with_mfa E (\<lambda>S. mfa_setup S user_id ctx tenant_id password)"

definition engine_mfa_verify_enable ::
    "('r, 'w) AuthEngine \<Rightarrow> string \<Rightarrow> string \<Rightarrow> string \<Rightarrow> string \<Rightarrow> MfaContext \<Rightarrow> string option \<Rightarrow> ('r, 'w, unit) flow_io" where
  "engine_mfa_verify_enable E user_id code ip user_agent ctx tenant_id =
     with_mfa E (\<lambda>S. verify_and_enable S user_id code ip user_agent ctx tenant_id)"

definition engine_mfa_challenge ::
    "('r, 'w) AuthEngine \<Rightarrow> string \<Rightarrow> string \<Rightarrow> string \<Rightarrow> string \<Rightarrow> ('r, 'w, LoginResultMfa) flow_io" where
  "engine_mfa_challenge E mfa_temp_token code ip user_agent =
     with_mfa E (\<lambda>S. challenge S mfa_temp_token code ip user_agent)"

fun mfa_result_dashboard :: "LoginResultMfa \<Rightarrow> AuthResult option" where
  "mfa_result_dashboard (LoginResultMfa_Dashboard auth) = Some auth"
| "mfa_result_dashboard (LoginResultMfa_Platform _) = None"

fun mfa_result_platform :: "LoginResultMfa \<Rightarrow> PlatformAuthResult option" where
  "mfa_result_platform (LoginResultMfa_Platform auth) = Some auth"
| "mfa_result_platform (LoginResultMfa_Dashboard _) = None"

definition platform_mfa_challenge ::
    "('r, 'w) AuthEngine \<Rightarrow> string \<Rightarrow> string \<Rightarrow> string \<Rightarrow> string \<Rightarrow> ('r, 'w, PlatformAuthResult) flow_io" where
  "platform_mfa_challenge E mfa_temp_token code ip user_agent =
     rbind (with_mfa E (\<lambda>S. challenge_platform_only S mfa_temp_token code ip user_agent)) (\<lambda>result.
       case mfa_result_platform result of None \<Rightarrow> raise AuthError.PlatformAuthRequired | Some auth \<Rightarrow> ret auth)"

definition engine_mfa_disable ::
    "('r, 'w) AuthEngine \<Rightarrow> string \<Rightarrow> string \<Rightarrow> string \<Rightarrow> string \<Rightarrow> MfaContext \<Rightarrow> string option \<Rightarrow> ('r, 'w, unit) flow_io" where
  "engine_mfa_disable E user_id code ip user_agent ctx tenant_id =
     with_mfa E (\<lambda>S. mfa_disable S user_id code ip user_agent ctx tenant_id)"

definition mfa_regenerate_recovery_codes ::
    "('r, 'w) AuthEngine \<Rightarrow> string \<Rightarrow> string \<Rightarrow> string \<Rightarrow> string \<Rightarrow> MfaContext \<Rightarrow> string option \<Rightarrow> ('r, 'w, string list) flow_io" where
  "mfa_regenerate_recovery_codes E user_id code ip user_agent ctx tenant_id =
     with_mfa E (\<lambda>S. regenerate_recovery_codes S user_id code ip user_agent ctx tenant_id)"

end
