(* ===== verification/Looping.thy ===== *)
theory Looping
  imports Adapter_Api
begin

text \<open>
  Computations that may run forever. Drawing a one-time password samples bytes until one is acceptable
  (\<open>services/otp.rs\<close>), so a flow that sends one has a third outcome beside an answer and an error: it
  does not return, which is the value \<open>None\<close>.
\<close>

section \<open>The monad\<close>

type_synonym ('s, 'e, 'a) loop_io = "'s \<Rightarrow> (('e + 'a) \<times> 's) option"

type_synonym ('r, 'w, 'a) flow_loop = "(('r, 'w) engine_state, AuthError, 'a) loop_io"

definition returning :: "('s, 'e, 'a) io \<Rightarrow> ('s, 'e, 'a) loop_io" where
  "returning m s = Some (m s)"

definition lbind :: "('s, 'e, 'a) loop_io \<Rightarrow> ('a \<Rightarrow> ('s, 'e, 'b) loop_io) \<Rightarrow> ('s, 'e, 'b) loop_io" where
  "lbind m f s =
     (case m s of
        None \<Rightarrow> None
      | Some (Inl e, s') \<Rightarrow> Some (Inl e, s')
      | Some (Inr x, s') \<Rightarrow> f x s')"

definition lret :: "'a \<Rightarrow> ('s, 'e, 'a) loop_io" where
  "lret x = returning (ret x)"

text \<open>An error that is looked at rather than passed on.\<close>

definition lattempt :: "('s, 'e, 'a) loop_io \<Rightarrow> ('s, 'f, 'e + 'a) loop_io" where
  "lattempt m s = (case m s of None \<Rightarrow> None | Some (x, s') \<Rightarrow> Some (Inr x, s'))"

section \<open>Laws\<close>

lemma lbind_returning: "lbind (returning m) f s = (case m s of (Inl e, s') \<Rightarrow> Some (Inl e, s') | (Inr x, s') \<Rightarrow> f x s')"
  by (simp add: lbind_def returning_def split: prod.splits sum.splits)

lemma lbind_returning_returning: "lbind (returning m) (\<lambda>x. returning (f x)) = returning (rbind m f)"
  by (rule ext) (simp add: lbind_def returning_def rbind_def split: prod.splits sum.splits)

lemma lbind_assoc: "lbind (lbind m f) g = lbind m (\<lambda>x. lbind (f x) g)"
  by (rule ext) (simp add: lbind_def split: prod.splits sum.splits option.splits)

lemma lbind_Some:
  "lbind m f s = Some (Inr y, t) \<longleftrightarrow> (\<exists>x s'. m s = Some (Inr x, s') \<and> f x s' = Some (Inr y, t))"
  by (auto simp: lbind_def split: prod.splits sum.splits option.splits)

lemma lattempt_returning: "lattempt (returning m) = returning (attempt m)"
  by (rule ext) (simp add: lattempt_def returning_def attempt_def split: prod.splits)

section \<open>Drawing a one-time password\<close>

definition generate_code :: "nat \<Rightarrow> ('r, 'w, string) flow_loop" where
  "generate_code len s =
     (case generate_otp len (es_host s) of
        None \<Rightarrow> None
      | Some (code, h) \<Rightarrow> Some (Inr code, s\<lparr>es_host := h\<rparr>))"

end
