(* ===== verification/Registration.thy ===== *)
theory Registration
  imports Looping
begin

text \<open>
  Registration (\<open>services/auth/register.rs\<close>) and the verification of an address
  (\<open>services/auth/email_verification.rs\<close>). Log lines and the timing floor of a uniform answer are left
  out.
\<close>

section \<open>Verification mail\<close>

definition RESEND_COOLDOWN_SECS :: nat where
  "RESEND_COOLDOWN_SECS = 60"

definition VERIFICATION_OTP_LENGTH :: nat where
  "VERIFICATION_OTP_LENGTH = 6"

definition send_verification_otp :: "('r, 'w) AuthEngine \<Rightarrow> string \<Rightarrow> string \<Rightarrow> string \<Rightarrow> ('r, 'w, unit) flow_loop" where
  "send_verification_otp E tenant_id email user_id =
     (let identifier = hashed_identifier E tenant_id email;
          ttl = as_secs (ev_otp_ttl (ac_email_verification (cfg E)))
      in lbind (generate_code VERIFICATION_OTP_LENGTH) (\<lambda>otp.
         returning
           (rbind (on_host (store_otp (en_otp E) EmailVerification identifier otp ttl)) (\<lambda>_.
              on_host (spawn_guarded (SendVerificationEmail tenant_id email otp))))))"

definition verification_context :: "string \<Rightarrow> string \<Rightarrow> string \<Rightarrow> HookContext" where
  "verification_context user_id email tenant_id =
     \<lparr>hc_plane = HookPlane_Dashboard, hc_user_id = Some user_id, hc_email = Some email,
      hc_tenant_id = Some tenant_id, hc_ip = [], hc_user_agent = [], hc_sanitized_headers = []\<rparr>"

definition mark_email_verified :: "('r, 'w) AuthEngine \<Rightarrow> string \<Rightarrow> string \<Rightarrow> ('r, 'w, unit) flow_io" where
  "mark_email_verified E user_id tenant_id =
     rbind (repository (ur_update_email_verified (en_user_repository E) user_id tenant_id True)) (\<lambda>_.
       drop_cached_account_facts E user_id tenant_id)"

definition verify_email ::
    "('r, 'w) AuthEngine \<Rightarrow> string option \<Rightarrow> string \<Rightarrow> string \<Rightarrow> RequestContext \<Rightarrow> ('r, 'w, unit) flow_io" where
  "verify_email E body_tenant raw_email otp ctx =
     (let email = engine_normalize_email E raw_email in
      rbind (resolve_tenant E body_tenant ctx) (\<lambda>tenant_id.
      rbind (on_host (verify_otp (en_otp E) EmailVerification (hashed_identifier E tenant_id email) otp)) (\<lambda>_.
      rbind (repository (ur_find_by_email (en_user_repository E) email tenant_id)) (\<lambda>found.
        case found of
          None \<Rightarrow> raise AuthError.OtpInvalid
        | Some user \<Rightarrow>
            rbind (mark_email_verified E (au_id user) tenant_id) (\<lambda>_.
              on_host (spawn_guarded (AfterEmailVerified (safe_user user)
                (verification_context (au_id user) (au_email user) tenant_id))))))))"

definition resend_verification_email ::
    "('r, 'w) AuthEngine \<Rightarrow> string option \<Rightarrow> string \<Rightarrow> RequestContext \<Rightarrow> ('r, 'w, unit) flow_loop" where
  "resend_verification_email E body_tenant raw_email ctx =
     (let email = engine_normalize_email E raw_email in
      lbind (returning (resolve_tenant E body_tenant ctx)) (\<lambda>tenant_id.
      lbind (returning (on_host (begin_resend (en_otp E) EmailVerification (hashed_identifier E tenant_id email)
               RESEND_COOLDOWN_SECS))) (\<lambda>begun.
        if \<not> begun then lret ()
        else
          lbind (returning (repository (ur_find_by_email (en_user_repository E) email tenant_id))) (\<lambda>found.
            case found of
              None \<Rightarrow> lret ()
            | Some user \<Rightarrow>
                if \<not> au_email_verified user
                then lbind (lattempt (send_verification_otp E tenant_id email (au_id user))) (\<lambda>_. lret ())
                else lret ()))))"

section \<open>Registration\<close>

record RegisterInput =
  ri_email :: string
  ri_name :: string
  ri_password :: string
  ri_tenant_id :: "string option"

text \<open>The account as the repository is asked to store it.\<close>

definition local_account ::
    "('r, 'w) AuthEngine \<Rightarrow> RegisterInput \<Rightarrow> string \<Rightarrow> RegisterOverrides \<Rightarrow> string \<Rightarrow> CreateUserData" where
  "local_account E input tenant_id overrides password_hash =
     \<lparr>cu_email = ri_email input, cu_name = ri_name input, cu_password_hash = Some password_hash,
      cu_role = ov_role overrides, cu_status = ov_status overrides, cu_tenant_id = tenant_id,
      cu_email_verified = (if ev_required (ac_email_verification (cfg E)) then Some False else ov_email_verified overrides)\<rparr>"

definition provision_local_user ::
    "('r, 'w) AuthEngine \<Rightarrow> RegisterInput \<Rightarrow> string \<Rightarrow> RegisterOverrides \<Rightarrow> ('r, 'w, AuthUser) flow_loop" where
  "provision_local_user E input tenant_id overrides =
     lbind (returning (assert_acceptable (en_passwords E) (ri_password input) ''password'')) (\<lambda>_.
     lbind (returning (hash_password (en_passwords E) (ri_password input))) (\<lambda>password_hash.
     lbind (returning (repository (ur_create (en_user_repository E)
              (local_account E input tenant_id overrides password_hash)))) (\<lambda>user.
       if ev_required (ac_email_verification (cfg E))
       then lbind (lattempt (send_verification_otp E tenant_id (au_email user) (au_id user))) (\<lambda>_. lret user)
       else lret user)))"

definition before_register_overrides ::
    "('r, 'w) AuthEngine \<Rightarrow> RegisterAttempt \<Rightarrow> HookContext \<Rightarrow> ('r, 'w, RegisterOverrides) flow_io" where
  "before_register_overrides E reg_attempt hook_ctx =
     rbind (attempt (on_app (hk_before_register (en_hooks E) reg_attempt hook_ctx))) (\<lambda>answer.
       case answer of
         Inr (Allow overrides) \<Rightarrow> ret overrides
       | _ \<Rightarrow> raise AuthError.Forbidden)"

definition register :: "('r, 'w) AuthEngine \<Rightarrow> RegisterInput \<Rightarrow> RequestContext \<Rightarrow> ('r, 'w, LoginResult) flow_loop" where
  "register E raw ctx =
     (let input = raw\<lparr>ri_email := engine_normalize_email E (ri_email raw)\<rparr> in
      lbind (returning (resolve_tenant E (ri_tenant_id input) ctx)) (\<lambda>tenant_id.
      let hook_ctx = from_request HookPlane_Dashboard ctx None (Some (ri_email input)) (Some tenant_id) in
      lbind (returning (before_register_overrides E
               \<lparr>ra_email = ri_email input, ra_name = ri_name input, ra_tenant_id = tenant_id\<rparr> hook_ctx)) (\<lambda>overrides.
      lbind (returning (repository (ur_find_by_email (en_user_repository E) (ri_email input) tenant_id))) (\<lambda>existing.
        if existing \<noteq> None then
          returning (rbind (verify_sentinel (en_passwords E) (ri_password input)) (\<lambda>_. raise AuthError.EmailAlreadyExists))
        else
          lbind (provision_local_user E input tenant_id overrides) (\<lambda>user.
            let safe = safe_user user in
            returning
              (rbind (on_host (issue_tokens (en_tokens E) safe (rx_ip ctx) (rx_user_agent ctx) False Proved)) (\<lambda>result.
               rbind (enforce_sessions_after_issue E result (rx_ip ctx) (rx_user_agent ctx) hook_ctx) (\<lambda>_.
               rbind (on_host (spawn_guarded (AfterRegister safe hook_ctx))) (\<lambda>_.
                 ret (LoginSuccess result))))))))))"

end
