(* ===== verification/Password_Reset.thy ===== *)
theory Password_Reset
  imports Registration
begin

text \<open>
  The password-reset flows and the authenticated change of a password
  (\<open>services/auth/password_reset.rs\<close>). A reset proof is a token of the store bound to the account, its
  tenant and the fingerprint of the password it was issued against. Log lines and the timing floor of a
  uniform answer are left out.
\<close>

section \<open>Proofs\<close>

definition VERIFIED_TOKEN_TTL_SECONDS :: nat where
  "VERIFIED_TOKEN_TTL_SECONDS = 300"

definition RESET_TOKEN_BYTES :: nat where
  "RESET_TOKEN_BYTES = 32"

definition sha :: "('r, 'w) AuthEngine \<Rightarrow> u8 list \<Rightarrow> u8 list" where
  "sha E = lib_sha256 (el_token (en_libs E))"

definition digest_eq :: "('r, 'w) AuthEngine \<Rightarrow> string \<Rightarrow> string \<Rightarrow> bool" where
  "digest_eq E a b = constant_time_eq (lib_jws (el_token (en_libs E))) (sha E (as_bytes a)) (sha E (as_bytes b))"

definition password_fingerprint :: "('r, 'w) AuthEngine \<Rightarrow> AuthUser \<Rightarrow> string" where
  "password_fingerprint E user =
     (case au_password_hash user of Some phc \<Rightarrow> to_hex (sha E (as_bytes phc)) | None \<Rightarrow> [])"

definition reset_context :: "('r, 'w) AuthEngine \<Rightarrow> AuthUser \<Rightarrow> string \<Rightarrow> string \<Rightarrow> ResetContext" where
  "reset_context E user email tenant_id =
     \<lparr>rc_user_id = au_id user, rc_email = email, rc_tenant_id = tenant_id,
      rc_password_fingerprint = password_fingerprint E user\<rparr>"

definition assert_proof_still_bound :: "('r, 'w) AuthEngine \<Rightarrow> ResetContext \<Rightarrow> ('r, 'w, unit) flow_io" where
  "assert_proof_still_bound E ctx =
     (if rc_password_fingerprint ctx = [] then ret ()
      else
        rbind (repository (ur_find_by_id (en_user_repository E) (rc_user_id ctx) (Some (rc_tenant_id ctx)))) (\<lambda>found.
          let current = (case found of Some user \<Rightarrow> password_fingerprint E user | None \<Rightarrow> []) in
          if digest_eq E current (rc_password_fingerprint ctx) then ret ()
          else raise AuthError.PasswordResetTokenInvalid))"

section \<open>Sending\<close>

definition send_reset_otp :: "('r, 'w) AuthEngine \<Rightarrow> string \<Rightarrow> string \<Rightarrow> ('r, 'w, unit) flow_loop" where
  "send_reset_otp E tenant_id email =
     (let identifier = hashed_identifier E tenant_id email;
          ttl = as_secs (pr_otp_ttl (ac_password_reset (cfg E)))
      in lbind (generate_code (pr_otp_length (ac_password_reset (cfg E)))) (\<lambda>otp.
         returning
           (rbind (on_host (store_otp (en_otp E) PasswordReset identifier otp ttl)) (\<lambda>_.
              on_host (spawn_guarded (SendResetOtpEmail tenant_id email otp))))))"

definition send_reset_token :: "('r, 'w) AuthEngine \<Rightarrow> AuthUser \<Rightarrow> string \<Rightarrow> string \<Rightarrow> ('r, 'w, unit) flow_io" where
  "send_reset_token E user email tenant_id =
     (case en_password_reset_store E of
        None \<Rightarrow> raise (internal_error ''password reset store not configured'')
      | Some store \<Rightarrow>
          rbind (draw_token RESET_TOKEN_BYTES) (\<lambda>raw.
          rbind (on_host (on_store (put_token (sha E) (el_reset (en_libs E)) store raw
                   (reset_context E user email tenant_id) (as_secs (pr_token_ttl (ac_password_reset (cfg E))))))) (\<lambda>_.
          rbind (attempt (on_app (em_send_password_reset_token (en_email_provider E) tenant_id email raw None))) (\<lambda>sent.
            case sent of
              Inr _ \<Rightarrow> ret ()
            | Inl _ \<Rightarrow> rbind (attempt (on_host (on_store (delete_token (sha E) store raw)))) (\<lambda>_. ret ())))))"

text \<open>An account that may reset: of the requested tenant and not blocked.\<close>

definition resettable :: "('r, 'w) AuthEngine \<Rightarrow> AuthUser option \<Rightarrow> string \<Rightarrow> AuthUser option" where
  "resettable E found tenant_id =
     (case tenant_scoped found tenant_id of
        Some user \<Rightarrow> (case assert_user_not_blocked E (au_status user) of Inr _ \<Rightarrow> Some user | Inl _ \<Rightarrow> None)
      | None \<Rightarrow> None)"

definition initiate_reset_inner :: "('r, 'w) AuthEngine \<Rightarrow> string \<Rightarrow> string \<Rightarrow> ('r, 'w, unit) flow_loop" where
  "initiate_reset_inner E tenant_id email =
     lbind (returning (on_host (begin_resend (en_otp E) PasswordReset (hashed_identifier E tenant_id email)
              RESEND_COOLDOWN_SECS))) (\<lambda>begun.
       if \<not> begun then lret ()
       else
         lbind (returning (repository (ur_find_by_email (en_user_repository E) email tenant_id))) (\<lambda>found.
           case resettable E found tenant_id of
             None \<Rightarrow> lret ()
           | Some user \<Rightarrow>
               lbind (lattempt
                 (case pr_method (ac_password_reset (cfg E)) of
                    ResetMethod_Otp \<Rightarrow> send_reset_otp E tenant_id email
                  | ResetMethod_Token \<Rightarrow> returning (send_reset_token E user email tenant_id))) (\<lambda>_. lret ())))"

record ForgotPasswordInput =
  fp_email :: string
  fp_tenant_id :: "string option"

definition initiate_reset ::
    "('r, 'w) AuthEngine \<Rightarrow> ForgotPasswordInput \<Rightarrow> RequestContext \<Rightarrow> ('r, 'w, unit) flow_loop" where
  "initiate_reset E input ctx =
     lbind (returning (resolve_tenant E (fp_tenant_id input) ctx)) (\<lambda>tenant_id.
       initiate_reset_inner E tenant_id (engine_normalize_email E (fp_email input)))"

definition resend_reset_otp_inner :: "('r, 'w) AuthEngine \<Rightarrow> string \<Rightarrow> string \<Rightarrow> ('r, 'w, unit) flow_loop" where
  "resend_reset_otp_inner E tenant_id email =
     lbind (returning (on_host (begin_resend (en_otp E) PasswordReset (hashed_identifier E tenant_id email)
              RESEND_COOLDOWN_SECS))) (\<lambda>begun.
       if \<not> begun then lret ()
       else
         lbind (returning (repository (ur_find_by_email (en_user_repository E) email tenant_id))) (\<lambda>found.
           case resettable E found tenant_id of
             None \<Rightarrow> lret ()
           | Some user \<Rightarrow> lbind (lattempt (send_reset_otp E tenant_id email)) (\<lambda>_. lret ())))"

record ResendResetOtpInput =
  rr_email :: string
  rr_tenant_id :: "string option"

definition resend_reset_otp ::
    "('r, 'w) AuthEngine \<Rightarrow> ResendResetOtpInput \<Rightarrow> RequestContext \<Rightarrow> ('r, 'w, unit) flow_loop" where
  "resend_reset_otp E input ctx =
     lbind (returning (resolve_tenant E (rr_tenant_id input) ctx)) (\<lambda>tenant_id.
       resend_reset_otp_inner E tenant_id (engine_normalize_email E (rr_email input)))"

section \<open>Completing a reset\<close>

definition notify_password_changed :: "('r, 'w) AuthEngine \<Rightarrow> string \<Rightarrow> string \<Rightarrow> ('r, 'w, unit) flow_io" where
  "notify_password_changed E tenant_id user_id =
     rbind (attempt (on_app (ur_find_by_id (en_user_repository E) user_id (Some tenant_id)))) (\<lambda>found.
       case found of
         Inr (Some user) \<Rightarrow> on_host (spawn_guarded (SendPasswordChanged (au_tenant_id user) (au_email user)))
       | _ \<Rightarrow> ret ())"

definition reset_context_hooks :: "ResetContext \<Rightarrow> HookContext" where
  "reset_context_hooks ctx =
     \<lparr>hc_plane = HookPlane_Dashboard, hc_user_id = Some (rc_user_id ctx), hc_email = Some (rc_email ctx),
      hc_tenant_id = Some (rc_tenant_id ctx), hc_ip = [], hc_user_agent = [], hc_sanitized_headers = []\<rparr>"

definition project_user_for_hook :: "('r, 'w) AuthEngine \<Rightarrow> ResetContext \<Rightarrow> ('r, 'w, SafeAuthUser option) flow_io" where
  "project_user_for_hook E ctx =
     rbind (attempt (on_app (ur_find_by_id (en_user_repository E) (rc_user_id ctx) (Some (rc_tenant_id ctx))))) (\<lambda>found.
       ret (case found of Inr (Some user) \<Rightarrow> Some (safe_user user) | _ \<Rightarrow> None))"

definition apply_password_reset :: "('r, 'w) AuthEngine \<Rightarrow> ResetContext \<Rightarrow> string \<Rightarrow> ('r, 'w, unit) flow_io" where
  "apply_password_reset E ctx new_password =
     rbind (hash_password (en_passwords E) new_password) (\<lambda>new_hash.
     rbind (repository (ur_update_password (en_user_repository E) (rc_user_id ctx) (rc_tenant_id ctx) new_hash)) (\<lambda>_.
     rbind (revoke_all_sessions E (rc_tenant_id ctx) (rc_user_id ctx)) (\<lambda>_.
     rbind (notify_password_changed E (rc_tenant_id ctx) (rc_user_id ctx)) (\<lambda>_.
     rbind (project_user_for_hook E ctx) (\<lambda>safe.
       case safe of
         Some user \<Rightarrow> on_host (spawn_guarded (AfterPasswordReset user (reset_context_hooks ctx)))
       | None \<Rightarrow> ret ())))))"

datatype ProofKind = ProofKind_Token | ProofKind_Verified

definition reset_with_stored_proof ::
    "('r, 'w) AuthEngine \<Rightarrow> string \<Rightarrow> string \<Rightarrow> string \<Rightarrow> string \<Rightarrow> ProofKind \<Rightarrow> ('r, 'w, unit) flow_io" where
  "reset_with_stored_proof E token tenant_id email new_password kind =
     (case en_password_reset_store E of
        None \<Rightarrow> raise AuthError.PasswordResetTokenInvalid
      | Some store \<Rightarrow>
          rbind (on_host (on_store
            (case kind of
               ProofKind_Token \<Rightarrow> consume_token (sha E) (el_reset (en_libs E)) store token
             | ProofKind_Verified \<Rightarrow> consume_verified (sha E) (el_reset (en_libs E)) store token))) (\<lambda>consumed.
            case consumed of
              None \<Rightarrow> raise AuthError.PasswordResetTokenInvalid
            | Some ctx \<Rightarrow>
                if \<not> digest_eq E (rc_email ctx) email \<or> \<not> digest_eq E (rc_tenant_id ctx) tenant_id
                then raise AuthError.PasswordResetTokenInvalid
                else
                  rbind (assert_proof_still_bound E ctx) (\<lambda>_.
                    apply_password_reset E ctx new_password)))"

definition reset_with_otp ::
    "('r, 'w) AuthEngine \<Rightarrow> string \<Rightarrow> string \<Rightarrow> string \<Rightarrow> string \<Rightarrow> ('r, 'w, unit) flow_io" where
  "reset_with_otp E otp tenant_id email new_password =
     rbind (on_host (verify_otp (en_otp E) PasswordReset (hashed_identifier E tenant_id email) otp)) (\<lambda>_.
     rbind (repository (ur_find_by_email (en_user_repository E) email tenant_id)) (\<lambda>found.
       case tenant_scoped found tenant_id of
         None \<Rightarrow> raise AuthError.PasswordResetTokenInvalid
       | Some user \<Rightarrow> apply_password_reset E (reset_context E user email tenant_id) new_password))"

record ResetPasswordInput =
  rp_email :: string
  rp_tenant_id :: "string option"
  rp_new_password :: string
  rp_token :: "string option"
  rp_otp :: "string option"
  rp_verified_token :: "string option"

datatype Proof = Proof_Token string | Proof_Otp string | Proof_Verified string

datatype Dispatch = Dispatch_Stored string ProofKind | Dispatch_Otp string

definition classify_proof :: "ResetPasswordInput \<Rightarrow> Proof option" where
  "classify_proof input =
     (case (rp_token input, rp_otp input, rp_verified_token input) of
        (Some token, None, None) \<Rightarrow> Some (Proof_Token token)
      | (None, Some otp, None) \<Rightarrow> Some (Proof_Otp otp)
      | (None, None, Some verified) \<Rightarrow> Some (Proof_Verified verified)
      | _ \<Rightarrow> None)"

fun dispatch_proof :: "ResetMethod \<Rightarrow> Proof \<Rightarrow> Dispatch option" where
  "dispatch_proof ResetMethod_Token (Proof_Token token) = Some (Dispatch_Stored token ProofKind_Token)"
| "dispatch_proof ResetMethod_Otp (Proof_Otp otp) = Some (Dispatch_Otp otp)"
| "dispatch_proof ResetMethod_Otp (Proof_Verified verified) = Some (Dispatch_Stored verified ProofKind_Verified)"
| "dispatch_proof _ _ = None"

definition reset_password ::
    "('r, 'w) AuthEngine \<Rightarrow> ResetPasswordInput \<Rightarrow> RequestContext \<Rightarrow> ('r, 'w, unit) flow_io" where
  "reset_password E input ctx =
     rbind (resolve_tenant E (rp_tenant_id input) ctx) (\<lambda>tenant_id.
       let email = engine_normalize_email E (rp_email input) in
       case Option.bind (classify_proof input) (dispatch_proof (pr_method (ac_password_reset (cfg E)))) of
         None \<Rightarrow> raise AuthError.PasswordResetTokenInvalid
       | Some chosen \<Rightarrow>
           rbind (assert_acceptable (en_passwords E) (rp_new_password input) ''newPassword'') (\<lambda>_.
             case chosen of
               Dispatch_Stored token kind \<Rightarrow>
                 reset_with_stored_proof E token tenant_id email (rp_new_password input) kind
             | Dispatch_Otp otp \<Rightarrow> reset_with_otp E otp tenant_id email (rp_new_password input)))"

record VerifyResetOtpInput =
  vr_email :: string
  vr_tenant_id :: "string option"
  vr_otp :: string

definition verify_reset_otp ::
    "('r, 'w) AuthEngine \<Rightarrow> VerifyResetOtpInput \<Rightarrow> RequestContext \<Rightarrow> ('r, 'w, string) flow_io" where
  "verify_reset_otp E input ctx =
     rbind (resolve_tenant E (vr_tenant_id input) ctx) (\<lambda>tenant_id.
       let email = engine_normalize_email E (vr_email input) in
       rbind (on_host (verify_otp (en_otp E) PasswordReset (hashed_identifier E tenant_id email) (vr_otp input))) (\<lambda>_.
       rbind (repository (ur_find_by_email (en_user_repository E) email tenant_id)) (\<lambda>found.
         case tenant_scoped found tenant_id of
           None \<Rightarrow> raise AuthError.PasswordResetTokenInvalid
         | Some user \<Rightarrow>
             (case en_password_reset_store E of
                None \<Rightarrow> raise AuthError.PasswordResetTokenInvalid
              | Some store \<Rightarrow>
                  rbind (draw_token RESET_TOKEN_BYTES) (\<lambda>raw.
                  rbind (on_host (on_store (put_verified (sha E) (el_reset (en_libs E)) store raw
                           (reset_context E user email tenant_id) VERIFIED_TOKEN_TTL_SECONDS))) (\<lambda>_.
                    ret raw))))))"

section \<open>Changing a known password\<close>

definition resolve_current_session ::
    "('r, 'w) AuthEngine \<Rightarrow> string \<Rightarrow> string \<Rightarrow> string \<Rightarrow> ('r, 'w, string) flow_io" where
  "resolve_current_session E tenant_id user_id raw =
     (if \<not> is_refresh_token_shape raw then raise AuthError.SessionNotFound
      else resolve_live_session (en_sessions E) tenant_id user_id (engine_token_hash E raw))"

definition end_other_sessions ::
    "('r, 'w) AuthEngine \<Rightarrow> string \<Rightarrow> string \<Rightarrow> string option \<Rightarrow> ('r, 'w, unit) flow_io" where
  "end_other_sessions E tenant_id user_id kept =
     (case kept of
        None \<Rightarrow> revoke_all_sessions E tenant_id user_id
      | Some session_hash \<Rightarrow>
          rbind (attempt (revoke_all_except_current (en_sessions E) tenant_id user_id session_hash)) (\<lambda>ended.
            if ended = Inl AuthError.SessionNotFound then revoke_all_sessions E tenant_id user_id
            else lift_result ended))"

text \<open>A password re-proof is counted like a login, under an identifier of its own flow.\<close>

definition reprove_password ::
    "('r, 'w) AuthEngine \<Rightarrow> string \<Rightarrow> string \<Rightarrow> string \<Rightarrow> string \<Rightarrow> ('r, 'w, unit) flow_io" where
  "reprove_password E flow user_id password phc =
     (let bf_id = reproof_identifier E flow user_id in
      rbind (assert_not_locked E bf_id) (\<lambda>_.
      rbind (verify_outcome (en_passwords E) password phc) (\<lambda>outcome.
        if \<not> vo_matched outcome then
          rbind (on_host (throttle_record_failure (en_brute_force E) bf_id)) (\<lambda>_. raise AuthError.InvalidCredentials)
        else on_host (throttle_reset (en_brute_force E) bf_id))))"

definition change_password ::
    "('r, 'w) AuthEngine \<Rightarrow> string \<Rightarrow> string \<Rightarrow> string \<Rightarrow> string \<Rightarrow> string option \<Rightarrow> ('r, 'w, unit) flow_io" where
  "change_password E tenant_id user_id current_password new_password current_refresh =
     rbind (repository (ur_find_by_id (en_user_repository E) user_id (Some tenant_id))) (\<lambda>user.
       case Option.bind user au_password_hash of
         None \<Rightarrow> raise AuthError.InvalidCredentials
       | Some phc \<Rightarrow>
           rbind (reprove_password E ''change-password'' user_id current_password phc) (\<lambda>_.
           rbind (case current_refresh of
                    Some raw \<Rightarrow> rbind (resolve_current_session E tenant_id user_id raw) (\<lambda>session_hash. ret (Some session_hash))
                  | None \<Rightarrow> ret None) (\<lambda>kept.
           rbind (assert_acceptable (en_passwords E) new_password ''newPassword'') (\<lambda>_.
           rbind (hash_password (en_passwords E) new_password) (\<lambda>new_hash.
           rbind (repository (ur_update_password (en_user_repository E) user_id tenant_id new_hash)) (\<lambda>_.
           rbind (end_other_sessions E tenant_id user_id kept) (\<lambda>_.
             notify_password_changed E tenant_id user_id)))))))"

section \<open>Proofs of an account without a password\<close>

text \<open>
  A proof minted while the account had no password carries an empty fingerprint, and consuming it asks
  nothing of the account: it stays good after a password was set.
\<close>

lemma passwordless_proof_survives:
  "au_password_hash user = None \<Longrightarrow> assert_proof_still_bound E (reset_context E user email tenant_id) s = (Inr (), s)"
  by (simp add: assert_proof_still_bound_def reset_context_def password_fingerprint_def)

end
