(* ===== verification/Email_Change.thy ===== *)
theory Email_Change
  imports Password_Reset
begin

text \<open>
  Changing the address of an account in two steps (\<open>services/auth/email_change.rs\<close>): the password is
  proved again and a token goes to the new address; the token, while still bound to the password, adopts
  it.
\<close>

definition EMAIL_CHANGE_TOKEN_BYTES :: nat where
  "EMAIL_CHANGE_TOKEN_BYTES = 32"

definition reset_store_missing :: AuthError where
  "reset_store_missing = internal_error ''password reset store not configured''"

definition assert_address_is_free :: "('r, 'w) AuthEngine \<Rightarrow> AuthUser \<Rightarrow> string \<Rightarrow> ('r, 'w, unit) flow_io" where
  "assert_address_is_free E user new_email =
     (if engine_normalize_email E (au_email user) = new_email then raise AuthError.EmailAlreadyExists
      else
        rbind (repository (ur_find_by_email (en_user_repository E) new_email (au_tenant_id user))) (\<lambda>found.
          if found \<noteq> None then raise AuthError.EmailAlreadyExists else ret ()))"

definition assert_still_bound :: "('r, 'w) AuthEngine \<Rightarrow> EmailChangeContext \<Rightarrow> AuthUser \<Rightarrow> AuthError + unit" where
  "assert_still_bound E ctx user =
     (if ec_password_fingerprint ctx = [] then Inr ()
      else if digest_eq E (ec_password_fingerprint ctx) (password_fingerprint E user) then Inr ()
      else Inl AuthError.EmailChangeTokenInvalid)"

definition request_email_change ::
    "('r, 'w) AuthEngine \<Rightarrow> string \<Rightarrow> string \<Rightarrow> string \<Rightarrow> string \<Rightarrow> ('r, 'w, unit) flow_io" where
  "request_email_change E tenant_id user_id raw_email current_password =
     (let new_email = engine_normalize_email E raw_email in
      case en_password_reset_store E of
        None \<Rightarrow> raise reset_store_missing
      | Some store \<Rightarrow>
          rbind (repository (ur_find_by_id (en_user_repository E) user_id (Some tenant_id))) (\<lambda>found.
            case found of
              None \<Rightarrow> raise AuthError.InvalidCredentials
            | Some user \<Rightarrow>
                (case au_password_hash user of
                   None \<Rightarrow> raise AuthError.InvalidCredentials
                 | Some phc \<Rightarrow>
                     rbind (lift_result (assert_user_not_blocked E (au_status user))) (\<lambda>_.
                     rbind (reprove_password E ''email-change'' user_id current_password phc) (\<lambda>_.
                     rbind (assert_address_is_free E user new_email) (\<lambda>_.
                     rbind (draw_token EMAIL_CHANGE_TOKEN_BYTES) (\<lambda>raw.
                     rbind (on_host (on_store (put_email_change (sha E) (el_email_change (en_libs E)) store raw
                              \<lparr>ec_user_id = user_id, ec_new_email = new_email, ec_tenant_id = au_tenant_id user,
                               ec_password_fingerprint = password_fingerprint E user\<rparr>
                              (as_secs (ac_email_change_token_ttl (cfg E)))))) (\<lambda>_.
                       map_err (\<lambda>_. internal_error ''email change verification delivery failed'')
                         (on_app (em_send_email_change_verification (en_email_provider E) (au_tenant_id user) new_email raw None))))))))))"

definition confirm_email_change :: "('r, 'w) AuthEngine \<Rightarrow> string \<Rightarrow> ('r, 'w, unit) flow_io" where
  "confirm_email_change E token =
     (case en_password_reset_store E of
        None \<Rightarrow> raise reset_store_missing
      | Some store \<Rightarrow>
          rbind (on_host (on_store (consume_email_change (sha E) (el_email_change (en_libs E)) store token))) (\<lambda>consumed.
            case consumed of
              None \<Rightarrow> raise AuthError.EmailChangeTokenInvalid
            | Some ctx \<Rightarrow>
                rbind (repository (ur_find_by_id (en_user_repository E) (ec_user_id ctx) (Some (ec_tenant_id ctx)))) (\<lambda>found.
                  case found of
                    None \<Rightarrow> raise AuthError.EmailChangeTokenInvalid
                  | Some user \<Rightarrow>
                      rbind (lift_result (assert_still_bound E ctx user)) (\<lambda>_.
                      rbind (lift_result (assert_user_not_blocked E (au_status user))) (\<lambda>_.
                      rbind (assert_address_is_free E user (ec_new_email ctx)) (\<lambda>_.
                      rbind (repository (ur_update_email (en_user_repository E) (ec_user_id ctx) (ec_tenant_id ctx)
                               (ec_new_email ctx))) (\<lambda>_.
                      rbind (attempt (on_app (em_send_email_changed_notification (en_email_provider E) (au_tenant_id user)
                               (au_email user) (ec_new_email ctx) None))) (\<lambda>_.
                        ret ()))))))))"

end
