(* ===== verification/Invitations.thy ===== *)
theory Invitations
  imports Email_Change
begin

text \<open>
  The invitation flows (\<open>services/auth/invitation.rs\<close>, \<open>services/auth/invitation/supersede.rs\<close>): an
  invitation is a single-use record named by an index on the invited address. Inviting the same address
  again claims the index by compare-and-swap against the record the caller was shown to outrank.
\<close>

section \<open>Roles\<close>

definition has_role :: "string \<Rightarrow> string \<Rightarrow> role_hierarchy \<Rightarrow> bool" where
  "has_role holder required hierarchy \<longleftrightarrow>
     holder = required \<or>
     (case map_of hierarchy holder of Some included \<Rightarrow> required \<in> set included | None \<Rightarrow> False)"

definition engine_hierarchy :: "('r, 'w) AuthEngine \<Rightarrow> role_hierarchy" where
  "engine_hierarchy E = ro_hierarchy (ac_roles (cfg E))"

definition declared_role :: "('r, 'w) AuthEngine \<Rightarrow> string \<Rightarrow> bool" where
  "declared_role E role \<longleftrightarrow> map_of (engine_hierarchy E) role \<noteq> None"

section \<open>Claiming the index\<close>

definition SUPERSEDE_ATTEMPTS :: nat where
  "SUPERSEDE_ATTEMPTS = 3"

definition approve_supersede ::
    "('r, 'w) AuthEngine \<Rightarrow> 'r RedisStores \<Rightarrow> string \<Rightarrow> string \<Rightarrow> string \<Rightarrow> ('r, 'w, string option) flow_io" where
  "approve_supersede E store inviter_role tenant_id invitee_hash =
     rbind (on_host (on_store (read_invitation_index store tenant_id invitee_hash))) (\<lambda>found.
       case found of
         None \<Rightarrow> ret None
       | Some pending_hash \<Rightarrow>
           rbind (on_host (on_store (read_invitation_by_hash (el_invitation (en_libs E)) store pending_hash))) (\<lambda>pending.
             if (case pending of
                   Some invitation \<Rightarrow> \<not> has_role inviter_role (si_role invitation) (engine_hierarchy E)
                 | None \<Rightarrow> False)
             then raise AuthError.InsufficientRole
             else ret (Some pending_hash)))"

fun claim_attempts ::
    "nat \<Rightarrow> ('r, 'w) AuthEngine \<Rightarrow> 'r RedisStores \<Rightarrow> string \<Rightarrow> string \<Rightarrow> string \<Rightarrow> string \<Rightarrow> nat \<Rightarrow>
      ('r, 'w, string option) flow_io" where
  "claim_attempts 0 E store inviter_role tenant_id invitee_hash token_hash ttl_secs = raise AuthError.InsufficientRole"
| "claim_attempts (Suc n) E store inviter_role tenant_id invitee_hash token_hash ttl_secs =
     rbind (approve_supersede E store inviter_role tenant_id invitee_hash) (\<lambda>approved_hash.
     rbind (on_host (on_store (claim_invitation_index store tenant_id invitee_hash token_hash ttl_secs approved_hash))) (\<lambda>claimed.
       if claimed then ret approved_hash
       else claim_attempts n E store inviter_role tenant_id invitee_hash token_hash ttl_secs))"

definition claim_invitation_slot ::
    "('r, 'w) AuthEngine \<Rightarrow> 'r RedisStores \<Rightarrow> string \<Rightarrow> string \<Rightarrow> string \<Rightarrow> string \<Rightarrow> nat \<Rightarrow> ('r, 'w, string option) flow_io" where
  "claim_invitation_slot E store inviter_role tenant_id invitee_hash token_hash ttl_secs =
     claim_attempts SUPERSEDE_ATTEMPTS E store inviter_role tenant_id invitee_hash token_hash ttl_secs"

definition confirm_invitation_claim ::
    "'r RedisStores \<Rightarrow> string \<Rightarrow> string \<Rightarrow> string \<Rightarrow> nat \<Rightarrow> ('r, 'w, unit) flow_io" where
  "confirm_invitation_claim store tenant_id invitee_hash token_hash ttl_secs =
     rbind (attempt (on_host (on_store (claim_invitation_index store tenant_id invitee_hash token_hash ttl_secs
              (Some token_hash))))) (\<lambda>confirmed.
       if confirmed = Inr True then ret ()
       else
         let outcome = (case confirmed of Inr _ \<Rightarrow> AuthError.InsufficientRole | Inl error \<Rightarrow> error) in
         rbind (attempt (on_host (on_store (delete_invitation_by_hash store token_hash)))) (\<lambda>_. raise outcome))"

section \<open>Inviting\<close>

definition INVITE_TOKEN_BYTES :: nat where
  "INVITE_TOKEN_BYTES = 32"

definition invitation_token_hash :: "('r, 'w) AuthEngine \<Rightarrow> string \<Rightarrow> string" where
  "invitation_token_hash E token = to_hex (sha E (as_bytes token))"

definition invitation_store_missing :: AuthError where
  "invitation_store_missing = internal_error ''invitation store not configured''"

text \<open>The last instant of the year 9999, the largest an \<open>OffsetDateTime\<close> holds, in nanoseconds.\<close>

definition max_instant :: int where
  "max_instant = 253402300799999999999"

definition invitation_expiry :: "int \<Rightarrow> nat \<Rightarrow> int" where
  "invitation_expiry now ttl =
     (let at = now + min i64_max (int ttl) * 10 ^ 9 in if at \<le> max_instant then at else 0)"

definition authorize_inviter ::
    "('r, 'w) AuthEngine \<Rightarrow> string \<Rightarrow> string \<Rightarrow> string \<Rightarrow> ('r, 'w, AuthUser) flow_io" where
  "authorize_inviter E inviter_user_id role tenant_id =
     (if \<not> declared_role E role then raise AuthError.InsufficientRole
      else
        rbind (repository (ur_find_by_id (en_user_repository E) inviter_user_id (Some tenant_id))) (\<lambda>found.
          case found of
            None \<Rightarrow> raise AuthError.TokenInvalid
          | Some inviter \<Rightarrow>
              if au_tenant_id inviter \<noteq> tenant_id then raise AuthError.InsufficientRole
              else if \<not> has_role (au_role inviter) role (engine_hierarchy E) then raise AuthError.InsufficientRole
              else ret inviter))"

text \<open>The index is claimed, the record it displaces is deleted, the new record is written and confirmed.\<close>

definition place_invitation ::
    "('r, 'w) AuthEngine \<Rightarrow> 'r RedisStores \<Rightarrow> AuthUser \<Rightarrow> string \<Rightarrow> StoredInvitation \<Rightarrow> nat \<Rightarrow> ('r, 'w, unit) flow_io" where
  "place_invitation E store inviter raw invitation ttl =
     (let tenant_id = si_tenant_id invitation; invitee_hash = invitee_identifier E (si_email invitation);
          new_hash = invitation_token_hash E raw
      in rbind (claim_invitation_slot E store (au_role inviter) tenant_id invitee_hash new_hash ttl) (\<lambda>superseded.
         rbind (case superseded of
                  Some previous \<Rightarrow> rbind (on_host (on_store (delete_invitation_by_hash store previous))) (\<lambda>_. ret ())
                | None \<Rightarrow> ret ()) (\<lambda>_.
         rbind (on_host (on_store (put_invitation (sha E) (el_invitation (en_libs E)) store raw invitation ttl))) (\<lambda>_.
           confirm_invitation_claim store tenant_id invitee_hash new_hash ttl))))"

definition invite ::
    "('r, 'w) AuthEngine \<Rightarrow> string \<Rightarrow> string \<Rightarrow> string \<Rightarrow> string \<Rightarrow> string option \<Rightarrow> ('r, 'w, unit) flow_io" where
  "invite E inviter_user_id raw_email role tenant_id tenant_name =
     (let email = engine_normalize_email E raw_email in
      rbind (authorize_inviter E inviter_user_id role tenant_id) (\<lambda>inviter.
        case en_invitation_store E of
          None \<Rightarrow> raise invitation_store_missing
        | Some store \<Rightarrow>
            let ttl = as_secs (ac_invitation_token_ttl (cfg E)) in
            rbind (draw_token INVITE_TOKEN_BYTES) (\<lambda>raw.
            rbind (on_host now_offset) (\<lambda>created_at.
            rbind (place_invitation E store inviter raw
                     \<lparr>si_email = email, si_role = role, si_tenant_id = tenant_id, si_inviter_user_id = inviter_user_id,
                      si_created_at = created_at\<rparr> ttl) (\<lambda>_.
            rbind (on_host now_offset) (\<lambda>now.
            rbind (attempt (on_app (em_send_invitation (en_email_provider E) tenant_id email
                     \<lparr>iv_inviter_name = au_name inviter, iv_tenant_name = the_default tenant_id tenant_name,
                      iv_invite_token = raw, iv_expires_at = invitation_expiry now ttl\<rparr> None))) (\<lambda>_.
              ret ())))))))"

section \<open>Accepting and revoking\<close>

definition inviter_still_authorised :: "('r, 'w) AuthEngine \<Rightarrow> StoredInvitation \<Rightarrow> AuthUser option \<Rightarrow> bool" where
  "inviter_still_authorised E invitation found \<longleftrightarrow>
     (case found of
        None \<Rightarrow> False
      | Some inviter \<Rightarrow>
          assert_user_not_blocked E (au_status inviter) = Inr () \<and> au_tenant_id inviter = si_tenant_id invitation \<and>
          has_role (au_role inviter) (si_role invitation) (engine_hierarchy E))"

definition assert_inviter_still_authorised :: "('r, 'w) AuthEngine \<Rightarrow> StoredInvitation \<Rightarrow> ('r, 'w, unit) flow_io" where
  "assert_inviter_still_authorised E invitation =
     rbind (repository (ur_find_by_id (en_user_repository E) (si_inviter_user_id invitation) (Some (si_tenant_id invitation)))) (\<lambda>found.
       if inviter_still_authorised E invitation found then ret () else raise AuthError.InvalidInvitationToken)"

definition invitation_well_formed :: "('r, 'w) AuthEngine \<Rightarrow> StoredInvitation \<Rightarrow> bool" where
  "invitation_well_formed E invitation \<longleftrightarrow>
     si_email invitation \<noteq> [] \<and> si_tenant_id invitation \<noteq> [] \<and> declared_role E (si_role invitation)"

record AcceptInvitationInput =
  ai_token :: string
  ai_name :: string
  ai_password :: string

definition invited_account :: "StoredInvitation \<Rightarrow> string \<Rightarrow> string \<Rightarrow> CreateUserData" where
  "invited_account invitation name password_hash =
     \<lparr>cu_email = si_email invitation, cu_name = name, cu_password_hash = Some password_hash,
      cu_role = Some (si_role invitation), cu_status = None, cu_tenant_id = si_tenant_id invitation,
      cu_email_verified = Some True\<rparr>"

text \<open>The record is spent, judged, and its index entry dropped before an account is made of it.\<close>

definition redeem_invitation :: "('r, 'w) AuthEngine \<Rightarrow> 'r RedisStores \<Rightarrow> string \<Rightarrow> ('r, 'w, StoredInvitation) flow_io" where
  "redeem_invitation E store token =
     rbind (on_host (on_store (consume_invitation (sha E) (el_invitation (en_libs E)) store token))) (\<lambda>consumed.
       case consumed of
         None \<Rightarrow> raise AuthError.InvalidInvitationToken
       | Some invitation \<Rightarrow>
           if \<not> invitation_well_formed E invitation then raise AuthError.InvalidInvitationToken
           else
             rbind (on_host (on_store (take_invitation_index store (si_tenant_id invitation)
                      (invitee_identifier E (si_email invitation))))) (\<lambda>_.
             rbind (assert_inviter_still_authorised E invitation) (\<lambda>_. ret invitation)))"

definition accept_invitation ::
    "('r, 'w) AuthEngine \<Rightarrow> AcceptInvitationInput \<Rightarrow> string \<Rightarrow> string \<Rightarrow> (string \<times> string) list \<Rightarrow> ('r, 'w, AuthResult) flow_io" where
  "accept_invitation E input ip user_agent headers =
     (case en_invitation_store E of
        None \<Rightarrow> raise AuthError.InvalidInvitationToken
      | Some store \<Rightarrow>
          rbind (assert_acceptable (en_passwords E) (ai_password input) ''password'') (\<lambda>_.
          rbind (redeem_invitation E store (ai_token input)) (\<lambda>invitation.
          rbind (repository (ur_find_by_email (en_user_repository E) (si_email invitation) (si_tenant_id invitation))) (\<lambda>existing.
            if existing \<noteq> None then raise AuthError.EmailAlreadyExists
            else
              rbind (hash_password (en_passwords E) (ai_password input)) (\<lambda>password_hash.
              rbind (repository (ur_create (en_user_repository E) (invited_account invitation (ai_name input) password_hash))) (\<lambda>user.
                let safe = safe_user user;
                    ctx = \<lparr>rx_ip = ip, rx_user_agent = user_agent, rx_sanitized_headers = headers\<rparr>;
                    hook_ctx = from_request HookPlane_Dashboard ctx (Some (su_id safe)) (Some (su_email safe)) (Some (su_tenant_id safe))
                in rbind (on_host (issue_tokens (en_tokens E) safe ip user_agent False Proved)) (\<lambda>result.
                   rbind (enforce_sessions_after_issue E result ip user_agent hook_ctx) (\<lambda>_.
                   rbind (on_host (spawn_guarded (AfterInvitationAccepted safe hook_ctx))) (\<lambda>_.
                     ret result)))))))))"

definition revoke_invitation :: "('r, 'w) AuthEngine \<Rightarrow> string \<Rightarrow> string \<Rightarrow> string \<Rightarrow> ('r, 'w, bool) flow_io" where
  "revoke_invitation E revoker_user_id raw_email tenant_id =
     (let invitee_hash = invitee_identifier E (engine_normalize_email E raw_email) in
      case en_invitation_store E of
        None \<Rightarrow> raise invitation_store_missing
      | Some store \<Rightarrow>
          rbind (repository (ur_find_by_id (en_user_repository E) revoker_user_id (Some tenant_id))) (\<lambda>found.
            case found of
              None \<Rightarrow> raise AuthError.TokenInvalid
            | Some revoker \<Rightarrow>
                if au_tenant_id revoker \<noteq> tenant_id then raise AuthError.InsufficientRole
                else
                  rbind (lift_result (assert_user_not_blocked E (au_status revoker))) (\<lambda>_.
                  rbind (on_host (on_store (read_invitation_index store tenant_id invitee_hash))) (\<lambda>indexed.
                    case indexed of
                      None \<Rightarrow> ret False
                    | Some token_hash \<Rightarrow>
                        rbind (on_host (on_store (read_invitation_by_hash (el_invitation (en_libs E)) store token_hash))) (\<lambda>pending.
                          if (case pending of
                                Some invitation \<Rightarrow> \<not> has_role (au_role revoker) (si_role invitation) (engine_hierarchy E)
                              | None \<Rightarrow> False)
                          then ret False
                          else
                            rbind (on_host (on_store (take_invitation_index store tenant_id invitee_hash))) (\<lambda>_.
                              on_host (on_store (delete_invitation_by_hash store token_hash))))))))"

end
