(* ===== verification/Token_Epoch.thy ===== *)
theory Token_Epoch
  imports Token_Manager
begin

text \<open>
  The account state an access token is judged against: the generation counter of the account and the
  blacklist of token identifiers. The generation is read off the key space by \<open>epoch_is\<close>; the lemmas
  say what the store methods answer and leave behind in those terms, and what the host passes through.
\<close>

section \<open>The store from a host\<close>

lemma on_store_Inr:
  "on_store m h = (Inr a, h') \<longleftrightarrow>
     (\<exists>c. m (store_client h) = (Inr a, c) \<and> h' = h\<lparr>store_client := c\<rparr>)"
  by (auto simp: on_store_def split: prod.splits)

lemma on_store_eq:
  "m (store_client h) = (x, c) \<Longrightarrow> on_store m h = (x, h\<lparr>store_client := c\<rparr>)"
  by (simp add: on_store_def)

lemma on_store_same:
  "m (store_client h) = (x, store_client h) \<Longrightarrow> on_store m h = (x, h)"
  by (cases h) (simp add: on_store_def)

lemma generate_refresh_Inr:
  "generate_refresh h = (Inr r, h') \<longleftrightarrow>
     r = to_hex (map (entropy h) [0..<32]) \<and> h' = h\<lparr>entropy := (\<lambda>i. entropy h (32 + i))\<rparr>"
  by (auto simp: generate_refresh_run)

lemma new_uuid_v4_Inr:
  "new_uuid_v4 h = (Inr u, h') \<longleftrightarrow>
     u = uuid_of_bytes (map (entropy h) [0..<16]) \<and> h' = h\<lparr>entropy := (\<lambda>i. entropy h (16 + i))\<rparr>"
  by (auto simp: new_uuid_v4_def rbind_def random_bytes_def)

lemma now_offset_Inr:
  "now_offset h = (Inr t, h') \<longleftrightarrow> t = clock h 0 \<and> h' = h\<lparr>clock := (\<lambda>i. clock h (Suc i))\<rparr>"
  by (auto simp: now_offset_def read_clock_def)

lemma now_unix_Inr:
  "now_unix h = (Inr t, h') \<longleftrightarrow>
     t = unix_timestamp (clock h 0) \<and> h' = h\<lparr>clock := (\<lambda>i. clock h (Suc i))\<rparr>"
  by (auto simp: now_unix_def rbind_def now_offset_def read_clock_def)

lemmas host_Inr = on_store_Inr generate_refresh_Inr new_uuid_v4_Inr now_offset_Inr now_unix_Inr

section \<open>The generation of an account\<close>

definition epoch_is :: "string \<Rightarrow> SessionKind \<Rightarrow> string \<Rightarrow> rview \<Rightarrow> nat \<Rightarrow> bool" where
  "epoch_is ns kind subject v n \<longleftrightarrow>
     (let k = key ns (epoch_prefix kind) subject
      in if v k = None then n = 0 else str_at v k = Some (show_nat n) \<and> n < 2 ^ 63)"

definition listed :: "string \<Rightarrow> string \<Rightarrow> rview \<Rightarrow> bool" where
  "listed ns jti v \<longleftrightarrow> v (key ns Rv jti) \<noteq> None"

lemma parse_u64_show_nat: "n < 2 ^ 64 \<Longrightarrow> parse_u64 (show_nat n) = Some n"
proof -
  assume n: "n < 2 ^ 64"
  have "show_nat n \<noteq> CHR ''+'' # t" for t
  proof
    assume "show_nat n = CHR ''+'' # t"
    with parse_digits_show_nat [of n] show False by (simp add: char_digit_def)
  qed
  then have "(case show_nat n of CHR ''+'' # t \<Rightarrow> t | _ \<Rightarrow> show_nat n) = show_nat n"
    by (auto split: list.splits char.splits bool.splits)
  with n show ?thesis by (simp add: parse_u64_def)
qed

context redis_service
begin

lemma epoch_reply:
  assumes "epoch_is ns kind subject (view r) n"
  shows "r_get R (key ns (epoch_prefix kind) subject) r = None \<and> n = 0 \<or>
    r_get R (key ns (epoch_prefix kind) subject) r = Some (show_nat n) \<and> parse_u64 (show_nat n) = Some n"
proof (cases "view r (key ns (epoch_prefix kind) subject)")
  case None
  with assms show ?thesis by (simp add: epoch_is_def get type_defs str_at_def)
next
  case (Some e)
  with assms have str: "str_at (view r) (key ns (epoch_prefix kind) subject) = Some (show_nat n)" and "n < 2 ^ 63"
    by (simp_all add: epoch_is_def Let_def)
  then have "n < 2 ^ 64" by simp
  moreover from str have "str_or_absent (view r) (key ns (epoch_prefix kind) subject)"
    by (auto simp: str_or_absent_def str_at_def split: option.splits rvalue.splits)
  ultimately show ?thesis using str by (simp add: get parse_u64_show_nat)
qed

end

context store_service
begin

lemma current_epoch_Inr:
  assumes "current_epoch S kind subject c = (Inr m, c')" and "epoch_is (rs_namespace S) kind subject (view (server c)) n"
  shows "m = n \<and> server c' = server c"
proof -
  from assms(1) obtain c1 raw c2 where "connection c = (Inr (), c1)"
    and "query (\<lambda>r. (r_get (rs_redis S) (key (rs_namespace S) (epoch_prefix kind) subject) r, r)) c1 = (Inr raw, c2)"
    and rest: "rbind (read_u64 raw) (\<lambda>value. ret (case value of None \<Rightarrow> 0 | Some n \<Rightarrow> n)) c2 = (Inr m, c')"
    by (auto simp: current_epoch_def current_epoch_inner_def map_err_eq_Inr rbind_eq_Inr)
  then have "raw = r_get (rs_redis S) (key (rs_namespace S) (epoch_prefix kind) subject) (server c)"
    and same: "server c2 = server c"
    using connection_Inr query_Inr by fastforce+
  with epoch_reply [OF assms(2)] rest show ?thesis
    by (auto simp: read_u64_def rbind_eq_Inr)
qed

lemma current_epoch_run:
  assumes "net c = []" and "epoch_is (rs_namespace S) kind subject (view (server c)) n"
  shows "current_epoch S kind subject c = (Inr n, c)"
  using epoch_reply [OF assms(2)] assms(1)
  by (auto simp: current_epoch_def current_epoch_inner_def run_simps read_u64_def)

lemma bump_epoch_Inr:
  assumes "bump_epoch S kind subject c = (Inr m, c')" and "epoch_is (rs_namespace S) kind subject (view (server c)) n"
    and "n + 1 < 2 ^ 63"
  shows "m = n + 1 \<and> epoch_is (rs_namespace S) kind subject (view (server c')) (n + 1)"
proof -
  let ?k = "key (rs_namespace S) (epoch_prefix kind) subject"
  let ?f = "\<lambda>r. case r_incr (rs_redis S) ?k r of
      (new_value, r1) \<Rightarrow> (new_value, r_expire (rs_redis S) ?k token_epoch_retention_secs r1)"
  from assms(1) have "rbind connection (\<lambda>_. query ?f) c = (Inr m, c')"
    by (simp add: bump_epoch_def bump_epoch_inner_def map_err_eq_Inr Let_def)
  from round_trip(2) [OF this HOL.refl]
  have m: "m = fst (r_incr (rs_redis S) ?k (server c))"
    and c': "server c' = r_expire (rs_redis S) ?k token_epoch_retention_secs (snd (r_incr (rs_redis S) ?k (server c)))"
    by (simp_all split: prod.splits)
  have ttl: "ttl_ok token_epoch_retention_secs" by (simp add: ttl_ok_def token_epoch_retention_secs_def)
  show ?thesis
  proof (cases "view (server c) ?k = None")
    case True
    with assms(2) have "n = 0" by (simp add: epoch_is_def)
    with True show ?thesis
      by (simp add: m c' epoch_is_def expire [OF ttl] incr_absent incr_absent_value view_obs)
  next
    case False
    with assms(2) have "str_at (view (server c)) ?k = Some (show_nat n)" by (simp add: epoch_is_def Let_def)
    with assms(3) show ?thesis
      by (simp add: m c' epoch_is_def expire [OF ttl] incr incr_value view_obs)
  qed
qed

lemma is_blacklisted_Inr:
  assumes "is_blacklisted S jti c = (Inr b, c')"
  shows "b \<longleftrightarrow> listed (rs_namespace S) jti (view (server c))" and "server c' = server c"
  using assms round_trip(2) [of "\<lambda>r. (r_exists (rs_redis S) (key (rs_namespace S) Rv jti) r, r)" c "Inr b" c' b]
  by (auto simp: is_blacklisted_def is_blacklisted_inner_def map_err_eq_Inr listed_def exists)

lemma is_blacklisted_run:
  assumes "net c = []"
  shows "is_blacklisted S jti c = (Inr (listed (rs_namespace S) jti (view (server c))), c)"
  using assms by (simp add: is_blacklisted_def is_blacklisted_inner_def run_simps listed_def exists client_same)

lemma blacklist_access_Inr:
  assumes "blacklist_access S jti t c = (Inr u, c')" and "ttl_ok t"
  shows "listed (rs_namespace S) jti (view (server c'))"
  using assms
    round_trip(2) [of "\<lambda>r. ((), r_set_ex (rs_redis S) (key (rs_namespace S) Rv jti) ''1'' t r)" c "Inr u" c' u]
  by (auto simp: blacklist_access_def blacklist_access_inner_def map_err_eq_Inr listed_def set_ex v_set_ex_def
      ttl_ok_def split: if_splits)

end

end
