(* ===== verification/Token_Properties.thy ===== *)
theory Token_Properties
  imports Token_Epoch
begin

text \<open>
  What the token manager promises, proved in the locale \<open>token_service\<close> for every store, digest, JWS
  library and JSON codec that meets its contract. The witnesses run the manager on the in-process
  server with the concrete codecs of this theory.
\<close>

section \<open>The contract the manager relies on\<close>

locale token_service = store_service "tm_session_store M" view + jws_service "lib_jws (tm_libs M)"
  for M :: "'r TokenManagerService" and view :: "'r \<Rightarrow> rview" +
  assumes dashboard_json: "json_round_trip (lib_dashboard (tm_libs M))"
    and platform_json: "json_round_trip (lib_platform (tm_libs M))"
    and mfa_json: "json_round_trip (lib_mfa (tm_libs M))"

section \<open>What a computation leaves of the host\<close>

text \<open>Reading the clock drops the reading from the sequence.\<close>

definition clock_closed :: "('r host \<Rightarrow> bool) \<Rightarrow> bool" where
  "clock_closed P \<longleftrightarrow> (\<forall>h. P h \<longrightarrow> P (h\<lparr>clock := (\<lambda>i. clock h (Suc i))\<rparr>))"

lemma preserves_resolve_now [preserve]:
  assumes "clock_closed P"
  shows "preserves P (resolve_now read_clock opts)"
proof (rule preservesI)
  fix s x s' assume "P s" and run: "resolve_now read_clock opts s = (x, s')"
  from run have "s' = s \<or> s' = s\<lparr>clock := (\<lambda>i. clock s (Suc i))\<rparr>"
    by (auto simp: resolve_now_def system_now_unix_def read_clock_def split: option.splits)
  with \<open>P s\<close> assms show "P s'" unfolding clock_closed_def by metis
qed

lemma preserves_verify [preserve]:
  assumes "clock_closed P"
  shows "preserves P (verify L J K read_clock token k opts)"
  unfolding verify_def validate_temporal_def
  by (intro preserve assms)

text \<open>Later on the same host: nothing changed but the readings that were used up.\<close>

definition later :: "'r host \<Rightarrow> 'r host \<Rightarrow> bool" where
  "later h g \<longleftrightarrow> (\<exists>n. g = h\<lparr>clock := (\<lambda>i. clock h (n + i))\<rparr>)"

lemma later_refl [simp]: "later h h"
  unfolding later_def by (rule exI [of _ 0]) simp

lemma later_tick: "later h g \<Longrightarrow> later h (g\<lparr>clock := (\<lambda>i. clock g (Suc i))\<rparr>)"
  unfolding later_def by (elim exE, rule_tac x = "Suc n" in exI) simp

lemma later_store: "later h g \<Longrightarrow> store_client g = store_client h"
  by (auto simp: later_def)

lemma later_reading: "later h g \<Longrightarrow> \<exists>n. clock g 0 = clock h n"
  by (auto simp: later_def)

lemma verify_later:
  assumes "verify L J K read_clock token k opts g = (x, g')" and "later h g"
  shows "later h g'"
proof -
  have "preserves (later h) (verify L J K read_clock token k opts)"
    by (rule preserves_verify) (simp add: clock_closed_def later_tick)
  from preservesD [OF this assms(2,1)] show ?thesis .
qed

section \<open>Retired keys\<close>

lemma verify_previous_later:
  "later h g \<Longrightarrow> verify_previous L J K token opts ks current g = (x, g') \<Longrightarrow>
     later h g' \<and> (case x of
       Inl e \<Rightarrow> e = current
     | Inr claims \<Rightarrow> \<exists>k \<in> set ks. \<exists>a b. later h a \<and> verify L J K read_clock token k opts a = (Inr claims, b))"
proof (induction ks arbitrary: g)
  case (Cons k ks)
  obtain y g1 where v: "verify L J K read_clock token k opts g = (y, g1)" by fastforce
  from verify_later [OF v Cons.prems(1)] have g1: "later h g1" .
  show ?case
  proof (cases y)
    case (Inl e)
    with v Cons.prems(2) have "verify_previous L J K token opts ks current g1 = (x, g')" by simp
    from Cons.IH [OF g1 this] show ?thesis by (cases x) auto
  next
    case (Inr claims)
    with v Cons.prems(2) have "x = Inr claims" "g' = g1" by simp_all
    with v Inr Cons.prems(1) g1 show ?thesis by simp blast
  qed
qed auto

definition bound_options :: "'r TokenManagerService \<Rightarrow> VerifyOptions \<Rightarrow> VerifyOptions" where
  "bound_options M opts =
     opts\<lparr>expected_iss := tb_issuer (tm_binding M), expected_aud := tb_audience (tm_binding M)\<rparr>"

lemma verify_rotating_with_later:
  assumes "verify_rotating_with M J K token opts h = (x, h')"
  shows "later h h' \<and> (case x of
      Inl e \<Rightarrow> fst (verify (lib_jws (tm_libs M)) J K read_clock token (tm_key M) (bound_options M opts) h) = Inl e
    | Inr claims \<Rightarrow> \<exists>k \<in> set (tm_key M # tm_previous_keys M). \<exists>a b. later h a \<and>
        verify (lib_jws (tm_libs M)) J K read_clock token k (bound_options M opts) a = (Inr claims, b))"
proof -
  let ?v = "verify (lib_jws (tm_libs M)) J K read_clock token (tm_key M) (bound_options M opts)"
  obtain y g where v: "?v h = (y, g)" by fastforce
  from verify_later [OF v later_refl] have g: "later h g" .
  show ?thesis
  proof (cases y)
    case (Inl e)
    with assms v have "verify_previous (lib_jws (tm_libs M)) J K token (bound_options M opts) (tm_previous_keys M) e g = (x, h')"
      by (simp add: verify_rotating_with_def bound_options_def)
    from verify_previous_later [OF g this] v Inl show ?thesis by (cases x) auto
  next
    case (Inr claims)
    with assms v have "x = Inr claims" "h' = g" by (simp_all add: verify_rotating_with_def bound_options_def)
    with v Inr g show ?thesis by (simp, blast intro: later_refl)
  qed
qed

text \<open>The current key is tried first: what it accepts is the answer.\<close>

lemma verify_rotating_current:
  "verify (lib_jws (tm_libs M)) J K read_clock token (tm_key M) (bound_options M opts) h = (Inr claims, h') \<Longrightarrow>
     verify_rotating_with M J K token opts h = (Inr claims, h')"
  by (simp add: verify_rotating_with_def bound_options_def)

section \<open>Verifying an access token\<close>

abbreviation store_view :: "('r \<Rightarrow> rview) \<Rightarrow> 'r host \<Rightarrow> rview" where
  "store_view view h \<equiv> view (server (store_client h))"

abbreviation tm_namespace :: "'r TokenManagerService \<Rightarrow> string" where
  "tm_namespace M \<equiv> rs_namespace (tm_session_store M)"

definition account :: "'r TokenManagerService \<Rightarrow> string \<Rightarrow> string \<Rightarrow> string" where
  "account M tenant user = subject_hash M Dashboard (Some tenant) user"

lemma issue_access_Inr:
  "issue_access M claims h = (Inr token, h') \<longleftrightarrow>
     sign (lib_jws (tm_libs M)) (lib_dashboard (tm_libs M)) (stamp_dashboard M claims) (tm_key M) = Inr token \<and> h' = h"
  by (auto simp: issue_access_def map_err_eq_Inr)

context token_service
begin

lemma verify_access_Inr:
  assumes "verify_access M token h = (Inr claims, h')"
    and "epoch_is (tm_namespace M) Dashboard (account M (dc_tenant_id claims) (dc_sub claims)) (store_view view h) n"
  shows "\<not> listed (tm_namespace M) (dc_jti claims) (store_view view h)" and "n \<le> dc_epoch claims"
    and "\<exists>k \<in> set (tm_key M # tm_previous_keys M). \<exists>a b. later h a \<and>
      verify (lib_jws (tm_libs M)) (lib_dashboard (tm_libs M)) dashboard_jwt_claims read_clock token k
        (bound_options M default_options) a = (Inr claims, b)"
proof -
  from assms(1) obtain claims' h1 b h2 m h3 where
    v: "verify_rotating_with M (lib_dashboard (tm_libs M)) dashboard_jwt_claims token default_options h = (Inr claims', h1)"
    and bl: "on_store (is_blacklisted (tm_session_store M) (dc_jti claims')) h1 = (Inr b, h2)" and "\<not> b"
    and ep: "on_store (current_epoch (tm_session_store M) Dashboard
               (account M (dc_tenant_id claims') (dc_sub claims'))) h2 = (Inr m, h3)"
    and "\<not> dc_epoch claims' < m" and "claims' = claims"
    by (auto simp: verify_access_def verify_rotating_def account_def rbind_eq_Inr map_err_eq_Inr split: if_splits)
  note same = \<open>claims' = claims\<close>
  have later: "later h h1" and
    key: "\<exists>k \<in> set (tm_key M # tm_previous_keys M). \<exists>a b. later h a \<and>
      verify (lib_jws (tm_libs M)) (lib_dashboard (tm_libs M)) dashboard_jwt_claims read_clock token k
        (bound_options M default_options) a = (Inr claims, b)"
    using verify_rotating_with_later [OF v] same by simp_all
  from key show "\<exists>k \<in> set (tm_key M # tm_previous_keys M). \<exists>a b. later h a \<and>
      verify (lib_jws (tm_libs M)) (lib_dashboard (tm_libs M)) dashboard_jwt_claims read_clock token k
        (bound_options M default_options) a = (Inr claims, b)" .
  from bl obtain c2 where c2: "is_blacklisted (tm_session_store M) (dc_jti claims') (store_client h1) = (Inr b, c2)"
    and h2: "h2 = h1\<lparr>store_client := c2\<rparr>" by (auto simp: on_store_Inr)
  from ep h2 obtain c3 where c3: "current_epoch (tm_session_store M) Dashboard
      (account M (dc_tenant_id claims') (dc_sub claims')) c2 = (Inr m, c3)" by (auto simp: on_store_Inr)
  note b = is_blacklisted_Inr [OF c2]
  from b(1) \<open>\<not> b\<close> same later show "\<not> listed (tm_namespace M) (dc_jti claims) (store_view view h)"
    by (simp add: later_store)
  have "epoch_is (tm_namespace M) Dashboard (account M (dc_tenant_id claims') (dc_sub claims')) (view (server c2)) n"
    using assms(2) b(2) same later by (simp add: later_store)
  with current_epoch_Inr [OF c3] \<open>\<not> dc_epoch claims' < m\<close> same show "n \<le> dc_epoch claims" by auto
qed

lemma verify_access_run:
  assumes sign: "sign (lib_jws (tm_libs M)) (lib_dashboard (tm_libs M)) (stamp_dashboard M claims) (tm_key M) = Inr token"
    and net: "net (store_client h) = []"
    and epoch: "epoch_is (tm_namespace M) Dashboard (account M (dc_tenant_id claims) (dc_sub claims)) (store_view view h) n"
    and iat: "dc_iat claims \<le> now_of default_options (clock h 0)"
    and exp: "now_of default_options (clock h 0) < dc_exp claims"
    and exp_max: "dc_exp claims \<le> i64_max"
  shows "fst (verify_access M token h) =
    (if listed (tm_namespace M) (dc_jti claims) (store_view view h) \<or> dc_epoch claims < n
     then Inl AuthError.TokenRevoked else Inr (stamp_dashboard M claims))"
proof -
  let ?v = "verify (lib_jws (tm_libs M)) (lib_dashboard (tm_libs M)) dashboard_jwt_claims read_clock token
    (tm_key M) (bound_options M default_options)"
  let ?c = "stamp_dashboard M claims"
  obtain x h1 where v: "?v h = (x, h1)" by fastforce
  have "fst (?v h) = verdict dashboard_jwt_claims (bound_options M default_options)
      (now_of (bound_options M default_options) (clock h 0)) ?c"
    unfolding verify_signed [OF dashboard_json sign] validate_verdict by (simp add: read_clock_def)
  also have "\<dots> = Inr ?c"
    using iat exp exp_max
    by (auto simp: verdict_def Let_def bound_options_def default_options_def now_of_def stamp_dashboard_def
        dashboard_jwt_claims_def saturating_add_def i64_max_def)
  finally have x: "x = Inr ?c" using v by simp
  with v have run: "verify_rotating_with M (lib_dashboard (tm_libs M)) dashboard_jwt_claims token default_options h = (Inr ?c, h1)"
    by (simp add: verify_rotating_current)
  have same: "store_client h1 = store_client h"
    using verify_later [OF v later_refl] by (simp add: later_store)
  have fields: "dc_jti ?c = dc_jti claims" "dc_tenant_id ?c = dc_tenant_id claims" "dc_sub ?c = dc_sub claims"
    "dc_epoch ?c = dc_epoch claims" by (simp_all add: stamp_dashboard_def)
  have bl: "on_store (is_blacklisted (tm_session_store M) (dc_jti claims)) h1 =
      (Inr (listed (tm_namespace M) (dc_jti claims) (store_view view h)), h1)"
    by (rule on_store_same) (use net same in \<open>simp add: is_blacklisted_run\<close>)
  have ep: "on_store (current_epoch (tm_session_store M) Dashboard (account M (dc_tenant_id claims) (dc_sub claims))) h1 =
      (Inr n, h1)"
    by (rule on_store_same) (use net same epoch in \<open>simp add: current_epoch_run\<close>)
  show ?thesis
    using run bl ep
    by (simp add: verify_access_def verify_rotating_def rbind_def map_err_def fields account_def [symmetric])
qed

end

section \<open>Issuing\<close>

lemma issue_tokens_Inr:
  assumes "issue_tokens M user ip user_agent mfa_verified proof h = (Inr res, h')"
  obtains epoch c1 jti family claims rec c2 token refresh where
    "claims = \<lparr>dc_sub = su_id user, dc_jti = jti, dc_tenant_id = su_tenant_id user, dc_role = su_role user,
      dc_token_type = DashboardType_Dashboard, dc_status = su_status user, dc_mfa_enabled = su_mfa_enabled user,
      dc_mfa_verified = mfa_verified, dc_iat = unix_timestamp (clock h 0),
      dc_exp = access_exp M (unix_timestamp (clock h 0)), dc_epoch = epoch, dc_iss = None, dc_aud = None\<rparr>"
    and "rec = \<lparr>sr_user_id = su_id user, sr_tenant_id = Some (su_tenant_id user), sr_role = su_role user,
      sr_device = fst (normalize_session_metadata user_agent ip), sr_ip = snd (normalize_session_metadata user_agent ip),
      sr_created_at = clock h (Suc 0), sr_mfa_enabled = su_mfa_enabled user, sr_mfa_verified = mfa_verified,
      sr_family_id = family, sr_family_created_at = Some (clock h (Suc (Suc 0)))\<rparr>"
    and "current_epoch (tm_session_store M) Dashboard (account M (su_tenant_id user) (su_id user)) (store_client h) = (Inr epoch, c1)"
    and "sign (lib_jws (tm_libs M)) (lib_dashboard (tm_libs M)) (stamp_dashboard M claims) (tm_key M) = Inr token"
    and "create_session (tm_session_store M) Dashboard (account M (su_tenant_id user) (su_id user))
      (redis_hash (lib_sha256 (tm_libs M)) refresh) rec (tm_refresh_ttl_secs M) c1 = (Inr (), c2)"
    and "res = \<lparr>ar_user = user, ar_access_token = token, ar_refresh_token = refresh\<rparr>"
    and "if proof = Proved
      then mark_recent_auth (tm_session_store M) (account M (su_tenant_id user) (su_id user)) RECENT_AUTH_TTL_SECS c2 =
             (Inr (), store_client h')
      else store_client h' = c2"
proof -
  note run = assms [unfolded issue_tokens_def Let_def rbind_eq_Inr host_Inr issue_access_Inr case_prod_unfold,
      folded account_def]
  note fin = that [OF HOL.refl HOL.refl]
  from run show thesis
    by (elim exE conjE) (clarsimp split: if_splits simp: on_store_Inr, (rule fin, assumption+, simp)+)
qed

definition json_total :: "'c json_codec \<Rightarrow> bool" where
  "json_total J \<longleftrightarrow> (\<forall>c. to_vec J c \<noteq> None)"

lemma issue_access_run:
  "json_total (lib_dashboard (tm_libs M)) \<Longrightarrow> issue_access M claims h =
     (Inr (projr (sign (lib_jws (tm_libs M)) (lib_dashboard (tm_libs M)) (stamp_dashboard M claims) (tm_key M))), h)"
  by (auto simp: issue_access_def map_err_def sign_def json_total_def Let_def split: option.splits)

lemma host_run:
  "now_offset h = (Inr (clock h 0), h\<lparr>clock := (\<lambda>i. clock h (Suc i))\<rparr>)"
  "now_unix h = (Inr (unix_timestamp (clock h 0)), h\<lparr>clock := (\<lambda>i. clock h (Suc i))\<rparr>)"
  "new_uuid_v4 h = (Inr (uuid_of_bytes (map (entropy h) [0..<16])), h\<lparr>entropy := (\<lambda>i. entropy h (16 + i))\<rparr>)"
  by (simp_all add: now_offset_Inr now_unix_Inr new_uuid_v4_Inr)

definition login_view ::
    "'r TokenManagerService \<Rightarrow> SafeAuthUser \<Rightarrow> CredentialProof \<Rightarrow> string \<Rightarrow> SessionRecord \<Rightarrow> string \<Rightarrow> rview \<Rightarrow> rview" where
  "login_view M user proof refresh rec j v =
     (let subject = account M (su_tenant_id user) (su_id user);
          v' = v_create (tm_namespace M) Dashboard subject (redis_hash (lib_sha256 (tm_libs M)) refresh) (sr_family_id rec)
                 j (enc_det (rs_codec (tm_session_store M)) (at_creation rec)) (tm_refresh_ttl_secs M) v
      in if proof = Proved then v_set_ex (key (tm_namespace M) Ra subject) ''1'' RECENT_AUTH_TTL_SECS v' else v')"

context token_service
begin

lemma create_session_run:
  assumes "net c = []" and "enc_rec (rs_codec (tm_session_store M)) rec = Some j"
  shows "create_session (tm_session_store M) kind subject h rec t c =
    (Inr (), c\<lparr>server := create_session_tx (tm_session_store M) kind subject h (sr_family_id rec) j
       (enc_det (rs_codec (tm_session_store M)) (at_creation rec)) t (server c)\<rparr>)"
  using assms by (simp add: create_session_def create_session_inner_def run_simps)

lemma mark_recent_auth_run:
  assumes "net c = []"
  shows "mark_recent_auth (tm_session_store M) subject t c =
    (Inr (), c\<lparr>server := r_set_ex (rs_redis (tm_session_store M)) (key (tm_namespace M) Ra subject) ''1'' t (server c)\<rparr>)"
  using assms by (simp add: mark_recent_auth_def mark_recent_auth_inner_def run_simps)

lemma issue_tokens_run:
  assumes net: "net (store_client h) = []"
    and epoch: "epoch_is (tm_namespace M) Dashboard (account M (su_tenant_id user) (su_id user)) (store_view view h) n"
    and typed: "typed (tm_namespace M) (store_view view h)" and ttl: "ttl_ok (tm_refresh_ttl_secs M)"
    and total: "json_total (lib_dashboard (tm_libs M))" and clock: "\<And>i. i < 3 \<Longrightarrow> instant_ok (clock h i)"
  shows "\<exists>res h' rec j. issue_tokens M user ip user_agent mfa_verified proof h = (Inr res, h') \<and>
    sr_user_id rec = su_id user \<and> sr_tenant_id rec = Some (su_tenant_id user) \<and> sr_role rec = su_role user \<and>
    sr_mfa_enabled rec = su_mfa_enabled user \<and> sr_mfa_verified rec = mfa_verified \<and>
    sr_family_id rec \<noteq> [] \<and> sr_family_created_at rec = Some (clock h 2) \<and>
    enc_rec (rs_codec (tm_session_store M)) rec = Some j \<and> net (store_client h') = [] \<and>
    store_view view h' = login_view M user proof (ar_refresh_token res) rec j (store_view view h)"
proof -
  let ?S = "tm_session_store M" and ?subject = "account M (su_tenant_id user) (su_id user)"
  define refresh where "refresh = to_hex (map (entropy h) [0..<32])"
  define rec where "rec = \<lparr>sr_user_id = su_id user, sr_tenant_id = Some (su_tenant_id user), sr_role = su_role user,
    sr_device = fst (normalize_session_metadata user_agent ip), sr_ip = snd (normalize_session_metadata user_agent ip),
    sr_created_at = clock h (Suc 0), sr_mfa_enabled = su_mfa_enabled user, sr_mfa_verified = mfa_verified,
    sr_family_id = uuid_of_bytes (map (\<lambda>i. entropy h (48 + i)) [0..<16]),
    sr_family_created_at = Some (clock h (Suc (Suc 0)))\<rparr>"
  have "record_ok rec" using clock by (simp add: record_ok_def rec_def)
  then obtain j where j: "enc_rec (rs_codec ?S) rec = Some j" using enc_rec_total by blast
  have ep: "current_epoch ?S Dashboard ?subject (store_client h) = (Inr n, store_client h)"
    using net epoch by (rule current_epoch_run)
  define c2 where "c2 = (store_client h)\<lparr>server := create_session_tx ?S Dashboard ?subject
    (redis_hash (lib_sha256 (tm_libs M)) refresh) (sr_family_id rec) j (enc_det (rs_codec ?S) (at_creation rec))
    (tm_refresh_ttl_secs M) (server (store_client h))\<rparr>"
  have create: "create_session ?S Dashboard ?subject (redis_hash (lib_sha256 (tm_libs M)) refresh) rec
      (tm_refresh_ttl_secs M) (store_client h) = (Inr (), c2)"
    unfolding c2_def by (rule create_session_run [OF net j])
  have "net c2 = []" using net by (simp add: c2_def)
  note mark = mark_recent_auth_run [OF this, of ?subject RECENT_AUTH_TTL_SECS]
  have v2: "view (server c2) = v_create (tm_namespace M) Dashboard ?subject (redis_hash (lib_sha256 (tm_libs M)) refresh)
      (sr_family_id rec) j (enc_det (rs_codec ?S) (at_creation rec)) (tm_refresh_ttl_secs M) (store_view view h)"
    by (simp add: c2_def view_create [OF typed ttl])
  have ra: "ttl_ok RECENT_AUTH_TTL_SECS" by (simp add: ttl_ok_def RECENT_AUTH_TTL_SECS_def)
  have "\<exists>res h'. issue_tokens M user ip user_agent mfa_verified proof h = (Inr res, h') \<and> ar_refresh_token res = refresh \<and>
      net (store_client h') = [] \<and> store_view view h' = login_view M user proof refresh rec j (store_view view h)"
    using ep create mark v2 net \<open>net c2 = []\<close>
    by (simp add: issue_tokens_def Let_def rbind_def generate_refresh_run host_run on_store_def account_def [symmetric]
        issue_access_run [OF total] case_prod_unfold rec_def [symmetric] refresh_def [symmetric] login_view_def set_ex [OF ra])
  moreover have "sr_user_id rec = su_id user" "sr_tenant_id rec = Some (su_tenant_id user)" "sr_role rec = su_role user"
    "sr_mfa_enabled rec = su_mfa_enabled user" "sr_mfa_verified rec = mfa_verified" "sr_family_id rec \<noteq> []"
    "sr_family_created_at rec = Some (clock h 2)"
    by (simp_all add: rec_def uuid_of_bytes_def Let_def numeral_2_eq_2)
  ultimately show ?thesis using j by blast
qed

end

section \<open>Concrete libraries\<close>

definition platform_json_codec :: "PlatformClaims json_codec" where
  "platform_json_codec =
     \<lparr>to_vec = (\<lambda>c. Some (as_bytes (put_fields [pc_sub c, pc_jti c, pc_role c,
        show_bool (pc_mfa_enabled c) @ ''/'' @ show_bool (pc_mfa_verified c),
        show_int (pc_iat c), show_int (pc_exp c), show_nat (pc_epoch c),
        put_fields [show_opt id (pc_iss c), show_opt id (pc_aud c)]]))),
      from_slice = (\<lambda>b. case take_fields 8 (of_bytes b) of
         Some [sub, jti, role, mfa, iat, exp, epoch, bound] \<Rightarrow>
           (case (split_once (CHR ''/'') mfa, parse_int iat, parse_int exp, parse_nat epoch, take_fields 2 bound) of
              (Some (enabled, verified), Some i, Some e, Some ep, Some [iss, aud]) \<Rightarrow>
                (case (parse_opt Some iss, parse_opt Some aud) of
                   (Some is, Some au) \<Rightarrow>
                     Some \<lparr>pc_sub = sub, pc_jti = jti, pc_role = role, pc_token_type = PlatformType_Platform,
                       pc_mfa_enabled = parse_bool enabled, pc_mfa_verified = parse_bool verified,
                       pc_iat = i, pc_exp = e, pc_epoch = ep, pc_iss = is, pc_aud = au\<rparr>
                 | _ \<Rightarrow> None)
            | _ \<Rightarrow> None)
       | _ \<Rightarrow> None)\<rparr>"

definition mfa_json_codec :: "MfaTempClaims json_codec" where
  "mfa_json_codec =
     \<lparr>to_vec = (\<lambda>c. Some (as_bytes (put_fields [mc_sub c, mc_jti c, mfa_context_str (mc_context c),
        show_opt id (mc_tenant_id c), show_nat (mc_epoch c), show_int (mc_iat c), show_int (mc_exp c),
        put_fields [show_opt id (mc_iss c), show_opt id (mc_aud c)]]))),
      from_slice = (\<lambda>b. case take_fields 8 (of_bytes b) of
         Some [sub, jti, ctx, tenant, epoch, iat, exp, bound] \<Rightarrow>
           (case (parse_opt Some tenant, parse_nat epoch, parse_int iat, parse_int exp, take_fields 2 bound) of
              (Some t, Some ep, Some i, Some e, Some [iss, aud]) \<Rightarrow>
                (case (parse_opt Some iss, parse_opt Some aud) of
                   (Some is, Some au) \<Rightarrow>
                     Some \<lparr>mc_sub = sub, mc_jti = jti, mc_token_type = MfaChallenge,
                       mc_context = (if ctx = ''dashboard'' then MfaContext_Dashboard else MfaContext_Platform),
                       mc_tenant_id = t, mc_epoch = ep, mc_iat = i, mc_exp = e, mc_iss = is, mc_aud = au\<rparr>
                 | _ \<Rightarrow> None)
            | _ \<Rightarrow> None)
       | _ \<Rightarrow> None)\<rparr>"

interpretation platform_values: json_round_trip platform_json_codec
proof
  fix claims b assume b: "to_vec platform_json_codec claims = Some b"
  have "pc_token_type claims = PlatformType_Platform" by (cases "pc_token_type claims") simp
  with b show "from_slice platform_json_codec b = Some claims"
    by (auto simp: platform_json_codec_def take_put_fields_8 take_put_fields_2 split_once_append)
qed

interpretation mfa_values: json_round_trip mfa_json_codec
proof
  fix claims b assume b: "to_vec mfa_json_codec claims = Some b"
  have "mc_token_type claims = MfaChallenge" by (cases "mc_token_type claims") simp
  with b show "from_slice mfa_json_codec b = Some claims"
    by (cases "mc_context claims") (auto simp: mfa_json_codec_def take_put_fields_8 take_put_fields_2)
qed

definition demo_libs :: token_libs where
  "demo_libs = \<lparr>lib_jws = plain_lib, lib_sha256 = (\<lambda>b. take 32 (rev b @ replicate 32 0)),
     lib_dashboard = dashboard_json, lib_platform = platform_json_codec, lib_mfa = mfa_json_codec\<rparr>"

definition demo_lifetimes :: TokenLifetimes where
  "demo_lifetimes = \<lparr>tl_access_ttl = 900 * 10 ^ 9, tl_refresh_expires_in_days = 7,
     tl_grace_window = 30 * 10 ^ 9, tl_absolute_session_lifetime_days = 30\<rparr>"

definition demo_manager :: "mem TokenManagerService" where
  "demo_manager = with_mfa_support
     (with_binding (new_token_manager demo_libs [1, 2, 3] [[4, 5]] mem_stores demo_lifetimes [7])
       \<lparr>tb_issuer = Some ''iss'', tb_audience = None\<rparr>) mem_stores"

lemma demo_manager_sel [simp]:
  "tm_libs demo_manager = demo_libs" "tm_key demo_manager = [1, 2, 3]" "tm_previous_keys demo_manager = [[4, 5]]"
  "tm_session_store demo_manager = mem_stores" "tm_access_ttl demo_manager = 900 * 10 ^ 9"
  "tm_refresh_ttl_secs demo_manager = 604800" "tm_grace_ttl_secs demo_manager = 30"
  "tm_absolute_lifetime_secs demo_manager = 2592000" "tm_identifier_key demo_manager = [7]"
  "tm_binding demo_manager = \<lparr>tb_issuer = Some ''iss'', tb_audience = None\<rparr>" "tm_mfa demo_manager = Some mem_stores"
  by (simp_all add: demo_manager_def with_mfa_support_def with_binding_def new_token_manager_def demo_lifetimes_def
      as_secs_def)

lemma demo_libs_sel [simp]:
  "lib_jws demo_libs = plain_lib" "lib_sha256 demo_libs = (\<lambda>b. take 32 (rev b @ replicate 32 0))"
  "lib_dashboard demo_libs = dashboard_json" "lib_platform demo_libs = platform_json_codec"
  "lib_mfa demo_libs = mfa_json_codec"
  by (simp_all add: demo_libs_def)

interpretation demo: token_service demo_manager mem_view
proof (rule token_service.intro)
  show "store_service (tm_session_store demo_manager) mem_view"
    unfolding demo_manager_sel by (rule mem_store.store_service_axioms)
  show "jws_service (lib_jws (tm_libs demo_manager))"
    unfolding demo_manager_sel demo_libs_sel by (rule plain.jws_service_axioms)
  show "token_service_axioms demo_manager"
    by (rule token_service_axioms.intro, unfold demo_manager_sel demo_libs_sel)
      (rule dashboard_values.json_round_trip_axioms platform_values.json_round_trip_axioms
        mfa_values.json_round_trip_axioms)+
qed

definition demo_user :: SafeAuthUser where
  "demo_user = \<lparr>su_id = ''u1'', su_email = ''a@b'', su_name = ''A'', su_role = ''user'', su_status = ''ACTIVE'',
     su_tenant_id = ''t1'', su_email_verified = True, su_mfa_enabled = False, su_oauth_provider = None,
     su_oauth_provider_id = None, su_last_login_at = None,
     su_created_at = 0\<rparr>"

definition demo_host :: "int \<Rightarrow> mem \<Rightarrow> mem host" where
  "demo_host secs m = \<lparr>store_client = \<lparr>server = m, net = []\<rparr>, entropy = of_nat,
     clock = (\<lambda>i. (secs + int i) * 10 ^ 9), spawned = []\<rparr>"

section \<open>Properties\<close>

context token_service
begin

lemma accepted_claims:
  assumes "sign (lib_jws (tm_libs M)) J claims k = Inr token" and "json_round_trip J"
    and "verify (lib_jws (tm_libs M)) J K clk token k' opts s = (Inr c, s')"
  shows "c = claims"
proof -
  let ?L = "lib_jws (tm_libs M)"
  from assms(1) obtain b where b: "to_vec J claims = Some b" by (auto simp: sign_def split: option.splits)
  with assms(1) obtain tag where
    "token = b64_encode ?L (as_bytes HEADER_JSON) @ ''.'' @ b64_encode ?L b @ ''.'' @ b64_encode ?L tag"
    by (auto simp: sign_def Let_def)
  then have "split_segments token =
      Inr (b64_encode ?L (as_bytes HEADER_JSON), b64_encode ?L b, b64_encode ?L tag)"
    unfolding split_segments_Inr using b64_no_dot by simp
  with assms(3) json_round_trip.from_to [OF assms(2) b] show ?thesis
    by (auto simp: verify_def rbind_eq_Inr or_err_def b64_decode_encode header_alg split: if_splits)
qed

lemma login_effects:
  assumes "net (store_client h) = []"
    and "epoch_is (tm_namespace M) Dashboard (account M (su_tenant_id user) (su_id user)) (store_view view h) n"
    and "typed (tm_namespace M) (store_view view h)" and "ttl_ok (tm_refresh_ttl_secs M)"
    and "json_total (lib_dashboard (tm_libs M))" and "\<And>i. i < 3 \<Longrightarrow> instant_ok (clock h i)"
  shows "\<exists>res h' rec j. issue_tokens M user ip user_agent mfa_verified proof h = (Inr res, h') \<and>
    (let subject = account M (su_tenant_id user) (su_id user); v = store_view view h'; ns = tm_namespace M;
         hash = redis_hash (lib_sha256 (tm_libs M)) (ar_refresh_token res)
     in str_at v (rt_key ns Dashboard hash) = Some j \<and> dec_rec (rs_codec (tm_session_store M)) j = Some rec \<and>
        index_member (kp_rt (kind_prefixes Dashboard)) hash \<in> members_at v (sess_key ns Dashboard subject) \<and>
        sr_user_id rec = su_id user \<and> sr_tenant_id rec = Some (su_tenant_id user) \<and> sr_role rec = su_role user \<and>
        sr_mfa_enabled rec = su_mfa_enabled user \<and> sr_mfa_verified rec = mfa_verified \<and>
        sr_family_created_at rec = Some (clock h 2) \<and> hash \<in> members_at v (fam_key ns Dashboard (sr_family_id rec)) \<and>
        (v (key ns Ra subject) \<noteq> None \<longleftrightarrow> proof = Proved \<or> store_view view h (key ns Ra subject) \<noteq> None))"
proof -
  note ttl = assms(4)
  from issue_tokens_run [OF assms] obtain res h' rec j where
    run: "issue_tokens M user ip user_agent mfa_verified proof h = (Inr res, h')"
    and rec: "sr_user_id rec = su_id user" "sr_tenant_id rec = Some (su_tenant_id user)" "sr_role rec = su_role user"
      "sr_mfa_enabled rec = su_mfa_enabled user" "sr_mfa_verified rec = mfa_verified" "sr_family_id rec \<noteq> []"
      "sr_family_created_at rec = Some (clock h 2)"
    and j: "enc_rec (rs_codec (tm_session_store M)) rec = Some j"
    and v: "store_view view h' = login_view M user proof (ar_refresh_token res) rec j (store_view view h)"
    by blast
  show ?thesis
    apply (rule exI [of _ res], rule exI [of _ h'], rule exI [of _ rec], rule exI [of _ j])
    using run rec dec_enc_rec [OF j]
    by (simp add: Let_def v login_view_def v_create_def view_obs del: not_None_eq)
qed

lemma accepted_current:
  assumes "verify_access M token h = (Inr claims, h')"
    and "epoch_is (tm_namespace M) Dashboard (account M (dc_tenant_id claims) (dc_sub claims)) (store_view view h) n"
  shows "\<not> listed (tm_namespace M) (dc_jti claims) (store_view view h) \<and> n \<le> dc_epoch claims \<and>
    (\<exists>k \<in> set (tm_key M # tm_previous_keys M). \<exists>i hd p sg pb. token = hd @ ''.'' @ p @ ''.'' @ sg \<and>
       b64_decode (lib_jws (tm_libs M)) sg = Some (hmac_sha256 (lib_jws (tm_libs M)) k (as_bytes (hd @ ''.'' @ p))) \<and>
       b64_decode (lib_jws (tm_libs M)) p = Some pb \<and> from_slice (lib_dashboard (tm_libs M)) pb = Some claims \<and>
       verdict dashboard_jwt_claims (bound_options M default_options) (now_of default_options (clock h i)) claims = Inr claims)"
proof -
  note v = verify_access_Inr [OF assms]
  from v(3) obtain k a b where k: "k \<in> set (tm_key M # tm_previous_keys M)" and a: "later h a"
    and run: "verify (lib_jws (tm_libs M)) (lib_dashboard (tm_libs M)) dashboard_jwt_claims read_clock token k
        (bound_options M default_options) a = (Inr claims, b)" by blast
  from later_reading [OF a] obtain i where i: "clock a 0 = clock h i" by blast
  have now: "now_of (bound_options M default_options) (fst (read_clock a)) = now_of default_options (clock h i)"
    by (simp add: now_of_def bound_options_def default_options_def read_clock_def i)
  from verify_Inr [OF run] v(1,2) k now show ?thesis by metis
qed

lemma outdated_refused:
  assumes "issue_tokens M user ip user_agent mfa_verified proof h = (Inr res, h')"
    and "epoch_is (tm_namespace M) Dashboard (account M (su_tenant_id user) (su_id user)) (store_view view h) n"
    and "epoch_is (tm_namespace M) Dashboard (account M (su_tenant_id user) (su_id user)) (store_view view g) k"
    and "n < k"
  shows "fst (verify_access M (ar_access_token res) g) \<noteq> Inr claims"
proof
  assume "fst (verify_access M (ar_access_token res) g) = Inr claims"
  then obtain g' where acc: "verify_access M (ar_access_token res) g = (Inr claims, g')" by (metis prod.collapse)
  from assms(1) obtain epoch c1 issued where
    ep: "current_epoch (tm_session_store M) Dashboard (account M (su_tenant_id user) (su_id user)) (store_client h) =
      (Inr epoch, c1)"
    and sign: "sign (lib_jws (tm_libs M)) (lib_dashboard (tm_libs M)) (stamp_dashboard M issued) (tm_key M) =
      Inr (ar_access_token res)"
    and issued: "dc_sub issued = su_id user" "dc_tenant_id issued = su_tenant_id user" "dc_epoch issued = epoch"
    by (rule issue_tokens_Inr) simp
  from current_epoch_Inr [OF ep assms(2)] have "epoch = n" by simp
  from acc obtain g1 where "verify_rotating_with M (lib_dashboard (tm_libs M)) dashboard_jwt_claims (ar_access_token res)
      default_options g = (Inr claims, g1)"
    by (auto simp: verify_access_def verify_rotating_def rbind_eq_Inr map_err_eq_Inr split: if_splits)
  from verify_rotating_with_later [OF this] obtain sk and a b :: "'r host" where
    "verify (lib_jws (tm_libs M)) (lib_dashboard (tm_libs M)) dashboard_jwt_claims read_clock (ar_access_token res) sk
        (bound_options M default_options) a = (Inr claims, b)" by auto
  from accepted_claims [OF sign dashboard_json this] issued
  have "dc_sub claims = su_id user" "dc_tenant_id claims = su_tenant_id user" "dc_epoch claims = epoch"
    by (simp_all add: stamp_dashboard_def)
  with verify_access_Inr(2) [OF acc, of k] assms(3,4) \<open>epoch = n\<close>
  show False by simp
qed

lemma epoch_bumped:
  assumes "bump_epoch (tm_session_store M) Dashboard subject c = (Inr new, c')"
    and "epoch_is (tm_namespace M) Dashboard subject (view (server c)) m" and "m + 1 < 2 ^ 63"
  shows "epoch_is (tm_namespace M) Dashboard subject (view (server c')) (m + 1)"
  using bump_epoch_Inr [OF assms] by simp

lemma issued_verdict:
  assumes "issue_tokens M user ip user_agent mfa_verified proof h = (Inr res, h')"
    and "epoch_is (tm_namespace M) Dashboard (account M (su_tenant_id user) (su_id user)) (store_view view h) n"
  shows "\<exists>claims. dc_sub claims = su_id user \<and> dc_tenant_id claims = su_tenant_id user \<and>
    dc_role claims = su_role user \<and> dc_mfa_enabled claims = su_mfa_enabled user \<and> dc_mfa_verified claims = mfa_verified \<and>
    dc_epoch claims = n \<and> dc_iat claims = unix_timestamp (clock h 0) \<and> dc_exp claims = access_exp M (dc_iat claims) \<and>
    dc_iss claims = tb_issuer (tm_binding M) \<and> dc_aud claims = tb_audience (tm_binding M) \<and>
    (\<forall>g m. net (store_client g) = [] \<longrightarrow>
       epoch_is (tm_namespace M) Dashboard (account M (su_tenant_id user) (su_id user)) (store_view view g) m \<longrightarrow>
       dc_iat claims \<le> now_of default_options (clock g 0) \<longrightarrow> now_of default_options (clock g 0) < dc_exp claims \<longrightarrow>
       fst (verify_access M (ar_access_token res) g) =
         (if listed (tm_namespace M) (dc_jti claims) (store_view view g) \<or> n < m
          then Inl AuthError.TokenRevoked else Inr claims))"
proof -
  from assms(1) obtain epoch c1 jti claims token where
    claims: "claims = \<lparr>dc_sub = su_id user, dc_jti = jti, dc_tenant_id = su_tenant_id user, dc_role = su_role user,
      dc_token_type = DashboardType_Dashboard, dc_status = su_status user, dc_mfa_enabled = su_mfa_enabled user,
      dc_mfa_verified = mfa_verified, dc_iat = unix_timestamp (clock h 0),
      dc_exp = access_exp M (unix_timestamp (clock h 0)), dc_epoch = epoch, dc_iss = None, dc_aud = None\<rparr>"
    and ep: "current_epoch (tm_session_store M) Dashboard (account M (su_tenant_id user) (su_id user)) (store_client h) =
      (Inr epoch, c1)"
    and sign: "sign (lib_jws (tm_libs M)) (lib_dashboard (tm_libs M)) (stamp_dashboard M claims) (tm_key M) = Inr token"
    and token: "ar_access_token res = token"
    by (rule issue_tokens_Inr) simp
  have n: "epoch = n" using current_epoch_Inr [OF ep assms(2)] by simp
  have max: "dc_exp claims \<le> i64_max" by (simp add: claims access_exp_def saturating_add_def i64_max_def)
  show ?thesis
    apply (rule exI [of _ "stamp_dashboard M claims"])
    using verify_access_run [OF sign _ _ _ _ max] n
    by (simp add: claims stamp_dashboard_def token)
qed

end

lemma demo_empty:
  "net (store_client (demo_host t m)) = []" "typed ns (mem_view Map.empty)" "epoch_is ns kind subject (mem_view Map.empty) 0"
  "json_total dashboard_json" "ttl_ok 604800" "server (store_client (demo_host t m)) = m"
  "clock (demo_host t m) i = (t + int i) * 10 ^ 9"
  by (simp_all add: demo_host_def typed_def type_defs mem_view_def epoch_is_def json_total_def dashboard_json_def ttl_ok_def)

lemma instant_ok_demo: "0 \<le> t \<Longrightarrow> t < 253402300000 \<Longrightarrow> i < 3 \<Longrightarrow> instant_ok (clock (demo_host t m) i)"
  by (simp add: instant_ok_def demo_empty)

lemma demo_login:
  "\<exists>res h'. issue_tokens demo_manager demo_user ''10.0.0.1'' ''ua'' False proof (demo_host 1000 Map.empty) = (Inr res, h')"
proof -
  have "instant_ok (clock (demo_host 1000 Map.empty) i)" if "i < 3" for i using that by (simp add: instant_ok_demo)
  with demo.issue_tokens_run [of "demo_host 1000 Map.empty" demo_user 0 "''10.0.0.1''" "''ua''" False "proof"]
  show ?thesis by (auto simp: demo_empty)
qed

lemma demo_issued:
  "\<exists>res h' claims. issue_tokens demo_manager demo_user ''10.0.0.1'' ''ua'' False proof (demo_host 1000 Map.empty) = (Inr res, h') \<and>
     fst (verify_access demo_manager (ar_access_token res) (demo_host 1500 Map.empty)) = Inr claims"
proof -
  from demo_login obtain res h' where run:
    "issue_tokens demo_manager demo_user ''10.0.0.1'' ''ua'' False proof (demo_host 1000 Map.empty) = (Inr res, h')" by blast
  from demo.issued_verdict [OF run, of 0]
  obtain claims where "dc_iat claims = 1000" "dc_exp claims = 1900"
    and v: "\<And>g m. net (store_client g) = [] \<Longrightarrow>
       epoch_is ''auth'' Dashboard (account demo_manager (su_tenant_id demo_user) (su_id demo_user)) (store_view mem_view g) m \<Longrightarrow>
       dc_iat claims \<le> now_of default_options (clock g 0) \<Longrightarrow> now_of default_options (clock g 0) < dc_exp claims \<Longrightarrow>
       fst (verify_access demo_manager (ar_access_token res) g) =
         (if listed ''auth'' (dc_jti claims) (store_view mem_view g) \<or> 0 < m
          then Inl AuthError.TokenRevoked else Inr claims)"
    by (auto simp: demo_empty unix_timestamp_def access_exp_def as_secs_def saturating_add_def i64_max_def)
  with v [of "demo_host 1500 Map.empty" 0]
  have "fst (verify_access demo_manager (ar_access_token res) (demo_host 1500 Map.empty)) = Inr claims"
    by (simp add: demo_empty now_of_def default_options_def i64_max_def listed_def mem_view_None)
  with run show ?thesis by blast
qed

text \<open>
  C23. An issued access token is honoured exactly as long as it should be. Its claims are the account
  it was issued for, the current second, the configured lifetime and the account's generation, stamped
  with the deployment's issuer and audience. At any later moment within that lifetime, whatever else
  happened to the store, verification answers with exactly those claims, and with \<open>TokenRevoked\<close> once
  its identifier is blacklisted or the generation of the account has moved on.
\<close>

theorem issued_access_verdict:
  assumes "token_service M view" and "issue_tokens M user ip user_agent mfa_verified proof h = (Inr res, h')"
    and "epoch_is (tm_namespace M) Dashboard (account M (su_tenant_id user) (su_id user)) (store_view view h) n"
  shows "\<exists>claims. dc_sub claims = su_id user \<and> dc_tenant_id claims = su_tenant_id user \<and>
    dc_role claims = su_role user \<and> dc_mfa_enabled claims = su_mfa_enabled user \<and> dc_mfa_verified claims = mfa_verified \<and>
    dc_epoch claims = n \<and> dc_iat claims = unix_timestamp (clock h 0) \<and> dc_exp claims = access_exp M (dc_iat claims) \<and>
    dc_iss claims = tb_issuer (tm_binding M) \<and> dc_aud claims = tb_audience (tm_binding M) \<and>
    (\<forall>g m. net (store_client g) = [] \<longrightarrow>
       epoch_is (tm_namespace M) Dashboard (account M (su_tenant_id user) (su_id user)) (store_view view g) m \<longrightarrow>
       dc_iat claims \<le> now_of default_options (clock g 0) \<longrightarrow> now_of default_options (clock g 0) < dc_exp claims \<longrightarrow>
       fst (verify_access M (ar_access_token res) g) =
         (if listed (tm_namespace M) (dc_jti claims) (store_view view g) \<or> n < m
          then Inl AuthError.TokenRevoked else Inr claims))"
  by (rule token_service.issued_verdict [OF assms])

theorem issued_access_verdict_witness:
  "\<exists>res h' claims. issue_tokens demo_manager demo_user ''10.0.0.1'' ''ua'' False Proved (demo_host 1000 Map.empty) = (Inr res, h') \<and>
     dc_sub claims = ''u1'' \<and> dc_exp claims = 1900 \<and>
     fst (verify_access demo_manager (ar_access_token res) (demo_host 1899 Map.empty)) = Inr claims \<and>
     fst (verify_access demo_manager (ar_access_token res)
       (demo_host 1899 [key ''auth'' Rv (dc_jti claims) \<mapsto> (MStr ''1'', None)])) = Inl AuthError.TokenRevoked"
proof -
  obtain res h' where run:
    "issue_tokens demo_manager demo_user ''10.0.0.1'' ''ua'' False Proved (demo_host 1000 Map.empty) = (Inr res, h')"
    using demo_login by blast
  have e: "epoch_is ''auth'' Dashboard (account demo_manager (su_tenant_id demo_user) (su_id demo_user)) (mem_view m) 0"
    if "m = Map.empty \<or> m = [key ''auth'' Rv jti \<mapsto> (MStr ''1'', None)]" for m jti
    using that by (auto simp: epoch_is_def mem_view_def)
  from issued_access_verdict [OF demo.token_service_axioms run, of 0] e [of Map.empty]
  obtain claims where "dc_sub claims = su_id demo_user" and "dc_iat claims = unix_timestamp (clock (demo_host 1000 Map.empty) 0)"
    and "dc_exp claims = access_exp demo_manager (dc_iat claims)"
    and v: "\<And>g m. net (store_client g) = [] \<Longrightarrow>
       epoch_is ''auth'' Dashboard (account demo_manager (su_tenant_id demo_user) (su_id demo_user)) (store_view mem_view g) m \<Longrightarrow>
       dc_iat claims \<le> now_of default_options (clock g 0) \<Longrightarrow> now_of default_options (clock g 0) < dc_exp claims \<Longrightarrow>
       fst (verify_access demo_manager (ar_access_token res) g) =
         (if listed ''auth'' (dc_jti claims) (store_view mem_view g) \<or> 0 < m
          then Inl AuthError.TokenRevoked else Inr claims)"
    by (auto simp: demo_empty)
  then have "dc_sub claims = ''u1''" "dc_iat claims = 1000" "dc_exp claims = 1900"
    by (simp_all add: demo_empty demo_user_def unix_timestamp_def access_exp_def as_secs_def saturating_add_def i64_max_def)
  with run v [of "demo_host 1899 Map.empty" 0] e [of Map.empty]
    v [of "demo_host 1899 [key ''auth'' Rv (dc_jti claims) \<mapsto> (MStr ''1'', None)]" 0]
    e [of "[key ''auth'' Rv (dc_jti claims) \<mapsto> (MStr ''1'', None)]" "dc_jti claims"]
  show ?thesis
    by (intro exI [of _ res] exI [of _ h'] exI [of _ claims])
      (simp add: demo_empty now_of_def default_options_def i64_max_def listed_def mem_view_def)
qed

text \<open>
  C24. Signing in completes and records what it should. On a working network issuing returns a token
  pair; the refresh token's session is then live, listed in the account's index, carries the account,
  the second-factor state and a lineage born at this moment; and the recent-authentication marker of
  the account is planted exactly when a credential was proved.
\<close>

theorem login_recorded:
  assumes "token_service M view" and "net (store_client h) = []"
    and "epoch_is (tm_namespace M) Dashboard (account M (su_tenant_id user) (su_id user)) (store_view view h) n"
    and "typed (tm_namespace M) (store_view view h)" and "ttl_ok (tm_refresh_ttl_secs M)"
    and "json_total (lib_dashboard (tm_libs M))" and "\<And>i. i < 3 \<Longrightarrow> instant_ok (clock h i)"
  shows "\<exists>res h' rec j. issue_tokens M user ip user_agent mfa_verified proof h = (Inr res, h') \<and>
    (let subject = account M (su_tenant_id user) (su_id user); v = store_view view h'; ns = tm_namespace M;
         hash = redis_hash (lib_sha256 (tm_libs M)) (ar_refresh_token res)
     in str_at v (rt_key ns Dashboard hash) = Some j \<and> dec_rec (rs_codec (tm_session_store M)) j = Some rec \<and>
        index_member (kp_rt (kind_prefixes Dashboard)) hash \<in> members_at v (sess_key ns Dashboard subject) \<and>
        sr_user_id rec = su_id user \<and> sr_tenant_id rec = Some (su_tenant_id user) \<and> sr_role rec = su_role user \<and>
        sr_mfa_enabled rec = su_mfa_enabled user \<and> sr_mfa_verified rec = mfa_verified \<and>
        sr_family_created_at rec = Some (clock h 2) \<and> hash \<in> members_at v (fam_key ns Dashboard (sr_family_id rec)) \<and>
        (v (key ns Ra subject) \<noteq> None \<longleftrightarrow> proof = Proved \<or> store_view view h (key ns Ra subject) \<noteq> None))"
  by (rule token_service.login_effects [OF assms])

theorem login_recorded_witness:
  "\<exists>res h'. issue_tokens demo_manager demo_user ''10.0.0.1'' ''ua'' True Unproven (demo_host 1000 Map.empty) = (Inr res, h') \<and>
     store_view mem_view h' (key ''auth'' Ra (account demo_manager ''t1'' ''u1'')) = None"
proof -
  have "instant_ok (clock (demo_host 1000 Map.empty) i)" if "i < 3" for i using that by (simp add: instant_ok_demo)
  with login_recorded [OF demo.token_service_axioms, of "demo_host 1000 Map.empty" demo_user 0 "''10.0.0.1''" "''ua''" True Unproven]
  show ?thesis by (auto simp: demo_empty Let_def demo_user_def mem_view_None simp del: not_None_eq)
qed

text \<open>
  C25. Nothing else is accepted. Under any network schedule, if verification accepts a token then the
  token carries the tag of the current key or of a retired one over its own header and payload, its
  claims are the payload's and pass the temporal and binding checks at a moment the clock showed, its
  identifier is not blacklisted, and its generation is not below the account's.
\<close>

theorem accepted_access_current:
  assumes "token_service M view" and "verify_access M token h = (Inr claims, h')"
    and "epoch_is (tm_namespace M) Dashboard (account M (dc_tenant_id claims) (dc_sub claims)) (store_view view h) n"
  shows "\<not> listed (tm_namespace M) (dc_jti claims) (store_view view h) \<and> n \<le> dc_epoch claims \<and>
    (\<exists>k \<in> set (tm_key M # tm_previous_keys M). \<exists>i hd p sg pb. token = hd @ ''.'' @ p @ ''.'' @ sg \<and>
       b64_decode (lib_jws (tm_libs M)) sg = Some (hmac_sha256 (lib_jws (tm_libs M)) k (as_bytes (hd @ ''.'' @ p))) \<and>
       b64_decode (lib_jws (tm_libs M)) p = Some pb \<and> from_slice (lib_dashboard (tm_libs M)) pb = Some claims \<and>
       verdict dashboard_jwt_claims (bound_options M default_options) (now_of default_options (clock h i)) claims = Inr claims)"
  by (rule token_service.accepted_current [OF assms])

theorem accepted_access_current_witness:
  "\<exists>res h' claims g. issue_tokens demo_manager demo_user ''10.0.0.1'' ''ua'' False Proved (demo_host 1000 Map.empty) = (Inr res, h') \<and>
     verify_access demo_manager (ar_access_token res) (demo_host 1500 Map.empty) = (Inr claims, g) \<and>
     \<not> listed ''auth'' (dc_jti claims) (mem_view Map.empty) \<and>
     (\<exists>k hd p sg. (k = [1, 2, 3] \<or> k = [4, 5]) \<and> ar_access_token res = hd @ ''.'' @ p @ ''.'' @ sg \<and>
        of_hex sg = Some (k @ as_bytes (hd @ ''.'' @ p)))"
proof -
  from demo_issued obtain res h' claims where
    run: "issue_tokens demo_manager demo_user ''10.0.0.1'' ''ua'' False Proved (demo_host 1000 Map.empty) = (Inr res, h')"
    and "fst (verify_access demo_manager (ar_access_token res) (demo_host 1500 Map.empty)) = Inr claims" by blast
  then obtain g where v: "verify_access demo_manager (ar_access_token res) (demo_host 1500 Map.empty) = (Inr claims, g)"
    by (metis prod.collapse)
  from accepted_access_current [OF demo.token_service_axioms v, of 0] obtain k hd p sg where
    "\<not> listed ''auth'' (dc_jti claims) (mem_view Map.empty)" and "k \<in> set [[1, 2, 3], [4, 5]]"
    and "ar_access_token res = hd @ ''.'' @ p @ ''.'' @ sg"
    and "b64_decode plain_lib sg = Some (hmac_sha256 plain_lib k (as_bytes (hd @ ''.'' @ p)))"
    unfolding demo_manager_sel demo_libs_sel demo_empty mem_stores_sel using demo_empty(3) by blast
  moreover from this have "k = [1, 2, 3] \<or> k = [4, 5]" and "of_hex sg = Some (k @ as_bytes (hd @ ''.'' @ p))"
    by (simp_all add: plain_lib_def)
  ultimately show ?thesis using run v by blast
qed

text \<open>
  C26. Signing out everywhere ends every access token. Raising the generation of an account after a token
  was issued leaves it above the one the token carries; and wherever the store holds a generation above
  that, whatever else was written or expired since, verification of the token does not succeed: not at any
  moment, not under any network schedule, and not under a retired key.
\<close>

theorem signed_out_everywhere:
  assumes "token_service M view" and "issue_tokens M user ip user_agent mfa_verified proof h = (Inr res, h')"
    and "epoch_is (tm_namespace M) Dashboard (account M (su_tenant_id user) (su_id user)) (store_view view h) n"
    and "epoch_is (tm_namespace M) Dashboard (account M (su_tenant_id user) (su_id user)) (view (server c)) m"
    and "n \<le> m" and "m + 1 < 2 ^ 63"
    and "bump_epoch (tm_session_store M) Dashboard (account M (su_tenant_id user) (su_id user)) c = (Inr new, c')"
  shows "epoch_is (tm_namespace M) Dashboard (account M (su_tenant_id user) (su_id user)) (view (server c')) (m + 1) \<and>
    (\<forall>g k claims. epoch_is (tm_namespace M) Dashboard (account M (su_tenant_id user) (su_id user)) (store_view view g) k \<longrightarrow>
       n < k \<longrightarrow> fst (verify_access M (ar_access_token res) g) \<noteq> Inr claims)"
  using token_service.epoch_bumped [OF assms(1,7,4,6)] token_service.outdated_refused [OF assms(1-3)] by simp

theorem signed_out_everywhere_witness:
  "\<exists>res h' new c' claims. issue_tokens demo_manager demo_user ''10.0.0.1'' ''ua'' False Proved (demo_host 1000 Map.empty) = (Inr res, h') \<and>
     fst (verify_access demo_manager (ar_access_token res) (demo_host 1500 Map.empty)) = Inr claims \<and>
     bump_epoch mem_stores Dashboard (account demo_manager ''t1'' ''u1'') \<lparr>server = Map.empty, net = []\<rparr> = (Inr new, c') \<and>
     fst (verify_access demo_manager (ar_access_token res) (demo_host 1500 (server c'))) \<noteq> Inr claims"
proof -
  from demo_issued obtain res h' claims where
    run: "issue_tokens demo_manager demo_user ''10.0.0.1'' ''ua'' False Proved (demo_host 1000 Map.empty) = (Inr res, h')"
    and v: "fst (verify_access demo_manager (ar_access_token res) (demo_host 1500 Map.empty)) = Inr claims" by blast
  obtain new c' where b: "bump_epoch mem_stores Dashboard (account demo_manager ''t1'' ''u1'')
      \<lparr>server = Map.empty, net = []\<rparr> = (Inr new, c')"
    by (simp add: bump_epoch_def bump_epoch_inner_def Let_def run_simps)
  have ids: "su_tenant_id demo_user = ''t1''" "su_id demo_user = ''u1''" by (simp_all add: demo_user_def)
  from signed_out_everywhere [OF demo.token_service_axioms run, of 0 "\<lparr>server = Map.empty, net = []\<rparr>" 0 new c'] b
  have "fst (verify_access demo_manager (ar_access_token res) (demo_host 1500 (server c'))) \<noteq> Inr claims"
    by (fastforce simp: demo_empty ids)
  with b run v show ?thesis by blast
qed

end
