(* ===== verification/Token_Rotation.thy ===== *)
theory Token_Rotation
  imports Token_Properties
begin

text \<open>
  Rotating a refresh token through the token manager: what a rotation may touch, what the successor
  inherits, when the lineage ends, and what a replay sets off. The frame lemmas say that the session
  scripts write session keys only; they lift to the service through \<open>preserves\<close>.
\<close>

section \<open>Session scripts write session keys only\<close>

lemma preserves_query:
  "(\<And>r. Q r \<Longrightarrow> Q (snd (f r))) \<Longrightarrow> preserves (\<lambda>c. Q (server c)) (query f)"
proof (rule preservesI)
  fix s x s' assume step: "\<And>r. Q r \<Longrightarrow> Q (snd (f r))" and "Q (server s)" and "query f s = (x, s')"
  then show "Q (server s')" using query_server [of f s] by auto
qed

lemma preserves_connection [preserve]: "preserves (\<lambda>c. Q (server c)) connection"
  by (rule preservesI) (metis server_connection snd_conv)

lemma preserves_json_result [preserve]: "preserves P (json_result x)"
  by (cases x) (simp_all add: json_result_def preserve)

lemma preserves_on_store [preserve]:
  "preserves (\<lambda>c. Q (server c)) m \<Longrightarrow> preserves (\<lambda>h. Q (server (store_client h))) (on_store m)"
  by (auto simp: preserves_def on_store_def split: prod.splits)

text \<open>The part of the key space the session scripts leave alone.\<close>

definition untouched :: "string \<Rightarrow> string \<Rightarrow> (rvalue \<times> nat option) option \<Rightarrow> rview \<Rightarrow> bool" where
  "untouched ns k e v \<longleftrightarrow> typed ns v \<and> k \<notin> session_keys ns \<and> v k = e"

lemma untouched_neq:
  assumes "untouched ns k e v"
  shows "k \<noteq> rt_key ns kind i" "k \<noteq> rp_key ns kind i" "k \<noteq> cf_key ns kind i" "k \<noteq> fam_key ns kind i"
    "k \<noteq> sess_key ns kind i" "k \<noteq> sd_key ns kind i"
  using assms by (auto simp: untouched_def session_keys_def)

lemma effect_elsewhere:
  "k \<noteq> k' \<Longrightarrow> v_set_ex k' s t v k = v k" "k \<noteq> k' \<Longrightarrow> v_del k' v k = v k" "k \<noteq> k' \<Longrightarrow> v_expire k' t v k = v k"
  "k \<noteq> k' \<Longrightarrow> v_sadd k' m v k = v k" "k \<noteq> k' \<Longrightarrow> v_srem k' m v k = v k" "k \<noteq> k' \<Longrightarrow> v_srems k' ms v k = v k"
  "k \<notin> K \<Longrightarrow> v_dels K v k = v k"
  by (simp_all add: effect_defs v_srems_def v_dels_def split: option.splits)

lemma untouched_create: "untouched ns k e v \<Longrightarrow> untouched ns k e (v_create ns kind subject h family j d t v)"
  using untouched_neq [of ns k e v]
  by (simp add: untouched_def v_create_def Let_def effect_elsewhere typed_def view_type)

lemma untouched_rotate: "untouched ns k e v \<Longrightarrow> untouched ns k e (v_rotate ns kind rot j v)"
  using untouched_neq [of ns k e v]
  by (simp add: untouched_def v_rotate_def Let_def effect_elsewhere typed_def view_type)

context store_service
begin

lemma untouched_scripts:
  assumes "untouched (rs_namespace S) k e (view r)"
  shows "ttl_ok t \<Longrightarrow> untouched (rs_namespace S) k e (view (create_session_tx S kind subject h family j d t r))"
    and "ttl_ok t \<Longrightarrow> untouched (rs_namespace S) k e (view (snd (recover_script S kind subject h family j d t r)))"
    and "ttl_ok (ro_refresh_ttl rot) \<Longrightarrow> ro_grace_ttl rot \<le> ro_refresh_ttl rot \<Longrightarrow>
      untouched (rs_namespace S) k e (view (snd (rotate_script S kind rot j r)))"
    and "ttl_ok (ro_refresh_ttl rot) \<Longrightarrow> untouched (rs_namespace S) k e (view (move_detail_tx S kind rot r))"
    and "untouched (rs_namespace S) k e (view (snd (family_script S kind family owner r)))"
proof -
  from assms have typed: "typed (rs_namespace S) (view r)" by (simp add: untouched_def)
  note neq = untouched_neq [OF assms]
  show "ttl_ok t \<Longrightarrow> untouched (rs_namespace S) k e (view (create_session_tx S kind subject h family j d t r))"
    using assms by (simp add: view_create [OF typed] untouched_create)
  show "ttl_ok t \<Longrightarrow> untouched (rs_namespace S) k e (view (snd (recover_script S kind subject h family j d t r)))"
    using assms by (simp add: view_recover [OF typed] untouched_create)
  show "untouched (rs_namespace S) k e (view (snd (rotate_script S kind rot j r)))"
    if "ttl_ok (ro_refresh_ttl rot)" "ro_grace_ttl rot \<le> ro_refresh_ttl rot"
  proof (cases "str_at (view r) (rt_key (rs_namespace S) kind (ro_old_hash rot))")
    case None
    with assms neq show ?thesis
      by (simp add: rotate_spent [OF typed None] untouched_def effect_elsewhere typed_def view_type)
  next
    case (Some old)
    with assms show ?thesis by (simp add: rotate_live(2) [OF typed that Some] untouched_rotate)
  qed
  show "ttl_ok (ro_refresh_ttl rot) \<Longrightarrow> untouched (rs_namespace S) k e (view (move_detail_tx S kind rot r))"
    using assms neq by (simp add: view_move_detail untouched_def effect_elsewhere typed_def view_type)
  show "untouched (rs_namespace S) k e (view (snd (family_script S kind family owner r)))"
    using assms neq
    by (auto simp: view_family [OF typed] Let_def untouched_def effect_elsewhere typed_def view_type split: option.splits)
qed

lemma preserves_read [preserve]: "preserves (\<lambda>c. Q (server c)) (query (\<lambda>r. (f r, r)))"
  by (rule preserves_query) simp

lemma preserves_find_owner [preserve]:
  "preserves (\<lambda>c. Q (server c)) (find_owner_loop S rt hs)"
proof (induction hs)
  case (Cons h hs)
  show ?case unfolding find_owner_loop.simps by (intro preserve Cons.IH)
qed (simp add: preserves_def)

lemma preserves_reads [preserve]:
  "preserves (\<lambda>c. Q (server c)) (find_session S kind h)"
  "preserves (\<lambda>c. Q (server c)) (current_epoch S kind subject)"
  "preserves (\<lambda>c. Q (server c)) (find_family_owner S kind family)"
  unfolding find_session_def find_session_inner_def current_epoch_def current_epoch_inner_def read_u64_def
    find_family_owner_def find_family_owner_inner_def Let_def
  by (intro preserve)+

lemma preserves_parsed [preserve]:
  "preserves P a \<Longrightarrow> (\<And>s. preserves P (b s)) \<Longrightarrow> (\<And>f. preserves P (c f)) \<Longrightarrow> (\<And>s. preserves P (d s)) \<Longrightarrow>
     preserves P (case x of PInvalid \<Rightarrow> a | PGrace s \<Rightarrow> b s | PReused f \<Rightarrow> c f | PRotated s \<Rightarrow> d s)"
  by (cases x) simp_all

lemma untouched_writes:
  "ttl_ok t \<Longrightarrow> preserves (\<lambda>c. untouched (rs_namespace S) k e (view (server c))) (create_session S kind subject h rec t)"
  "ttl_ok t \<Longrightarrow> preserves (\<lambda>c. untouched (rs_namespace S) k e (view (server c)))
     (create_recovered_session S kind subject h rec t)"
  "ttl_ok (ro_refresh_ttl rot) \<Longrightarrow> ro_grace_ttl rot \<le> ro_refresh_ttl rot \<Longrightarrow>
     preserves (\<lambda>c. untouched (rs_namespace S) k e (view (server c))) (rotate_session S kind rot)"
  "preserves (\<lambda>c. untouched (rs_namespace S) k e (view (server c))) (revoke_family S kind family owner)"
  unfolding create_session_def create_session_inner_def create_recovered_session_def create_recovered_session_inner_def
    rotate_session_def rotate_inner_def family_is_alive_def move_session_detail_def revoke_family_def
    revoke_family_inner_def Let_def
  by (intro preserve preserves_query [where Q = "\<lambda>r. untouched (rs_namespace S) k e (view r)"];
      simp add: untouched_scripts)+

end

section \<open>What a refresh leaves alone\<close>

lemma preserves_host [preserve]:
  "preserves (\<lambda>h. Q (server (store_client h))) generate_refresh"
  "preserves (\<lambda>h. Q (server (store_client h))) now_offset"
  "preserves (\<lambda>h. Q (server (store_client h))) now_unix"
  "preserves (\<lambda>h. Q (server (store_client h))) new_uuid_v4"
  "preserves (\<lambda>h. Q (server (store_client h))) (spawn_guarded n)"
  by (simp_all add: preserves_def generate_refresh_run host_run spawn_guarded_def)

lemma preserves_records [preserve]:
  "preserves (\<lambda>h. Q (server (store_client h))) (identity_record seed ip user_agent)"
  "preserves (\<lambda>h. Q (server (store_client h))) (platform_identity_record seed ip user_agent)"
  "preserves (\<lambda>h. Q (server (store_client h))) (seed_record live ip user_agent)"
  "preserves (\<lambda>h. Q (server (store_client h))) (assert_within_absolute_lifetime M rec)"
  "preserves (\<lambda>h. Q (server (store_client h))) (rotated_claims M rec epoch)"
  "preserves (\<lambda>h. Q (server (store_client h))) (rotated_platform_claims M rec epoch)"
  "preserves (\<lambda>h. Q (server (store_client h))) (issue_access M claims)"
  "preserves (\<lambda>h. Q (server (store_client h))) (issue_platform_access M pclaims)"
  "preserves (\<lambda>h. Q (server (store_client h))) (fire_reuse_detected hp user family ip user_agent)"
  unfolding identity_record_def platform_identity_record_def seed_record_def placeholder_record_def
    assert_within_absolute_lifetime_def rotated_claims_def rotated_platform_claims_def issue_access_def
    issue_platform_access_def fire_reuse_detected_def Let_def
  by (intro preserve)+

lemma preserves_outcome [preserve]:
  "(\<And>s. preserves P (a s)) \<Longrightarrow> (\<And>s. preserves P (b s)) \<Longrightarrow> (\<And>f. preserves P (c f)) \<Longrightarrow> preserves P d \<Longrightarrow>
     preserves P (case x of Rotated s \<Rightarrow> a s | Grace s \<Rightarrow> b s | Reused f \<Rightarrow> c f | Invalid \<Rightarrow> d)"
  by (cases x) simp_all

context token_service
begin

lemma untouched_reissue:
  assumes "ttl_ok (tm_refresh_ttl_secs M)" and "tm_grace_ttl_secs M \<le> tm_refresh_ttl_secs M"
  shows "preserves (\<lambda>h. untouched (tm_namespace M) k e (view (server (store_client h)))) (reissue_tokens M raw ip user_agent)"
    and "preserves (\<lambda>h. untouched (tm_namespace M) k e (view (server (store_client h)))) (reissue_platform_tokens M raw ip user_agent)"
  unfolding reissue_tokens_def reissue_platform_tokens_def reissue_rotated_def reissue_platform_rotated_def
    reissue_grace_def reissue_platform_grace_def reissue_reused_def reissue_platform_reused_def Let_def
  by (intro preserve untouched_writes assms; simp add: assms)+

end

section \<open>The outcome of a rotation, under any network schedule\<close>

text \<open>Every live record and every grace pointer was written by the codec.\<close>

definition records_ok :: "codec \<Rightarrow> string \<Rightarrow> rview \<Rightarrow> bool" where
  "records_ok J ns v \<longleftrightarrow> (\<forall>kind h.
     (\<forall>j. str_at v (rt_key ns kind h) = Some j \<longrightarrow> (\<exists>s. enc_rec J s = Some j)) \<and>
     (\<forall>p. str_at v (rp_key ns kind h) = Some p \<longrightarrow>
        (\<exists>new j s. p = new @ '':'' @ j \<and> CHR '':'' \<notin> set new \<and> enc_rec J s = Some j)))"

text \<open>The record a presented token stands for: its live one, else the one its grace pointer carries.\<close>

definition presented :: "codec \<Rightarrow> string \<Rightarrow> SessionKind \<Rightarrow> string \<Rightarrow> rview \<Rightarrow> SessionRecord \<Rightarrow> bool" where
  "presented J ns kind h v rec \<longleftrightarrow>
     (case str_at v (rt_key ns kind h) of
        Some j \<Rightarrow> dec_rec J j = Some rec
      | None \<Rightarrow> \<exists>new j. str_at v (rp_key ns kind h) = Some (new @ '':'' @ j) \<and> CHR '':'' \<notin> set new \<and> dec_rec J j = Some rec)"

context store_service
begin

lemma rotate_session_steps:
  assumes "rotate_session S kind rot c = (Inr out, c')"
  obtains j raw c2 parsed where "enc_rec (rs_codec S) (ro_new_record rot) = Some j"
    and "rotate_script S kind rot j (server c) = (raw, server c2)"
    and "interpret_rotate (rs_codec S) raw = Inr parsed"
    and "(case parsed of PInvalid \<Rightarrow> ret Invalid
           | PGrace s \<Rightarrow> rbind (family_is_alive S (kp_fam (kind_prefixes kind)) s)
                (\<lambda>alive. ret (if alive then Grace s else Invalid))
           | PReused family \<Rightarrow> ret (Reused family)
           | PRotated s \<Rightarrow> rbind (move_session_detail S kind rot) (\<lambda>_. ret (Rotated s))) c2 = (Inr out, c')"
proof -
  from assms obtain j c1 raw c2 parsed where j: "enc_rec (rs_codec S) (ro_new_record rot) = Some j"
    and c1: "connection c = (Inr (), c1)" and q: "query (rotate_script S kind rot j) c1 = (Inr raw, c2)"
    and i: "interpret_rotate (rs_codec S) raw = Inr parsed"
    and rest: "(case parsed of PInvalid \<Rightarrow> ret Invalid
           | PGrace s \<Rightarrow> rbind (family_is_alive S (kp_fam (kind_prefixes kind)) s)
                (\<lambda>alive. ret (if alive then Grace s else Invalid))
           | PReused family \<Rightarrow> ret (Reused family)
           | PRotated s \<Rightarrow> rbind (move_session_detail S kind rot) (\<lambda>_. ret (Rotated s))) c2 = (Inr out, c')"
    by (cases "enc_rec (rs_codec S) (ro_new_record rot)")
      (auto simp: rotate_session_def rotate_inner_def Let_def map_err_eq_Inr rbind_eq_Inr)
  have "rotate_script S kind rot j (server c) = (raw, server c2)"
    using query_Inr [OF q] connection_Inr [OF c1] by simp
  with j i rest that show thesis by blast
qed

lemma rotate_outcome_live:
  assumes typed: "typed (rs_namespace S) (view (server c))" and ok: "records_ok (rs_codec S) (rs_namespace S) (view (server c))"
    and ttl: "ttl_ok (ro_refresh_ttl rot)" "ro_grace_ttl rot \<le> ro_refresh_ttl rot"
    and live: "str_at (view (server c)) (rt_key (rs_namespace S) kind (ro_old_hash rot)) = Some i"
    and run: "rotate_session S kind rot c = (Inr out, c')"
  shows "\<exists>s j. dec_rec (rs_codec S) i = Some s \<and> out = Rotated s \<and> enc_rec (rs_codec S) (ro_new_record rot) = Some j \<and>
    view (server c') = v_set_ex (sd_key (rs_namespace S) kind (ro_new_hash rot))
      (enc_det (rs_codec S) (at_creation (ro_new_record rot))) (ro_refresh_ttl rot)
      (v_del (sd_key (rs_namespace S) kind (ro_old_hash rot)) (v_rotate (rs_namespace S) kind rot j (view (server c))))"
proof -
  from ok live obtain s where s: "enc_rec (rs_codec S) s = Some i" unfolding records_ok_def by blast
  from run obtain j raw c2 parsed where j: "enc_rec (rs_codec S) (ro_new_record rot) = Some j"
    and script: "rotate_script S kind rot j (server c) = (raw, server c2)"
    and i: "interpret_rotate (rs_codec S) raw = Inr parsed"
    and rest: "(case parsed of PInvalid \<Rightarrow> ret Invalid
           | PGrace s \<Rightarrow> rbind (family_is_alive S (kp_fam (kind_prefixes kind)) s)
                (\<lambda>alive. ret (if alive then Grace s else Invalid))
           | PReused family \<Rightarrow> ret (Reused family)
           | PRotated s \<Rightarrow> rbind (move_session_detail S kind rot) (\<lambda>_. ret (Rotated s))) c2 = (Inr out, c')"
    by (rule rotate_session_steps)
  have "raw = Some i" and v2: "view (server c2) = v_rotate (rs_namespace S) kind rot j (view (server c))"
    using rotate_live [OF typed ttl live, of j] script by simp_all
  with i dec_enc_rec [OF s] enc_rec_object [OF s] have "parsed = PRotated s"
    by (auto simp: interpret_rotate_simps)
  with rest obtain u where "out = Rotated s"
    and "query (\<lambda>r. ((), move_detail_tx S kind rot r)) c2 = (Inr u, c')"
    by (auto simp: rbind_eq_Inr move_session_detail_def)
  moreover from query_Inr [OF this(2)] have "server c' = move_detail_tx S kind rot (server c2)" by simp
  ultimately show ?thesis using j dec_enc_rec [OF s] v2 by (simp add: view_move_detail [OF ttl(1)])
qed

lemma rotate_outcome_dead:
  assumes typed: "typed (rs_namespace S) (view (server c))" and ok: "records_ok (rs_codec S) (rs_namespace S) (view (server c))"
    and dead: "str_at (view (server c)) (rt_key (rs_namespace S) kind (ro_old_hash rot)) = None"
    and run: "rotate_session S kind rot c = (Inr out, c')"
  shows "view (server c') = v_del (rp_key (rs_namespace S) kind (ro_old_hash rot)) (view (server c))"
    and "case out of
        Rotated s \<Rightarrow> False
      | Grace s \<Rightarrow> presented (rs_codec S) (rs_namespace S) kind (ro_old_hash rot) (view (server c)) s
      | Reused f \<Rightarrow> str_at (view (server c)) (cf_key (rs_namespace S) kind (ro_old_hash rot)) = Some f
      | Invalid \<Rightarrow> True"
proof -
  let ?v = "view (server c)" and ?ns = "rs_namespace S" and ?J = "rs_codec S"
  from run obtain j raw c2 parsed where
    script: "rotate_script S kind rot j (server c) = (raw, server c2)"
    and i: "interpret_rotate ?J raw = Inr parsed"
    and rest: "(case parsed of PInvalid \<Rightarrow> ret Invalid
           | PGrace s \<Rightarrow> rbind (family_is_alive S (kp_fam (kind_prefixes kind)) s)
                (\<lambda>alive. ret (if alive then Grace s else Invalid))
           | PReused family \<Rightarrow> ret (Reused family)
           | PRotated s \<Rightarrow> rbind (move_session_detail S kind rot) (\<lambda>_. ret (Rotated s))) c2 = (Inr out, c')"
    by (rule rotate_session_steps)
  have v2: "view (server c2) = v_del (rp_key ?ns kind (ro_old_hash rot)) ?v"
    using rotate_spent [OF typed dead, of j] script by simp
  have parsed: "case parsed of PRotated s \<Rightarrow> False | PGrace s \<Rightarrow> presented ?J ?ns kind (ro_old_hash rot) ?v s
      | PReused f \<Rightarrow> str_at ?v (cf_key ?ns kind (ro_old_hash rot)) = Some f | PInvalid \<Rightarrow> True"
  proof (cases "\<exists>p. str_at ?v (rp_key ?ns kind (ro_old_hash rot)) = Some p \<and>
      (\<exists>new x. p = new @ '':'' @ x \<and> CHR '':'' \<notin> set new \<and> ?v (rt_key ?ns kind new) \<noteq> None)")
    case True
    then obtain new x where p: "str_at ?v (rp_key ?ns kind (ro_old_hash rot)) = Some (new @ '':'' @ x)" "CHR '':'' \<notin> set new"
      and alive: "?v (rt_key ?ns kind new) \<noteq> None" by blast
    have "raw = Some (''GRACE:'' @ x)" using rotate_grace [OF typed dead p alive, of j] script by simp
    with i obtain s where "parsed = PGrace s" and s: "dec_rec ?J x = Some s"
      using interpret_rotate_simps(2) [of ?J x] by (auto split: option.splits)
    moreover have "presented ?J ?ns kind (ro_old_hash rot) ?v s"
      unfolding presented_def dead option.case using p s by blast
    ultimately show ?thesis by simp
  next
    case False
    have "str_at ?v (rp_key ?ns kind (ro_old_hash rot)) = None \<or>
      (\<exists>succ json. str_at ?v (rp_key ?ns kind (ro_old_hash rot)) = Some (succ @ '':'' @ json) \<and> CHR '':'' \<notin> set succ \<and>
          ?v (rt_key ?ns kind succ) = None)"
    proof (cases "str_at ?v (rp_key ?ns kind (ro_old_hash rot))")
      case (Some p)
      with ok obtain new x where "p = new @ '':'' @ x" "CHR '':'' \<notin> set new" unfolding records_ok_def by blast
      with False Some show ?thesis by blast
    qed simp
    from rotate_no_grace [OF typed dead this, of j] script
    have "raw = map_option (\<lambda>f. ''REUSED:'' @ f) (str_at ?v (cf_key ?ns kind (ro_old_hash rot)))" by simp
    with i show ?thesis
      using interpret_rotate_simps(1) [of ?J] interpret_rotate_simps(3) [of ?J]
      by (cases "str_at ?v (cf_key ?ns kind (ro_old_hash rot))") auto
  qed
  have "server c' = server c2"
    using rest parsed by (cases parsed) (auto simp: rbind_eq_Inr family_is_alive_def split: if_splits dest!: query_Inr)
  with v2 show "view (server c') = v_del (rp_key ?ns kind (ro_old_hash rot)) ?v" by simp
  show "case out of Rotated s \<Rightarrow> False | Grace s \<Rightarrow> presented ?J ?ns kind (ro_old_hash rot) ?v s
      | Reused f \<Rightarrow> str_at ?v (cf_key ?ns kind (ro_old_hash rot)) = Some f | Invalid \<Rightarrow> True"
    using rest parsed by (cases parsed) (auto simp: rbind_eq_Inr split: if_splits)
qed

end

section \<open>Steps of a reissue\<close>

text \<open>A host whose clock has moved on, whatever else changed.\<close>

definition clock_on :: "'r host \<Rightarrow> 'r host \<Rightarrow> bool" where
  "clock_on h g \<longleftrightarrow> (\<exists>n. clock g = (\<lambda>i. clock h (n + i)))"

lemma clock_on_refl [simp]: "clock_on h h"
  unfolding clock_on_def by (rule exI [of _ 0]) simp

lemma clock_on_trans: "clock_on h g \<Longrightarrow> clock_on g f \<Longrightarrow> clock_on h f"
  unfolding clock_on_def by (elim exE, rule_tac x = "n + na" in exI) (simp add: add.assoc)

lemma clock_on_same: "clock g = clock h \<Longrightarrow> clock_on h g"
  unfolding clock_on_def by (rule exI [of _ 0]) simp

lemma clock_on_next: "clock g = (\<lambda>i. clock h (Suc i)) \<Longrightarrow> clock_on h g"
  unfolding clock_on_def by (rule exI [of _ 1]) simp

text \<open>The lineage is within the absolute cap at some reading of the clock.\<close>

definition within_cap :: "'r TokenManagerService \<Rightarrow> 'r host \<Rightarrow> SessionRecord \<Rightarrow> bool" where
  "within_cap M h rec \<longleftrightarrow> (\<forall>born. tm_absolute_lifetime_secs M \<noteq> 0 \<longrightarrow> sr_family_created_at rec = Some born \<longrightarrow>
     (\<exists>i. clock h i < born + (int (tm_absolute_lifetime_secs M) + 1) * 10 ^ 9))"

lemma within_cap_mono: "clock_on h g \<Longrightarrow> within_cap M g rec \<Longrightarrow> within_cap M h rec"
  unfolding clock_on_def within_cap_def by metis

lemma whole_seconds_le: "0 < d \<Longrightarrow> \<bar>whole_seconds d\<bar> \<le> c \<Longrightarrow> d < (c + 1) * 10 ^ 9"
proof -
  assume "0 < d" and "\<bar>whole_seconds d\<bar> \<le> c"
  then have "d div 1000000000 \<le> c" by (simp add: whole_seconds_def)
  moreover have "d = 1000000000 * (d div 1000000000) + d mod 1000000000" and "d mod 1000000000 < 1000000000" by simp_all
  ultimately have "d < (c + 1) * 1000000000" unfolding distrib_right by linarith
  then show ?thesis by simp
qed

lemma assert_within_Inr:
  assumes "assert_within_absolute_lifetime M rec h = (Inr u, h')"
  shows "within_cap M h rec \<and> clock_on h h' \<and> store_client h' = store_client h"
proof (cases "tm_absolute_lifetime_secs M = 0 \<or> sr_family_created_at rec = None")
  case True
  with assms show ?thesis
    by (auto simp: assert_within_absolute_lifetime_def within_cap_def split: if_splits option.splits)
next
  case False
  then obtain born where born: "sr_family_created_at rec = Some born" by auto
  let ?age = "clock h 0 - born"
  from assms False born have h': "h' = h\<lparr>clock := (\<lambda>i. clock h (Suc i))\<rparr>"
    and "\<not> (\<bar>whole_seconds ?age\<bar> > int (tm_absolute_lifetime_secs M) \<and> ?age > 0)"
    by (auto simp: assert_within_absolute_lifetime_def rbind_def host_run Let_def split: if_splits)
  then have "?age < (int (tm_absolute_lifetime_secs M) + 1) * 10 ^ 9"
    using whole_seconds_le [of ?age "int (tm_absolute_lifetime_secs M)"] by (cases "0 < ?age") auto
  with born h' show ?thesis by (auto simp: within_cap_def intro: clock_on_next exI [of _ 0])
qed

text \<open>What a successor inherits unchanged.\<close>

definition same_identity :: "SessionRecord \<Rightarrow> SessionRecord \<Rightarrow> bool" where
  "same_identity a b \<longleftrightarrow> sr_user_id b = sr_user_id a \<and> sr_tenant_id b = sr_tenant_id a \<and> sr_role b = sr_role a \<and>
     sr_mfa_enabled b = sr_mfa_enabled a \<and> sr_mfa_verified b = sr_mfa_verified a \<and>
     sr_family_id b = sr_family_id a \<and> sr_family_created_at b = sr_family_created_at a"

lemma identity_record_Inr:
  assumes "identity_record seed ip user_agent h = (Inr rec, h')"
  shows "same_identity seed rec \<and> clock_on h h' \<and> store_client h' = store_client h"
  using assms
  by (auto simp: identity_record_def rbind_def host_run same_identity_def case_prod_unfold intro: clock_on_next)

definition claims_of :: "'r TokenManagerService \<Rightarrow> SessionRecord \<Rightarrow> DashboardClaims \<Rightarrow> bool" where
  "claims_of M rec claims \<longleftrightarrow> dc_sub claims = sr_user_id rec \<and> Some (dc_tenant_id claims) = sr_tenant_id rec \<and>
     dc_role claims = sr_role rec \<and> dc_mfa_enabled claims = sr_mfa_enabled rec \<and>
     dc_mfa_verified claims = sr_mfa_verified rec \<and> dc_exp claims = access_exp M (dc_iat claims)"

lemma names_a_tenant_iff: "names_a_tenant rec \<longleftrightarrow> (\<exists>t. sr_tenant_id rec = Some t \<and> t \<noteq> [])"
  by (auto simp: names_a_tenant_def split: option.splits)

lemma rotated_claims_Inr:
  assumes "rotated_claims M rec epoch h = (Inr claims, h')" and "names_a_tenant rec"
  shows "claims_of M rec claims \<and> store_client h' = store_client h"
  using assms by (auto simp: rotated_claims_def rbind_eq_Inr host_Inr claims_of_def names_a_tenant_iff)

context token_service
begin

lemma find_session_Inr:
  assumes "find_session (tm_session_store M) kind h c = (Inr live, c')" and "typed (tm_namespace M) (view (server c))"
  shows "server c' = server c \<and> (case live of
      None \<Rightarrow> str_at (view (server c)) (rt_key (tm_namespace M) kind h) = None
    | Some rec \<Rightarrow> \<exists>j. str_at (view (server c)) (rt_key (tm_namespace M) kind h) = Some j \<and>
        dec_rec (rs_codec (tm_session_store M)) j = Some rec)"
proof -
  let ?k = "rt_key (tm_namespace M) kind h"
  from assms(1) obtain c1 raw c2 where "connection c = (Inr (), c1)"
    and "query (\<lambda>r. (r_get (rs_redis (tm_session_store M)) ?k r, r)) c1 = (Inr raw, c2)"
    and rest: "(case raw of None \<Rightarrow> ret None
        | Some json \<Rightarrow> rbind (json_result (dec_rec (rs_codec (tm_session_store M)) json)) (\<lambda>s. ret (Some s))) c2 = (Inr live, c')"
    by (auto simp: find_session_def find_session_inner_def map_err_eq_Inr rbind_eq_Inr)
  then have same: "server c2 = server c" and raw: "raw = r_get (rs_redis (tm_session_store M)) ?k (server c)"
    using connection_Inr query_Inr by fastforce+
  have str: "str_at (view (server c)) ?k = raw" using raw assms(2) by (simp add: get typedD)
  show ?thesis
  proof (cases raw)
    case None
    with rest same str show ?thesis by simp
  next
    case (Some j)
    with rest obtain rec where "dec_rec (rs_codec (tm_session_store M)) j = Some rec" "live = Some rec" "c' = c2"
      by (cases "dec_rec (rs_codec (tm_session_store M)) j") auto
    with Some same str show ?thesis by simp
  qed
qed

lemma reissue_rotated_Inr:
  assumes "reissue_rotated M rec subject new h = (Inr res, h')" and "names_a_tenant rec"
  shows "rot_refresh_token res = new \<and> server (store_client h') = server (store_client h) \<and>
    (\<exists>claims. claims_of M rec claims \<and> sign (lib_jws (tm_libs M)) (lib_dashboard (tm_libs M))
       (stamp_dashboard M claims) (tm_key M) = Inr (rot_access_token res))"
proof -
  from assms(1) obtain epoch c where
    ep: "current_epoch (tm_session_store M) Dashboard subject (store_client h) = (Inr epoch, c)"
    and rest: "rbind (rotated_claims M rec epoch) (\<lambda>claims. rbind (issue_access M claims) (\<lambda>access_token.
      ret \<lparr>rot_access_token = access_token, rot_refresh_token = new\<rparr>)) (h\<lparr>store_client := c\<rparr>) = (Inr res, h')"
    by (auto simp: reissue_rotated_def rbind_eq_Inr on_store_Inr)
  have "server c = server (store_client h)"
    using preservesD [OF preserves_reads(2) [of "\<lambda>r. r = server (store_client h)"] HOL.refl ep] .
  moreover from rest obtain claims g where
    c: "(rotated_claims M rec epoch :: ('r, DashboardClaims) engine_io) (h\<lparr>store_client := c\<rparr>) = (Inr claims, g)"
    and "sign (lib_jws (tm_libs M)) (lib_dashboard (tm_libs M)) (stamp_dashboard M claims) (tm_key M) =
      Inr (rot_access_token res)" and "rot_refresh_token res = new" and "h' = g"
    by (auto simp: rbind_eq_Inr issue_access_Inr)
  ultimately show ?thesis using rotated_claims_Inr [OF c assms(2)] by auto
qed

end

definition rotation_of ::
    "'r TokenManagerService \<Rightarrow> string \<Rightarrow> string \<Rightarrow> SessionRecord \<Rightarrow> string \<Rightarrow> SessionRotation" where
  "rotation_of M raw new rec subject =
     \<lparr>ro_old_hash = redis_hash (lib_sha256 (tm_libs M)) raw, ro_new_hash = redis_hash (lib_sha256 (tm_libs M)) new,
      ro_new_raw = new, ro_new_record = rec, ro_subject_hash = subject,
      ro_refresh_ttl = tm_refresh_ttl_secs M, ro_grace_ttl = tm_grace_ttl_secs M\<rparr>"

lemma rotation_sel:
  "ro_old_hash (rotation_of M raw new rec subject) = redis_hash (lib_sha256 (tm_libs M)) raw"
  "ro_new_hash (rotation_of M raw new rec subject) = redis_hash (lib_sha256 (tm_libs M)) new"
  "ro_new_record (rotation_of M raw new rec subject) = rec" "ro_subject_hash (rotation_of M raw new rec subject) = subject"
  "ro_refresh_ttl (rotation_of M raw new rec subject) = tm_refresh_ttl_secs M"
  "ro_grace_ttl (rotation_of M raw new rec subject) = tm_grace_ttl_secs M"
  by (simp_all add: rotation_of_def)

definition finish_reissue ::
    "'r TokenManagerService \<Rightarrow> string \<Rightarrow> string \<Rightarrow> SessionRecord \<Rightarrow> string \<Rightarrow> RotateOutcome \<Rightarrow> ('r, RotatedTokens) engine_io" where
  "finish_reissue M ip user_agent rec new outcome =
     (case outcome of
        Rotated _ \<Rightarrow> reissue_rotated M rec (subject_hash M Dashboard (sr_tenant_id rec) (sr_user_id rec)) new
      | Grace recovered \<Rightarrow> reissue_grace M recovered ip user_agent
      | Reused family \<Rightarrow> reissue_reused M family ip user_agent
      | Invalid \<Rightarrow> raise AuthError.RefreshTokenInvalid)"

lemma reissue_tokens_eq:
  "reissue_tokens M raw ip user_agent =
     (if \<not> is_refresh_token_shape raw then raise AuthError.RefreshTokenInvalid
      else
        rbind generate_refresh (\<lambda>new.
        rbind (on_store (find_session (tm_session_store M) Dashboard (redis_hash (lib_sha256 (tm_libs M)) raw))) (\<lambda>live.
        if (case live of None \<Rightarrow> False | Some rec \<Rightarrow> \<not> names_a_tenant rec)
        then raise AuthError.RefreshTokenInvalid
        else
          rbind (seed_record live ip user_agent) (\<lambda>seed.
          rbind (assert_within_absolute_lifetime M seed) (\<lambda>_.
          rbind (identity_record seed ip user_agent) (\<lambda>rec.
          rbind (on_store (rotate_session (tm_session_store M) Dashboard (rotation_of M raw new rec
            (subject_hash M Dashboard (sr_tenant_id rec) (sr_user_id rec)))))
          (finish_reissue M ip user_agent rec new)))))))"
  unfolding reissue_tokens_def rotation_of_def finish_reissue_def [abs_def] Let_def by (rule HOL.refl)

lemma reissue_tokens_steps:
  assumes "reissue_tokens M raw ip user_agent h = (Inr res, h')"
  obtains live c2 h1 seed h3 h4 rec h5 outcome c6 new where
    "find_session (tm_session_store M) Dashboard (redis_hash (lib_sha256 (tm_libs M)) raw) (store_client h) = (Inr live, c2)"
    and "\<And>s. live = Some s \<Longrightarrow> names_a_tenant s"
    and "clock h1 = clock h" and "store_client h1 = c2"
    and "(seed_record live ip user_agent :: ('r, SessionRecord) engine_io) h1 = (Inr seed, h3)"
    and "assert_within_absolute_lifetime M seed h3 = (Inr (), h4)"
    and "(identity_record seed ip user_agent :: ('r, SessionRecord) engine_io) h4 = (Inr rec, h5)"
    and "rotate_session (tm_session_store M) Dashboard (rotation_of M raw new rec
      (subject_hash M Dashboard (sr_tenant_id rec) (sr_user_id rec))) (store_client h5) = (Inr outcome, c6)"
    and "finish_reissue M ip user_agent rec new outcome (h5\<lparr>store_client := c6\<rparr>) = (Inr res, h')"
proof -
  let ?find = "find_session (tm_session_store M) Dashboard (redis_hash (lib_sha256 (tm_libs M)) raw)"
  let ?go = "\<lambda>new live. rbind (seed_record live ip user_agent) (\<lambda>seed.
          rbind (assert_within_absolute_lifetime M seed) (\<lambda>_.
          rbind (identity_record seed ip user_agent) (\<lambda>rec.
          rbind (on_store (rotate_session (tm_session_store M) Dashboard (rotation_of M raw new rec
            (subject_hash M Dashboard (sr_tenant_id rec) (sr_user_id rec)))))
          (finish_reissue M ip user_agent rec new))))"
  let ?after = "\<lambda>new live. if (case live of None \<Rightarrow> False | Some rec \<Rightarrow> \<not> names_a_tenant rec)
        then raise AuthError.RefreshTokenInvalid else ?go new live"
  have shape: "is_refresh_token_shape raw" using assms by (auto simp: reissue_tokens_def split: if_splits)
  from assms obtain new g where gen: "(generate_refresh :: ('r, string) engine_io) h = (Inr new, g)"
    and find_rest: "rbind (on_store ?find) (?after new) g = (Inr res, h')"
    unfolding reissue_tokens_eq
    by (simp only: shape not_True_eq_False if_False rbind_eq_Inr [of generate_refresh]) blast
  from gen have g: "clock g = clock h" "store_client g = store_client h" by (simp_all add: generate_refresh_Inr)
  from find_rest obtain live c2 where find: "?find (store_client g) = (Inr live, c2)"
    and rest: "?after new live (g\<lparr>store_client := c2\<rparr>) = (Inr res, h')"
    unfolding rbind_eq_Inr [of "on_store _"] on_store_Inr by blast
  from rest have ok: "names_a_tenant s" if "live = Some s" for s using that by (auto split: if_splits)
  from rest obtain seed h3 h4 rec h5 outcome h6 where
    "(seed_record live ip user_agent :: ('r, SessionRecord) engine_io) (g\<lparr>store_client := c2\<rparr>) = (Inr seed, h3)"
    and "assert_within_absolute_lifetime M seed h3 = (Inr (), h4)"
    and "(identity_record seed ip user_agent :: ('r, SessionRecord) engine_io) h4 = (Inr rec, h5)"
    and "on_store (rotate_session (tm_session_store M) Dashboard (rotation_of M raw new rec
      (subject_hash M Dashboard (sr_tenant_id rec) (sr_user_id rec)))) h5 = (Inr outcome, h6)"
    and "finish_reissue M ip user_agent rec new outcome h6 = (Inr res, h')"
    by (auto split: if_splits simp: rbind_eq_Inr)
  moreover from this obtain c6 where "h6 = h5\<lparr>store_client := c6\<rparr>"
    and "rotate_session (tm_session_store M) Dashboard (rotation_of M raw new rec
      (subject_hash M Dashboard (sr_tenant_id rec) (sr_user_id rec))) (store_client h5) = (Inr outcome, c6)"
    by (auto simp: on_store_Inr)
  ultimately show thesis
    using that [OF find [unfolded g] ok, of "g\<lparr>store_client := c2\<rparr>"] g by simp
qed

lemma seed_record_Inr:
  assumes "seed_record live ip user_agent h = (Inr seed, h')"
  shows "clock_on h h' \<and> store_client h' = store_client h \<and> (\<forall>s. live = Some s \<longrightarrow> seed = s)"
  using assms
  by (cases live) (auto simp: seed_record_def placeholder_record_def rbind_def host_run case_prod_unfold intro: clock_on_next)

text \<open>A session that carries on another: live under its hash, with the identity it inherited.\<close>

definition carries_on :: "codec \<Rightarrow> string \<Rightarrow> SessionKind \<Rightarrow> string \<Rightarrow> rview \<Rightarrow> SessionRecord \<Rightarrow> bool" where
  "carries_on J ns kind h v rec \<longleftrightarrow>
     (\<exists>j rec'. str_at v (rt_key ns kind h) = Some j \<and> dec_rec J j = Some rec' \<and> same_identity rec rec')"

context token_service
begin

lemma create_recovered_Inr:
  assumes "create_recovered_session (tm_session_store M) kind subject h rec t c = (Inr True, c')"
    and "typed (tm_namespace M) (view (server c))" and "ttl_ok t"
  shows "\<exists>j d. enc_rec (rs_codec (tm_session_store M)) rec = Some j \<and>
    view (server c') = v_create (tm_namespace M) kind subject h (sr_family_id rec) j d t (view (server c))"
proof -
  let ?S = "tm_session_store M"
  from assms(1) obtain j c1 written where j: "enc_rec (rs_codec ?S) rec = Some j"
    and c1: "connection c = (Inr (), c1)" and "written = 1"
    and q: "query (recover_script ?S kind subject h (sr_family_id rec) j (enc_det (rs_codec ?S) (at_creation rec)) t) c1 =
      (Inr written, c')"
    by (cases "enc_rec (rs_codec ?S) rec")
      (auto simp: create_recovered_session_def create_recovered_session_inner_def Let_def map_err_eq_Inr rbind_eq_Inr)
  let ?script = "recover_script ?S kind subject h (sr_family_id rec) j (enc_det (rs_codec ?S) (at_creation rec)) t (server c)"
  have "?script = (written, server c')" using query_Inr [OF q] connection_Inr [OF c1] by simp
  with \<open>written = 1\<close> view_recover [OF assms(2,3)] fst_recover
  have "view (server c') = v_create (tm_namespace M) kind subject h (sr_family_id rec) j
      (enc_det (rs_codec ?S) (at_creation rec)) t (view (server c))"
    by (metis fst_conv snd_conv zero_neq_one)
  with j show ?thesis by blast
qed

lemma reissue_grace_Inr:
  assumes run: "reissue_grace M recovered ip user_agent h = (Inr res, h')"
    and typed: "typed (tm_namespace M) (store_view view h)" and ttl: "ttl_ok (tm_refresh_ttl_secs M)"
  shows "names_a_tenant recovered" and "within_cap M h recovered"
    and "carries_on (rs_codec (tm_session_store M)) (tm_namespace M) Dashboard
      (redis_hash (lib_sha256 (tm_libs M)) (rot_refresh_token res)) (store_view view h') recovered"
    and "old \<noteq> redis_hash (lib_sha256 (tm_libs M)) (rot_refresh_token res) \<Longrightarrow>
      str_at (store_view view h') (rt_key (tm_namespace M) Dashboard old) =
      str_at (store_view view h) (rt_key (tm_namespace M) Dashboard old)"
    and "\<exists>claims. claims_of M recovered claims \<and> sign (lib_jws (tm_libs M)) (lib_dashboard (tm_libs M))
       (stamp_dashboard M claims) (tm_key M) = Inr (rot_access_token res)"
    and "store_view view h' (rp_key (tm_namespace M) Dashboard old) = None \<longleftrightarrow>
      store_view view h (rp_key (tm_namespace M) Dashboard old) = None"
proof -
  show tenant: "names_a_tenant recovered"
    using run by (auto simp: reissue_grace_def rbind_eq_Inr split: if_splits)
  from run tenant obtain h1 fresh rec h3 c4 where
    cap: "assert_within_absolute_lifetime M recovered h = (Inr (), h1)"
    and rec: "(identity_record recovered ip user_agent :: ('r, SessionRecord) engine_io)
      (h1\<lparr>entropy := (\<lambda>i. entropy h1 (32 + i))\<rparr>) = (Inr rec, h3)"
    and create: "create_recovered_session (tm_session_store M) Dashboard
      (subject_hash M Dashboard (sr_tenant_id rec) (sr_user_id rec)) (redis_hash (lib_sha256 (tm_libs M)) fresh) rec
      (tm_refresh_ttl_secs M) (store_client h3) = (Inr True, c4)"
    and fin: "reissue_rotated M rec (subject_hash M Dashboard (sr_tenant_id rec) (sr_user_id rec)) fresh
      (h3\<lparr>store_client := c4\<rparr>) = (Inr res, h')"
    by (auto simp: reissue_grace_def Let_def rbind_eq_Inr generate_refresh_Inr on_store_Inr split: if_splits)
  note cap' = assert_within_Inr [OF cap]
  from cap' show "within_cap M h recovered" by simp
  have id: "same_identity recovered rec" and c3: "store_client h3 = store_client h"
    using identity_record_Inr [OF rec] cap' by simp_all
  have tenant': "names_a_tenant rec" using tenant id by (simp add: names_a_tenant_iff same_identity_def)
  note fin' = reissue_rotated_Inr [OF fin tenant']
  from create_recovered_Inr [OF create _ ttl] typed c3 obtain j d where j: "enc_rec (rs_codec (tm_session_store M)) rec = Some j"
    and v: "view (server c4) = v_create (tm_namespace M) Dashboard (subject_hash M Dashboard (sr_tenant_id rec) (sr_user_id rec))
      (redis_hash (lib_sha256 (tm_libs M)) fresh) (sr_family_id rec) j d (tm_refresh_ttl_secs M) (store_view view h)"
    by auto
  show "carries_on (rs_codec (tm_session_store M)) (tm_namespace M) Dashboard
      (redis_hash (lib_sha256 (tm_libs M)) (rot_refresh_token res)) (store_view view h') recovered"
    unfolding carries_on_def using fin' v id dec_enc_rec [OF j]
    by (auto simp: v_create_def Let_def view_obs)
  show "str_at (store_view view h') (rt_key (tm_namespace M) Dashboard old) =
      str_at (store_view view h) (rt_key (tm_namespace M) Dashboard old)"
    if "old \<noteq> redis_hash (lib_sha256 (tm_libs M)) (rot_refresh_token res)"
    using fin' v that by (auto simp: v_create_def Let_def view_obs)
  show "\<exists>claims. claims_of M recovered claims \<and> sign (lib_jws (tm_libs M)) (lib_dashboard (tm_libs M))
       (stamp_dashboard M claims) (tm_key M) = Inr (rot_access_token res)"
    using fin' id by (auto simp: claims_of_def same_identity_def)
  show "store_view view h' (rp_key (tm_namespace M) Dashboard old) = None \<longleftrightarrow>
      store_view view h (rp_key (tm_namespace M) Dashboard old) = None"
    using fin' v by (auto simp: v_create_def Let_def view_obs)
qed

lemma rotated_arm:
  assumes typed: "typed (tm_namespace M) (view (server c))"
    and ok: "records_ok (rs_codec (tm_session_store M)) (tm_namespace M) (view (server c))"
    and ttl: "ttl_ok (tm_refresh_ttl_secs M)" "tm_grace_ttl_secs M \<le> tm_refresh_ttl_secs M"
    and live: "str_at (view (server c)) (rt_key (tm_namespace M) Dashboard (redis_hash (lib_sha256 (tm_libs M)) raw)) = Some i"
    and dec: "dec_rec (rs_codec (tm_session_store M)) i = Some s"
    and rot: "rotate_session (tm_session_store M) Dashboard (rotation_of M raw new rec subject) c = (Inr outcome, c')"
    and fin: "finish_reissue M ip user_agent rec new outcome g = (Inr res, h')" and g: "store_client g = c'"
    and id: "same_identity s rec" and tenant: "names_a_tenant s"
    and fresh: "redis_hash (lib_sha256 (tm_libs M)) (rot_refresh_token res) \<noteq> redis_hash (lib_sha256 (tm_libs M)) raw"
  shows "carries_on (rs_codec (tm_session_store M)) (tm_namespace M) Dashboard
      (redis_hash (lib_sha256 (tm_libs M)) (rot_refresh_token res)) (store_view view h') s"
    and "str_at (store_view view h') (rt_key (tm_namespace M) Dashboard (redis_hash (lib_sha256 (tm_libs M)) raw)) = None"
    and "\<exists>claims. claims_of M s claims \<and> sign (lib_jws (tm_libs M)) (lib_dashboard (tm_libs M))
       (stamp_dashboard M claims) (tm_key M) = Inr (rot_access_token res)"
proof -
  let ?S = "tm_session_store M" and ?ns = "tm_namespace M" and ?rot = "rotation_of M raw new rec subject"
  let ?old = "redis_hash (lib_sha256 (tm_libs M)) raw" and ?new = "redis_hash (lib_sha256 (tm_libs M)) new"
  from rotate_outcome_live [OF typed ok _ _ _ rot, unfolded rotation_sel, OF ttl live] dec obtain j where out: "outcome = Rotated s"
    and j: "enc_rec (rs_codec ?S) rec = Some j"
    and v: "view (server c') = v_set_ex (sd_key ?ns Dashboard ?new) (enc_det (rs_codec ?S) (at_creation rec))
      (tm_refresh_ttl_secs M) (v_del (sd_key ?ns Dashboard ?old) (v_rotate ?ns Dashboard ?rot j (view (server c))))"
    by auto
  have "names_a_tenant rec" using tenant id by (simp add: names_a_tenant_iff same_identity_def)
  from reissue_rotated_Inr [OF _ this] fin out g have res: "rot_refresh_token res = new"
    and same: "server (store_client h') = server c'"
    and claims: "\<exists>claims. claims_of M rec claims \<and> sign (lib_jws (tm_libs M)) (lib_dashboard (tm_libs M))
       (stamp_dashboard M claims) (tm_key M) = Inr (rot_access_token res)"
    by (auto simp: finish_reissue_def)
  have neq: "ro_new_hash ?rot \<noteq> ro_old_hash ?rot" using fresh res by (simp add: rotation_sel)
  have at: "str_at (view (server c')) (rt_key ?ns Dashboard h) =
      (if h = ?old then None else if h = ?new then Some j else str_at (view (server c)) (rt_key ?ns Dashboard h))" for h
    using obs_rotate(1) [OF neq, of ?ns Dashboard j "view (server c)" Dashboard h] by (simp add: v view_obs rotation_sel)
  show "carries_on (rs_codec ?S) ?ns Dashboard (redis_hash (lib_sha256 (tm_libs M)) (rot_refresh_token res))
      (store_view view h') s"
    unfolding carries_on_def same res at using neq dec_enc_rec [OF j] id by (simp add: rotation_sel)
  show "str_at (store_view view h') (rt_key ?ns Dashboard ?old) = None" unfolding same at by simp
  show "\<exists>claims. claims_of M s claims \<and> sign (lib_jws (tm_libs M)) (lib_dashboard (tm_libs M))
       (stamp_dashboard M claims) (tm_key M) = Inr (rot_access_token res)"
    using claims id by (auto simp: claims_of_def same_identity_def)
qed

lemma reissue_success:
  assumes run: "reissue_tokens M raw ip user_agent h = (Inr res, h')"
    and typed: "typed (tm_namespace M) (store_view view h)"
    and ok: "records_ok (rs_codec (tm_session_store M)) (tm_namespace M) (store_view view h)"
    and ttl: "ttl_ok (tm_refresh_ttl_secs M)" "tm_grace_ttl_secs M \<le> tm_refresh_ttl_secs M"
  shows "\<exists>rec. presented (rs_codec (tm_session_store M)) (tm_namespace M) Dashboard
      (redis_hash (lib_sha256 (tm_libs M)) raw) (store_view view h) rec \<and> names_a_tenant rec \<and> within_cap M h rec \<and>
    (redis_hash (lib_sha256 (tm_libs M)) (rot_refresh_token res) \<noteq> redis_hash (lib_sha256 (tm_libs M)) raw \<longrightarrow>
     carries_on (rs_codec (tm_session_store M)) (tm_namespace M) Dashboard
       (redis_hash (lib_sha256 (tm_libs M)) (rot_refresh_token res)) (store_view view h') rec \<and>
     str_at (store_view view h') (rt_key (tm_namespace M) Dashboard (redis_hash (lib_sha256 (tm_libs M)) raw)) = None \<and>
     (str_at (store_view view h) (rt_key (tm_namespace M) Dashboard (redis_hash (lib_sha256 (tm_libs M)) raw)) = None \<longrightarrow>
       store_view view h' (rp_key (tm_namespace M) Dashboard (redis_hash (lib_sha256 (tm_libs M)) raw)) = None) \<and>
     (\<exists>claims. claims_of M rec claims \<and> sign (lib_jws (tm_libs M)) (lib_dashboard (tm_libs M))
        (stamp_dashboard M claims) (tm_key M) = Inr (rot_access_token res)))"
proof -
  let ?S = "tm_session_store M" and ?old = "redis_hash (lib_sha256 (tm_libs M)) raw"
  from run obtain live c2 h1 seed h3 h4 rec h5 outcome c6 new where
    find: "find_session ?S Dashboard ?old (store_client h) = (Inr live, c2)"
    and tenant: "\<And>s. live = Some s \<Longrightarrow> names_a_tenant s"
    and h1: "clock h1 = clock h" "store_client h1 = c2"
    and seed: "(seed_record live ip user_agent :: ('r, SessionRecord) engine_io) h1 = (Inr seed, h3)"
    and cap: "assert_within_absolute_lifetime M seed h3 = (Inr (), h4)"
    and rec: "(identity_record seed ip user_agent :: ('r, SessionRecord) engine_io) h4 = (Inr rec, h5)"
    and rot: "rotate_session ?S Dashboard (rotation_of M raw new rec
      (subject_hash M Dashboard (sr_tenant_id rec) (sr_user_id rec))) (store_client h5) = (Inr outcome, c6)"
    and fin: "finish_reissue M ip user_agent rec new outcome (h5\<lparr>store_client := c6\<rparr>) = (Inr res, h')"
    by (rule reissue_tokens_steps) blast
  note find' = find_session_Inr [OF find typed] and cap' = assert_within_Inr [OF cap]
  have srv: "server (store_client h5) = server (store_client h)"
    using identity_record_Inr [OF rec] cap' seed_record_Inr [OF seed] find' h1 by simp
  have on5: "clock_on h h3" "clock_on h h5"
    using identity_record_Inr [OF rec] cap' seed_record_Inr [OF seed] h1 clock_on_same clock_on_trans by metis+
  show ?thesis
  proof (cases live)
    case (Some s)
    with find' obtain i where i: "str_at (store_view view h) (rt_key (tm_namespace M) Dashboard ?old) = Some i"
      and dec: "dec_rec (rs_codec ?S) i = Some s" by auto
    have id: "same_identity s rec" using identity_record_Inr [OF rec] seed_record_Inr [OF seed] Some by simp
    have "within_cap M h s" using cap' on5 seed_record_Inr [OF seed] Some within_cap_mono by blast
    moreover have "presented (rs_codec ?S) (tm_namespace M) Dashboard ?old (store_view view h) s"
      unfolding presented_def i option.case by (rule dec)
    moreover note rotated_arm [OF _ _ ttl _ dec rot fin _ id tenant [OF Some], unfolded srv, OF typed ok i, simplified]
    ultimately show ?thesis using tenant [OF Some] i by auto
  next
    case None
    with find' have dead: "str_at (store_view view h) (rt_key (tm_namespace M) Dashboard ?old) = None" by simp
    note dead' = rotate_outcome_dead [OF _ _ _ rot, unfolded srv rotation_sel, OF typed ok dead]
    from dead'(2) fin obtain s where out: "outcome = Grace s"
      and pres: "presented (rs_codec ?S) (tm_namespace M) Dashboard ?old (store_view view h) s"
      by (cases outcome) (auto simp: finish_reissue_def reissue_reused_def Let_def rbind_eq_Inr)
    have "typed (tm_namespace M) (store_view view (h5\<lparr>store_client := c6\<rparr>))"
      using dead'(1) typed by (simp add: typed_def view_type)
    note g = reissue_grace_Inr [OF _ this ttl(1)]
    from fin out have fin': "reissue_grace M s ip user_agent (h5\<lparr>store_client := c6\<rparr>) = (Inr res, h')"
      by (simp add: finish_reissue_def)
    have "clock_on h (h5\<lparr>store_client := c6\<rparr>)" using on5(2) by (simp add: clock_on_def)
    with g(2) [OF fin'] have "within_cap M h s" by (rule within_cap_mono [rotated])
    moreover have "str_at (store_view view h') (rt_key (tm_namespace M) Dashboard ?old) = None"
      if "redis_hash (lib_sha256 (tm_libs M)) (rot_refresh_token res) \<noteq> ?old"
      using g(4) [OF fin' that [symmetric]] dead'(1) dead by (simp add: view_obs)
    moreover have "store_view view h' (rp_key (tm_namespace M) Dashboard ?old) = None"
      using g(6) [OF fin', of ?old] dead'(1) by (simp add: view_obs)
    ultimately show ?thesis using pres g(1,3,5) [OF fin'] by blast
  qed
qed

end

section \<open>A live token rotates\<close>

lemma quiet_connection [preserve]: "preserves (\<lambda>c. net c = []) connection"
  by (simp add: preserves_def connection_up)

lemma quiet_query [preserve]: "preserves (\<lambda>c. net c = []) (query f)"
  by (simp add: preserves_def query_up)

lemma quiet_rotate: "preserves (\<lambda>c. net c = []) (rotate_session S kind rot)"
  unfolding rotate_session_def rotate_inner_def family_is_alive_def move_session_detail_def Let_def
  by (intro preserve)

lemma session_prefixes:
  assumes "p \<in> {Ra, Rv, Ep, Pep}"
  shows "p \<noteq> kp_rt (kind_prefixes kind)" "p \<noteq> kp_rp (kind_prefixes kind)" "p \<noteq> kp_cf (kind_prefixes kind)"
    "p \<noteq> kp_fam (kind_prefixes kind)" "p \<noteq> kp_sess (kind_prefixes kind)" "p \<noteq> kp_sd (kind_prefixes kind)"
  using assms by (cases kind; auto)+

lemma account_keys:
  assumes "p \<in> {Ra, Rv, Ep, Pep}"
  shows "key ns p i \<notin> session_keys ns"
  by (simp add: session_keys_def session_prefixes [OF assms])

lemma epoch_is_cong:
  "v (key ns (epoch_prefix kind) s) = v' (key ns (epoch_prefix kind) s) \<Longrightarrow> epoch_is ns kind s v n = epoch_is ns kind s v' n"
  by (simp add: epoch_is_def str_at_def Let_def)

context token_service
begin

lemma assert_within_run:
  assumes "\<And>born. sr_family_created_at rec = Some born \<Longrightarrow> clock h 0 \<le> born + int (tm_absolute_lifetime_secs M) * 10 ^ 9"
  shows "\<exists>h'. assert_within_absolute_lifetime M rec h = (Inr (), h') \<and> (h' = h \<or> h' = h\<lparr>clock := (\<lambda>i. clock h (Suc i))\<rparr>)"
proof (cases "sr_family_created_at rec")
  case (Some born)
  let ?age = "clock h 0 - born"
  have "?age div 10 ^ 9 \<le> int (tm_absolute_lifetime_secs M)"
    using zdiv_mono1 [of ?age "int (tm_absolute_lifetime_secs M) * 10 ^ 9" "10 ^ 9"] assms [OF Some] by simp
  then have "\<not> (\<bar>whole_seconds ?age\<bar> > int (tm_absolute_lifetime_secs M) \<and> ?age > 0)"
    by (auto simp: whole_seconds_def pos_imp_zdiv_nonneg_iff)
  with Some show ?thesis by (auto simp: assert_within_absolute_lifetime_def rbind_def host_run Let_def)
qed (simp add: assert_within_absolute_lifetime_def)

lemma reissue_live_run:
  assumes net: "net (store_client h) = []" and typed: "typed (tm_namespace M) (store_view view h)"
    and ok: "records_ok (rs_codec (tm_session_store M)) (tm_namespace M) (store_view view h)"
    and ttl: "ttl_ok (tm_refresh_ttl_secs M)" "tm_grace_ttl_secs M \<le> tm_refresh_ttl_secs M"
    and total: "json_total (lib_dashboard (tm_libs M))" and shape: "is_refresh_token_shape raw"
    and live: "str_at (store_view view h) (rt_key (tm_namespace M) Dashboard (redis_hash (lib_sha256 (tm_libs M)) raw)) = Some i"
    and dec: "dec_rec (rs_codec (tm_session_store M)) i = Some s" and tenant: "names_a_tenant s"
    and born: "\<And>born. sr_family_created_at s = Some born \<Longrightarrow>
      instant_ok born \<and> clock h 0 \<le> born + int (tm_absolute_lifetime_secs M) * 10 ^ 9"
    and instants: "instant_ok (clock h 0)" "instant_ok (clock h 1)"
    and epoch: "epoch_is (tm_namespace M) Dashboard (subject_hash M Dashboard (sr_tenant_id s) (sr_user_id s)) (store_view view h) n"
  shows "\<exists>res h'. reissue_tokens M raw ip user_agent h = (Inr res, h') \<and>
    rot_refresh_token res = to_hex (map (entropy h) [0..<32])"
proof -
  let ?S = "tm_session_store M" and ?subject = "subject_hash M Dashboard (sr_tenant_id s) (sr_user_id s)"
  define new where "new = to_hex (map (entropy h) [0..<32])"
  define h1 where "h1 = h\<lparr>entropy := (\<lambda>i. entropy h (32 + i))\<rparr>"
  have find: "find_session ?S Dashboard (redis_hash (lib_sha256 (tm_libs M)) raw) (store_client h) = (Inr (Some s), store_client h)"
    using find_session_run [OF typed live dec] net
    by (cases "store_client h") (simp add: find_session_def map_err_def)
  obtain h2 where cap: "assert_within_absolute_lifetime M s h1 = (Inr (), h2)"
    and h2: "h2 = h1 \<or> h2 = h1\<lparr>clock := (\<lambda>i. clock h1 (Suc i))\<rparr>"
    using assert_within_run [of s h1] born by (auto simp: h1_def)
  define rec where "rec = projr (fst ((identity_record s ip user_agent :: ('r, SessionRecord) engine_io) h2))"
  define h3 where "h3 = h2\<lparr>clock := (\<lambda>i. clock h2 (Suc i))\<rparr>"
  have rec: "(identity_record s ip user_agent :: ('r, SessionRecord) engine_io) h2 = (Inr rec, h3)"
    by (simp add: rec_def h3_def identity_record_def rbind_def host_run case_prod_unfold)
  have id: "same_identity s rec" using identity_record_Inr [OF rec] by simp
  have "sr_created_at rec = clock h2 0"
    by (simp add: rec_def identity_record_def rbind_def host_run case_prod_unfold)
  with h2 instants id born have "record_ok rec"
    by (auto simp: record_ok_def h1_def same_identity_def split: option.splits)
  then obtain j where j: "enc_rec (rs_codec ?S) rec = Some j" using enc_rec_total by blast
  have c3: "store_client h3 = store_client h" using h2 by (auto simp: h3_def h1_def)
  let ?rot = "rotation_of M raw new rec ?subject"
  have "interpret_rotate (rs_codec ?S) (fst (rotate_script ?S Dashboard ?rot j (server (store_client h)))) = Inr (PRotated s)"
  proof -
    from ok live obtain s' where s': "enc_rec (rs_codec ?S) s' = Some i" unfolding records_ok_def by blast
    with enc_rec_object [OF s'] dec show ?thesis
      using rotate_live(1) [OF typed, of ?rot Dashboard i j] ttl live
      by (auto simp: rotation_of_def interpret_rotate_simps)
  qed
  from rotate_run_live [OF this _ net] j have "fst (rotate_session ?S Dashboard ?rot (store_client h)) = Inr (Rotated s)"
    by (simp add: rotation_sel)
  then obtain c6 where rot: "rotate_session ?S Dashboard ?rot (store_client h) = (Inr (Rotated s), c6)"
    by (metis prod.collapse)
  have "net c6 = []" by (rule preservesD [OF quiet_rotate net rot])
  have "untouched (tm_namespace M) (key (tm_namespace M) (epoch_prefix Dashboard) ?subject)
      (store_view view h (key (tm_namespace M) (epoch_prefix Dashboard) ?subject)) (view (server c6))"
    by (rule preservesD [OF untouched_writes(3) _ rot])
      (use ttl typed account_keys [of Ep] in \<open>simp_all add: rotation_sel untouched_def\<close>)
  then have "epoch_is (tm_namespace M) Dashboard ?subject (view (server c6)) n"
    using epoch epoch_is_cong unfolding untouched_def by metis
  with \<open>net c6 = []\<close> have ep: "current_epoch ?S Dashboard ?subject c6 = (Inr n, c6)" by (simp add: current_epoch_run)
  have ids: "sr_tenant_id rec = sr_tenant_id s" "sr_user_id rec = sr_user_id s" using id by (simp_all add: same_identity_def)
  have "\<exists>res h'. finish_reissue M ip user_agent rec new (Rotated s) (h3\<lparr>store_client := c6\<rparr>) = (Inr res, h') \<and>
      rot_refresh_token res = new"
    using ep by (simp add: finish_reissue_def reissue_rotated_def rbind_def on_store_def ids rotated_claims_def host_run
        issue_access_run [OF total])
  moreover have "on_store (find_session ?S Dashboard (redis_hash (lib_sha256 (tm_libs M)) raw)) h1 = (Inr (Some s), h1)"
    by (rule on_store_same) (simp add: h1_def find)
  moreover have "on_store (rotate_session ?S Dashboard ?rot) h3 = (Inr (Rotated s), h3\<lparr>store_client := c6\<rparr>)"
    by (rule on_store_eq) (simp add: c3 rot)
  ultimately show ?thesis
    using cap rec tenant
    by (simp add: reissue_tokens_eq shape rbind_def generate_refresh_run seed_record_def ids
        new_def [symmetric] h1_def [symmetric])
qed

end

end
