(* ===== verification/Rotation_Properties.thy ===== *)
theory Rotation_Properties
  imports Token_Rotation
begin

text \<open>
  What the engine promises of refresh tokens: the successor inherits the identity and nothing more, a
  lineage ends at its absolute cap, a replay ends its whole family and reports it, and refreshing never
  counts as authenticating. The witnesses rotate on the in-process server.
\<close>

section \<open>A replayed token\<close>

text \<open>The account a family is attributed to: that of a live member, when one is readable.\<close>

definition family_owner :: "codec \<Rightarrow> string \<Rightarrow> SessionKind \<Rightarrow> string \<Rightarrow> rview \<Rightarrow> SessionRecord option \<Rightarrow> bool" where
  "family_owner J ns kind family v found \<longleftrightarrow>
     (case found of
        None \<Rightarrow> \<forall>m \<in> members_at v (fam_key ns kind family). \<forall>j rec.
          str_at v (rt_key ns kind m) = Some j \<longrightarrow> dec_rec J j = Some rec \<longrightarrow> sr_user_id rec = []
      | Some rec \<Rightarrow> sr_user_id rec \<noteq> [] \<and> (\<exists>m \<in> members_at v (fam_key ns kind family). \<exists>j.
          str_at v (rt_key ns kind m) = Some j \<and> dec_rec J j = Some rec))"

context store_service
begin

lemma find_owner_loop_run:
  assumes "net c = []" and "typed (rs_namespace S) (view (server c))"
  shows "\<exists>found. find_owner_loop S (kp_rt (kind_prefixes kind)) hs c = (Inr found, c) \<and>
    (case found of
       None \<Rightarrow> \<forall>m \<in> set hs. \<forall>j rec. str_at (view (server c)) (rt_key (rs_namespace S) kind m) = Some j \<longrightarrow>
         dec_rec (rs_codec S) j = Some rec \<longrightarrow> sr_user_id rec = []
     | Some rec \<Rightarrow> sr_user_id rec \<noteq> [] \<and> (\<exists>m \<in> set hs. \<exists>j.
         str_at (view (server c)) (rt_key (rs_namespace S) kind m) = Some j \<and> dec_rec (rs_codec S) j = Some rec))"
proof (induction hs)
  case (Cons h hs)
  let ?k = "rt_key (rs_namespace S) kind h"
  from Cons.IH obtain found where ih: "find_owner_loop S (kp_rt (kind_prefixes kind)) hs c = (Inr found, c)"
    and spec: "case found of
       None \<Rightarrow> \<forall>m \<in> set hs. \<forall>j rec. str_at (view (server c)) (rt_key (rs_namespace S) kind m) = Some j \<longrightarrow>
         dec_rec (rs_codec S) j = Some rec \<longrightarrow> sr_user_id rec = []
     | Some rec \<Rightarrow> sr_user_id rec \<noteq> [] \<and> (\<exists>m \<in> set hs. \<exists>j.
         str_at (view (server c)) (rt_key (rs_namespace S) kind m) = Some j \<and> dec_rec (rs_codec S) j = Some rec)" by blast
  have raw: "query (\<lambda>r. (r_get (rs_redis S) ?k r, r)) c = (Inr (str_at (view (server c)) ?k), c)"
    using assms by (simp add: query_up get typedD client_same)
  show ?case
  proof (cases "\<exists>j rec. str_at (view (server c)) ?k = Some j \<and> dec_rec (rs_codec S) j = Some rec \<and> sr_user_id rec \<noteq> []")
    case True
    then obtain j rec where "str_at (view (server c)) ?k = Some j" "dec_rec (rs_codec S) j = Some rec" "sr_user_id rec \<noteq> []"
      by blast
    with raw show ?thesis by (intro exI [of _ "Some rec"]) (simp add: rbind_def)
  next
    case False
    with raw ih have "find_owner_loop S (kp_rt (kind_prefixes kind)) (h # hs) c = (Inr found, c)"
      by (auto simp: rbind_def split: option.splits)
    with spec False show ?thesis by (intro exI [of _ found]) (auto split: option.splits)
  qed
qed simp

lemma find_family_owner_run:
  assumes "net c = []" and "typed (rs_namespace S) (view (server c))" and "family \<noteq> []"
  shows "\<exists>found. find_family_owner S kind family c = (Inr found, c) \<and>
    family_owner (rs_codec S) (rs_namespace S) kind family (view (server c)) found"
proof -
  let ?hs = "r_smembers (rs_redis S) (fam_key (rs_namespace S) kind family) (server c)"
  have hs: "members_at (view (server c)) (fam_key (rs_namespace S) kind family) = set ?hs"
    using assms(2) by (simp add: smembers typedD)
  from find_owner_loop_run [OF assms(1,2), of kind ?hs] assms(1,3) show ?thesis
    unfolding family_owner_def hs
    by (auto simp: find_family_owner_def find_family_owner_inner_def Let_def run_simps client_same)
qed

lemma revoke_family_run:
  assumes "net c = []" and "typed (rs_namespace S) (view (server c))" and "family \<noteq> []"
  shows "\<exists>c'. revoke_family S kind family owner c = (Inr (), c') \<and>
    view (server c') (fam_key (rs_namespace S) kind family) = None \<and>
    (\<forall>m \<in> members_at (view (server c)) (fam_key (rs_namespace S) kind family).
       view (server c') (rt_key (rs_namespace S) kind m) = None)"
proof -
  let ?c' = "c\<lparr>server := snd (family_script S kind family owner (server c))\<rparr>"
  have "revoke_family S kind family owner c = (Inr (), ?c')"
    using assms by (simp add: revoke_family_def revoke_family_inner_def run_simps)
  moreover have "view (server ?c') (fam_key (rs_namespace S) kind family) = None"
    by (simp add: view_family [OF assms(2)] Let_def v_del_def)
  moreover have "view (server ?c') (rt_key (rs_namespace S) kind m) = None"
    if "m \<in> members_at (view (server c)) (fam_key (rs_namespace S) kind family)" for m
    using that by (auto simp: view_family [OF assms(2)] Let_def effect_defs v_dels_def v_srems_def split: option.splits)
  ultimately show ?thesis by blast
qed

end

context token_service
begin

lemma reused_arm:
  assumes "net (store_client h) = []" and "typed (tm_namespace M) (store_view view h)" and "family \<noteq> []"
  shows "\<exists>h' found. reissue_reused M family ip user_agent h = (Inl AuthError.RefreshTokenInvalid, h') \<and>
    family_owner (rs_codec (tm_session_store M)) (tm_namespace M) Dashboard family (store_view view h) found \<and>
    store_view view h' (fam_key (tm_namespace M) Dashboard family) = None \<and>
    (\<forall>m \<in> members_at (store_view view h) (fam_key (tm_namespace M) Dashboard family).
       store_view view h' (rt_key (tm_namespace M) Dashboard m) = None) \<and>
    spawned h' = spawned h @ (case found of None \<Rightarrow> []
      | Some rec \<Rightarrow> [RefreshTokenReuseDetected (sr_user_id rec) family
          (detached_context HookPlane_Dashboard (sr_user_id rec) ip user_agent)])"
proof -
  let ?S = "tm_session_store M"
  obtain found where owner: "find_family_owner ?S Dashboard family (store_client h) = (Inr found, store_client h)"
    and spec: "family_owner (rs_codec ?S) (tm_namespace M) Dashboard family (store_view view h) found"
    using find_family_owner_run [OF assms] by blast
  let ?subject = "map_option (\<lambda>rec. subject_hash M Dashboard (sr_tenant_id rec) (sr_user_id rec)) found"
  obtain c' where revoke: "revoke_family ?S Dashboard family ?subject (store_client h) = (Inr (), c')"
    and gone: "view (server c') (fam_key (tm_namespace M) Dashboard family) = None"
      "\<forall>m \<in> members_at (store_view view h) (fam_key (tm_namespace M) Dashboard family).
         view (server c') (rt_key (tm_namespace M) Dashboard m) = None"
    using revoke_family_run [OF assms] by blast
  let ?h' = "h\<lparr>store_client := c', spawned := spawned h @ (case found of None \<Rightarrow> []
      | Some rec \<Rightarrow> [RefreshTokenReuseDetected (sr_user_id rec) family
          (detached_context HookPlane_Dashboard (sr_user_id rec) ip user_agent)])\<rparr>"
  have "reissue_reused M family ip user_agent h = (Inl AuthError.RefreshTokenInvalid, ?h')"
    using on_store_same [of "find_family_owner ?S Dashboard family" h, OF owner] on_store_eq [of "revoke_family ?S Dashboard family ?subject" h, OF revoke]
    by (cases found) (simp_all add: reissue_reused_def Let_def rbind_def fire_reuse_detected_def spawn_guarded_def)
  with spec gone show ?thesis by (intro exI [of _ ?h'] exI [of _ found]) simp
qed

lemma reuse_run:
  assumes net: "net (store_client h) = []" and typed: "typed (tm_namespace M) (store_view view h)"
    and ok: "records_ok (rs_codec (tm_session_store M)) (tm_namespace M) (store_view view h)"
    and shape: "is_refresh_token_shape raw" and instants: "instant_ok (clock h 1)"
    and dead: "str_at (store_view view h) (rt_key (tm_namespace M) Dashboard (redis_hash (lib_sha256 (tm_libs M)) raw)) = None"
    and spent: "str_at (store_view view h) (rp_key (tm_namespace M) Dashboard (redis_hash (lib_sha256 (tm_libs M)) raw)) = None"
    and consumed: "str_at (store_view view h) (cf_key (tm_namespace M) Dashboard (redis_hash (lib_sha256 (tm_libs M)) raw)) =
      Some family" and "family \<noteq> []"
  shows "\<exists>h' found. reissue_tokens M raw ip user_agent h = (Inl AuthError.RefreshTokenInvalid, h') \<and>
    family_owner (rs_codec (tm_session_store M)) (tm_namespace M) Dashboard family (store_view view h) found \<and>
    store_view view h' (fam_key (tm_namespace M) Dashboard family) = None \<and>
    (\<forall>m \<in> members_at (store_view view h) (fam_key (tm_namespace M) Dashboard family).
       store_view view h' (rt_key (tm_namespace M) Dashboard m) = None) \<and>
    spawned h' = spawned h @ (case found of None \<Rightarrow> []
      | Some rec \<Rightarrow> [RefreshTokenReuseDetected (sr_user_id rec) family
          (detached_context HookPlane_Dashboard (sr_user_id rec) ip user_agent)])"
proof -
  let ?S = "tm_session_store M" and ?old = "redis_hash (lib_sha256 (tm_libs M)) raw"
  define new where "new = to_hex (map (entropy h) [0..<32])"
  define h1 where "h1 = h\<lparr>entropy := (\<lambda>i. entropy h (32 + i))\<rparr>"
  define h2 where "h2 = h1\<lparr>clock := (\<lambda>i. clock h1 (Suc i))\<rparr>"
  define h3 where "h3 = h2\<lparr>clock := (\<lambda>i. clock h2 (Suc i))\<rparr>"
  define seed where "seed = projr (fst ((placeholder_record ip user_agent :: ('r, SessionRecord) engine_io) h1))"
  define rec where "rec = projr (fst ((identity_record seed ip user_agent :: ('r, SessionRecord) engine_io) h2))"
  have seed: "(placeholder_record ip user_agent :: ('r, SessionRecord) engine_io) h1 = (Inr seed, h2)"
    by (simp add: seed_def h2_def placeholder_record_def rbind_def host_run case_prod_unfold)
  have born: "sr_family_created_at seed = None"
    by (simp add: seed_def placeholder_record_def rbind_def host_run case_prod_unfold)
  then have cap: "assert_within_absolute_lifetime M seed h2 = (Inr (), h2)"
    by (simp add: assert_within_absolute_lifetime_def)
  have rec: "(identity_record seed ip user_agent :: ('r, SessionRecord) engine_io) h2 = (Inr rec, h3)"
    and "sr_created_at rec = clock h 1" and "sr_family_created_at rec = None"
    by (simp_all add: rec_def h3_def h2_def h1_def identity_record_def rbind_def host_run case_prod_unfold born)
  with instants have "record_ok rec" by (simp add: record_ok_def)
  then obtain j where j: "enc_rec (rs_codec ?S) rec = Some j" using enc_rec_total by blast
  let ?rot = "rotation_of M raw new rec (subject_hash M Dashboard (sr_tenant_id rec) (sr_user_id rec))"
  have "fst (rotate_script ?S Dashboard ?rot j (server (store_client h))) = Some (''REUSED:'' @ family)"
    using rotate_no_grace [OF typed, of Dashboard ?rot j, unfolded rotation_sel, OF dead] spent consumed by simp
  then have "interpret_rotate (rs_codec ?S) (fst (rotate_script ?S Dashboard ?rot j (server (store_client h)))) =
      Inr (PReused family)" using interpret_rotate_simps(3) by metis
  from rotate_run_replayed [OF this _ net, unfolded rotation_sel, OF j] obtain c6 where
    rot: "rotate_session ?S Dashboard ?rot (store_client h) = (Inr (Reused family), c6)" by (metis prod.collapse)
  have net6: "net c6 = []" by (rule preservesD [OF quiet_rotate net rot])
  have "view (server c6) = v_del (rp_key (tm_namespace M) Dashboard ?old) (store_view view h)"
    using rotate_outcome_dead(1) [OF typed ok _ rot, unfolded rotation_sel, OF dead] .
  also have "\<dots> = store_view view h" by (rule v_del_absent) (use typed_str_absent(2) [OF typed] spent in blast)
  finally have same: "view (server c6) = store_view view h" .
  have c3: "store_client h3 = store_client h" and sp: "spawned h3 = spawned h" by (simp_all add: h3_def h2_def h1_def)
  have "r_get (rs_redis ?S) (rt_key (tm_namespace M) Dashboard ?old) (server (store_client h)) = None"
    using get [OF typedD(1) [OF typed]] dead by metis
  with net have find: "find_session ?S Dashboard ?old (store_client h) = (Inr None, store_client h)"
    by (simp add: find_session_def find_session_inner_def run_simps client_same)
  have "on_store (find_session ?S Dashboard ?old) h1 = (Inr None, h1)"
    by (rule on_store_same) (simp add: h1_def find)
  moreover have "on_store (rotate_session ?S Dashboard ?rot) h3 = (Inr (Reused family), h3\<lparr>store_client := c6\<rparr>)"
    by (rule on_store_eq) (simp add: c3 rot)
  ultimately have "reissue_tokens M raw ip user_agent h = reissue_reused M family ip user_agent (h3\<lparr>store_client := c6\<rparr>)"
    using seed cap rec
    by (simp add: reissue_tokens_eq shape rbind_def generate_refresh_run seed_record_def finish_reissue_def
        new_def [symmetric] h1_def [symmetric])
  with reused_arm [of "h3\<lparr>store_client := c6\<rparr>" family ip user_agent] net6 typed \<open>family \<noteq> []\<close>
  show ?thesis by (simp add: same sp)
qed

end

section \<open>A session to rotate\<close>

definition sample_record :: SessionRecord where
  "sample_record = \<lparr>sr_user_id = ''u1'', sr_tenant_id = Some ''t1'', sr_role = ''user'', sr_device = ''d'', sr_ip = ''i'',
     sr_created_at = 0, sr_mfa_enabled = True, sr_mfa_verified = True, sr_family_id = ''f1'',
     sr_family_created_at = Some 0\<rparr>"

definition sample_raw :: string where
  "sample_raw = to_hex (replicate 32 7)"

definition sample_json :: string where
  "sample_json = the (enc_rec field_codec sample_record)"

definition sample_hash :: string where
  "sample_hash = redis_hash (lib_sha256 demo_libs) sample_raw"

definition sample_live :: mem where
  "sample_live = [rt_key ''auth'' Dashboard sample_hash \<mapsto> (MStr sample_json, Some 100)]"

definition sample_replayed :: mem where
  "sample_replayed = [cf_key ''auth'' Dashboard sample_hash \<mapsto> (MStr ''f1'', Some 100),
     fam_key ''auth'' Dashboard ''f1'' \<mapsto> (MSet [''s1''], Some 100),
     rt_key ''auth'' Dashboard ''s1'' \<mapsto> (MStr sample_json, Some 100)]"

lemma sample_json: "enc_rec field_codec sample_record = Some sample_json" "dec_rec field_codec sample_json = Some sample_record"
proof -
  have "record_ok sample_record" by (simp add: record_ok_def instant_ok_def sample_record_def)
  then show "enc_rec field_codec sample_record = Some sample_json"
    unfolding sample_json_def using fields.enc_rec_total by fastforce
  then show "dec_rec field_codec sample_json = Some sample_record" by (rule fields.dec_enc_rec)
qed

lemma sample_shape: "is_refresh_token_shape sample_raw"
  unfolding sample_raw_def by (rule refresh_shape) simp

lemma sample_live_state:
  "typed ''auth'' (mem_view sample_live)" "records_ok field_codec ''auth'' (mem_view sample_live)"
  "str_at (mem_view sample_live) (rt_key ''auth'' Dashboard sample_hash) = Some sample_json"
  using sample_json(1) unfolding sample_live_def
  by (auto simp: typed_def type_defs records_ok_def str_at_def mem_view_def
      simp del: kind_prefixes.simps split: if_splits)

lemma sample_live_epoch: "epoch_is ''auth'' Dashboard subject (mem_view sample_live) 0"
  by (simp add: epoch_is_def mem_view_def sample_live_def)

lemma sample_replayed_state:
  "typed ''auth'' (mem_view sample_replayed)" "records_ok field_codec ''auth'' (mem_view sample_replayed)"
  using sample_json(1) unfolding sample_replayed_def
  by (auto simp: typed_def type_defs records_ok_def str_at_def mem_view_def
      simp del: kind_prefixes.simps split: if_splits)

lemma length_sample_hash: "length sample_hash = 64"
  by (simp add: sample_hash_def redis_hash_def sample_raw_def as_bytes_def)

lemma sample_hash_neq: "sample_hash \<noteq> ''s1''"
proof
  assume "sample_hash = ''s1''"
  then have "length sample_hash = length ''s1''" by (rule arg_cong)
  with length_sample_hash show False by simp
qed

lemma sample_replayed_keys:
  "str_at (mem_view sample_replayed) (rt_key ''auth'' Dashboard sample_hash) = None"
  "str_at (mem_view sample_replayed) (rp_key ''auth'' Dashboard sample_hash) = None"
  "str_at (mem_view sample_replayed) (cf_key ''auth'' Dashboard sample_hash) = Some ''f1''"
  "members_at (mem_view sample_replayed) (fam_key ''auth'' Dashboard ''f1'') = {''s1''}"
  "str_at (mem_view sample_replayed) (rt_key ''auth'' Dashboard ''s1'') = Some sample_json"
  using sample_hash_neq unfolding sample_replayed_def
  by (auto simp: str_at_def members_at_def mem_view_def simp del: kind_prefixes.simps)

section \<open>Properties\<close>

lemma presented_unique:
  assumes "presented J ns kind h v a" and "presented J ns kind h v b"
  shows "a = b"
  using assms by (auto simp: presented_def sep_append_inj split: option.splits)

text \<open>
  C27. A refresh inherits and never invents. Under any network schedule, when presenting a refresh
  token yields a new pair, the presented token stood for a record (its live one, or the one its grace
  pointer carries) that names a tenant and is within the absolute cap; the new refresh token is live
  under a record with the same user, tenant, role, second-factor state, lineage and birth; the new
  access token was signed for exactly that identity; the presented token is no longer live; and if it was
  honoured through its grace pointer, that pointer is gone, so it is not honoured a second time.
\<close>

theorem refresh_inherits:
  assumes "token_service M view" and "reissue_tokens M raw ip user_agent h = (Inr res, h')"
    and "typed (tm_namespace M) (store_view view h)"
    and "records_ok (rs_codec (tm_session_store M)) (tm_namespace M) (store_view view h)"
    and "ttl_ok (tm_refresh_ttl_secs M)" and "tm_grace_ttl_secs M \<le> tm_refresh_ttl_secs M"
    and "redis_hash (lib_sha256 (tm_libs M)) (rot_refresh_token res) \<noteq> redis_hash (lib_sha256 (tm_libs M)) raw"
  shows "\<exists>rec. presented (rs_codec (tm_session_store M)) (tm_namespace M) Dashboard
      (redis_hash (lib_sha256 (tm_libs M)) raw) (store_view view h) rec \<and> names_a_tenant rec \<and> within_cap M h rec \<and>
    carries_on (rs_codec (tm_session_store M)) (tm_namespace M) Dashboard
      (redis_hash (lib_sha256 (tm_libs M)) (rot_refresh_token res)) (store_view view h') rec \<and>
    str_at (store_view view h') (rt_key (tm_namespace M) Dashboard (redis_hash (lib_sha256 (tm_libs M)) raw)) = None \<and>
    (str_at (store_view view h) (rt_key (tm_namespace M) Dashboard (redis_hash (lib_sha256 (tm_libs M)) raw)) = None \<longrightarrow>
      store_view view h' (rp_key (tm_namespace M) Dashboard (redis_hash (lib_sha256 (tm_libs M)) raw)) = None) \<and>
    (\<exists>claims. claims_of M rec claims \<and> sign (lib_jws (tm_libs M)) (lib_dashboard (tm_libs M))
       (stamp_dashboard M claims) (tm_key M) = Inr (rot_access_token res))"
  using token_service.reissue_success [OF assms(1-6)] assms(7) by simp

lemma sample_fresh:
  "redis_hash (lib_sha256 demo_libs) (to_hex (map of_nat [0..<32])) \<noteq> redis_hash (lib_sha256 demo_libs) sample_raw"
  by code_simp

lemma sample_rotates:
  "\<exists>res h'. reissue_tokens demo_manager sample_raw ''10.0.0.1'' ''ua'' (demo_host 1000 sample_live) = (Inr res, h') \<and>
     redis_hash (lib_sha256 demo_libs) (rot_refresh_token res) \<noteq> sample_hash"
proof -
  have "str_at (store_view mem_view (demo_host 1000 sample_live)) (rt_key (tm_namespace demo_manager) Dashboard
      (redis_hash (lib_sha256 (tm_libs demo_manager)) sample_raw)) = Some sample_json"
    using sample_live_state(3) by (simp add: demo_empty sample_hash_def)
  moreover have "entropy (demo_host 1000 sample_live) = of_nat" by (simp add: demo_host_def)
  ultimately have "\<exists>res h'. reissue_tokens demo_manager sample_raw ''10.0.0.1'' ''ua'' (demo_host 1000 sample_live) =
      (Inr res, h') \<and> rot_refresh_token res = to_hex (map of_nat [0..<32])"
    using demo.reissue_live_run [of "demo_host 1000 sample_live" sample_raw sample_json sample_record 0 "''10.0.0.1''" "''ua''"]
      sample_live_state sample_live_epoch sample_json(2) sample_shape
    by (auto simp: demo_empty instant_ok_def sample_record_def names_a_tenant_def)
  with sample_fresh show ?thesis by (auto simp: sample_hash_def)
qed

theorem refresh_inherits_witness:
  "\<exists>res h'. reissue_tokens demo_manager sample_raw ''10.0.0.1'' ''ua'' (demo_host 1000 sample_live) = (Inr res, h') \<and>
     carries_on field_codec ''auth'' Dashboard (redis_hash (lib_sha256 demo_libs) (rot_refresh_token res))
       (store_view mem_view h') sample_record \<and>
     str_at (store_view mem_view h') (rt_key ''auth'' Dashboard sample_hash) = None"
proof -
  obtain res h' where run:
    "reissue_tokens demo_manager sample_raw ''10.0.0.1'' ''ua'' (demo_host 1000 sample_live) = (Inr res, h')"
    and fresh: "redis_hash (lib_sha256 demo_libs) (rot_refresh_token res) \<noteq> sample_hash" using sample_rotates by blast
  from refresh_inherits [OF demo.token_service_axioms run] sample_live_state(1,2) fresh
  obtain rec where "presented field_codec ''auth'' Dashboard sample_hash (mem_view sample_live) rec"
    and rest: "carries_on field_codec ''auth'' Dashboard (redis_hash (lib_sha256 demo_libs) (rot_refresh_token res))
       (store_view mem_view h') rec" "str_at (store_view mem_view h') (rt_key ''auth'' Dashboard sample_hash) = None"
    unfolding sample_hash_def demo_manager_sel demo_empty mem_stores_sel by (auto simp: demo_empty simp del: kind_prefixes.simps)
  then have "rec = sample_record" using sample_json(2) by (simp add: presented_def sample_live_state(3) del: kind_prefixes.simps)
  with run rest show ?thesis by blast
qed

text \<open>
  C28. A lineage ends at its absolute cap. When a cap is configured and every reading of the clock lies
  past the cap counted from the birth of the lineage, presenting a refresh token of that lineage yields
  no tokens, on the live path and on the grace path alike, under any network schedule.
\<close>

theorem lineage_capped:
  assumes "token_service M view" and "typed (tm_namespace M) (store_view view h)"
    and "records_ok (rs_codec (tm_session_store M)) (tm_namespace M) (store_view view h)"
    and "ttl_ok (tm_refresh_ttl_secs M)" and "tm_grace_ttl_secs M \<le> tm_refresh_ttl_secs M"
    and "presented (rs_codec (tm_session_store M)) (tm_namespace M) Dashboard
      (redis_hash (lib_sha256 (tm_libs M)) raw) (store_view view h) rec"
    and "sr_family_created_at rec = Some born" and "tm_absolute_lifetime_secs M \<noteq> 0"
    and "\<And>i. born + (int (tm_absolute_lifetime_secs M) + 1) * 10 ^ 9 \<le> clock h i"
  shows "fst (reissue_tokens M raw ip user_agent h) \<noteq> Inr res"
proof
  assume "fst (reissue_tokens M raw ip user_agent h) = Inr res"
  then obtain h' where "reissue_tokens M raw ip user_agent h = (Inr res, h')" by (metis prod.collapse)
  from token_service.reissue_success [OF assms(1) this assms(2-5)] obtain rec' where
    "presented (rs_codec (tm_session_store M)) (tm_namespace M) Dashboard
      (redis_hash (lib_sha256 (tm_libs M)) raw) (store_view view h) rec'" and "within_cap M h rec'" by blast
  with presented_unique [OF assms(6)] have "within_cap M h rec" by blast
  with assms(7,8) obtain i where "clock h i < born + (int (tm_absolute_lifetime_secs M) + 1) * 10 ^ 9"
    unfolding within_cap_def by blast
  with assms(9) [of i] show False by simp
qed

theorem lineage_capped_witness:
  "isl (fst (reissue_tokens demo_manager sample_raw ''10.0.0.1'' ''ua'' (demo_host 2592001 sample_live))) \<and>
   (\<exists>res h'. reissue_tokens demo_manager sample_raw ''10.0.0.1'' ''ua'' (demo_host 1000 sample_live) = (Inr res, h'))"
proof -
  have "presented field_codec ''auth'' Dashboard sample_hash (mem_view sample_live) sample_record"
    using sample_json(2) unfolding presented_def sample_live_state(3) option.case .
  with lineage_capped [OF demo.token_service_axioms, of "demo_host 2592001 sample_live" sample_raw sample_record 0
      "''10.0.0.1''" "''ua''"] sample_live_state(1,2)
  have "fst (reissue_tokens demo_manager sample_raw ''10.0.0.1'' ''ua'' (demo_host 2592001 sample_live)) \<noteq> Inr res" for res
    by (simp add: demo_empty sample_hash_def sample_record_def)
  then have "isl (fst (reissue_tokens demo_manager sample_raw ''10.0.0.1'' ''ua'' (demo_host 2592001 sample_live)))"
    by (cases "fst (reissue_tokens demo_manager sample_raw ''10.0.0.1'' ''ua'' (demo_host 2592001 sample_live))") auto
  with sample_rotates show ?thesis by blast
qed

text \<open>
  C29. A replay ends the family. Presenting a refresh token that was rotated away and is past its grace
  window is refused; on a working network every live member of its lineage and the lineage's index are
  gone afterwards, and the reuse is reported once, to the account a live member of the family belonged
  to.
\<close>

theorem replay_ends_family:
  assumes "token_service M view" and "net (store_client h) = []" and "typed (tm_namespace M) (store_view view h)"
    and "records_ok (rs_codec (tm_session_store M)) (tm_namespace M) (store_view view h)"
    and "is_refresh_token_shape raw" and "instant_ok (clock h 1)"
    and "str_at (store_view view h) (rt_key (tm_namespace M) Dashboard (redis_hash (lib_sha256 (tm_libs M)) raw)) = None"
    and "str_at (store_view view h) (rp_key (tm_namespace M) Dashboard (redis_hash (lib_sha256 (tm_libs M)) raw)) = None"
    and "str_at (store_view view h) (cf_key (tm_namespace M) Dashboard (redis_hash (lib_sha256 (tm_libs M)) raw)) = Some family"
    and "family \<noteq> []"
  shows "\<exists>h' found. reissue_tokens M raw ip user_agent h = (Inl AuthError.RefreshTokenInvalid, h') \<and>
    family_owner (rs_codec (tm_session_store M)) (tm_namespace M) Dashboard family (store_view view h) found \<and>
    store_view view h' (fam_key (tm_namespace M) Dashboard family) = None \<and>
    (\<forall>m \<in> members_at (store_view view h) (fam_key (tm_namespace M) Dashboard family).
       store_view view h' (rt_key (tm_namespace M) Dashboard m) = None) \<and>
    spawned h' = spawned h @ (case found of None \<Rightarrow> []
      | Some rec \<Rightarrow> [RefreshTokenReuseDetected (sr_user_id rec) family
          (detached_context HookPlane_Dashboard (sr_user_id rec) ip user_agent)])"
  by (rule token_service.reuse_run [OF assms])

theorem replay_ends_family_witness:
  "\<exists>h'. reissue_tokens demo_manager sample_raw ''10.0.0.1'' ''ua'' (demo_host 1000 sample_replayed) =
       (Inl AuthError.RefreshTokenInvalid, h') \<and>
     store_view mem_view h' (rt_key ''auth'' Dashboard ''s1'') = None \<and>
     spawned h' = [RefreshTokenReuseDetected ''u1'' ''f1'' (detached_context HookPlane_Dashboard ''u1'' ''10.0.0.1'' ''ua'')]"
proof -
  have i: "instant_ok (clock (demo_host 1000 sample_replayed) 1)" by (simp add: instant_ok_def demo_empty)
  have "\<exists>h' found. reissue_tokens demo_manager sample_raw ''10.0.0.1'' ''ua'' (demo_host 1000 sample_replayed) =
      (Inl AuthError.RefreshTokenInvalid, h') \<and>
    family_owner field_codec ''auth'' Dashboard ''f1'' (mem_view sample_replayed) found \<and>
    store_view mem_view h' (fam_key ''auth'' Dashboard ''f1'') = None \<and>
    (\<forall>m \<in> members_at (mem_view sample_replayed) (fam_key ''auth'' Dashboard ''f1'').
       store_view mem_view h' (rt_key ''auth'' Dashboard m) = None) \<and>
    spawned h' = spawned (demo_host 1000 sample_replayed) @ (case found of None \<Rightarrow> []
      | Some rec \<Rightarrow> [RefreshTokenReuseDetected (sr_user_id rec) ''f1''
          (detached_context HookPlane_Dashboard (sr_user_id rec) ''10.0.0.1'' ''ua'')])"
    using replay_ends_family [OF demo.token_service_axioms, of "demo_host 1000 sample_replayed" sample_raw "''f1''"
        "''10.0.0.1''" "''ua''"] sample_replayed_state sample_replayed_keys(1-3) sample_shape i
    by (simp add: demo_empty sample_hash_def del: kind_prefixes.simps)
  then obtain h' found where run: "reissue_tokens demo_manager sample_raw ''10.0.0.1'' ''ua'' (demo_host 1000 sample_replayed) =
      (Inl AuthError.RefreshTokenInvalid, h')"
    and owner: "family_owner field_codec ''auth'' Dashboard ''f1'' (mem_view sample_replayed) found"
    and gone: "store_view mem_view h' (rt_key ''auth'' Dashboard ''s1'') = None"
    and sp: "spawned h' = (case found of None \<Rightarrow> []
      | Some rec \<Rightarrow> [RefreshTokenReuseDetected (sr_user_id rec) ''f1''
          (detached_context HookPlane_Dashboard (sr_user_id rec) ''10.0.0.1'' ''ua'')])"
    unfolding sample_replayed_keys(4) by (auto simp: demo_host_def)
  from owner have "found = Some sample_record"
    unfolding family_owner_def sample_replayed_keys(4)
    by (cases found) (simp_all add: sample_replayed_keys(5) sample_json(2) sample_record_def del: kind_prefixes.simps)
  with run gone sp show ?thesis by (simp add: sample_record_def)
qed

text \<open>
  C30. Refreshing is not authenticating. Whatever a refresh answers, on either plane and under any
  network schedule, it leaves every recent-authentication marker, every blacklist entry and every
  account generation exactly as it was.
\<close>

theorem refresh_proves_nothing:
  assumes "token_service M view" and "typed (tm_namespace M) (store_view view h)"
    and "ttl_ok (tm_refresh_ttl_secs M)" and "tm_grace_ttl_secs M \<le> tm_refresh_ttl_secs M"
    and "reissue_tokens M raw ip user_agent h = (x, h') \<or> reissue_platform_tokens M raw ip user_agent h = (x, h')"
    and "p \<in> {Ra, Rv, Ep, Pep}"
  shows "store_view view h' (key (tm_namespace M) p i) = store_view view h (key (tm_namespace M) p i)"
proof -
  have "untouched (tm_namespace M) (key (tm_namespace M) p i) (store_view view h (key (tm_namespace M) p i)) (store_view view h)"
    using assms(2) account_keys [OF assms(6)] by (simp add: untouched_def)
  note before = this and u = token_service.untouched_reissue [OF assms(1,3,4),
      of "key (tm_namespace M) p i" "store_view view h (key (tm_namespace M) p i)" raw ip user_agent]
  have "untouched (tm_namespace M) (key (tm_namespace M) p i) (store_view view h (key (tm_namespace M) p i)) (store_view view h')"
    using assms(5) preservesD [OF u(1) before] preservesD [OF u(2) before] by blast
  then show ?thesis by (simp add: untouched_def)
qed

theorem refresh_proves_nothing_witness:
  "\<exists>res h'. reissue_tokens demo_manager sample_raw ''10.0.0.1'' ''ua'' (demo_host 1000 sample_live) = (Inr res, h') \<and>
     store_view mem_view h' (key ''auth'' Ra (account demo_manager ''t1'' ''u1'')) = None"
proof -
  obtain res h' where run:
    "reissue_tokens demo_manager sample_raw ''10.0.0.1'' ''ua'' (demo_host 1000 sample_live) = (Inr res, h')"
    using sample_rotates by blast
  with refresh_proves_nothing [OF demo.token_service_axioms, of "demo_host 1000 sample_live" sample_raw "''10.0.0.1''" "''ua''"
      "Inr res" h' Ra "account demo_manager ''t1'' ''u1''"] sample_live_state(1)
  have "store_view mem_view h' (key ''auth'' Ra (account demo_manager ''t1'' ''u1'')) = mem_view sample_live (key ''auth'' Ra (account demo_manager ''t1'' ''u1''))"
    by (simp add: demo_empty)
  also have "\<dots> = None" by (simp add: mem_view_None sample_live_def)
  finally show ?thesis using run by blast
qed

end
