(* ===== verification/Session_Service_Properties.thy ===== *)
theory Session_Service_Properties
  imports Session_Service Rotation_Properties
begin

text \<open>
  The session service on a healthy store: the cap holds after every login and evicts oldest first, and
  signing out every other device leaves exactly the caller's session. Both follow from one fact, that
  a revocation removes the session it names from the account's live sessions and no other.
\<close>

section \<open>Live sessions of an account\<close>

text \<open>The hashes the account's index names whose session record is there.\<close>

definition live_of :: "string \<Rightarrow> SessionKind \<Rightarrow> string \<Rightarrow> rview \<Rightarrow> string set" where
  "live_of ns kind subject v =
     {h. index_member (kp_rt (kind_prefixes kind)) h \<in> members_at v (sess_key ns kind subject) \<and>
         v (rt_key ns kind h) \<noteq> None}"

text \<open>
  What the service's calls do to an account: sessions in \<open>D\<close> stop being live, the others stay, keys only
  go away, and the account's generation is left alone.
\<close>

definition drops :: "string \<Rightarrow> SessionKind \<Rightarrow> string \<Rightarrow> string set \<Rightarrow> rview \<Rightarrow> rview \<Rightarrow> bool" where
  "drops ns kind subject D v v' \<longleftrightarrow> shrinks ns v v' \<and> live_of ns kind subject v' = live_of ns kind subject v - D \<and>
     v' (key ns (epoch_prefix kind) subject) = v (key ns (epoch_prefix kind) subject)"

lemma drops_refl: "typed ns v \<Longrightarrow> drops ns kind subject {} v v"
  by (simp add: drops_def shrinks_refl)

lemma drops_trans: "drops ns kind subject D u v \<Longrightarrow> drops ns kind subject E v w \<Longrightarrow> drops ns kind subject (D \<union> E) u w"
  by (auto simp: drops_def intro: shrinks_trans)

lemma dropsD:
  assumes "drops ns kind subject D v v'"
  shows "typed ns v'" and "live_of ns kind subject v' = live_of ns kind subject v - D"
    and "epoch_is ns kind subject v' n \<longleftrightarrow> epoch_is ns kind subject v n"
  using assms by (auto simp: drops_def epoch_is_def Let_def str_at_def dest: shrinksD(1))

lemma live_of_same:
  assumes "shrinks ns v v'" and "typed ns v" and "\<And>h. v' (rt_key ns kind h) = v (rt_key ns kind h)"
  shows "live_of ns kind subject v' = live_of ns kind subject v"
proof -
  have "index_member (kp_rt (kind_prefixes kind)) h \<in> members_at v' (sess_key ns kind subject)"
    if "index_member (kp_rt (kind_prefixes kind)) h \<in> members_at v (sess_key ns kind subject)" "v (rt_key ns kind h) \<noteq> None" for h
    using shrinksD(5) [OF assms(1) that(1)] that(2) typed_str_absent(1) [OF shrinksD(1) [OF assms(1)], of kind h] assms(3) by auto
  then show ?thesis using shrinksD(4) [OF assms(1)] unfolding live_of_def assms(3) by blast
qed

lemma epoch_prefix_elsewhere [simp]:
  "epoch_prefix k \<noteq> kp_sess (kind_prefixes k')" "epoch_prefix k \<noteq> kp_rt (kind_prefixes k')"
  "epoch_prefix k \<noteq> kp_sd (kind_prefixes k')" "epoch_prefix k \<noteq> kp_rp (kind_prefixes k')"
  by (cases k; cases k'; simp)+

lemmas elsewhere_epoch_prefix [simp] = epoch_prefix_elsewhere [THEN not_sym]

lemma candidate_key:
  assumes "candidate J ns kind v m"
  shows "ns @ '':'' @ m \<noteq> sess_key ns kind' subject"
proof (cases "live_member_hash m (kp_rt (kind_prefixes kind))")
  case None
  with assms obtain t where "m = index_member (kp_rp (kind_prefixes kind)) t"
    by (auto simp: candidate_def starts_with_iff index_member_def)
  then show ?thesis by (cases kind; cases kind') (auto simp: key_index_member [simplified])
next
  case (Some h)
  then have "m = index_member (kp_rt (kind_prefixes kind)) h" by (simp add: live_member_hash_iff)
  then show ?thesis by (cases kind; cases kind') (auto simp: key_index_member [simplified])
qed

lemma srem_elsewhere: "k' \<noteq> k \<Longrightarrow> v_srem k m v k' = v k'"
  by (simp add: v_srem_def)

lemma del_at: "v_del k v k' = (if k' = k then None else v k')"
  by (simp add: v_del_def)

lemma distinct_entries_of: "distinct ms \<Longrightarrow> distinct (map se_session_hash (entries_of J ns kind v ms))"
proof (induction ms)
  case (Cons m ms)
  show ?case
  proof (cases "live_member_hash m (kp_rt (kind_prefixes kind))")
    case (Some h)
    then have "m = index_member (kp_rt (kind_prefixes kind)) h" by (simp add: live_member_hash_iff)
    with Cons Some show ?thesis by (auto simp: set_entries_of)
  qed (use Cons in simp)
qed simp

context store_service
begin

lemma drops_prune:
  assumes "typed (rs_namespace S) (view r)"
  shows "drops (rs_namespace S) kind subject {} (view r)
    (view (snd (session_prune_dead (rs_redis S) (sess_key (rs_namespace S) kind subject) (rs_namespace S) ms r)))"
proof -
  let ?sk = "sess_key (rs_namespace S) kind subject"
  let ?P = "\<lambda>x. set_or_absent x ?sk \<and> (\<forall>k. k \<noteq> ?sk \<longrightarrow> x k = view r k)"
  have "?P (view (snd (session_prune_dead (rs_redis S) ?sk (rs_namespace S) ms r)))"
    by (rule view_prune_invariant) (use typedD(6) [OF assms] in \<open>auto simp: view_type srem_elsewhere\<close>)
  with live_of_same [OF shrinks_prune [OF assms] assms, of kind subject ms kind subject] shrinks_prune [OF assms]
  show ?thesis by (simp add: drops_def)
qed

lemma list_entries_quiet:
  assumes typed: "typed (rs_namespace S) (view (server c))" and c: "net c = []"
  defines "ns \<equiv> rs_namespace S" and "v \<equiv> view (server c)"
  shows "\<exists>es c'. list_session_entries S kind subject c = (Inr es, c') \<and> net c' = [] \<and>
    distinct (map se_session_hash es) \<and> live_of ns kind subject v \<subseteq> se_session_hash ` set es \<and>
    (\<forall>e \<in> set es. se_detail e = detail_at (rs_codec S) ns kind v (se_session_hash e)) \<and>
    drops ns kind subject {} v (view (server c'))"
proof -
  define ms where "ms = r_smembers (rs_redis S) (sess_key ns kind subject) (server c)"
  define st where "st = filter (candidate (rs_codec S) ns kind v) ms"
  define dead where "dead = filter (\<lambda>m. v (ns @ '':'' @ m) = None) st"
  define r where "r = (if st = [] then server c
    else snd (session_prune_dead (rs_redis S) (sess_key ns kind subject) ns st (server c)))"
  let ?es = "filter (\<lambda>e. se_detail e \<noteq> None \<or>
    index_member (kp_rt (kind_prefixes kind)) (se_session_hash e) \<notin> set dead)
    (entries_of (rs_codec S) ns kind v ms)"
  have sk: "set_or_absent v (sess_key ns kind subject)" using typedD(6) [OF typed] by (simp add: v_def ns_def)
  then have ms: "set ms = members_at v (sess_key ns kind subject)" "distinct ms"
    by (simp_all add: smembers smembers_distinct ms_def v_def)
  have nk: "\<forall>m \<in> set st. ns @ '':'' @ m \<noteq> sess_key ns kind subject"
    unfolding st_def set_filter by (blast dest: candidate_key)
  have "fst (session_prune_dead (rs_redis S) (sess_key ns kind subject) ns st (server c)) = dead"
    using prune_exact [OF nk] sk by (simp add: dead_def v_def)
  then have prune: "prune_dead_members S (sess_key ns kind subject) st c = (Inr dead, c\<lparr>server := r\<rparr>)"
    using c by (cases "st = []") (simp_all add: prune_dead_members_def query_up r_def dead_def flip: ns_def)
  have loop: "list_loop S (kind_prefixes kind) ms [] [] c = (Inr (entries_of (rs_codec S) ns kind v ms, st), c)"
    using list_loop_run [of c kind ms "[]" "[]"] typed c by (simp add: ns_def v_def st_def)
  have "list_session_entries S kind subject c = (Inr ?es, c\<lparr>server := r\<rparr>)"
    using c prune loop by (simp add: list_session_entries_def list_session_entries_inner_def Let_def run_simps
        ns_def [symmetric] ms_def [symmetric])
  moreover have "live_of ns kind subject v \<subseteq> se_session_hash ` set ?es"
  proof
    fix h assume h: "h \<in> live_of ns kind subject v"
    define e where "e = \<lparr>se_session_hash = h, se_detail = detail_at (rs_codec S) ns kind v h\<rparr>"
    have "e \<in> set (entries_of (rs_codec S) ns kind v ms)" using h by (simp add: set_entries_of e_def live_of_def ms)
    moreover have "index_member (kp_rt (kind_prefixes kind)) h \<notin> set dead"
      using h by (auto simp: dead_def live_of_def key_index_member [simplified])
    ultimately have "e \<in> set ?es" by (simp add: e_def)
    then show "h \<in> se_session_hash ` set ?es" by (rule rev_image_eqI) (simp add: e_def)
  qed
  moreover have "distinct (map se_session_hash ?es)"
    using distinct_entries_of [OF ms(2)] by (rule distinct_map_filter)
  moreover have "drops ns kind subject {} v (view r)"
    using drops_prune [OF typed] drops_refl [OF typed] by (simp add: r_def ns_def v_def)
  ultimately show ?thesis using c by (auto simp: set_entries_of)
qed

text \<open>A revocation removes the session it names from the account's live sessions, and no other.\<close>

lemma revoke_live:
  assumes typed: "typed (rs_namespace S) (view (server c))" and c: "net c = []"
  defines "ns \<equiv> rs_namespace S" and "v \<equiv> view (server c)"
  shows "\<exists>x c'. revoke_session S kind subject h c = (x, c') \<and> net c' = [] \<and>
    (x = Inr () \<or> x = Inl AuthError.SessionNotFound) \<and> drops ns kind subject {h} v (view (server c'))"
proof -
  define r where "r = snd (revoke_script S kind subject h (server c))"
  have run: "\<exists>x. revoke_session S kind subject h c = (x, c\<lparr>server := r\<rparr>) \<and> (x = Inr () \<or> x = Inl AuthError.SessionNotFound)"
    using c by (auto simp: revoke_session_def revoke_session_inner_def run_simps r_def)
  have view: "view r = (if index_member (kp_rt (kind_prefixes kind)) h \<in> members_at v (sess_key ns kind subject)
      then v_del (sd_key ns kind h) (v_del (rt_key ns kind h)
        (v_srem (sess_key ns kind subject) (index_member (kp_rt (kind_prefixes kind)) h) v)) else v)"
    using view_revoke_session [OF typed, of kind subject h] by (simp add: r_def ns_def v_def)
  have "shrinks ns v (view r)"
    using shrinks_revoke_session [OF typed] shrinks_refl [OF typed] by (simp add: view ns_def v_def)
  moreover have "live_of ns kind subject (view r) = live_of ns kind subject v - {h}"
    by (auto simp: view live_of_def view_obs del_at srem_elsewhere)
  moreover have "view r (key ns (epoch_prefix kind) subject) = v (key ns (epoch_prefix kind) subject)"
    by (simp add: view del_at srem_elsewhere)
  ultimately show ?thesis using run c by (auto simp: drops_def)
qed

text \<open>The sweep of the grace pointers leaves the live sessions alone and no pointer in the index.\<close>

lemma sweep_loop_run:
  assumes "typed (rs_namespace S) (view (server c))" and "net c = []"
  shows "\<exists>c'. sweep_pointers_loop S (sess_key (rs_namespace S) kind subject)
      (map (index_member (kp_rp (kind_prefixes kind))) ts) c = (Inr (), c') \<and> net c' = [] \<and>
    drops (rs_namespace S) kind subject {} (view (server c)) (view (server c')) \<and>
    members_at (view (server c')) (sess_key (rs_namespace S) kind subject) =
      members_at (view (server c)) (sess_key (rs_namespace S) kind subject) -
        index_member (kp_rp (kind_prefixes kind)) ` set ts"
  using assms
proof (induction ts arbitrary: c)
  case Nil
  then show ?case by (simp add: drops_refl)
next
  case (Cons t ts)
  let ?ns = "rs_namespace S" and ?sk = "sess_key (rs_namespace S) kind subject" and ?v = "view (server c)"
  let ?m = "index_member (kp_rp (kind_prefixes kind)) t"
  define r where "r = r_srem (rs_redis S) ?sk ?m (snd (r_del (rs_redis S) (rp_key ?ns kind t) (server c)))"
  have dt: "typed ?ns (v_del (rp_key ?ns kind t) ?v)" using shrinksD(1) [OF shrinks_del(1) [OF Cons.prems(1)]] .
  have v: "view r = v_srem ?sk ?m (v_del (rp_key ?ns kind t) ?v)"
    using typedD(6) [OF dt, of kind subject] by (simp add: r_def del srem)
  have "shrinks ?ns (v_del (rp_key ?ns kind t) ?v) (view r)"
    unfolding v v_srem_srems by (rule shrinks_srems_dead [OF dt]) (simp add: key_index_member [simplified] view_obs)
  then have sh: "shrinks ?ns ?v (view r)" by (rule shrinks_trans [OF shrinks_del(1) [OF Cons.prems(1)]])
  have "drops ?ns kind subject {} ?v (view r)"
    unfolding drops_def using sh live_of_same [OF sh Cons.prems(1), of kind subject]
    by (simp add: v del_at srem_elsewhere)
  moreover have "members_at (view r) ?sk = members_at ?v ?sk - {?m}" by (simp add: v view_obs)
  ultimately show ?case
    using Cons.IH [of "c\<lparr>server := r\<rparr>"] dropsD(1) Cons.prems(2) drops_trans [of ?ns kind subject "{}" ?v "view r" "{}"]
    by (auto simp: rbind_def query_up r_def key_index_member [simplified])
qed

lemma sweep_run:
  assumes "typed (rs_namespace S) (view (server c))" and "net c = []"
  shows "\<exists>c'. sweep_grace_pointers S kind subject c = (Inr (), c') \<and> net c' = [] \<and>
    drops (rs_namespace S) kind subject {} (view (server c)) (view (server c')) \<and>
    (\<forall>t. index_member (kp_rp (kind_prefixes kind)) t \<notin>
       members_at (view (server c')) (sess_key (rs_namespace S) kind subject))"
proof -
  let ?sk = "sess_key (rs_namespace S) kind subject" and ?p = "kp_rp (kind_prefixes kind)"
  define ms where "ms = filter (starts_with (as_str ?p @ '':'')) (r_smembers (rs_redis S) ?sk (server c))"
  have "\<exists>t. m = index_member ?p t" if "starts_with (as_str ?p @ '':'') m" for m
    using that by (auto simp: starts_with_iff index_member_def)
  then have "\<forall>m \<in> set ms. \<exists>t. m = index_member ?p t" by (simp add: ms_def)
  then obtain ts where ts: "ms = map (index_member ?p) ts" by (metis ex_map_conv)
  have ms: "index_member ?p t \<in> set ms" if "index_member ?p t \<in> members_at (view (server c)) ?sk" for t
    using that typedD(6) [OF assms(1), of kind subject] by (simp add: ms_def smembers)
  have "sweep_grace_pointers S kind subject c = map_err from_redis_error (sweep_pointers_loop S ?sk ms) c"
    using assms(2) by (simp add: sweep_grace_pointers_def sweep_grace_pointers_inner_def Let_def run_simps ms_def)
  with sweep_loop_run [OF assms, of kind subject ts] ms ts show ?thesis by (auto simp: map_err_def)
qed

text \<open>Dropping the sessions of a list, one revocation after the other; its answers do not matter to the loop.\<close>

lemma evict_run:
  assumes "typed (rs_namespace S) (store_view view (es_host s))" and "net (store_client (es_host s)) = []"
    and "ss_store V = S"
  shows "\<exists>s'. evict V subject user_id ctx victims s = (Inr (), s') \<and> es_app s' = es_app s \<and>
    net (store_client (es_host s')) = [] \<and>
    drops (rs_namespace S) Dashboard subject (se_session_hash ` set victims)
      (store_view view (es_host s)) (store_view view (es_host s'))"
  using assms
proof (induction victims arbitrary: s)
  case Nil
  then show ?case by (simp add: drops_refl)
next
  case (Cons e victims)
  let ?c = "store_client (es_host s)"
  obtain x c' where run: "revoke_session S Dashboard subject (se_session_hash e) ?c = (x, c')" "net c' = []"
    and d: "drops (rs_namespace S) Dashboard subject {se_session_hash e} (view (server ?c)) (view (server c'))"
    using revoke_live [OF Cons.prems(1,2), of Dashboard subject "se_session_hash e"] by blast
  define s1 where "s1 = s\<lparr>es_host := (es_host s)\<lparr>store_client := c',
    spawned := spawned (es_host s) @ [SessionEvicted user_id (se_session_hash e) ctx]\<rparr>\<rparr>"
  show ?case
    using Cons.IH [of s1] run d dropsD(1) [OF d] Cons.prems(3) drops_trans [OF d]
    by (auto simp: rbind_def attempt_apply on_host_def on_store_def fire_session_evicted_def spawn_guarded_def s1_def
        split: sum.split)
qed

text \<open>Every listed session but one is dropped; a session that vanished meanwhile is no failure.\<close>

lemma revoke_others_run:
  assumes "typed (rs_namespace S) (store_view view (es_host s))" and "net (store_client (es_host s)) = []"
    and "ss_store V = S" and "\<And>a b. same_hash V a b \<longleftrightarrow> a = b"
  shows "\<exists>s'. revoke_others V subject kept es s = (Inr (), s') \<and> es_app s' = es_app s \<and>
    net (store_client (es_host s')) = [] \<and>
    drops (rs_namespace S) Dashboard subject (se_session_hash ` set es - {kept})
      (store_view view (es_host s)) (store_view view (es_host s'))"
  using assms(1,2)
proof (induction es arbitrary: s)
  case Nil
  then show ?case by (simp add: drops_refl)
next
  case (Cons e es)
  show ?case
  proof (cases "se_session_hash e = kept")
    case True
    with Cons.IH [OF Cons.prems] assms(4) show ?thesis by (simp add: Diff_insert_absorb insert_Diff_if)
  next
    case False
    let ?c = "store_client (es_host s)"
    obtain x c' where run: "revoke_session S Dashboard subject (se_session_hash e) ?c = (x, c')" "net c' = []"
        "x = Inr () \<or> x = Inl AuthError.SessionNotFound"
      and d: "drops (rs_namespace S) Dashboard subject {se_session_hash e} (view (server ?c)) (view (server c'))"
      using revoke_live [OF Cons.prems, of Dashboard subject "se_session_hash e"] by blast
    define s1 where "s1 = s\<lparr>es_host := (es_host s)\<lparr>store_client := c'\<rparr>\<rparr>"
    have "revoke_others V subject kept (e # es) s = revoke_others V subject kept es s1"
      using False run assms(3,4) by (auto simp: rbind_def attempt_apply on_host_def on_store_def s1_def)
    with Cons.IH [of s1] run d dropsD(1) [OF d] drops_trans [OF d] False show ?thesis
      by (auto simp: s1_def insert_Diff_if)
  qed
qed

lemma bump_epoch_run:
  assumes c: "net c = []" and epoch: "epoch_is (rs_namespace S) kind subject (view (server c)) n" and n: "n + 1 < 2 ^ 63"
  shows "\<exists>m c'. bump_epoch S kind subject c = (Inr m, c') \<and> net c' = [] \<and>
    epoch_is (rs_namespace S) kind subject (view (server c')) (n + 1) \<and>
    (\<forall>k. k \<noteq> key (rs_namespace S) (epoch_prefix kind) subject \<longrightarrow> view (server c') k = view (server c) k)"
proof -
  let ?k = "key (rs_namespace S) (epoch_prefix kind) subject"
  let ?r = "r_expire (rs_redis S) ?k token_epoch_retention_secs (snd (r_incr (rs_redis S) ?k (server c)))"
  have run: "bump_epoch S kind subject c = (Inr (fst (r_incr (rs_redis S) ?k (server c))), c\<lparr>server := ?r\<rparr>)"
    using c by (simp add: bump_epoch_def bump_epoch_inner_def Let_def run_simps split: prod.split)
  have ttl: "ttl_ok token_epoch_retention_secs" by (simp add: ttl_ok_def token_epoch_retention_secs_def)
  have "view (snd (r_incr (rs_redis S) ?k (server c))) = v_set_num ?k (n + 1) (view (server c))"
    using epoch n by (cases "view (server c) ?k = None") (simp_all add: epoch_is_def Let_def incr_absent incr)
  then have "view ?r j = view (server c) j" if "j \<noteq> ?k" for j
    using that by (simp add: expire [OF ttl] v_expire_def v_set_num_def)
  with run bump_epoch_Inr [OF run epoch n] c show ?thesis by auto
qed

lemma resolve_live_run:
  assumes typed: "typed (rs_namespace S) (store_view view (es_host s))" and net: "net (store_client (es_host s)) = []"
    and V: "ss_store V = S" and same: "\<And>a b. same_hash V a b \<longleftrightarrow> a = b"
  shows "\<exists>x s'. resolve_live_session V tenant user h s = (x, s') \<and> net (store_client (es_host s')) = [] \<and>
    drops (rs_namespace S) Dashboard (session_subject V (Some tenant) user) {} (store_view view (es_host s))
      (store_view view (es_host s')) \<and>
    (x = Inl AuthError.SessionNotFound \<or> x = Inr h \<or>
      (\<exists>p kept. str_at (store_view view (es_host s)) (rp_key (rs_namespace S) Dashboard h) = Some p \<and>
         successor_of_pointer p = Some kept \<and> x = Inr kept)) \<and>
    (is_session_hash h \<and> h \<in> live_of (rs_namespace S) Dashboard (session_subject V (Some tenant) user)
       (store_view view (es_host s)) \<longrightarrow> x = Inr h)"
proof (cases "is_session_hash h")
  case False
  with net drops_refl [OF typed] show ?thesis by (simp add: resolve_live_session_def)
next
  case True
  let ?u = "session_subject V (Some tenant) user" and ?c = "store_client (es_host s)"
  obtain es c' where list: "list_session_entries S Dashboard ?u ?c = (Inr es, c')" "net c' = []"
    and es: "live_of (rs_namespace S) Dashboard ?u (view (server ?c)) \<subseteq> se_session_hash ` set es"
    and d: "drops (rs_namespace S) Dashboard ?u {} (view (server ?c)) (view (server c'))"
    using list_entries_quiet [OF typed net] by blast
  define s1 where "s1 = s\<lparr>es_host := (es_host s)\<lparr>store_client := c'\<rparr>\<rparr>"
  let ?p = "str_at (view (server c')) (rp_key (rs_namespace S) Dashboard h)"
  have "r_get (rs_redis S) (rp_key (rs_namespace S) Dashboard h) (server c') = ?p"
    using typedD(2) [OF dropsD(1) [OF d], of Dashboard h] by (simp add: get)
  then have grace: "grace_successor S Dashboard h c' = (Inr (case ?p of None \<Rightarrow> None | Some p \<Rightarrow> successor_of_pointer p), c')"
    using list(2) by (simp add: grace_successor_def grace_successor_inner_def run_simps client_same)
  have p: "str_at (view (server ?c)) (rp_key (rs_namespace S) Dashboard h) = Some p" if "?p = Some p" for p
    using shrinksD(3) [OF _ that] d unfolding drops_def by blast
  have "\<exists>x. resolve_live_session V tenant user h s = (x, s1) \<and>
      (x = Inl AuthError.SessionNotFound \<or> x = Inr h \<or> (\<exists>p kept. ?p = Some p \<and> successor_of_pointer p = Some kept \<and> x = Inr kept)) \<and>
      (h \<in> se_session_hash ` set es \<longrightarrow> x = Inr h)"
    using True list grace same V
    by (auto simp: resolve_live_session_def Let_def rbind_def on_host_def on_store_def s1_def list_ex_iff
        split: option.split)
  with p es d list(2) show ?thesis by (fastforce simp: s1_def)
qed

end

section \<open>The cap\<close>

lemma resolve_limit_app:
  "es_host (snd (resolve_session_limit V tenant user s)) = es_host s"
  "\<exists>limit. fst (resolve_session_limit V tenant user s) = Inr limit"
  "es_app s' = es_app s \<Longrightarrow> fst (resolve_session_limit V tenant user s') = fst (resolve_session_limit V tenant user s)"
  by (auto simp: resolve_session_limit_def rbind_def attempt_apply on_app_def asking_def ret_def
      split: option.splits sum.splits prod.splits)

lemma victims:
  assumes same: "\<And>a b. same_hash V a b \<longleftrightarrow> a = b" and es: "distinct (map se_session_hash es)" and limit: "1 \<le> limit"
    and out_def: "out = eviction_victims V limit new_hash es"
  shows "card (se_session_hash ` set es - se_session_hash ` set out) \<le> limit"
    and "new_hash \<notin> se_session_hash ` set out" and "set out \<subseteq> set es"
    and "a \<in> set out \<Longrightarrow> b \<in> set es \<Longrightarrow> se_session_hash b \<notin> se_session_hash ` set out \<Longrightarrow>
      se_session_hash b \<noteq> new_hash \<Longrightarrow> created_key a \<le> created_key b"
proof -
  define sorted' where "sorted' = sort_key created_key es"
  define others where "others = filter (\<lambda>e. se_session_hash e \<noteq> new_hash) sorted'"
  have out: "out = take (length es - limit) others"
    using same by (simp add: out_def eviction_victims_def Let_def sorted'_def others_def)
  have others: "set others = {e \<in> set es. se_session_hash e \<noteq> new_hash}" by (simp add: others_def sorted'_def)
  have "distinct (map se_session_hash sorted')"
    using es unfolding sorted'_def distinct_map by simp
  then have d: "distinct (map se_session_hash others)" unfolding others_def by (rule distinct_map_filter)
  show sub: "set out \<subseteq> set es" using others by (auto simp: out dest: in_set_takeD)
  show "new_hash \<notin> se_session_hash ` set out" using others by (auto simp: out dest: in_set_takeD)
  have n: "card (se_session_hash ` set es) = length es" using distinct_card [OF es] by simp
  have "card (se_session_hash ` set others) = length others" using distinct_card [OF d] by simp
  moreover have "se_session_hash ` set es \<subseteq> insert new_hash (se_session_hash ` set others)" using others by auto
  then have "card (se_session_hash ` set es) \<le> card (insert new_hash (se_session_hash ` set others))"
    by (intro card_mono) simp_all
  ultimately have "length es \<le> Suc (length others)" using n by (simp add: card_insert_if split: if_splits)
  then have "length out = length es - limit" using limit by (simp add: out)
  moreover have "distinct (map se_session_hash out)" unfolding out take_map [symmetric] using d by (rule distinct_take)
  then have "card (se_session_hash ` set out) = length out" by (metis distinct_card length_map list.set_map)
  moreover have "card (se_session_hash ` set es - se_session_hash ` set out) =
      card (se_session_hash ` set es) - card (se_session_hash ` set out)"
    using sub by (intro card_Diff_subset) auto
  ultimately show "card (se_session_hash ` set es - se_session_hash ` set out) \<le> limit" using n by simp
  show "created_key a \<le> created_key b" if a: "a \<in> set out" and b: "b \<in> set es" "se_session_hash b \<notin> se_session_hash ` set out"
    "se_session_hash b \<noteq> new_hash"
  proof -
    have s: "sorted (map created_key (out @ drop (length es - limit) others))"
      by (simp add: out others_def sorted'_def sorted_filter)
    have "b \<in> set (take (length es - limit) others @ drop (length es - limit) others)" using b others by simp
    then have "b \<in> set out \<or> b \<in> set (drop (length es - limit) others)" unfolding set_append out by blast
    with b have "b \<in> set (drop (length es - limit) others)" by blast
    with s a show ?thesis by (auto simp: sorted_append)
  qed
qed

text \<open>The account's live sessions and when they began, read off the state of a call.\<close>

definition live_sessions ::
    "('r \<Rightarrow> rview) \<Rightarrow> ('r, 'w) SessionService \<Rightarrow> string option \<Rightarrow> string \<Rightarrow> ('r, 'w) engine_state \<Rightarrow> string set" where
  "live_sessions view V tenant user s =
     live_of (rs_namespace (ss_store V)) Dashboard (session_subject V tenant user) (store_view view (es_host s))"

definition began :: "('r \<Rightarrow> rview) \<Rightarrow> ('r, 'w) SessionService \<Rightarrow> ('r, 'w) engine_state \<Rightarrow> string \<Rightarrow> int option" where
  "began view V s h = map_option sdt_created_at
     (detail_at (rs_codec (ss_store V)) (rs_namespace (ss_store V)) Dashboard (store_view view (es_host s)) h)"

lemma same_hash_iff: "jws_service (ss_libs V) \<Longrightarrow> same_hash V a b \<longleftrightarrow> a = b"
  by (simp add: same_hash_def jws_service.constant_time_eq)

lemma fire_new_session_host:
  "\<exists>s'. fire_new_session V rec new_hash ctx s = (Inr (), s') \<and> store_client (es_host s') = store_client (es_host s)"
  by (auto simp: fire_new_session_def rbind_def attempt_apply on_app_def on_host_def spawn_guarded_def
      split: sum.splits option.splits prod.splits)

lemma enforce_session_limit_run:
  assumes store: "store_service (ss_store V) view" and jws: "jws_service (ss_libs V)"
    and typed: "typed (rs_namespace (ss_store V)) (store_view view (es_host s))" and net: "net (store_client (es_host s)) = []"
    and limit: "fst (resolve_session_limit V (sr_tenant_id rec) (sr_user_id rec) s) = Inr limit"
  shows "\<exists>s' es out. enforce_session_limit V rec new_hash ctx s = (Inr (), s') \<and>
    out = eviction_victims V (max limit 1) new_hash es \<and> distinct (map se_session_hash es) \<and>
    live_sessions view V (sr_tenant_id rec) (sr_user_id rec) s \<subseteq> se_session_hash ` set es \<and>
    (\<forall>e \<in> set es. created_key e = began view V s (se_session_hash e)) \<and>
    live_sessions view V (sr_tenant_id rec) (sr_user_id rec) s' =
      live_sessions view V (sr_tenant_id rec) (sr_user_id rec) s - se_session_hash ` set out"
proof -
  let ?u = "session_subject V (sr_tenant_id rec) (sr_user_id rec)" and ?c = "store_client (es_host s)"
  obtain es c' where list: "list_session_entries (ss_store V) Dashboard ?u ?c = (Inr es, c')" "net c' = []"
    and es: "distinct (map se_session_hash es)"
      "live_of (rs_namespace (ss_store V)) Dashboard ?u (view (server ?c)) \<subseteq> se_session_hash ` set es"
      "\<forall>e \<in> set es. se_detail e = detail_at (rs_codec (ss_store V)) (rs_namespace (ss_store V)) Dashboard
         (view (server ?c)) (se_session_hash e)"
    and d: "drops (rs_namespace (ss_store V)) Dashboard ?u {} (view (server ?c)) (view (server c'))"
    using store_service.list_entries_quiet [OF store typed net] by blast
  define s1 where "s1 = s\<lparr>es_host := (es_host s)\<lparr>store_client := c'\<rparr>\<rparr>"
  define s2 where "s2 = snd (resolve_session_limit V (sr_tenant_id rec) (sr_user_id rec) s1)"
  define out where "out = eviction_victims V (max limit 1) new_hash es"
  have res: "fst (resolve_session_limit V (sr_tenant_id rec) (sr_user_id rec) s1) = Inr limit"
    using resolve_limit_app(3) [of s1 s V] limit by (simp add: s1_def)
  then have "resolve_session_limit V (sr_tenant_id rec) (sr_user_id rec) s1 = (Inr limit, s2)"
    by (simp add: s2_def prod_eq_iff)
  then have run: "enforce_session_limit V rec new_hash ctx s = evict V ?u (sr_user_id rec) ctx out s2"
    using list by (simp add: enforce_session_limit_def Let_def rbind_def attempt_apply on_host_def on_store_def s1_def out_def)
  have "es_host s2 = es_host s1" unfolding s2_def by (rule resolve_limit_app(1))
  then have "store_client (es_host s2) = c'" by (simp add: s1_def)
  with store_service.evict_run [OF store, of s2 V ?u "sr_user_id rec" ctx out] list(2) d dropsD(1) [OF d]
  obtain s' where "evict V ?u (sr_user_id rec) ctx out s2 = (Inr (), s')"
    and "drops (rs_namespace (ss_store V)) Dashboard ?u (se_session_hash ` set out) (view (server c')) (store_view view (es_host s'))"
    by auto
  then show ?thesis using run es dropsD(2) [OF d] dropsD(2)
    by (intro exI [of _ s'] exI [of _ es] exI [of _ out])
       (simp add: live_sessions_def began_def created_key_def out_def)
qed

text \<open>Two sessions of one account in a store, and a service with the cap one and no repository rows.\<close>

definition sample_users :: "unit UserRepository" where
  "sample_users = \<lparr>ur_find_by_id = (\<lambda>_ _. ret None), ur_find_by_email = (\<lambda>_ _. ret None),
     ur_create = (\<lambda>_. raise (Backend [])), ur_update_password = (\<lambda>_ _ _. ret ()),
     ur_update_mfa = (\<lambda>_ _ _. ret ()), ur_update_last_login = (\<lambda>_ _. ret ()), ur_update_status = (\<lambda>_ _ _. ret ()),
     ur_update_email_verified = (\<lambda>_ _ _. ret ()), ur_update_email = (\<lambda>_ _ _. ret ()),
     ur_find_by_oauth_id = (\<lambda>_ _ _. ret None), ur_link_oauth = (\<lambda>_ _ _. ret ()),
     ur_create_with_oauth = (\<lambda>_. raise (Backend []))\<rparr>"

definition sample_sessions :: "(mem, unit) SessionService" where
  "sample_sessions = \<lparr>ss_libs = plain_lib, ss_store = mem_stores, ss_users = sample_users,
     ss_config = \<lparr>sc_enabled = True, sc_default_max_sessions = 1, sc_max_sessions_resolver = None\<rparr>,
     ss_refresh_ttl_secs = 604800, ss_identifier_key = [7]\<rparr>"

definition first_hash :: string where
  "first_hash = replicate 64 (CHR ''a'')"

definition second_hash :: string where
  "second_hash = replicate 64 (CHR ''b'')"

definition sample_subject :: string where
  "sample_subject = session_subject sample_sessions (Some ''t1'') ''u1''"

definition two_sessions :: "(mem, unit) engine_state" where
  "two_sessions = \<lparr>es_host = \<lparr>store_client = \<lparr>server = Map.empty
       (sess_key ''auth'' Dashboard sample_subject \<mapsto> (MSet [index_member Rt first_hash, index_member Rt second_hash], None),
        rt_key ''auth'' Dashboard first_hash \<mapsto> (MStr ''x'', None),
        rt_key ''auth'' Dashboard second_hash \<mapsto> (MStr ''y'', None)), net = []\<rparr>,
     entropy = (\<lambda>_. 0), clock = (\<lambda>_. 0), spawned = []\<rparr>, es_app = ()\<rparr>"

definition sample_record :: SessionRecord where
  "sample_record = demo_record\<lparr>sr_user_id := ''u1'', sr_tenant_id := Some ''t1''\<rparr>"

lemma mem_view_empty: "mem_view Map.empty = Map.empty"
  by (simp add: mem_view_def fun_eq_iff)

lemma sample_hashes: "first_hash \<noteq> second_hash" "is_session_hash first_hash" "is_session_hash second_hash"
  by (simp_all add: first_hash_def second_hash_def is_session_hash_def list_all_iff replicate_eq_replicate)

lemma two_sessions_view:
  "store_view mem_view (es_host two_sessions) = Map.empty
     (sess_key ''auth'' Dashboard sample_subject \<mapsto> (RSet {index_member Rt first_hash, index_member Rt second_hash}, None),
      rt_key ''auth'' Dashboard first_hash \<mapsto> (RStr ''x'', None),
      rt_key ''auth'' Dashboard second_hash \<mapsto> (RStr ''y'', None))"
  by (simp add: two_sessions_def mem_view_empty)

lemma two_sessions_typed: "typed ''auth'' (store_view mem_view (es_host two_sessions))"
  unfolding typed_def two_sessions_view
  by (intro allI, case_tac kind) (simp_all add: str_or_absent_def set_or_absent_def)

lemma two_sessions_live: "live_sessions mem_view sample_sessions (Some ''t1'') ''u1'' two_sessions = {first_hash, second_hash}"
  unfolding live_sessions_def sample_subject_def [symmetric] two_sessions_view
  by (auto simp: live_of_def members_at_def sample_sessions_def)

lemma two_sessions_epoch: "epoch_is ''auth'' Dashboard sample_subject (store_view mem_view (es_host two_sessions)) 0"
  unfolding two_sessions_view by (simp add: epoch_is_def)

text \<open>
  C35. The session cap holds after every login. Once a new session was recorded, on a working store, the
  account has at most as many live sessions as its cap (at least one) allows; the new session is still
  one of them; no session appears; and the ones that were dropped began no later than any that stayed,
  the new one apart, a session without a readable detail counting as the oldest.
\<close>

theorem session_cap_holds:
  assumes "store_service (ss_store V) view" and "jws_service (ss_libs V)"
    and "typed (rs_namespace (ss_store V)) (store_view view (es_host s))" and "net (store_client (es_host s)) = []"
    and "fst (resolve_session_limit V (sr_tenant_id rec) (sr_user_id rec) s) = Inr limit"
    and "after_session_created V rec new_hash ctx s = (x, s')"
  shows "let live = live_sessions view V (sr_tenant_id rec) (sr_user_id rec) in
    x = Inr () \<and> card (live s') \<le> max limit 1 \<and> live s' \<subseteq> live s \<and> (new_hash \<in> live s \<longrightarrow> new_hash \<in> live s') \<and>
    (\<forall>a \<in> live s - live s'. \<forall>b \<in> live s' - {new_hash}. began view V s a \<le> began view V s b)"
proof -
  let ?live = "live_sessions view V (sr_tenant_id rec) (sr_user_id rec)"
  obtain s1 es out where run: "enforce_session_limit V rec new_hash ctx s = (Inr (), s1)"
    and out: "out = eviction_victims V (max limit 1) new_hash es" and es: "distinct (map se_session_hash es)"
      "?live s \<subseteq> se_session_hash ` set es" "\<forall>e \<in> set es. created_key e = began view V s (se_session_hash e)"
    and live: "?live s1 = ?live s - se_session_hash ` set out"
    using enforce_session_limit_run [OF assms(1-5), of new_hash ctx] by (elim exE conjE) (rule that)
  obtain s2 where "fire_new_session V rec new_hash ctx s1 = (Inr (), s2)" "store_client (es_host s2) = store_client (es_host s1)"
    using fire_new_session_host [of V rec new_hash ctx s1] by blast
  with run assms(6) have x: "x = Inr ()" and "?live s' = ?live s1"
    by (auto simp: after_session_created_def rbind_def live_sessions_def)
  with live have live': "?live s' = ?live s - se_session_hash ` set out" by simp
  have v: "card (se_session_hash ` set es - se_session_hash ` set out) \<le> max limit 1"
    "new_hash \<notin> se_session_hash ` set out" "set out \<subseteq> set es"
    using victims(1-3) [OF same_hash_iff [OF assms(2)] es(1) _ out] by simp_all
  have "card (?live s') \<le> card (se_session_hash ` set es - se_session_hash ` set out)"
    using es(2) live' by (intro card_mono) auto
  moreover have "began view V s a \<le> began view V s b" if ab: "a \<in> ?live s - ?live s'" "b \<in> ?live s' - {new_hash}" for a b
  proof -
    obtain e f where "e \<in> set out" "a = se_session_hash e" "f \<in> set es" "b = se_session_hash f" "b \<notin> se_session_hash ` set out"
      using ab es(2) unfolding live' by blast
    then show ?thesis
      using victims(4) [OF same_hash_iff [OF assms(2)] es(1) _ out, of e f] es(3) v(3) ab(2) by auto
  qed
  moreover have "?live s' \<subseteq> ?live s" "new_hash \<in> ?live s \<longrightarrow> new_hash \<in> ?live s'"
    using v(2) by (simp_all add: live')
  ultimately show ?thesis unfolding Let_def using x v(1) by (intro conjI ballI) simp_all
qed

theorem session_cap_holds_witness:
  "\<exists>s'. after_session_created sample_sessions sample_record second_hash (detached_context HookPlane_Dashboard ''u1'' [] []) two_sessions =
      (Inr (), s') \<and>
    live_sessions mem_view sample_sessions (Some ''t1'') ''u1'' s' = {second_hash}"
proof -
  obtain x s' where run: "after_session_created sample_sessions sample_record second_hash
      (detached_context HookPlane_Dashboard ''u1'' [] []) two_sessions = (x, s')" by fastforce
  have "fst (resolve_session_limit sample_sessions (sr_tenant_id sample_record) (sr_user_id sample_record) two_sessions) = Inr 1"
    by (simp add: resolve_session_limit_def sample_sessions_def ret_def)
  moreover have "store_service (ss_store sample_sessions) mem_view" "jws_service (ss_libs sample_sessions)"
      "rs_namespace (ss_store sample_sessions) = ''auth''"
    using mem_store.store_service_axioms plain.jws_service_axioms by (simp_all add: sample_sessions_def)
  moreover have "net (store_client (es_host two_sessions)) = []" by (simp add: two_sessions_def)
  ultimately have "x = Inr ()" and card: "card (live_sessions mem_view sample_sessions (Some ''t1'') ''u1'' s') \<le> 1"
    and sub: "live_sessions mem_view sample_sessions (Some ''t1'') ''u1'' s' \<subseteq> {first_hash, second_hash}"
      "second_hash \<in> live_sessions mem_view sample_sessions (Some ''t1'') ''u1'' s'"
    using session_cap_holds [OF _ _ _ _ _ run, of mem_view 1] two_sessions_typed two_sessions_live
    by (simp_all add: sample_record_def Let_def)
  moreover have "finite (live_sessions mem_view sample_sessions (Some ''t1'') ''u1'' s')" using sub(1) by (rule finite_subset) simp
  then have "live_sessions mem_view sample_sessions (Some ''t1'') ''u1'' s' = {second_hash}"
    using card sub(2) by (auto simp: card_le_Suc0_iff_eq)
  ultimately show ?thesis using run by blast
qed

section \<open>Signing out the other devices\<close>

lemma live_of_cong:
  assumes "\<And>k. k \<noteq> key ns (epoch_prefix kind) subject \<Longrightarrow> v' k = v k"
  shows "live_of ns kind subject v' = live_of ns kind subject v"
proof -
  have "v' (sess_key ns kind subject) = v (sess_key ns kind subject)" "\<And>h. v' (rt_key ns kind h) = v (rt_key ns kind h)"
    by (rule assms, simp)+
  then show ?thesis by (simp add: live_of_def members_at_def)
qed

lemma rest_signed_out:
  assumes store: "store_service (ss_store V) view" and jws: "jws_service (ss_libs V)"
    and typed: "typed (rs_namespace (ss_store V)) (store_view view (es_host s))" and net: "net (store_client (es_host s)) = []"
    and epoch: "epoch_is (rs_namespace (ss_store V)) Dashboard (session_subject V (Some tenant) user) (store_view view (es_host s)) n"
    and n: "n + 1 < 2 ^ 63"
    and resolved: "resolve_live_session V tenant user current s = (Inr kept, s1)" "net (store_client (es_host s1)) = []"
      "drops (rs_namespace (ss_store V)) Dashboard (session_subject V (Some tenant) user) {} (store_view view (es_host s))
        (store_view view (es_host s1))"
  defines "ns \<equiv> rs_namespace (ss_store V)" and "subject \<equiv> session_subject V (Some tenant) user"
  shows "\<exists>s'. revoke_all_except_current V tenant user current s = (Inr (), s') \<and>
    epoch_is ns Dashboard subject (store_view view (es_host s')) (n + 1) \<and>
    live_of ns Dashboard subject (store_view view (es_host s')) =
      live_of ns Dashboard subject (store_view view (es_host s)) \<inter> {kept} \<and>
    (\<forall>t. index_member Rp t \<in> members_at (store_view view (es_host s)) (sess_key ns Dashboard subject) \<longrightarrow>
      store_view view (es_host s') (rp_key ns Dashboard t) = None)"
proof -
  let ?v = "store_view view (es_host s)"
  note d1 = resolved(3) [folded ns_def subject_def]
  obtain es c2 where list: "list_session_entries (ss_store V) Dashboard subject (store_client (es_host s1)) = (Inr es, c2)" "net c2 = []"
    and es: "live_of ns Dashboard subject (store_view view (es_host s1)) \<subseteq> se_session_hash ` set es"
    and d2: "drops ns Dashboard subject {} (store_view view (es_host s1)) (view (server c2))"
    using store_service.list_entries_quiet [OF store dropsD(1) [OF resolved(3)] resolved(2)] unfolding ns_def by blast
  define s2 where "s2 = s1\<lparr>es_host := (es_host s1)\<lparr>store_client := c2\<rparr>\<rparr>"
  have "typed (rs_namespace (ss_store V)) (store_view view (es_host s2))" using dropsD(1) [OF d2] by (simp add: s2_def ns_def)
  then obtain s3 where s3: "revoke_others V subject kept es s2 = (Inr (), s3)" "net (store_client (es_host s3)) = []"
    and d3: "drops ns Dashboard subject (se_session_hash ` set es - {kept}) (view (server c2)) (store_view view (es_host s3))"
    using store_service.revoke_others_run [OF store, of s2 V subject kept es] same_hash_iff [OF jws] list(2)
    by (auto simp: s2_def ns_def)
  obtain c4 where sweep: "sweep_grace_pointers (ss_store V) Dashboard subject (store_client (es_host s3)) = (Inr (), c4)" "net c4 = []"
    and d4: "drops ns Dashboard subject {} (store_view view (es_host s3)) (view (server c4))"
    and swept: "\<And>t. index_member Rp t \<notin> members_at (view (server c4)) (sess_key ns Dashboard subject)"
    using store_service.sweep_run [OF store dropsD(1) [OF d3, unfolded ns_def] s3(2), of Dashboard subject] by (auto simp: ns_def)
  have d: "drops ns Dashboard subject (se_session_hash ` set es - {kept}) ?v (view (server c4))"
    using drops_trans [OF drops_trans [OF drops_trans [OF d1 d2] d3] d4] by simp
  obtain m c5 where bump: "bump_epoch (ss_store V) Dashboard subject c4 = (Inr m, c5)"
    and e: "epoch_is ns Dashboard subject (view (server c5)) (n + 1)"
    and same: "\<And>k. k \<noteq> key ns (epoch_prefix Dashboard) subject \<Longrightarrow> view (server c5) k = view (server c4) k"
    using store_service.bump_epoch_run [OF store sweep(2), of Dashboard subject n] n epoch dropsD(3) [OF d, of n]
    unfolding ns_def subject_def by blast
  have "live_of ns Dashboard subject (view (server c5)) = live_of ns Dashboard subject ?v \<inter> {kept}"
    using live_of_cong [of ns Dashboard subject "view (server c5)", OF same] dropsD(2) [OF d] dropsD(2) [OF d1] es by auto
  moreover have "view (server c5) (rp_key ns Dashboard t) = None"
    if "index_member Rp t \<in> members_at ?v (sess_key ns Dashboard subject)" for t
  proof -
    have "str_at (view (server c4)) (rp_key ns Dashboard t) = None"
      using shrinksD(6) [of ns ?v "view (server c4)" Dashboard t subject] d that swept [of t] by (auto simp: drops_def)
    then have "view (server c4) (rp_key ns Dashboard t) = None" using typed_str_absent(2) [OF dropsD(1) [OF d]] by blast
    then show ?thesis using same by simp
  qed
  moreover have "revoke_all_except_current V tenant user current s =
      (Inr (), s3\<lparr>es_host := (es_host s3)\<lparr>store_client := c5\<rparr>\<rparr>)"
    using resolved(1) list s3 sweep bump
    by (simp add: revoke_all_except_current_def Let_def rbind_def on_host_def on_store_def s2_def subject_def)
  ultimately show ?thesis using e by simp
qed

text \<open>
  C36. Signing out every other device keeps exactly one session. On a working store the call answers
  either \<open>SessionNotFound\<close>, and then every live session of the account stays and the account's generation
  does not move, or success, and then the one session left is the presented one or, when it was just
  rotated away, the successor its grace pointer names; no grace pointer of the account is left, so no
  spent token can be traded for a session; and the generation is raised, so the access tokens already
  handed out to the other devices die with their sessions. Presenting a live session always succeeds.
\<close>

theorem others_signed_out:
  assumes "store_service (ss_store V) view" and "jws_service (ss_libs V)"
    and "typed (rs_namespace (ss_store V)) (store_view view (es_host s))" and "net (store_client (es_host s)) = []"
    and "epoch_is (rs_namespace (ss_store V)) Dashboard (session_subject V (Some tenant) user) (store_view view (es_host s)) n"
    and "n + 1 < 2 ^ 63" and "revoke_all_except_current V tenant user current s = (x, s')"
  shows "let ns = rs_namespace (ss_store V); subject = session_subject V (Some tenant) user;
      live = live_sessions view V (Some tenant) user; v = store_view view (es_host s); v' = store_view view (es_host s') in
    (x = Inl AuthError.SessionNotFound \<and> live s' = live s \<and> epoch_is ns Dashboard subject v' n \<or>
     x = Inr () \<and> epoch_is ns Dashboard subject v' (n + 1) \<and>
     (\<forall>t. index_member Rp t \<in> members_at v (sess_key ns Dashboard subject) \<longrightarrow> v' (rp_key ns Dashboard t) = None) \<and>
     (\<exists>kept. live s' = live s \<inter> {kept} \<and> (kept = current \<or>
        (\<exists>p. str_at v (rp_key ns Dashboard current) = Some p \<and> successor_of_pointer p = Some kept)))) \<and>
    (is_session_hash current \<and> current \<in> live s \<longrightarrow> x = Inr () \<and> live s' = {current})"
proof -
  let ?u = "session_subject V (Some tenant) user"
  obtain y s1 where r: "resolve_live_session V tenant user current s = (y, s1)" "net (store_client (es_host s1)) = []"
      "drops (rs_namespace (ss_store V)) Dashboard ?u {} (store_view view (es_host s)) (store_view view (es_host s1))"
    and y: "y = Inl AuthError.SessionNotFound \<or> y = Inr current \<or>
      (\<exists>p kept. str_at (store_view view (es_host s)) (rp_key (rs_namespace (ss_store V)) Dashboard current) = Some p \<and>
         successor_of_pointer p = Some kept \<and> y = Inr kept)"
    and current: "is_session_hash current \<and> current \<in> live_sessions view V (Some tenant) user s \<longrightarrow> y = Inr current"
    using store_service.resolve_live_run [OF assms(1,3,4) HOL.refl same_hash_iff [OF assms(2)]]
    unfolding live_sessions_def by blast
  show ?thesis
  proof (cases y)
    case (Inl e)
    with r(1) assms(7) have "x = Inl e" "s' = s1" by (simp_all add: revoke_all_except_current_def rbind_def)
    with Inl y current dropsD(2,3) [OF r(3)] assms(5) show ?thesis by (auto simp: Let_def live_sessions_def)
  next
    case (Inr kept)
    from rest_signed_out [OF assms(1-6) r(1) [unfolded Inr] r(2,3)] assms(7)
    show ?thesis using y current Inr by (auto simp: Let_def live_sessions_def)
  qed
qed

theorem others_signed_out_witness:
  "\<exists>s'. revoke_all_except_current sample_sessions ''t1'' ''u1'' first_hash two_sessions = (Inr (), s') \<and>
    live_sessions mem_view sample_sessions (Some ''t1'') ''u1'' s' = {first_hash} \<and>
    epoch_is ''auth'' Dashboard sample_subject (store_view mem_view (es_host s')) 1"
proof -
  obtain x s' where run: "revoke_all_except_current sample_sessions ''t1'' ''u1'' first_hash two_sessions = (x, s')" by fastforce
  have "store_service (ss_store sample_sessions) mem_view" "jws_service (ss_libs sample_sessions)"
      "rs_namespace (ss_store sample_sessions) = ''auth''"
    using mem_store.store_service_axioms plain.jws_service_axioms by (simp_all add: sample_sessions_def)
  moreover have "net (store_client (es_host two_sessions)) = []" by (simp add: two_sessions_def)
  ultimately show ?thesis
    using others_signed_out [OF _ _ _ _ _ _ run, of mem_view 0] run two_sessions_typed two_sessions_live two_sessions_epoch sample_hashes
    by (simp add: Let_def sample_subject_def [symmetric]) blast
qed

end
