(* ===== verification/Service_Properties.thy ===== *)
theory Service_Properties
  imports Auth_Services
begin

text \<open>
  What the password and one-time-password services guarantee: a fresh hash is read back under the
  parameters it was written with, exactly when their cost is below the ceiling of the verifier; the
  derivations admitted at once fit the memory budget; rejection sampling returns whenever the random
  source keeps delivering usable bytes and every digit is equally likely.
\<close>

section \<open>A concrete hashing library\<close>

text \<open>
  The derivation writes the password itself after its parameters: enough to show that the contract of
  the hashing crates can be met.
\<close>

definition sample_phc :: "string \<Rightarrow> nat \<Rightarrow> nat \<Rightarrow> nat \<Rightarrow> u8 list \<Rightarrow> string" where
  "sample_phc ident a b c pw =
     ident @ CHR '':'' # show_nat a @ CHR '':'' # show_nat b @ CHR '':'' # show_nat c @ CHR '':'' # to_hex pw"

definition sample_parse :: "string \<Rightarrow> phc option" where
  "sample_parse s =
     (case split_once (CHR '':'') s of None \<Rightarrow> None | Some (ident, s1) \<Rightarrow>
     (case split_once (CHR '':'') s1 of None \<Rightarrow> None | Some (a, s2) \<Rightarrow>
     (case split_once (CHR '':'') s2 of None \<Rightarrow> None | Some (b, s3) \<Rightarrow>
     (case split_once (CHR '':'') s3 of None \<Rightarrow> None | Some (c, stored) \<Rightarrow>
        let names = (if ident = ''scrypt'' then [''ln'', ''r'', ''p''] else [''m'', ''t'', ''p'']) in
        Some \<lparr>ph_algorithm = ident,
              ph_decimal = (\<lambda>n. case map_of (zip names [a, b, c]) n of None \<Rightarrow> None | Some d \<Rightarrow> parse_nat d),
              ph_verify_password = (\<lambda>pw. to_hex pw = stored)\<rparr>))))"

definition sample_kdf :: kdf_lib where
  "sample_kdf =
     \<lparr>kdf_parse = sample_parse,
      kdf_scrypt_params = (\<lambda>ln r p n. 0 < r \<and> 0 < p),
      kdf_scrypt_hash = (\<lambda>pw ln r p n salt. Some (sample_phc ''scrypt'' ln r p pw)),
      kdf_argon2_params = (\<lambda>m t p n. True),
      kdf_argon2_hash = (\<lambda>pw m t p n salt. Some (sample_phc ''argon2id'' m t p pw))\<rparr>"

lemma show_nat_no_colon [simp]: "CHR '':'' \<notin> set (show_nat n)"
proof (induction n rule: show_nat.induct)
  case (1 n)
  have "CHR '':'' \<noteq> digit_char d" if "d < 10" for d
  proof
    assume "CHR '':'' = digit_char d"
    then have "char_digit (CHR '':'') = Some d" using that by simp
    then show False by (simp add: char_digit_def)
  qed
  with 1 show ?case by (subst show_nat.simps) (auto split: if_splits)
qed

lemma sample_parse_phc:
  "sample_parse (sample_phc ''scrypt'' a b c pw) =
     Some \<lparr>ph_algorithm = ''scrypt'',
       ph_decimal = (\<lambda>n. case map_of (zip [''ln'', ''r'', ''p''] [show_nat a, show_nat b, show_nat c]) n of
         None \<Rightarrow> None | Some d \<Rightarrow> parse_nat d), ph_verify_password = (\<lambda>x. to_hex x = to_hex pw)\<rparr>"
  "sample_parse (sample_phc ''argon2id'' a b c pw) =
     Some \<lparr>ph_algorithm = ''argon2id'',
       ph_decimal = (\<lambda>n. case map_of (zip [''m'', ''t'', ''p''] [show_nat a, show_nat b, show_nat c]) n of
         None \<Rightarrow> None | Some d \<Rightarrow> parse_nat d), ph_verify_password = (\<lambda>x. to_hex x = to_hex pw)\<rparr>"
  by (simp_all add: sample_parse_def sample_phc_def split_once_append)

interpretation sample_kdf: kdf_service sample_kdf
  by unfold_locales (auto simp: sample_kdf_def sample_parse_phc)

section \<open>Passwords\<close>

text \<open>
  C32. A password that was just set is accepted. Whatever parameters a deployment writes with, a hash
  the service produced is not stale under them, and it verifies its own password exactly when the cost
  those parameters ask for is within the ceiling of the verifier: 512 MiB for one derivation and, for
  scrypt, a block size and a parallelisation of at most 255.
\<close>

theorem fresh_hash_verifies:
  assumes "kdf_service L" and "hash L (as_bytes password) (to_crypto_params config) h = (Inr phc, h')"
  shows "verify_password L (as_bytes password) phc = Inr (within_ceiling (to_crypto_params config)) \<and>
    \<not> needs_rehash L phc (to_crypto_params config)"
  using kdf_service.fresh_hash [OF assms] by blast

text \<open>A host for concrete runs: a quiet network, a source of zeros and a fixed clock.\<close>

definition sample_kdf_host :: "mem host" where
  "sample_kdf_host = \<lparr>store_client = \<lparr>server = Map.empty, net = []\<rparr>, entropy = (\<lambda>_. 0), clock = (\<lambda>_. 0), spawned = []\<rparr>"

lemma sample_scrypt_run:
  assumes "is_power_of_two n" and "2 ^ 14 \<le> n" and "0 < r" and "0 < p"
  shows "\<exists>h'. hash sample_kdf pw \<lparr>pp_active = Scrypt,
      pp_scrypt = \<lparr>sp_cost_factor = n, sp_block_size = r, sp_parallelization = p\<rparr>, pp_argon2 = a\<rparr> h =
    (Inr (sample_phc ''scrypt'' (trailing_zeros n) r p pw), h')"
  using assms
  by (simp add: hash_def hash_scrypt_def scrypt_validate_def MIN_COST_FACTOR_def rbind_def sample_kdf_def random_bytes_def
      lift_result_def)

lemma powers_of_two: "is_power_of_two (2 ^ 17)" "is_power_of_two (2 ^ 20)"
  by (simp_all add: is_power_of_two_def count_ones.simps)

theorem fresh_hash_verifies_witness:
  "\<exists>phc h'. hash sample_kdf (as_bytes ''correct horse'') (to_crypto_params password_config_default) sample_kdf_host =
      (Inr phc, h') \<and>
    verify_password sample_kdf (as_bytes ''correct horse'') phc = Inr True"
proof -
  obtain h' where run: "hash sample_kdf (as_bytes ''correct horse'') (to_crypto_params password_config_default)
      sample_kdf_host = (Inr (sample_phc ''scrypt'' (trailing_zeros (2 ^ 17)) 8 1 (as_bytes ''correct horse'')), h')"
    using sample_scrypt_run [OF powers_of_two(1), of 8 1 "as_bytes ''correct horse''" argon2_default sample_kdf_host]
    by (auto simp: to_crypto_params_def password_config_default_def scrypt_default_def)
  have "within_ceiling (to_crypto_params password_config_default)"
    by (simp add: within_ceiling_def to_crypto_params_def password_config_default_def scrypt_default_def
        MAX_KDF_BYTES_PER_DERIVATION_def MAX_SCRYPT_PARAMETER_def)
  with fresh_hash_verifies [OF sample_kdf.kdf_service_axioms run] run show ?thesis by auto
qed

text \<open>A cost over the ceiling of the verifier: \<open>2 ^ 20\<close> at the default block size asks for 1 GiB.\<close>

definition heavy_password_config :: PasswordConfig where
  "heavy_password_config = password_config_default
     \<lparr>pwc_scrypt := \<lparr>sp_cost_factor = 2 ^ 20, sp_block_size = 8, sp_parallelization = 1\<rparr>\<rparr>"

text \<open>
  C33. Startup validation does not hold the configured cost to that ceiling. A deployment with the
  cost factor \<open>2 ^ 20\<close> and the default block size passes it, and then no password can ever be used:
  every hash written under that configuration is refused for every password, the one it was made from
  included.
\<close>

theorem accepted_cost_never_verifies:
  assumes "kdf_service L"
    and "hash L (as_bytes password) (to_crypto_params heavy_password_config) h = (Inr phc, h')"
  shows "validate_password heavy_password_config = Inr () \<and> verify_password L other phc = Inr False"
proof -
  have "validate_password heavy_password_config = Inr ()"
    using powers_of_two(2) by (simp add: validate_password_def heavy_password_config_def config_defaults)
  moreover have "\<not> within_ceiling (to_crypto_params heavy_password_config)"
    by (simp add: within_ceiling_def to_crypto_params_def heavy_password_config_def config_defaults
        MAX_KDF_BYTES_PER_DERIVATION_def)
  ultimately show ?thesis using kdf_service.fresh_hash(3) [OF assms] by blast
qed

theorem accepted_cost_never_verifies_witness:
  "\<exists>phc h'. hash sample_kdf (as_bytes ''correct horse'') (to_crypto_params heavy_password_config) sample_kdf_host =
      (Inr phc, h') \<and> validate_password heavy_password_config = Inr () \<and>
    verify_password sample_kdf (as_bytes ''correct horse'') phc = Inr False"
proof -
  obtain h' where run: "hash sample_kdf (as_bytes ''correct horse'') (to_crypto_params heavy_password_config)
      sample_kdf_host = (Inr (sample_phc ''scrypt'' (trailing_zeros (2 ^ 20)) 8 1 (as_bytes ''correct horse'')), h')"
    using sample_scrypt_run [OF powers_of_two(2), of 8 1 "as_bytes ''correct horse''" argon2_default sample_kdf_host]
    by (auto simp: to_crypto_params_def heavy_password_config_def password_config_default_def)
  from run accepted_cost_never_verifies [OF sample_kdf.kdf_service_axioms run] show ?thesis by blast
qed

text \<open>
  The derivations that may run at once are sized to the memory budget: at least two and at most
  the number of cores (or two), and more than two only when together they stay within 512 MiB.
\<close>

theorem kdf_permits_fit_budget:
  "2 \<le> kdf_permit_count cores config \<and> kdf_permit_count cores config \<le> max 2 cores \<and>
    (kdf_permit_count cores config = 2 \<or> kdf_permit_count cores config * kdf_working_set_mib config \<le> 512)"
proof -
  let ?w = "kdf_working_set_mib config" and ?m = "512 div kdf_working_set_mib config"
  have n: "kdf_permit_count cores config = min (max ?m 2) (max cores 2)"
    by (simp add: kdf_permit_count_def KDF_MEMORY_BUDGET_MIB_def)
  have "kdf_permit_count cores config * ?w \<le> 512" if "kdf_permit_count cores config \<noteq> 2"
  proof -
    have "kdf_permit_count cores config \<le> ?m" using n that by (auto simp: min_def max_def split: if_splits)
    then have "kdf_permit_count cores config * ?w \<le> ?m * ?w" by simp
    also have "\<dots> \<le> 512" by simp
    finally show ?thesis .
  qed
  moreover have "2 \<le> kdf_permit_count cores config" "kdf_permit_count cores config \<le> max 2 cores" using n by auto
  ultimately show ?thesis by blast
qed

section \<open>One-time passwords\<close>

lemma draw_digit_accept: "digit_from_byte (src i) = Some d \<Longrightarrow> draw_digit src i = Some (d, Suc i)"
  by (simp add: draw_digit.simps)

lemma draw_digit_skip: "digit_from_byte (src i) = None \<Longrightarrow> draw_digit src i = draw_digit src (Suc i)"
  by (subst draw_digit.simps) simp

definition usable :: "(nat \<Rightarrow> u8) \<Rightarrow> nat \<Rightarrow> bool" where
  "usable src i \<longleftrightarrow> unat (src i) < 250"

lemma digit_usable: "digit_from_byte (src i) = None \<longleftrightarrow> \<not> usable src i"
  by (simp add: digit_from_byte_def usable_def)

lemma draw_digit_finds:
  assumes "usable src n" and "i \<le> n" and "\<And>j. i \<le> j \<Longrightarrow> j < n \<Longrightarrow> \<not> usable src j"
  shows "draw_digit src i = Some (char_of (48 + unat (src n) mod 10), Suc n)"
  using assms(2,3)
proof (induction "n - i" arbitrary: i)
  case 0
  then show ?case using assms(1) by (simp add: draw_digit_accept digit_from_byte_def usable_def)
next
  case (Suc d)
  then have "digit_from_byte (src i) = None" by (simp add: digit_usable)
  with Suc show ?case by (simp add: draw_digit_skip)
qed

lemma draw_digit_returns_usable:
  assumes "draw_digit src i = Some y"
  shows "\<exists>n\<ge>i. usable src n"
proof (rule draw_digit.raw_induct [OF _ assms])
  fix draw src i y
  assume IH: "\<And>src i y. draw src i = Some y \<Longrightarrow> \<exists>n\<ge>i. usable src n"
    and step: "(case digit_from_byte (src i) of None \<Rightarrow> draw src (Suc i) | Some digit \<Rightarrow> Some (digit, Suc i)) = Some y"
  show "\<exists>n\<ge>i. usable src n"
  proof (cases "digit_from_byte (src i)")
    case None
    with step have "draw src (Suc i) = Some y" by simp
    then obtain n where "n \<ge> Suc i" "usable src n" using IH by blast
    then show ?thesis by (meson Suc_leD)
  next
    case (Some d)
    then have "usable src i" by (metis digit_usable option.distinct(1))
    then show ?thesis by blast
  qed
qed

lemma draw_digit_Some:
  assumes "draw_digit src i = Some (d, j)"
  shows "\<exists>n. i \<le> n \<and> usable src n \<and> (\<forall>k. i \<le> k \<and> k < n \<longrightarrow> \<not> usable src k) \<and> j = Suc n \<and>
    d = char_of (48 + unat (src n) mod 10)"
proof -
  have "\<exists>n\<ge>i. usable src n" using assms by (rule draw_digit_returns_usable)
  then have "\<exists>n. i \<le> n \<and> usable src n \<and> (\<forall>k<n. \<not> (i \<le> k \<and> usable src k))"
    using exists_least_iff [of "\<lambda>n. i \<le> n \<and> usable src n"] by blast
  then obtain n where n: "i \<le> n" "usable src n" "\<And>k. i \<le> k \<Longrightarrow> k < n \<Longrightarrow> \<not> usable src k" by blast
  then have "draw_digit src i = Some (char_of (48 + unat (src n) mod 10), Suc n)" using draw_digit_finds by blast
  with assms n show ?thesis by auto
qed

text \<open>How many usable bytes a stretch of the source holds.\<close>

definition usable_in :: "(nat \<Rightarrow> u8) \<Rightarrow> nat \<Rightarrow> nat \<Rightarrow> nat" where
  "usable_in src i j = card {k. i \<le> k \<and> k < j \<and> usable src k}"

lemma usable_in_split: "i \<le> n \<Longrightarrow> n \<le> j \<Longrightarrow> usable_in src i j = usable_in src i n + usable_in src n j"
proof -
  assume "i \<le> n" "n \<le> j"
  then have "{k. i \<le> k \<and> k < j \<and> usable src k} =
      {k. i \<le> k \<and> k < n \<and> usable src k} \<union> {k. n \<le> k \<and> k < j \<and> usable src k}" by auto
  then show ?thesis unfolding usable_in_def by (simp add: card_Un_disjoint disjoint_iff)
qed

lemma usable_in_first:
  assumes "i \<le> n" and "usable src n" and "\<And>k. i \<le> k \<Longrightarrow> k < n \<Longrightarrow> \<not> usable src k"
  shows "usable_in src i (Suc n) = 1"
proof -
  have "{k. i \<le> k \<and> k < Suc n \<and> usable src k} = {n}" using assms by (auto simp: less_Suc_eq)
  then show ?thesis by (simp add: usable_in_def)
qed

lemma draw_digits_Some:
  "draw_digits src i len = Some (out, j) \<Longrightarrow>
     i \<le> j \<and> usable_in src i j = len \<and> length out = len \<and> (\<forall>c \<in> set out. \<exists>d<10. c = digit_char d)"
proof (induction len arbitrary: i out)
  case 0
  then show ?case by (simp add: usable_in_def)
next
  case (Suc len)
  from Suc.prems obtain d m out' where d: "draw_digit src i = Some (d, m)" and rest: "draw_digits src m len = Some (out', j)"
    and out: "out = d # out'" by (auto split: option.splits prod.splits)
  obtain n where n: "i \<le> n" "usable src n" "\<forall>k. i \<le> k \<and> k < n \<longrightarrow> \<not> usable src k" "m = Suc n"
    "d = char_of (48 + unat (src n) mod 10)" using draw_digit_Some [OF d] by blast
  from n have "usable_in src i m = 1" using usable_in_first by blast
  moreover from n(5) have "\<exists>x<10. d = digit_char x" unfolding digit_char_def by (intro exI [of _ "unat (src n) mod 10"]) simp
  ultimately show ?case using Suc.IH [OF rest] n out usable_in_split [of i m j src] by auto
qed

lemma draw_digits_None: "draw_digits src i len = None \<Longrightarrow> usable_in src i j < len"
proof (induction len arbitrary: i)
  case (Suc len)
  show ?case
  proof (cases "draw_digit src i")
    case None
    have "\<not> usable src k" if "i \<le> k" for k
    proof
      assume "usable src k"
      with that have "\<exists>n. i \<le> n \<and> usable src n \<and> (\<forall>k<n. \<not> (i \<le> k \<and> usable src k))"
        using exists_least_iff [of "\<lambda>n. i \<le> n \<and> usable src n"] by blast
      then obtain n where "usable src n" "i \<le> n" "\<And>k. i \<le> k \<Longrightarrow> k < n \<Longrightarrow> \<not> usable src k" by blast
      then have "draw_digit src i \<noteq> None" using draw_digit_finds by fastforce
      with None show False by simp
    qed
    then have "usable_in src i j = 0" by (auto simp: usable_in_def)
    then show ?thesis by simp
  next
    case (Some x)
    then obtain d m where d: "draw_digit src i = Some (d, m)" by (cases x) auto
    with Suc.prems have rest: "draw_digits src m len = None" by (auto split: option.splits prod.splits)
    obtain n where n: "i \<le> n" "usable src n" "\<forall>k. i \<le> k \<and> k < n \<longrightarrow> \<not> usable src k" "m = Suc n"
      using draw_digit_Some [OF d] by blast
    then have one: "usable_in src i m = 1" using usable_in_first by blast
    show ?thesis
    proof (cases "m \<le> j")
      case True
      with n one Suc.IH [OF rest] show ?thesis using usable_in_split [of i m j src] by simp
    next
      case False
      have "usable_in src i j \<le> usable_in src i m"
        unfolding usable_in_def using False by (intro card_mono) auto
      with one Suc.IH [OF rest] show ?thesis by simp
    qed
  qed
qed simp

lemma digit_char_decimal: "d < 10 \<Longrightarrow> digit_char d \<in> set ''0123456789''"
proof -
  have "map digit_char [0..<10] = ''0123456789''" by code_simp
  moreover assume "d < 10"
  ultimately show ?thesis by (metis atLeastLessThan_iff imageI le0 set_map set_upt)
qed

text \<open>
  C34. Generating a one-time password ends exactly when it can. The call returns if and only if the
  random source holds as many bytes below 250 as the code has digits, however many biased bytes it
  must discard on the way; it then returns that many decimal digits.
\<close>

theorem otp_generation_returns:
  "(\<exists>n. len \<le> card {i. i < n \<and> unat (entropy h i) < 250}) \<longleftrightarrow>
     (\<exists>code h'. generate_otp len h = Some (code, h') \<and> length code = len \<and>
        list_all (\<lambda>c. c \<in> set ''0123456789'') code)"
proof
  have card: "card {i. i < n \<and> unat (entropy h i) < 250} = usable_in (entropy h) 0 n" for n
    by (simp add: usable_in_def usable_def)
  {
    assume "\<exists>n. len \<le> card {i. i < n \<and> unat (entropy h i) < 250}"
    then obtain n where "len \<le> usable_in (entropy h) 0 n" unfolding card by blast
    then have "draw_digits (entropy h) 0 len \<noteq> None" using draw_digits_None leD by blast
    then obtain out j where "draw_digits (entropy h) 0 len = Some (out, j)" by auto
    moreover from draw_digits_Some [OF this] have "length out = len" "list_all (\<lambda>c. c \<in> set ''0123456789'') out"
      by (auto simp only: list_all_iff digit_char_decimal)
    ultimately show "\<exists>code h'. generate_otp len h = Some (code, h') \<and> length code = len \<and> list_all (\<lambda>c. c \<in> set ''0123456789'') code"
      by (simp add: generate_otp_def)
  }
  assume "\<exists>code h'. generate_otp len h = Some (code, h') \<and> length code = len \<and> list_all (\<lambda>c. c \<in> set ''0123456789'') code"
  then obtain out j where "draw_digits (entropy h) 0 len = Some (out, j)"
    by (auto simp: generate_otp_def split: option.splits)
  then show "\<exists>n. len \<le> card {i. i < n \<and> unat (entropy h i) < 250}"
    unfolding card using draw_digits_Some by fastforce
qed

end
