(* ===== verification/Flow_Rules.thy ===== *)
theory Flow_Rules
  imports Invitations Session_Service_Properties Service_Properties
begin

text \<open>
  Rules for taking a run of a flow apart: what a step that answered says of its parts, and the
  operations of the login throttle on a working store, read off the abstract window they keep.
\<close>

section \<open>Steps that answered\<close>

named_theorems flow_inv \<open>what a step that answered says of its parts\<close>

lemma on_host_eq [flow_inv]: "on_host m s = (x, t) \<longleftrightarrow> (\<exists>h. m (es_host s) = (x, h) \<and> t = s\<lparr>es_host := h\<rparr>)"
  by (auto simp: on_host_def split: prod.splits)

lemma on_app_eq [flow_inv]: "on_app m s = (x, t) \<longleftrightarrow> (\<exists>w. m (es_app s) = (x, w) \<and> t = s\<lparr>es_app := w\<rparr>)"
  by (auto simp: on_app_def split: prod.splits)

lemma asking_eq [flow_inv]: "asking m s = (x, t) \<longleftrightarrow> (\<exists>a w. m (es_app s) = (a, w) \<and> x = Inr a \<and> t = s\<lparr>es_app := w\<rparr>)"
  by (auto simp: asking_def split: prod.splits)

lemma repository_Inr [flow_inv]:
  "repository m s = (Inr a, t) \<longleftrightarrow> (\<exists>w. m (es_app s) = (Inr a, w) \<and> t = s\<lparr>es_app := w\<rparr>)"
  by (simp add: repository_def map_err_eq_Inr on_app_eq)

declare rbind_eq_Inr [flow_inv] map_err_eq_Inr [flow_inv]

lemma on_host_apply: "on_host m s = (fst (m (es_host s)), s\<lparr>es_host := snd (m (es_host s))\<rparr>)"
  by (simp add: on_host_def split: prod.splits)

lemma verify_outcome_Inr [flow_inv]:
  "verify_outcome P password phc s = (Inr outcome, t) \<longleftrightarrow>
     (\<exists>w. ps_joined P (es_app s) = (True, w) \<and> t = s\<lparr>es_app := w\<rparr> \<and>
       vo_matched outcome = (verify_password (ps_libs P) (as_bytes password) phc = Inr True) \<and>
       vo_needs_rehash outcome = needs_rehash (ps_libs P) phc (ps_params P))"
proof (cases "ps_joined P (es_app s)")
  case (Pair joined w)
  have m: "(case verify_password (ps_libs P) (as_bytes password) phc of Inl _ \<Rightarrow> False | Inr b \<Rightarrow> b) =
      (verify_password (ps_libs P) (as_bytes password) phc = Inr True)"
    by (simp split: sum.split)
  have "verify_outcome P password phc s =
      (if joined then Inr \<lparr>vo_matched = verify_password (ps_libs P) (as_bytes password) phc = Inr True,
         vo_needs_rehash = needs_rehash (ps_libs P) phc (ps_params P)\<rparr> else Inl task_join_failed, s\<lparr>es_app := w\<rparr>)"
    unfolding verify_outcome_def Let_def m by (simp add: rbind_def asking_def Pair)
  then show ?thesis unfolding Pair by (cases outcome) auto
qed

lemma issue_tokens_user:
  "issue_tokens M user ip user_agent mfa credential h = (Inr result, h') \<Longrightarrow> ar_user result = user"
  by (cases "normalize_session_metadata user_agent ip")
    (auto simp: issue_tokens_def rbind_eq_Inr Let_def split: if_splits)

section \<open>The throttle on a working store\<close>

text \<open>The counter of an identity, as the key space shows it.\<close>

definition counter_shows :: "('r \<Rightarrow> rview) \<Rightarrow> 'r BruteForceService \<Rightarrow> string \<Rightarrow> window \<Rightarrow> 'r host \<Rightarrow> bool" where
  "counter_shows view B ident x h \<longleftrightarrow> net (store_client h) = [] \<and>
     shows_window (store_view view h) (key (rs_namespace (bs_store B)) Lf ident) x"

lemma host_same [simp]: "h\<lparr>store_client := store_client h\<rparr> = h"
  by simp

locale throttle = redis_service "rs_redis (bs_store B)" view
  for B :: "'r BruteForceService" and view :: "'r \<Rightarrow> rview" +
  assumes window: "ttl_ok (bs_window_secs B)"
begin

lemma is_locked_run:
  assumes "counter_shows view B ident x h" and "validate_identifier ident = Inr ()" and "window_size x < 2 ^ 63"
  shows "throttle_is_locked B ident h = (Inr (bs_max_attempts B \<le> window_size x), h)"
proof (cases x)
  case None
  with assms show ?thesis
    by (simp add: throttle_is_locked_def rbind_def on_store_def is_locked_def is_locked_inner_def run_simps counter_shows_def
        shows_window_def window_size_def get type_defs obs_defs)
next
  case (Some y)
  with assms show ?thesis
    by (cases y) (simp add: throttle_is_locked_def rbind_def on_store_def is_locked_def is_locked_inner_def run_simps
        counter_shows_def shows_window_def window_size_def get type_defs obs_defs parse_i64_show_nat)
qed

lemma remaining_run:
  assumes "counter_shows view B ident x h" and "validate_identifier ident = Inr ()"
  shows "throttle_remaining_secs B ident h = (Inr (case x of None \<Rightarrow> 0 | Some (_, t) \<Rightarrow> t), h)"
proof (cases x)
  case None
  with assms show ?thesis
    by (simp add: throttle_remaining_secs_def rbind_def on_store_def remaining_lockout_secs_def remaining_lockout_secs_inner_def
        run_simps counter_shows_def shows_window_def ttl)
next
  case (Some y)
  with assms show ?thesis
    by (cases y) (simp add: throttle_remaining_secs_def rbind_def on_store_def remaining_lockout_secs_def
        remaining_lockout_secs_inner_def run_simps counter_shows_def shows_window_def ttl)
qed

lemma record_run:
  assumes "counter_shows view B ident x h" and "validate_identifier ident = Inr ()" and "window_size x + 1 < 2 ^ 63"
  shows "\<exists>h'. throttle_record_failure B ident h = (Inr (), h') \<and> spawned h' = spawned h \<and>
    counter_shows view B ident (window_step (bs_window_secs B) Hit x) h'"
proof -
  let ?k = "key (rs_namespace (bs_store B)) Lf ident"
  define c where "c = (store_client h)\<lparr>server := snd (brute_force_incr (rs_redis (bs_store B)) ?k (bs_window_secs B) (server (store_client h)))\<rparr>"
  have "throttle_record_failure B ident h = (Inr (), h\<lparr>store_client := c\<rparr>)"
    using assms(1,2) by (simp add: throttle_record_failure_def rbind_def on_store_def record_failure_def record_failure_inner_def
        run_simps counter_shows_def c_def split: prod.splits)
  moreover have "shows_window (view (server c)) ?k (window_step (bs_window_secs B) Hit x)"
    using counter_step_refines [of "server (store_client h)" ?k x "bs_window_secs B" Hit] assms window
    by (simp add: counter_shows_def c_def)
  ultimately show ?thesis using assms(1) by (simp add: counter_shows_def c_def)
qed

lemma reset_run:
  assumes "net (store_client h) = []" and "validate_identifier ident = Inr ()"
  shows "\<exists>c. throttle_reset B ident h = (Inr (), h\<lparr>store_client := c\<rparr>) \<and> net c = [] \<and>
    view (server c) = v_del (key (rs_namespace (bs_store B)) Lf ident) (store_view view h)"
  using assms
  by (intro exI [of _ "(store_client h)\<lparr>server := snd (r_del (rs_redis (bs_store B))
      (key (rs_namespace (bs_store B)) Lf ident) (server (store_client h)))\<rparr>"])
    (simp add: throttle_reset_def rbind_def on_store_def reset_failures_def reset_inner_def run_simps del split: prod.splits)

end

text \<open>A keyed identifier passes the guard of the throttle.\<close>

lemma keyed_identifier:
  assumes "\<And>k m. length (hmac_sha256 (lib_jws (el_token (en_libs E))) k m) = 32"
  shows "validate_identifier (keyed_hex E input) = Inr ()"
proof -
  have "list_ex (\<lambda>c. c \<in> {CHR '':'', CHR 0x0A, CHR 0x0D}) (to_hex bs) \<Longrightarrow> False" for bs
  proof -
    assume "list_ex (\<lambda>c. c \<in> {CHR '':'', CHR 0x0A, CHR 0x0D}) (to_hex bs)"
    then obtain c where "c \<in> set (to_hex bs)" and c: "c \<in> {CHR '':'', CHR 0x0A, CHR 0x0D}" by (auto simp: list_ex_iff)
    then have "c \<in> set hex_alphabet" using set_to_hex by blast
    with c show False by (auto simp: hex_alphabet_def)
  qed
  with assms show ?thesis by (auto simp: validate_identifier_def keyed_hex_def MAX_IDENTIFIER_LENGTH_def)
qed

section \<open>A login in steps\<close>

text \<open>The rest of a login once the repository answered.\<close>

definition login_answer ::
    "('r, 'w) AuthEngine \<Rightarrow> string \<Rightarrow> string \<Rightarrow> string \<Rightarrow> HookContext \<Rightarrow> RequestContext \<Rightarrow> string \<Rightarrow> AuthUser option \<Rightarrow>
      ('r, 'w, LoginResult) flow_io" where
  "login_answer E email tenant identifier hook_ctx ctx password candidate_row =
     (case candidate_row of
        None \<Rightarrow>
          rbind (verify_sentinel (en_passwords E) password) (\<lambda>_.
            record_failure_and_reject E identifier email tenant None hook_ctx)
      | Some user \<Rightarrow>
          rbind (verify_outcome (en_passwords E) password (the_default [] (au_password_hash user))) (\<lambda>outcome.
            if \<not> vo_matched outcome
            then record_failure_and_reject E identifier email tenant (Some (au_id user)) hook_ctx
            else
              rbind (login_gates E email tenant hook_ctx user) (\<lambda>_.
                login_proven E ctx hook_ctx identifier password user (the_default [] (au_password_hash user)) outcome)))"

lemma login_steps:
  assumes "resolve_tenant E (li_tenant_id input) ctx s = (Inr tenant, s1)"
    and "assert_not_locked E (lockout_identifier E tenant (engine_normalize_email E (li_email input))) s1 = (Inr (), s2)"
  shows "login E input ctx s =
    (let e = engine_normalize_email E (li_email input); c = from_request HookPlane_Dashboard ctx None (Some e) (Some tenant) in
     rbind (map_err (\<lambda>_. AuthError.Forbidden) (on_app (hk_before_login (en_hooks E) e tenant c))) (\<lambda>_.
     rbind (repository (ur_find_by_email (en_user_repository E) e tenant)) (\<lambda>found.
       login_answer E e tenant (lockout_identifier E tenant e) c ctx (li_password input) (login_candidate found tenant))) s2)"
  unfolding login_def login_answer_def Let_def
  using assms by (simp add: rbind_def [of "resolve_tenant _ _ _"] rbind_def [of "attempt _"])

lemma login_unlocked:
  assumes "login E input ctx s = (Inr result, s')" and "resolve_tenant E (li_tenant_id input) ctx s = (Inr tenant, s1)"
  obtains s2 where "assert_not_locked E (lockout_identifier E tenant (engine_normalize_email E (li_email input))) s1 = (Inr (), s2)"
proof (cases "assert_not_locked E (lockout_identifier E tenant (engine_normalize_email E (li_email input))) s1")
  case (Pair x s2)
  show thesis
  proof (cases x)
    case (Inl e)
    with assms Pair show thesis
      by (simp add: login_def Let_def rbind_def fire_login_failed_def on_host_def spawn_guarded_def)
  next
    case (Inr u)
    with Pair that show thesis by simp
  qed
qed

lemma reject_not_Inr: "record_failure_and_reject E ident email tenant uid hook_ctx s \<noteq> (Inr a, t)"
  by (auto simp: record_failure_and_reject_def rbind_eq_Inr)

lemma login_answer_Inr:
  assumes "login_answer E email tenant identifier hook_ctx ctx password row s = (Inr result, t)"
  obtains user outcome s1 s2 where "row = Some user"
    and "verify_outcome (en_passwords E) password (the_default [] (au_password_hash user)) s = (Inr outcome, s1)" and "vo_matched outcome"
    and "login_gates E email tenant hook_ctx user s1 = (Inr (), s2)"
    and "login_proven E ctx hook_ctx identifier password user (the_default [] (au_password_hash user)) outcome s2 = (Inr result, t)"
  using assms
  by (auto simp: login_answer_def rbind_eq_Inr reject_not_Inr split: option.splits if_splits)

lemma login_candidate_Some:
  "login_candidate found tenant = Some user \<longleftrightarrow>
     found = Some user \<and> au_tenant_id user = tenant \<and> au_password_hash user \<noteq> None"
  by (auto simp: login_candidate_def tenant_scoped_def has_local_hash_def split: option.splits if_splits)

end
