(* ===== verification/Sample_Engine.thy ===== *)
theory Sample_Engine
  imports Flow_Rules
begin

text \<open>
  A concrete deployment for runs of the flows: the engine \<^const>\<open>build\<close> returns for the sample
  configuration, an in-memory store, one account and a keyed digest of 32 bytes.
\<close>

section \<open>The collaborators\<close>

definition sample_jws :: jws_lib where
  "sample_jws = plain_lib\<lparr>hmac_sha256 := (\<lambda>k m. take 32 (rev (k @ m) @ replicate 32 0))\<rparr>"

interpretation sample_signing: jws_service sample_jws
  by (unfold_locales, simp_all add: sample_jws_def plain.b64_decode_encode plain.b64_no_dot plain.constant_time_eq plain.header_alg)

lemma sample_jws_sel [simp]:
  "length (hmac_sha256 sample_jws k m) = 32" "b64_encode sample_jws = to_hex" "b64_decode sample_jws = of_hex"
  by (simp_all add: sample_jws_def plain_lib_def)

definition sample_libs :: "unit engine_libs" where
  "sample_libs =
     \<lparr>el_token = demo_libs\<lparr>lib_jws := sample_jws\<rparr>, el_config = sample_config_libs, el_kdf = sample_kdf,
      el_unicode = \<lparr>uc_to_lowercase = id, uc_is_alphabetic = (\<lambda>_. True), uc_is_alphanumeric = (\<lambda>_. True)\<rparr>,
      el_reset = reset_codec, el_email_change = \<lparr>enc_val = (\<lambda>_. None), dec_val = (\<lambda>_. None)\<rparr>,
      el_invitation = \<lparr>enc_val = (\<lambda>_. None), dec_val = (\<lambda>_. None)\<rparr>, el_snapshot = snapshot_codec,
      el_oauth_state = oauth_state_codec, el_mfa = sample_mfa_libs, el_cores = 4, el_joined = Pair True\<rparr>"

lemma sample_libs_sel [simp]:
  "el_token sample_libs = demo_libs\<lparr>lib_jws := sample_jws\<rparr>" "el_kdf sample_libs = sample_kdf" "el_joined sample_libs = Pair True"
  "el_config sample_libs = sample_config_libs" "el_cores sample_libs = 4"
  "uc_to_lowercase (el_unicode sample_libs) = id" "el_reset sample_libs = reset_codec" "el_snapshot sample_libs = snapshot_codec"
  "el_oauth_state sample_libs = oauth_state_codec" "el_mfa sample_libs = sample_mfa_libs"
  by (simp_all add: sample_libs_def)

definition sample_password :: string where
  "sample_password = ''correct horse''"

definition sample_account :: AuthUser where
  "sample_account = \<lparr>au_id = ''u1'', au_email = ''ann@acme.test'', au_name = ''Ann'',
     au_password_hash = Some (sample_phc ''scrypt'' 17 8 1 (as_bytes sample_password)), au_role = ''MEMBER'',
     au_status = ''ACTIVE'', au_tenant_id = ''t1'', au_email_verified = True, au_mfa_enabled = False, au_mfa_secret = None,
     au_mfa_recovery_codes = None, au_oauth_provider = None, au_oauth_provider_id = None, au_last_login_at = None,
     au_created_at = 0\<rparr>"

definition sample_directory :: "unit UserRepository" where
  "sample_directory = sample_users
     \<lparr>ur_find_by_id := (\<lambda>i _. ret (if i = au_id sample_account then Some sample_account else None)),
      ur_find_by_email := (\<lambda>e _. ret (if e = au_email sample_account then Some sample_account else None))\<rparr>"

definition sample_builder :: "(mem, unit) AuthEngineBuilder" where
  "sample_builder = (redis_stores new_builder mem_stores)
     \<lparr>bd_config := Some sample_config, bd_environment := Production, bd_user_repository := Some sample_directory\<rparr>"

definition sample_passwords :: "unit PasswordService" where
  "sample_passwords = \<lparr>ps_libs = sample_kdf, ps_params = to_crypto_params password_config_default, ps_rehash_on_verify = True,
     ps_min_length = pwc_min_length password_config_default,
     ps_sentinel = sample_phc ''scrypt'' (trailing_zeros (2 ^ 17)) 8 1 (as_bytes SENTINEL_PLAINTEXT),
     ps_is_breached = default_breach_checker sample_libs, ps_joined = Pair True,
     ps_kdf_permits = kdf_permit_count 4 password_config_default\<rparr>"

definition sample_engine :: "(mem, unit) AuthEngine" where
  "sample_engine = assemble sample_libs sample_builder
     (new_resolved_config sample_config_libs (promote_toggles sample_config) Production True) sample_passwords"

lemma promote_sample: "promote_toggles sample_config = sample_config"
  by (simp add: promote_toggles_def sample_config_def nest_compat_defaults_def config_base_def)

text \<open>The sample is what the builder returns.\<close>

lemma sample_build: "\<exists>h'. build sample_libs sample_builder h = (Inr sample_engine, h')"
proof -
  have pwd: "ac_password sample_config = password_config_default" 
    by (simp add: sample_config_def nest_compat_defaults_def config_base_def password_config_default_def)
  have checks: "check_collaborators sample_builder sample_config = Inr ()"
    by (simp add: check_collaborators_def sample_builder_def redis_stores_def sample_config_def nest_compat_defaults_def config_base_def)
  obtain h' where run: "hash sample_kdf (as_bytes SENTINEL_PLAINTEXT) (to_crypto_params password_config_default) h =
      (Inr (sample_phc ''scrypt'' (trailing_zeros (2 ^ 17)) 8 1 (as_bytes SENTINEL_PLAINTEXT)), h')"
    using sample_scrypt_run [OF powers_of_two(1), of 8 1 "as_bytes SENTINEL_PLAINTEXT" argon2_default h]
    by (auto simp: to_crypto_params_def password_config_default_def scrypt_default_def)
  have "new_password_service sample_kdf 4 password_config_default (default_breach_checker sample_libs) (Pair True) h =
      (Inr sample_passwords, h')"
    using run by (simp add: new_password_service_def Let_def rbind_def map_err_def sample_passwords_def password_config_default_def
        MIN_CONFIGURABLE_LENGTH_def MAX_CONFIGURABLE_LENGTH_def)
  then show ?thesis
    using sample_config_accepted checks
    by (simp add: build_def Let_def sample_builder_def redis_stores_def new_builder_def promote_sample rbind_def pwd
        the_default_def sample_libs_sel sample_engine_def)
qed

section \<open>Its parts\<close>

lemma sample_config_sel [simp]:
  "jc_refresh_expires_in_days (ac_jwt sample_config) = 7" "bf_max_attempts (ac_brute_force sample_config) = 5"
  "as_secs (bf_window (ac_brute_force sample_config)) = 900" "ac_tenant_id_resolver sample_config = None"
  "sc_enabled (ac_sessions sample_config) = False" "ac_blocked_statuses sample_config = [''BANNED'', ''INACTIVE'', ''SUSPENDED'']"
  by (simp_all add: sample_config_def config_defaults as_secs_def from_secs_def)

lemmas sample_parts = sample_engine_def assemble_def Let_def sample_builder_def redis_stores_def new_builder_def
  new_resolved_config_def promote_sample the_default_def

lemma sample_engine_sel [simp]:
  "en_libs sample_engine = sample_libs" "cfg sample_engine = sample_config" "en_user_repository sample_engine = sample_directory"
  "en_hooks sample_engine = no_op_hooks" "en_passwords sample_engine = sample_passwords" "en_session_store sample_engine = mem_stores"
  "en_brute_force sample_engine = \<lparr>bs_store = mem_stores, bs_max_attempts = 5, bs_window_secs = 900\<rparr>"
  by (simp_all add: sample_parts)

lemma sample_tokens_sel [simp]:
  "tm_libs (en_tokens sample_engine) = demo_libs\<lparr>lib_jws := sample_jws\<rparr>" "tm_session_store (en_tokens sample_engine) = mem_stores"
  "tm_refresh_ttl_secs (en_tokens sample_engine) = 604800"
  by (simp_all add: sample_parts build_tokens_def with_binding_def with_mfa_support_def new_token_manager_def)

interpretation sample_lockout: throttle "en_brute_force sample_engine" mem_view
  by (rule throttle.intro) (simp_all add: mem.redis_service_axioms throttle_axioms_def ttl_ok_def)

interpretation sample_issuing: token_service "en_tokens sample_engine" mem_view
proof (rule token_service.intro)
  show "store_service (tm_session_store (en_tokens sample_engine)) mem_view"
    unfolding sample_tokens_sel by (rule mem_store.store_service_axioms)
  show "jws_service (lib_jws (tm_libs (en_tokens sample_engine)))" using sample_signing.jws_service_axioms by simp
  show "token_service_axioms (en_tokens sample_engine)"
    using dashboard_values.json_round_trip_axioms platform_values.json_round_trip_axioms mfa_values.json_round_trip_axioms
    by (simp add: token_service_axioms_def)
qed

section \<open>A state to start from\<close>

definition sample_start :: "(mem, unit) engine_state" where
  "sample_start = \<lparr>es_host = demo_host 1000 Map.empty, es_app = ()\<rparr>"

definition sample_request :: RequestContext where
  "sample_request = \<lparr>rx_ip = ''10.0.0.1'', rx_user_agent = ''ua'', rx_sanitized_headers = []\<rparr>"

definition sample_input :: "string \<Rightarrow> LoginInput" where
  "sample_input password = \<lparr>li_email = '' ann@acme.test'', li_password = password, li_tenant_id = Some ''t1''\<rparr>"

lemma sample_input_sel [simp]:
  "li_password (sample_input password) = password" "li_tenant_id (sample_input password) = Some ''t1''"
  by (simp_all add: sample_input_def)

lemma sample_email: "engine_normalize_email sample_engine (li_email (sample_input password)) = ''ann@acme.test''"
  proof -
  have "trim '' ann@acme.test'' = ''ann@acme.test''" by code_simp
  then show ?thesis by (simp add: engine_normalize_email_def sample_input_def normalize_email_def)
qed

lemma sample_verify:
  "verify_password sample_kdf (as_bytes p) (sample_phc ''scrypt'' 17 8 1 (as_bytes q)) = Inr (p = q)"
  by (simp add: verify_password_def verify_phc_def sample_kdf_def sample_parse_phc cost_is_admissible_def
      scrypt_cost_is_admissible_def MAX_ADMISSIBLE_LN_eq MAX_SCRYPT_PARAMETER_def MAX_KDF_BYTES_PER_DERIVATION_def)

lemma sample_account_found:
  "ur_find_by_email sample_directory ''ann@acme.test'' tenant w = (Inr (Some sample_account), w)"
  by (simp add: sample_directory_def sample_account_def)

lemma sample_quiet: "net (store_client (es_host sample_start)) = []" "store_view mem_view (es_host sample_start) = Map.empty"
  by (simp_all add: sample_start_def demo_host_def mem_view_empty)

lemma sample_identifier: "validate_identifier (lockout_identifier sample_engine tenant email) = Inr ()"
  unfolding lockout_identifier_def by (rule keyed_identifier) simp

lemma sample_unlocked: "assert_not_locked sample_engine (lockout_identifier sample_engine tenant email) sample_start = (Inr (), sample_start)"
proof -
  have "counter_shows mem_view (en_brute_force sample_engine) (lockout_identifier sample_engine tenant email) None (es_host sample_start)"
    using sample_quiet by (simp add: counter_shows_def shows_window_def)
  from sample_lockout.is_locked_run [OF this sample_identifier] show ?thesis
    by (simp add: assert_not_locked_def rbind_def on_host_def window_size_def)
qed

lemma unit_app: "s\<lparr>es_app := u\<rparr> = s" for s :: "('r, unit) engine_state"
  by (cases s) simp

lemma sample_outcome:
  "verify_outcome sample_passwords sample_password (the_default [] (au_password_hash sample_account)) s =
     (Inr \<lparr>vo_matched = True, vo_needs_rehash = needs_rehash sample_kdf (the_default [] (au_password_hash sample_account))
        (ps_params sample_passwords)\<rparr>, s)"
  by (simp add: verify_outcome_Inr sample_passwords_def sample_account_def the_default_def sample_verify [simplified])

lemma sample_not_stale: "\<not> needs_rehash sample_kdf (the_default [] (au_password_hash sample_account)) (ps_params sample_passwords)"
  by (simp add: sample_account_def sample_passwords_def the_default_def needs_rehash_def needs_rehash_phc_def sample_kdf_def
      sample_parse_phc [simplified] scrypt_is_stale_def to_crypto_params_def password_config_default_def scrypt_default_def
      trailing_zeros.simps)

lemma sample_candidate: "login_candidate (Some sample_account) ''t1'' = Some sample_account"
  by (simp add: login_candidate_Some sample_account_def)

lemma sample_gates: "login_gates sample_engine email tenant hook_ctx sample_account s = (Inr (), s)"
proof -
  have "assert_not_blocked ''ACTIVE'' [''BANNED'', ''INACTIVE'', ''SUSPENDED''] = Inr ()" by code_simp
  then show ?thesis by (simp add: login_gates_def assert_user_not_blocked_def sample_account_def)
qed

text \<open>A correct login of the sample account runs to its session.\<close>

lemma sample_login:
  "\<exists>r s'. login sample_engine (sample_input sample_password) sample_request sample_start = (Inr (LoginSuccess r), s')"
proof -
  let ?id = "lockout_identifier sample_engine ''t1'' ''ann@acme.test''"
  obtain c where reset: "throttle_reset (en_brute_force sample_engine) ?id (es_host sample_start) =
      (Inr (), (es_host sample_start)\<lparr>store_client := c\<rparr>)" "net c = []" "mem_view (server c) = Map.empty"
    using sample_lockout.reset_run [OF sample_quiet(1) sample_identifier] by (auto simp: sample_quiet(2) v_del_def)
  obtain r h where issue: "issue_tokens (en_tokens sample_engine) (safe_user sample_account) ''10.0.0.1'' ''ua'' False Proved
      ((es_host sample_start)\<lparr>store_client := c\<rparr>) = (Inr r, h)"
    using sample_issuing.issue_tokens_run [of "(es_host sample_start)\<lparr>store_client := c\<rparr>" "safe_user sample_account" 0 "''10.0.0.1''" "''ua''" False Proved] reset
      demo_empty(2-5) [unfolded mem_view_empty] instant_ok_demo
    by (auto simp: sample_start_def)
  have tenant: "resolve_tenant sample_engine (li_tenant_id (sample_input sample_password)) sample_request sample_start = (Inr ''t1'', sample_start)"
    by (simp add: resolve_tenant_def sample_input_def)
  have "login sample_engine (sample_input sample_password) sample_request sample_start =
      login_proven sample_engine sample_request (from_request HookPlane_Dashboard sample_request None (Some ''ann@acme.test'') (Some ''t1''))
        ?id sample_password sample_account (the_default [] (au_password_hash sample_account)) \<lparr>vo_matched = True, vo_needs_rehash = False\<rparr> sample_start"
    unfolding login_steps [OF tenant sample_unlocked] sample_email Let_def
    by (simp add: sample_account_found sample_outcome sample_not_stale sample_candidate sample_gates rbind_def map_err_def on_app_def no_op_hooks_def repository_def login_answer_def sample_input_def unit_app)
  moreover have "fst (login_proven sample_engine sample_request hook_ctx ?id sample_password sample_account phc
      \<lparr>vo_matched = True, vo_needs_rehash = False\<rparr> sample_start) = Inr (LoginSuccess r)" for hook_ctx phc
    using reset issue
    by (simp add: login_proven_def rbind_def on_host_def issue_session_result_def Let_def sample_request_def sample_account_def
        enforce_sessions_after_issue_def spawn_guarded_def)
  ultimately have "fst (login sample_engine (sample_input sample_password) sample_request sample_start) = Inr (LoginSuccess r)"
    by simp
  then show ?thesis by (metis prod.collapse)
qed

end
