(* ===== verification/Login_Properties.thy ===== *)
theory Login_Properties
  imports Sample_Engine
begin

text \<open>
  What the login flow promises: who it lets in, that every refused credential is refused alike, and that
  the lockout bounds how many passwords of an account are compared inside one window.
\<close>

section \<open>Guessing at one account\<close>

text \<open>
  An account under attack: its repository row does not change while the guesses run, the application
  refuses none of them itself, and blocking tasks join. The tag of the keyed digest has 32 bytes.
\<close>

locale guessed_account = throttle "en_brute_force E" view
  for E :: "('r, 'w) AuthEngine" and view :: "'r \<Rightarrow> rview" +
  fixes email tenant :: string and found :: "AuthUser option"
  assumes tag: "length (hmac_sha256 (lib_jws (el_token (en_libs E))) k m) = 32"
    and no_resolver: "ac_tenant_id_resolver (cfg E) = None"
    and hook: "hk_before_login (en_hooks E) email tenant c w = (Inr (), w)"
    and lookup: "ur_find_by_email (en_user_repository E) email tenant w = (Inr found, w)"
    and joined: "ps_joined (en_passwords E) w = (True, w)"

definition names_account :: "('r, 'w) AuthEngine \<Rightarrow> string \<Rightarrow> string \<Rightarrow> LoginInput \<Rightarrow> bool" where
  "names_account E email tenant input \<longleftrightarrow>
     engine_normalize_email E (li_email input) = email \<and> li_tenant_id input = Some tenant"

definition wrong_password :: "('r, 'w) AuthEngine \<Rightarrow> string \<Rightarrow> AuthUser option \<Rightarrow> string \<Rightarrow> bool" where
  "wrong_password E tenant found password \<longleftrightarrow>
     (case login_candidate found tenant of
        None \<Rightarrow> True
      | Some user \<Rightarrow>
          verify_password (ps_libs (en_passwords E)) (as_bytes password) (the_default [] (au_password_hash user)) \<noteq> Inr True)"

definition login_counter :: "('r \<Rightarrow> rview) \<Rightarrow> ('r, 'w) AuthEngine \<Rightarrow> string \<Rightarrow> string \<Rightarrow> window \<Rightarrow> ('r, 'w) engine_state \<Rightarrow> bool" where
  "login_counter view E email tenant x s \<longleftrightarrow>
     counter_shows view (en_brute_force E) (lockout_identifier E tenant email) x (es_host s)"

context guessed_account
begin

lemma identifier_ok: "validate_identifier (lockout_identifier E tenant email) = Inr ()"
  unfolding lockout_identifier_def by (rule keyed_identifier) (rule tag)

lemma fire_lockout_host:
  assumes "counter_shows view (en_brute_force E) (lockout_identifier E tenant email) x (es_host s)" and "window_size x < 2 ^ 63"
  shows "\<exists>s'. fire_lockout_if_crossed E (lockout_identifier E tenant email) email tenant hook_ctx s = (Inr (), s') \<and>
    store_client (es_host s') = store_client (es_host s) \<and> es_app s' = es_app s"
  using is_locked_run [OF assms(1) identifier_ok assms(2)] remaining_run [OF assms(1) identifier_ok]
  by (simp add: fire_lockout_if_crossed_def rbind_def on_host_def spawn_guarded_def Let_def)

lemma locked_login:
  assumes "login_counter view E email tenant x s" and "names_account E email tenant input"
    and "window_size x < 2 ^ 63" and "bs_max_attempts (en_brute_force E) \<le> window_size x"
  shows "\<exists>s'. login E input ctx s = (Inl (AuthError.AccountLocked (Some (case x of None \<Rightarrow> 0 | Some (_, t) \<Rightarrow> t))), s') \<and>
    login_counter view E email tenant x s'"
proof -
  note c = assms(1) [unfolded login_counter_def]
  show ?thesis
    using is_locked_run [OF c identifier_ok assms(3)] remaining_run [OF c identifier_ok] assms(2,4) c
    by (simp add: login_def Let_def resolve_tenant_def no_resolver names_account_def rbind_def assert_not_locked_def
        on_host_def fire_login_failed_def spawn_guarded_def login_counter_def counter_shows_def)
qed

lemma wrong_login:
  assumes "login_counter view E email tenant x s" and "names_account E email tenant input"
    and "window_size x + 1 < 2 ^ 63" and "window_size x < bs_max_attempts (en_brute_force E)"
    and "wrong_password E tenant found (li_password input)"
  shows "\<exists>s'. login E input ctx s = (Inl AuthError.InvalidCredentials, s') \<and>
    login_counter view E email tenant (window_step (bs_window_secs (en_brute_force E)) Hit x) s'"
proof -
  let ?id = "lockout_identifier E tenant email" and ?h = "from_request HookPlane_Dashboard ctx None (Some email) (Some tenant)"
  note c = assms(1) [unfolded login_counter_def]
  obtain h where rec: "throttle_record_failure (en_brute_force E) ?id (es_host s) = (Inr (), h)"
    and h: "counter_shows view (en_brute_force E) ?id (window_step (bs_window_secs (en_brute_force E)) Hit x) h"
    using record_run [OF c identifier_ok assms(3)] by blast
  have size: "window_size (window_step (bs_window_secs (en_brute_force E)) Hit x) < 2 ^ 63"
    using window_size_step [of "bs_window_secs (en_brute_force E)" Hit x] assms(3) by simp
  have rej: "\<exists>s'. record_failure_and_reject E ?id email tenant uid ?h s = (Inl AuthError.InvalidCredentials, s' :: ('r, 'w) engine_state) \<and>
      login_counter view E email tenant (window_step (bs_window_secs (en_brute_force E)) Hit x) s'" for uid
  proof -
    define s1 where "s1 = snd (fire_login_failed email tenant uid LoginFailureReason.InvalidCredentials ?h (s\<lparr>es_host := h\<rparr>))"
    have "counter_shows view (en_brute_force E) ?id (window_step (bs_window_secs (en_brute_force E)) Hit x) (es_host s1)"
      using h by (simp add: s1_def fire_login_failed_def on_host_def spawn_guarded_def counter_shows_def)
    with fire_lockout_host [OF this size, of ?h] rec show ?thesis
      by (auto simp: record_failure_and_reject_def rbind_def on_host_def s1_def fire_login_failed_def spawn_guarded_def
          login_counter_def counter_shows_def)
  qed
  have unlocked: "assert_not_locked E ?id s = (Inr (), s)"
    using is_locked_run [OF c identifier_ok] assms(3,4) by (simp add: assert_not_locked_def rbind_def on_host_def)
  show ?thesis
    using assms(2,5) unlocked rej
    by (auto simp: login_def Let_def resolve_tenant_def no_resolver names_account_def rbind_def on_app_def hook lookup
        map_err_def repository_def verify_sentinel_def verify_outcome_def asking_def joined wrong_password_def
        split: option.split sum.splits)
qed

end

text \<open>Guesses in order, each followed by a pause of some seconds.\<close>

definition pause :: "('r, 'w) AuthEngine \<Rightarrow> nat \<Rightarrow> ('r, 'w) engine_state \<Rightarrow> ('r, 'w) engine_state" where
  "pause E d s =
     (let c = store_client (es_host s) in
      s\<lparr>es_host := (es_host s)\<lparr>store_client := c\<lparr>server := r_tick (rs_redis (bs_store (en_brute_force E))) d (server c)\<rparr>\<rparr>\<rparr>)"

fun try_logins ::
    "('r, 'w) AuthEngine \<Rightarrow> RequestContext \<Rightarrow> (LoginInput \<times> nat) list \<Rightarrow> ('r, 'w) engine_state \<Rightarrow>
      (AuthError + LoginResult) list \<times> ('r, 'w) engine_state" where
  "try_logins E ctx [] s = ([], s)"
| "try_logins E ctx ((input, d) # guesses) s =
     (let (x, s1) = login E input ctx s; (xs, s2) = try_logins E ctx guesses (pause E d s1) in (x # xs, s2))"

definition pauses :: "(LoginInput \<times> nat) list \<Rightarrow> nat" where
  "pauses guesses = sum_list (map snd guesses)"

definition counted :: "nat \<Rightarrow> nat \<Rightarrow> window" where
  "counted n t = (if n = 0 then None else Some (n, t))"

lemma counted_simps [simp]:
  "window_size (counted n t) = n" "(case counted (Suc n) t of None \<Rightarrow> 0 | Some (_, t) \<Rightarrow> t) = t"
  "d < t \<Longrightarrow> window_step W (Wait d) (counted n t) = counted n (t - d)"
  by (simp_all add: counted_def window_size_def)

lemma counted_hit: "n = 0 \<longrightarrow> t = W \<Longrightarrow> window_step W Hit (counted n t) = counted (Suc n) t"
  by (simp add: counted_def)

context guessed_account
begin

lemma pause_counter:
  assumes "login_counter view E email tenant (counted n t) s" and "d < t"
  shows "login_counter view E email tenant (counted n (t - d)) (pause E d s)"
proof -
  have "shows_window (view (r_tick (rs_redis (bs_store (en_brute_force E))) d (server (store_client (es_host s)))))
      (key (rs_namespace (bs_store (en_brute_force E))) Lf (lockout_identifier E tenant email)) (counted n (t - d))"
    using assms by (auto simp: login_counter_def counter_shows_def shows_window_def counted_def tick v_tick_def)
  with assms show ?thesis by (simp add: pause_def Let_def login_counter_def counter_shows_def)
qed

lemma one_guess:
  assumes "login_counter view E email tenant (counted n t) s" and "names_account E email tenant input"
    and "n \<le> m" and "m = bs_max_attempts (en_brute_force E)" and "0 < m" and "m < 2 ^ 62"
    and "n = 0 \<longrightarrow> t = bs_window_secs (en_brute_force E)"
    and "n < m \<longrightarrow> wrong_password E tenant found (li_password input)"
  shows "\<exists>s'. login E input ctx s =
      (if n < m then Inl AuthError.InvalidCredentials else Inl (AuthError.AccountLocked (Some t)), s') \<and>
    login_counter view E email tenant (counted (min (Suc n) m) t) s'"
proof (cases "n < m")
  case True
  with wrong_login [of "counted n t" s input ctx] assms show ?thesis by (auto simp: counted_hit min_def)
next
  case False
  with assms(3) have "n = m" "min (Suc n) m = n" by simp_all
  moreover have "(case counted n t of None \<Rightarrow> 0 | Some (_, t) \<Rightarrow> t) = t" using \<open>n = m\<close> assms(5) by (simp add: counted_def)
  ultimately show ?thesis using locked_login [of "counted n t" s input ctx] assms by simp
qed

lemma guesses_run:
  assumes "login_counter view E email tenant (counted n t) s" and "n \<le> m" and "m = bs_max_attempts (en_brute_force E)"
    and "0 < m" and "m < 2 ^ 62" and "n = 0 \<longrightarrow> t = bs_window_secs (en_brute_force E)" and "pauses guesses < t"
    and "\<forall>(input, d) \<in> set guesses. names_account E email tenant input \<and> wrong_password E tenant found (li_password input)"
    and "try_logins E ctx guesses s = (answers, s')"
  shows "answers = map (\<lambda>i. if n + i < m then Inl AuthError.InvalidCredentials
        else Inl (AuthError.AccountLocked (Some (t - pauses (take i guesses))))) [0..<length guesses] \<and>
    login_counter view E email tenant (counted (min (n + length guesses) m) (t - pauses guesses)) s'"
  using assms
proof (induction guesses arbitrary: n t s answers s')
  case Nil
  then show ?case by (simp add: pauses_def min_def)
next
  case (Cons g guesses)
  obtain input d where g: "g = (input, d)" by fastforce
  obtain s1 where one: "login E input ctx s =
      (if n < m then Inl AuthError.InvalidCredentials else Inl (AuthError.AccountLocked (Some t)), s1)"
    and c1: "login_counter view E email tenant (counted (min (Suc n) m) t) s1"
    using one_guess [of n t s input m ctx] Cons.prems g by auto
  obtain xs where rest: "try_logins E ctx guesses (pause E d s1) = (xs, s')"
    and answers: "answers = (if n < m then Inl AuthError.InvalidCredentials else Inl (AuthError.AccountLocked (Some t))) # xs"
    using Cons.prems(9) one by (auto simp: g Let_def split: prod.splits)
  have d: "d < t" "pauses guesses < t - d" using Cons.prems(7) by (simp_all add: g pauses_def)
  have "xs = map (\<lambda>i. if min (Suc n) m + i < m then Inl AuthError.InvalidCredentials
        else Inl (AuthError.AccountLocked (Some (t - d - pauses (take i guesses))))) [0..<length guesses] \<and>
    login_counter view E email tenant (counted (min (min (Suc n) m + length guesses) m) (t - d - pauses guesses)) s'"
  proof (rule Cons.IH [OF pause_counter [OF c1 d(1)] _ Cons.prems(3,4,5) _ d(2) _ rest])
    show "min (Suc n) m = 0 \<longrightarrow> t - d = bs_window_secs (en_brute_force E)" using Cons.prems(4) by (auto simp: min_def)
    show "\<forall>(input, d) \<in> set guesses. names_account E email tenant input \<and> wrong_password E tenant found (li_password input)"
      using Cons.prems(8) by simp
  qed simp
  moreover have "min (Suc n) m + i < m \<longleftrightarrow> n + Suc i < m" for i using Cons.prems(2) by auto
  moreover have "min (min (Suc n) m + length guesses) m = min (n + length (g # guesses)) m" by simp
  moreover have "t - d - pauses (take i guesses) = t - pauses (take (Suc i) (g # guesses))" for i
    by (simp add: g pauses_def)
  ultimately show ?case
    by (simp add: answers upt_rec [of 0 "Suc _"] map_Suc_upt [symmetric] comp_def g pauses_def del: upt_Suc)
qed

end

text \<open>
  C9. The lockout bounds guessing. On a working store, with no failure on record, wrong passwords for one
  account (or for no account at all) tried inside one window are answered \<open>InvalidCredentials\<close> exactly
  \<open>max_attempts\<close> times and \<open>AccountLocked\<close> from then on, with the seconds left of the window as the
  hint; once they are used up the next login of that address and tenant is refused the same way
  whatever it presents, the right password included.
\<close>

theorem lockout_bounds_guessing:
  assumes "guessed_account E view email tenant found"
    and "m = bs_max_attempts (en_brute_force E)" and "0 < m" and "m < 2 ^ 62"
    and "login_counter view E email tenant None s" and "pauses guesses < bs_window_secs (en_brute_force E)"
    and "\<forall>(input, d) \<in> set guesses. names_account E email tenant input \<and> wrong_password E tenant found (li_password input)"
    and "try_logins E ctx guesses s = (answers, s')"
  shows "answers = map (\<lambda>i. if i < m then Inl AuthError.InvalidCredentials
        else Inl (AuthError.AccountLocked (Some (bs_window_secs (en_brute_force E) - pauses (take i guesses)))))
        [0..<length guesses] \<and>
    (m \<le> length guesses \<and> names_account E email tenant input \<longrightarrow>
      fst (login E input ctx s') = Inl (AuthError.AccountLocked (Some (bs_window_secs (en_brute_force E) - pauses guesses))))"
proof -
  let ?W = "bs_window_secs (en_brute_force E)"
  have "login_counter view E email tenant (counted 0 ?W) s" using assms(5) by (simp add: counted_def)
  then have run: "answers = map (\<lambda>i. if 0 + i < m then Inl AuthError.InvalidCredentials
        else Inl (AuthError.AccountLocked (Some (?W - pauses (take i guesses))))) [0..<length guesses]"
    and c: "login_counter view E email tenant (counted (min (0 + length guesses) m) (?W - pauses guesses)) s'"
    using guessed_account.guesses_run [OF assms(1) _ _ assms(2-4) _ assms(6-8), of 0] by simp_all
  have "\<exists>s2. login E input ctx s' = (Inl (AuthError.AccountLocked (Some (?W - pauses guesses))), s2)"
    if all: "m \<le> length guesses" "names_account E email tenant input"
  proof -
    have "min (0 + length guesses) m = m" using all(1) by simp
    with guessed_account.one_guess [OF assms(1) c all(2) _ assms(2-4), of ctx] assms(3) show ?thesis by auto
  qed
  then show ?thesis using run by auto
qed

interpretation sample_target: guessed_account sample_engine mem_view "''ann@acme.test''" "''t1''" "Some sample_account"
  by (rule guessed_account.intro [OF sample_lockout.throttle_axioms guessed_account_axioms.intro])
    (simp_all add: no_op_hooks_def sample_account_found sample_passwords_def)

lemma sample_guess:
  "names_account sample_engine ''ann@acme.test'' ''t1'' (sample_input p)"
  "p \<noteq> sample_password \<Longrightarrow> wrong_password sample_engine ''t1'' (Some sample_account) (li_password (sample_input p))"
  using sample_verify [of p sample_password]
  by (simp_all add: names_account_def sample_email wrong_password_def login_candidate_def tenant_scoped_def has_local_hash_def
      sample_account_def sample_passwords_def the_default_def)

definition sample_guesses :: "(LoginInput \<times> nat) list" where
  "sample_guesses = (let g = (sample_input ''guess'', 1) in [g, g, g, g, g, g])"

theorem lockout_bounds_guessing_witness:
  "\<exists>s'. try_logins sample_engine sample_request sample_guesses sample_start =
      ([Inl AuthError.InvalidCredentials, Inl AuthError.InvalidCredentials, Inl AuthError.InvalidCredentials,
        Inl AuthError.InvalidCredentials, Inl AuthError.InvalidCredentials, Inl (AuthError.AccountLocked (Some 895))], s') \<and>
    fst (login sample_engine (sample_input sample_password) sample_request s') = Inl (AuthError.AccountLocked (Some 894))"
proof -
  obtain answers s' where run: "try_logins sample_engine sample_request sample_guesses sample_start = (answers, s')" by fastforce
  have c: "login_counter mem_view sample_engine ''ann@acme.test'' ''t1'' None sample_start"
    using sample_quiet by (simp add: login_counter_def counter_shows_def shows_window_def)
  have p: "pauses sample_guesses < bs_window_secs (en_brute_force sample_engine)" by (simp add: pauses_def sample_guesses_def Let_def)
  have w: "\<forall>(input, d) \<in> set sample_guesses. names_account sample_engine ''ann@acme.test'' ''t1'' input \<and>
      wrong_password sample_engine ''t1'' (Some sample_account) (li_password input)"
    using sample_guess by (simp add: sample_password_def sample_guesses_def Let_def)
  show ?thesis
    using lockout_bounds_guessing [OF sample_target.guessed_account_axioms _ _ _ c p w run, of 5 "sample_input sample_password"]
      sample_guess(1) run
    by (simp add: pauses_def sample_guesses_def Let_def upt_rec_numeral)
qed

section \<open>Who is let in\<close>

lemma resolve_tenant_host: "es_host (snd (resolve_tenant E body ctx s)) = es_host s"
  by (simp add: resolve_tenant_def on_app_def map_err_def split: option.splits prod.splits sum.splits)

lemma login_gates_Inr:
  "login_gates E email tenant hook_ctx user s = (Inr (), s') \<Longrightarrow>
     assert_user_not_blocked E (au_status user) = Inr () \<and>
     (ev_required (ac_email_verification (cfg E)) \<longrightarrow> au_email_verified user) \<and> s' = s"
  by (auto simp: login_gates_def rbind_def on_host_def fire_login_failed_def spawn_guarded_def split: sum.splits if_splits)

lemma login_proven_result:
  assumes "login_proven E ctx hook_ctx identifier password user phc outcome s = (Inr result, s')"
  shows "case result of LoginSuccess r \<Rightarrow> \<not> au_mfa_enabled user \<and> ar_user r = safe_user user
    | LoginMfaChallenge c \<Rightarrow> au_mfa_enabled user \<and> mcr_mfa_required c"
  using assms
  by (auto simp: login_proven_def issue_session_result_def flow_inv Let_def dest: issue_tokens_user split: if_splits)

text \<open>
  C8. A login is granted only on a proved password. Whatever the network and the application do, a login
  that answers with a session or a challenge read the failure counter of that address and tenant as
  open, was handed by the repository an account of that very tenant with a password of its own, and
  the submitted password verifies against it; the account is in no blocked status and, where the
  deployment requires it, its address is verified. The answer is a session of that account when it has
  no second factor and a challenge when it has one.
\<close>

theorem login_granted:
  assumes "login E input ctx s = (Inr result, s')"
  shows "\<exists>tenant user phc w w'. fst (resolve_tenant E (li_tenant_id input) ctx s) = Inr tenant \<and>
    fst (throttle_is_locked (en_brute_force E)
      (lockout_identifier E tenant (engine_normalize_email E (li_email input))) (es_host s)) = Inr False \<and>
    ur_find_by_email (en_user_repository E) (engine_normalize_email E (li_email input)) tenant w = (Inr (Some user), w') \<and>
    au_tenant_id user = tenant \<and> au_password_hash user = Some phc \<and>
    verify_password (ps_libs (en_passwords E)) (as_bytes (li_password input)) phc = Inr True \<and>
    assert_user_not_blocked E (au_status user) = Inr () \<and>
    (ev_required (ac_email_verification (cfg E)) \<longrightarrow> au_email_verified user) \<and>
    (case result of LoginSuccess r \<Rightarrow> \<not> au_mfa_enabled user \<and> ar_user r = safe_user user
     | LoginMfaChallenge c \<Rightarrow> au_mfa_enabled user \<and> mcr_mfa_required c)"
proof -
  let ?e = "engine_normalize_email E (li_email input)"
  obtain tenant s1 where tenant: "resolve_tenant E (li_tenant_id input) ctx s = (Inr tenant, s1)"
    using assms by (auto simp: login_def Let_def rbind_eq_Inr)
  let ?id = "lockout_identifier E tenant ?e" and ?c = "from_request HookPlane_Dashboard ctx None (Some ?e) (Some tenant)"
  obtain s2 where locked: "assert_not_locked E ?id s1 = (Inr (), s2)"
    and rest: "rbind (map_err (\<lambda>_. AuthError.Forbidden) (on_app (hk_before_login (en_hooks E) ?e tenant ?c))) (\<lambda>_.
        rbind (repository (ur_find_by_email (en_user_repository E) ?e tenant)) (\<lambda>found.
          login_answer E ?e tenant ?id ?c ctx (li_password input) (login_candidate found tenant))) s2 = (Inr result, s')"
    using login_unlocked [OF assms tenant] login_steps [OF tenant] assms unfolding Let_def by metis
  have "fst (throttle_is_locked (en_brute_force E) ?id (es_host s1)) = Inr False"
    using locked by (auto simp: assert_not_locked_def rbind_def on_host_def split: if_splits prod.splits sum.splits)
  moreover have "es_host s1 = es_host s" using resolve_tenant_host [of E "li_tenant_id input" ctx s] tenant by simp
  moreover obtain found w w' s3 where
    find: "ur_find_by_email (en_user_repository E) ?e tenant w = (Inr found, w')"
    and answer: "login_answer E ?e tenant ?id ?c ctx (li_password input) (login_candidate found tenant) s3 = (Inr result, s')"
    using rest by (auto simp: rbind_eq_Inr repository_Inr)
  moreover obtain user s4 outcome s5 s6 where
    user: "login_candidate found tenant = Some user"
    and outcome: "verify_outcome (en_passwords E) (li_password input) (the_default [] (au_password_hash user)) s4 = (Inr outcome, s5)"
      "vo_matched outcome"
    and gates: "login_gates E ?e tenant ?c user s5 = (Inr (), s6)"
    and proven: "login_proven E ctx ?c ?id (li_password input) user (the_default [] (au_password_hash user)) outcome s6 = (Inr result, s')"
    using login_answer_Inr [OF answer] by metis
  moreover from user obtain phc where "found = Some user" "au_tenant_id user = tenant" "au_password_hash user = Some phc"
    by (auto simp: login_candidate_Some)
  moreover from outcome this(3) have "verify_password (ps_libs (en_passwords E)) (as_bytes (li_password input)) phc = Inr True"
    by (auto simp: verify_outcome_Inr the_default_def)
  ultimately show ?thesis
    using tenant login_gates_Inr [OF gates] login_proven_result [OF proven]
    by (intro exI [of _ tenant] exI [of _ user] exI [of _ phc] exI [of _ w] exI [of _ w']) simp
qed

theorem login_granted_witness:
  "\<exists>r s'. login sample_engine (sample_input sample_password) sample_request sample_start = (Inr (LoginSuccess r), s') \<and>
    ar_user r = safe_user sample_account"
proof -
  obtain r s' where run: "login sample_engine (sample_input sample_password) sample_request sample_start = (Inr (LoginSuccess r), s')"
    using sample_login by blast
  from login_granted [OF run] have "ar_user r = safe_user sample_account"
    by (auto simp: sample_email sample_account_found)
  with run show ?thesis by blast
qed

section \<open>Refusals\<close>

text \<open>What is left of a state when the account a refusal is reported for is not looked at.\<close>

fun anonymous :: "notification \<Rightarrow> notification" where
  "anonymous (OnLoginFailed failure hook_ctx) = OnLoginFailed (failure\<lparr>lf_user_id := None\<rparr>) hook_ctx"
| "anonymous n = n"

definition blur :: "('r, 'w) engine_state \<Rightarrow> ('r, 'w) engine_state" where
  "blur s = s\<lparr>es_host := (es_host s)\<lparr>spawned := map anonymous (spawned (es_host s))\<rparr>\<rparr>"

definition alike :: "'x \<times> ('r, 'w) engine_state \<Rightarrow> 'x \<times> ('r, 'w) engine_state \<Rightarrow> bool" where
  "alike p q \<longleftrightarrow> fst p = fst q \<and> blur (snd p) = blur (snd q)"

lemma alike_self [simp]: "alike p p"
  by (simp add: alike_def)

lemma on_store_spawned: "on_store m (h\<lparr>spawned := x\<rparr>) = (fst (on_store m h), (snd (on_store m h))\<lparr>spawned := x\<rparr>)"
  by (simp add: on_store_def split: prod.splits)

lemma on_store_keeps_spawned: "spawned (snd (on_store m h)) = spawned h"
  by (simp add: on_store_def split: prod.splits)

text \<open>The throttle neither reads nor writes the list of spawned tasks.\<close>

lemma throttle_spawned:
  "throttle_is_locked B ident (h\<lparr>spawned := x\<rparr>) = (fst (throttle_is_locked B ident h), (snd (throttle_is_locked B ident h))\<lparr>spawned := x\<rparr>)"
  "throttle_remaining_secs B ident (h\<lparr>spawned := x\<rparr>) =
     (fst (throttle_remaining_secs B ident h), (snd (throttle_remaining_secs B ident h))\<lparr>spawned := x\<rparr>)"
  by (simp_all add: throttle_is_locked_def throttle_remaining_secs_def rbind_def lift_result_def on_store_spawned
      split: sum.splits prod.splits)

lemma fire_lockout_alike:
  assumes "map anonymous x = map anonymous y"
  shows "alike (fire_lockout_if_crossed E ident email tenant c (s\<lparr>es_host := h\<lparr>spawned := x\<rparr>\<rparr>))
    (fire_lockout_if_crossed E ident email tenant c (s\<lparr>es_host := h\<lparr>spawned := y\<rparr>\<rparr>))"
  using assms by (simp add: alike_def fire_lockout_if_crossed_def rbind_def on_host_apply throttle_spawned blur_def spawn_guarded_def Let_def
      split: sum.split)

lemma reject_alike:
  "alike (record_failure_and_reject E ident email tenant u c s) (record_failure_and_reject E ident email tenant u' c s)"
proof (cases "throttle_record_failure (en_brute_force E) ident (es_host s)")
  case (Pair x h)
  let ?n = "\<lambda>uid. spawned h @ [OnLoginFailed \<lparr>lf_email = email, lf_tenant_id = tenant, lf_user_id = uid,
      lf_reason = LoginFailureReason.InvalidCredentials\<rparr> c]"
  have "map anonymous (?n u) = map anonymous (?n u')" by simp
  from fire_lockout_alike [OF this, of E ident email tenant c h s] Pair show ?thesis
    by (cases x) (auto simp: alike_def record_failure_and_reject_def fire_login_failed_def rbind_def on_host_apply spawn_guarded_def
        split: prod.splits sum.splits)
qed

text \<open>What a refused credential costs: one verification, then the record of the failure.\<close>

lemma refused_answer:
  assumes "wrong_password E tenant found password"
  obtains uid where "login_answer E email tenant identifier hook_ctx ctx password (login_candidate found tenant) s =
    rbind (rbind (asking (ps_joined (en_passwords E))) (\<lambda>joined. if joined then ret () else raise task_join_failed))
      (\<lambda>_. record_failure_and_reject E identifier email tenant uid hook_ctx) s"
proof (cases "login_candidate found tenant")
  case None
  show thesis
    by (rule that [of None]) (simp add: None login_answer_def verify_sentinel_def verify_outcome_def rbind_def asking_def Let_def split: prod.splits)
next
  case (Some user)
  then have "verify_password (ps_libs (en_passwords E)) (as_bytes password) (the_default [] (au_password_hash user)) \<noteq> Inr True"
    using assms by (simp add: wrong_password_def)
  then show thesis
    by (intro that [of "Some (au_id user)"])
      (auto simp: Some login_answer_def verify_outcome_def rbind_def asking_def Let_def split: prod.splits sum.splits)
qed

lemma other_repository [simp]:
  "resolve_tenant (E\<lparr>en_user_repository := R\<rparr>) = resolve_tenant E"
  "engine_normalize_email (E\<lparr>en_user_repository := R\<rparr>) = engine_normalize_email E"
  "lockout_identifier (E\<lparr>en_user_repository := R\<rparr>) = lockout_identifier E"
  "assert_not_locked (E\<lparr>en_user_repository := R\<rparr>) = assert_not_locked E"
  "record_failure_and_reject (E\<lparr>en_user_repository := R\<rparr>) = record_failure_and_reject E"
  "wrong_password (E\<lparr>en_user_repository := R\<rparr>) = wrong_password E"
  by (intro ext, simp add: resolve_tenant_def engine_normalize_email_def lockout_identifier_def keyed_hex_def
      assert_not_locked_def record_failure_and_reject_def fire_lockout_if_crossed_def wrong_password_def
      cong: if_cong option.case_cong sum.case_cong)+

text \<open>Two refusals from one state, for two answers of the repository.\<close>

lemma refused_alike:
  assumes "wrong_password E tenant found password" and "wrong_password E tenant found' password"
  shows "alike (login_answer E email tenant identifier hook_ctx ctx password (login_candidate found tenant) s)
    (login_answer (E\<lparr>en_user_repository := R\<rparr>) email tenant identifier hook_ctx ctx password (login_candidate found' tenant) s)"
proof -
  obtain u where u: "login_answer E email tenant identifier hook_ctx ctx password (login_candidate found tenant) s =
      rbind (rbind (asking (ps_joined (en_passwords E))) (\<lambda>joined. if joined then ret () else raise task_join_failed))
        (\<lambda>_. record_failure_and_reject E identifier email tenant u hook_ctx) s"
    by (rule refused_answer [OF assms(1)])
  obtain u' where u': "login_answer (E\<lparr>en_user_repository := R\<rparr>) email tenant identifier hook_ctx ctx password (login_candidate found' tenant) s =
      rbind (rbind (asking (ps_joined (en_passwords E))) (\<lambda>joined. if joined then ret () else raise task_join_failed))
        (\<lambda>_. record_failure_and_reject E identifier email tenant u' hook_ctx) s"
    by (rule refused_answer [of "E\<lparr>en_user_repository := R\<rparr>" tenant found' password]) (use assms(2) in simp_all)
  show ?thesis
    unfolding u u' by (auto simp: rbind_def [of "rbind _ _"] reject_alike split: prod.splits sum.splits)
qed

text \<open>
  C10. Refusals look alike. Two deployments that differ only in what their repository answers for the
  address, where neither answer is an account of that tenant the password opens (there is none, it is
  another tenant's, it has no password, the password is wrong), answer a login of it with the same
  result and leave the same state behind, the store and its remaining failures included, whatever the
  network does. Only the account named in the notification of the failure may differ.
\<close>

theorem refusals_alike:
  fixes E :: "('r, 'w) AuthEngine"
  assumes "fst (resolve_tenant E (li_tenant_id input) ctx s) = Inr tenant"
    and "\<forall>w. \<exists>w'. ur_find_by_email (en_user_repository E) (engine_normalize_email E (li_email input)) tenant w = (Inr found, w') \<and>
      ur_find_by_email R (engine_normalize_email E (li_email input)) tenant w = (Inr found', w')"
    and "wrong_password E tenant found (li_password input)" and "wrong_password E tenant found' (li_password input)"
  shows "alike (login E input ctx s) (login (E\<lparr>en_user_repository := R\<rparr>) input ctx s)"
proof -
  let ?E = "E\<lparr>en_user_repository := R\<rparr>" and ?e = "engine_normalize_email E (li_email input)"
  obtain s1 where tenant: "resolve_tenant E (li_tenant_id input) ctx s = (Inr tenant, s1)"
    using assms(1) by (cases "resolve_tenant E (li_tenant_id input) ctx s") auto
  then have tenant': "resolve_tenant ?E (li_tenant_id input) ctx s = (Inr tenant, s1)" by simp
  show ?thesis
  proof (cases "fst (assert_not_locked E (lockout_identifier E tenant ?e) s1)")
    case (Inl e)
    with tenant show ?thesis
      by (simp add: login_def Let_def rbind_def [of "resolve_tenant _ _ _"] rbind_def [of "attempt _"] alike_def)
  next
    case (Inr u)
    then obtain s2 where free: "assert_not_locked E (lockout_identifier E tenant ?e) s1 = (Inr (), s2)"
      by (cases "assert_not_locked E (lockout_identifier E tenant ?e) s1") auto
    then have free': "assert_not_locked ?E (lockout_identifier ?E tenant (engine_normalize_email ?E (li_email input))) s1 = (Inr (), s2)"
      by simp
    show ?thesis
    proof (cases "fst (map_err (\<lambda>_. AuthError.Forbidden) (on_app (hk_before_login (en_hooks E) ?e tenant
        (from_request HookPlane_Dashboard ctx None (Some ?e) (Some tenant)))) s2)")
      case (Inl e)
      then show ?thesis
        unfolding login_steps [OF tenant free] login_steps [OF tenant' free'] by (auto simp: Let_def rbind_def alike_def split: prod.splits)
    next
      case (Inr u)
      then obtain s3 where hook: "map_err (\<lambda>_. AuthError.Forbidden) (on_app (hk_before_login (en_hooks E) ?e tenant
          (from_request HookPlane_Dashboard ctx None (Some ?e) (Some tenant)))) s2 = (Inr (), s3)"
        by (metis prod.collapse old.unit.exhaust)
      obtain w' where "ur_find_by_email (en_user_repository E) ?e tenant (es_app s3) = (Inr found, w')"
        and "ur_find_by_email R ?e tenant (es_app s3) = (Inr found', w')" using assms(2) by blast
      then have "repository (ur_find_by_email (en_user_repository E) ?e tenant) s3 = (Inr found, s3\<lparr>es_app := w'\<rparr>)"
        and "repository (ur_find_by_email R ?e tenant) s3 = (Inr found', s3\<lparr>es_app := w'\<rparr>)"
        by (simp_all add: repository_Inr)
      then show ?thesis
        unfolding login_steps [OF tenant free] login_steps [OF tenant' free'] using hook refused_alike [OF assms(3,4)]
        by (simp add: Let_def rbind_def [of "map_err _ _"] rbind_def [of "repository _"])
    qed
  qed
qed

theorem refusals_alike_witness:
  "alike (login sample_engine (sample_input ''guess'') sample_request sample_start)
     (login (sample_engine\<lparr>en_user_repository := sample_users\<rparr>) (sample_input ''guess'') sample_request sample_start)"
proof (rule refusals_alike [where tenant = "''t1''" and found = "Some sample_account" and found' = None])
  show "fst (resolve_tenant sample_engine (li_tenant_id (sample_input ''guess'')) sample_request sample_start) = Inr ''t1''"
    by (simp add: resolve_tenant_def sample_input_def)
  show "wrong_password sample_engine ''t1'' (Some sample_account) (li_password (sample_input ''guess''))"
    by (rule sample_guess(2)) (simp add: sample_password_def)
qed (simp_all add: sample_email sample_account_found sample_users_def wrong_password_def login_candidate_def tenant_scoped_def)

end
