(* ===== verification/Mfa_Rules.thy ===== *)
theory Mfa_Rules
  imports Sample_Engine
begin

text \<open>
  Rules for the runs of the MFA service: what an answer of its steps says, the steps a code is admitted
  for, the recovery scan as a first match, what the challenge and the gate of a change look at, the frame
  of a removal (it leaves session keys and generations alone until it sweeps them), and a pending
  enrolment read back. The locales are the service's contracts: one store behind the service
  (\<open>one_store\<close>), its libraries (\<open>mfa_service\<close>), and both (\<open>enrolment\<close>).
\<close>

section \<open>Steps that answered\<close>

lemma guard_Inr [flow_inv]:
  "(if b then raise e else m) s = (Inr a, t) \<longleftrightarrow> \<not> b \<and> m s = (Inr a, t)"
  "(case x of None \<Rightarrow> raise e | Some y \<Rightarrow> f y) s = (Inr a, t) \<longleftrightarrow> (\<exists>y. x = Some y \<and> f y s = (Inr a, t))"
  by (auto split: option.split)

lemma on_store_answer [flow_inv]: "on_store m h = (x, g) \<longleftrightarrow> (\<exists>c. m (store_client h) = (x, c) \<and> g = h\<lparr>store_client := c\<rparr>)"
  by (auto simp: on_store_def split: prod.splits)

lemma mfa_repo_Inr [flow_inv]:
  "mfa_repo m s = (Inr a, t) \<longleftrightarrow> (\<exists>w. m (es_app s) = (Inr a, w) \<and> t = s\<lparr>es_app := w\<rparr>)"
  by (simp add: mfa_repo_def map_err_eq_Inr on_app_eq)

lemma mfa_assert_not_locked_Inr [flow_inv]:
  "mfa_assert_not_locked S ident s = (Inr u, t) \<longleftrightarrow>
     (\<exists>h. throttle_is_locked (ms_brute_force S) ident (es_host s) = (Inr False, h) \<and> t = s\<lparr>es_host := h\<rparr>)"
  by (auto simp: mfa_assert_not_locked_def rbind_eq_Inr on_host_eq split: if_splits)

lemma reject_code_Inr [flow_inv, simp]: "reject_code S ident s \<noteq> (Inr a, t)"
  by (simp add: reject_code_def rbind_eq_Inr)

definition unix_seconds :: "'r host \<Rightarrow> 64 word" where
  "unix_seconds h = (let t = unix_timestamp (clock h 0) in if 0 \<le> t \<and> t < 2 ^ 64 then of_int t else 0)"

lemma current_unix_time_eq [flow_inv]:
  "current_unix_time h = (x, g) \<longleftrightarrow> x = Inr (unix_seconds h) \<and> g = h\<lparr>clock := (\<lambda>i. clock h (Suc i))\<rparr>"
  by (auto simp: current_unix_time_def unix_seconds_def rbind_def host_run Let_def)

section \<open>The window of a code\<close>

lemma admits_span:
  assumes "admits t w step" and "admits t' w step"
  shows "uint t' - uint t < int ((2 * min w MAX_VERIFY_WINDOW + 1) * TOTP_STEP_SECONDS)"
proof -
  define c c' m where "c = uint t div 30" and "c' = uint t' div 30" and "m = int (min w MAX_VERIFY_WINDOW)"
  have "\<bar>step - c\<bar> \<le> m" "\<bar>step - c'\<bar> \<le> m"
    using assms by (simp_all add: admits_def TOTP_STEP_SECS_def c_def c'_def m_def)
  then have "c' - c \<le> 2 * m" by linarith
  moreover have "30 * c \<le> uint t" "uint t' < 30 * c' + 30" unfolding c_def c'_def by presburger+
  ultimately have "uint t' - uint t < 30 * (2 * m + 1)" by presburger
  then show ?thesis by (simp add: m_def TOTP_STEP_SECONDS_def)
qed

lemma anti_replay_ttl_ok: "ttl_ok (anti_replay_ttl_seconds S)"
  by (simp add: ttl_ok_def anti_replay_ttl_seconds_def TOTP_STEP_SECONDS_def MAX_VERIFY_WINDOW_def Let_def min_def)

text \<open>Either way of accepting a code checks it against the clock and then wins the store's marker.\<close>

definition replay_key :: "('r, 'w) MfaService \<Rightarrow> MfaContext \<Rightarrow> string option \<Rightarrow> string \<Rightarrow> string \<Rightarrow> string" where
  "replay_key S ctx tenant user code = key (rs_namespace (ms_mfa_store S)) Tu (replay_id S ctx tenant user code)"

lemma code_accepted:
  assumes "m \<in> {accept_totp S ctx tenant user secret code jti, verify_totp_with_anti_replay S ctx tenant user secret code}"
    and "m s = (Inr True, s')"
  shows "totp_verify (ml_totp (ms_libs S)) secret code (unix_seconds (es_host s)) (ms_totp_window S)"
    and "\<exists>jti_hash n. n \<in> {challenge_consume (ms_mfa_store S) (replay_id S ctx tenant user code) jti_hash (anti_replay_ttl_seconds S),
        mark_totp_used (ms_mfa_store S) (replay_id S ctx tenant user code) (anti_replay_ttl_seconds S)} \<and>
      n (store_client (es_host s)) = (Inr True, store_client (es_host s'))"
proof -
  let ?marks = "\<lambda>j. {challenge_consume (ms_mfa_store S) (replay_id S ctx tenant user code) j (anti_replay_ttl_seconds S),
    mark_totp_used (ms_mfa_store S) (replay_id S ctx tenant user code) (anti_replay_ttl_seconds S)}"
  from assms(1) consider "m = accept_totp S ctx tenant user secret code jti"
    | "m = verify_totp_with_anti_replay S ctx tenant user secret code" by blast
  then have "totp_verify (ml_totp (ms_libs S)) secret code (unix_seconds (es_host s)) (ms_totp_window S) \<and>
    (\<exists>j. \<exists>n \<in> ?marks j. n (store_client (es_host s)) = (Inr True, store_client (es_host s')))"
  proof cases
    case 1
    from assms(2) show ?thesis
      unfolding 1 accept_totp_def Let_def
      by (clarsimp simp: flow_inv split: if_splits) (rule exI)
  next
    case 2
    from assms(2) show ?thesis
      unfolding 2 verify_totp_with_anti_replay_def by (clarsimp simp: flow_inv split: if_splits)
  qed
  then show "totp_verify (ml_totp (ms_libs S)) secret code (unix_seconds (es_host s)) (ms_totp_window S)"
    and "\<exists>jti_hash n. n \<in> ?marks jti_hash \<and> n (store_client (es_host s)) = (Inr True, store_client (es_host s'))" by blast+
qed


section \<open>Recovery codes\<close>

text \<open>The first stored digest that is one of the candidates.\<close>

fun first_match :: "string list \<Rightarrow> string list \<Rightarrow> nat option" where
  "first_match [] candidates = None"
| "first_match (dgst # digests) candidates =
     (if dgst \<in> set candidates then Some 0 else map_option Suc (first_match digests candidates))"

lemma fold_candidates:
  "foldl (\<lambda>found cand. if dgst = cand then (case found of Some i \<Rightarrow> Some i | None \<Rightarrow> Some index) else found) found candidates =
     (if found = None \<and> dgst \<in> set candidates then Some index else found)"
  by (induction candidates arbitrary: found) (auto split: option.splits)

lemma scan_first_match:
  "scan_recovery_codes (=) candidates index found digests =
     (case found of Some i \<Rightarrow> Some i | None \<Rightarrow> map_option ((+) index) (first_match digests candidates))"
proof (induction digests arbitrary: index found)
  case (Cons dgst digests)
  then show ?case
    by (cases found; cases "first_match digests candidates") (auto simp: fold_candidates)
qed (simp split: option.split)


section \<open>The challenge\<close>

text \<open>
  What a code has to show at a host: a one-time code that the clock admits and whose marker and temporary
  token are won together, or a recovery code that is on record, claimed, and wins the temporary token.
\<close>

definition shows_factor :: "('r, 'w) MfaService \<Rightarrow> MfaTempVerified \<Rightarrow> AuthUser \<Rightarrow> u8 list \<Rightarrow> string \<Rightarrow> 'r host \<Rightarrow> bool" where
  "shows_factor S verified user secret code h \<longleftrightarrow>
     (if is_totp_code code then
        totp_verify (ml_totp (ms_libs S)) secret code (unix_seconds h) (ms_totp_window S) \<and>
        fst (challenge_consume (ms_mfa_store S)
          (replay_id S MfaContext_Dashboard (mv_tenant_id verified) (mv_user_id verified) code)
          (jti_hash (ms_tokens S) (mv_jti verified)) (anti_replay_ttl_seconds S) (store_client h)) = Inr True
      else
        verify_recovery_code (constant_time_eq (mfa_jws S)) (the_default [] (au_mfa_recovery_codes user))
          (recovery_code_candidates S code) \<noteq> None \<and>
        (case claim_recovery_code (ms_mfa_store S)
            (replay_id S MfaContext_Dashboard (Some (au_tenant_id user)) (au_id user) code)
            RECOVERY_CODE_CLAIM_TTL_SECONDS (store_client h) of
           (x, c) \<Rightarrow> x = Inr True \<and>
             fst (consume_mfa_temp_token (ms_tokens S) (mv_jti verified) (h\<lparr>store_client := c\<rparr>)) = Inr True))"

lemma dashboard_code_Inr:
  assumes "dashboard_code S (mv_tenant_id verified) (mv_user_id verified) user secret code (mv_jti verified) ident s = (Inr index, t)"
  shows "shows_factor S verified user secret code (es_host s)"
proof (cases "is_totp_code code")
  case True
  with assms show ?thesis
    by (auto simp: dashboard_code_def shows_factor_def accept_totp_def Let_def flow_inv jti_hash_def split: if_splits)
next
  case False
  with assms show ?thesis
    by (auto simp: dashboard_code_def shows_factor_def accept_recovery_code_def claim_code_def settle_code_def Let_def flow_inv
        split: if_splits option.splits)
qed

lemma finish_dashboard_Inr:
  assumes "finish_dashboard S user_id user ip user_agent s = (Inr out, t)"
  shows "\<exists>result h h'. out = LoginResultMfa_Dashboard result \<and>
    issue_tokens (ms_tokens S) (safe_user user) ip user_agent True Proved h = (Inr result, h')"
  using assms by (auto simp: finish_dashboard_def Let_def flow_inv)

lemma finish_platform_Inr:
  assumes "finish_platform S user_id admin ip user_agent s = (Inr out, t)"
  shows "\<exists>result. out = LoginResultMfa_Platform result"
  using assms by (auto simp: finish_platform_def Let_def flow_inv)

lemma challenge_platform_Inr:
  assumes "challenge_platform S verified code ip user_agent s = (Inr out, t)"
  shows "\<exists>result. out = LoginResultMfa_Platform result"
  using assms
  by (auto simp: challenge_platform_def Let_def flow_inv dest!: finish_platform_Inr)

lemma challenge_dashboard_Inr:
  assumes "challenge_dashboard S verified code ip user_agent s = (Inr out, t)"
  shows "\<exists>h1 user w wire secret result h2 h3.
    throttle_is_locked (ms_brute_force S) (challenge_bf_id S MfaContext_Dashboard (mv_tenant_id verified) (mv_user_id verified))
      (es_host s) = (Inr False, h1) \<and>
    ur_find_by_id (ms_user_repo S) (mv_user_id verified) (mv_tenant_id verified) (es_app s) = (Inr (Some user), w) \<and>
    mv_tenant_id verified = Some (au_tenant_id user) \<and>
    assert_not_blocked (au_status user) (ms_blocked_statuses S) = Inr () \<and>
    au_mfa_enabled user \<and> au_mfa_secret user = Some wire \<and> decrypt_secret S wire = Some secret \<and>
    shows_factor S verified user secret code h1 \<and>
    out = LoginResultMfa_Dashboard result \<and>
    issue_tokens (ms_tokens S) (safe_user user) ip user_agent True Proved h2 = (Inr result, h3)"
proof -
  from assms obtain h1 user w wire secret retired index s1 s2 where
    locked: "throttle_is_locked (ms_brute_force S) (challenge_bf_id S MfaContext_Dashboard (mv_tenant_id verified) (mv_user_id verified))
      (es_host s) = (Inr False, h1)"
    and user: "ur_find_by_id (ms_user_repo S) (mv_user_id verified) (mv_tenant_id verified) (es_app s) = (Inr (Some user), w)"
    and gates: "Some (au_tenant_id user) = mv_tenant_id verified" "assert_not_blocked (au_status user) (ms_blocked_statuses S) = Inr ()"
      "au_mfa_enabled user" "au_mfa_secret user = Some wire" "decrypt_secret_with_rotation S wire = Some (secret, retired)"
    and code: "dashboard_code S (mv_tenant_id verified) (mv_user_id verified) user secret code (mv_jti verified)
      (challenge_bf_id S MfaContext_Dashboard (mv_tenant_id verified) (mv_user_id verified)) (s\<lparr>es_host := h1, es_app := w\<rparr>) = (Inr index, s1)"
    and finish: "finish_dashboard S (mv_user_id verified) user ip user_agent s2 = (Inr out, t)"
    by (auto simp: challenge_dashboard_def Let_def flow_inv split: if_splits)
  from gates(5) have "decrypt_secret S wire = Some secret" by (simp add: decrypt_secret_def)
  moreover from dashboard_code_Inr [OF code] have "shows_factor S verified user secret code h1" by simp
  moreover from finish_dashboard_Inr [OF finish] obtain result h2 h3 where "out = LoginResultMfa_Dashboard result"
    "issue_tokens (ms_tokens S) (safe_user user) ip user_agent True Proved h2 = (Inr result, h3)" by blast
  ultimately show ?thesis using locked user gates by metis
qed

section \<open>Removing the factor\<close>

text \<open>What a sign-out reads: the session keys and the generations, as they were.\<close>

definition standing :: "string \<Rightarrow> rview \<Rightarrow> rview \<Rightarrow> bool" where
  "standing ns v0 v \<longleftrightarrow> (\<forall>k \<in> session_keys ns. v k = v0 k) \<and>
     (\<forall>kind i. v (key ns (epoch_prefix kind) i) = v0 (key ns (epoch_prefix kind) i))"

definition aside :: "Prefix \<Rightarrow> bool" where
  "aside p \<longleftrightarrow> p \<in> {Tu, Lf, Mfalock}"

lemma aside_prefix:
  assumes "aside p"
  shows "p \<noteq> kp_rt (kind_prefixes k)" "p \<noteq> kp_rp (kind_prefixes k)" "p \<noteq> kp_cf (kind_prefixes k)"
    "p \<noteq> kp_fam (kind_prefixes k)" "p \<noteq> kp_sess (kind_prefixes k)" "p \<noteq> kp_sd (kind_prefixes k)" "epoch_prefix k \<noteq> p"
  using assms by (cases k; auto simp: aside_def)+

lemma aside_key: "aside p \<Longrightarrow> key ns p i \<notin> session_keys ns"
  by (simp add: session_keys_def aside_prefix)

lemma standing_effects:
  assumes "aside p" and "standing ns v0 v"
  shows "standing ns v0 (v_set_ex (key ns p i) x t v)" and "standing ns v0 (v_del (key ns p i) v)"
proof -
  have neq: "k \<in> session_keys ns \<Longrightarrow> k \<noteq> key ns p i" for k using aside_key [OF assms(1)] by blast
  show "standing ns v0 (v_set_ex (key ns p i) x t v)" and "standing ns v0 (v_del (key ns p i) v)"
    using assms(2) by (auto simp: standing_def neq aside_prefix(7) [OF assms(1)] effect_elsewhere(1,2))
qed

context redis_service
begin

lemma standing_writes:
  assumes "rs_redis S = R" and "aside p"
  shows "ttl_ok t \<Longrightarrow> preserves (\<lambda>c. standing (rs_namespace S) v0 (view (server c))) (set_nx_value S p i x t)"
    and "preserves (\<lambda>c. standing (rs_namespace S) v0 (view (server c)))
      (query (r_del (rs_redis S) (key (rs_namespace S) p i)))"
    and "preserves (\<lambda>c. standing (rs_namespace S) v0 (view (server c)))
      (query (release_lock (rs_redis S) (key (rs_namespace S) p i) x))"
  unfolding set_nx_value_def
  by (intro preserve preserves_query [where Q = "\<lambda>r. standing (rs_namespace S) v0 (view r)"];
      simp add: assms set_nx_ex del standing_effects release_lock_def)+

lemma standing_ops:
  assumes "rs_redis S = R"
  shows "ttl_ok t \<Longrightarrow> preserves (\<lambda>c. standing (rs_namespace S) v0 (view (server c))) (mark_totp_used S i t)"
    and "ttl_ok t \<Longrightarrow> preserves (\<lambda>c. standing (rs_namespace S) v0 (view (server c))) (acquire_mfa_lock S i x t)"
    and "preserves (\<lambda>c. standing (rs_namespace S) v0 (view (server c))) (release_mfa_lock S i x)"
    and "preserves (\<lambda>c. standing (rs_namespace S) v0 (view (server c))) (reset_failures S i)"
    and "preserves (\<lambda>c. standing (rs_namespace S) v0 (view (server c))) (is_locked S i m)"
proof -
  let ?P = "\<lambda>c. standing (rs_namespace S) v0 (view (server c))"
  note writes = standing_writes [OF assms, where ?v0.0 = v0]
  have in_use: "aside Tu" "aside Lf" "aside Mfalock" by (simp_all add: aside_def)
  show "ttl_ok t \<Longrightarrow> preserves ?P (mark_totp_used S i t)" "ttl_ok t \<Longrightarrow> preserves ?P (acquire_mfa_lock S i x t)"
    unfolding mark_totp_used_def mark_totp_used_inner_def set_nx_marker_def acquire_mfa_lock_def
    by (intro preserve writes(1) in_use; assumption)+
  show "preserves ?P (release_mfa_lock S i x)" unfolding release_mfa_lock_def release_mfa_lock_inner_def
    by (intro preserve writes(3) in_use)
  show "preserves ?P (reset_failures S i)" unfolding reset_failures_def reset_inner_def by (intro preserve writes(2) in_use)
  show "preserves ?P (is_locked S i m)" unfolding is_locked_def is_locked_inner_def
    by (intro preserve preserves_query [where Q = "\<lambda>r. standing (rs_namespace S) v0 (view r)"]) simp
qed

end

text \<open>The gate of a change: a code of the account's own secret, under its own lockout.\<close>

definition gate_passed ::
    "('r, 'w) MfaService \<Rightarrow> MfaContext \<Rightarrow> string option \<Rightarrow> string \<Rightarrow> string \<Rightarrow> MfaUserView \<Rightarrow> 'r host \<Rightarrow> bool" where
  "gate_passed S ctx tenant user code v h \<longleftrightarrow> mu_mfa_enabled v \<and>
     (\<exists>h1 wire secret. throttle_is_locked (ms_brute_force S) (disable_bf_id S ctx tenant user) h = (Inr False, h1) \<and>
        mu_mfa_secret v = Some wire \<and> decrypt_secret S wire = Some secret \<and>
        totp_verify (ml_totp (ms_libs S)) secret code (unix_seconds h1) (ms_totp_window S) \<and>
        fst (mark_totp_used (ms_mfa_store S) (replay_id S ctx tenant user code) (anti_replay_ttl_seconds S) (store_client h1)) = Inr True)"

lemma reauth_gate_Inr:
  assumes "reauth_gate S ctx tenant user code v s = (Inr u, t)"
  shows "gate_passed S ctx tenant user code v (es_host s)"
  using assms by (auto simp: reauth_gate_def gate_passed_def verify_totp_with_anti_replay_def Let_def flow_inv split: if_splits)

text \<open>Steps on the host and in the application, for a predicate of the server.\<close>

lemma preserves_on_host [preserve]:
  "preserves (\<lambda>h. Q (server (store_client h))) m \<Longrightarrow> preserves (\<lambda>s. Q (server (store_client (es_host s)))) (on_host m)"
  by (auto simp: preserves_def on_host_def split: prod.splits)

lemma preserves_on_app [preserve]: "preserves (\<lambda>s. Q (server (store_client (es_host s)))) (on_app m)"
  by (auto simp: preserves_def on_app_def split: prod.splits)

lemma preserves_random [preserve]: "preserves (\<lambda>h. Q (server (store_client h))) (random_bytes n)"
  by (simp add: preserves_def random_bytes_def)

lemma preserves_account [preserve]:
  "preserves (\<lambda>s. Q (server (store_client (es_host s)))) (fetch_user_mfa S user ctx tenant)"
  "preserves (\<lambda>s. Q (server (store_client (es_host s)))) (persist_mfa S user ctx tenant enabled secret codes)"
  unfolding fetch_user_mfa_def persist_mfa_def mfa_repo_def by (cases ctx; simp; intro preserve)+

text \<open>The stores of one deployment are one store; its server meets the contract of the session store.\<close>

locale one_store = store_service "ms_session_store S" view for S :: "('r, 'w) MfaService" and view :: "'r \<Rightarrow> rview" +
  assumes mfa_store: "ms_mfa_store S = ms_session_store S"
    and throttle_store: "bs_store (ms_brute_force S) = ms_session_store S"
begin

abbreviation ns :: string where
  "ns \<equiv> rs_namespace (ms_session_store S)"

abbreviation stands :: "rview \<Rightarrow> ('r, 'w) engine_state \<Rightarrow> bool" where
  "stands v0 s \<equiv> standing ns v0 (store_view view (es_host s))"

lemmas ops = standing_ops [OF HOL.refl]

lemma throttle_stands:
  "preserves (\<lambda>h. standing ns v0 (view (server (store_client h)))) (throttle_is_locked (ms_brute_force S) i)"
  "preserves (\<lambda>h. standing ns v0 (view (server (store_client h)))) (throttle_reset (ms_brute_force S) i)"
  unfolding throttle_is_locked_def throttle_reset_def throttle_store
  by (intro preserve preserves_on_store [where Q = "\<lambda>r. standing ns v0 (view r)"] ops(4,5))+

lemma transition_stands: "preserves (stands v0) (transition_mfa_record S user ctx tenant change)"
proof -
  have ttl: "ttl_ok MFA_TRANSITION_LOCK_TTL_SECONDS" by (simp add: ttl_ok_def MFA_TRANSITION_LOCK_TTL_SECONDS_def)
  show ?thesis
    unfolding transition_mfa_record_def transition_locked_def draw_token_def mfa_store Let_def
    by (intro preserve preserves_on_host [where Q = "\<lambda>r. standing ns v0 (view r)"] preserves_account [where Q = "\<lambda>r. standing ns v0 (view r)"]
        preserves_on_store [where Q = "\<lambda>r. standing ns v0 (view r)"] preserves_random [where Q = "\<lambda>r. standing ns v0 (view r)"] ops ttl)
qed

lemma reauth_stands:
  assumes "stands v0 s" and "reauth_gate S ctx tenant user code v s = (Inr u, t)"
  shows "stands v0 t"
proof -
  let ?id = "disable_bf_id S ctx tenant user" and ?Q = "\<lambda>r. standing ns v0 (view r)"
  from assms(2) obtain h1 secret s2 h3 where
    h1: "throttle_is_locked (ms_brute_force S) ?id (es_host s) = (Inr False, h1)"
    and s2: "verify_totp_with_anti_replay S ctx tenant user secret code (s\<lparr>es_host := h1\<rparr>) = (Inr True, s2)"
    and h3: "throttle_reset (ms_brute_force S) ?id (es_host s2) = (Inr u, h3)" and t: "t = s2\<lparr>es_host := h3\<rparr>"
    by (auto simp: reauth_gate_def Let_def flow_inv split: if_splits)
  have "preserves (\<lambda>s. ?Q (server (store_client (es_host s)))) (verify_totp_with_anti_replay S ctx tenant user secret code)"
    unfolding verify_totp_with_anti_replay_def current_unix_time_def mfa_store
    by (intro preserve preserves_on_host [where Q = ?Q] preserves_on_store [where Q = ?Q] preserves_host [where Q = ?Q]
        ops(1) anti_replay_ttl_ok)
  from preservesD [OF this _ s2] preservesD [OF throttle_stands(1) _ h1] preservesD [OF throttle_stands(2) _ h3] assms(1) t
  show ?thesis by simp
qed

lemma bump_epoch_elsewhere:
  assumes "bump_epoch (ms_session_store S) kind subject c = (Inr m, c')"
    and "epoch_is ns kind subject (view (server c)) n" and "n + 1 < 2 ^ 63"
    and "k \<noteq> key ns (epoch_prefix kind) subject"
  shows "view (server c') k = view (server c) k"
proof -
  let ?k = "key ns (epoch_prefix kind) subject" and ?R = "rs_redis (ms_session_store S)"
  let ?f = "\<lambda>r. case r_incr ?R ?k r of (new_value, r1) \<Rightarrow> (new_value, r_expire ?R ?k token_epoch_retention_secs r1)"
  from assms(1) have "rbind connection (\<lambda>_. query ?f) c = (Inr m, c')"
    by (simp add: bump_epoch_def bump_epoch_inner_def map_err_eq_Inr Let_def)
  from round_trip(2) [OF this HOL.refl]
  have c': "server c' = r_expire ?R ?k token_epoch_retention_secs (snd (r_incr ?R ?k (server c)))" by (simp split: prod.splits)
  have ttl: "ttl_ok token_epoch_retention_secs" by (simp add: ttl_ok_def token_epoch_retention_secs_def)
  have "view (snd (r_incr ?R ?k (server c))) = v_set_num ?k (n + 1) (view (server c))"
    using assms(2,3) by (cases "view (server c) ?k = None") (simp_all add: epoch_is_def Let_def incr_absent incr)
  then show ?thesis using assms(4) by (simp add: c' expire [OF ttl] v_expire_def v_set_num_def)
qed

lemma revoke_everything_ends:
  assumes "revoke_everything S ctx tenant user s = (Inr u, t)" and "stands v0 s"
    and "reachable (ms_session_store S) view owner T w" and "ttl_ok T" and "view (srv w) = v0"
    and "epoch_is ns (session_kind ctx) (mfa_session_subject S ctx tenant user) v0 n" and "n + 1 < 2 ^ 63"
  shows "locked_out (rs_codec (ms_session_store S)) ns owner (session_kind ctx) (mfa_session_subject S ctx tenant user)
      (store_view view (es_host t))"
    and "epoch_is ns (session_kind ctx) (mfa_session_subject S ctx tenant user) (store_view view (es_host t)) (n + 1)"
proof -
  let ?S = "ms_session_store S" and ?kind = "session_kind ctx" and ?sub = "mfa_session_subject S ctx tenant user"
  let ?c = "store_client (es_host s)"
  from assms(1) obtain c1 m c2 where c1: "revoke_all ?S ?kind ?sub ?c = (Inr (), c1)"
    and c2: "bump_epoch ?S ?kind ?sub c1 = (Inr m, c2)" and t: "store_client (es_host t) = c2"
    by (auto simp: revoke_everything_def Let_def flow_inv)
  define w' where "w' = w\<lparr>srv := server ?c\<rparr>"
  have "reachable ?S view owner T w'"
    unfolding w'_def
    by (rule reachable.step [OF assms(3) store_step.elsewhere]) (use assms(2,5) in \<open>auto simp: standing_def\<close>)
  note inv = inv_reachable [OF this assms(4)]
  have swept: "server c1 = snd (revoke_all_script ?S ?kind ?sub (server ?c))" by (rule revoke_all_Inr [OF c1])
  have out: "locked_out (rs_codec ?S) ns owner ?kind ?sub (view (server c1))"
    using locked_out_after_sweep [OF inv assms(4), of ?kind ?sub] by (simp add: swept w'_def)
  have "typed ns (view (server ?c))" and wf: "members_wf ns (view (server ?c))"
    using index_invD(1,5) [OF inv] by (simp_all add: w'_def)
  from view_revoke_all [OF this(1), of ?kind ?sub]
  have "view (server c1) (key ns (epoch_prefix ?kind) ?sub) = view (server ?c) (key ns (epoch_prefix ?kind) ?sub)"
    unfolding swept by (auto simp: v_dels_def doomed_def key_index_member [simplified] dest!: wf [unfolded members_wf_def, rule_format])
  with assms(2,6) have "epoch_is ns ?kind ?sub (view (server c1)) n"
    by (auto simp: standing_def epoch_is_def Let_def str_at_def)
  note epoch = this assms(7)
  show "epoch_is ns ?kind ?sub (store_view view (es_host t)) (n + 1)" using bump_epoch_Inr [OF c2 epoch] t by simp
  have "view (server c2) (rt_key ns ?kind h) = view (server c1) (rt_key ns ?kind h)"
    "view (server c2) (rp_key ns ?kind h) = view (server c1) (rp_key ns ?kind h)" for h
    using bump_epoch_elsewhere [OF c2 epoch] by simp_all
  with out show "locked_out (rs_codec ?S) ns owner ?kind ?sub (store_view view (es_host t))"
    unfolding t by (simp add: locked_out_def str_at_def)
qed

lemma disable_steps:
  assumes "mfa_disable S user code ip user_agent ctx tenant s = (Inr u, t)"
  obtains v w s1 s2 s3 wrote where "plane_tenant_is_well_formed ctx tenant"
    "fetch_user_mfa S user ctx tenant s = (Inr v, s1)" "reauth_gate S ctx tenant user code v s1 = (Inr (), s2)"
    "transition_mfa_record S user ctx tenant (\<lambda>_. Some (False, None, None)) s2 = (Inr wrote, s3)"
    "revoke_everything S ctx tenant user s3 = (Inr (), w)" "store_client (es_host t) = store_client (es_host w)"
  using assms
  by (auto simp: mfa_disable_def require_plane_tenant_def notify_disabled_def spawn_guarded_def flow_inv split: if_splits)

lemma transition_writes:
  assumes "transition_mfa_record S user ctx tenant (\<lambda>_. Some (enabled, secret, codes)) s = (Inr wrote, t)"
  shows "\<exists>s1 s2. persist_mfa S user ctx tenant enabled secret codes s1 = (Inr (), s2)"
proof -
  from assms obtain s1 x s2 where "transition_locked S user ctx tenant (\<lambda>_. Some (enabled, secret, codes)) s1 = (x, s2)" "x = Inr wrote"
    by (auto simp: transition_mfa_record_def Let_def flow_inv split: if_splits) (metis prod.collapse)
  then show ?thesis by (auto simp: transition_locked_def flow_inv)
qed

lemma disable_ends:
  assumes run: "mfa_disable S user code ip user_agent ctx tenant s = (Inr u, t)"
    and world: "reachable (ms_session_store S) view owner T w" "ttl_ok T" "view (srv w) = store_view view (es_host s)"
    and epoch: "epoch_is ns (session_kind ctx) (mfa_session_subject S ctx tenant user) (store_view view (es_host s)) n" "n + 1 < 2 ^ 63"
  shows "\<exists>v s1 s2 s3. fetch_user_mfa S user ctx tenant s = (Inr v, s1) \<and> gate_passed S ctx tenant user code v (es_host s1) \<and>
      persist_mfa S user ctx tenant False None None s2 = (Inr (), s3)"
    and "locked_out (rs_codec (ms_session_store S)) ns owner (session_kind ctx) (mfa_session_subject S ctx tenant user)
      (store_view view (es_host t))"
    and "epoch_is ns (session_kind ctx) (mfa_session_subject S ctx tenant user) (store_view view (es_host t)) (n + 1)"
proof -
  let ?v0 = "store_view view (es_host s)" and ?Q = "\<lambda>r. standing ns (store_view view (es_host s)) (view r)"
  from run obtain v s1 s2 s3 wrote x where fetch: "fetch_user_mfa S user ctx tenant s = (Inr v, s1)"
    and gate: "reauth_gate S ctx tenant user code v s1 = (Inr (), s2)"
    and persisted: "transition_mfa_record S user ctx tenant (\<lambda>_. Some (False, None, None)) s2 = (Inr wrote, s3)"
    and ended: "revoke_everything S ctx tenant user s3 = (Inr (), x)" and t: "store_client (es_host t) = store_client (es_host x)"
    by (rule disable_steps)
  from fetch reauth_gate_Inr [OF gate] transition_writes [OF persisted]
  show "\<exists>v s1 s2 s3. fetch_user_mfa S user ctx tenant s = (Inr v, s1) \<and> gate_passed S ctx tenant user code v (es_host s1) \<and>
      persist_mfa S user ctx tenant False None None s2 = (Inr (), s3)" by blast
  have "stands ?v0 s" by (simp add: standing_def)
  with preservesD [OF preserves_account(1) [where Q = ?Q] _ fetch] have "stands ?v0 s1" by simp
  from reauth_stands [OF this gate] preservesD [OF transition_stands _ persisted] have "stands ?v0 s3" by blast
  from revoke_everything_ends [OF ended this world epoch] t
  show "locked_out (rs_codec (ms_session_store S)) ns owner (session_kind ctx) (mfa_session_subject S ctx tenant user)
      (store_view view (es_host t))"
    and "epoch_is ns (session_kind ctx) (mfa_session_subject S ctx tenant user) (store_view view (es_host t)) (n + 1)"
    by simp_all
qed

end


section \<open>A pending enrolment\<close>

lemma valid_utf8_ascii: "list_all (\<lambda>c. of_char c < (128 :: nat)) s \<Longrightarrow> valid_utf8 (as_bytes s)"
  by (induction s) (auto simp: as_bytes_def utf8_between_def unat_of_char)

lemma from_utf8_ascii: "list_all (\<lambda>c. of_char c < (128 :: nat)) s \<Longrightarrow> from_utf8 (as_bytes s) = Some s"
  by (simp add: from_utf8_def valid_utf8_ascii)

text \<open>The libraries of the service as a whole.\<close>

text \<open>A wire text that is the seal of a plaintext under the service's current key: a nonce, the tag and the ciphertext.\<close>

definition sealed :: "('r, 'w) MfaService \<Rightarrow> string \<Rightarrow> u8 list \<Rightarrow> bool" where
  "sealed S wire plain \<longleftrightarrow> (\<exists>nonce box. length nonce = NONCE_LEN \<and>
     ae_seal (ml_aead (ms_libs S)) (ms_encryption_key S) nonce plain = Some box \<and>
     wire = ae_base64_encode (ml_aead (ms_libs S)) nonce @ '':'' @
       ae_base64_encode (ml_aead (ms_libs S)) (drop (length box - TAG_LEN) box) @ '':'' @
       ae_base64_encode (ml_aead (ms_libs S)) (take (length box - TAG_LEN) box))"

locale mfa_service = totp_service "ml_totp (ms_libs S)" + aead_service "ml_aead (ms_libs S)" +
    setup_json: value_round_trip "ml_setup (ms_libs S)" + codes_json: value_round_trip "ml_codes (ms_libs S)"
  for S :: "('r, 'w) MfaService"
begin

lemma decrypt_encrypted:
  assumes "mfa_encrypt S plain s = (Inr wire, t)"
  shows "decrypt_with_rotation S wire = Some (plain, False)"
  using assms decrypt_encrypt [of plain "ms_encryption_key S" "es_host s" wire]
  by (auto simp: mfa_encrypt_def flow_inv decrypt_with_rotation_def)

lemma encrypted_sealed:
  assumes "mfa_encrypt S plain s = (Inr wire, t)"
  shows "sealed S wire plain"
  unfolding sealed_def
  by (rule exI [where x = "map (entropy (es_host s)) [0..<NONCE_LEN]"])
    (use assms in \<open>auto simp: mfa_encrypt_def aead_encrypt_def random_bytes_def Let_def flow_inv split: option.splits\<close>)

lemma decrypt_secret_encrypted:
  assumes "mfa_encrypt S (as_bytes (encode_secret_base32 (ml_totp (ms_libs S)) secret)) s = (Inr wire, t)"
  shows "decrypt_secret S wire = Some secret"
proof -
  have "(of_char c :: nat) < 128" if "c \<in> set base32_alphabet" for c using that by (auto simp: base32_alphabet_def)
  then have "list_all (\<lambda>c. of_char c < (128 :: nat)) (encode_secret_base32 (ml_totp (ms_libs S)) secret)"
    using base32_letters [of secret] by (auto simp: list_all_iff encode_secret_base32_def)
  from from_utf8_ascii [OF this] decrypt_encrypted [OF assms] show ?thesis
    by (simp add: decrypt_secret_def decrypt_secret_with_rotation_def secret_text_round_trip)
qed

lemma material_sealed:
  assumes "generate_setup_material S s = (Inr (secret, codes, d), t)"
  shows "sealed S (msd_encrypted_secret d) (as_bytes (encode_secret_base32 (ml_totp (ms_libs S)) secret)) \<and>
    (\<exists>plain. enc_val (ml_codes (ms_libs S)) codes = Some plain \<and> sealed S (msd_encrypted_plain_codes d) (as_bytes plain)) \<and>
    msd_hashed_codes d = map (hash_recovery_code S) codes"
proof -
  from assms obtain plain s1 s2 s3 where plain: "enc_val (ml_codes (ms_libs S)) codes = Some plain"
    and "mfa_encrypt S (as_bytes (encode_secret_base32 (ml_totp (ms_libs S)) secret)) s1 = (Inr (msd_encrypted_secret d), s2)"
    and "mfa_encrypt S (as_bytes plain) s2 = (Inr (msd_encrypted_plain_codes d), s3)"
    and "msd_hashed_codes d = map (hash_recovery_code S) codes"
    by (auto simp: generate_setup_material_def Let_def flow_inv)
  with encrypted_sealed show ?thesis by blast
qed

lemma enrolment_reads_back:
  assumes "generate_setup_material S s = (Inr (secret, codes, d), t)" and "enc_val (ml_setup (ms_libs S)) d = Some json"
  shows "setup_result_from_record S email json = Inr (build_setup_result S email secret codes)"
proof -
  from assms(1) obtain plain s1 s2 s3 where plain: "enc_val (ml_codes (ms_libs S)) codes = Some plain"
    and "mfa_encrypt S (as_bytes (encode_secret_base32 (ml_totp (ms_libs S)) secret)) s1 = (Inr (msd_encrypted_secret d), s2)"
    and "mfa_encrypt S (as_bytes plain) s2 = (Inr (msd_encrypted_plain_codes d), s3)"
    by (auto simp: generate_setup_material_def Let_def flow_inv)
  from decrypt_secret_encrypted [OF this(2)] decrypt_encrypted [OF this(3)] codes_json.dec_enc [OF plain]
    setup_json.dec_enc [OF assms(2)]
  show ?thesis by (simp add: setup_result_from_record_def mfa_decrypt_def)
qed

end

text \<open>The key an enrolment waits under, and what reaches it.\<close>

definition pending_key :: "('r, 'w) MfaService \<Rightarrow> MfaContext \<Rightarrow> string option \<Rightarrow> string \<Rightarrow> string" where
  "pending_key S ctx tenant user = key (rs_namespace (ms_mfa_store S)) MfaSetup (setup_key S ctx tenant user)"

definition starts ::
    "('r, 'w) MfaService \<Rightarrow> MfaContext \<Rightarrow> string option \<Rightarrow> string \<Rightarrow> string \<Rightarrow> ('r, 'w) engine_state \<Rightarrow> MfaSetupResult \<Rightarrow>
      ('r, 'w) engine_state \<Rightarrow> bool" where
  "starts S ctx tenant user email s r t \<longleftrightarrow> (\<exists>secret codes d json s2 first c2.
     generate_setup_material S s = (Inr (secret, codes, d), s2) \<and> enc_val (ml_setup (ms_libs S)) d = Some json \<and>
     put_setup_nx (ms_mfa_store S) (setup_key S ctx tenant user) json MFA_SETUP_TTL_SECONDS (store_client (es_host s2)) = (Inr first, c2) \<and>
     (first \<longrightarrow> r = build_setup_result S email secret codes \<and> store_client (es_host t) = c2))"

locale enrolment = one_store S view + mfa_service S for S :: "('r, 'w) MfaService" and view :: "'r \<Rightarrow> rview"
begin

lemma reauthenticated_leaves:
  assumes "assert_reauthenticated S ctx tenant user hsh password s = (Inr u, t)"
  shows "store_view view (es_host t) (pending_key S ctx tenant user) = store_view view (es_host s) (pending_key S ctx tenant user)"
proof -
  let ?k = "pending_key S ctx tenant user" and ?Q = "\<lambda>r. view r (pending_key S ctx tenant user) = store_view view (es_host s) (pending_key S ctx tenant user)"
  have reset: "preserves (\<lambda>h. ?Q (server (store_client h))) (throttle_reset (ms_brute_force S) i)"
    and locked: "preserves (\<lambda>h. ?Q (server (store_client h))) (throttle_is_locked (ms_brute_force S) i)"
    and recent: "preserves (\<lambda>c. ?Q (server c)) (has_recent_auth (ms_session_store S) m)" for i m
    unfolding throttle_reset_def throttle_is_locked_def reset_failures_def reset_inner_def is_locked_def is_locked_inner_def
      has_recent_auth_def has_recent_auth_inner_def throttle_store
    by (intro preserve preserves_on_store [where Q = ?Q] preserves_query [where Q = ?Q];
        simp add: del effect_elsewhere pending_key_def mfa_store)+
  show ?thesis
  proof (cases hsh)
    case None
    with assms obtain c where "has_recent_auth (ms_session_store S) (user_subject_hash (mfa_jws S) (ms_identifier_key S) ctx tenant user)
        (store_client (es_host s)) = (Inr True, c)" "store_client (es_host t) = c"
      by (auto simp: assert_reauthenticated_def Let_def flow_inv)
    with preservesD [OF recent] show ?thesis by blast
  next
    case (Some stored)
    let ?id = "reauth_bf_id S ctx tenant user"
    from assms Some obtain h1 h3 where h1: "throttle_is_locked (ms_brute_force S) ?id (es_host s) = (Inr False, h1)"
      and h3: "throttle_reset (ms_brute_force S) ?id h1 = (Inr u, h3)" and t: "es_host t = h3"
      by (auto simp: assert_reauthenticated_def Let_def flow_inv split: if_splits)
    from preservesD [OF locked _ h1] preservesD [OF reset _ h3] t show ?thesis by simp
  qed
qed

lemma get_setup_answer:
  assumes "get_setup (ms_mfa_store S) (setup_key S ctx tenant user) c = (Inr pending, c')"
    and "str_or_absent (view (server c)) (pending_key S ctx tenant user)"
  shows "pending = str_at (view (server c)) (pending_key S ctx tenant user)" and "server c' = server c"
proof -
  from assms(1) have "rbind connection (\<lambda>_. query (\<lambda>r. (r_get (rs_redis (ms_session_store S)) (pending_key S ctx tenant user) r, r))) c = (Inr pending, c')"
    by (simp add: get_setup_def get_setup_inner_def map_err_eq_Inr pending_key_def mfa_store)
  from round_trip(2) [OF this HOL.refl] get [OF assms(2)]
  show "pending = str_at (view (server c)) (pending_key S ctx tenant user)" and "server c' = server c" by simp_all
qed

lemma put_setup_won:
  assumes "put_setup_nx (ms_mfa_store S) (setup_key S ctx tenant user) json MFA_SETUP_TTL_SECONDS c = (Inr first, c')"
    and "view (server c) (pending_key S ctx tenant user) = None"
  shows "first" and "view (server c') (pending_key S ctx tenant user) = Some (RStr json, Some MFA_SETUP_TTL_SECONDS)"
proof -
  have ttl: "ttl_ok MFA_SETUP_TTL_SECONDS" by (simp add: ttl_ok_def MFA_SETUP_TTL_SECONDS_def)
  from assms(1) have "rbind connection (\<lambda>_. query (r_set_nx_ex (rs_redis (ms_session_store S)) (pending_key S ctx tenant user) json
      MFA_SETUP_TTL_SECONDS)) c = (Inr first, c')"
    by (simp add: put_setup_nx_def put_setup_nx_inner_def map_err_eq_Inr pending_key_def mfa_store)
  from round_trip(2) [OF this HOL.refl] assms(2)
  show "first" and "view (server c') (pending_key S ctx tenant user) = Some (RStr json, Some MFA_SETUP_TTL_SECONDS)"
    by (simp_all add: set_nx_ex [OF ttl] set_nx_ex_won [OF ttl] v_set_ex_def)
qed

lemma codes_leave: "preserves (\<lambda>h. Q (server (store_client h))) (generate_recovery_codes n)"
proof (induction n)
  case (Suc n)
  then show ?case unfolding generate_recovery_codes.simps generate_recovery_code_def by (intro preserve)
qed (simp add: preserves_def)

lemma material_leaves: "preserves (\<lambda>s. Q (server (store_client (es_host s)))) (generate_setup_material S)"
proof -
  have enc: "preserves (\<lambda>h. Q (server (store_client h))) (aead_encrypt L plain k)" for L plain k
    unfolding aead_encrypt_def by (intro preserve)
  show ?thesis
    unfolding generate_setup_material_def mfa_encrypt_def
    by (intro preserve preserves_on_host [where Q = Q] codes_leave [where Q = Q] enc preserves_random [where Q = Q])
qed

lemma if_ret_Inr:
  "(if b then ret x else m) s = (Inr r, t) \<longleftrightarrow> (b \<longrightarrow> r = x \<and> t = s) \<and> (\<not> b \<longrightarrow> m s = (Inr r, t))"
  by auto

lemma setup_steps:
  assumes "mfa_setup S user ctx tenant password s = (Inr r, t)"
  obtains s1 pending c email where
    "store_view view (es_host s1) (pending_key S ctx tenant user) = store_view view (es_host s) (pending_key S ctx tenant user)"
    "get_setup (ms_mfa_store S) (setup_key S ctx tenant user) (store_client (es_host s1)) = (Inr pending, c)"
    "\<forall>json. pending = Some json \<longrightarrow> setup_result_from_record S email json = Inr r"
    "pending = None \<longrightarrow> starts S ctx tenant user email (s1\<lparr>es_host := (es_host s1)\<lparr>store_client := c\<rparr>\<rparr>) r t"
proof -
  from assms obtain v s0 s1 pending c where fetch: "fetch_user_mfa S user ctx tenant s = (Inr v, s0)"
    and re: "assert_reauthenticated S ctx tenant user (mu_password_hash v) password s0 = (Inr (), s1)"
    and got: "get_setup (ms_mfa_store S) (setup_key S ctx tenant user) (store_client (es_host s1)) = (Inr pending, c)"
    and rest: "(case pending of
             Some existing \<Rightarrow> lift_result (setup_result_from_record S (mu_email v) existing)
           | None \<Rightarrow>
               rbind (generate_setup_material S) (\<lambda>(raw_secret, plain_codes, d).
               case enc_val (ml_setup (ms_libs S)) d of
                 None \<Rightarrow> raise (internal_error ''mfa setup encode'')
               | Some json \<Rightarrow>
                   rbind (on_host (on_store (put_setup_nx (ms_mfa_store S) (setup_key S ctx tenant user) json MFA_SETUP_TTL_SECONDS))) (\<lambda>won_race.
                     if won_race then ret (build_setup_result S (mu_email v) raw_secret plain_codes)
                     else
                       rbind (on_host (on_store (get_setup (ms_mfa_store S) (setup_key S ctx tenant user)))) (\<lambda>winner.
                         case winner of
                           None \<Rightarrow> raise (internal_error ''mfa setup record vanished after NX race'')
                         | Some existing \<Rightarrow> lift_result (setup_result_from_record S (mu_email v) existing)))))
        (s1\<lparr>es_host := (es_host s1)\<lparr>store_client := c\<rparr>\<rparr>) = (Inr r, t)"
    by (auto simp: mfa_setup_def Let_def flow_inv split: if_splits)
  show thesis
  proof (rule that [OF _ got])
    show "store_view view (es_host s1) (pending_key S ctx tenant user) = store_view view (es_host s) (pending_key S ctx tenant user)"
      using reauthenticated_leaves [OF re] preservesD [OF preserves_account(1) [where Q = "\<lambda>r. view r (pending_key S ctx tenant user) =
        store_view view (es_host s) (pending_key S ctx tenant user)"] _ fetch] by simp
    show "\<forall>json. pending = Some json \<longrightarrow> setup_result_from_record S (mu_email v) json = Inr r" using rest by auto
    show "pending = None \<longrightarrow> starts S ctx tenant user (mu_email v) (s1\<lparr>es_host := (es_host s1)\<lparr>store_client := c\<rparr>\<rparr>) r t"
    proof
      assume "pending = None"
      with rest obtain secret codes d s2 json first c2 where
        "generate_setup_material S (s1\<lparr>es_host := (es_host s1)\<lparr>store_client := c\<rparr>\<rparr>) = (Inr (secret, codes, d), s2)"
        "enc_val (ml_setup (ms_libs S)) d = Some json"
        "put_setup_nx (ms_mfa_store S) (setup_key S ctx tenant user) json MFA_SETUP_TTL_SECONDS (store_client (es_host s2)) = (Inr first, c2)"
        "first \<longrightarrow> r = build_setup_result S (mu_email v) secret codes \<and> t = s2\<lparr>es_host := (es_host s2)\<lparr>store_client := c2\<rparr>\<rparr>"
        by (clarsimp simp: flow_inv if_ret_Inr)
      then show "starts S ctx tenant user (mu_email v) (s1\<lparr>es_host := (es_host s1)\<lparr>store_client := c\<rparr>\<rparr>) r t"
        unfolding starts_def by (intro exI conjI; assumption?) auto
    qed
  qed
qed

lemma setup_first:
  assumes "mfa_setup S user ctx tenant password s = (Inr r, t)"
    and "store_view view (es_host s) (pending_key S ctx tenant user) = None"
  shows "\<exists>email secret codes json. r = build_setup_result S email secret codes \<and>
    store_view view (es_host t) (pending_key S ctx tenant user) = Some (RStr json, Some MFA_SETUP_TTL_SECONDS) \<and>
    (\<forall>email'. setup_result_from_record S email' json = Inr (build_setup_result S email' secret codes)) \<and>
    (\<exists>d plain. dec_val (ml_setup (ms_libs S)) json = Some d \<and> dec_val (ml_codes (ms_libs S)) plain = Some codes \<and>
      sealed S (msd_encrypted_secret d) (as_bytes (encode_secret_base32 (ml_totp (ms_libs S)) secret)) \<and>
      sealed S (msd_encrypted_plain_codes d) (as_bytes plain) \<and> msd_hashed_codes d = map (hash_recovery_code S) codes)"
proof -
  let ?k = "pending_key S ctx tenant user"
  from assms(1) obtain s1 pending c email where s1: "store_view view (es_host s1) ?k = store_view view (es_host s) ?k"
    and got: "get_setup (ms_mfa_store S) (setup_key S ctx tenant user) (store_client (es_host s1)) = (Inr pending, c)"
    and "\<forall>json. pending = Some json \<longrightarrow> setup_result_from_record S email json = Inr r"
    and rest: "pending = None \<longrightarrow> starts S ctx tenant user email (s1\<lparr>es_host := (es_host s1)\<lparr>store_client := c\<rparr>\<rparr>) r t"
    by (rule setup_steps) metis
  have "pending = None" and c: "server c = server (store_client (es_host s1))"
    using get_setup_answer [OF got] s1 assms(2) by (simp_all add: str_or_absent_def str_at_def)
  from rest this(1) obtain secret codes d json s2 first c2 where
    gen: "generate_setup_material S (s1\<lparr>es_host := (es_host s1)\<lparr>store_client := c\<rparr>\<rparr>) = (Inr (secret, codes, d), s2)"
    and json: "enc_val (ml_setup (ms_libs S)) d = Some json"
    and put: "put_setup_nx (ms_mfa_store S) (setup_key S ctx tenant user) json MFA_SETUP_TTL_SECONDS (store_client (es_host s2)) = (Inr first, c2)"
    and result: "first \<longrightarrow> r = build_setup_result S email secret codes \<and> store_client (es_host t) = c2"
    unfolding starts_def by blast
  have "store_view view (es_host s2) ?k = None"
    using preservesD [OF material_leaves [where Q = "\<lambda>r. view r ?k = None"] _ gen] c s1 assms(2) by simp
  note put_setup_won [OF put this]
  with result enrolment_reads_back [OF gen json] material_sealed [OF gen] setup_json.dec_enc [OF json] codes_json.dec_enc
  show ?thesis by blast
qed

lemma setup_again:
  assumes "mfa_setup S user ctx tenant password s = (Inr r, t)"
    and "store_view view (es_host s) (pending_key S ctx tenant user) = Some (RStr json, ttl)"
  shows "\<exists>email. setup_result_from_record S email json = Inr r"
proof -
  let ?k = "pending_key S ctx tenant user"
  from assms(1) obtain s1 pending c email where s1: "store_view view (es_host s1) ?k = store_view view (es_host s) ?k"
    and got: "get_setup (ms_mfa_store S) (setup_key S ctx tenant user) (store_client (es_host s1)) = (Inr pending, c)"
    and rest: "\<forall>json. pending = Some json \<longrightarrow> setup_result_from_record S email json = Inr r"
    and "pending = None \<longrightarrow> starts S ctx tenant user email (s1\<lparr>es_host := (es_host s1)\<lparr>store_client := c\<rparr>\<rparr>) r t"
    by (rule setup_steps) metis
  have "pending = Some json"
    using get_setup_answer(1) [OF got] s1 assms(2) by (simp add: str_or_absent_def str_at_def)
  with rest show ?thesis by blast
qed

end

end
