(* ===== verification/Sample_Mfa.thy ===== *)
theory Sample_Mfa
  imports Mfa_Rules
begin

text \<open>
  The MFA service the builder assembles for the sample deployment, and runs of its operations on a
  working network: an enrolment, a challenge, and a removal of the factor.
\<close>

section \<open>The service\<close>

definition sample_mfa_config :: "unit AuthConfig" where
  "sample_mfa_config = sample_config
     \<lparr>ac_mfa := Some \<lparr>mf_encryption_key = ''0123456789abcdef0123456789abcdef'', mf_previous_encryption_keys = [],
        mf_issuer = ''acme'', mf_recovery_code_count = 2, mf_totp_window = 1\<rparr>\<rparr>"

definition sample_mfa :: "unit UserRepository \<Rightarrow> (mem, unit) MfaService" where
  "sample_mfa U = \<lparr>ms_libs = sample_mfa_libs, ms_mfa_store = mem_stores, ms_user_repo = U, ms_platform_repo = None,
     ms_tokens = en_tokens sample_engine, ms_sessions = en_sessions sample_engine, ms_session_store = mem_stores,
     ms_brute_force = en_brute_force sample_engine, ms_passwords = sample_passwords,
     ms_encryption_key = as_bytes ''0123456789abcdef0123456789abcdef'', ms_previous_encryption_keys = [],
     ms_identifier_key = rc_hmac_key (en_config sample_engine), ms_previous_identifier_keys = [], ms_issuer = ''acme'',
     ms_totp_window = 1, ms_recovery_code_count = 2, ms_sessions_enabled = False,
     ms_blocked_statuses = [''BANNED'', ''INACTIVE'', ''SUSPENDED'']\<rparr>"

lemma sample_mfa_built:
  "build_mfa_service sample_libs (new_resolved_config sample_config_libs sample_mfa_config Production True) (Some mem_stores) U None
     (en_tokens sample_engine) (en_sessions sample_engine) mem_stores (en_brute_force sample_engine) sample_passwords False =
   Some (sample_mfa U)"
proof -
  have key: "decode_aes256_key (el_config sample_libs) ''0123456789abcdef0123456789abcdef'' = Some (as_bytes ''0123456789abcdef0123456789abcdef'')"
    by (simp add: decode_aes256_key_def decode_base64_any_def sample_config_libs_def as_bytes_def)
  have same: "hmac_key sample_config_libs sample_mfa_config = rc_hmac_key (en_config sample_engine)"
    by (simp add: sample_mfa_config_def hmac_key_def sample_parts cong: option.case_cong)
  have none: "previous_hmac_keys sample_config_libs sample_mfa_config = []"
    by (simp add: sample_mfa_config_def previous_hmac_keys_def sample_config_def config_defaults)
  have statuses: "ac_blocked_statuses sample_mfa_config = [''BANNED'', ''INACTIVE'', ''SUSPENDED'']"
    by (simp add: sample_mfa_config_def)
  have mfa: "ac_mfa sample_mfa_config = Some \<lparr>mf_encryption_key = ''0123456789abcdef0123456789abcdef'', mf_previous_encryption_keys = [],
        mf_issuer = ''acme'', mf_recovery_code_count = 2, mf_totp_window = 1\<rparr>"
    by (simp add: sample_mfa_config_def)
  show ?thesis
    by (simp add: build_mfa_service_def mfa_encryption_key_def previous_mfa_encryption_keys_def new_resolved_config_def
        sample_mfa_def mfa key same none statuses List.map_filter_def del: sample_libs_sel sample_engine_sel)
       (simp add: key)
qed

lemma sample_mfa_sel [simp]:
  "ms_libs (sample_mfa U) = sample_mfa_libs" "ms_mfa_store (sample_mfa U) = mem_stores" "ms_user_repo (sample_mfa U) = U"
  "ms_tokens (sample_mfa U) = en_tokens sample_engine" "ms_session_store (sample_mfa U) = mem_stores"
  "ms_brute_force (sample_mfa U) = en_brute_force sample_engine" "ms_passwords (sample_mfa U) = sample_passwords"
  "ms_totp_window (sample_mfa U) = 1" "ms_recovery_code_count (sample_mfa U) = 2" "\<not> ms_sessions_enabled (sample_mfa U)"
  "ms_blocked_statuses (sample_mfa U) = [''BANNED'', ''INACTIVE'', ''SUSPENDED'']"
  by (simp_all add: sample_mfa_def)

lemma sample_mfa_libs_sel [simp]:
  "ml_totp sample_mfa_libs = sample_totp" "ml_aead sample_mfa_libs = sample_aead" "ml_setup sample_mfa_libs = setup_codec"
  "ml_codes sample_mfa_libs = codes_codec"
  by (simp_all add: sample_mfa_libs_def)

interpretation sample_enrolment: enrolment "sample_mfa U" mem_view
proof (intro enrolment.intro one_store.intro mfa_service.intro)
  show "store_service (ms_session_store (sample_mfa U)) mem_view" using mem_store.store_service_axioms by simp
  show "one_store_axioms (sample_mfa U)" by (simp add: one_store_axioms_def)
qed (simp_all add: sample_codes.totp_service_axioms sample_cipher.aead_service_axioms setup_values.value_round_trip_axioms
  code_values.value_round_trip_axioms)

text \<open>The keyed identifiers of the service pass the guard of the throttle.\<close>

lemma sample_keyed: "validate_identifier (mfa_keyed (sample_mfa U) input) = Inr ()"
proof -
  have "mfa_keyed (sample_mfa U) input = keyed_hex sample_engine input"
    by (simp add: mfa_keyed_def keyed_hex_def sample_mfa_def)
  then show ?thesis using keyed_identifier [of sample_engine input] by simp
qed

section \<open>Steps on a working network\<close>

text \<open>A state with a working network in which no failure is counted.\<close>

definition quiet_store :: "(mem, unit) engine_state \<Rightarrow> bool" where
  "quiet_store s \<longleftrightarrow> net (store_client (es_host s)) = [] \<and> (\<forall>i. store_view mem_view (es_host s) (key ''auth'' Lf i) = None)"

lemma quiet_start: "quiet_store sample_start"
  by (simp add: quiet_store_def sample_quiet)

lemma quiet_unlocked:
  assumes "quiet_store s" and "validate_identifier i = Inr ()"
  shows "throttle_is_locked (en_brute_force sample_engine) i (es_host s) = (Inr False, es_host s)"
proof -
  have "counter_shows mem_view (en_brute_force sample_engine) i None (es_host s)"
    using assms(1) by (simp add: counter_shows_def shows_window_def quiet_store_def)
  from sample_lockout.is_locked_run [OF this assms(2)] show ?thesis by (simp add: window_size_def)
qed

lemma quiet_reset:
  assumes "quiet_store s" and "validate_identifier i = Inr ()"
  obtains c where "throttle_reset (en_brute_force sample_engine) i (es_host s) = (Inr (), (es_host s)\<lparr>store_client := c\<rparr>)"
    "net c = []" "mem_view (server c) = store_view mem_view (es_host s)"
proof -
  from sample_lockout.reset_run [of "es_host s" i] assms obtain c where
    "throttle_reset (en_brute_force sample_engine) i (es_host s) = (Inr (), (es_host s)\<lparr>store_client := c\<rparr>)" "net c = []"
    "mem_view (server c) = v_del (key ''auth'' Lf i) (store_view mem_view (es_host s))" by (auto simp: quiet_store_def)
  moreover from assms(1) have "v_del (key ''auth'' Lf i) (store_view mem_view (es_host s)) = store_view mem_view (es_host s)"
    by (auto simp: quiet_store_def v_del_def)
  ultimately show thesis using that by simp
qed

lemma sample_status: "assert_not_blocked ''ACTIVE'' [''BANNED'', ''INACTIVE'', ''SUSPENDED''] = Inr ()"
  by code_simp

lemma sample_plane: "plane_tenant_is_well_formed MfaContext_Dashboard (Some ''t1'')"
  by (simp add: plane_tenant_is_well_formed_def)

section \<open>An enrolment\<close>

abbreviation enrolling :: "(mem, unit) MfaService" where
  "enrolling \<equiv> sample_mfa sample_directory"

abbreviation ann_pending :: string where
  "ann_pending \<equiv> pending_key enrolling MfaContext_Dashboard (Some ''t1'') ''u1''"

lemma sample_fetch: "fetch_user_mfa enrolling ''u1'' MfaContext_Dashboard (Some ''t1'') s = (Inr (view_of_user sample_account), s)"
  by (simp add: fetch_user_mfa_def mfa_repo_def rbind_def map_err_def on_app_def sample_directory_def sample_status unit_app)
     (simp add: sample_account_def sample_status)

lemma sample_reauthenticated:
  assumes "quiet_store s"
  obtains c where "assert_reauthenticated enrolling MfaContext_Dashboard (Some ''t1'') ''u1'' (au_password_hash sample_account)
      (Some sample_password) s = (Inr (), s\<lparr>es_host := (es_host s)\<lparr>store_client := c\<rparr>\<rparr>)"
    "net c = []" "mem_view (server c) = store_view mem_view (es_host s)"
proof -
  let ?id = "reauth_bf_id enrolling MfaContext_Dashboard (Some ''t1'') ''u1''"
  have ok: "validate_identifier ?id = Inr ()" unfolding reauth_bf_id_def by (rule sample_keyed)
  obtain phc where phc: "au_password_hash sample_account = Some phc" by (simp add: sample_account_def)
  from quiet_reset [OF assms ok] obtain c where
    c: "throttle_reset (en_brute_force sample_engine) ?id (es_host s) = (Inr (), (es_host s)\<lparr>store_client := c\<rparr>)"
    "net c = []" "mem_view (server c) = store_view mem_view (es_host s)" .
  have "mfa_assert_not_locked enrolling ?id s = (Inr (), s)"
    using quiet_unlocked [OF assms ok] by (simp add: mfa_assert_not_locked_def rbind_def on_host_def)
  moreover have "verify_outcome sample_passwords sample_password phc s =
      (Inr \<lparr>vo_matched = True, vo_needs_rehash = needs_rehash sample_kdf phc (ps_params sample_passwords)\<rparr>, s)"
    using sample_outcome [of s] phc by (simp add: the_default_def)
  ultimately have "assert_reauthenticated enrolling MfaContext_Dashboard (Some ''t1'') ''u1'' (Some phc) (Some sample_password) s =
      (Inr (), s\<lparr>es_host := (es_host s)\<lparr>store_client := c\<rparr>\<rparr>)"
    using c(1) by (simp add: assert_reauthenticated_def Let_def rbind_def on_host_def the_default_def)
  with phc c(2,3) show thesis using that by simp
qed

lemma sample_encrypt:
  obtains wire t where "mfa_encrypt (sample_mfa U) plain s = (Inr wire, t)" "store_client (es_host t) = store_client (es_host s)"
    "es_app t = es_app s"
  by (auto simp: mfa_encrypt_def map_err_def on_host_def aead_encrypt_def rbind_def random_bytes_def sample_aead_def Let_def)

lemma sample_codes_run: "\<exists>codes h'. generate_recovery_codes n h = (Inr codes, h') \<and> store_client h' = store_client h"
proof (induction n arbitrary: h)
  case (Suc n)
  from Suc [of "h\<lparr>entropy := (\<lambda>i. entropy h (RECOVERY_CODE_BYTES + i))\<rparr>"] show ?case
    by (auto simp: generate_recovery_code_def rbind_def random_bytes_def)
qed simp

lemma sample_material:
  obtains x t where "generate_setup_material (sample_mfa U) s = (Inr x, t)" "store_client (es_host t) = store_client (es_host s)"
    "es_app t = es_app s"
proof -
  let ?S = "sample_mfa U"
  obtain secret h1 where h1: "(random_bytes TOTP_SECRET_BYTES :: (mem, u8 list) engine_io) (es_host s) = (Inr secret, h1)" "store_client h1 = store_client (es_host s)"
    by (simp add: random_bytes_def)
  obtain codes h2 where h2: "(generate_recovery_codes 2 :: (mem, string list) engine_io) h1 = (Inr codes, h2)" "store_client h2 = store_client h1"
    using sample_codes_run by blast
  obtain plain where plain: "enc_val codes_codec codes = Some plain" by (simp add: codes_codec_def)
  obtain wire t1 where t1: "mfa_encrypt ?S (as_bytes (encode_secret_base32 sample_totp secret)) (s\<lparr>es_host := h2\<rparr>) = (Inr wire, t1)"
    "store_client (es_host t1) = store_client h2" "es_app t1 = es_app s"
    by (rule sample_encrypt [of U _ "s\<lparr>es_host := h2\<rparr>"]) auto
  obtain wire' t2 where t2: "mfa_encrypt ?S (as_bytes plain) t1 = (Inr wire', t2)" "store_client (es_host t2) = store_client (es_host t1)"
    "es_app t2 = es_app t1" by (rule sample_encrypt)
  show thesis
    by (rule that [of "(secret, codes, \<lparr>msd_encrypted_secret = wire, msd_hashed_codes = map (hash_recovery_code ?S) codes,
          msd_encrypted_plain_codes = wire'\<rparr>)" t2])
      (use h1 h2 plain t1 t2 in \<open>simp_all add: generate_setup_material_def Let_def rbind_def on_host_def\<close>)
qed

lemma sample_setup:
  assumes "quiet_store s" and "store_view mem_view (es_host s) ann_pending = None \<or>
    (\<exists>json ttl. store_view mem_view (es_host s) ann_pending = Some (RStr json, ttl) \<and>
       (\<forall>email. \<exists>r. setup_result_from_record enrolling email json = Inr r))"
  shows "\<exists>r t. mfa_setup enrolling ''u1'' MfaContext_Dashboard (Some ''t1'') (Some sample_password) s = (Inr r, t) \<and> quiet_store t"
proof -
  let ?v = "view_of_user sample_account" and ?id = "setup_key enrolling MfaContext_Dashboard (Some ''t1'') ''u1''"
  from sample_reauthenticated [OF assms(1)] obtain c where
    re: "assert_reauthenticated enrolling MfaContext_Dashboard (Some ''t1'') ''u1'' (au_password_hash sample_account)
      (Some sample_password) s = (Inr (), s\<lparr>es_host := (es_host s)\<lparr>store_client := c\<rparr>\<rparr>)"
    and c: "net c = []" "mem_view (server c) = store_view mem_view (es_host s)" .
  let ?s = "s\<lparr>es_host := (es_host s)\<lparr>store_client := c\<rparr>\<rparr>"
  have off: "\<not> mu_mfa_enabled ?v" and hsh: "mu_password_hash ?v = au_password_hash sample_account"
    by (simp_all add: view_of_user_def sample_account_def)
  have got: "get_setup mem_stores ?id c = (Inr (str_at (mem_view (server c)) ann_pending), c)"
    using c(1) by (simp add: get_setup_def get_setup_inner_def run_simps pending_key_def mem_redis_def m_str_def str_at_def mem_view_def
        split: option.split mvalue.split prod.split)
  note run = mfa_setup_def Let_def rbind_def on_host_def on_store_def require_plane_tenant_def sample_plane sample_fetch off hsh re
  show ?thesis
  proof (cases "store_view mem_view (es_host s) ann_pending = None")
    case True
    then have none: "get_setup mem_stores ?id c = (Inr None, c)" using got c by (simp add: str_at_def)
    obtain secret codes d t1 where gen: "generate_setup_material enrolling ?s = (Inr (secret, codes, d), t1)"
      and t1: "store_client (es_host t1) = c"
      by (rule sample_material [of sample_directory ?s]) (auto split: prod.splits)
    obtain json where json: "enc_val setup_codec d = Some json" by (simp add: setup_codec_def codes_codec_def)
    have "server c ann_pending = None" using True c(2) by (metis mem_view_def option.map_disc_iff)
    then have put: "put_setup_nx mem_stores ?id json MFA_SETUP_TTL_SECONDS c =
        (Inr True, c\<lparr>server := (server c)(ann_pending \<mapsto> (MStr json, Some MFA_SETUP_TTL_SECONDS))\<rparr>)"
      using c(1) by (simp add: put_setup_nx_def put_setup_nx_inner_def run_simps pending_key_def mem_redis_def)
    have "fst (mfa_setup enrolling ''u1'' MfaContext_Dashboard (Some ''t1'') (Some sample_password) s) =
        Inr (build_setup_result enrolling (mu_email ?v) secret codes)"
      and "quiet_store (snd (mfa_setup enrolling ''u1'' MfaContext_Dashboard (Some ''t1'') (Some sample_password) s))"
      using none gen t1 json put c assms(1)
      by (auto simp: run quiet_store_def mem_view_def pending_key_def)
    then show ?thesis by (metis prod.collapse)
  next
    case False
    with assms(2) obtain json ttl r where json: "store_view mem_view (es_host s) ann_pending = Some (RStr json, ttl)"
      and r: "setup_result_from_record enrolling (mu_email ?v) json = Inr r" by blast
    then have "get_setup mem_stores ?id c = (Inr (Some json), c)" using got c by (simp add: str_at_def)
    with r c assms(1) show ?thesis by (simp add: run quiet_store_def)
  qed
qed

section \<open>An enrolled account\<close>

definition sample_secret :: "u8 list" where
  "sample_secret = map of_nat [1..<21]"

definition sample_wire :: string where
  "sample_wire = to_hex (replicate NONCE_LEN 0) @ '':'' @
     to_hex (sample_tag (as_bytes ''0123456789abcdef0123456789abcdef'') (replicate NONCE_LEN 0) (as_bytes (encode_secret_base32 sample_totp sample_secret))) @
     '':'' @ to_hex (as_bytes (encode_secret_base32 sample_totp sample_secret))"

definition guarded_account :: AuthUser where
  "guarded_account = sample_account\<lparr>au_mfa_enabled := True, au_mfa_secret := Some sample_wire, au_mfa_recovery_codes := Some []\<rparr>"

definition guarded_directory :: "unit UserRepository" where
  "guarded_directory = sample_directory\<lparr>ur_find_by_id := (\<lambda>i _. ret (if i = ''u1'' then Some guarded_account else None))\<rparr>"

abbreviation guarded :: "(mem, unit) MfaService" where
  "guarded \<equiv> sample_mfa guarded_directory"

lemma guarded_account_sel [simp]:
  "au_id guarded_account = ''u1''" "au_tenant_id guarded_account = ''t1''" "au_status guarded_account = ''ACTIVE''"
  "au_mfa_enabled guarded_account" "au_mfa_secret guarded_account = Some sample_wire"
  by (simp_all add: guarded_account_def sample_account_def)

lemma sample_decrypts: "decrypt_secret_with_rotation guarded sample_wire = Some (sample_secret, False)"
proof -
  let ?txt = "encode_secret_base32 sample_totp sample_secret"
  have "aead_decrypt sample_aead sample_wire (as_bytes ''0123456789abcdef0123456789abcdef'') = Inr (as_bytes ?txt)"
    by (simp add: aead_decrypt_def sample_wire_def sample_aead_def split_on_sep split_on_no_sep of_hex_to_hex Let_def)
  moreover have "from_utf8 (as_bytes ?txt) = Some ?txt"
  proof (rule from_utf8_ascii)
    have "(of_char c :: nat) < 128" if "c \<in> set base32_alphabet" for c using that by (auto simp: base32_alphabet_def)
    then show "list_all (\<lambda>c. of_char c < (128 :: nat)) ?txt"
      using sample_codes.base32_letters [of sample_secret] by (auto simp: list_all_iff encode_secret_base32_def)
  qed
  ultimately show ?thesis
    by (simp add: decrypt_secret_with_rotation_def decrypt_with_rotation_def sample_codes.secret_text_round_trip)
       (simp add: sample_mfa_def sample_codes.secret_text_round_trip)
qed

text \<open>The code of the step of the moment.\<close>

definition sample_code :: string where
  "sample_code = code_of_step sample_totp sample_secret 33"

lemma show_nat_ascii: "list_all is_ascii_digit (show_nat n)"
proof (induction n rule: show_nat.induct)
  case (1 n)
  have digit: "is_ascii_digit (digit_char d)" if "d < 10" for d
    using that by (simp add: is_ascii_digit_def digit_char_def Let_def)
  show ?case
    using 1 digit [of n] digit [of "n mod 10"] by (cases "n < 10") (simp_all add: show_nat.simps [of n])
qed

lemma code_of_step_shape: "is_totp_code (code_of_step L secret step)"
proof -
  have "unat (hotp L secret (of_int step) TOTP_DIGITS) < 10 ^ 6" using hotp_bound [of TOTP_DIGITS L secret] by (simp add: TOTP_DIGITS_def)
  from length_pad_zero [OF this] have "length (code_of_step L secret step) = 6" by (simp add: code_of_step_def TOTP_DIGITS_def)
  moreover have "list_all is_ascii_digit (pad_zero w n)" for w n
    using show_nat_ascii [of n] by (auto simp: pad_zero_def Let_def list_all_iff is_ascii_digit_def)
  ultimately show ?thesis by (simp add: is_totp_code_def code_of_step_def)
qed

lemma sample_code_valid:
  assumes "clock h 0 = 1000 * 10 ^ 9 \<or> clock h 0 = 1001 * 10 ^ 9"
  shows "totp_verify sample_totp sample_secret sample_code (unix_seconds h) 1"
  unfolding totp_verify_iff [OF sample_codes.totp_service_axioms]
  by (rule exI [of _ 33]) (use assms in \<open>auto simp: admits_def sample_code_def unix_seconds_def unix_timestamp_def Let_def TOTP_STEP_SECS_def MAX_VERIFY_WINDOW_def\<close>)

lemma guarded_fetch:
  "fetch_user_mfa guarded ''u1'' MfaContext_Dashboard (Some ''t1'') s = (Inr (view_of_user guarded_account), s)"
  by (simp add: fetch_user_mfa_def mfa_repo_def rbind_def map_err_def on_app_def guarded_directory_def sample_status unit_app)

lemma guarded_persist:
  "persist_mfa guarded ''u1'' MfaContext_Dashboard (Some ''t1'') enabled secret codes s = (Inr (), s)"
proof -
  have "ur_update_mfa guarded_directory i tenant x = ret ()" for i tenant x
    by (simp add: guarded_directory_def sample_directory_def sample_users_def)
  then show ?thesis by (simp add: persist_mfa_def mfa_repo_def map_err_def on_app_def unit_app)
qed

section \<open>A removal\<close>

text \<open>Steps of the marker and the lock on the in-process server.\<close>

lemma mem_nx:
  assumes "net c = []" and "mem_view (server c) (key ''auth'' p i) = None"
  shows "\<exists>c'. map_err from_redis_error (set_nx_value mem_stores p i x t) c = (Inr True, c') \<and> net c' = [] \<and>
    mem_view (server c') = v_set_ex (key ''auth'' p i) x t (mem_view (server c))"
proof -
  have "server c (key ''auth'' p i) = None" using assms(2) by (simp add: mem_view_def)
  then show ?thesis
    using assms(1) by (simp add: set_nx_value_def run_simps mem_redis_def) (auto simp: mem_view_def v_set_ex_def fun_eq_iff)
qed

lemma guarded_transition:
  assumes "net (store_client (es_host s)) = []"
    and "store_view mem_view (es_host s) (key ''auth'' Mfalock (mfa_lock_id guarded MfaContext_Dashboard (Some ''t1'') ''u1'')) = None"
  shows "\<exists>t. transition_mfa_record guarded ''u1'' MfaContext_Dashboard (Some ''t1'') (\<lambda>_. Some (False, None, None)) s = (Inr True, t) \<and>
    net (store_client (es_host t)) = []"
proof -
  let ?id = "mfa_lock_id guarded MfaContext_Dashboard (Some ''t1'') ''u1''"
  obtain token s1 where token: "draw_token MFA_TRANSITION_LOCK_TOKEN_BYTES s = (Inr token, s1)" "store_client (es_host s1) = store_client (es_host s)"
    by (simp add: draw_token_def rbind_def on_host_def random_bytes_def)
  obtain c where c: "acquire_mfa_lock mem_stores ?id token MFA_TRANSITION_LOCK_TTL_SECONDS (store_client (es_host s1)) = (Inr True, c)" "net c = []"
    unfolding acquire_mfa_lock_def using mem_nx [of "store_client (es_host s1)" Mfalock ?id token MFA_TRANSITION_LOCK_TTL_SECONDS] assms token(2) by auto
  let ?s2 = "s1\<lparr>es_host := (es_host s1)\<lparr>store_client := c\<rparr>\<rparr>"
  have locked: "transition_locked guarded ''u1'' MfaContext_Dashboard (Some ''t1'') (\<lambda>_. Some (False, None, None)) ?s2 = (Inr True, ?s2)"
    by (simp add: transition_locked_def rbind_def guarded_fetch guarded_persist)
  obtain c' where "release_mfa_lock mem_stores ?id token c = (Inr (), c')" "net c' = []"
    using c(2) by (simp add: release_mfa_lock_def release_mfa_lock_inner_def run_simps split: prod.split)
  with token c locked show ?thesis
    by (simp add: transition_mfa_record_def Let_def rbind_def on_host_def on_store_def)
qed

lemma sample_first_use:
  "\<exists>t. verify_totp_with_anti_replay guarded MfaContext_Dashboard (Some ''t1'') ''u1'' sample_secret sample_code sample_start = (Inr True, t) \<and>
    quiet_store t \<and> (\<forall>i. store_view mem_view (es_host t) (key ''auth'' Mfalock i) = None)"
proof -
  let ?rid = "replay_id guarded MfaContext_Dashboard (Some ''t1'') ''u1'' sample_code"
  have code: "totp_verify sample_totp sample_secret sample_code (unix_seconds (es_host sample_start)) 1"
    by (rule sample_code_valid) (simp add: sample_start_def demo_host_def)
  obtain c where mark: "mark_totp_used mem_stores ?rid (anti_replay_ttl_seconds guarded) (store_client (es_host sample_start)) = (Inr True, c)"
    and c: "net c = []" "mem_view (server c) = v_set_ex (key ''auth'' Tu ?rid) ''1'' (anti_replay_ttl_seconds guarded) Map.empty"
    unfolding mark_totp_used_def mark_totp_used_inner_def set_nx_marker_def
    using mem_nx [of "store_client (es_host sample_start)" Tu ?rid "''1''" "anti_replay_ttl_seconds guarded"] sample_quiet by auto
  define s1 where "s1 = sample_start\<lparr>es_host := (es_host sample_start)\<lparr>clock := (\<lambda>i. clock (es_host sample_start) (Suc i)), store_client := c\<rparr>\<rparr>"
  have "verify_totp_with_anti_replay guarded MfaContext_Dashboard (Some ''t1'') ''u1'' sample_secret sample_code sample_start = (Inr True, s1)"
    using code mark by (simp add: verify_totp_with_anti_replay_def rbind_def on_host_def on_store_def s1_def
        current_unix_time_eq [THEN iffD2, OF conjI [OF HOL.refl HOL.refl]])
  then show ?thesis using c by (auto simp: quiet_store_def s1_def v_set_ex_def)
qed

lemma guarded_gate:
  "\<exists>t. reauth_gate guarded MfaContext_Dashboard (Some ''t1'') ''u1'' sample_code (view_of_user guarded_account) sample_start = (Inr (), t) \<and>
    net (store_client (es_host t)) = [] \<and> (\<forall>i. store_view mem_view (es_host t) (key ''auth'' Mfalock i) = None)"
proof -
  let ?id = "disable_bf_id guarded MfaContext_Dashboard (Some ''t1'') ''u1''"
  have ok: "validate_identifier ?id = Inr ()" unfolding disable_bf_id_def by (rule sample_keyed)
  have free: "mfa_assert_not_locked guarded ?id sample_start = (Inr (), sample_start)"
    using quiet_unlocked [OF quiet_start ok] by (simp add: mfa_assert_not_locked_def rbind_def on_host_def)
  have secret: "decrypt_secret guarded sample_wire = Some sample_secret" by (simp add: decrypt_secret_def sample_decrypts)
  from sample_first_use obtain s1 where totp: "verify_totp_with_anti_replay guarded MfaContext_Dashboard (Some ''t1'') ''u1''
      sample_secret sample_code sample_start = (Inr True, s1)" and s1: "quiet_store s1"
    and free_lock: "\<forall>i. store_view mem_view (es_host s1) (key ''auth'' Mfalock i) = None" by blast
  from quiet_reset [OF s1 ok] obtain c' where
    "throttle_reset (en_brute_force sample_engine) ?id (es_host s1) = (Inr (), (es_host s1)\<lparr>store_client := c'\<rparr>)" "net c' = []"
    "mem_view (server c') = store_view mem_view (es_host s1)" .
  with free secret totp free_lock show ?thesis
    by (simp add: reauth_gate_def Let_def rbind_def view_of_user_def on_host_def)
qed

lemma guarded_disable:
  "\<exists>t. mfa_disable guarded ''u1'' sample_code ''10.0.0.1'' ''ua'' MfaContext_Dashboard (Some ''t1'') sample_start = (Inr (), t)"
proof -
  from guarded_gate obtain s1 where gate: "reauth_gate guarded MfaContext_Dashboard (Some ''t1'') ''u1'' sample_code
      (view_of_user guarded_account) sample_start = (Inr (), s1)"
    and s1: "net (store_client (es_host s1)) = []" "\<forall>i. store_view mem_view (es_host s1) (key ''auth'' Mfalock i) = None" by blast
  from guarded_transition [OF s1(1) s1(2) [rule_format]] obtain s2 where
    s2: "transition_mfa_record guarded ''u1'' MfaContext_Dashboard (Some ''t1'') (\<lambda>_. Some (False, None, None)) s1 = (Inr True, s2)"
    "net (store_client (es_host s2)) = []" by blast
  have "\<exists>s3. revoke_everything guarded MfaContext_Dashboard (Some ''t1'') ''u1'' s2 = (Inr (), s3)"
    using s2(2) by (auto simp: revoke_everything_def Let_def rbind_def on_host_def on_store_def revoke_all_def revoke_all_inner_def
        bump_epoch_def bump_epoch_inner_def run_simps split: prod.splits)
  then obtain s3 where "revoke_everything guarded MfaContext_Dashboard (Some ''t1'') ''u1'' s2 = (Inr (), s3)" by blast
  with gate s2 show ?thesis
    by (simp add: mfa_disable_def rbind_def require_plane_tenant_def sample_plane guarded_fetch notify_disabled_def on_host_def spawn_guarded_def)
qed

section \<open>A challenge\<close>

definition sample_claims :: MfaTempClaims where
  "sample_claims = \<lparr>mc_sub = ''u1'', mc_jti = ''j1'', mc_token_type = MfaChallenge, mc_context = MfaContext_Dashboard,
     mc_tenant_id = Some ''t1'', mc_epoch = 0, mc_iat = 900, mc_exp = 1200, mc_iss = None, mc_aud = None\<rparr>"

abbreviation sample_manager :: "mem TokenManagerService" where
  "sample_manager \<equiv> en_tokens sample_engine"

definition sample_token :: string where
  "sample_token = projr (sign sample_jws mfa_json_codec (stamp_mfa sample_manager sample_claims) (tm_key sample_manager))"

definition sample_temp_key :: string where
  "sample_temp_key = key ''auth'' Mfa (jti_hash sample_manager ''j1'')"

definition challenged :: "(mem, unit) engine_state" where
  "challenged = \<lparr>es_host = demo_host 1000 [sample_temp_key \<mapsto> (MStr ''u1'', Some 300)], es_app = ()\<rparr>"

definition ticked :: "'r host \<Rightarrow> 'r host" where
  "ticked h = h\<lparr>clock := (\<lambda>i. clock h (Suc i))\<rparr>"

lemma challenged_view:
  "store_view mem_view (es_host challenged) k = (if k = sample_temp_key then Some (RStr ''u1'', Some 300) else None)"
  by (simp add: challenged_def demo_host_def mem_view_def)

lemma sample_token_verified:
  "verify_mfa_temp_token sample_manager sample_token (es_host challenged) =
     (Inr \<lparr>mv_user_id = ''u1'', mv_context = MfaContext_Dashboard, mv_tenant_id = Some ''t1'', mv_jti = ''j1''\<rparr>,
      ticked (es_host challenged))"
proof -
  let ?h = "es_host challenged" and ?c = "stamp_mfa sample_manager sample_claims" and ?o = "bound_options sample_manager default_options"
  have total: "sign sample_jws mfa_json_codec ?c (tm_key sample_manager) = Inr sample_token"
    by (simp add: sample_token_def sign_def mfa_json_codec_def Let_def)
  have mfa: "tm_mfa sample_manager = Some mem_stores"
    by (simp add: sample_parts build_tokens_def with_binding_def with_mfa_support_def new_token_manager_def)
  have "verify sample_jws mfa_json_codec mfa_temp_jwt_claims read_clock sample_token (tm_key sample_manager) ?o ?h = (Inr ?c, ticked ?h)"
    unfolding sample_signing.verify_signed [OF mfa_values.json_round_trip_axioms total]
    by (simp add: validate_temporal_def resolve_now_def system_now_unix_def validate_binding_def rbind_def read_clock_def ticked_def
        bound_options_def default_options_def stamp_mfa_def sample_claims_def mfa_temp_jwt_claims_def Let_def saturating_add_def
        challenged_def demo_host_def unix_timestamp_def i64_max_def split: option.split)
  then have run: "verify_rotating sample_manager mfa_json_codec mfa_temp_jwt_claims sample_token ?h = (Inr ?c, ticked ?h)"
    unfolding verify_rotating_def by (intro verify_rotating_current) simp
  have temp: "get_temp mem_stores (jti_hash sample_manager ''j1'') (store_client ?h) = (Inr (Some ''u1''), store_client ?h)"
    by (simp add: get_temp_def get_temp_inner_def run_simps challenged_def demo_host_def sample_temp_key_def mem_redis_def m_str_def)
  have epoch: "current_epoch mem_stores Dashboard subject (store_client ?h) = (Inr 0, store_client ?h)" for subject
    using challenged_view [of "key ''auth'' Ep subject"]
    by (intro mem_store.current_epoch_run) (simp_all add: epoch_is_def sample_temp_key_def challenged_def demo_host_def)
  have fields: "mc_sub ?c = ''u1''" "mc_jti ?c = ''j1''" "mc_context ?c = MfaContext_Dashboard" "mc_tenant_id ?c = Some ''t1''" "mc_epoch ?c = 0"
    by (simp_all add: stamp_mfa_def sample_claims_def)
  have "store_client (ticked ?h) = store_client ?h" by (simp add: ticked_def)
  with run mfa temp epoch show ?thesis
    by (simp add: verify_mfa_temp_token_def rbind_def map_err_def on_store_def fields sample_plane sample_signing.constant_time_eq)
qed

lemma challenge_won:
  assumes "net c = []" and "server c (key ''auth'' Tu i) = None" and "server c (key ''auth'' Mfa j) \<noteq> None"
  shows "challenge_consume mem_stores i j ttl c =
    (Inr True, c\<lparr>server := (server c)(key ''auth'' Tu i \<mapsto> (MStr ''1'', Some ttl), key ''auth'' Mfa j := None)\<rparr>)"
  using assms by (simp add: challenge_consume_def challenge_consume_inner_def mfa_challenge_def run_simps mem_redis_def)

lemma sample_finish:
  assumes "net (store_client (es_host s)) = []" and "typed ''auth'' (store_view mem_view (es_host s))"
    and "\<And>subject. epoch_is ''auth'' Dashboard subject (store_view mem_view (es_host s)) 0"
    and "\<And>i. i < 3 \<Longrightarrow> instant_ok (clock (es_host s) i)"
  shows "\<exists>result t. finish_dashboard guarded ''u1'' guarded_account ''10.0.0.1'' ''ua'' s = (Inr (LoginResultMfa_Dashboard result), t)"
proof -
  obtain result h where "issue_tokens sample_manager (safe_user guarded_account) ''10.0.0.1'' ''ua'' True Proved (es_host s) = (Inr result, h)"
    using sample_issuing.issue_tokens_run [of "es_host s" "safe_user guarded_account" 0 "''10.0.0.1''" "''ua''" True Proved] assms
      demo_empty(4,5) by auto
  then show ?thesis
    by (simp add: finish_dashboard_def Let_def rbind_def on_host_def mfa_enforce_session_limit_def spawn_guarded_def)
qed

lemma typed_single: "aside p \<Longrightarrow> typed ns [key ns p i \<mapsto> e]"
  by (simp add: typed_def type_defs aside_prefix aside_prefix(1-6) [THEN not_sym])

lemma guarded_challenge:
  "\<exists>result t. challenge guarded sample_token sample_code ''10.0.0.1'' ''ua'' challenged = (Inr (LoginResultMfa_Dashboard result), t)"
proof -
  let ?id = "challenge_bf_id guarded MfaContext_Dashboard (Some ''t1'') ''u1''"
    and ?rid = "replay_id guarded MfaContext_Dashboard (Some ''t1'') ''u1'' sample_code"
  define s1 where "s1 = challenged\<lparr>es_host := ticked (es_host challenged)\<rparr>"
  have ok: "validate_identifier ?id = Inr ()" unfolding challenge_bf_id_def by (rule sample_keyed)
  have start: "store_client (es_host s1) = \<lparr>server = [sample_temp_key \<mapsto> (MStr ''u1'', Some 300)], net = []\<rparr>"
    by (simp add: s1_def ticked_def challenged_def demo_host_def)
  have "quiet_store s1" by (simp add: quiet_store_def start mem_view_def sample_temp_key_def)
  from quiet_unlocked [OF this ok] have free: "mfa_assert_not_locked guarded ?id s1 = (Inr (), s1)"
    by (simp add: mfa_assert_not_locked_def rbind_def on_host_def)
  have code: "totp_verify sample_totp sample_secret sample_code (unix_seconds (es_host s1)) 1"
    by (rule sample_code_valid) (simp add: s1_def ticked_def challenged_def demo_host_def)
  define c where "c = \<lparr>server = [key ''auth'' Tu ?rid \<mapsto> (MStr ''1'', Some (anti_replay_ttl_seconds guarded))], net = ([] :: net_event list)\<rparr>"
  have consumed: "challenge_consume mem_stores ?rid (jti_hash sample_manager ''j1'') (anti_replay_ttl_seconds guarded) (store_client (es_host s1)) = (Inr True, c)"
    unfolding start by (subst challenge_won) (auto simp: sample_temp_key_def c_def fun_eq_iff)
  define s2 where "s2 = s1\<lparr>es_host := (ticked (es_host s1))\<lparr>store_client := c\<rparr>\<rparr>"
  have accepted: "accept_totp guarded MfaContext_Dashboard (Some ''t1'') ''u1'' sample_secret sample_code ''j1'' s1 = (Inr True, s2)"
    using code consumed by (simp add: accept_totp_def rbind_def on_host_def on_store_def Let_def s2_def ticked_def jti_hash_def
        current_unix_time_eq [THEN iffD2, OF conjI [OF HOL.refl HOL.refl]])
  have "quiet_store s2" by (simp add: quiet_store_def s2_def c_def mem_view_def)
  from quiet_reset [OF this ok] obtain c' where reset: "throttle_reset (en_brute_force sample_engine) ?id (es_host s2) = (Inr (), (es_host s2)\<lparr>store_client := c'\<rparr>)"
    and c': "net c' = []" "mem_view (server c') = store_view mem_view (es_host s2)" .
  let ?s3 = "s2\<lparr>es_host := (es_host s2)\<lparr>store_client := c'\<rparr>\<rparr>"
  have view3: "store_view mem_view (es_host ?s3) = [key ''auth'' Tu ?rid \<mapsto> (RStr ''1'', Some (anti_replay_ttl_seconds guarded))]"
    using c'(2) by (auto simp: s2_def c_def mem_view_def fun_eq_iff)
  obtain result t where "finish_dashboard guarded ''u1'' guarded_account ''10.0.0.1'' ''ua'' ?s3 = (Inr (LoginResultMfa_Dashboard result), t)"
  proof -
    have "typed ''auth'' (store_view mem_view (es_host ?s3))"
      unfolding view3 by (rule typed_single) (simp add: aside_def)
    moreover have "epoch_is ''auth'' Dashboard subject (store_view mem_view (es_host ?s3)) 0" for subject
      unfolding view3 by (simp add: epoch_is_def)
    moreover have "instant_ok (clock (es_host ?s3) i)" if "i < 3" for i
      using that by (simp add: s2_def s1_def ticked_def challenged_def demo_host_def instant_ok_def)
    ultimately show thesis using sample_finish [of ?s3] c'(1) that by auto
  qed
  moreover have "mfa_repo (ur_find_by_id guarded_directory ''u1'' (Some ''t1'')) s1 = (Inr (Some guarded_account), s1)"
    by (simp add: mfa_repo_def map_err_def on_app_def guarded_directory_def unit_app)
  moreover have "is_totp_code sample_code" unfolding sample_code_def by (rule code_of_step_shape)
  ultimately have "challenge_dashboard guarded \<lparr>mv_user_id = ''u1'', mv_context = MfaContext_Dashboard, mv_tenant_id = Some ''t1'', mv_jti = ''j1''\<rparr>
      sample_code ''10.0.0.1'' ''ua'' s1 = (Inr (LoginResultMfa_Dashboard result), t)"
    using free accepted reset
    by (simp add: challenge_dashboard_def Let_def rbind_def sample_status sample_decrypts dashboard_code_def on_host_def stored_secret_of_def)
  then show ?thesis
    using sample_token_verified by (simp add: challenge_def challenge_expecting_def rbind_def on_host_def s1_def)
qed

end
