(* ===== verification/Mfa_Properties.thy ===== *)
theory Mfa_Properties
  imports Sample_Mfa
begin

text \<open>
  What the second factor promises: a code is accepted for a step of its window and for no second time while
  it is valid, a challenge is granted to a live temporary token and a proof of the account's own secret, a
  factor is removed only by such a proof and takes every session with it, a pending enrolment is resumed,
  and the recovery scan is the first match it stands for.
\<close>

text \<open>
  C11. Who finishes a login at the second factor. A dashboard session comes out of a challenge only when the
  temporary token verified for that plane, the account was not locked out, the repository holds it in the
  token's own tenant, unblocked and with the factor on, the stored secret decrypted, and the code showed
  the factor; the tokens then issued are that account's, marked as verified by the second factor.
\<close>

theorem mfa_challenge_granted:
  assumes "challenge S token code ip user_agent s = (Inr (LoginResultMfa_Dashboard result), s')"
  shows "\<exists>verified h0 h1 user w wire secret h2 h3.
    verify_mfa_temp_token (ms_tokens S) token (es_host s) = (Inr verified, h0) \<and> mv_context verified = MfaContext_Dashboard \<and>
    throttle_is_locked (ms_brute_force S) (challenge_bf_id S MfaContext_Dashboard (mv_tenant_id verified) (mv_user_id verified))
      h0 = (Inr False, h1) \<and>
    ur_find_by_id (ms_user_repo S) (mv_user_id verified) (mv_tenant_id verified) (es_app s) = (Inr (Some user), w) \<and>
    mv_tenant_id verified = Some (au_tenant_id user) \<and>
    assert_not_blocked (au_status user) (ms_blocked_statuses S) = Inr () \<and>
    au_mfa_enabled user \<and> au_mfa_secret user = Some wire \<and> decrypt_secret S wire = Some secret \<and>
    shows_factor S verified user secret code h1 \<and>
    issue_tokens (ms_tokens S) (safe_user user) ip user_agent True Proved h2 = (Inr result, h3)"
proof -
  from assms obtain verified h0 where token: "verify_mfa_temp_token (ms_tokens S) token (es_host s) = (Inr verified, h0)"
    and rest: "(case mv_context verified of MfaContext_Dashboard \<Rightarrow> challenge_dashboard S verified code ip user_agent
       | MfaContext_Platform \<Rightarrow> challenge_platform S verified code ip user_agent) (s\<lparr>es_host := h0\<rparr>) =
      (Inr (LoginResultMfa_Dashboard result), s')"
    by (auto simp: challenge_def challenge_expecting_def flow_inv)
  have ctx: "mv_context verified = MfaContext_Dashboard"
    using rest challenge_platform_Inr by (cases "mv_context verified") fastforce+
  with rest have run: "challenge_dashboard S verified code ip user_agent (s\<lparr>es_host := h0\<rparr>) =
      (Inr (LoginResultMfa_Dashboard result), s')" by simp
  from challenge_dashboard_Inr [OF run] token ctx show ?thesis by fastforce
qed

theorem mfa_challenge_granted_witness:
  "\<exists>result t user w. challenge guarded sample_token sample_code ''10.0.0.1'' ''ua'' challenged = (Inr (LoginResultMfa_Dashboard result), t) \<and>
     ur_find_by_id guarded_directory ''u1'' (Some ''t1'') () = (Inr (Some user), w) \<and> au_mfa_enabled user \<and>
     (\<exists>verified h secret. shows_factor guarded verified user secret sample_code h)"
proof -
  from guarded_challenge obtain result t where
    run: "challenge guarded sample_token sample_code ''10.0.0.1'' ''ua'' challenged = (Inr (LoginResultMfa_Dashboard result), t)" by blast
  from mfa_challenge_granted [OF run] sample_token_verified show ?thesis
    by (intro exI [of _ result] exI [of _ t]) (auto simp: run)
qed

text \<open>
  C12. A one-time code is spent for as long as it is valid. When the service accepts a code, at login or
  for a change of the factor, the code is that of a time step its clock admits; and as long as a later
  clock still admits that step, no further use of the code for the account is accepted, in any
  interleaving of uses, waits and other traffic of the store.
\<close>

theorem totp_code_spent:
  assumes "redis_service (rs_redis (ms_mfa_store S)) view" and "totp_service (ml_totp (ms_libs S))"
    and "m \<in> {accept_totp S ctx tenant user secret code jti, verify_totp_with_anti_replay S ctx tenant user secret code}"
    and "m s = (Inr True, s')"
  shows "\<exists>step. admits (unix_seconds (es_host s)) (ms_totp_window S) step \<and>
    code = code_of_step (ml_totp (ms_libs S)) secret step \<and>
    (\<forall>es now. (\<forall>e\<in>set es. lease_kept (code_tries (ms_mfa_store S) (replay_id S ctx tenant user code))
          (left_at view (replay_key S ctx tenant user code) ''1'') e) \<longrightarrow>
       uint now = uint (unix_seconds (es_host s)) + int (elapsed es) \<longrightarrow> admits now (ms_totp_window S) step \<longrightarrow>
       lease_wins (r_tick (rs_redis (ms_mfa_store S))) es (server (store_client (es_host s'))) = 0)"
proof -
  from code_accepted(1) [OF assms(3,4)] obtain step where step: "admits (unix_seconds (es_host s)) (ms_totp_window S) step"
    "code = code_of_step (ml_totp (ms_libs S)) secret step"
    unfolding totp_verify_iff [OF assms(2)] by blast
  from code_accepted(2) [OF assms(3,4)] obtain jti_hash n where
    n: "n \<in> {challenge_consume (ms_mfa_store S) (replay_id S ctx tenant user code) jti_hash (anti_replay_ttl_seconds S),
        mark_totp_used (ms_mfa_store S) (replay_id S ctx tenant user code) (anti_replay_ttl_seconds S)}"
    "n (store_client (es_host s)) = (Inr True, store_client (es_host s'))" by blast
  have left: "left_at view (replay_key S ctx tenant user code) ''1'' (server (store_client (es_host s'))) =
      Some (anti_replay_ttl_seconds S)"
    using redis_service.code_use_effect(2) [OF assms(1) n anti_replay_ttl_ok HOL.refl HOL.refl HOL.refl]
    by (simp add: left_at_Some replay_key_def)
  have "lease_wins (r_tick (rs_redis (ms_mfa_store S))) es (server (store_client (es_host s'))) = 0"
    if kept: "\<forall>e\<in>set es. lease_kept (code_tries (ms_mfa_store S) (replay_id S ctx tenant user code))
        (left_at view (replay_key S ctx tenant user code) ''1'') e"
      and now: "uint now = uint (unix_seconds (es_host s)) + int (elapsed es)" "admits now (ms_totp_window S) step" for es now
  proof (rule lease.lease_exclusive [OF redis_service.code_lease [OF assms(1) HOL.refl replay_key_def] kept left])
    have "int (elapsed es) < int (anti_replay_ttl_seconds S)"
      using admits_span [OF step(1) now(2)] now(1) unfolding anti_replay_ttl_seconds_def Let_def by linarith
    then show "elapsed es < anti_replay_ttl_seconds S" by simp
  qed
  with step show ?thesis by blast
qed

theorem totp_code_spent_witness:
  "\<exists>t. verify_totp_with_anti_replay guarded MfaContext_Dashboard (Some ''t1'') ''u1'' sample_secret sample_code sample_start = (Inr True, t) \<and>
     lease_wins (r_tick mem_redis)
       [Attempt (mark_totp_used mem_stores (replay_id guarded MfaContext_Dashboard (Some ''t1'') ''u1'' sample_code) 90) [], Pass 15,
        Attempt (mark_totp_used mem_stores (replay_id guarded MfaContext_Dashboard (Some ''t1'') ''u1'' sample_code) 90) []]
       (server (store_client (es_host t))) = 0"
proof -
  let ?rid = "replay_id guarded MfaContext_Dashboard (Some ''t1'') ''u1'' sample_code" and ?at = "unix_seconds (es_host sample_start)"
  let ?es = "[Attempt (mark_totp_used mem_stores ?rid 90) [], Pass 15, Attempt (mark_totp_used mem_stores ?rid 90) []]"
  from sample_first_use obtain t where run: "verify_totp_with_anti_replay guarded MfaContext_Dashboard (Some ''t1'') ''u1'' sample_secret sample_code
      sample_start = (Inr True, t)" by blast
  have "mark_totp_used mem_stores ?rid 90 \<in> code_tries mem_stores ?rid"
    unfolding code_tries_def by (intro UnI2 CollectI exI [of _ 90]) (simp add: ttl_ok_def)
  then have kept: "\<forall>e\<in>set ?es. lease_kept (code_tries mem_stores ?rid) left e" for left by (simp add: lease_kept_def)
  have at: "uint ?at = 1000" by (simp add: unix_seconds_def unix_timestamp_def sample_start_def demo_host_def)
  let ?m = "verify_totp_with_anti_replay guarded MfaContext_Dashboard (Some ''t1'') ''u1'' sample_secret sample_code"
  have redis: "redis_service (rs_redis (ms_mfa_store guarded)) mem_view" and codes: "totp_service (ml_totp (ms_libs guarded))"
    using mem.redis_service_axioms sample_codes.totp_service_axioms by simp_all
  have use: "?m \<in> {accept_totp guarded MfaContext_Dashboard (Some ''t1'') ''u1'' sample_secret sample_code [], ?m}" by simp
  from totp_code_spent [OF redis codes use run] obtain step where "admits ?at 1 step" and
    all: "\<forall>es now. (\<forall>e\<in>set es. lease_kept (code_tries mem_stores ?rid)
          (left_at mem_view (replay_key guarded MfaContext_Dashboard (Some ''t1'') ''u1'' sample_code) ''1'') e) \<longrightarrow>
       uint now = uint ?at + int (elapsed es) \<longrightarrow> admits now 1 step \<longrightarrow>
       lease_wins (r_tick mem_redis) es (server (store_client (es_host t))) = 0"
    by auto
  moreover have "admits (1015 :: 64 word) 1 step" using \<open>admits ?at 1 step\<close> by (simp add: admits_def at TOTP_STEP_SECS_def)
  moreover have "uint (1015 :: 64 word) = uint ?at + int (elapsed ?es)" by (simp add: at)
  ultimately have "lease_wins (r_tick mem_redis) ?es (server (store_client (es_host t))) = 0"
    using kept by blast
  with run show ?thesis by blast
qed

text \<open>
  C38. The recovery scan, which compares every stored digest with every candidate and never stops early,
  answers what a search that stops at the first match answers.
\<close>

theorem recovery_scan_first_match:
  assumes "jws_service (mfa_jws S)"
  shows "verify_recovery_code (constant_time_eq (mfa_jws S)) stored (recovery_code_candidates S code) =
    first_match stored (recovery_code_candidates S code)"
proof -
  have "constant_time_eq (mfa_jws S) = (=)"
    using jws_service.constant_time_eq [OF assms] by (intro ext) simp
  then show ?thesis by (cases "first_match stored (recovery_code_candidates S code)") (simp_all add: verify_recovery_code_def scan_first_match)
qed

theorem recovery_scan_first_match_witness:
  "verify_recovery_code (constant_time_eq (mfa_jws guarded)) [''x'', hash_recovery_code guarded ''ABCD'', hash_recovery_code guarded ''ABCD'']
     (recovery_code_candidates guarded ''ABCD'') = Some (if ''x'' = hash_recovery_code guarded ''ABCD'' then 0 else 1)"
proof -
  have "jws_service (mfa_jws guarded)" using sample_signing.jws_service_axioms by simp
  from recovery_scan_first_match [OF this] show ?thesis
    by (simp add: recovery_code_candidates_def) (simp add: sample_mfa_def)
qed

text \<open>
  C13. Removing the second factor takes the factor and ends everything it protected. When the holder's
  removal answers \<open>Ok\<close>, a code of the account's own secret passed the gate, under a lockout of its own
  and for its one use, and the repository took a record without factor, secret or recovery codes; in the
  store it leaves, no session or grace pointer of the account is live
  and its generation is one higher, so that no access token issued before is accepted either.
\<close>

theorem factor_removed:
  assumes "one_store S view" and "mfa_disable S user code ip user_agent ctx tenant s = (Inr (), t)"
    and "reachable (ms_session_store S) view owner T w" and "ttl_ok T" and "view (srv w) = store_view view (es_host s)"
    and "epoch_is (rs_namespace (ms_session_store S)) (session_kind ctx) (mfa_session_subject S ctx tenant user)
      (store_view view (es_host s)) n" and "n + 1 < 2 ^ 63"
  shows "(\<exists>v s1 s2 s3. fetch_user_mfa S user ctx tenant s = (Inr v, s1) \<and> gate_passed S ctx tenant user code v (es_host s1) \<and>
      persist_mfa S user ctx tenant False None None s2 = (Inr (), s3)) \<and>
    locked_out (rs_codec (ms_session_store S)) (rs_namespace (ms_session_store S)) owner (session_kind ctx)
      (mfa_session_subject S ctx tenant user) (store_view view (es_host t)) \<and>
    epoch_is (rs_namespace (ms_session_store S)) (session_kind ctx) (mfa_session_subject S ctx tenant user)
      (store_view view (es_host t)) (n + 1)"
  using one_store.disable_ends [OF assms] by blast

theorem factor_removed_witness:
  "\<exists>t. mfa_disable guarded ''u1'' sample_code ''10.0.0.1'' ''ua'' MfaContext_Dashboard (Some ''t1'') sample_start = (Inr (), t) \<and>
     locked_out (rs_codec mem_stores) ''auth'' demo_owner Dashboard (mfa_session_subject guarded MfaContext_Dashboard (Some ''t1'') ''u1'')
       (store_view mem_view (es_host t)) \<and>
     epoch_is ''auth'' Dashboard (mfa_session_subject guarded MfaContext_Dashboard (Some ''t1'') ''u1'') (store_view mem_view (es_host t)) 1"
proof -
  from guarded_disable obtain t where
    run: "mfa_disable guarded ''u1'' sample_code ''10.0.0.1'' ''ua'' MfaContext_Dashboard (Some ''t1'') sample_start = (Inr (), t)" by blast
  let ?w = "\<lparr>srv = Map.empty, used = {}, seen = {}, swept = {}\<rparr>"
  have "reachable mem_stores mem_view demo_owner 604800 ?w" by (rule reachable.start) (simp add: mem_view_def)
  with factor_removed [OF sample_enrolment.one_store_axioms run, of demo_owner 604800 ?w 0] run show ?thesis
    by (auto simp: sample_quiet(2) mem_view_empty ttl_ok_def epoch_is_def)
qed

text \<open>
  C37. An enrolment is resumed, not replaced. Setting up with no enrolment pending leaves one pending for ten
  minutes, under the account's own key. Its record holds the secret and the recovery codes the caller was
  given only as seals under the service's key, and the codes once more as their keyed digests. As long as it
  stands, a further setup of the account returns the same secret and the same codes, read back through the
  cipher and the codecs.
\<close>

theorem enrolment_resumes:
  assumes "enrolment S view" and "mfa_setup S user ctx tenant password s = (Inr first, t)"
    and "store_view view (es_host s) (pending_key S ctx tenant user) = None"
    and "mfa_setup S user ctx tenant password' s' = (Inr again, t')"
    and "store_view view (es_host s') (pending_key S ctx tenant user) = store_view view (es_host t) (pending_key S ctx tenant user)"
  shows "(\<exists>json d plain. store_view view (es_host t) (pending_key S ctx tenant user) = Some (RStr json, Some 600) \<and>
      dec_val (ml_setup (ms_libs S)) json = Some d \<and> sealed S (msd_encrypted_secret d) (as_bytes (msr_secret first)) \<and>
      dec_val (ml_codes (ms_libs S)) plain = Some (msr_recovery_codes first) \<and>
      sealed S (msd_encrypted_plain_codes d) (as_bytes plain) \<and>
      msd_hashed_codes d = map (hash_recovery_code S) (msr_recovery_codes first)) \<and>
    msr_secret again = msr_secret first \<and> msr_recovery_codes again = msr_recovery_codes first"
proof -
  from enrolment.setup_first [OF assms(1-3)] obtain email secret codes json d plain where
    first: "first = build_setup_result S email secret codes"
    and pending: "store_view view (es_host t) (pending_key S ctx tenant user) = Some (RStr json, Some MFA_SETUP_TTL_SECONDS)"
    and reads: "\<And>email'. setup_result_from_record S email' json = Inr (build_setup_result S email' secret codes)"
    and held: "dec_val (ml_setup (ms_libs S)) json = Some d" "dec_val (ml_codes (ms_libs S)) plain = Some codes"
      "sealed S (msd_encrypted_secret d) (as_bytes (encode_secret_base32 (ml_totp (ms_libs S)) secret))"
      "sealed S (msd_encrypted_plain_codes d) (as_bytes plain)" "msd_hashed_codes d = map (hash_recovery_code S) codes"
    by blast
  from enrolment.setup_again [OF assms(1,4)] assms(5) pending obtain email' where
    "setup_result_from_record S email' json = Inr again" by fastforce
  with reads have again: "again = build_setup_result S email' secret codes" by simp
  show ?thesis
    unfolding first again build_setup_result_def MfaSetupResult.simps
    using pending [unfolded MFA_SETUP_TTL_SECONDS_def] held by blast
qed

theorem enrolment_resumes_witness:
  "\<exists>r t r' t'. mfa_setup enrolling ''u1'' MfaContext_Dashboard (Some ''t1'') (Some sample_password) sample_start = (Inr r, t) \<and>
     mfa_setup enrolling ''u1'' MfaContext_Dashboard (Some ''t1'') (Some sample_password) t = (Inr r', t') \<and>
     msr_secret r' = msr_secret r \<and> msr_recovery_codes r' = msr_recovery_codes r"
proof -
  have start: "store_view mem_view (es_host sample_start) ann_pending = None" by (simp add: sample_quiet(2))
  from sample_setup [OF quiet_start] start obtain r t where
    run: "mfa_setup enrolling ''u1'' MfaContext_Dashboard (Some ''t1'') (Some sample_password) sample_start = (Inr r, t)" "quiet_store t" by blast
  from sample_enrolment.setup_first [OF run(1)] start obtain json secret codes where
    "store_view mem_view (es_host t) ann_pending = Some (RStr json, Some MFA_SETUP_TTL_SECONDS)"
    "\<forall>email'. setup_result_from_record enrolling email' json = Inr (build_setup_result enrolling email' secret codes)" by blast
  with sample_setup [OF run(2)] obtain r' t' where
    again: "mfa_setup enrolling ''u1'' MfaContext_Dashboard (Some ''t1'') (Some sample_password) t = (Inr r', t')" by blast
  from enrolment_resumes [OF sample_enrolment.enrolment_axioms run(1) start again] run(1) again show ?thesis by blast
qed

end
