(* ===== verification/Oauth.thy ===== *)
theory Oauth
  imports Login_Flow
begin

text \<open>
  Sign-in through an external provider (\<open>services/oauth.rs\<close>): the redirect that plants a single-use
  state with its PKCE verifier, and the callback that consumes it, exchanges the code, runs the
  application's decision and either issues a session or asks for the second factor. The providers are
  the engine's registry; the built-in one is in \<open>Google_Provider\<close>.
\<close>

section \<open>State and verifier\<close>

definition OAUTH_STATE_TTL_SECS :: nat where
  "OAUTH_STATE_TTL_SECS = 600"

definition OAUTH_RANDOM_BYTES :: nat where
  "OAUTH_RANDOM_BYTES = 32"

definition PERCENT_HEX :: string where
  "PERCENT_HEX = ''0123456789ABCDEF''"

record OAuthRedirect =
  or_authorize_url :: string
  or_state :: string

datatype OAuthOutcome = Authenticated AuthResult | OAuthMfaChallenge MfaChallengeResult

definition is_valid_provider_name :: "string \<Rightarrow> bool" where
  "is_valid_provider_name name \<longleftrightarrow>
     1 \<le> length name \<and> length name \<le> 64 \<and>
     list_all (\<lambda>c. let b = of_char c :: nat in (97 \<le> b \<and> b \<le> 122) \<or> (48 \<le> b \<and> b \<le> 57) \<or> c = CHR ''-'') name"

definition generate_state :: "('r, 'w, string) flow_io" where
  "generate_state = rbind (on_host (random_bytes OAUTH_RANDOM_BYTES)) (\<lambda>b. ret (to_hex b))"

definition is_oauth_state_shape :: "string \<Rightarrow> bool" where
  "is_oauth_state_shape state \<longleftrightarrow>
     length state = 64 \<and>
     list_all (\<lambda>c. let b = of_char c :: nat in (48 \<le> b \<and> b \<le> 57) \<or> (97 \<le> b \<and> b \<le> 102)) state"

definition generate_pkce :: "('r, 'w) AuthEngine \<Rightarrow> ('r, 'w, string \<times> string) flow_io" where
  "generate_pkce E =
     rbind (on_host (random_bytes OAUTH_RANDOM_BYTES)) (\<lambda>b.
       let verifier = b64_encode (lib_jws (el_token (en_libs E))) b;
           code_challenge = b64_encode (lib_jws (el_token (en_libs E))) (lib_sha256 (el_token (en_libs E)) (as_bytes verifier))
       in ret (verifier, code_challenge))"

definition state_key :: "('r, 'w) AuthEngine \<Rightarrow> string \<Rightarrow> string" where
  "state_key E state = to_hex (lib_sha256 (el_token (en_libs E)) (as_bytes state))"

definition provider_error :: "OAuthProviderError \<Rightarrow> AuthError" where
  "provider_error e = AuthError.OauthFailed"

definition map_oauth_create_error :: "RepositoryError \<Rightarrow> AuthError" where
  "map_oauth_create_error e =
     (case e of Conflict _ \<Rightarrow> AuthError.OauthEmailMismatch | Backend source \<Rightarrow> AuthError.Internal source)"

definition name_or_local_part :: "OAuthProfile \<Rightarrow> string" where
  "name_or_local_part profile =
     (case op_name profile of Some name \<Rightarrow> name | None \<Rightarrow> takeWhile (\<lambda>c. c \<noteq> CHR ''@'') (op_email profile))"

section \<open>The error redirect\<close>

definition oauth_percent_encode :: "string \<Rightarrow> string" where
  "oauth_percent_encode v =
     concat (map (\<lambda>c. if is_unreserved c then [c]
        else (let b = of_char c :: u8 in
              [CHR ''%'', PERCENT_HEX ! unat (drop_bit 4 b), PERCENT_HEX ! unat (b AND 0x0f)])) v)"

definition append_error_param :: "string \<Rightarrow> string \<Rightarrow> string" where
  "append_error_param base short_code =
     (let (locator, fragment) = (case split_once (CHR ''#'') base of
            Some (locator, fragment) \<Rightarrow> (locator, Some fragment)
          | None \<Rightarrow> (base, None));
          separator = (if CHR ''?'' \<in> set locator then CHR ''&'' else CHR ''?'')
      in locator @ [separator] @ ''error='' @ oauth_percent_encode short_code @
         (case fragment of None \<Rightarrow> [] | Some fragment \<Rightarrow> CHR ''#'' # fragment))"

definition oauth_success_redirect_url :: "('r, 'w) AuthEngine \<Rightarrow> string option" where
  "oauth_success_redirect_url E = oa_success_redirect_url (ac_oauth (cfg E))"

definition oauth_mfa_redirect_url :: "('r, 'w) AuthEngine \<Rightarrow> string option" where
  "oauth_mfa_redirect_url E = oa_mfa_redirect_url (ac_oauth (cfg E))"

definition oauth_error_redirect_url :: "('r, 'w) AuthEngine \<Rightarrow> string \<Rightarrow> string option" where
  "oauth_error_redirect_url E short_code =
     map_option (\<lambda>base. append_error_param base short_code) (oa_error_redirect_url (ac_oauth (cfg E)))"

section \<open>The redirect\<close>

definition resolve_oauth_provider :: "('r, 'w) AuthEngine \<Rightarrow> string \<Rightarrow> AuthError + 'w OAuthProvider" where
  "resolve_oauth_provider E name =
     (if \<not> is_valid_provider_name name then Inl AuthError.OauthFailed
      else (case map_of (en_oauth_providers E) name of None \<Rightarrow> Inl AuthError.OauthFailed | Some p \<Rightarrow> Inr p))"

definition require_oauth_state_store :: "('r, 'w) AuthEngine \<Rightarrow> AuthError + 'r RedisStores" where
  "require_oauth_state_store E =
     (case en_oauth_state_store E of
        None \<Rightarrow> Inl (internal_error ''oauth state store is not wired'')
      | Some store \<Rightarrow> Inr store)"

definition oauth_initiate ::
    "('r, 'w) AuthEngine \<Rightarrow> string \<Rightarrow> string option \<Rightarrow> RequestContext \<Rightarrow> ('r, 'w, OAuthRedirect) flow_io" where
  "oauth_initiate E provider body_tenant ctx =
     rbind (lift_result (resolve_oauth_provider E provider)) (\<lambda>provider_impl.
     rbind (resolve_tenant E body_tenant ctx) (\<lambda>tenant_id.
     rbind generate_state (\<lambda>state.
     rbind (generate_pkce E) (\<lambda>(code_verifier, code_challenge).
     case enc_val (el_oauth_state (en_libs E))
            \<lparr>sp_provider = pv_name provider_impl, sp_tenant_id = tenant_id, sp_code_verifier = code_verifier\<rparr> of
       None \<Rightarrow> raise (internal_error ''oauth state payload serialization failed'')
     | Some payload \<Rightarrow>
         rbind (lift_result (require_oauth_state_store E)) (\<lambda>store.
         rbind (on_host (on_store (put_state store (state_key E state) payload OAUTH_STATE_TTL_SECS))) (\<lambda>_.
           ret \<lparr>or_authorize_url = pv_authorize_url provider_impl state (Some code_challenge), or_state = state\<rparr>))))))"

section \<open>The callback\<close>

definition execute_oauth_decision ::
    "('r, 'w) AuthEngine \<Rightarrow> OAuthLoginResult \<Rightarrow> string \<Rightarrow> OAuthProfile \<Rightarrow> string \<Rightarrow> AuthUser option \<Rightarrow> ('r, 'w, AuthUser) flow_io" where
  "execute_oauth_decision E decision provider_name profile tenant_id existing =
     (case decision of
        OAuth_Create \<Rightarrow>
          map_err map_oauth_create_error (on_app (ur_create_with_oauth (en_user_repository E)
            \<lparr>co_email = op_email profile, co_name = name_or_local_part profile, co_role = None, co_status = None,
             co_tenant_id = tenant_id, co_email_verified = Some (op_email_verified profile),
             co_oauth_provider = provider_name, co_oauth_provider_id = op_provider_id profile\<rparr>))
      | OAuth_Link \<Rightarrow>
          (case existing of
             None \<Rightarrow> raise AuthError.OauthFailed
           | Some user \<Rightarrow>
               rbind (repository (ur_link_oauth (en_user_repository E) (au_id user) provider_name (op_provider_id profile))) (\<lambda>_.
               rbind (repository (ur_find_by_id (en_user_repository E) (au_id user) (Some tenant_id))) (\<lambda>found.
                 case found of None \<Rightarrow> raise AuthError.OauthFailed | Some linked \<Rightarrow> ret linked)))
      | OAuth_Reject _ \<Rightarrow> raise AuthError.OauthFailed)"

definition finish_oauth_login ::
    "('r, 'w) AuthEngine \<Rightarrow> AuthUser \<Rightarrow> RequestContext \<Rightarrow> HookContext \<Rightarrow> ('r, 'w, OAuthOutcome) flow_io" where
  "finish_oauth_login E user ctx hook_ctx =
     rbind (lift_result (assert_user_not_blocked E (au_status user))) (\<lambda>_.
       if ev_required (ac_email_verification (cfg E)) \<and> \<not> au_email_verified user then raise AuthError.EmailNotVerified
       else if au_mfa_enabled user then
         rbind (on_host (issue_mfa_temp_token (en_tokens E) (au_id user) MfaContext_Dashboard (Some (au_tenant_id user)))) (\<lambda>mfa_temp_token.
           ret (OAuthMfaChallenge \<lparr>mcr_mfa_required = True, mcr_mfa_temp_token = mfa_temp_token\<rparr>))
       else
         let safe = safe_user user in
         rbind (on_host (issue_tokens (en_tokens E) safe (rx_ip ctx) (rx_user_agent ctx) False Proved)) (\<lambda>result.
         rbind (enforce_sessions_after_issue E result (rx_ip ctx) (rx_user_agent ctx) hook_ctx) (\<lambda>_.
         rbind (on_host (spawn_guarded (UpdateLastLogin (su_tenant_id safe) (su_id safe)))) (\<lambda>_.
         rbind (on_host (spawn_guarded (AfterLogin safe hook_ctx))) (\<lambda>_.
           ret (Authenticated result))))))"

text \<open>The callback once its state is spent: the provider's answers, the decision, the session.\<close>

definition redeem_oauth_state ::
    "('r, 'w) AuthEngine \<Rightarrow> 'w OAuthProvider \<Rightarrow> string \<Rightarrow> OAuthStatePayload \<Rightarrow> RequestContext \<Rightarrow> ('r, 'w, OAuthOutcome) flow_io" where
  "redeem_oauth_state E provider_impl code payload ctx =
     (let provider_name = pv_name provider_impl; tenant_id = sp_tenant_id payload in
      rbind (map_err provider_error (on_app (pv_exchange_code provider_impl code (Some (sp_code_verifier payload))))) (\<lambda>tokens.
      rbind (map_err provider_error (on_app (pv_fetch_profile provider_impl (ot_access_token tokens)))) (\<lambda>profile.
      rbind (repository (ur_find_by_oauth_id (en_user_repository E) provider_name (op_provider_id profile) tenant_id)) (\<lambda>existing.
      let hook_ctx = from_request HookPlane_Dashboard ctx (map_option au_id existing) (Some (op_email profile)) (Some tenant_id) in
      rbind (map_err (\<lambda>_. AuthError.OauthFailed)
               (on_app (hk_on_oauth_login (en_hooks E) profile (map_option safe_user existing) hook_ctx))) (\<lambda>decision.
      rbind (execute_oauth_decision E decision provider_name profile tenant_id existing) (\<lambda>resolved.
        finish_oauth_login E resolved ctx hook_ctx))))))"

definition oauth_callback ::
    "('r, 'w) AuthEngine \<Rightarrow> string \<Rightarrow> string \<Rightarrow> string \<Rightarrow> string option \<Rightarrow> RequestContext \<Rightarrow> ('r, 'w, OAuthOutcome) flow_io" where
  "oauth_callback E provider code state state_cookie ctx =
     rbind (lift_result (resolve_oauth_provider E provider)) (\<lambda>provider_impl.
       if \<not> is_oauth_state_shape state then raise AuthError.OauthFailed
       else if \<not> (case state_cookie of None \<Rightarrow> False
              | Some cookie \<Rightarrow> constant_time_eq (lib_jws (el_token (en_libs E))) (as_bytes state) (as_bytes cookie))
       then raise AuthError.OauthFailed
       else
         rbind (lift_result (require_oauth_state_store E)) (\<lambda>store.
         rbind (on_host (on_store (take_state store (state_key E state)))) (\<lambda>taken.
           case taken of
             None \<Rightarrow> raise AuthError.OauthFailed
           | Some raw_payload \<Rightarrow>
               (case dec_val (el_oauth_state (en_libs E)) raw_payload of
                  None \<Rightarrow> raise AuthError.OauthFailed
                | Some payload \<Rightarrow>
                    if sp_provider payload \<noteq> pv_name provider_impl then raise AuthError.OauthFailed
                    else redeem_oauth_state E provider_impl code payload ctx))))"

end
