(* ===== verification/Google_Provider.thy ===== *)
theory Google_Provider
  imports Oauth
begin

text \<open>
  The built-in Google provider (\<open>providers/google.rs\<close>) over the injected transport
  (\<open>traits/http.rs\<close>): the authorization URL, the code exchange and the profile fetch. The transport
  and the two JSON readers are parameters. The queries it writes are read back by a reference decoder.
\<close>

section \<open>The transport\<close>

datatype HttpMethod = Get | Post

record HttpRequest =
  hq_method :: HttpMethod
  hq_url :: string
  hq_headers :: "(string \<times> string) list"
  hq_body :: "u8 list option"

record HttpResponse =
  hr_status :: nat
  hr_headers :: "(string \<times> string) list"
  hr_body :: "u8 list"

datatype HttpError = HttpTimeout | HttpConnect string | HttpTransport string

definition http_error_to_string :: "HttpError \<Rightarrow> string" where
  "http_error_to_string e =
     (case e of
        HttpTimeout \<Rightarrow> ''http transport timeout''
      | HttpConnect m \<Rightarrow> ''http connect error: '' @ m
      | HttpTransport m \<Rightarrow> ''http transport error: '' @ m)"

record GoogleTokenResponse =
  gt_access_token :: string
  gt_token_type :: string
  gt_expires_in :: "nat option"
  gt_scope :: "string option"
  gt_id_token :: "string option"
  gt_refresh_token :: "string option"

record GoogleUserInfo =
  gu_id :: string
  gu_email :: string
  gu_verified_email :: "bool option"
  gu_name :: "string option"
  gu_picture :: "string option"

record 'w HttpClient =
  hc_send :: "HttpRequest \<Rightarrow> ('w, HttpError, HttpResponse) io"
  hc_token_response :: "u8 list \<Rightarrow> GoogleTokenResponse option"
  hc_user_info :: "u8 list \<Rightarrow> GoogleUserInfo option"

section \<open>The provider\<close>

definition AUTHORIZE_ENDPOINT :: string where
  "AUTHORIZE_ENDPOINT = ''https://accounts.google.com/o/oauth2/v2/auth''"

definition TOKEN_ENDPOINT :: string where
  "TOKEN_ENDPOINT = ''https://oauth2.googleapis.com/token''"

definition USERINFO_ENDPOINT :: string where
  "USERINFO_ENDPOINT = ''https://www.googleapis.com/oauth2/v2/userinfo''"

definition DEFAULT_SCOPES :: "string list" where
  "DEFAULT_SCOPES = [''openid'', ''email'', ''profile'']"

record 'w GoogleOAuthProvider =
  gp_client_id :: string
  gp_client_secret :: string
  gp_callback_url :: string
  gp_scope :: "string list"
  gp_http :: "'w HttpClient"

definition google_new :: "GoogleOAuthConfig \<Rightarrow> 'w HttpClient \<Rightarrow> 'w GoogleOAuthProvider" where
  "google_new config http =
     (let scope = (if go_scope config = [] then DEFAULT_SCOPES else go_scope config)
      in \<lparr>gp_client_id = go_client_id config, gp_client_secret = go_client_secret config,
          gp_callback_url = go_callback_url config, gp_scope = scope, gp_http = http\<rparr>)"

definition is_success :: "nat \<Rightarrow> bool" where
  "is_success status \<longleftrightarrow> 200 \<le> status \<and> status < 300"

definition map_http_error :: "HttpError \<Rightarrow> OAuthProviderError" where
  "map_http_error e = ProviderTransport (http_error_to_string e)"

definition google_send :: "'w GoogleOAuthProvider \<Rightarrow> HttpRequest \<Rightarrow> ('w, OAuthProviderError, HttpResponse) io" where
  "google_send G request = map_err map_http_error (hc_send (gp_http G) request)"

fun form_urlencode :: "(string \<times> string) list \<Rightarrow> string" where
  "form_urlencode [] = []"
| "form_urlencode [(k, v)] = oauth_percent_encode k @ CHR ''='' # oauth_percent_encode v"
| "form_urlencode ((k, v) # p # ps) =
     oauth_percent_encode k @ CHR ''='' # oauth_percent_encode v @ CHR ''&'' # form_urlencode (p # ps)"

fun join_spaces :: "string list \<Rightarrow> string" where
  "join_spaces [] = []"
| "join_spaces [s] = s"
| "join_spaces (s # t # ts) = s @ CHR '' '' # join_spaces (t # ts)"

definition authorize_pairs :: "'w GoogleOAuthProvider \<Rightarrow> string \<Rightarrow> string option \<Rightarrow> (string \<times> string) list" where
  "authorize_pairs G state code_challenge =
     [(''response_type'', ''code''), (''client_id'', gp_client_id G), (''redirect_uri'', gp_callback_url G),
      (''scope'', join_spaces (gp_scope G)), (''state'', state)] @
     (case code_challenge of
        None \<Rightarrow> []
      | Some c \<Rightarrow> [(''code_challenge'', c), (''code_challenge_method'', ''S256'')])"

definition google_authorize_url :: "'w GoogleOAuthProvider \<Rightarrow> string \<Rightarrow> string option \<Rightarrow> string" where
  "google_authorize_url G state code_challenge =
     AUTHORIZE_ENDPOINT @ CHR ''?'' # form_urlencode (authorize_pairs G state code_challenge)"

definition exchange_pairs :: "'w GoogleOAuthProvider \<Rightarrow> string \<Rightarrow> string option \<Rightarrow> (string \<times> string) list" where
  "exchange_pairs G code code_verifier =
     [(''code'', code), (''client_id'', gp_client_id G), (''client_secret'', gp_client_secret G),
      (''redirect_uri'', gp_callback_url G), (''grant_type'', ''authorization_code'')] @
     (case code_verifier of None \<Rightarrow> [] | Some verifier \<Rightarrow> [(''code_verifier'', verifier)])"

definition google_exchange_code ::
    "'w GoogleOAuthProvider \<Rightarrow> string \<Rightarrow> string option \<Rightarrow> ('w, OAuthProviderError, OAuthTokens) io" where
  "google_exchange_code G code code_verifier =
     rbind (google_send G \<lparr>hq_method = Post, hq_url = TOKEN_ENDPOINT,
         hq_headers = [(''content-type'', ''application/x-www-form-urlencoded''), (''accept'', ''application/json'')],
         hq_body = Some (as_bytes (form_urlencode (exchange_pairs G code code_verifier)))\<rparr>) (\<lambda>response.
       if \<not> is_success (hr_status response) then raise (ProviderHttp (hr_status response))
       else (case hc_token_response (gp_http G) (hr_body response) of
           None \<Rightarrow> raise (ProviderDecode ''token response'')
         | Some parsed \<Rightarrow>
             if \<not> eq_ignore_ascii_case (gt_token_type parsed) ''bearer''
             then raise (UnexpectedTokenType (gt_token_type parsed))
             else ret \<lparr>ot_access_token = gt_access_token parsed, ot_token_type = gt_token_type parsed,
               ot_expires_in = gt_expires_in parsed, ot_scope = gt_scope parsed, ot_id_token = gt_id_token parsed,
               ot_refresh_token = gt_refresh_token parsed\<rparr>))"

definition google_fetch_profile ::
    "'w GoogleOAuthProvider \<Rightarrow> string \<Rightarrow> ('w, OAuthProviderError, OAuthProfile) io" where
  "google_fetch_profile G access_token =
     rbind (google_send G \<lparr>hq_method = Get, hq_url = USERINFO_ENDPOINT,
         hq_headers = [(''authorization'', ''Bearer '' @ access_token), (''accept'', ''application/json'')],
         hq_body = None\<rparr>) (\<lambda>response.
       if \<not> is_success (hr_status response) then raise (ProviderHttp (hr_status response))
       else (case hc_user_info (gp_http G) (hr_body response) of
           None \<Rightarrow> raise (ProviderDecode ''userinfo response'')
         | Some parsed \<Rightarrow>
             if gu_verified_email parsed \<noteq> Some True then raise ProviderEmailNotVerified
             else ret \<lparr>op_provider = ''google'', op_provider_id = gu_id parsed, op_email = gu_email parsed,
               op_email_verified = True, op_name = gu_name parsed, op_avatar = gu_picture parsed\<rparr>))"

definition google_provider :: "'w GoogleOAuthProvider \<Rightarrow> 'w OAuthProvider" where
  "google_provider G =
     \<lparr>pv_name = ''google'', pv_authorize_url = google_authorize_url G, pv_exchange_code = google_exchange_code G,
      pv_fetch_profile = google_fetch_profile G\<rparr>"

end
