(* ===== verification/Oauth_Properties.thy ===== *)
theory Oauth_Properties
  imports Google_Provider Sample_Mfa
begin

text \<open>
  What sign-in through a provider promises: who comes out of a callback signed in, that a callback that is
  not bound to the browser or whose state is spent reaches no provider, and that every query the built-in
  provider writes reads back as the parameters it was made of.
\<close>

section \<open>Queries\<close>

lemma oauth_percent_encode_eq: "oauth_percent_encode = percent_encode"
proof -
  have "PERCENT_HEX = HEX_UPPER" by (simp add: PERCENT_HEX_def HEX_UPPER_def)
  then show ?thesis by (simp only: fun_eq_iff oauth_percent_encode_def percent_encode_def) simp
qed

text \<open>A reader of percent-encoded text and of form queries (RFC 3986, section 2.1).\<close>

definition upper_hex :: "char \<Rightarrow> nat option" where
  "upper_hex c = map_of (zip ''0123456789ABCDEF'' [0..<16]) c"

fun percent_decode :: "string \<Rightarrow> string option" where
  "percent_decode [] = Some []"
| "percent_decode (c # cs) =
     (if c = CHR ''%'' then
        (case cs of
           a # b # rest \<Rightarrow>
             (case (upper_hex a, upper_hex b, percent_decode rest) of
                (Some x, Some y, Some s) \<Rightarrow> Some (char_of (16 * x + y) # s)
              | _ \<Rightarrow> None)
         | _ \<Rightarrow> None)
      else map_option (\<lambda>s. c # s) (percent_decode cs))"

definition parse_pair :: "string \<Rightarrow> (string \<times> string) option" where
  "parse_pair s =
     (case split_once (CHR ''='') s of
        None \<Rightarrow> None
      | Some (k, v) \<Rightarrow>
          (case (percent_decode k, percent_decode v) of (Some k', Some v') \<Rightarrow> Some (k', v') | _ \<Rightarrow> None))"

definition parse_query :: "string \<Rightarrow> (string \<times> string) list option" where
  "parse_query q = those (map parse_pair (split_on (CHR ''&'') q))"

lemma upper_hex_nth: "i < 16 \<Longrightarrow> upper_hex (HEX_UPPER ! i) = Some i"
proof -
  assume "i < 16"
  moreover have "length HEX_UPPER = 16" "distinct HEX_UPPER" by (simp_all add: HEX_UPPER_def)
  ultimately show ?thesis
    unfolding upper_hex_def HEX_UPPER_def [symmetric] by (subst map_of_zip_nth) simp_all
qed

lemma percent_encode_simps:
  "percent_encode [] = []"
  "percent_encode (c # s) = (if is_unreserved c then [c]
     else [CHR ''%'', HEX_UPPER ! (of_char c div 16), HEX_UPPER ! (of_char c mod 16)]) @ percent_encode s"
  by (simp_all add: percent_encode_def Let_def lo_nibble_eq hi_nibble_eq unat_of_char)

lemma percent_round_trip: "percent_decode (percent_encode s) = Some s"
proof (induction s)
  case (Cons c s)
  have "(of_char c :: nat) < 256" by simp
  then have "(of_char c :: nat) div 16 < 16" by linarith
  moreover have "\<not> is_unreserved (CHR ''%'')" by (simp add: is_unreserved_def)
  ultimately show ?case
    using Cons by (auto simp: percent_encode_simps upper_hex_nth)
qed (simp add: percent_encode_simps)

lemma upper_hex_unreserved: "i < 16 \<Longrightarrow> is_unreserved (HEX_UPPER ! i)"
proof -
  assume "i < 16"
  then have "HEX_UPPER ! i \<in> set HEX_UPPER" by (intro nth_mem) (simp add: HEX_UPPER_def)
  moreover have "list_all is_unreserved HEX_UPPER" by code_simp
  ultimately show ?thesis by (simp add: list_all_iff)
qed

lemma percent_encode_free: "c \<in> set (percent_encode s) \<Longrightarrow> is_unreserved c \<or> c = CHR ''%''"
proof (induction s)
  case (Cons d s)
  have "(of_char d :: nat) < 256" by simp
  then have "(of_char d :: nat) div 16 < 16" by linarith
  with Cons show ?case by (auto simp: percent_encode_simps upper_hex_unreserved split: if_splits)
qed (simp add: percent_encode_simps)

lemma percent_encode_separators: "CHR ''&'' \<notin> set (percent_encode s)" "CHR ''='' \<notin> set (percent_encode s)"
  using percent_encode_free [of "CHR ''&''" s] percent_encode_free [of "CHR ''=''" s] by (auto simp: is_unreserved_def)

lemma parse_pair_encoded: "parse_pair (percent_encode k @ CHR ''='' # percent_encode v) = Some (k, v)"
  by (simp add: parse_pair_def split_once_append percent_encode_separators percent_round_trip)

lemma form_round_trip: "pairs \<noteq> [] \<Longrightarrow> parse_query (form_urlencode pairs) = Some pairs"
proof (induction pairs rule: form_urlencode.induct)
  case (2 k v)
  then show ?case
    by (simp add: parse_query_def oauth_percent_encode_eq split_on_no_sep percent_encode_separators parse_pair_encoded)
next
  case (3 k v p ps)
  have "split_on (CHR ''&'') ((percent_encode k @ CHR ''='' # percent_encode v) @ CHR ''&'' # form_urlencode (p # ps)) =
      (percent_encode k @ CHR ''='' # percent_encode v) # split_on (CHR ''&'') (form_urlencode (p # ps))"
    by (rule split_on_sep) (simp add: percent_encode_separators)
  with 3 show ?case
    by (simp add: parse_query_def oauth_percent_encode_eq parse_pair_encoded)
qed simp

text \<open>
  C39. Whatever the client id, the redirect address, the scopes, the state and the challenge hold, the query
  of the authorize address reads back as exactly the parameters it was made of, and so does the body of
  the code exchange: no value can close its field and add or replace another one.
\<close>

theorem google_queries_read_back:
  "\<exists>q. google_authorize_url G state code_challenge = AUTHORIZE_ENDPOINT @ CHR ''?'' # q \<and>
     parse_query q = Some (authorize_pairs G state code_challenge) \<and>
     parse_query (form_urlencode (exchange_pairs G code code_verifier)) = Some (exchange_pairs G code code_verifier)"
proof -
  have "authorize_pairs G state code_challenge \<noteq> []" "exchange_pairs G code code_verifier \<noteq> []"
    by (simp_all add: authorize_pairs_def exchange_pairs_def)
  then show ?thesis by (simp add: google_authorize_url_def form_round_trip)
qed

section \<open>The callback\<close>

lemma assemble_provider: "resolve_oauth_provider E name = Inr p \<longleftrightarrow>
    is_valid_provider_name name \<and> map_of (en_oauth_providers E) name = Some p"
  by (auto simp: resolve_oauth_provider_def split: option.splits)

lemma finish_oauth_login_Inr:
  assumes "finish_oauth_login E user ctx hook_ctx s = (Inr out, t)"
  shows "assert_user_not_blocked E (au_status user) = Inr ()"
    and "ev_required (ac_email_verification (cfg E)) \<longrightarrow> au_email_verified user"
    and "case out of Authenticated r \<Rightarrow> \<not> au_mfa_enabled user \<and> ar_user r = safe_user user
      | OAuthMfaChallenge c \<Rightarrow> au_mfa_enabled user \<and> mcr_mfa_required c"
  using assms by (auto simp: finish_oauth_login_def flow_inv Let_def lift_result_def dest: issue_tokens_user split: if_splits)

text \<open>The account a decision ends in: one the application created, or one the identity is bound to already.\<close>

definition decided ::
    "('r, 'w) AuthEngine \<Rightarrow> OAuthLoginResult \<Rightarrow> string \<Rightarrow> OAuthProfile \<Rightarrow> string \<Rightarrow> AuthUser option \<Rightarrow> AuthUser \<Rightarrow> bool" where
  "decided E decision name profile tenant existing user \<longleftrightarrow>
     (decision = OAuth_Create \<and>
       (\<exists>data w w'. ur_create_with_oauth (en_user_repository E) data w = (Inr user, w') \<and> co_tenant_id data = tenant \<and>
         co_email data = op_email profile \<and> co_oauth_provider data = name \<and> co_oauth_provider_id data = op_provider_id profile)) \<or>
     (decision = OAuth_Link \<and>
       (\<exists>bound w w'. existing = Some bound \<and>
         ur_find_by_id (en_user_repository E) (au_id bound) (Some tenant) w = (Inr (Some user), w')))"

lemma execute_oauth_decision_Inr:
  assumes "execute_oauth_decision E decision name profile tenant existing s = (Inr user, t)"
  shows "decided E decision name profile tenant existing user"
proof (cases decision)
  case OAuth_Create
  with assms show ?thesis
    by (auto simp: execute_oauth_decision_def decided_def flow_inv intro!: exI)
next
  case OAuth_Link
  with assms show ?thesis
    by (auto simp: execute_oauth_decision_def decided_def flow_inv)
next
  case (OAuth_Reject reason)
  with assms show ?thesis by (simp add: execute_oauth_decision_def)
qed

lemma redeem_oauth_state_Inr:
  assumes "redeem_oauth_state E p code payload ctx s = (Inr out, t)"
  obtains tokens w1 profile w2 existing w3 hook_ctx decision w4 user s1 where
    "pv_exchange_code p code (Some (sp_code_verifier payload)) (es_app s) = (Inr tokens, w1)"
    and "pv_fetch_profile p (ot_access_token tokens) w1 = (Inr profile, w2)"
    and "ur_find_by_oauth_id (en_user_repository E) (pv_name p) (op_provider_id profile) (sp_tenant_id payload) w2 = (Inr existing, w3)"
    and "hk_on_oauth_login (en_hooks E) profile (map_option safe_user existing) hook_ctx w3 = (Inr decision, w4)"
    and "decided E decision (pv_name p) profile (sp_tenant_id payload) existing user"
    and "finish_oauth_login E user ctx hook_ctx s1 = (Inr out, t)"
  using assms by (auto simp: redeem_oauth_state_def Let_def flow_inv dest!: execute_oauth_decision_Inr)

text \<open>A callback that is not bound to the browser by the cookie fails before it touches anything.\<close>

lemma unbound_callback:
  assumes "jws_service (lib_jws (el_token (en_libs E)))" and "state_cookie \<noteq> Some state \<or> \<not> is_oauth_state_shape state"
  shows "oauth_callback E provider code state state_cookie ctx s = (Inl AuthError.OauthFailed, s)"
proof (cases "resolve_oauth_provider E provider")
  case (Inl e)
  then have "e = AuthError.OauthFailed" by (auto simp: resolve_oauth_provider_def split: if_splits option.splits)
  with Inl show ?thesis by (simp add: oauth_callback_def rbind_def lift_result_def)
next
  case (Inr p)
  with assms show ?thesis
    by (auto simp: oauth_callback_def rbind_def lift_result_def jws_service.constant_time_eq split: option.split)
qed

section \<open>A sign-in of the sample deployment\<close>

definition sample_http :: "unit HttpClient" where
  "sample_http =
     \<lparr>hc_send = (\<lambda>_. ret \<lparr>hr_status = 200, hr_headers = [], hr_body = []\<rparr>),
      hc_token_response = (\<lambda>_. Some \<lparr>gt_access_token = ''at'', gt_token_type = ''Bearer'', gt_expires_in = None, gt_scope = None,
        gt_id_token = None, gt_refresh_token = None\<rparr>),
      hc_user_info = (\<lambda>_. Some \<lparr>gu_id = ''g1'', gu_email = ''ann@acme.test'', gu_verified_email = Some True, gu_name = None,
        gu_picture = None\<rparr>)\<rparr>"

definition sample_google :: "unit OAuthProvider" where
  "sample_google = google_provider (google_new \<lparr>go_client_id = ''id'', go_client_secret = ''secret'',
     go_callback_url = ''https://acme.test/cb'', go_scope = []\<rparr> sample_http)"

definition linking_engine :: "(mem, unit) AuthEngine" where
  "linking_engine = sample_engine
     \<lparr>en_oauth_providers := [(''google'', sample_google)], en_oauth_state_store := Some mem_stores,
      en_hooks := no_op_hooks\<lparr>hk_on_oauth_login := (\<lambda>_ _ _. ret OAuth_Link)\<rparr>,
      en_user_repository := sample_directory\<lparr>ur_find_by_oauth_id := (\<lambda>_ _ _. ret (Some sample_account))\<rparr>\<rparr>"

lemma linking_engine_sel [simp]:
  "en_oauth_providers linking_engine = [(''google'', sample_google)]" "en_oauth_state_store linking_engine = Some mem_stores"
  "en_libs linking_engine = sample_libs" "cfg linking_engine = sample_config" "en_tokens linking_engine = en_tokens sample_engine"
  "hk_on_oauth_login (en_hooks linking_engine) = (\<lambda>_ _ _. ret OAuth_Link)"
  "ur_find_by_oauth_id (en_user_repository linking_engine) = (\<lambda>_ _ _. ret (Some sample_account))"
  "ur_find_by_id (en_user_repository linking_engine) = ur_find_by_id sample_directory"
  "ur_link_oauth (en_user_repository linking_engine) = ur_link_oauth sample_directory"
  by (simp_all add: linking_engine_def)

lemma sample_google_sel [simp]:
  "pv_name sample_google = ''google''"
  "\<exists>tokens. pv_exchange_code sample_google code v w = (Inr tokens, w)"
  "\<exists>profile. pv_fetch_profile sample_google token w = (Inr profile, w)"
proof -
  have "eq_ignore_ascii_case ''Bearer'' ''bearer''" by code_simp
  then show "pv_name sample_google = ''google''" "\<exists>tokens. pv_exchange_code sample_google code v w = (Inr tokens, w)"
    "\<exists>profile. pv_fetch_profile sample_google token w = (Inr profile, w)"
    by (simp_all add: sample_google_def google_provider_def google_exchange_code_def google_fetch_profile_def google_new_def google_send_def
        sample_http_def rbind_def map_err_def is_success_def)
qed

lemma drawn_state_shape: "length b = 32 \<Longrightarrow> is_oauth_state_shape (to_hex b)"
  using to_hex_lower [of b] by (simp add: is_oauth_state_shape_def is_lower_hex_def [abs_def])

abbreviation first_state :: string where
  "first_state \<equiv> to_hex (map of_nat [0..<32])"

lemma sample_oauth_initiate:
  "\<exists>url payload raw h. oauth_initiate linking_engine ''google'' (Some ''t1'') sample_request sample_start =
       (Inr \<lparr>or_authorize_url = url, or_state = first_state\<rparr>, sample_start\<lparr>es_host := h\<rparr>) \<and>
     enc_val oauth_state_codec payload = Some raw \<and> sp_provider payload = ''google'' \<and> sp_tenant_id payload = ''t1'' \<and>
     store_client h = \<lparr>server = Map.empty(key ''auth'' Os (state_key linking_engine first_state) \<mapsto>
       (MStr raw, Some OAUTH_STATE_TTL_SECS)), net = []\<rparr> \<and> clock h = clock (demo_host 1000 Map.empty)"
proof -
  have name: "is_valid_provider_name ''google''" by code_simp
  define v where "v = to_hex (map (\<lambda>i. 32 + of_nat i :: u8) [0..<32])"
  obtain raw where raw: "enc_val oauth_state_codec \<lparr>sp_provider = ''google'', sp_tenant_id = ''t1'', sp_code_verifier = v\<rparr> = Some raw"
    by (simp add: oauth_state_codec_def)
  have state: "generate_state sample_start = (Inr first_state, sample_start\<lparr>es_host := (es_host sample_start)\<lparr>entropy := \<lambda>i. 32 + of_nat i\<rparr>\<rparr>)"
    by (simp add: generate_state_def rbind_def on_host_apply random_bytes_def OAUTH_RANDOM_BYTES_def sample_start_def demo_host_def)
  have pkce: "\<exists>c h. generate_pkce linking_engine (sample_start\<lparr>es_host := (es_host sample_start)\<lparr>entropy := \<lambda>i. 32 + of_nat i\<rparr>\<rparr>) =
      (Inr (v, c), sample_start\<lparr>es_host := h\<rparr>) \<and> store_client h = \<lparr>server = Map.empty, net = []\<rparr> \<and> clock h = clock (demo_host 1000 Map.empty)"
    by (simp add: generate_pkce_def rbind_def on_host_apply random_bytes_def OAUTH_RANDOM_BYTES_def sample_start_def v_def Let_def)
       (simp add: demo_host_def)
  then obtain c h where pkce: "generate_pkce linking_engine (sample_start\<lparr>es_host := (es_host sample_start)\<lparr>entropy := \<lambda>i. 32 + of_nat i\<rparr>\<rparr>) =
      (Inr (v, c), sample_start\<lparr>es_host := h\<rparr>)" "store_client h = \<lparr>server = Map.empty, net = []\<rparr>" "clock h = clock (demo_host 1000 Map.empty)" by blast
  have put: "put_state mem_stores (state_key linking_engine first_state) raw OAUTH_STATE_TTL_SECS (store_client h) =
      (Inr (), \<lparr>server = Map.empty(key ''auth'' Os (state_key linking_engine first_state) \<mapsto>
       (MStr raw, Some OAUTH_STATE_TTL_SECS)), net = []\<rparr>)"
    by (simp add: put_state_def put_state_inner_def pkce(2) run_simps mem_redis_def)
  have "oauth_initiate linking_engine ''google'' (Some ''t1'') sample_request sample_start =
      (Inr \<lparr>or_authorize_url = pv_authorize_url sample_google first_state (Some c), or_state = first_state\<rparr>,
       sample_start\<lparr>es_host := h\<lparr>store_client := \<lparr>server = Map.empty(key ''auth'' Os (state_key linking_engine first_state) \<mapsto>
       (MStr raw, Some OAUTH_STATE_TTL_SECS)), net = []\<rparr>\<rparr>\<rparr>)"
    using name raw put
    by (simp add: oauth_initiate_def resolve_oauth_provider_def rbind_def lift_result_def resolve_tenant_def state pkce(1)
        require_oauth_state_store_def on_host_apply on_store_def)
  then show ?thesis using raw pkce(3) by fastforce
qed

lemma sample_oauth_callback:
  assumes "oauth_initiate linking_engine ''google'' (Some ''t1'') sample_request sample_start = (Inr redirect, s1)"
  shows "\<exists>r t. oauth_callback linking_engine ''google'' ''code'' (or_state redirect) (Some (or_state redirect)) sample_request s1 =
    (Inr (Authenticated r), t)"
proof -
  let ?k = "key ''auth'' Os (state_key linking_engine first_state)"
  obtain payload raw h where state: "or_state redirect = first_state" and s1: "s1 = sample_start\<lparr>es_host := h\<rparr>"
    and raw: "enc_val oauth_state_codec payload = Some raw" and payload: "sp_provider payload = ''google''" "sp_tenant_id payload = ''t1''"
    and h: "store_client h = \<lparr>server = Map.empty(?k \<mapsto> (MStr raw, Some OAUTH_STATE_TTL_SECS)), net = []\<rparr>"
      "clock h = clock (demo_host 1000 Map.empty)"
    using sample_oauth_initiate assms by fastforce
  define h1 where "h1 = h\<lparr>store_client := \<lparr>server = Map.empty, net = []\<rparr>\<rparr>"
  have take: "take_state mem_stores (state_key linking_engine first_state) (store_client h) = (Inr (Some raw), store_client h1)"
    by (simp add: take_state_def take_state_inner_def h run_simps mem_redis_def m_str_def h1_def)
  have name: "is_valid_provider_name ''google''" by code_simp
  have shape: "is_oauth_state_shape first_state" by (rule drawn_state_shape) simp
  have dec: "dec_val oauth_state_codec raw = Some payload" using raw by (rule oauth_state_values.dec_enc)
  obtain r h2 where issue: "issue_tokens (en_tokens sample_engine) (safe_user sample_account) ''10.0.0.1'' ''ua'' False Proved h1 = (Inr r, h2)"
    using sample_issuing.issue_tokens_run [of h1 "safe_user sample_account" 0 "''10.0.0.1''" "''ua''" False Proved]
      demo_empty(2-5) [unfolded mem_view_empty] instant_ok_demo
    by (auto simp: h1_def h(2) mem_view_empty)
  have "fst (finish_oauth_login linking_engine sample_account sample_request hook_ctx (sample_start\<lparr>es_host := h1\<rparr>)) = Inr (Authenticated r)" for hook_ctx
    using issue sample_status
    by (simp add: finish_oauth_login_def rbind_def lift_result_def assert_user_not_blocked_def sample_account_def Let_def on_host_apply
        sample_request_def enforce_sessions_after_issue_def spawn_guarded_def)
  moreover have "execute_oauth_decision linking_engine OAuth_Link name profile tenant (Some sample_account) s = (Inr sample_account, s)" for name profile tenant s
    by (simp add: execute_oauth_decision_def rbind_def repository_def map_err_def on_app_def sample_directory_def sample_users_def unit_app)
  moreover obtain tokens where "pv_exchange_code sample_google ''code'' (Some (sp_code_verifier payload)) () = (Inr tokens, ())"
    using sample_google_sel(2) by blast
  moreover obtain profile where "pv_fetch_profile sample_google (ot_access_token tokens) () = (Inr profile, ())"
    using sample_google_sel(3) by blast
  ultimately have "fst (redeem_oauth_state linking_engine sample_google ''code'' payload sample_request (sample_start\<lparr>es_host := h1\<rparr>)) = Inr (Authenticated r)"
    by (simp add: redeem_oauth_state_def Let_def rbind_def map_err_def repository_def on_app_def unit_app)
  then have "fst (oauth_callback linking_engine ''google'' ''code'' first_state (Some first_state) sample_request s1) = Inr (Authenticated r)"
    using name shape take dec payload
    by (simp add: oauth_callback_def rbind_def lift_result_def resolve_oauth_provider_def require_oauth_state_store_def s1
        on_host_apply on_store_def sample_signing.constant_time_eq h1_def)
  then show ?thesis unfolding state by (metis prod.collapse)
qed

section \<open>Who is signed in\<close>

text \<open>
  C14. Who a provider callback signs in. Whatever the network, the provider and the application do, a
  callback that answers named a registered provider, carried a well-formed state equal to the one in
  the browser's cookie, and took the record of that very state from the store, which names the same
  provider. The code was exchanged with the verifier of that record and the profile read with the
  token the exchange gave. The account is one the application's hook decided on: created for that
  profile in the tenant of the record, or the account of that tenant the identity was bound to. It is in no
  blocked status and, where the deployment requires it, its address is verified; it is answered with
  a session when it has no second factor, and only with a challenge when it has one.
\<close>

theorem oauth_callback_granted:
  assumes "jws_service (lib_jws (el_token (en_libs E)))"
    and "oauth_callback E provider code state state_cookie ctx s = (Inr out, t)"
  shows "\<exists>p store raw c payload tokens w1 profile w2 existing w3 hook_ctx decision w4 user.
    is_valid_provider_name provider \<and> map_of (en_oauth_providers E) provider = Some p \<and>
    is_oauth_state_shape state \<and> state_cookie = Some state \<and> en_oauth_state_store E = Some store \<and>
    take_state store (state_key E state) (store_client (es_host s)) = (Inr (Some raw), c) \<and>
    dec_val (el_oauth_state (en_libs E)) raw = Some payload \<and> sp_provider payload = pv_name p \<and>
    pv_exchange_code p code (Some (sp_code_verifier payload)) (es_app s) = (Inr tokens, w1) \<and>
    pv_fetch_profile p (ot_access_token tokens) w1 = (Inr profile, w2) \<and>
    ur_find_by_oauth_id (en_user_repository E) (pv_name p) (op_provider_id profile) (sp_tenant_id payload) w2 = (Inr existing, w3) \<and>
    hk_on_oauth_login (en_hooks E) profile (map_option safe_user existing) hook_ctx w3 = (Inr decision, w4) \<and>
    decided E decision (pv_name p) profile (sp_tenant_id payload) existing user \<and>
    assert_user_not_blocked E (au_status user) = Inr () \<and>
    (ev_required (ac_email_verification (cfg E)) \<longrightarrow> au_email_verified user) \<and>
    (case out of Authenticated r \<Rightarrow> \<not> au_mfa_enabled user \<and> ar_user r = safe_user user
     | OAuthMfaChallenge c \<Rightarrow> au_mfa_enabled user \<and> mcr_mfa_required c)"
proof -
  have bound: "state_cookie = Some state" "is_oauth_state_shape state"
    using unbound_callback [OF assms(1)] assms(2) by (metis Inl_Inr_False prod.inject)+
  from assms(2) obtain p store raw c payload where
    p: "is_valid_provider_name provider" "map_of (en_oauth_providers E) provider = Some p"
    and store: "en_oauth_state_store E = Some store"
      "take_state store (state_key E state) (store_client (es_host s)) = (Inr (Some raw), c)"
      "dec_val (el_oauth_state (en_libs E)) raw = Some payload" "sp_provider payload = pv_name p"
    and redeem: "redeem_oauth_state E p code payload ctx (s\<lparr>es_host := (es_host s)\<lparr>store_client := c\<rparr>\<rparr>) = (Inr out, t)"
    by (auto simp: oauth_callback_def flow_inv lift_result_def assemble_provider require_oauth_state_store_def
        split: if_splits option.splits)
  from redeem show ?thesis
    by (rule redeem_oauth_state_Inr, simp)
      (use bound p store finish_oauth_login_Inr in metis)
qed

theorem oauth_callback_granted_witness:
  "\<exists>redirect s1 r t. oauth_initiate linking_engine ''google'' (Some ''t1'') sample_request sample_start = (Inr redirect, s1) \<and>
     oauth_callback linking_engine ''google'' ''code'' (or_state redirect) (Some (or_state redirect)) sample_request s1 =
       (Inr (Authenticated r), t) \<and> ar_user r = safe_user sample_account"
proof -
  obtain redirect s1 where redirect: "oauth_initiate linking_engine ''google'' (Some ''t1'') sample_request sample_start = (Inr redirect, s1)"
    using sample_oauth_initiate by blast
  obtain r t where run: "oauth_callback linking_engine ''google'' ''code'' (or_state redirect) (Some (or_state redirect)) sample_request s1 =
      (Inr (Authenticated r), t)"
    using sample_oauth_callback [OF redirect] by blast
  have "jws_service (lib_jws (el_token (en_libs linking_engine)))" using sample_signing.jws_service_axioms by simp
  from oauth_callback_granted [OF this run] have "ar_user r = safe_user sample_account"
    by (auto simp: decided_def sample_directory_def split: if_splits)
  with redirect run show ?thesis by blast
qed

end
