(* ===== verification/Api_Key.thy ===== *)
theory Api_Key
  imports Service_Core
begin

text \<open>
  Service API keys (\<open>bymax-auth-crypto/src/api_key.rs\<close>): the grammar of a key, the digest that is stored
  for its secret, and the comparison of digests. Strings are their bytes: a slice that would split a
  character is refused by the source, and here by the byte that follows it, which is no separator.
\<close>

section \<open>The grammar\<close>

definition SEPARATOR :: char where
  "SEPARATOR = CHR ''_''"

definition DEFAULT_PREFIX :: string where
  "DEFAULT_PREFIX = ''bak''"

definition KEY_ID_LEN :: nat where
  "KEY_ID_LEN = 36"

definition SECRET_LEN :: nat where
  "SECRET_LEN = 43"

definition DIGEST_LEN :: nat where
  "DIGEST_LEN = 32"

definition SECRET_BYTES :: nat where
  "SECRET_BYTES = 32"

definition DIGEST_HEX_LEN :: nat where
  "DIGEST_HEX_LEN = DIGEST_LEN * 2"

definition DUMMY_KEY_ID :: string where
  "DUMMY_KEY_ID = ''00000000-0000-4000-8000-000000000000''"

definition DUMMY_SECRET :: string where
  "DUMMY_SECRET = ''AAAAAAAAAAAAAAAAAAAAAAAAAAAAAAAAAAAAAAAAAAA''"

definition DUMMY_DIGEST :: string where
  "DUMMY_DIGEST = ''0000000000000000000000000000000000000000000000000000000000000000''"

definition BASE64URL :: string where
  "BASE64URL = ''ABCDEFGHIJKLMNOPQRSTUVWXYZabcdefghijklmnopqrstuvwxyz0123456789-_''"

record ParsedApiKey =
  pk_key_id :: string
  pk_secret :: string

text \<open>Three bytes make one group of 24 bits, read as four indices of six bits; a short chunk gives one more character than it has bytes.\<close>

definition six_bit_groups :: "nat \<Rightarrow> nat list" where
  "six_bit_groups n = [n div 262144 mod 64, n div 4096 mod 64, n div 64 mod 64, n mod 64]"

definition group_chars :: "nat \<Rightarrow> u8 \<Rightarrow> u8 \<Rightarrow> u8 \<Rightarrow> string" where
  "group_chars len b0 b1 b2 =
     (let n = unat b0 * 65536 + unat b1 * 256 + unat b2
      in map (\<lambda>index. BASE64URL ! index) (take (len + 1) (six_bit_groups n)))"

fun encode_base64url :: "u8 list \<Rightarrow> string" where
  "encode_base64url [] = []"
| "encode_base64url [b0] = group_chars 1 b0 0 0"
| "encode_base64url [b0, b1] = group_chars 2 b0 b1 0"
| "encode_base64url (b0 # b1 # b2 # bytes) = group_chars 3 b0 b1 b2 @ encode_base64url bytes"

definition generate_secret :: "('r host, 'e, string) io" where
  "generate_secret = rbind (random_bytes SECRET_BYTES) (\<lambda>bytes. ret (encode_base64url bytes))"

definition format_api_key :: "string \<Rightarrow> string \<Rightarrow> string \<Rightarrow> string" where
  "format_api_key prefix key_id secret = prefix @ SEPARATOR # key_id @ SEPARATOR # secret"

definition is_key_id :: "string \<Rightarrow> bool" where
  "is_key_id s \<longleftrightarrow> length s = KEY_ID_LEN \<and>
     list_all (\<lambda>(i, b). if i \<in> {8, 13, 18, 23} then b = CHR ''-'' else is_lower_hex b) (List.enumerate 0 s)"

definition is_secret :: "string \<Rightarrow> bool" where
  "is_secret s \<longleftrightarrow> length s = SECRET_LEN \<and> list_all (\<lambda>b. b \<in> set BASE64URL) s"

definition parse_api_key :: "string \<Rightarrow> string \<Rightarrow> ParsedApiKey option" where
  "parse_api_key raw prefix =
     (case strip_prefix prefix raw of
        None \<Rightarrow> None
      | Some stripped \<Rightarrow>
          (case strip_prefix [SEPARATOR] stripped of
             None \<Rightarrow> None
           | Some rest \<Rightarrow>
               if length rest < KEY_ID_LEN then None
               else
                 let key_id = take KEY_ID_LEN rest in
                 if \<not> (KEY_ID_LEN < length rest \<and> rest ! KEY_ID_LEN = SEPARATOR) then None
                 else
                   let secret = drop (KEY_ID_LEN + 1) rest in
                   if is_key_id key_id \<and> is_secret secret then Some \<lparr>pk_key_id = key_id, pk_secret = secret\<rparr>
                   else None))"

section \<open>The digest\<close>

definition api_key_digest :: "jws_lib \<Rightarrow> string \<Rightarrow> string \<Rightarrow> string" where
  "api_key_digest L secret pepper = encode_hex (hmac_sha256 L (as_bytes pepper) (as_bytes secret))"

definition nibble :: "char \<Rightarrow> u8" where
  "nibble c = (let b = of_char c :: u8 in if 48 \<le> b \<and> b \<le> 57 then b - 48 else b - 97 + 10)"

fun decode_pairs :: "string \<Rightarrow> u8 list" where
  "decode_pairs (a # b # rest) = (nibble a * 16 + nibble b) # decode_pairs rest"
| "decode_pairs _ = []"

definition decode_digest :: "string \<Rightarrow> u8 list \<times> bool" where
  "decode_digest hex =
     (let well_formed = (length hex = DIGEST_HEX_LEN \<and> list_all is_lower_hex hex)
      in (if well_formed then decode_pairs hex else replicate DIGEST_LEN 0, well_formed))"

definition digests_match :: "jws_lib \<Rightarrow> string \<Rightarrow> string \<Rightarrow> bool" where
  "digests_match L computed stored =
     (let (left, left_ok) = decode_digest computed; (right, right_ok) = decode_digest stored;
          equal = constant_time_eq L left right
      in equal \<and> left_ok \<and> right_ok)"

section \<open>Secrets\<close>

lemma base64url_alphabet: "length BASE64URL = 64" "distinct BASE64URL"
  by (simp_all add: BASE64URL_def)

lemma groups_below: "set (take k (six_bit_groups n)) \<subseteq> {..<64}"
  by (rule order_trans [OF set_take_subset]) (simp add: six_bit_groups_def)

lemma group_chars_shape: "len \<le> 3 \<Longrightarrow> length (group_chars len b0 b1 b2) = len + 1"
    "set (group_chars len b0 b1 b2) \<subseteq> set BASE64URL"
proof -
  have "set (group_chars len b0 b1 b2) \<subseteq> (!) BASE64URL ` {..<64}"
    unfolding group_chars_def Let_def set_map by (intro image_mono groups_below)
  also have "\<dots> \<subseteq> set BASE64URL" using base64url_alphabet(1) by (auto intro!: nth_mem)
  finally show "set (group_chars len b0 b1 b2) \<subseteq> set BASE64URL" .
qed (simp add: group_chars_def Let_def six_bit_groups_def)

lemma encode_base64url_shape:
  "length (encode_base64url bs) = length bs div 3 * 4 + (if length bs mod 3 = 0 then 0 else length bs mod 3 + 1)"
  "set (encode_base64url bs) \<subseteq> set BASE64URL"
  by (induction bs rule: encode_base64url.induct)
    (use group_chars_shape in \<open>auto simp: div_add_self1 mod_add_self1\<close>)

lemma encoded_is_secret: "length bs = 32 \<Longrightarrow> is_secret (encode_base64url bs)"
  using encode_base64url_shape [of bs] by (auto simp: is_secret_def SECRET_LEN_def list_all_iff)

text \<open>No two secrets of one length are written alike.\<close>

lemma six_bits:
  fixes n m :: nat
  assumes "n < 2 ^ 24" "m < 2 ^ 24" "n div 262144 mod 64 = m div 262144 mod 64" "n div 4096 mod 64 = m div 4096 mod 64"
    "n div 64 mod 64 = m div 64 mod 64" "n mod 64 = m mod 64"
  shows "n = m"
proof -
  have levels: "k div 4096 = k div 64 div 64" "k div 262144 = k div 64 div 64 div 64" for k :: nat
    by (simp_all add: div_mult2_eq [symmetric])
  have top: "k div 262144 < 64" if "k < 2 ^ 24" for k :: nat using that by (simp add: less_mult_imp_div_less)
  have "n div 262144 = m div 262144" using assms(3) top [OF assms(1)] top [OF assms(2)] by simp
  then have "n div 4096 = m div 4096" using assms(4) unfolding levels by (metis div_mult_mod_eq)
  then have "n div 64 = m div 64" using assms(5) unfolding levels by (metis div_mult_mod_eq)
  then show ?thesis using assms(6) by (metis div_mult_mod_eq)
qed

lemma bytes_of_group:
  fixes b0 b1 b2 c0 c1 c2 :: u8
  assumes "unat b0 * 65536 + unat b1 * 256 + unat b2 = unat c0 * 65536 + unat c1 * 256 + unat c2"
  shows "b0 = c0 \<and> b1 = c1 \<and> b2 = c2"
proof -
  have "unat b < 256" for b :: u8 using unsigned_less [of b] by simp
  note small = this [of b0] this [of b1] this [of b2] this [of c0] this [of c1] this [of c2]
  have "unat b0 = unat c0" using small assms by linarith
  moreover from this have "unat b1 = unat c1" using small assms by linarith
  ultimately show ?thesis using assms by (simp add: word_unat_eq_iff)
qed

lemma group_bound: "unat (b0 :: u8) * 65536 + unat (b1 :: u8) * 256 + unat (b2 :: u8) < 2 ^ 24"
proof -
  have "unat b < 256" for b :: u8 using unsigned_less [of b] by simp
  from this [of b0] this [of b1] this [of b2] show ?thesis by simp
qed

lemma group_chars_take:
  "group_chars len b0 b1 b2 = map ((!) BASE64URL) (take (len + 1) (six_bit_groups (unat b0 * 65536 + unat b1 * 256 + unat b2)))"
  by (simp add: group_chars_def Let_def)

lemma alphabet_map_inj:
  assumes "set xs \<subseteq> {..<64}" and "set ys \<subseteq> {..<64}" and "map ((!) BASE64URL) xs = map ((!) BASE64URL) ys"
  shows "xs = ys"
proof -
  have "inj_on ((!) BASE64URL) {..<64}" using base64url_alphabet by (simp add: inj_on_nth)
  then have "inj_on ((!) BASE64URL) (set xs \<union> set ys)" by (rule inj_on_subset) (use assms in blast)
  with assms(3) show ?thesis by (rule map_inj_on)
qed

text \<open>A short group is the full one padded with zero bytes, whose last indices are zero.\<close>

lemma short_groups: "six_bit_groups (a * 65536) = take 2 (six_bit_groups (a * 65536)) @ [0, 0]"
    "six_bit_groups (a * 65536 + b * 256) = take 3 (six_bit_groups (a * 65536 + b * 256)) @ [0]"
proof -
  have "(a * 65536 + b * 256) mod 64 = 0" by (simp add: mod_eq_0_iff_dvd)
  then show "six_bit_groups (a * 65536 + b * 256) = take 3 (six_bit_groups (a * 65536 + b * 256)) @ [0]"
    by (simp add: six_bit_groups_def)
qed (simp add: six_bit_groups_def mod_eq_0_iff_dvd)

lemma groups_inj:
  fixes b0 b1 b2 c0 c1 c2 :: u8
  assumes "six_bit_groups (unat b0 * 65536 + unat b1 * 256 + unat b2) = six_bit_groups (unat c0 * 65536 + unat c1 * 256 + unat c2)"
  shows "b0 = c0 \<and> b1 = c1 \<and> b2 = c2"
  using six_bits [OF group_bound [of b0 b1 b2] group_bound [of c0 c1 c2]] assms
  by (intro bytes_of_group) (simp add: six_bit_groups_def)

lemma group_chars_inj:
  "group_chars 3 b0 b1 b2 = group_chars 3 c0 c1 c2 \<longleftrightarrow> b0 = c0 \<and> b1 = c1 \<and> b2 = c2"
  "group_chars 2 b0 b1 0 = group_chars 2 c0 c1 0 \<longleftrightarrow> b0 = c0 \<and> b1 = c1"
  "group_chars 1 b0 0 0 = group_chars 1 c0 0 0 \<longleftrightarrow> b0 = c0"
proof -
  have part: "group_chars len b0 b1 b2 = group_chars len c0 c1 c2 \<Longrightarrow>
      take (len + 1) (six_bit_groups (unat b0 * 65536 + unat b1 * 256 + unat b2)) =
      take (len + 1) (six_bit_groups (unat c0 * 65536 + unat c1 * 256 + unat c2))" for len b0 b1 b2 c0 c1 c2
    unfolding group_chars_take by (rule alphabet_map_inj [OF groups_below groups_below])
  have full: "take (3 + 1) (six_bit_groups n) = six_bit_groups n" for n by (simp add: six_bit_groups_def)
  show "group_chars 3 b0 b1 b2 = group_chars 3 c0 c1 c2 \<longleftrightarrow> b0 = c0 \<and> b1 = c1 \<and> b2 = c2"
    using part [of 3 b0 b1 b2 c0 c1 c2] groups_inj [of b0 b1 b2 c0 c1 c2] unfolding full by blast
  show "group_chars 2 b0 b1 0 = group_chars 2 c0 c1 0 \<longleftrightarrow> b0 = c0 \<and> b1 = c1"
    using part [of 2 b0 b1 0 c0 c1 0] groups_inj [of b0 b1 0 c0 c1 0]
      short_groups(2) [of "unat b0" "unat b1"] short_groups(2) [of "unat c0" "unat c1"] by auto
  show "group_chars 1 b0 0 0 = group_chars 1 c0 0 0 \<longleftrightarrow> b0 = c0"
    using part [of 1 b0 0 0 c0 0 0] groups_inj [of b0 0 0 c0 0 0] short_groups(1) [of "unat b0"] short_groups(1) [of "unat c0"]
    by (auto simp: numeral_2_eq_2)
qed

lemma encode_base64url_inj:
  "length bs = length cs \<Longrightarrow> encode_base64url bs = encode_base64url cs \<longleftrightarrow> bs = cs"
proof (induction bs arbitrary: cs rule: encode_base64url.induct)
  case 1
  then show ?case by simp
next
  case (2 b0)
  then obtain c0 where "cs = [c0]" by (metis length_0_conv length_Suc_conv list.size(3,4))
  then show ?case using group_chars_inj(3) [of b0 c0] by simp
next
  case (3 b0 b1)
  then obtain c0 c1 where "cs = [c0, c1]" by (cases cs; cases "tl cs") auto
  then show ?case by (simp add: group_chars_inj)
next
  case (4 b0 b1 b2 bytes)
  from 4(2) obtain c0 c1 c2 ds where cs: "cs = c0 # c1 # c2 # ds" and len: "length bytes = length ds"
    by (auto simp: length_Suc_conv Suc_length_conv)
  have "length (group_chars 3 b0 b1 b2) = length (group_chars 3 c0 c1 c2)" by (simp add: group_chars_shape(1))
  then show ?case using 4(1) [OF len] by (simp add: cs append_eq_append_conv group_chars_inj)
qed

section \<open>Keys and digests\<close>

text \<open>A key parses exactly when it was formatted from parts of the grammar, and then to those parts.\<close>

lemma parse_api_key_iff:
  "parse_api_key raw prefix = Some k \<longleftrightarrow>
     raw = format_api_key prefix (pk_key_id k) (pk_secret k) \<and> is_key_id (pk_key_id k) \<and> is_secret (pk_secret k)"
proof
  assume "parse_api_key raw prefix = Some k"
  then obtain rest where raw: "raw = prefix @ SEPARATOR # rest" and len: "KEY_ID_LEN < length rest" "rest ! KEY_ID_LEN = SEPARATOR"
    and k: "k = \<lparr>pk_key_id = take KEY_ID_LEN rest, pk_secret = drop (KEY_ID_LEN + 1) rest\<rparr>"
      "is_key_id (take KEY_ID_LEN rest)" "is_secret (drop (KEY_ID_LEN + 1) rest)"
    by (auto simp: parse_api_key_def Let_def strip_prefix_Some_iff split: option.splits if_splits)
  from len have "rest = take KEY_ID_LEN rest @ SEPARATOR # drop (KEY_ID_LEN + 1) rest" by (metis Suc_eq_plus1 id_take_nth_drop)
  with raw k show "raw = format_api_key prefix (pk_key_id k) (pk_secret k) \<and> is_key_id (pk_key_id k) \<and> is_secret (pk_secret k)"
    by (simp add: format_api_key_def)
next
  assume k: "raw = format_api_key prefix (pk_key_id k) (pk_secret k) \<and> is_key_id (pk_key_id k) \<and> is_secret (pk_secret k)"
  then have len: "length (pk_key_id k) = KEY_ID_LEN" by (simp add: is_key_id_def)
  have "strip_prefix prefix raw = Some (SEPARATOR # pk_key_id k @ SEPARATOR # pk_secret k)"
    using k by (simp add: strip_prefix_Some_iff format_api_key_def)
  then show "parse_api_key raw prefix = Some k"
    using k by (simp add: parse_api_key_def len [symmetric] nth_append)
qed

lemma nibble_nth: "i < 16 \<Longrightarrow> nibble (hex_alphabet ! i) = of_nat i"
proof -
  assume "i < 16"
  then have "i \<in> set [0..<16]" by simp
  moreover have "list_all (\<lambda>i. nibble (hex_alphabet ! i) = of_nat i) [0..<16]" by code_simp
  ultimately show ?thesis by (simp only: list_all_iff)
qed

lemma decode_pairs_to_hex: "decode_pairs (to_hex bs) = bs"
proof (induction bs)
  case (Cons b bs)
  have "unat b < 256" using unsigned_less [of b] by simp
  then have hi: "unat b div 16 < 16" by linarith
  have "nibble (hex_alphabet ! unat (drop_bit 4 b)) * 16 + nibble (hex_alphabet ! unat (b AND 15)) =
      of_nat (unat b div 16) * 16 + of_nat (unat b mod 16)"
    using hi by (simp add: hi_nibble_eq lo_nibble_eq nibble_nth)
  also have "\<dots> = of_nat (unat b div 16 * 16 + unat b mod 16)" by (simp only: of_nat_add of_nat_mult of_nat_numeral)
  also have "\<dots> = b" by simp
  finally show ?case using Cons by simp
qed simp

lemma hex_alphabet_16: "length hex_alphabet = 16"
  by (simp add: hex_alphabet_def)

lemma to_hex_decode_pairs: "even (length s) \<Longrightarrow> list_all is_lower_hex s \<Longrightarrow> to_hex (decode_pairs s) = s"
proof (induction s rule: decode_pairs.induct)
  case (1 a b rest)
  have "\<exists>i < 16. c = hex_alphabet ! i" if "is_lower_hex c" for c
    using that hex_alphabet_16 by (metis is_lower_hex_iff in_set_conv_nth)
  with 1(3) obtain i j where ij: "i < 16" "j < 16" "a = hex_alphabet ! i" "b = hex_alphabet ! j" by (metis list.pred_inject(2))
  have byte: "nibble a * 16 + nibble b = of_nat (i * 16 + j)"
    using ij by (simp only: nibble_nth of_nat_add of_nat_mult of_nat_numeral)
  have "unat (of_nat (i * 16 + j) :: u8) = i * 16 + j" using ij(1,2) by (subst unat_of_nat) simp
  then have "unat (drop_bit 4 (of_nat (i * 16 + j) :: u8)) = i" "unat ((of_nat (i * 16 + j) :: u8) AND 15) = j"
    using ij(1,2) by (simp_all only: hi_nibble_eq lo_nibble_eq) simp_all
  with 1 byte ij show ?case by (simp del: of_nat_add of_nat_mult)
qed auto

lemma digests_match_iff:
  assumes "jws_service L"
  shows "digests_match L computed stored \<longleftrightarrow> computed = stored \<and> length computed = 64 \<and> list_all is_lower_hex computed"
proof -
  have "decode_pairs computed = decode_pairs stored \<longleftrightarrow> computed = stored"
    if "length computed = 64" "list_all is_lower_hex computed" "length stored = 64" "list_all is_lower_hex stored"
    using to_hex_decode_pairs [of computed] to_hex_decode_pairs [of stored] that by (metis even_numeral)
  then show ?thesis
    by (auto simp: digests_match_def decode_digest_def Let_def DIGEST_HEX_LEN_def DIGEST_LEN_def jws_service.constant_time_eq [OF assms])
qed

text \<open>
  C40. An API key is accepted for what was issued and for nothing else. A key formatted from an identifier and
  a drawn secret parses back to those parts, and no other text parses to them; the digest stored for
  a secret matches exactly itself, so a damaged row matches nothing.
\<close>

theorem api_key_round_trip:
  assumes "jws_service L" and "length (hmac_sha256 L (as_bytes pepper) (as_bytes secret)) = 32"
    and "is_key_id key_id" and "secret = encode_base64url bytes" and "length bytes = 32"
  shows "(parse_api_key raw prefix = Some \<lparr>pk_key_id = key_id, pk_secret = secret\<rparr> \<longleftrightarrow> raw = format_api_key prefix key_id secret) \<and>
    (digests_match L (api_key_digest L secret pepper) stored \<longleftrightarrow> stored = api_key_digest L secret pepper)"
proof -
  have "length (api_key_digest L secret pepper) = 64" "list_all is_lower_hex (api_key_digest L secret pepper)"
    using assms(2) by (simp_all add: api_key_digest_def to_hex_lower)
  then show ?thesis
    using assms(3) encoded_is_secret [OF assms(5)] by (auto simp: parse_api_key_iff digests_match_iff [OF assms(1)] assms(4))
qed

definition keyed_lib :: jws_lib where
  "keyed_lib = plain_lib\<lparr>hmac_sha256 := (\<lambda>k m. take 32 (rev (k @ m) @ replicate 32 0))\<rparr>"

interpretation keyed: jws_service keyed_lib
  by (unfold_locales, simp_all add: keyed_lib_def plain.b64_decode_encode plain.b64_no_dot plain.constant_time_eq plain.header_alg)

theorem api_key_round_trip_witness:
  "parse_api_key (format_api_key DEFAULT_PREFIX DUMMY_KEY_ID (encode_base64url (replicate 32 7))) DEFAULT_PREFIX =
     Some \<lparr>pk_key_id = DUMMY_KEY_ID, pk_secret = encode_base64url (replicate 32 7)\<rparr> \<and>
   \<not> digests_match keyed_lib (api_key_digest keyed_lib (encode_base64url (replicate 32 7)) ''pepper'') []"
proof -
  have "is_key_id DUMMY_KEY_ID" by code_simp
  from api_key_round_trip [OF keyed.jws_service_axioms _ this HOL.refl, of "''pepper''" "replicate 32 7"]
  have "(parse_api_key raw prefix = Some \<lparr>pk_key_id = DUMMY_KEY_ID, pk_secret = encode_base64url (replicate 32 7)\<rparr> \<longleftrightarrow>
      raw = format_api_key prefix DUMMY_KEY_ID (encode_base64url (replicate 32 7))) \<and>
    (digests_match keyed_lib (api_key_digest keyed_lib (encode_base64url (replicate 32 7)) ''pepper'') stored \<longleftrightarrow>
      stored = api_key_digest keyed_lib (encode_base64url (replicate 32 7)) ''pepper'')" for raw prefix stored
    by (simp only: keyed_lib_def) simp
  moreover have "length (api_key_digest keyed_lib (encode_base64url (replicate 32 7)) ''pepper'') = 64"
    by (simp add: api_key_digest_def keyed_lib_def)
  ultimately show ?thesis by fastforce
qed

end
