(* ===== verification/Breach_Lookup.thy ===== *)
theory Breach_Lookup
  imports Google_Provider
begin

text \<open>
  The lookup of a password in a corpus of breached ones (\<open>traits/breach.rs\<close>) over the transport of
  \<open>Google_Provider\<close>: what leaves the process, what an answer means, and that every failure approves. SHA-1
  is an argument.
\<close>

section \<open>The checkers\<close>

definition allow_all_is_breached :: "string \<Rightarrow> 'w \<Rightarrow> bool \<times> 'w" where
  "allow_all_is_breached password w = (False, w)"

definition HIBP_RANGE_URL :: string where
  "HIBP_RANGE_URL = ''https://api.pwnedpasswords.com/range/''"

definition PREFIX_LENGTH :: nat where
  "PREFIX_LENGTH = 5"

record 'w HibpBreachChecker =
  hb_http :: "'w HttpClient"
  hb_sha1 :: "u8 list \<Rightarrow> u8 list"

text \<open>The digits of a digest are ASCII, where \<open>to_uppercase\<close> is this.\<close>

definition to_ascii_upper :: "char \<Rightarrow> char" where
  "to_ascii_upper c =
     (let b = of_char c :: nat in if 97 \<le> b \<and> b \<le> 122 then char_of (b - 32) else c)"

text \<open>\<open>str::lines\<close>: the pieces between line feeds, without the empty last one, a carriage return before a line feed dropped.\<close>

definition strip_cr :: "string \<Rightarrow> string" where
  "strip_cr line = (if line \<noteq> [] \<and> last line = CHR 0x0D then butlast line else line)"

definition str_lines :: "string \<Rightarrow> string list" where
  "str_lines s =
     (let pieces = split_on (CHR 0x0A) s; end_piece = last pieces
      in map strip_cr (butlast pieces) @ (if end_piece = [] then [] else [end_piece]))"

definition breach_digest :: "'w HibpBreachChecker \<Rightarrow> string \<Rightarrow> string" where
  "breach_digest H password = map to_ascii_upper (to_hex (hb_sha1 H (as_bytes password)))"

definition range_request :: "string \<Rightarrow> HttpRequest" where
  "range_request prefix =
     \<lparr>hq_method = Get, hq_url = HIBP_RANGE_URL @ prefix, hq_headers = [(''Add-Padding'', ''true'')], hq_body = None\<rparr>"

definition lists_suffix :: "string \<Rightarrow> string \<Rightarrow> bool" where
  "lists_suffix body suffix =
     list_ex (\<lambda>line. eq_ignore_ascii_case (trim (takeWhile (\<lambda>c. c \<noteq> CHR '':'') line)) suffix) (str_lines body)"

definition hibp_is_breached :: "'w HibpBreachChecker \<Rightarrow> string \<Rightarrow> 'w \<Rightarrow> bool \<times> 'w" where
  "hibp_is_breached H password w =
     (let digest = breach_digest H password;
          prefix = take PREFIX_LENGTH digest; suffix = drop PREFIX_LENGTH digest
      in case hc_send (hb_http H) (range_request prefix) w of
           (Inl _, w) \<Rightarrow> (False, w)
         | (Inr response, w) \<Rightarrow>
             if \<not> (200 \<le> hr_status response \<and> hr_status response < 300) then (False, w)
             else
               (case from_utf8 (hr_body response) of
                  None \<Rightarrow> (False, w)
                | Some body \<Rightarrow> (lists_suffix body suffix, w)))"

section \<open>What leaves the process\<close>

text \<open>
  Passwords whose digests begin alike are indistinguishable to the service and to the network: the transport
  is used once, with the same request, and is left in the same state.
\<close>

theorem lookup_reveals_prefix:
  assumes "take PREFIX_LENGTH (breach_digest H p) = take PREFIX_LENGTH (breach_digest H q)"
  shows "snd (hibp_is_breached H p w) = snd (hibp_is_breached H q w) \<and>
    snd (hibp_is_breached H p w) = snd (hc_send (hb_http H) (range_request (take PREFIX_LENGTH (breach_digest H p))) w)"
  using assms by (auto simp: hibp_is_breached_def Let_def split: prod.split sum.split option.split)

text \<open>A password is refused only on a listed suffix in a successful answer.\<close>

theorem lookup_fails_open:
  assumes "fst (hibp_is_breached H p w)"
  obtains response body w' where "hc_send (hb_http H) (range_request (take PREFIX_LENGTH (breach_digest H p))) w = (Inr response, w')"
    and "is_success (hr_status response)" and "from_utf8 (hr_body response) = Some body"
    and "lists_suffix body (drop PREFIX_LENGTH (breach_digest H p))"
  using assms by (auto simp: hibp_is_breached_def is_success_def Let_def split: prod.splits sum.splits option.splits if_splits)

section \<open>What an answer means\<close>

fun range_body :: "(string \<times> string) list \<Rightarrow> string" where
  "range_body [] = []"
| "range_body ((suffix, count) # entries) = suffix @ CHR '':'' # count @ CHR 0x0D # CHR 0x0A # range_body entries"

lemma str_lines_Cons:
  assumes "CHR 0x0A \<notin> set line"
  shows "str_lines (line @ CHR 0x0D # CHR 0x0A # rest) = line # str_lines rest"
proof -
  have "split_on (CHR 0x0A) ((line @ [CHR 0x0D]) @ CHR 0x0A # rest) = (line @ [CHR 0x0D]) # split_on (CHR 0x0A) rest"
    using assms by (intro split_on_sep) simp
  then show ?thesis by (simp add: str_lines_def strip_cr_def Let_def)
qed

lemma str_lines_range_body:
  assumes "\<forall>(suffix, count) \<in> set entries. CHR 0x0A \<notin> set suffix \<and> CHR 0x0A \<notin> set count"
  shows "str_lines (range_body entries) = map (\<lambda>(suffix, count). suffix @ CHR '':'' # count) entries"
  using assms
proof (induction entries rule: range_body.induct)
  case (2 suffix count entries)
  then show ?case using str_lines_Cons [of "suffix @ CHR '':'' # count" "range_body entries"] by simp
qed (simp add: str_lines_def)

lemma white_space_codes:
  "\<forall>w \<in> set white_space. w \<noteq> [] \<and> (\<forall>c \<in> {hd w, last w}. of_char c < (33 :: nat) \<or> (127 :: nat) < of_char c)"
proof -
  have "list_all (\<lambda>w. w \<noteq> [] \<and> (\<forall>c \<in> {hd w, last w}. of_char c < (33 :: nat) \<or> (127 :: nat) < of_char c)) white_space"
    by code_simp
  then show ?thesis by (simp only: list_all_iff)
qed

lemma hex_char_code:
  assumes "is_lower_hex (to_ascii_lower c)"
  shows "(47 :: nat) < of_char c \<and> of_char c < (103 :: nat) \<and> of_char c \<noteq> (58 :: nat)"
proof (cases "65 \<le> (of_char c :: nat) \<and> of_char c \<le> (90 :: nat)")
  case True
  then show ?thesis by simp
next
  case False
  with assms show ?thesis by (auto simp: to_ascii_lower_def is_lower_hex_def Let_def split: if_splits)
qed

lemma hex_text_plain:
  assumes "list_all (\<lambda>c. is_lower_hex (to_ascii_lower c)) s"
  shows "trim s = s" and "CHR '':'' \<notin> set s" and "CHR 0x0A \<notin> set s"
proof -
  from assms have codes: "\<forall>c \<in> set s. (47 :: nat) < of_char c \<and> of_char c < (103 :: nat) \<and> of_char c \<noteq> (58 :: nat)"
    by (auto simp: list_all_iff hex_char_code)
  from codes show "CHR '':'' \<notin> set s" "CHR 0x0A \<notin> set s" by fastforce+
  show "trim s = s"
  proof (rule trim_unspaced, intro ballI)
    fix w
    assume "w \<in> set white_space"
    with white_space_codes have "w \<noteq> []" and "\<forall>c \<in> {hd w, last w}. of_char c < (33 :: nat) \<or> (127 :: nat) < of_char c"
      by blast+
    with codes show "w \<noteq> [] \<and> hd w \<notin> set s \<and> last w \<notin> set s" by force
  qed
qed

text \<open>Against a body in the format of the service, the answer is membership in the corpus.\<close>

theorem lookup_exact:
  assumes "\<forall>(suffix, count) \<in> set entries. list_all (\<lambda>c. is_lower_hex (to_ascii_lower c)) suffix \<and> CHR 0x0A \<notin> set count"
  shows "lists_suffix (range_body entries) wanted \<longleftrightarrow> (\<exists>(suffix, count) \<in> set entries. eq_ignore_ascii_case suffix wanted)"
proof -
  have "trim (takeWhile (\<lambda>c. c \<noteq> CHR '':'') (suffix @ CHR '':'' # count)) = suffix"
    if "(suffix, count) \<in> set entries" for suffix count
  proof -
    from assms that have "list_all (\<lambda>c. is_lower_hex (to_ascii_lower c)) suffix" by fast
    note plain = hex_text_plain(1,2) [OF this]
    from plain(2) have "\<forall>c \<in> set suffix. c \<noteq> CHR '':''" by blast
    then have "takeWhile (\<lambda>c. c \<noteq> CHR '':'') (suffix @ CHR '':'' # count) = suffix" by (simp add: takeWhile_append2)
    with plain(1) show ?thesis by (simp only:)
  qed
  moreover have "str_lines (range_body entries) = map (\<lambda>(suffix, count). suffix @ CHR '':'' # count) entries"
    using assms hex_text_plain(3) by (intro str_lines_range_body) fastforce
  ultimately show ?thesis by (force simp: lists_suffix_def list_ex_iff)
qed

end
