(* ===== verification/Http_Guards.thy ===== *)
theory Http_Guards
  imports Adapter_Api
begin

text \<open>
  What the HTTP adapter (\<open>bymax-auth-axum/src\<close>) decides of a request before a handler runs: the client's
  address (\<open>client_ip.rs\<close>), the context handed to the engine and where tokens are read from
  (\<open>routes/mod.rs\<close>, \<open>extractors/mod.rs\<close>), the cross-site check (\<open>trusted_origin.rs\<close>), the shared rate
  limit (\<open>rate_limit.rs\<close>, \<open>shared_limit.rs\<close>), the guards a route lists (\<open>extractors\<close>), and the shape of
  a refusal (\<open>response.rs\<close>, \<open>transport.rs\<close>). The framework's request is the record \<open>Parts\<close>: its method,
  its headers under lower-case names, its cookies when the jar is mounted, and the extensions the
  adapter itself puts there. Reading and printing an address are arguments.
\<close>

section \<open>Addresses\<close>

datatype IpAddr = V4 "32 word" | V6 "128 word"

definition to_ipv4_mapped :: "128 word \<Rightarrow> 32 word option" where
  "to_ipv4_mapped w = (if drop_bit 32 w = 0xffff then Some (ucast w) else None)"

definition to_canonical :: "IpAddr \<Rightarrow> IpAddr" where
  "to_canonical ip =
     (case ip of
        V4 _ \<Rightarrow> ip
      | V6 w \<Rightarrow> (case to_ipv4_mapped w of Some v4 \<Rightarrow> V4 v4 | None \<Rightarrow> ip))"

record addr_lib =
  al_parse :: "string \<Rightarrow> IpAddr option"
  al_to_string :: "IpAddr \<Rightarrow> string"

datatype ClientIpSource = PeerAddr | TrustedForwardedFor

text \<open>The predicate of the deployment; a panic answers \<open>None\<close>.\<close>

record ClientIpPolicy =
  cp_source :: ClientIpSource
  cp_is_trusted_proxy :: "(IpAddr \<Rightarrow> bool option) option"

definition trusts :: "(IpAddr \<Rightarrow> bool option) \<Rightarrow> IpAddr \<Rightarrow> bool" where
  "trusts is_trusted ip = (case is_trusted ip of Some answer \<Rightarrow> answer | None \<Rightarrow> False)"

definition rsplit :: "char \<Rightarrow> string \<Rightarrow> string list" where
  "rsplit c s = rev (split_on c s)"

fun walk_hops :: "addr_lib \<Rightarrow> (IpAddr \<Rightarrow> bool option) \<Rightarrow> IpAddr \<Rightarrow> string list \<Rightarrow> IpAddr" where
  "walk_hops A is_trusted client [] = client"
| "walk_hops A is_trusted client (entry # entries) =
     (case al_parse A (trim entry) of
        None \<Rightarrow> client
      | Some hop \<Rightarrow>
          let client = to_canonical hop in
          if \<not> trusts is_trusted client then client else walk_hops A is_trusted client entries)"

definition resolve_ip :: "addr_lib \<Rightarrow> ClientIpPolicy \<Rightarrow> IpAddr option \<Rightarrow> string \<Rightarrow> IpAddr option" where
  "resolve_ip A policy peer_addr header_text =
     (let peer = map_option to_canonical peer_addr in
      case (cp_source policy, cp_is_trusted_proxy policy) of
        (TrustedForwardedFor, Some is_trusted) \<Rightarrow>
          (case peer of
             None \<Rightarrow> None
           | Some peer \<Rightarrow>
               if \<not> trusts is_trusted peer then Some peer
               else Some (walk_hops A is_trusted peer (rsplit (CHR '','') header_text)))
      | _ \<Rightarrow> peer)"

section \<open>The request\<close>

record Parts =
  pt_method :: string
  pt_headers :: "(string \<times> string) list"
  pt_cookies :: "(string \<times> string) list option"
  pt_peer :: "IpAddr option"
  pt_resolved_ip :: "IpAddr option"
  pt_matched_path :: "string option"
  pt_user_id :: "string option"
  pt_claims :: "DashboardClaims option"
  pt_platform_claims :: "PlatformClaims option"

text \<open>A header value reads as text when all of its bytes are visible ASCII or a tab.\<close>

definition to_str :: "string \<Rightarrow> string option" where
  "to_str v =
     (if list_all (\<lambda>c. let b = of_char c :: nat in (32 \<le> b \<and> b < 127) \<or> b = 9) v then Some v else None)"

definition request_header :: "Parts \<Rightarrow> string \<Rightarrow> string option" where
  "request_header parts name =
     (case map_of (pt_headers parts) name of None \<Rightarrow> None | Some v \<Rightarrow> to_str v)"

fun join_commas :: "string list \<Rightarrow> string" where
  "join_commas [] = []"
| "join_commas [s] = s"
| "join_commas (s # t # ts) = s @ CHR '','' # join_commas (t # ts)"

definition forwarded_for :: "Parts \<Rightarrow> string" where
  "forwarded_for parts =
     join_commas (List.map_filter (\<lambda>(name, v). if name = ''x-forwarded-for'' then to_str v else None) (pt_headers parts))"

definition resolve_client_ip :: "addr_lib \<Rightarrow> ClientIpPolicy \<Rightarrow> Parts \<Rightarrow> Parts" where
  "resolve_client_ip A policy parts =
     (case resolve_ip A policy (pt_peer parts) (forwarded_for parts) of
        Some ip \<Rightarrow> parts\<lparr>pt_resolved_ip := Some ip\<rparr>
      | None \<Rightarrow> parts)"

definition SENSITIVE_HEADERS :: "string list" where
  "SENSITIVE_HEADERS =
     [''authorization'', ''cookie'', ''proxy-authorization'', ''www-authenticate'', ''x-api-key'', ''x-auth-token'',
      ''x-csrf-token'', ''x-session-id'', ''x-forwarded-for'', ''x-forwarded-host'', ''x-real-ip'',
      ''x-original-forwarded-for'', ''cf-connecting-ip'', ''true-client-ip'', ''x-cluster-client-ip'']"

definition SENSITIVE_HEADER_SUFFIXES :: "string list" where
  "SENSITIVE_HEADER_SUFFIXES =
     [''-token'', ''-secret'', ''-key'', ''-password'', ''-credential'', ''-auth'', ''-bearer'', ''-signature'', ''-hmac'']"

definition ends_with :: "string \<Rightarrow> string \<Rightarrow> bool" where
  "ends_with suffix s = starts_with (rev suffix) (rev s)"

definition is_sensitive_header :: "string \<Rightarrow> bool" where
  "is_sensitive_header name \<longleftrightarrow>
     name \<in> set SENSITIVE_HEADERS \<or>
     (case strip_prefix ''x-'' name of
        None \<Rightarrow> False
      | Some rest \<Rightarrow> list_ex (\<lambda>suffix. ends_with suffix rest) SENSITIVE_HEADER_SUFFIXES)"

text \<open>An ordered map keeps its keys sorted; a second value under a key replaces the first.\<close>

fun btree_insert :: "string \<Rightarrow> string \<Rightarrow> (string \<times> string) list \<Rightarrow> (string \<times> string) list" where
  "btree_insert k v [] = [(k, v)]"
| "btree_insert k v ((k', v') # kvs) =
     (if k = k' then (k, v) # kvs
      else if k < k' then (k, v) # (k', v') # kvs
      else (k', v') # btree_insert k v kvs)"

definition keep_header :: "(string \<times> string) list \<Rightarrow> string \<times> string \<Rightarrow> (string \<times> string) list" where
  "keep_header m h =
     (let name = to_ascii_lowercase (fst h) in
      if is_sensitive_header name then m
      else (case to_str (snd h) of Some content \<Rightarrow> btree_insert name content m | None \<Rightarrow> m))"

definition sanitize_headers :: "Parts \<Rightarrow> (string \<times> string) list" where
  "sanitize_headers parts = foldl keep_header [] (pt_headers parts)"

definition client_ip :: "addr_lib \<Rightarrow> Parts \<Rightarrow> string" where
  "client_ip A parts =
     (case (case pt_resolved_ip parts of Some ip \<Rightarrow> Some ip | None \<Rightarrow> pt_peer parts) of
        Some ip \<Rightarrow> al_to_string A ip
      | None \<Rightarrow> [])"

definition request_context :: "addr_lib \<Rightarrow> Parts \<Rightarrow> RequestContext" where
  "request_context A parts =
     \<lparr>rx_ip = client_ip A parts, rx_user_agent = the_default [] (request_header parts ''user-agent''),
      rx_sanitized_headers = sanitize_headers parts\<rparr>"

section \<open>Where tokens are read from\<close>

record ResolvedCookies =
  rk_access_name :: string
  rk_refresh_name :: string
  rk_signal_name :: string
  rk_refresh_path :: string
  rk_mfa_temp_path :: string
  rk_secure :: bool
  rk_same_site :: SameSite
  rk_trusted_origins :: "string list"
  rk_access_max_age_secs :: int
  rk_refresh_max_age_secs :: int

record ('r, 'w) AuthState =
  st_engine :: "('r, 'w) AuthEngine"
  st_delivery :: TokenDelivery
  st_cookies :: ResolvedCookies
  st_addr :: addr_lib

definition bearer_from_header :: "Parts \<Rightarrow> string option" where
  "bearer_from_header parts =
     (case request_header parts ''authorization'' of
        None \<Rightarrow> None
      | Some v \<Rightarrow>
          (case (case strip_prefix ''Bearer '' v of Some t \<Rightarrow> Some t | None \<Rightarrow> strip_prefix ''bearer '' v) of
             None \<Rightarrow> None
           | Some token \<Rightarrow> let token = trim token in if token = [] then None else Some token))"

definition access_cookie :: "Parts \<Rightarrow> ResolvedCookies \<Rightarrow> string option" where
  "access_cookie parts C =
     (case pt_cookies parts of
        None \<Rightarrow> None
      | Some jar \<Rightarrow>
          (case map_of jar (rk_access_name C) of
             Some v \<Rightarrow> if v = [] then None else Some v
           | None \<Rightarrow> None))"

definition source_access_token :: "Parts \<Rightarrow> ('r, 'w) AuthState \<Rightarrow> string option" where
  "source_access_token parts S =
     (case st_delivery S of
        Cookie \<Rightarrow> access_cookie parts (st_cookies S)
      | Bearer \<Rightarrow> bearer_from_header parts
      | Both \<Rightarrow>
          (case access_cookie parts (st_cookies S) of Some t \<Rightarrow> Some t | None \<Rightarrow> bearer_from_header parts))"

definition source_platform_access_token :: "Parts \<Rightarrow> string option" where
  "source_platform_access_token parts = bearer_from_header parts"

definition source_refresh_token :: "TokenDelivery \<Rightarrow> (string \<times> string) list \<Rightarrow> string \<Rightarrow> string option \<Rightarrow> string" where
  "source_refresh_token delivery jar refresh_cookie_name body_value =
     (let from_cookie = (case map_of jar refresh_cookie_name of Some v \<Rightarrow> if v = [] then None else Some v | None \<Rightarrow> None);
          from_body = (case body_value of Some v \<Rightarrow> if v = [] then None else Some v | None \<Rightarrow> None)
      in the_default [] (case delivery of
           Cookie \<Rightarrow> from_cookie
         | Bearer \<Rightarrow> from_body
         | Both \<Rightarrow> (case from_cookie of Some v \<Rightarrow> Some v | None \<Rightarrow> from_body)))"

definition presented_access_token :: "('r, 'w) AuthState \<Rightarrow> Parts \<Rightarrow> string" where
  "presented_access_token S parts = the_default [] (source_access_token parts S)"

definition presented_platform_access_token :: "Parts \<Rightarrow> string" where
  "presented_platform_access_token parts = the_default [] (source_platform_access_token parts)"

definition cookie_host :: "string \<Rightarrow> string" where
  "cookie_host raw =
     (let host = takeWhile (\<lambda>c. c \<noteq> CHR '':'') raw;
          valid = (host \<noteq> [] \<and> list_all (\<lambda>c. is_ascii_alphanumeric c \<or> c = CHR ''.'' \<or> c = CHR ''-'') host)
      in if valid then host else [])"

definition cookie_domains :: "('r, 'w) AuthState \<Rightarrow> Parts \<Rightarrow> string list" where
  "cookie_domains S parts =
     (case ck_resolve_domains (ac_cookies (cfg (st_engine S))) of
        None \<Rightarrow> []
      | Some resolver \<Rightarrow>
          resolver (case request_header parts ''host'' of Some raw \<Rightarrow> cookie_host raw | None \<Rightarrow> []))"

section \<open>The guards of a route\<close>

text \<open>A guard answers the claims and the request with those claims cached on it.\<close>

definition verified_dashboard_claims ::
    "('r, 'w) AuthState \<Rightarrow> Parts \<Rightarrow> ('r, 'w, DashboardClaims \<times> Parts) flow_io" where
  "verified_dashboard_claims S parts =
     (case pt_claims parts of
        Some cached \<Rightarrow> ret (cached, parts)
      | None \<Rightarrow>
          (case source_access_token parts S of
             None \<Rightarrow> raise AuthError.TokenMissing
           | Some token \<Rightarrow>
               rbind (verify_access_token (st_engine S) token) (\<lambda>claims.
               rbind (assert_tenant_binding (st_engine S) (dc_tenant_id claims) (request_context (st_addr S) parts)) (\<lambda>_.
                 ret (claims, parts\<lparr>pt_claims := Some claims\<rparr>)))))"

definition auth_user :: "('r, 'w) AuthState \<Rightarrow> Parts \<Rightarrow> ('r, 'w, DashboardClaims \<times> Parts) flow_io" where
  "auth_user S parts = verified_dashboard_claims S parts"

definition current_user :: "('r, 'w) AuthState \<Rightarrow> Parts \<Rightarrow> ('r, 'w, DashboardClaims \<times> Parts) flow_io" where
  "current_user S parts = verified_dashboard_claims S parts"

definition optional_auth_user :: "('r, 'w) AuthState \<Rightarrow> Parts \<Rightarrow> ('r, 'w, DashboardClaims option \<times> Parts) flow_io" where
  "optional_auth_user S parts =
     rbind (attempt (verified_dashboard_claims S parts)) (\<lambda>answer.
       ret (case answer of Inr (claims, parts) \<Rightarrow> (Some claims, parts) | Inl _ \<Rightarrow> (None, parts)))"

definition mfa_satisfied :: "('r, 'w) AuthState \<Rightarrow> Parts \<Rightarrow> ('r, 'w, DashboardClaims \<times> Parts) flow_io" where
  "mfa_satisfied S parts =
     rbind (verified_dashboard_claims S parts) (\<lambda>(claims, parts).
       if dc_mfa_enabled claims \<and> \<not> dc_mfa_verified claims then
         rbind (assert_user_active_and_verified (st_engine S) (dc_sub claims) (dc_tenant_id claims)) (\<lambda>_.
           raise AuthError.MfaRequired)
       else ret (claims, parts))"

definition require_role :: "string \<Rightarrow> ('r, 'w) AuthState \<Rightarrow> Parts \<Rightarrow> ('r, 'w, DashboardClaims \<times> Parts) flow_io" where
  "require_role name S parts =
     rbind (verified_dashboard_claims S parts) (\<lambda>(claims, parts).
       if engine_role_satisfies (st_engine S) (dc_role claims) name then ret (claims, parts)
       else raise AuthError.InsufficientRole)"

definition self_or_admin :: "string \<Rightarrow> ('r, 'w) AuthState \<Rightarrow> Parts \<Rightarrow> ('r, 'w, DashboardClaims \<times> Parts) flow_io" where
  "self_or_admin name S parts =
     rbind (verified_dashboard_claims S parts) (\<lambda>(claims, parts).
       case pt_user_id parts of
         None \<Rightarrow> raise AuthError.TokenInvalid
       | Some user_id \<Rightarrow>
           let is_self = (user_id = dc_sub claims); is_admin = engine_role_satisfies (st_engine S) (dc_role claims) name in
           if is_self \<or> is_admin then ret (claims, parts) else raise AuthError.Forbidden)"

definition user_status :: "('r, 'w) AuthState \<Rightarrow> Parts \<Rightarrow> ('r, 'w, DashboardClaims \<times> Parts) flow_io" where
  "user_status S parts =
     rbind (verified_dashboard_claims S parts) (\<lambda>(claims, parts).
     rbind (assert_user_active_and_verified (st_engine S) (dc_sub claims) (dc_tenant_id claims)) (\<lambda>_.
       ret (claims, parts)))"

definition verified_user :: "('r, 'w) AuthState \<Rightarrow> Parts \<Rightarrow> ('r, 'w, DashboardClaims \<times> Parts) flow_io" where
  "verified_user S parts =
     rbind (verified_dashboard_claims S parts) (\<lambda>(claims, parts).
     rbind (assert_user_active_and_verified (st_engine S) (dc_sub claims) (dc_tenant_id claims)) (\<lambda>_.
       ret (claims, parts)))"

definition map_platform_verify_error :: "AuthError \<Rightarrow> AuthError" where
  "map_platform_verify_error e =
     (case e of
        AuthError.TokenInvalid \<Rightarrow> AuthError.PlatformAuthRequired
      | AuthError.TokenExpired \<Rightarrow> AuthError.PlatformAuthRequired
      | AuthError.TokenRevoked \<Rightarrow> AuthError.PlatformAuthRequired
      | other \<Rightarrow> other)"

definition verified_platform_claims ::
    "('r, 'w) AuthState \<Rightarrow> Parts \<Rightarrow> ('r, 'w, PlatformClaims \<times> Parts) flow_io" where
  "verified_platform_claims S parts =
     (case pt_platform_claims parts of
        Some cached \<Rightarrow> ret (cached, parts)
      | None \<Rightarrow>
          (case source_platform_access_token parts of
             None \<Rightarrow> raise AuthError.PlatformAuthRequired
           | Some token \<Rightarrow>
               rbind (map_err map_platform_verify_error (verify_platform_token (st_engine S) token)) (\<lambda>claims.
                 ret (claims, parts\<lparr>pt_platform_claims := Some claims\<rparr>))))"

definition platform_user :: "('r, 'w) AuthState \<Rightarrow> Parts \<Rightarrow> ('r, 'w, PlatformClaims \<times> Parts) flow_io" where
  "platform_user S parts = verified_platform_claims S parts"

definition require_platform_role :: "string \<Rightarrow> ('r, 'w) AuthState \<Rightarrow> Parts \<Rightarrow> ('r, 'w, PlatformClaims \<times> Parts) flow_io" where
  "require_platform_role name S parts =
     rbind (verified_platform_claims S parts) (\<lambda>(claims, parts).
       if engine_platform_role_satisfies (st_engine S) (pc_role claims) name then ret (claims, parts)
       else raise AuthError.InsufficientRole)"

section \<open>The cross-site check\<close>

definition is_safe_method :: "string \<Rightarrow> bool" where
  "is_safe_method m \<longleftrightarrow> m \<in> {''GET'', ''HEAD'', ''OPTIONS'', ''TRACE''}"

definition SAFE_FETCH_SITES :: "string list" where
  "SAFE_FETCH_SITES = [''same-origin'', ''none'']"

definition origin_allowed :: "string list \<Rightarrow> Parts \<Rightarrow> bool" where
  "origin_allowed trusted parts =
     (let fetch_site = request_header parts ''sec-fetch-site'' in
      if (case fetch_site of Some site \<Rightarrow> site \<in> set SAFE_FETCH_SITES | None \<Rightarrow> False) then True
      else
        (case request_header parts ''origin'' of
           Some origin \<Rightarrow>
             list_ex (\<lambda>allowed. eq_ignore_ascii_case allowed origin) trusted \<or> (fetch_site = None \<and> trusted = [])
         | None \<Rightarrow> fetch_site = None))"

definition enforce_trusted_origin ::
    "('r, 'w) AuthState \<Rightarrow> Parts \<Rightarrow> (Parts \<Rightarrow> ('r, 'w, 'a) flow_io) \<Rightarrow> ('r, 'w, 'a) flow_io" where
  "enforce_trusted_origin S parts next_layer =
     (if is_safe_method (pt_method parts) then next_layer parts
      else
        let allowed = origin_allowed (rk_trusted_origins (st_cookies S)) parts in
        if allowed then next_layer parts else raise AuthError.UntrustedOrigin)"

section \<open>Rate limits\<close>

definition rate_limit_bucket :: "IpAddr \<Rightarrow> IpAddr" where
  "rate_limit_bucket ip =
     (case ip of
        V4 _ \<Rightarrow> ip
      | V6 v6 \<Rightarrow>
          (case to_ipv4_mapped v6 of
             Some v4 \<Rightarrow> V4 v4
           | None \<Rightarrow> V6 (push_bit 64 (drop_bit 64 v6))))"

definition extract_bucket :: "Parts \<Rightarrow> IpAddr option" where
  "extract_bucket parts =
     map_option rate_limit_bucket (case pt_resolved_ip parts of Some ip \<Rightarrow> Some ip | None \<Rightarrow> pt_peer parts)"

record RateLimit =
  rl_burst :: nat
  rl_per_seconds :: nat

definition new_rate_limit :: "nat \<Rightarrow> nat \<Rightarrow> RateLimit" where
  "new_rate_limit burst per_seconds = \<lparr>rl_burst = burst, rl_per_seconds = per_seconds\<rparr>"

definition replenish_secs :: "RateLimit \<Rightarrow> nat" where
  "replenish_secs limit = max (rl_per_seconds limit div max (rl_burst limit) 1) 1"

record RateLimitConfig =
  lim_login :: "RateLimit option"
  lim_register :: "RateLimit option"
  lim_refresh :: "RateLimit option"
  lim_forgot_password :: "RateLimit option"
  lim_reset_password :: "RateLimit option"
  lim_verify_otp :: "RateLimit option"
  lim_resend_password_otp :: "RateLimit option"
  lim_verify_email :: "RateLimit option"
  lim_resend_verification :: "RateLimit option"
  lim_mfa_setup :: "RateLimit option"
  lim_mfa_verify_enable :: "RateLimit option"
  lim_mfa_challenge :: "RateLimit option"
  lim_mfa_disable :: "RateLimit option"
  lim_platform_login :: "RateLimit option"
  lim_invitation_create :: "RateLimit option"
  lim_invitation_accept :: "RateLimit option"
  lim_invitation_revoke :: "RateLimit option"
  lim_email_change_request :: "RateLimit option"
  lim_email_change_confirm :: "RateLimit option"
  lim_list_sessions :: "RateLimit option"
  lim_revoke_session :: "RateLimit option"
  lim_revoke_all_sessions :: "RateLimit option"
  lim_oauth_initiate :: "RateLimit option"
  lim_oauth_callback :: "RateLimit option"
  lim_change_password :: "RateLimit option"
  lim_logout :: "RateLimit option"
  lim_ws_ticket :: "RateLimit option"

definition rate_limit_config_default :: RateLimitConfig where
  "rate_limit_config_default =
     \<lparr>lim_login = Some (new_rate_limit 5 60), lim_register = Some (new_rate_limit 10 3600), lim_refresh = Some (new_rate_limit 10 60),
      lim_forgot_password = Some (new_rate_limit 3 300), lim_reset_password = Some (new_rate_limit 3 300), lim_verify_otp = Some (new_rate_limit 3 300),
      lim_resend_password_otp = Some (new_rate_limit 3 300), lim_verify_email = Some (new_rate_limit 5 60), lim_resend_verification = Some (new_rate_limit 3 300),
      lim_mfa_setup = Some (new_rate_limit 5 60), lim_mfa_verify_enable = Some (new_rate_limit 5 60), lim_mfa_challenge = Some (new_rate_limit 5 60),
      lim_mfa_disable = Some (new_rate_limit 3 300), lim_platform_login = Some (new_rate_limit 5 60), lim_invitation_create = Some (new_rate_limit 10 3600),
      lim_invitation_accept = Some (new_rate_limit 5 60), lim_invitation_revoke = Some (new_rate_limit 10 3600), lim_email_change_request = Some (new_rate_limit 3 300),
      lim_email_change_confirm = Some (new_rate_limit 5 60), lim_list_sessions = Some (new_rate_limit 30 60), lim_revoke_session = Some (new_rate_limit 10 60),
      lim_revoke_all_sessions = Some (new_rate_limit 5 60), lim_oauth_initiate = Some (new_rate_limit 10 60), lim_oauth_callback = Some (new_rate_limit 10 60),
      lim_change_password = Some (new_rate_limit 5 60), lim_logout = Some (new_rate_limit 20 60), lim_ws_ticket = Some (new_rate_limit 20 60)\<rparr>"

definition UNKNOWN_CLIENT :: string where
  "UNKNOWN_CLIENT = ''unknown''"

definition is_shared :: "('r, 'w) AuthEngine \<Rightarrow> bool" where
  "is_shared E \<longleftrightarrow> en_rate_limit_store E \<noteq> None"

definition client_bucket :: "addr_lib \<Rightarrow> Parts \<Rightarrow> string" where
  "client_bucket A parts =
     (case extract_bucket parts of None \<Rightarrow> UNKNOWN_CLIENT | Some ip \<Rightarrow> al_to_string A ip)"

definition shared_limit ::
    "('r, 'w) AuthState \<Rightarrow> RateLimit \<Rightarrow> Parts \<Rightarrow> (Parts \<Rightarrow> ('r, 'w, 'a) flow_io) \<Rightarrow> ('r, 'w, 'a) flow_io" where
  "shared_limit S limit parts next_layer =
     (let route = pt_method parts @ '' '' @ the_default [] (pt_matched_path parts);
          bucket = client_bucket (st_addr S) parts;
          window = max (rl_per_seconds limit) 1
      in rbind (count_rate_limited_request (st_engine S) route bucket window) (\<lambda>counted.
           case counted of
             Some count \<Rightarrow>
               if count > max (rl_burst limit) 1 then raise (AuthError.TooManyRequests (Some window)) else next_layer parts
           | None \<Rightarrow> next_layer parts))"

section \<open>Refusals\<close>

record Reply =
  ry_status :: nat
  ry_body :: AuthErrorEnvelope
  ry_retry_after :: "nat option"

definition retry_after_seconds :: "AuthError \<Rightarrow> nat option" where
  "retry_after_seconds e =
     (case e of
        AuthError.AccountLocked secs \<Rightarrow> secs
      | AuthError.TooManyRequests secs \<Rightarrow> secs
      | _ \<Rightarrow> None)"

text \<open>Every status of the catalogue is a valid one, so the fallback to 500 is never taken.\<close>

definition error_response :: "AuthError \<Rightarrow> Reply" where
  "error_response e =
     \<lparr>ry_status = (let s = err_http_status e in if 100 \<le> s \<and> s \<le> 999 then s else 500),
      ry_body = to_envelope e, ry_retry_after = retry_after_seconds e\<rparr>"

definition anti_enumerating_outcome :: "AuthError + unit \<Rightarrow> 'a \<Rightarrow> Reply + 'a" where
  "anti_enumerating_outcome outcome uniform =
     (case outcome of
        Inl (AuthError.Validation failures) \<Rightarrow> Inl (error_response (AuthError.Validation failures))
      | _ \<Rightarrow> Inr uniform)"

datatype Transport = Malformed nat | TooLarge | UnsupportedMedia

definition from_body_status :: "nat \<Rightarrow> Transport" where
  "from_body_status status = (if status = 413 then TooLarge else Malformed status)"

fun transport_status :: "Transport \<Rightarrow> nat" where
  "transport_status (Malformed status) = status"
| "transport_status TooLarge = 413"
| "transport_status UnsupportedMedia = 415"

fun transport_message :: "Transport \<Rightarrow> string" where
  "transport_message (Malformed _) = ''Malformed request''"
| "transport_message TooLarge = ''Request entity too large''"
| "transport_message UnsupportedMedia = ''Unsupported media type''"

definition transport_response :: "Transport \<Rightarrow> Reply" where
  "transport_response T =
     \<lparr>ry_status = transport_status T,
      ry_body = \<lparr>env_error = \<lparr>body_code = AuthErrorCode.Validation, body_message = transport_message T, body_details = None\<rparr>\<rparr>,
      ry_retry_after = None\<rparr>"

end
