(* ===== verification/Http_Properties.thy ===== *)
theory Http_Properties
  imports Http_Guards
begin

text \<open>
  What the HTTP adapter's checks promise: whose address a request is charged to, what a guard admits, which
  requests the cross-site check refuses, and what of a request never reaches a hook.
\<close>

section \<open>Addresses\<close>





text \<open>The forwarded lines as they arrive, and the readable ones of them.\<close>

definition forwarded_lines :: "Parts \<Rightarrow> string list" where
  "forwarded_lines parts = map snd (filter (\<lambda>(name, v). name = ''x-forwarded-for'') (pt_headers parts))"

lemma forwarded_for_lines: "forwarded_for parts = join_commas (List.map_filter to_str (forwarded_lines parts))"
proof -
  have "List.map_filter (\<lambda>(name, v). if name = ''x-forwarded-for'' then to_str v else None) hs =
      List.map_filter to_str (map snd (filter (\<lambda>(name, v). name = ''x-forwarded-for'') hs))" for hs
    by (induction hs) (auto simp: List.map_filter_def)
  then show ?thesis by (simp add: forwarded_for_def forwarded_lines_def)
qed


lemma map_filter_append: "List.map_filter f (xs @ ys) = List.map_filter f xs @ List.map_filter f ys"
  by (simp add: List.map_filter_def)




definition sample_addr :: addr_lib where
  "sample_addr = \<lparr>al_parse = (\<lambda>s. if s = ''c'' then Some (V4 1) else if s = ''p'' then Some (V4 2) else if s = ''evil'' then Some (V4 9) else None),
     al_to_string = (\<lambda>ip. case ip of V4 w \<Rightarrow> show_nat (unat w) | V6 _ \<Rightarrow> [])\<rparr>"

definition forged_request :: "string list \<Rightarrow> Parts" where
  "forged_request forwarded =
     \<lparr>pt_method = ''POST'', pt_headers = map (Pair ''x-forwarded-for'') forwarded,
      pt_cookies = None, pt_peer = Some (V4 3), pt_resolved_ip = None, pt_matched_path = None, pt_user_id = None, pt_claims = None,
      pt_platform_claims = None\<rparr>"

definition two_proxies :: ClientIpPolicy where
  "two_proxies = \<lparr>cp_source = TrustedForwardedFor, cp_is_trusted_proxy = Some (\<lambda>ip. Some (ip \<in> {V4 2, V4 3}))\<rparr>"

lemma forged_lines: "forwarded_lines (forged_request forwarded) = forwarded"
  by (induction forwarded) (simp_all add: forwarded_lines_def forged_request_def)

lemma plain_trims: "trim ''c'' = ''c''" "trim ''p'' = ''p''" "trim ''evil'' = ''evil''"
  by (rule trim_unspaced, code_simp)+


text \<open>
  A line with a byte that is not visible ASCII is dropped whole, with what the proxies appended to it. A proxy
  that appends to the last line then hides the address it saw: sent alone, the line makes the proxy the client,
  and behind a readable line it lets the client name any address.
\<close>

lemma unreadable_line_dropped:
  assumes "forwarded_lines parts = older @ [line]" and "to_str line = None"
  shows "forwarded_for parts = join_commas (List.map_filter to_str older)"
  using assms by (simp add: forwarded_for_lines map_filter_append)

theorem unreadable_line_spoofs:
  "rx_ip (request_context sample_addr (resolve_client_ip sample_addr two_proxies
     (forged_request [CHR 0xFF # '',c'']))) = ''3'' \<and>
   rx_ip (request_context sample_addr (resolve_client_ip sample_addr two_proxies
     (forged_request [''evil'', CHR 0xFF # '',c'']))) = ''9''"
proof -
  have unread: "to_str (CHR 0xFF # '',c'') = None" by (simp add: to_str_def)
  have alone: "forwarded_for (forged_request [CHR 0xFF # '',c'']) = []"
    and behind: "forwarded_for (forged_request [''evil'', CHR 0xFF # '',c'']) = ''evil''"
    using unreadable_line_dropped [of _ "[]", OF _ unread] unreadable_line_dropped [of _ "[''evil'']", OF _ unread]
    by (simp_all add: forged_lines List.map_filter_def to_str_def)
  have "trim [] = []" by (rule trim_unspaced) code_simp
  moreover have "show_nat 3 = ''3''" "show_nat 9 = ''9''" by code_simp+
  moreover have "pt_peer (forged_request forwarded) = Some (V4 3)" for forwarded by (simp add: forged_request_def)
  ultimately show ?thesis
    by (simp add: request_context_def client_ip_def resolve_client_ip_def resolve_ip_def alone behind two_proxies_def
        sample_addr_def plain_trims trusts_def to_canonical_def rsplit_def)
qed

text \<open>An address of a /64 shares its budget with all of them, and a mapped address that of the address it maps.\<close>

lemma bucket_of_prefix:
  assumes "to_ipv4_mapped v = None" and "to_ipv4_mapped w = None"
  shows "rate_limit_bucket (V6 v) = rate_limit_bucket (V6 w) \<longleftrightarrow> drop_bit 64 v = drop_bit 64 w"
proof -
  have "drop_bit 64 (push_bit 64 (drop_bit 64 x)) = drop_bit 64 x" for x :: "128 word"
    by (rule bit_eqI) (auto simp: bit_simps dest: bit_imp_le_length)
  then show ?thesis using assms by (auto simp: rate_limit_bucket_def dest: arg_cong [where f = "drop_bit 64"])
qed

lemma bucket_of_mapped: "rate_limit_bucket (to_canonical ip) = rate_limit_bucket ip"
  by (auto simp: rate_limit_bucket_def to_canonical_def split: IpAddr.splits option.splits)

lemma replenish_within_window: "0 < rl_burst limit \<Longrightarrow> rl_burst limit * replenish_secs limit \<le> max (rl_per_seconds limit) (rl_burst limit)"
proof (cases "rl_per_seconds limit div rl_burst limit = 0")
  case False
  assume "0 < rl_burst limit"
  with False have "rl_burst limit * replenish_secs limit = rl_burst limit * (rl_per_seconds limit div rl_burst limit)"
    by (simp add: replenish_secs_def)
  also have "\<dots> \<le> rl_per_seconds limit" by simp
  finally show ?thesis by simp
qed (simp add: replenish_secs_def)

section \<open>What reaches a hook\<close>

lemma btree_insert_keys: "set (btree_insert k v m) \<subseteq> insert (k, v) (set m)"
  by (induction k v m rule: btree_insert.induct) auto

lemma keep_header_clean:
  assumes "\<forall>x \<in> set m. \<not> is_sensitive_header (fst x)"
  shows "\<forall>x \<in> set (keep_header m h). \<not> is_sensitive_header (fst x)"
proof -
  let ?name = "to_ascii_lowercase (fst h)"
  have "\<forall>x \<in> set (btree_insert ?name v m). x = (?name, v) \<or> x \<in> set m" for v
    using btree_insert_keys [of ?name v m] by blast
  with assms have "\<not> is_sensitive_header ?name \<Longrightarrow> \<forall>x \<in> set (btree_insert ?name v m). \<not> is_sensitive_header (fst x)" for v
    by (metis fst_conv)
  with assms show ?thesis by (simp add: keep_header_def Let_def split: option.split)
qed

lemma kept_headers_clean:
  "\<forall>x \<in> set m. \<not> is_sensitive_header (fst x) \<Longrightarrow> \<forall>x \<in> set (foldl keep_header m hs). \<not> is_sensitive_header (fst x)"
proof (induction hs arbitrary: m)
  case (Cons h hs)
  show ?case unfolding foldl_Cons by (rule Cons.IH [OF keep_header_clean [OF Cons.prems]])
qed simp

lemma sanitized_headers_clean:
  assumes "(name, v) \<in> set (rx_sanitized_headers (request_context A parts))"
  shows "\<not> is_sensitive_header name"
  using assms kept_headers_clean [of "[]" "pt_headers parts"]
  by (force simp: request_context_def sanitize_headers_def)

section \<open>The cross-site check\<close>

text \<open>A state-changing request the browser itself says came from elsewhere reaches no handler unless its origin is listed.\<close>

lemma cross_site_refused:
  assumes "\<not> is_safe_method (pt_method parts)" and "request_header parts ''sec-fetch-site'' = Some site"
    and "site \<notin> set SAFE_FETCH_SITES"
    and "case request_header parts ''origin'' of None \<Rightarrow> True
      | Some origin \<Rightarrow> \<forall>allowed \<in> set (rk_trusted_origins (st_cookies S)). \<not> eq_ignore_ascii_case allowed origin"
  shows "enforce_trusted_origin S parts next_layer s = (Inl AuthError.UntrustedOrigin, s)"
  using assms by (auto simp: enforce_trusted_origin_def origin_allowed_def list_ex_iff split: option.splits)

section \<open>Guards\<close>

lemma verified_claims_Inr:
  assumes "verified_dashboard_claims S parts s = (Inr (claims, parts'), t)"
  shows "pt_claims parts' = Some claims"
    and "pt_claims parts = Some claims \<and> parts' = parts \<and> t = s \<or>
      (\<exists>token h. source_access_token parts S = Some token \<and>
        verify_access (en_tokens (st_engine S)) token (es_host s) = (Inr claims, h) \<and> parts' = parts\<lparr>pt_claims := Some claims\<rparr>)"
  using assms
  by (auto simp: verified_dashboard_claims_def rbind_eq_Inr verify_access_token_def on_host_def split: option.splits prod.splits)

text \<open>A guard stacked on another neither verifies again nor sees other claims.\<close>

lemma stacked_guard:
  assumes "verified_dashboard_claims S parts s = (Inr (claims, parts'), t)"
  shows "verified_dashboard_claims S parts' t = (Inr (claims, parts'), t)"
  using verified_claims_Inr(1) [OF assms] by (simp add: verified_dashboard_claims_def)

lemma self_or_admin_Inr:
  assumes "self_or_admin name S parts s = (Inr (claims, parts'), t)"
  shows "verified_dashboard_claims S parts s = (Inr (claims, parts'), t) \<and>
    (pt_user_id parts' = Some (dc_sub claims) \<or> pt_user_id parts' \<noteq> None \<and> engine_role_satisfies (st_engine S) (dc_role claims) name)"
  using assms by (auto simp: self_or_admin_def rbind_eq_Inr Let_def split: option.splits if_splits)

lemma mfa_satisfied_Inr:
  assumes "mfa_satisfied S parts s = (Inr (claims, parts'), t)"
  shows "verified_dashboard_claims S parts s = (Inr (claims, parts'), t) \<and> (dc_mfa_enabled claims \<longrightarrow> dc_mfa_verified claims)"
  using assms by (auto simp: mfa_satisfied_def rbind_eq_Inr split: if_splits)

end
