(* ===== verification/Spec2Isabelle.thy ===== *)
theory Spec2Isabelle
  imports Login_Properties Mfa_Properties Oauth_Properties Api_Key Breach_Lookup Http_Properties
begin

text \<open>
  A model of the authentication library \<^verbatim>\<open>bymax-auth\<close> and the theorems that make it correct. The paths
  below are those of \<^verbatim>\<open>crates/\<close> in the repository: \<open>redis\<close>, \<open>core\<close>, \<open>crypto\<close>, \<open>jwt\<close> and \<open>types\<close> stand for
  \<^verbatim>\<open>bymax-auth-redis/src\<close> and so on.

  \<^bold>\<open>The program.\<close> An application builds one engine from a configuration, its user repositories, its hooks, a
  mail provider and stores over Redis. The engine answers the flows of two identity planes, tenant
  users (the dashboard) and platform administrators: login, refresh, logout, registration, e-mail
  verification, password reset and change, e-mail change, invitations, multi-factor enrolment and
  challenge, and sign-in through a provider. Sessions are refresh tokens kept by their digest in Redis;
  access tokens are signed and carry the generation of the account, so that advancing the generation
  ends all of them. What must be atomic runs as a Lua script or as one command.

  \<^bold>\<open>How it is modelled.\<close>
  \<^item> A store operation is a computation \<open>('r, 'a) store_io\<close> over a client: the server state \<open>'r\<close> and a
    schedule of network events. Each use of the connection takes the next event: it works, it is
    refused, or the server acts and the reply is lost. A theorem about any schedule holds whatever the
    network does; a theorem that promises progress assumes the empty schedule, which works throughout.
  \<^item> Redis itself is a record of commands with the locale \<open>redis_service\<close>: its laws say what each
    documented command does to the key space (\<open>rview\<close>, a map from keys to values and times to live). A Lua
    script is one step, written command by command as in the script. Time passes by \<open>r_tick\<close>.
  \<^item> A service operation runs over a \<open>host\<close>: the client, a stream of random bytes, a stream of clock
    readings, and the list of detached tasks it spawned. A flow (\<open>flow_io\<close>) runs over the host and the
    application's own state \<open>'w\<close>, which repositories, hooks and providers may change and in which they may fail.
  \<^item> Errors are values: \<open>RedisStoreError\<close>, \<open>AuthError\<close>, \<open>CryptoError\<close> and their like, in a sum, with the source's
    conversions between them.
  \<^item> SHA-256, HMAC, AES-GCM, scrypt and Argon2, base64 and base32, JSON, the Unicode tables and the HTTP
    client are not code of the repository. They are fields of records (\<open>token_libs\<close>, \<open>kdf_lib\<close>, \<open>totp_lib\<close>,
    \<open>aead_lib\<close>, \<open>engine_libs\<close>, \<open>HttpClient\<close>); what a theorem needs of them is a locale on that record
    (\<open>jws_service\<close>, \<open>kdf_service\<close>, \<open>totp_service\<close>, \<open>aead_service\<close>, \<open>json_round_trip\<close>, \<open>value_round_trip\<close>,
    \<open>session_codec\<close>), and each is interpreted on concrete functions, so that the laws are known to be consistent.
    No theorem assumes a digest to be injective.
  \<^item> A locale is also the contract between layers: \<open>store_service\<close> (the session store on a lawful Redis),
    \<open>one_shot\<close> and \<open>lease\<close> (values taken once, marks held for a time), \<open>token_service\<close> (the token manager),
    \<open>throttle\<close> (the failure counter), \<open>one_store\<close>, \<open>mfa_service\<close> and \<open>enrolment\<close> (the multi-factor service). They are
    interpreted on the model's operations over the in-memory server \<open>mem_redis\<close>, and on the engine that
    \<^const>\<open>build\<close> returns for a sample configuration.
\<close>

section \<open>Theories\<close>

text \<open>
  \<^bold>\<open>Foundations.\<close> \<open>Prelude\<close>: the error monad, strings and shared rules. \<open>Error_Types\<close>: \<^verbatim>\<open>types/error.rs\<close>, the catalogue
  of codes and the wire envelope. \<open>Redis_Service\<close>: the contract of Redis, the in-memory server, the client and
  its network (\<^verbatim>\<open>redis/error.rs\<close>, \<^verbatim>\<open>pool.rs\<close>). \<open>Redis_Keys\<close>: \<^verbatim>\<open>redis/keys.rs\<close>, with injectivity of keys.

  \<^bold>\<open>Stores.\<close> \<open>Session_Store\<close>: \<^verbatim>\<open>redis/stores/session.rs\<close>, \<^verbatim>\<open>session_listing.rs\<close> and their scripts; \<open>Field_Codec\<close>
  a concrete codec; \<open>Session_Scripts\<close> what the scripts do to the key space; \<open>Session_Index\<close> the inductive relation of
  the store's steps (logins, rotations, recoveries, sweeps, expiry, in any interleaving) and its
  invariant; \<open>Session_Properties\<close> the theorems: a sweep ends every session and keeps them ended, a refresh token
  rotates once, the rotation's answer is the one its specification gives on each branch, revocation is
  owned, listings are exact, a revoked family stays revoked. \<open>Counter_Stores\<close>: one-time passwords, failure
  counters and rate limits (refinement to a window, bound on guesses). \<open>Single_Use\<close>: reset tokens,
  invitations, OAuth state, tickets and the status cache (taken at most once, whatever else runs).
  \<open>Mfa_Store\<close>: challenge markers, replay markers, recovery claims and the transition lock.

  \<^bold>\<open>Tokens.\<close> \<open>Jwt\<close>: \<^verbatim>\<open>jwt/hs256.rs\<close> and the claims of \<^verbatim>\<open>types/claims.rs\<close> (round trip, authenticity). \<open>Domain_Types\<close>,
  \<open>Service_Core\<close>, \<open>Session_Metadata\<close>: \<^verbatim>\<open>types/domain.rs\<close>, \<^verbatim>\<open>results.rs\<close>, \<^verbatim>\<open>core/services/mod.rs\<close> and the metadata of
  \<^verbatim>\<open>services/session.rs\<close>. \<open>Token_Manager\<close>: \<^verbatim>\<open>core/services/token_manager.rs\<close>; \<open>Token_Epoch\<close>, \<open>Token_Properties\<close>,
  \<open>Token_Rotation\<close>, \<open>Rotation_Properties\<close> show what an issued token is honoured for and until when, that advancing
  the generation ends it, that a refresh inherits and is capped by the lineage's lifetime, that a replay ends
  the family, and that a refresh never counts as a fresh proof of identity.

  \<^bold>\<open>Services.\<close> \<open>Normalize\<close>, \<open>Password_Hash\<close> (\<^verbatim>\<open>crypto/password\<close>), \<open>Auth_Config\<close> (\<^verbatim>\<open>core/config\<close>, every validation rule in
  order), \<open>Collaborators\<close> (the traits the host implements), \<open>Auth_Services\<close> (passwords, one-time passwords,
  brute force), \<open>Common_Passwords\<close>, \<open>Session_Service\<close>, \<open>Platform_Auth\<close>, \<open>Totp\<close> (\<^verbatim>\<open>crypto/totp.rs\<close>, \<^verbatim>\<open>aead.rs\<close>),
  \<open>Mfa_Service\<close> and \<open>Mfa_Flows\<close> (\<^verbatim>\<open>core/services/mfa\<close>). \<open>Service_Properties\<close> and \<open>Session_Service_Properties\<close> hold
  their theorems: a fresh hash verifies, an accepted cost may never verify, drawing a code returns, the
  session cap holds, signing out the others spares the current one.

  \<^bold>\<open>Flows.\<close> \<open>Engine\<close> (\<^verbatim>\<open>core/engine\<close>), \<open>Login_Flow\<close>, \<open>Session_Flows\<close>, \<open>Account_Gates\<close>, \<open>Adapter_Api\<close>, \<open>Registration\<close>,
  \<open>Password_Reset\<close>, \<open>Email_Change\<close>, \<open>Invitations\<close>, \<open>Oauth\<close> and \<open>Google_Provider\<close> follow the files of
  \<^verbatim>\<open>core/services\<close> and \<^verbatim>\<open>core/providers\<close> of those names. \<open>Looping\<close> is the composition of steps that may not return.
  \<open>Flow_Rules\<close> takes answered runs apart and lifts the throttle; \<open>Sample_Engine\<close> and \<open>Sample_Mfa\<close> are one
  concrete deployment. \<open>Login_Properties\<close>: who a login is granted to, how far guessing goes, that refusals
  look alike. \<open>Mfa_Properties\<close>: who passes the second factor, that a code is spent as long as it is valid,
  that removing the factor ends what it protected, that an enrolment is stored sealed and resumed, that the constant-time scan
  is a first match. \<open>Oauth_Properties\<close>: who a provider callback signs in, that an unbound callback touches
  nothing, that the queries of the provider read back. \<open>Breach_Lookup\<close> (\<^verbatim>\<open>core/traits/breach.rs\<close>): the range query
  reveals five digits of a digest, fails open and is exact on the service's format. \<open>Api_Key\<close>
  (\<^verbatim>\<open>crypto/api_key.rs\<close>): a key parses back to its parts and to nothing else, and a digest matches only itself.

  \<^bold>\<open>HTTP.\<close> \<open>Http_Guards\<close> is what the adapter \<^verbatim>\<open>bymax-auth-axum\<close> decides before a handler runs: the client's address
  (\<^verbatim>\<open>client_ip.rs\<close>), the context and the token sources (\<^verbatim>\<open>routes/mod.rs\<close>, \<^verbatim>\<open>extractors/mod.rs\<close>), the guards
  (\<^verbatim>\<open>extractors\<close>), the cross-site check (\<^verbatim>\<open>trusted_origin.rs\<close>), the request limits (\<^verbatim>\<open>rate_limit.rs\<close>,
  \<^verbatim>\<open>shared_limit.rs\<close>) and the form of a refusal (\<^verbatim>\<open>response.rs\<close>, \<^verbatim>\<open>transport.rs\<close>). \<open>Http_Properties\<close>: a client
  cannot choose its address through what it writes in front of its proxies, as long as the lines those write
  to are readable, and can when one is not; no secret header reaches a hook; a cross-site request from no
  listed origin reaches no handler; and what each guard lets through.
\<close>

section \<open>Bounds, termination and what is left out\<close>

text \<open>
  \<^bold>\<open>Bounds.\<close> Tokens, digests and TOTP counters are words of 8, 32 and 64 bits; counters of the store are
  natural numbers and the theorems that increment one say below which bound (the 63 bits of a Redis integer).
  Times to live are positive (\<open>ttl_ok\<close>). Instants are nanoseconds since the epoch as integers, with the
  saturating and checked arithmetic of the source written out; \<open>instant_ok\<close> bounds them to the years the
  formatter accepts.

  \<^bold>\<open>Termination.\<close> There is no fuel. Loops are recursion on data or on a measure that decreases, but for one: drawing a digit
  by rejection may run forever on an unlucky generator and is a \<open>partial_function\<close> into \<open>option\<close>, proved to return on every
  stream that holds enough small bytes; the flows that draw codes inherit that type. The loop that claims an
  invitation slot makes a fixed number of attempts.

  \<^bold>\<open>Not modelled.\<close>
  \<^item> Log lines, redacted debug output, zeroization and the timing floors have no counterpart: they change no
    answer and no state. That the model cannot speak of time spent is why \<open>refusals_alike\<close> is about answers
    and states only.
  \<^item> A request runs alone between two store operations of another one only where the theorem has a
    step relation or an event list (sessions, tokens, codes, claims, locks); the semaphore that bounds parallel
    key derivations is its permit count.
  \<^item> Detached tasks are recorded in the list of notifications and not run, the rehash after a login excepted,
    which is a definition of its own.
  \<^item> Of the HTTP adapter, the handlers, bodies and their validation, cookies, the WebSocket upgrade and the
    in-process limiter; the HTTP client (\<^verbatim>\<open>bymax-auth-client\<close>, \<^verbatim>\<open>providers/reqwest_client.rs\<close>), the TypeScript
    packages and the WebAssembly binding: routing, decoding and delivery of frameworks whose code is not in
    the repository.
  \<^item> The default mail templates, the in-memory stores for tests, and the wrappers around external digests
    (\<^verbatim>\<open>crypto/mac.rs\<close>, \<^verbatim>\<open>compare.rs\<close>).
\<close>

end
